(* ===== verification/Prelude.thy ===== *)
theory Prelude
  imports Complex_Main "HOL-Library.AList" "HOL-Library.Sublist" "HOL-Library.Word"
begin

text \<open>
  What the components share: JavaScript's \<open>Map\<close> (an association list in insertion order),
  arrays (stable sort, find), strings (a character of HOL's \<open>string\<close> stands for one UTF-16
  code unit below 256, so texts are Latin-1), exceptions as \<open>error + 'a\<close>, and the lemmas
  about them that the component proofs use through the simplifier and the collections below.
\<close>

named_theorems js_map \<open>facts about insertion-ordered maps\<close>
named_theorems js_str \<open>facts about strings\<close>

section \<open>Maps\<close>

text \<open>
  \<open>Map.prototype.set\<close> overwrites the value of a present key in place and appends a new key at
  the end; this is \<^const>\<open>AList.update\<close>. \<open>get\<close> is \<^const>\<open>map_of\<close>, \<open>delete\<close> is \<^const>\<open>AList.delete\<close>
  and \<open>values()\<close> is the second components in that order.
\<close>

type_synonym ('k, 'v) jsmap = "('k \<times> 'v) list"

abbreviation map_get :: "('k, 'v) jsmap \<Rightarrow> 'k \<Rightarrow> 'v option" where
  "map_get m k \<equiv> map_of m k"

abbreviation map_set :: "'k \<Rightarrow> 'v \<Rightarrow> ('k, 'v) jsmap \<Rightarrow> ('k, 'v) jsmap" where
  "map_set k v m \<equiv> AList.update k v m"

abbreviation map_del :: "'k \<Rightarrow> ('k, 'v) jsmap \<Rightarrow> ('k, 'v) jsmap" where
  "map_del k m \<equiv> AList.delete k m"

abbreviation map_keys :: "('k, 'v) jsmap \<Rightarrow> 'k list" where
  "map_keys m \<equiv> map fst m"

abbreviation map_values :: "('k, 'v) jsmap \<Rightarrow> 'v list" where
  "map_values m \<equiv> map snd m"

definition map_has :: "('k, 'v) jsmap \<Rightarrow> 'k \<Rightarrow> bool" where
  "map_has m k \<longleftrightarrow> map_of m k \<noteq> None"

text \<open>A \<open>Map\<close> holds each key once; every operation keeps that.\<close>

definition map_ok :: "('k, 'v) jsmap \<Rightarrow> bool" where
  "map_ok m \<longleftrightarrow> distinct (map_keys m)"

lemma map_ok_Nil [simp]: "map_ok []"
  by (simp add: map_ok_def)

lemma map_ok_Cons [simp]: "map_ok ((k, v) # m) \<longleftrightarrow> k \<notin> set (map_keys m) \<and> map_ok m"
  by (simp add: map_ok_def)

lemma map_ok_set [simp, intro]: "map_ok m \<Longrightarrow> map_ok (map_set k v m)"
  by (simp add: map_ok_def distinct_update)

lemma map_ok_del [simp, intro]: "map_ok m \<Longrightarrow> map_ok (map_del k m)"
  by (simp add: map_ok_def distinct_delete)

lemma map_get_set [simp, js_map]: "map_get (map_set k v m) j = (if j = k then Some v else map_get m j)"
  by (simp add: update_conv)

lemma map_get_del [simp, js_map]: "map_get (map_del k m) j = (if j = k then None else map_get m j)"
  by (simp add: delete_conv)

lemma keys_set [simp, js_map]: "fst ` set (map_set k v m) = insert k (fst ` set m)"
  by (induction m) auto

lemma map_keys_set: "set (map_keys (map_set k v m)) = insert k (set (map_keys m))"
  by simp

lemma map_has_iff [js_map]: "map_has m k \<longleftrightarrow> k \<in> set (map_keys m)"
  by (auto simp: map_has_def map_of_eq_None_iff)

lemma map_get_None_iff [js_map]: "map_get m k = None \<longleftrightarrow> k \<notin> set (map_keys m)"
  by (simp add: map_of_eq_None_iff)

lemma map_get_mem: "map_get m k = Some v \<Longrightarrow> (k, v) \<in> set m"
  by (rule map_of_SomeD)

lemma map_get_value: "map_get m k = Some v \<Longrightarrow> v \<in> set (map_values m)"
  by (force dest: map_of_SomeD)

lemma map_mem_get: "map_ok m \<Longrightarrow> (k, v) \<in> set m \<Longrightarrow> map_get m k = Some v"
  by (simp add: map_ok_def)

lemma map_value_key: "v \<in> set (map_values m) \<Longrightarrow> \<exists>k. (k, v) \<in> set m"
  by auto

lemma map_keys_set_present: "k \<in> set (map_keys m) \<Longrightarrow> map_keys (map_set k v m) = map_keys m"
  by (induction m) auto

lemma map_keys_set_absent: "k \<notin> set (map_keys m) \<Longrightarrow> map_set k v m = m @ [(k, v)]"
  by (induction m) auto

lemma map_keys_del: "set (map_keys (map_del k m)) = set (map_keys m) - {k}"
  by (simp add: delete_keys)

text \<open>Inserting a list of entries one after another, as \<open>xs.forEach(x => m.set(f x, g x))\<close>.\<close>

fun map_set_all :: "('a \<Rightarrow> 'k) \<Rightarrow> ('a \<Rightarrow> 'v) \<Rightarrow> 'a list \<Rightarrow> ('k, 'v) jsmap \<Rightarrow> ('k, 'v) jsmap" where
  "map_set_all f g [] m = m"
| "map_set_all f g (x # xs) m = map_set_all f g xs (map_set (f x) (g x) m)"

lemma map_ok_set_all [simp, intro]: "map_ok m \<Longrightarrow> map_ok (map_set_all f g xs m)"
  by (induction xs arbitrary: m) auto

lemma map_keys_set_all [js_map]:
  "set (map_keys (map_set_all f g xs m)) = set (map_keys m) \<union> f ` set xs"
  by (induction xs arbitrary: m) auto

lemma map_get_set_all_other: "k \<notin> f ` set xs \<Longrightarrow> map_get (map_set_all f g xs m) k = map_get m k"
  by (induction xs arbitrary: m) auto

lemma map_get_set_all_mem:
  "map_get (map_set_all f g xs m) k = Some v \<Longrightarrow> (\<exists>x \<in> set xs. f x = k \<and> g x = v) \<or> map_get m k = Some v"
proof (induction xs arbitrary: m)
  case Nil
  then show ?case by simp
next
  case (Cons x xs)
  from Cons.IH [of "map_set (f x) (g x) m"] Cons.prems
  show ?case by (auto split: if_splits)
qed

lemma map_get_set_all_in:
  assumes "x \<in> set xs" and "inj_on f (set xs)"
  shows "map_get (map_set_all f g xs m) (f x) = Some (g x)"
  using assms
proof (induction xs arbitrary: m)
  case Nil
  then show ?case by simp
next
  case (Cons y ys)
  show ?case
  proof (cases "x \<in> set ys")
    case True
    with Cons show ?thesis by simp
  next
    case False
    with Cons.prems have "x = y" and "f x \<notin> f ` set ys" by (auto simp: inj_on_def)
    then show ?thesis by (simp add: map_get_set_all_other)
  qed
qed

section \<open>Arrays\<close>

text \<open>\<open>Array.prototype.find\<close> is \<^const>\<open>List.find\<close>; \<open>Array.prototype.sort\<close> with a numeric key
  is stable (ES2019), which is \<^const>\<open>sort_key\<close>.\<close>

lemma find_SomeD: "List.find P xs = Some x \<Longrightarrow> x \<in> set xs \<and> P x"
  by (auto simp: find_Some_iff)

lemma find_None_iff_all: "List.find P xs = None \<longleftrightarrow> (\<forall>x \<in> set xs. \<not> P x)"
  by (auto simp: find_None_iff)

lemma find_exists: "\<exists>x \<in> set xs. P x \<Longrightarrow> \<exists>y. List.find P xs = Some y"
  by (metis find_None_iff_all not_None_eq)

section \<open>Exceptions\<close>

text \<open>A computation that may throw: \<open>Inl\<close> the error, \<open>Inr\<close> the value.\<close>

fun bind_sum :: "'e + 'a \<Rightarrow> ('a \<Rightarrow> 'e + 'b) \<Rightarrow> 'e + 'b" where
  "bind_sum (Inl e) f = Inl e"
| "bind_sum (Inr x) f = f x"

fun map_sum_r :: "('a \<Rightarrow> 'b) \<Rightarrow> 'e + 'a \<Rightarrow> 'e + 'b" where
  "map_sum_r f (Inl e) = Inl e"
| "map_sum_r f (Inr x) = Inr (f x)"

text \<open>\<open>Array.prototype.map\<close> with a callback that may throw: the first error aborts it.\<close>

fun traverse :: "('a \<Rightarrow> 'e + 'b) \<Rightarrow> 'a list \<Rightarrow> 'e + 'b list" where
  "traverse f [] = Inr []"
| "traverse f (x # xs) =
     (case f x of Inl e \<Rightarrow> Inl e
      | Inr y \<Rightarrow> (case traverse f xs of Inl e \<Rightarrow> Inl e | Inr ys \<Rightarrow> Inr (y # ys)))"

lemma traverse_cong [fundef_cong]:
  "xs = ys \<Longrightarrow> (\<And>x. x \<in> set ys \<Longrightarrow> f x = g x) \<Longrightarrow> traverse f xs = traverse g ys"
proof (induction xs arbitrary: ys)
  case Nil
  then show ?case by simp
next
  case (Cons x xs)
  then have "traverse f xs = traverse g xs" and "f x = g x" by auto
  with Cons.prems(1) show ?case by (auto split: sum.split)
qed

lemma traverse_Inr:
  "(\<And>x. x \<in> set xs \<Longrightarrow> f x = Inr (g x)) \<Longrightarrow> traverse f xs = Inr (map g xs)"
  by (induction xs) auto

lemma traverse_ex:
  "(\<And>x. x \<in> set xs \<Longrightarrow> \<exists>y. f x = Inr y \<and> P x y) \<Longrightarrow>
   \<exists>ys. traverse f xs = Inr ys \<and> list_all2 P xs ys"
proof (induction xs)
  case Nil
  then show ?case by simp
next
  case (Cons x xs)
  from Cons.prems obtain y where "f x = Inr y" and "P x y" by auto
  moreover from Cons obtain ys where "traverse f xs = Inr ys" and "list_all2 P xs ys" by auto
  ultimately show ?case by simp
qed

lemma traverse_length: "traverse f xs = Inr ys \<Longrightarrow> length ys = length xs"
  by (induction xs arbitrary: ys) (auto split: sum.splits)

section \<open>Systems driven by events\<close>

text \<open>
  A store changes only through its operations: an event (with what the environment answers) is
  applied to a state. What every step keeps, every run keeps.
\<close>

locale invariant_system =
  fixes step :: "'e \<Rightarrow> 's \<Rightarrow> 's" and inv :: "'s \<Rightarrow> bool"
  assumes inv_step: "inv s \<Longrightarrow> inv (step e s)"
begin

definition run :: "'e list \<Rightarrow> 's \<Rightarrow> 's" where
  "run es s = fold step es s"

lemma run_Nil [simp]: "run [] s = s"
  by (simp add: run_def)

lemma run_Cons [simp]: "run (e # es) s = run es (step e s)"
  by (simp add: run_def)

lemma run_append: "run (es @ es') s = run es' (run es s)"
  by (simp add: run_def)

lemma inv_run: "inv s \<Longrightarrow> inv (run es s)"
  by (induction es arbitrary: s) (simp_all add: inv_step)

lemma inv_prefix: "inv s \<Longrightarrow> inv (run (take n es) s)"
  by (rule inv_run)

end

section \<open>Encodings\<close>

text \<open>What is written can be read back: the contract of numerals, identifiers, base64 and UTF-8.\<close>

locale codec =
  fixes enc :: "'a \<Rightarrow> 'b" and dec :: "'b \<Rightarrow> 'a option"
  assumes dec_enc: "dec (enc x) = Some x"
begin

lemma enc_inj [simp]: "enc x = enc y \<longleftrightarrow> x = y"
  using dec_enc by (metis option.inject)

lemma inj_enc: "inj enc"
  by (rule injI) simp

end

end
