(* ===== verification/Js_Strings.thy ===== *)
theory Js_Strings
  imports Prelude
begin

text \<open>
  The string methods the sources call, on texts whose UTF-16 code units are below 256
  (HOL's \<open>char\<close>): \<open>trim\<close>, \<open>toLowerCase\<close>, \<open>indexOf\<close>, \<open>includes\<close>, \<open>lastIndexOf\<close>,
  \<open>substring\<close>, decimal rendering of numbers and \<open>BigInt\<close>'s parser.
\<close>

section \<open>Whitespace and case\<close>

definition is_ws :: "char \<Rightarrow> bool" where
  "is_ws c \<longleftrightarrow> of_char c \<in> {9, 10, 11, 12, 13, 32, 160 :: nat}"

definition trim_start :: "string \<Rightarrow> string" where
  "trim_start s = dropWhile is_ws s"

definition trim :: "string \<Rightarrow> string" where
  "trim s = rev (dropWhile is_ws (rev (dropWhile is_ws s)))"

definition lower_char :: "char \<Rightarrow> char" where
  "lower_char c =
     (let n = (of_char c :: nat) in
      if 65 \<le> n \<and> n \<le> 90 \<or> 192 \<le> n \<and> n \<le> 222 \<and> n \<noteq> 215 then char_of (n + 32) else c)"

definition to_lower :: "string \<Rightarrow> string" where
  "to_lower s = map lower_char s"

lemma to_lower_length [simp]: "length (to_lower s) = length s"
  by (simp add: to_lower_def)

lemma to_lower_Nil [simp]: "to_lower [] = []"
  by (simp add: to_lower_def)

lemma of_char_lt_256: "(of_char c :: nat) < 256"
  by (rule nat_of_char_less_256)

lemma lower_char_idem: "lower_char (lower_char c) = lower_char c"
proof -
  let ?n = "of_char c :: nat"
  show ?thesis
  proof (cases "65 \<le> ?n \<and> ?n \<le> 90 \<or> 192 \<le> ?n \<and> ?n \<le> 222 \<and> ?n \<noteq> 215")
    case True
    then have "lower_char c = char_of (?n + 32)" by (simp add: lower_char_def Let_def)
    moreover have "of_char (char_of (?n + 32) :: char) = ?n + 32" using True by auto
    ultimately show ?thesis using True by (simp add: lower_char_def Let_def) linarith
  next
    case False
    then have "lower_char c = c" by (simp only: lower_char_def Let_def if_False)
    then show ?thesis by simp
  qed
qed

lemma to_lower_idem: "to_lower (to_lower s) = to_lower s"
  by (simp add: to_lower_def lower_char_idem)

lemma trim_Nil [simp]: "trim [] = []"
  by (simp add: trim_def)

lemma trim_length: "length (trim s) \<le> length s"
  by (simp add: trim_def) (metis length_dropWhile_le length_rev order_trans)

lemma dropWhile_Nil_hd: "dropWhile P xs \<noteq> [] \<Longrightarrow> \<not> P (hd (dropWhile P xs))"
  by (rule hd_dropWhile)

lemma trim_last_not_ws: "trim s \<noteq> [] \<Longrightarrow> \<not> is_ws (last (trim s))"
  by (simp add: trim_def last_rev hd_dropWhile)

lemma dropWhile_rev_prefix: "prefix (rev (dropWhile P (rev xs))) xs"
proof -
  have "xs = rev (dropWhile P (rev xs)) @ rev (takeWhile P (rev xs))"
    by (metis rev_append rev_rev_ident takeWhile_dropWhile_id)
  then show ?thesis by (metis prefixI)
qed

lemma trim_hd_not_ws:
  assumes "trim s \<noteq> []"
  shows "\<not> is_ws (hd (trim s))"
proof -
  let ?d = "dropWhile is_ws s"
  have pre: "prefix (trim s) ?d" unfolding trim_def by (rule dropWhile_rev_prefix)
  then obtain zs where d: "?d = trim s @ zs" by (auto simp: prefix_def)
  with assms have "?d \<noteq> []" by (metis append_is_Nil_conv)
  then have "\<not> is_ws (hd ?d)" by (rule hd_dropWhile)
  with assms d show ?thesis by simp
qed

lemma trim_idem: "trim (trim s) = trim s"
proof (cases "trim s = []")
  case True
  then show ?thesis by simp
next
  case False
  then have a: "dropWhile is_ws (trim s) = trim s"
    using trim_hd_not_ws [OF False] by (cases "trim s") auto
  have "dropWhile is_ws (rev (trim s)) = rev (trim s)"
    using trim_last_not_ws [OF False] False by (cases "trim s" rule: rev_cases) auto
  with a show ?thesis by (simp add: trim_def [of "trim s"])
qed

lemma trim_no_ws: "\<forall>c \<in> set s. \<not> is_ws c \<Longrightarrow> trim s = s"
proof -
  assume a: "\<forall>c \<in> set s. \<not> is_ws c"
  have d: "dropWhile is_ws xs = xs" if "\<forall>c \<in> set xs. \<not> is_ws c" for xs
    using that by (cases xs) auto
  show ?thesis by (simp add: trim_def d a)
qed

section \<open>Searching and slicing\<close>

fun index_of :: "string \<Rightarrow> string \<Rightarrow> nat option" where
  "index_of p [] = (if p = [] then Some 0 else None)"
| "index_of p (c # cs) = (if prefix p (c # cs) then Some 0 else map_option Suc (index_of p cs))"

definition str_includes :: "string \<Rightarrow> string \<Rightarrow> bool" where
  "str_includes s p \<longleftrightarrow> index_of p s \<noteq> None"

lemma index_of_Some: "index_of p s = Some i \<Longrightarrow> i \<le> length s \<and> prefix p (drop i s)"
  by (induction p s arbitrary: i rule: index_of.induct) (auto split: if_splits)

lemma str_includes_sublist: "str_includes s p \<longleftrightarrow> sublist p s"
proof (induction p s rule: index_of.induct)
  case (1 p)
  then show ?case by (simp add: str_includes_def)
next
  case (2 p c cs)
  then show ?case by (auto simp: str_includes_def sublist_Cons_right)
qed

fun last_index_of :: "char \<Rightarrow> string \<Rightarrow> nat option" where
  "last_index_of ch [] = None"
| "last_index_of ch (c # cs) =
     (case last_index_of ch cs of Some i \<Rightarrow> Some (Suc i) | None \<Rightarrow> if c = ch then Some 0 else None)"

lemma last_index_of_Some:
  "last_index_of ch s = Some i \<Longrightarrow> i < length s \<and> s ! i = ch \<and> ch \<notin> set (drop (Suc i) s)"
proof (induction ch s arbitrary: i rule: last_index_of.induct)
  case (1 ch)
  then show ?case by simp
next
  case (2 ch c cs)
  show ?case
  proof (cases "last_index_of ch cs")
    case None
    have "ch \<notin> set cs" using None
    proof (induction cs)
      case (Cons a as)
      then show ?case by (auto split: option.splits if_splits)
    qed simp
    with None "2.prems" show ?thesis by (auto split: if_splits)
  next
    case (Some j)
    with 2 show ?thesis by auto
  qed
qed

lemma last_index_of_None: "last_index_of ch s = None \<longleftrightarrow> ch \<notin> set s"
  by (induction ch s rule: last_index_of.induct) (auto split: option.splits)

lemma last_index_of_append:
  "last_index_of ch (xs @ ys) =
     (case last_index_of ch ys of Some i \<Rightarrow> Some (length xs + i) | None \<Rightarrow> last_index_of ch xs)"
  by (induction ch xs rule: last_index_of.induct) (auto split: option.splits)

text \<open>\<open>s.substring(i, j)\<close> for non-negative indices: the ends are clamped and swapped if needed.\<close>

definition substring :: "nat \<Rightarrow> nat \<Rightarrow> string \<Rightarrow> string" where
  "substring i j s = (let a = min i j; b = max i j in take (b - a) (drop a s))"

lemma substring_length: "length (substring i j s) \<le> max i j - min i j"
  by (simp add: substring_def Let_def)

lemma substring_0 [simp]: "substring 0 n s = take n s"
  by (simp add: substring_def)

text \<open>Splitting at each occurrence of one character, \<open>s.split("c")\<close>.\<close>

fun split_char :: "char \<Rightarrow> string \<Rightarrow> string list" where
  "split_char ch [] = [[]]"
| "split_char ch (c # cs) =
     (if c = ch then [] # split_char ch cs
      else (case split_char ch cs of [] \<Rightarrow> [[c]] | w # ws \<Rightarrow> (c # w) # ws))"

fun join :: "string \<Rightarrow> string list \<Rightarrow> string" where
  "join sep [] = []"
| "join sep [x] = x"
| "join sep (x # y # ys) = x @ sep @ join sep (y # ys)"

section \<open>Decimal numbers\<close>

fun digit_char :: "nat \<Rightarrow> char" where
  "digit_char d = char_of (48 + d)"

fun show_nat :: "nat \<Rightarrow> string" where
  "show_nat n = (if n < 10 then [digit_char n] else show_nat (n div 10) @ [digit_char (n mod 10)])"

declare show_nat.simps [simp del]

definition show_int :: "int \<Rightarrow> string" where
  "show_int i = (if i < 0 then ''-'' @ show_nat (nat (- i)) else show_nat (nat i))"

text \<open>The value of a digit in a radix, and of a digit text (\<open>None\<close> on any other character).\<close>

definition digit_val :: "nat \<Rightarrow> char \<Rightarrow> nat option" where
  "digit_val radix c =
     (let n = (of_char c :: nat);
          d = (if 48 \<le> n \<and> n \<le> 57 then Some (n - 48)
               else if 97 \<le> n \<and> n \<le> 122 then Some (n - 87)
               else if 65 \<le> n \<and> n \<le> 90 then Some (n - 55) else None)
      in case d of Some v \<Rightarrow> if v < radix then Some v else None | None \<Rightarrow> None)"

fun parse_digits :: "nat \<Rightarrow> nat \<Rightarrow> string \<Rightarrow> nat option" where
  "parse_digits radix acc [] = Some acc"
| "parse_digits radix acc (c # cs) =
     (case digit_val radix c of None \<Rightarrow> None | Some d \<Rightarrow> parse_digits radix (acc * radix + d) cs)"

definition parse_nat :: "nat \<Rightarrow> string \<Rightarrow> nat option" where
  "parse_nat radix s = (if s = [] then None else parse_digits radix 0 s)"

text \<open>
  \<open>BigInt(text)\<close> (ECMAScript StringToBigInt): surrounding whitespace is dropped, the empty text is
  0, a sign is allowed on decimals only, and \<open>0x\<close>, \<open>0o\<close>, \<open>0b\<close> select another radix. Any other
  text throws a SyntaxError (\<open>None\<close>).
\<close>

definition parse_bigint :: "string \<Rightarrow> int option" where
  "parse_bigint s =
     (let t = trim s in
      if t = [] then Some 0
      else if prefix ''0x'' t \<or> prefix ''0X'' t then map_option int (parse_nat 16 (drop 2 t))
      else if prefix ''0o'' t \<or> prefix ''0O'' t then map_option int (parse_nat 8 (drop 2 t))
      else if prefix ''0b'' t \<or> prefix ''0B'' t then map_option int (parse_nat 2 (drop 2 t))
      else if prefix ''-'' t then map_option (\<lambda>n. - int n) (parse_nat 10 (tl t))
      else if prefix ''+'' t then map_option int (parse_nat 10 (tl t))
      else map_option int (parse_nat 10 t))"

lemma digit_char_code [simp]: "d < 10 \<Longrightarrow> (of_char (digit_char d) :: nat) = 48 + d"
  by simp

lemma digit_val_digit_char [simp]: "d < 10 \<Longrightarrow> digit_val 10 (digit_char d) = Some d"
  by (simp add: digit_val_def Let_def del: digit_char.simps)

lemma show_nat_not_Nil [simp]: "show_nat n \<noteq> []"
  by (subst show_nat.simps) simp

lemma show_nat_digits: "c \<in> set (show_nat n) \<Longrightarrow> \<exists>d < 10. c = digit_char d"
proof (induction n rule: show_nat.induct)
  case (1 n)
  show ?case
  proof (cases "n < 10")
    case True
    with 1 show ?thesis by (subst (asm) show_nat.simps) auto
  next
    case False
    with "1.prems" have "c \<in> set (show_nat (n div 10)) \<or> c = digit_char (n mod 10)"
      by (subst (asm) show_nat.simps) auto
    moreover have "n mod 10 < 10" by simp
    ultimately show ?thesis using "1.IH" [OF False] by blast
  qed
qed

lemma parse_digits_append:
  "parse_digits r a (xs @ ys) = (case parse_digits r a xs of None \<Rightarrow> None | Some b \<Rightarrow> parse_digits r b ys)"
  by (induction r a xs rule: parse_digits.induct) (auto split: option.splits)

lemma parse_show_nat_acc: "parse_digits 10 0 (show_nat n) = Some n"
proof (induction n rule: show_nat.induct)
  case (1 n)
  show ?case
  proof (cases "n < 10")
    case True
    then show ?thesis by (subst show_nat.simps) (simp del: digit_char.simps)
  next
    case False
    with 1 have "parse_digits 10 0 (show_nat (n div 10)) = Some (n div 10)" by blast
    with False show ?thesis
      by (subst show_nat.simps) (simp add: parse_digits_append del: digit_char.simps)
  qed
qed

lemma parse_nat_show_nat: "parse_nat 10 (show_nat n) = Some n"
  by (simp add: parse_nat_def parse_show_nat_acc)

lemma show_nat_inj: "show_nat m = show_nat n \<longleftrightarrow> m = n"
  by (metis option.inject parse_nat_show_nat)

lemma digit_char_neq:
  assumes "d < 10" and "(of_char c :: nat) < 48 \<or> 57 < (of_char c :: nat)"
  shows "digit_char d \<noteq> c"
  using assms digit_char_code [OF assms(1)] by auto

lemma show_nat_no_char:
  assumes "(of_char c :: nat) < 48 \<or> 57 < (of_char c :: nat)"
  shows "c \<notin> set (show_nat n)"
  using show_nat_digits [of c n] digit_char_neq [OF _ assms] by blast

lemma show_nat_no_ws: "\<forall>c \<in> set (show_nat n). \<not> is_ws c"
proof
  fix c
  assume "c \<in> set (show_nat n)"
  then obtain d where "d < 10" and c: "c = digit_char d" using show_nat_digits by blast
  then have "(of_char c :: nat) = 48 + d" by (simp only: digit_char_code)
  with \<open>d < 10\<close> show "\<not> is_ws c" by (simp add: is_ws_def)
qed

lemma trim_show_nat [simp]: "trim (show_nat n) = show_nat n"
  by (rule trim_no_ws [OF show_nat_no_ws])

lemma prefix_show_nat: "c \<in> set p \<Longrightarrow> (of_char c :: nat) < 48 \<or> 57 < (of_char c :: nat) \<Longrightarrow>
  \<not> prefix p (show_nat n)"
  using show_nat_no_char [of c n] set_mono_prefix by blast

lemma parse_bigint_show_nat: "parse_bigint (show_nat n) = Some (int n)"
proof -
  have "\<not> prefix ''0x'' (show_nat n)" "\<not> prefix ''0X'' (show_nat n)"
    by (rule prefix_show_nat [of "CHR ''x''"]; simp) (rule prefix_show_nat [of "CHR ''X''"]; simp)
  moreover have "\<not> prefix ''0o'' (show_nat n)" "\<not> prefix ''0O'' (show_nat n)"
    by (rule prefix_show_nat [of "CHR ''o''"]; simp) (rule prefix_show_nat [of "CHR ''O''"]; simp)
  moreover have "\<not> prefix ''0b'' (show_nat n)" "\<not> prefix ''0B'' (show_nat n)"
    by (rule prefix_show_nat [of "CHR ''b''"]; simp) (rule prefix_show_nat [of "CHR ''B''"]; simp)
  moreover have "\<not> prefix ''-'' (show_nat n)" "\<not> prefix ''+'' (show_nat n)"
    by (rule prefix_show_nat [of "CHR ''-''"]; simp) (rule prefix_show_nat [of "CHR ''+''"]; simp)
  ultimately show ?thesis
    unfolding parse_bigint_def Let_def trim_show_nat
    by (simp only: if_False show_nat_not_Nil de_Morgan_disj simp_thms parse_nat_show_nat option.map)
qed

lemma parse_bigint_show_int: "parse_bigint (show_int i) = Some i"
proof (cases "i < 0")
  case False
  then show ?thesis by (simp add: show_int_def parse_bigint_show_nat)
next
  case True
  let ?s = "CHR ''-'' # show_nat (nat (- i))"
  have "trim ?s = ?s" using show_nat_no_ws by (intro trim_no_ws) (auto simp: is_ws_def)
  then show ?thesis using True
    by (simp add: show_int_def parse_bigint_def Let_def parse_nat_show_nat)
qed

interpretation numerals: codec show_int parse_bigint
  by unfold_locales (rule parse_bigint_show_int)

end
