(* ===== verification/File_Utils.thy ===== *)
theory File_Utils
  imports Js_Strings
begin

text \<open>
  \<open>src/gpt_frontend/src/utils/fileUtils.ts\<close>: extensions, file kinds, truncated display names,
  text detection and collision-free names. \<open>formatFileSize\<close> and \<open>formatDate\<close> (floating-point
  logarithms and locale-dependent dates) are not modelled.
\<close>

section \<open>Extensions and file kinds\<close>

text \<open>\<open>(i - 1) >>> 0\<close> wraps to 4294967295 when the only dot is the first character.\<close>

definition getFileExtension :: "string \<Rightarrow> string" where
  "getFileExtension fileName =
     (if fileName = [] then []
      else case last_index_of (CHR ''.'') fileName of
        None \<Rightarrow> []
      | Some i \<Rightarrow> to_lower (drop (nat ((int i - 1) mod 2 ^ 32) + 2) fileName))"

definition CODE_EXTENSIONS :: "string list" where
  "CODE_EXTENSIONS =
     [''js'', ''ts'', ''jsx'', ''tsx'', ''py'', ''java'', ''json'', ''html'', ''css'', ''scss'', ''less'',
      ''rs'', ''go'', ''c'', ''cpp'', ''h'', ''hpp'', ''cs'', ''php'', ''rb'', ''swift'', ''kt'', ''kts'',
      ''sh'', ''bash'', ''zsh'', ''sql'', ''xml'', ''yaml'', ''yml'', ''toml'', ''ini'', ''cfg'', ''conf'', ''log'']"

datatype file_icon = FileCodeIcon | FilePdfIcon | FileTextIcon | ImageSquareIcon | FileIcon

text \<open>
  \<open>toUpperCase\<close> on the modelled alphabet: the sharp s (code 223) becomes SS; the capitals of the
  micro sign (181) and of y with diaeresis (255) lie outside it, so those two are left alone.
\<close>

definition upper_char :: "char \<Rightarrow> string" where
  "upper_char c =
     (let n = (of_char c :: nat) in
      if n = 223 then ''SS''
      else if 97 \<le> n \<and> n \<le> 122 \<or> 224 \<le> n \<and> n \<le> 254 \<and> n \<noteq> 247 then [char_of (n - 32)] else [c])"

definition to_upper :: "string \<Rightarrow> string" where
  "to_upper s = concat (map upper_char s)"

definition getFileTypeAndIcon :: "string \<Rightarrow> string \<times> file_icon \<times> string" where
  "getFileTypeAndIcon fileName =
     (let ext = getFileExtension fileName in
      if ext \<in> set CODE_EXTENSIONS then (''Code'', FileCodeIcon, ''text-zinc-300'')
      else if ext = ''pdf'' then (''PDF'', FilePdfIcon, ''text-zinc-300'')
      else if ext \<in> {''txt'', ''md''} then (''Text'', FileTextIcon, ''text-zinc-300'')
      else if ext \<in> {''jpg'', ''jpeg'', ''png'', ''gif'', ''webp''} then (''Image'', ImageSquareIcon, ''text-zinc-300'')
      else (if to_upper ext = [] then ''File'' else to_upper ext, FileIcon, ''text-zinc-400''))"

section \<open>Truncated display names\<close>

text \<open>The ellipsis (U+2026) is one code unit; code 133 stands for it in the modelled alphabet.\<close>

definition ellipsis :: string where
  "ellipsis = [char_of (133 :: nat)]"

definition truncateFileName :: "string \<Rightarrow> nat \<Rightarrow> string" where
  "truncateFileName name maxLength =
     (if length name \<le> maxLength then name
      else case last_index_of (CHR ''.'') name of
        None \<Rightarrow> substring 0 maxLength name @ ellipsis
      | Some lastDotIndex \<Rightarrow>
          if lastDotIndex = 0 then substring 0 maxLength name @ ellipsis
          else
            let extension = drop lastDotIndex name;
                nameWithoutExt = substring 0 lastDotIndex name
            in if int (length extension) \<ge> int maxLength - 3 then substring 0 maxLength name @ ellipsis
               else let availableLength = maxLength - length extension - 1
                    in substring 0 availableLength nameWithoutExt @ ellipsis @ extension)"

section \<open>Text files\<close>

definition TEXT_BASED_APPLICATION_MIME_TYPES :: "string list" where
  "TEXT_BASED_APPLICATION_MIME_TYPES =
     [''application/json'', ''application/javascript'', ''application/typescript'', ''application/xml'',
      ''application/toml'', ''application/yaml'', ''application/x-rust-crate'', ''application/x-sh'',
      ''application/x-shellscript'', ''application/x-python-code'', ''application/x-yaml'']"

definition TEXT_BASED_EXTENSIONS :: "string list" where
  "TEXT_BASED_EXTENSIONS =
     [''txt'', ''md'', ''markdown'', ''csv'', ''json'', ''xml'', ''toml'', ''yaml'', ''yml'', ''html'', ''css'',
      ''js'', ''ts'', ''jsx'', ''tsx'', ''rs'', ''py'', ''java'', ''sh'', ''bash'']"

text \<open>The optional arguments are empty when missing: both are tested for truth.\<close>

definition isTextMimeType :: "string \<Rightarrow> string \<Rightarrow> bool" where
  "isTextMimeType mimeType fileName =
     (if mimeType \<noteq> [] \<and> (prefix ''text/'' mimeType \<or> mimeType \<in> set TEXT_BASED_APPLICATION_MIME_TYPES) then True
      else fileName \<noteq> [] \<and> getFileExtension fileName \<in> set TEXT_BASED_EXTENSIONS)"

section \<open>Collision-free names\<close>

definition numbered_name :: "string \<Rightarrow> string \<Rightarrow> nat \<Rightarrow> string" where
  "numbered_name baseName extension counter = baseName @ '' ('' @ show_nat counter @ '')'' @ extension"

text \<open>
  The candidates of a renaming loop are pairwise different, so only finitely many of them can be
  taken: the loop of any such family ends, at the first free candidate.
\<close>

locale candidate_names =
  fixes candidate :: "nat \<Rightarrow> 'a"
  assumes candidate_inj: "candidate i = candidate j \<Longrightarrow> i = j"
begin

definition taken :: "'a set \<Rightarrow> nat \<Rightarrow> nat set" where
  "taken X c = {k. c \<le> k \<and> candidate k \<in> X}"

lemma finite_taken: "finite X \<Longrightarrow> finite (taken X c)"
proof -
  assume X: "finite X"
  have "inj candidate" using candidate_inj by (auto simp: inj_def)
  with X have "finite (candidate -` X)" by (rule finite_vimageI)
  then show ?thesis by (rule rev_finite_subset) (auto simp: taken_def)
qed

lemma taken_decreases:
  assumes "finite X" and "candidate c \<in> X"
  shows "card (taken X (Suc c)) < card (taken X c)"
proof (rule psubset_card_mono [OF finite_taken [OF assms(1)]])
  have "c \<in> taken X c" and "c \<notin> taken X (Suc c)" using assms(2) by (auto simp: taken_def)
  moreover have "taken X (Suc c) \<subseteq> taken X c" by (auto simp: taken_def)
  ultimately show "taken X (Suc c) \<subset> taken X c" by blast
qed

lemma taken_card_le: "finite X \<Longrightarrow> card (taken X c) \<le> card X"
proof -
  assume X: "finite X"
  have "inj_on candidate (taken X c)" using candidate_inj by (auto simp: inj_on_def)
  moreover have "candidate ` taken X c \<subseteq> X" by (auto simp: taken_def)
  ultimately show ?thesis using X by (rule card_inj_on_le)
qed

end

lemma numbered_name_inj: "numbered_name b e i = numbered_name b e j \<Longrightarrow> i = j"
  by (simp add: numbered_name_def show_nat_inj)

interpretation numbered: candidate_names "numbered_name b e" for b e
  by unfold_locales (rule numbered_name_inj)

text \<open>\<open>do newName = ...; counter++ while (existingSet.has(newName))\<close>\<close>

function unique_name_loop :: "string \<Rightarrow> string \<Rightarrow> string list \<Rightarrow> nat \<Rightarrow> string" where
  "unique_name_loop baseName extension existing counter =
     (let newName = numbered_name baseName extension counter in
      if newName \<in> set existing then unique_name_loop baseName extension existing (Suc counter)
      else newName)"
  by pat_completeness auto
termination
  by (relation "measure (\<lambda>(b, e, xs, c). card (numbered.taken b e (set xs) c))")
     (auto intro: numbered.taken_decreases)

declare unique_name_loop.simps [simp del]

definition getUniqueFileName :: "string \<Rightarrow> string list \<Rightarrow> string" where
  "getUniqueFileName desiredName existingNames =
     (if desiredName \<notin> set existingNames then desiredName
      else
        let dotIndex = last_index_of (CHR ''.'') desiredName;
            baseName = (case dotIndex of Some i \<Rightarrow> if i > 0 then take i desiredName else desiredName | None \<Rightarrow> desiredName);
            extension = (case dotIndex of Some i \<Rightarrow> if i > 0 then drop i desiredName else [] | None \<Rightarrow> [])
        in unique_name_loop baseName extension existingNames 1)"

section \<open>Properties\<close>

lemma unique_name_loop_spec:
  "\<exists>k \<ge> c. unique_name_loop b e xs c = numbered_name b e k \<and> numbered_name b e k \<notin> set xs
     \<and> (\<forall>j. c \<le> j \<and> j < k \<longrightarrow> numbered_name b e j \<in> set xs)"
proof (induction b e xs c rule: unique_name_loop.induct)
  case (1 b e xs c)
  show ?case
  proof (cases "numbered_name b e c \<in> set xs")
    case True
    with 1 obtain k where k: "Suc c \<le> k" "unique_name_loop b e xs (Suc c) = numbered_name b e k"
      "numbered_name b e k \<notin> set xs" "\<forall>j. Suc c \<le> j \<and> j < k \<longrightarrow> numbered_name b e j \<in> set xs"
      by blast
    have "\<forall>j. c \<le> j \<and> j < k \<longrightarrow> numbered_name b e j \<in> set xs"
      using k(4) True by (metis le_neq_implies_less Suc_leI)
    with k True show ?thesis
      by (intro exI [of _ k]) (simp add: unique_name_loop.simps [of b e xs c] Let_def)
  next
    case False
    then show ?thesis
      by (intro exI [of _ c]) (auto simp add: unique_name_loop.simps [of b e xs c] Let_def)
  qed
qed

lemma unique_name_loop_tries:
  "unique_name_loop b e xs 1 = numbered_name b e k \<Longrightarrow> k \<le> Suc (length xs)"
proof -
  assume a: "unique_name_loop b e xs 1 = numbered_name b e k"
  obtain k' where k': "unique_name_loop b e xs 1 = numbered_name b e k'"
    "\<forall>j. 1 \<le> j \<and> j < k' \<longrightarrow> numbered_name b e j \<in> set xs"
    using unique_name_loop_spec [of 1 b e xs] by blast
  from a k'(1) have kk: "k = k'" using numbered_name_inj by metis
  have "{1..<k} \<subseteq> numbered.taken b e (set xs) 1" using k'(2) kk by (auto simp: numbered.taken_def)
  then have "card {1..<k} \<le> card (numbered.taken b e (set xs) 1)"
    by (rule card_mono [OF numbered.finite_taken [OF finite_set]])
  also have "\<dots> \<le> card (set xs)" by (rule numbered.taken_card_le) simp
  also have "\<dots> \<le> length xs" by (rule card_length)
  finally show ?thesis by simp
qed

lemma getFileExtension_at:
  assumes "last_index_of (CHR ''.'') name = Some i" and "length name < 2 ^ 32"
  shows "getFileExtension name = (if i = 0 then [] else to_lower (drop (Suc i) name))"
proof (cases "i = 0")
  case True
  then show ?thesis using assms last_index_of_Some [OF assms(1)]
    by (cases name) (auto simp: getFileExtension_def)
next
  case False
  then have "nat ((int i - 1) mod 2 ^ 32) + 2 = Suc i"
    using assms(2) last_index_of_Some [OF assms(1)] by simp
  moreover have "name \<noteq> []" using last_index_of_Some [OF assms(1)] by auto
  ultimately show ?thesis using False
    unfolding getFileExtension_def assms(1) by (simp only: if_False option.case)
qed

lemma numbered_name_tail_no_dot: "CHR ''.'' \<notin> set (numbered_name [] [] k)"
  using show_nat_no_char [of "CHR ''.''" k] by (simp add: numbered_name_def)

lemma numbered_name_split: "numbered_name b e k = b @ numbered_name [] [] k @ e"
  by (simp add: numbered_name_def)

lemma getFileExtension_numbered:
  assumes "last_index_of (CHR ''.'') d = Some i" and "0 < i"
    and "length (numbered_name (take i d) (drop i d) k) < 2 ^ 32"
  shows "getFileExtension (numbered_name (take i d) (drop i d) k) = getFileExtension d"
proof -
  let ?n = "numbered_name (take i d) (drop i d) k" and ?p = "take i d @ numbered_name [] [] k"
  from last_index_of_Some [OF assms(1)] have i: "i < length d" and nd: "CHR ''.'' \<notin> set (drop (Suc i) d)"
    and di: "d ! i = CHR ''.''" by auto
  have e: "drop i d = CHR ''.'' # drop (Suc i) d" using i di by (metis Cons_nth_drop_Suc)
  have n: "?n = ?p @ CHR ''.'' # drop (Suc i) d" by (simp add: numbered_name_split [of "take i d"] e)
  have "last_index_of (CHR ''.'') (CHR ''.'' # drop (Suc i) d) = Some 0"
    using nd by (simp add: last_index_of_None [THEN iffD2])
  then have l: "last_index_of (CHR ''.'') ?n = Some (length ?p)"
    by (simp only: n last_index_of_append option.case) simp
  have dr: "drop (Suc (length ?p)) ?n = drop (Suc i) d" and "length ?p \<noteq> 0" using n assms(2) i by auto
  with getFileExtension_at [OF l assms(3)] have "getFileExtension ?n = to_lower (drop (Suc i) d)"
    by (simp only: if_False)
  moreover have "length d < 2 ^ 32" using assms(3) i by (simp add: numbered_name_def)
  ultimately show ?thesis using getFileExtension_at [OF assms(1)] assms(2) by simp
qed

lemma getFileExtension_numbered_whole:
  assumes "case last_index_of (CHR ''.'') d of Some i \<Rightarrow> i = 0 | None \<Rightarrow> True"
    and "length (numbered_name d [] k) < 2 ^ 32"
  shows "getFileExtension (numbered_name d [] k) = [] \<and> getFileExtension d = []"
proof -
  have n: "numbered_name d [] k = d @ numbered_name [] [] k" by (simp add: numbered_name_split [of d])
  have "last_index_of (CHR ''.'') (numbered_name [] [] k) = None"
    by (simp only: last_index_of_None numbered_name_tail_no_dot simp_thms)
  then have "last_index_of (CHR ''.'') (numbered_name d [] k) = last_index_of (CHR ''.'') d"
    by (simp only: n last_index_of_append option.case)
  moreover have "length d < 2 ^ 32" using assms(2) by (simp add: numbered_name_def)
  ultimately show ?thesis using assms getFileExtension_at [of "numbered_name d [] k" 0] getFileExtension_at [of d 0]
    by (cases "last_index_of (CHR ''.'') d") (auto simp: getFileExtension_def)
qed

lemma truncate_kept_length:
  assumes "int (length e) < int m - 3" and "length e < m" and "m < length n"
  shows "length (substring 0 (m - length e - 1) p @ ellipsis @ e) \<le> m"
  using assms by (simp add: ellipsis_def)

lemma last_index_of_pos_cases:
  obtains (dot) i where "last_index_of (CHR ''.'') d = Some i" "0 < i"
  | (whole) "case last_index_of (CHR ''.'') d of Some i \<Rightarrow> i = 0 | None \<Rightarrow> True"
  by (cases "last_index_of (CHR ''.'') d") auto

lemma getUniqueFileName_taken:
  assumes "d \<in> set xs"
  obtains k where "1 \<le> k" "k \<le> Suc (length xs)" "getUniqueFileName d xs \<notin> set xs"
    "case last_index_of (CHR ''.'') d of
       Some i \<Rightarrow> getUniqueFileName d xs = (if 0 < i then numbered_name (take i d) (drop i d) k else numbered_name d [] k)
     | None \<Rightarrow> getUniqueFileName d xs = numbered_name d [] k"
proof -
  let ?l = "last_index_of (CHR ''.'') d"
  let ?b = "case ?l of Some i \<Rightarrow> if i > 0 then take i d else d | None \<Rightarrow> d"
  let ?e = "case ?l of Some i \<Rightarrow> if i > 0 then drop i d else [] | None \<Rightarrow> []"
  have u: "getUniqueFileName d xs = unique_name_loop ?b ?e xs 1"
    using assms by (simp add: getUniqueFileName_def Let_def)
  obtain k where k: "1 \<le> k" "unique_name_loop ?b ?e xs 1 = numbered_name ?b ?e k" "numbered_name ?b ?e k \<notin> set xs"
    using unique_name_loop_spec [of 1 ?b ?e xs] by blast
  have "k \<le> Suc (length xs)" by (rule unique_name_loop_tries [OF k(2)])
  with that [of k] k u show ?thesis by (cases ?l) (auto split: if_splits)
qed

text \<open>
  A name produced by \<open>getUniqueFileName\<close> collides with no existing name; a name that was free is
  kept; otherwise a counter between 1 and one more than the number of names is inserted before
  the extension, so the loop ends after at most that many tries.
\<close>

theorem unique_file_name_fresh:
  "getUniqueFileName d xs \<notin> set xs
   \<and> (if d \<notin> set xs then getUniqueFileName d xs = d
      else \<exists>k b e. 1 \<le> k \<and> k \<le> Suc (length xs) \<and> d = b @ e \<and> getUniqueFileName d xs = numbered_name b e k)"
proof (cases "d \<in> set xs")
  case True
  from getUniqueFileName_taken [OF True] obtain k where k: "1 \<le> k" "k \<le> Suc (length xs)"
    "getUniqueFileName d xs \<notin> set xs"
    "case last_index_of (CHR ''.'') d of
       Some i \<Rightarrow> getUniqueFileName d xs = (if 0 < i then numbered_name (take i d) (drop i d) k else numbered_name d [] k)
     | None \<Rightarrow> getUniqueFileName d xs = numbered_name d [] k" by blast
  have "\<exists>b e. d = b @ e \<and> getUniqueFileName d xs = numbered_name b e k"
  proof (rule last_index_of_pos_cases [of d])
    fix i
    assume "last_index_of (CHR ''.'') d = Some i" and "0 < i"
    with k(4) have "getUniqueFileName d xs = numbered_name (take i d) (drop i d) k" by simp
    moreover have "d = take i d @ drop i d" by simp
    ultimately show ?thesis by blast
  next
    assume "case last_index_of (CHR ''.'') d of Some i \<Rightarrow> i = 0 | None \<Rightarrow> True"
    with k(4) have "getUniqueFileName d xs = numbered_name d [] k"
      by (auto split: option.splits)
    moreover have "d = d @ []" by simp
    ultimately show ?thesis by blast
  qed
  with k(1,2,3) True show ?thesis by auto
qed (simp add: getUniqueFileName_def)

text \<open>
  Renaming a colliding file changes neither its extension nor whether it is treated as text,
  so the pipeline that read the file decides the same way before and after (names shorter than
  $2^{32}$ characters, since the extension is found with a 32-bit shift).
\<close>

theorem unique_file_name_extension:
  assumes len: "length (getUniqueFileName d xs) < 2 ^ 32"
  shows "getFileExtension (getUniqueFileName d xs) = getFileExtension d
    \<and> isTextMimeType mime (getUniqueFileName d xs) = isTextMimeType mime d"
proof -
  have ext: "getFileExtension (getUniqueFileName d xs) = getFileExtension d"
  proof (cases "d \<in> set xs")
    case True
    then show ?thesis
    proof (rule getUniqueFileName_taken)
      fix k
      assume c: "case last_index_of (CHR ''.'') d of
         Some i \<Rightarrow> getUniqueFileName d xs = (if 0 < i then numbered_name (take i d) (drop i d) k else numbered_name d [] k)
       | None \<Rightarrow> getUniqueFileName d xs = numbered_name d [] k"
      show ?thesis
      proof (rule last_index_of_pos_cases [of d])
        fix i
        assume i: "last_index_of (CHR ''.'') d = Some i" "0 < i"
        with c have "getUniqueFileName d xs = numbered_name (take i d) (drop i d) k" by simp
        with getFileExtension_numbered [OF i] len show ?thesis by simp
      next
        assume w: "case last_index_of (CHR ''.'') d of Some i \<Rightarrow> i = 0 | None \<Rightarrow> True"
        with c have "getUniqueFileName d xs = numbered_name d [] k"
          by (auto split: option.splits)
        with getFileExtension_numbered_whole [OF w] len show ?thesis by simp
      qed
    qed
  qed (simp add: getUniqueFileName_def)
  moreover have "[] \<notin> set TEXT_BASED_EXTENSIONS" by (simp add: TEXT_BASED_EXTENSIONS_def)
  ultimately show ?thesis
    by (cases "d = []"; cases "getUniqueFileName d xs = []") (auto simp: isTextMimeType_def getFileExtension_def)
qed

lemma unique_file_name_extension_witness:
  "getFileExtension (getUniqueFileName ''a.md'' [''a.md'']) = ''md''
   \<and> isTextMimeType [] (getUniqueFileName ''a.md'' [''a.md''])"
proof -
  have one: "show_nat (Suc 0) = ''1''" by code_simp
  have u: "getUniqueFileName ''a.md'' [''a.md''] = ''a (1).md''"
    by (simp add: getUniqueFileName_def Let_def unique_name_loop.simps numbered_name_def one)
  have e: "getFileExtension ''a.md'' = ''md''" by code_simp
  have t: "isTextMimeType [] ''a.md''" by code_simp
  show ?thesis using unique_file_name_extension [of "''a.md''" "[''a.md'']" "[]"] e t by (simp add: u)
qed

end
