(* ===== verification/Domain.thy ===== *)
theory Domain
  imports Js_Strings
begin

text \<open>
  The frontend's domain types (\<open>src/gpt_frontend/src/types/index.ts\<close> and \<open>brands.ts\<close>).
  A branded identifier is its text. An optional or nullable property is an \<open>option\<close>. An ISO
  text (\<open>createdAt\<close>, \<open>updatedAt\<close>) is represented by the instant in milliseconds it denotes: the
  texts \<open>toISOString\<close> produces have a fixed width, so their lexicographic order, which
  \<open>messageTree.ts\<close> uses, is the order of the instants, and none of them is empty. A \<open>Principal\<close>
  is represented by its text form, a \<open>Uint8Array\<close> by its list of bytes, a price, a
  temperature or an embedding component by a rational number.
\<close>

section \<open>Branded identifiers\<close>

type_synonym user_id = string
type_synonym chat_id = string
type_synonym message_id = string
type_synonym node_id = string
type_synonym job_id = string
type_synonym folder_id = string
type_synonym file_id = string
type_synonym principal = string
type_synonym bytes = "8 word list"
type_synonym instant = nat

definition toChatId :: "string \<Rightarrow> chat_id" where "toChatId s = s"
definition toMessageId :: "string \<Rightarrow> message_id" where "toMessageId s = s"
definition toNodeId :: "string \<Rightarrow> node_id" where "toNodeId s = s"
definition toJobId :: "string \<Rightarrow> job_id" where "toJobId s = s"
definition toFolderId :: "string \<Rightarrow> folder_id" where "toFolderId s = s"
definition toFileId :: "string \<Rightarrow> file_id" where "toFileId s = s"

named_theorems brand_casts \<open>the trusted casts at the mapping boundary\<close>
lemmas [brand_casts, simp] =
  toChatId_def toMessageId_def toNodeId_def toJobId_def toFolderId_def toFileId_def

section \<open>Messages, chats and jobs\<close>

datatype role = User | Assistant | ToolMsg | System

datatype compression_level = Extreme | High | Medium | Low | Lossless

datatype render_mode = Markdown | Plain

datatype provider_error_kind =
    RateLimited | AuthenticationError | ServerError | ServiceUnavailable | BadRequest
  | ContextLengthExceeded | ContentPolicyViolation | NetworkError | ProviderTimeout
  | InvalidImage | UnknownProvider

record provider_error =
  pe_type :: provider_error_kind
  pe_message :: "string option"

datatype error_kind =
    Timeout | NodeOffline | ProviderError | CanisterCallError | InvalidState
  | ConfigurationError | UnknownError

record error_status =
  es_type :: error_kind
  es_message :: "string option"
  es_details :: "provider_error option"

record tool =
  t_name :: string
  t_displayName :: "string option"
  t_description :: string
  t_parameters :: string

record image_attachment =
  ia_mime_type :: string
  ia_data :: bytes

record tool_call =
  tc_id :: string
  tc_name :: string
  tc_arguments :: string

record tool_result =
  tr_tool_call_id :: string
  tr_content :: string
  tr_error :: "string option"

record token_usage =
  prompt_tokens :: int
  completion_tokens :: int
  total_tokens :: int

record message =
  m_id :: message_id
  m_backendId :: "message_id option"
  m_chatId :: chat_id
  m_role :: role
  m_content :: string
  m_parentMessageId :: "message_id option"
  m_createdAt :: instant
  m_updatedAt :: instant
  m_errorStatus :: "error_status option"
  m_isComplete :: "bool option"
  m_jobId :: "job_id option"
  m_modelId :: "string option"
  m_attachments :: "image_attachment list option"
  m_tool_calls :: "tool_call list option"
  m_tool_results :: "tool_result list option"
  m_tool_call_id :: "string option"
  m_requires_client_action :: "bool option"
  m_usage :: "token_usage option"

text \<open>\<open>msg.backendId ?? msg.id\<close>\<close>

definition msg_key :: "message \<Rightarrow> message_id" where
  "msg_key m = (case m_backendId m of Some b \<Rightarrow> b | None \<Rightarrow> m_id m)"

text \<open>The truth value of an optional boolean.\<close>

definition truthy :: "bool option \<Rightarrow> bool" where
  "truthy b \<longleftrightarrow> b = Some True"

text \<open>The truth value of an optional text: \<open>undefined\<close>, \<open>null\<close> and the empty text are false.\<close>

definition truthy_str :: "string option \<Rightarrow> bool" where
  "truthy_str s \<longleftrightarrow> s \<noteq> None \<and> s \<noteq> Some []"

definition or_else :: "'a option \<Rightarrow> 'a option \<Rightarrow> 'a option" where
  "or_else a b = (case a of Some x \<Rightarrow> Some x | None \<Rightarrow> b)"

definition or_str :: "string option \<Rightarrow> string option \<Rightarrow> string option" where
  "or_str a b = (if truthy_str a then a else b)"

record encrypted_message = message +
  em_encryptedContent :: bytes

record chat =
  c_chatId :: chat_id
  c_title :: string
  c_createdAt :: instant
  c_updatedAt :: instant
  c_owner :: string
  c_messageIds :: "message_id list"
  c_jobIds :: "job_id list"
  c_activeJobId :: "job_id option"
  c_archived :: bool
  c_temporary :: bool
  c_encryptionSalt :: bytes

record streamed_response =
  sr_text :: string
  sr_isComplete :: bool
  sr_errorStatus :: "error_status option"
  sr_usage :: "token_usage option"

record job =
  j_job_id :: job_id
  j_chat_id :: chat_id
  j_node_id :: node_id
  j_model_id :: string
  j_placeholder_message_id :: message_id
  j_generation_status :: string
  j_temperature :: rat
  j_max_completion_tokens :: int
  j_max_context :: int
  j_custom_prompt :: "string option"
  j_tools :: "tool list option"
  j_extra_body_json :: "string option"
  j_reasoning_effort :: "string option"
  j_created_at :: int
  j_updated_at :: int

section \<open>Models and nodes\<close>

datatype model_status = Active | Paused

record model =
  md_modelId :: string
  md_name :: string
  md_provider :: string
  md_providerModel :: string
  md_providerEndpoint :: string
  md_maker :: string
  md_nodeCount :: int
  md_maxContext :: int
  md_maxOutput :: int
  md_inputTokenPrice :: rat
  md_outputTokenPrice :: rat
  md_max_image_attachments :: int
  md_max_tools :: int
  md_aaScore :: "rat option"
  md_releaseDate :: "string option"
  md_status :: model_status
  md_extra_body_json :: "string option"
  md_isReasoning :: bool
  md_isEmbedding :: bool
  md_isFeatured :: bool

record node_info =
  n_nodeId :: node_id
  n_owner :: principal
  n_nodePrincipal :: "principal option"
  n_hostname :: string
  n_modelId :: string
  n_isActive :: bool
  n_attestationVerifiedAt :: "int option"
  n_lastHeartbeatTimestamp :: "int option"
  n_reportedMeasurementHex :: "string option"
  n_reportedChipIdHex :: "string option"
  n_detectedGeneration :: "string option"
  n_publicKey :: "string option"

section \<open>Files\<close>

record js_file =
  f_name :: string
  f_size :: nat
  f_type :: string
  f_lastModified :: nat
  f_bytes :: bytes

datatype attachment_kind = ImageAtt | TextAtt

record attachment =
  a_id :: string
  a_name :: string
  a_size :: nat
  a_type :: attachment_kind
  a_file :: js_file
  a_previewUrl :: "string option"
  a_lines :: "nat option"

record text_chunk =
  k_chunk_index :: nat
  k_start_char :: nat
  k_end_char :: nat
  k_embedding :: "rat list"

record searchable_chunk = text_chunk +
  sc_id :: string
  sc_fileId :: file_id
  sc_text :: string

record folder =
  fo_id :: folder_id
  fo_name :: string
  fo_parentId :: "folder_id option"

record file_item =
  fi_id :: file_id
  fi_name :: string
  fi_size :: nat
  fi_uploadedAt :: instant
  fi_mimeType :: string
  fi_parentId :: folder_id
  fi_chunks :: "text_chunk list"

datatype upload_status = Queued | Embedding | Converting | Extracting | Uploading | Complete | Errored | Chunking

datatype upload_file_type = Pdf | MarkdownFile | Image | Other

record upload_job =
  uj_id :: string
  uj_uiId :: string
  uj_fileName :: string
  uj_fileType :: upload_file_type
  uj_status :: upload_status
  uj_subStatus :: string
  uj_progress :: rat
  uj_error :: "string option"
  uj_modelId :: "string option"
  uj_retries :: nat
  uj_chunks :: "text_chunk list option"

datatype indexing_status = IdxIdle | IdxInProgress | IdxComplete | IdxError

record indexing_progress =
  ip_processed :: nat
  ip_total :: nat
  ip_currentFile :: string

record search_result =
  s_id :: string
  s_text :: string
  s_rrf_score :: rat

section \<open>Lemmas\<close>

lemma msg_key_backend [simp]: "m_backendId m = Some b \<Longrightarrow> msg_key m = b"
  by (simp add: msg_key_def)

lemma msg_key_updates [simp]:
  "msg_key (m\<lparr>m_chatId := x0\<rparr>) = msg_key m"
  "msg_key (m\<lparr>m_role := x1\<rparr>) = msg_key m"
  "msg_key (m\<lparr>m_content := x2\<rparr>) = msg_key m"
  "msg_key (m\<lparr>m_parentMessageId := x3\<rparr>) = msg_key m"
  "msg_key (m\<lparr>m_createdAt := x4\<rparr>) = msg_key m"
  "msg_key (m\<lparr>m_updatedAt := x5\<rparr>) = msg_key m"
  "msg_key (m\<lparr>m_errorStatus := x6\<rparr>) = msg_key m"
  "msg_key (m\<lparr>m_isComplete := x7\<rparr>) = msg_key m"
  "msg_key (m\<lparr>m_jobId := x8\<rparr>) = msg_key m"
  "msg_key (m\<lparr>m_modelId := x9\<rparr>) = msg_key m"
  "msg_key (m\<lparr>m_attachments := x10\<rparr>) = msg_key m"
  "msg_key (m\<lparr>m_tool_calls := x11\<rparr>) = msg_key m"
  "msg_key (m\<lparr>m_tool_results := x12\<rparr>) = msg_key m"
  "msg_key (m\<lparr>m_tool_call_id := x13\<rparr>) = msg_key m"
  "msg_key (m\<lparr>m_requires_client_action := x14\<rparr>) = msg_key m"
  "msg_key (m\<lparr>m_usage := x15\<rparr>) = msg_key m"
  by (simp_all add: msg_key_def split: option.split)

lemma truthy_simps [simp]: "truthy (Some b) = b" "truthy None = False"
  by (auto simp: truthy_def)

lemma truthy_str_simps [simp]: "truthy_str None = False" "truthy_str (Some s) = (s \<noteq> [])"
  by (auto simp: truthy_str_def)

lemma or_else_simps [simp]: "or_else (Some x) b = Some x" "or_else None b = b"
  by (auto simp: or_else_def)

lemma or_else_None_iff: "or_else a b = None \<longleftrightarrow> a = None \<and> b = None"
  by (cases a) auto

section \<open>Example values\<close>

text \<open>A message, chat and job with only the named properties set; the witnesses are built from them.\<close>

definition plain_message :: "message_id \<Rightarrow> chat_id \<Rightarrow> role \<Rightarrow> string \<Rightarrow> message_id option \<Rightarrow> instant \<Rightarrow> message" where
  "plain_message i c r txt p t =
     \<lparr>m_id = i, m_backendId = None, m_chatId = c, m_role = r, m_content = txt, m_parentMessageId = p,
      m_createdAt = t, m_updatedAt = t, m_errorStatus = None, m_isComplete = None, m_jobId = None,
      m_modelId = None, m_attachments = None, m_tool_calls = None, m_tool_results = None,
      m_tool_call_id = None, m_requires_client_action = None, m_usage = None\<rparr>"

definition plain_job :: "job_id \<Rightarrow> chat_id \<Rightarrow> node_id \<Rightarrow> string \<Rightarrow> message_id \<Rightarrow> string \<Rightarrow> job" where
  "plain_job i c n md p st =
     \<lparr>j_job_id = i, j_chat_id = c, j_node_id = n, j_model_id = md, j_placeholder_message_id = p,
      j_generation_status = st, j_temperature = 0, j_max_completion_tokens = 0, j_max_context = 0,
      j_custom_prompt = None, j_tools = None, j_extra_body_json = None, j_reasoning_effort = None,
      j_created_at = 0, j_updated_at = 0\<rparr>"

definition plain_chat :: "chat_id \<Rightarrow> chat" where
  "plain_chat i =
     \<lparr>c_chatId = i, c_title = [], c_createdAt = 0, c_updatedAt = 0, c_owner = [], c_messageIds = [], c_jobIds = [],
      c_activeJobId = None, c_archived = False, c_temporary = False, c_encryptionSalt = []\<rparr>"

lemmas example_defs = plain_message_def plain_job_def plain_chat_def

lemma plain_chat_simps [simp]: "c_chatId (plain_chat i) = i" "c_activeJobId (plain_chat i) = None"
  by (simp_all add: plain_chat_def)

lemma plain_message_simps [simp]:
  "m_id (plain_message i c r txt p t) = i"
  "m_backendId (plain_message i c r txt p t) = None"
  "m_chatId (plain_message i c r txt p t) = c"
  "m_role (plain_message i c r txt p t) = r"
  "m_content (plain_message i c r txt p t) = txt"
  "m_parentMessageId (plain_message i c r txt p t) = p"
  "m_createdAt (plain_message i c r txt p t) = t"
  "m_updatedAt (plain_message i c r txt p t) = t"
  "m_errorStatus (plain_message i c r txt p t) = None"
  "m_isComplete (plain_message i c r txt p t) = None"
  "m_jobId (plain_message i c r txt p t) = None"
  "m_modelId (plain_message i c r txt p t) = None"
  "m_attachments (plain_message i c r txt p t) = None"
  "m_tool_calls (plain_message i c r txt p t) = None"
  "m_tool_results (plain_message i c r txt p t) = None"
  "m_tool_call_id (plain_message i c r txt p t) = None"
  "m_requires_client_action (plain_message i c r txt p t) = None"
  "m_usage (plain_message i c r txt p t) = None"
  "msg_key (plain_message i c r txt p t) = i"
  by (simp_all add: plain_message_def msg_key_def)

lemma plain_job_simps [simp]:
  "j_job_id (plain_job i c n md p st) = i"
  "j_chat_id (plain_job i c n md p st) = c"
  "j_node_id (plain_job i c n md p st) = n"
  "j_model_id (plain_job i c n md p st) = md"
  "j_placeholder_message_id (plain_job i c n md p st) = p"
  "j_generation_status (plain_job i c n md p st) = st"
  by (simp_all add: plain_job_def)

end
