(* ===== verification/Candid_Utils.thy ===== *)
theory Candid_Utils
  imports Domain
begin

text \<open>
  \<open>src/gpt_frontend/src/utils/candidUtils.ts\<close>: optionals, big integers, timestamps, blobs and
  the serialisation of embeddings as little-endian 32-bit floats. The rounding of a number to a
  float32 bit pattern and back belongs to the machine and is a parameter pair (\<open>to_f32\<close>,
  \<open>of_f32\<close>); the byte layout is modelled.
\<close>

unbundle bit_operations_syntax

section \<open>Optionals\<close>

text \<open>The argument of \<open>fromOpt\<close>: a Candid optional (an array), a bare value, or nothing.\<close>

datatype 'a opt_arg = OptArray "'a list" | OptValue 'a | OptMissing

definition toOpt :: "'a option \<Rightarrow> 'a list" where
  "toOpt val = (case val of Some v \<Rightarrow> [v] | None \<Rightarrow> [])"

fun fromOpt :: "'a opt_arg \<Rightarrow> 'a option" where
  "fromOpt OptMissing = None"
| "fromOpt (OptArray val) = (if length val > 0 then Some (val ! 0) else None)"
| "fromOpt (OptValue val) = Some val"

abbreviation fromOptArr :: "'a list \<Rightarrow> 'a option" where
  "fromOptArr xs \<equiv> fromOpt (OptArray xs)"

lemma fromOpt_toOpt [simp]: "fromOptArr (toOpt v) = v"
  by (cases v) (auto simp: toOpt_def)

lemma toOpt_fromOpt: "length xs \<le> 1 \<Longrightarrow> toOpt (fromOptArr xs) = xs"
  by (cases xs) (auto simp: toOpt_def)

section \<open>Big integers and timestamps\<close>

datatype num_or_str = NumArg rat | StrArg string

text \<open>\<open>BigInt(number)\<close> throws a RangeError on a number that is not an integer.\<close>

definition rat_is_int :: "rat \<Rightarrow> bool" where
  "rat_is_int r \<longleftrightarrow> of_int \<lfloor>r\<rfloor> = r"

definition bigint_of_num :: "rat \<Rightarrow> int option" where
  "bigint_of_num r = (if rat_is_int r then Some \<lfloor>r\<rfloor> else None)"

fun toBigInt :: "num_or_str \<Rightarrow> int" where
  "toBigInt (NumArg r) = (case bigint_of_num r of Some i \<Rightarrow> i | None \<Rightarrow> 0)"
| "toBigInt (StrArg s) = (case parse_bigint s of Some i \<Rightarrow> i | None \<Rightarrow> 0)"

definition fromBigInt :: "int option \<Rightarrow> string" where
  "fromBigInt val = (case val of None \<Rightarrow> ''0'' | Some i \<Rightarrow> show_int i)"

text \<open>Division of BigInts truncates towards zero.\<close>

definition fromTimestamp :: "int option \<Rightarrow> int" where
  "fromTimestamp nanoseconds =
     (case nanoseconds of None \<Rightarrow> 0 | Some ns \<Rightarrow> sgn ns * (\<bar>ns\<bar> div 1000000))"

lemma rat_is_int_of_int [simp]: "rat_is_int (of_int i)"
  by (simp add: rat_is_int_def)

lemma bigint_of_int [simp]: "bigint_of_num (of_int i) = Some i"
  by (simp add: bigint_of_num_def)

lemma toBigInt_fromBigInt: "toBigInt (StrArg (fromBigInt (Some i))) = i"
  by (simp add: fromBigInt_def parse_bigint_show_int)

lemma fromTimestamp_bounds:
  assumes "0 \<le> ns"
  shows "1000000 * fromTimestamp (Some ns) \<le> ns \<and> ns < 1000000 * fromTimestamp (Some ns) + 1000000"
  using assms by (cases "ns = 0") (auto simp: fromTimestamp_def)

section \<open>Blobs and embeddings\<close>

datatype blob_arg = BlobBytes bytes | BlobNumbers "int list"

text \<open>\<open>new Uint8Array(numbers)\<close> takes each number modulo 256.\<close>

fun toBlob :: "blob_arg \<Rightarrow> bytes" where
  "toBlob (BlobBytes b) = b"
| "toBlob (BlobNumbers xs) = map word_of_int xs"

definition bytes_of_word32 :: "32 word \<Rightarrow> bytes" where
  "bytes_of_word32 w = [ucast w, ucast (drop_bit 8 w), ucast (drop_bit 16 w), ucast (drop_bit 24 w)]"

definition word32_of_bytes :: "8 word \<Rightarrow> 8 word \<Rightarrow> 8 word \<Rightarrow> 8 word \<Rightarrow> 32 word" where
  "word32_of_bytes a b c d =
     ucast a OR push_bit 8 (ucast b) OR push_bit 16 (ucast c) OR push_bit 24 (ucast d)"

fun float32_view :: "bytes \<Rightarrow> 32 word list" where
  "float32_view (a # b # c # d # rest) = word32_of_bytes a b c d # float32_view rest"
| "float32_view _ = []"

definition serializeEmbedding :: "(rat \<Rightarrow> 32 word) \<Rightarrow> rat list \<Rightarrow> bytes" where
  "serializeEmbedding to_f32 embedding =
     (if embedding = [] then [] else concat (map (bytes_of_word32 \<circ> to_f32) embedding))"

text \<open>What Candid may hand to \<open>deserializeEmbedding\<close>.\<close>

datatype embedding_arg = EmbMissing | EmbBytes bytes | EmbBuffer bytes | EmbNumbers "int list" | EmbOther

definition deserializeEmbedding :: "(32 word \<Rightarrow> rat) \<Rightarrow> embedding_arg \<Rightarrow> rat list" where
  "deserializeEmbedding of_f32 arg =
     (let view = (\<lambda>u. if length u = 0 then [] else if length u mod 4 \<noteq> 0 then []
                      else map of_f32 (float32_view u)) in
      case arg of
        EmbMissing \<Rightarrow> []
      | EmbBytes u \<Rightarrow> view u
      | EmbBuffer u \<Rightarrow> view u
      | EmbNumbers xs \<Rightarrow> view (map word_of_int xs)
      | EmbOther \<Rightarrow> [])"

lemma word32_bytes_inverse:
  "word32_of_bytes (ucast w) (ucast (drop_bit 8 w)) (ucast (drop_bit 16 w)) (ucast (drop_bit 24 w)) = w"
proof (rule bit_word_eqI)
  fix n
  assume "n < LENGTH(32)"
  then consider "n < 8" | "8 \<le> n" "n < 16" | "16 \<le> n" "n < 24" | "24 \<le> n" "n < 32" by fastforce
  then show "bit (word32_of_bytes (ucast w) (ucast (drop_bit 8 w)) (ucast (drop_bit 16 w))
      (ucast (drop_bit 24 w))) n = bit w n"
    by cases (simp_all add: word32_of_bytes_def bit_simps, linarith+)
qed

lemma bytes_word32_inverse: "bytes_of_word32 (word32_of_bytes a b c d) = [a, b, c, d]"
proof -
  let ?w = "word32_of_bytes a b c d"
  have "ucast ?w = a" "ucast (drop_bit 8 ?w) = b" "ucast (drop_bit 16 ?w) = c" "ucast (drop_bit 24 ?w) = d"
    by (rule bit_word_eqI; auto simp: word32_of_bytes_def bit_simps dest: bit_imp_le_length)+
  then show ?thesis by (simp add: bytes_of_word32_def)
qed

lemma float32_view_bytes: "float32_view (bytes_of_word32 w @ rest) = w # float32_view rest"
  by (simp add: bytes_of_word32_def word32_bytes_inverse)

lemma float32_view_concat: "float32_view (concat (map (bytes_of_word32 \<circ> f) xs)) = map f xs"
  by (induction xs) (simp_all add: float32_view_bytes)

lemma length_bytes_of_word32 [simp]: "length (bytes_of_word32 w) = 4"
  by (simp add: bytes_of_word32_def)

lemma length_concat_bytes: "length (concat (map (bytes_of_word32 \<circ> f) xs)) = 4 * length xs"
  by (induction xs) auto

lemma concat_float32_view:
  "length u mod 4 = 0 \<Longrightarrow> concat (map bytes_of_word32 (float32_view u)) = u"
proof (induction u rule: float32_view.induct)
  case (1 a b c d rest)
  then have "length rest mod 4 = 0" by simp
  with 1 show ?case by (simp add: bytes_word32_inverse)
qed auto

lemma length_serializeEmbedding: "length (serializeEmbedding f xs) = 4 * length xs"
  by (simp add: serializeEmbedding_def length_concat_bytes)

lemma deserialize_serialize:
  "deserializeEmbedding g (EmbBytes (serializeEmbedding f xs)) = map (g \<circ> f) xs"
proof (cases xs)
  case (Cons x ys)
  have "concat (map (bytes_of_word32 \<circ> f) xs) \<noteq> []"
    using Cons length_concat_bytes [of f xs] by (metis length_0_conv mult_eq_0_iff list.distinct(1) zero_neq_numeral)
  then show ?thesis using Cons
    by (simp add: deserializeEmbedding_def serializeEmbedding_def length_concat_bytes
        float32_view_concat Let_def del: concat_eq_Nil_conv) (simp add: float32_view_bytes float32_view_concat)
qed (simp add: deserializeEmbedding_def serializeEmbedding_def)

lemma serialize_deserialize:
  assumes "\<And>w. f (g w) = w" and "length u mod 4 = 0"
  shows "serializeEmbedding f (deserializeEmbedding g (EmbBytes u)) = u"
proof (cases "u = []")
  case True
  then show ?thesis by (simp add: deserializeEmbedding_def serializeEmbedding_def Let_def)
next
  case False
  have "(bytes_of_word32 \<circ> f) \<circ> g = bytes_of_word32" using assms(1) by (simp add: fun_eq_iff)
  then have "concat (map (bytes_of_word32 \<circ> f) (map g (float32_view u))) = u"
    using concat_float32_view [OF assms(2)] by simp
  then show ?thesis using False assms(2)
    by (auto simp: deserializeEmbedding_def serializeEmbedding_def Let_def)
qed

text \<open>
  Embeddings survive the wire. Serializing an embedding gives four bytes per entry and reading
  them back gives every entry rounded to 32-bit precision; if rounding the stored floats is exact,
  reading stored bytes and writing them again reproduces the bytes, for any blob whose length is
  a multiple of four.
\<close>

theorem embedding_roundtrip:
  assumes exact: "\<And>w. to_f32 (of_f32 w) = w"
  shows "deserializeEmbedding of_f32 (EmbBytes (serializeEmbedding to_f32 xs)) = map (of_f32 \<circ> to_f32) xs
    \<and> length (serializeEmbedding to_f32 xs) = 4 * length xs
    \<and> deserializeEmbedding of_f32 (EmbBytes (serializeEmbedding to_f32 (map of_f32 ws))) = map of_f32 ws
    \<and> (length u mod 4 = 0 \<longrightarrow> serializeEmbedding to_f32 (deserializeEmbedding of_f32 (EmbBytes u)) = u)"
proof (intro conjI impI)
  show "deserializeEmbedding of_f32 (EmbBytes (serializeEmbedding to_f32 xs)) = map (of_f32 \<circ> to_f32) xs"
    by (rule deserialize_serialize)
  show "length (serializeEmbedding to_f32 xs) = 4 * length xs" by (rule length_serializeEmbedding)
  show "deserializeEmbedding of_f32 (EmbBytes (serializeEmbedding to_f32 (map of_f32 ws))) = map of_f32 ws"
    using exact by (simp add: deserialize_serialize)
  show "serializeEmbedding to_f32 (deserializeEmbedding of_f32 (EmbBytes u)) = u" if "length u mod 4 = 0"
    by (rule serialize_deserialize [OF exact that])
qed

lemma embedding_roundtrip_witness:
  "deserializeEmbedding (\<lambda>w. of_int (uint w))
     (EmbBytes (serializeEmbedding (\<lambda>r. word_of_int \<lfloor>r\<rfloor>) [7, 300])) = [7, 300]
   \<and> serializeEmbedding (\<lambda>r. word_of_int \<lfloor>r\<rfloor>) (deserializeEmbedding (\<lambda>w. of_int (uint w)) (EmbBytes [1, 2, 3, 4]))
     = [1, 2, 3, 4]"
proof -
  have "\<And>w :: 32 word. word_of_int \<lfloor>of_int (uint w) :: rat\<rfloor> = w" by (simp only: floor_of_int word_of_int_uint)
  from embedding_roundtrip [of "\<lambda>r. word_of_int \<lfloor>r\<rfloor>" "\<lambda>w. of_int (uint w)" "[]" "[7, 300]" "[1, 2, 3, 4]", OF this]
  show ?thesis by simp
qed

end
