(* ===== verification/Candid_Adapter.thy ===== *)
theory Candid_Adapter
  imports Candid_Utils
begin

text \<open>
  \<open>src/gpt_frontend/src/utils/candidAdapter.ts\<close>: the visitor that walks a Candid type and a
  JavaScript value at once and rewrites the value into what the serializer of the Candid library
  accepts. Candid types are the library's documented type constructors; the interface files of
  this repository use no recursive type, so \<open>IDL.Rec\<close> holds its finished type. Only parsing a
  principal's text is the library's own code; it is the parameter \<open>fromText\<close>.
\<close>

section \<open>JavaScript values and Candid types\<close>

datatype jsval =
    JUndef | JNull | JBool bool | JNum rat | JBig int | JStr string
  | JBytes bytes | JBuffer bytes | JArr "jsval list" | JObj "(string \<times> jsval) list"
  | JPrincipal principal

datatype idl =
    IDL_Record "(string \<times> idl) list" | IDL_Variant "(string \<times> idl) list"
  | IDL_Opt idl | IDL_Vec idl | IDL_Tuple "idl list" | IDL_Rec idl
  | IDL_Principal | IDL_Null | IDL_Bool | IDL_Text | IDL_Reserved
  | IDL_Int | IDL_Nat | IDL_FixedInt nat | IDL_FixedNat nat | IDL_Float nat

datatype js_error = RangeError | TypeError | SyntaxError

text \<open>Reading a property of an object; other values have none of the names records use.\<close>

fun get_prop :: "jsval \<Rightarrow> string \<Rightarrow> jsval" where
  "get_prop (JObj kvs) k = (case map_of kvs k of Some v \<Rightarrow> v | None \<Rightarrow> JUndef)"
| "get_prop _ k = JUndef"

text \<open>\<open>typeof data === "object" && data !== null\<close>\<close>

fun is_object :: "jsval \<Rightarrow> bool" where
  "is_object (JBytes _) = True"
| "is_object (JBuffer _) = True"
| "is_object (JArr _) = True"
| "is_object (JObj _) = True"
| "is_object (JPrincipal _) = True"
| "is_object _ = False"

text \<open>The number types whose \<open>display()\<close> is int, int64, nat or nat64.\<close>

fun is_big_type :: "idl \<Rightarrow> bool" where
  "is_big_type IDL_Int = True"
| "is_big_type IDL_Nat = True"
| "is_big_type (IDL_FixedInt n) = (n = 64)"
| "is_big_type (IDL_FixedNat n) = (n = 64)"
| "is_big_type _ = False"

fun is_vec :: "idl \<Rightarrow> bool" where
  "is_vec (IDL_Vec _) = True"
| "is_vec _ = False"

text \<open>An element of \<open>new Uint8Array(array)\<close>: ToNumber, truncation towards zero, modulo 256; a BigInt
  throws. Arrays are read through their text, so an array of one number gives the number. A text that
  is no integer numeral is taken as NaN, hence 0.\<close>

definition trunc_rat :: "rat \<Rightarrow> int" where
  "trunc_rat r = (if 0 \<le> r then \<lfloor>r\<rfloor> else - \<lfloor>- r\<rfloor>)"

fun to_uint8 :: "jsval \<Rightarrow> js_error + 8 word" where
  "to_uint8 (JNum r) = Inr (word_of_int (trunc_rat r))"
| "to_uint8 (JBool b) = Inr (if b then 1 else 0)"
| "to_uint8 (JStr s) = Inr (case parse_bigint s of Some i \<Rightarrow> word_of_int i | None \<Rightarrow> 0)"
| "to_uint8 (JBig _) = Inl TypeError"
| "to_uint8 (JBytes [b]) = Inr b"
| "to_uint8 (JArr [JNum r]) = Inr (word_of_int (trunc_rat r))"
| "to_uint8 (JArr [JStr s]) = Inr (case parse_bigint s of Some i \<Rightarrow> word_of_int i | None \<Rightarrow> 0)"
| "to_uint8 (JArr [JBig i]) = Inr (word_of_int i)"
| "to_uint8 _ = Inr 0"

section \<open>The visitor\<close>

text \<open>\<open>visitPrimitive\<close>\<close>

definition visitPrimitive :: "idl \<Rightarrow> jsval \<Rightarrow> js_error + jsval" where
  "visitPrimitive t data =
     (if data = JUndef \<or> data = JNull then Inr data
      else if is_big_type t then
        (case data of
           JNum r \<Rightarrow> (case bigint_of_num r of Some i \<Rightarrow> Inr (JBig i) | None \<Rightarrow> Inl RangeError)
         | JStr s \<Rightarrow> Inr (JBig (case parse_bigint s of Some i \<Rightarrow> i | None \<Rightarrow> 0))
         | _ \<Rightarrow> Inr data)
      else Inr data)"

text \<open>\<open>visitPrincipal\<close>\<close>

definition visitPrincipal :: "(string \<Rightarrow> principal option) \<Rightarrow> jsval \<Rightarrow> js_error + jsval" where
  "visitPrincipal fromText data =
     (case data of
        JStr s \<Rightarrow> Inr (case fromText s of Some p \<Rightarrow> JPrincipal p | None \<Rightarrow> JStr s)
      | _ \<Rightarrow> Inr data)"

text \<open>The blob branch of \<open>visitVec\<close>.\<close>

definition visitBlob :: "jsval \<Rightarrow> js_error + jsval" where
  "visitBlob data =
     (case data of
        JBytes b \<Rightarrow> Inr (JBytes b)
      | JBuffer b \<Rightarrow> Inr (JBytes b)
      | JArr xs \<Rightarrow> map_sum_r JBytes (traverse to_uint8 xs)
      | _ \<Rightarrow> Inr data)"

lemma idl_size_assoc: "(k, t) \<in> set fs \<Longrightarrow> size t < Suc (size_list (size_prod (\<lambda>_. 0) size) fs)"
  by (induction fs) auto

lemma idl_size_map_of: "map_of fs k = Some t \<Longrightarrow> size t < Suc (size_list (size_prod (\<lambda>_. 0) size) fs)"
  by (rule idl_size_assoc [OF map_of_SomeD])

lemma idl_size_nth: "i < length ts \<Longrightarrow> size (ts ! i) < Suc (size_list size ts)"
proof -
  assume "i < length ts"
  then have "ts ! i \<in> set ts" by simp
  then have "size (ts ! i) \<le> size_list size ts" by (rule size_list_estimation') simp
  then show ?thesis by simp
qed

lemma idl_size_mem: "t \<in> set ts \<Longrightarrow> size t < Suc (size_list size ts)"
  using size_list_estimation' [of t ts "size t" size] by simp

text \<open>\<open>type.accept(visitor, data)\<close> for every type; one branch per visit method.\<close>

function visit :: "(string \<Rightarrow> principal option) \<Rightarrow> idl \<Rightarrow> jsval \<Rightarrow> js_error + jsval" where
  "visit ft (IDL_Record flds) data =
     (if \<not> is_object data then Inr data
      else map_sum_r JObj
        (traverse (\<lambda>(key, type). map_sum_r (Pair key) (visit ft type (get_prop data key))) flds))"
| "visit ft (IDL_Opt type) data =
     (case data of
        JUndef \<Rightarrow> Inr (JArr [])
      | JNull \<Rightarrow> Inr (JArr [])
      | JArr [] \<Rightarrow> Inr (JArr [])
      | JArr (x # xs) \<Rightarrow>
          if \<not> is_vec type then map_sum_r (\<lambda>v. JArr [v]) (visit ft type x)
          else map_sum_r (\<lambda>v. JArr [v]) (visit ft type data)
      | _ \<Rightarrow> map_sum_r (\<lambda>v. JArr [v]) (visit ft type data))"
| "visit ft (IDL_Vec type) data =
     (if type = IDL_FixedNat 8 then visitBlob data
      else (case data of
              JArr xs \<Rightarrow> map_sum_r JArr (traverse (visit ft type) xs)
            | _ \<Rightarrow> Inr (JArr [])))"
| "visit ft (IDL_Rec ty) data = visit ft ty data"
| "visit ft (IDL_Tuple components) data =
     (case data of
        JArr xs \<Rightarrow>
          map_sum_r JArr
            (traverse (\<lambda>i. if i < length components then visit ft (components ! i) (xs ! i) else Inr (xs ! i))
               [0..<length xs])
      | _ \<Rightarrow> Inr data)"
| "visit ft (IDL_Variant flds) data =
     (case data of
        JStr s \<Rightarrow> (if map_of flds s = Some IDL_Null then Inr (JObj [(s, JNull)]) else Inr data)
      | JObj [(key, v)] \<Rightarrow>
          (case map_of flds key of
             Some type \<Rightarrow> map_sum_r (\<lambda>w. JObj [(key, w)]) (visit ft type v)
           | None \<Rightarrow> Inr data)
      | _ \<Rightarrow> Inr data)"
| "visit ft IDL_Principal data = visitPrincipal ft data"
| "visit ft IDL_Null data = visitPrimitive IDL_Null data"
| "visit ft IDL_Bool data = visitPrimitive IDL_Bool data"
| "visit ft IDL_Text data = visitPrimitive IDL_Text data"
| "visit ft IDL_Reserved data = visitPrimitive IDL_Reserved data"
| "visit ft IDL_Int data = visitPrimitive IDL_Int data"
| "visit ft IDL_Nat data = visitPrimitive IDL_Nat data"
| "visit ft (IDL_FixedInt n) data = visitPrimitive (IDL_FixedInt n) data"
| "visit ft (IDL_FixedNat n) data = visitPrimitive (IDL_FixedNat n) data"
| "visit ft (IDL_Float n) data = visitPrimitive (IDL_Float n) data"
  by pat_completeness auto
termination
  by (relation "measure (\<lambda>(ft, t, d). size t)")
     (auto dest: idl_size_assoc idl_size_map_of intro: idl_size_nth)

text \<open>
  \<open>normalizePayload\<close>: the method's argument types are looked up in the service description; an
  unknown method passes the arguments through, and so does an argument without a type.
\<close>

definition normalizePayload ::
  "(string \<Rightarrow> principal option) \<Rightarrow> (string \<times> idl list) list \<Rightarrow> string \<Rightarrow> jsval list \<Rightarrow> js_error + jsval list" where
  "normalizePayload ft service methodName args =
     (case map_of service methodName of
        None \<Rightarrow> Inr args
      | Some argTypes \<Rightarrow>
          traverse (\<lambda>i. if i < length argTypes then visit ft (argTypes ! i) (args ! i) else Inr (args ! i))
            [0..<length args])"

section \<open>What the serializer accepts\<close>

text \<open>
  \<open>candid_value t v\<close>: \<open>v\<close> is a value the Candid library serializes at type \<open>t\<close> (its documented
  mapping: BigInt for the unbounded and 64-bit integers, number for the smaller ones, an array of
  at most one element for an optional, one-key object for a variant).
\<close>

function (sequential) candid_value :: "idl \<Rightarrow> jsval \<Rightarrow> bool" where
  "candid_value (IDL_Record flds) v =
     (is_object v \<and> list_all (\<lambda>(k, t). candid_value t (get_prop v k)) flds)"
| "candid_value (IDL_Opt t) v = (case v of JArr [] \<Rightarrow> True | JArr [x] \<Rightarrow> candid_value t x | _ \<Rightarrow> False)"
| "candid_value (IDL_Vec t) v =
     (if t = IDL_FixedNat 8 then (\<exists>b. v = JBytes b)
      else (case v of JArr xs \<Rightarrow> list_all (candid_value t) xs | _ \<Rightarrow> False))"
| "candid_value (IDL_Rec t) v = candid_value t v"
| "candid_value (IDL_Tuple ts) v = (case v of JArr xs \<Rightarrow> list_all2 candid_value ts xs | _ \<Rightarrow> False)"
| "candid_value (IDL_Variant flds) v =
     (case v of JObj [(k, w)] \<Rightarrow> (case map_of flds k of Some t \<Rightarrow> candid_value t w | None \<Rightarrow> False) | _ \<Rightarrow> False)"
| "candid_value IDL_Principal v = (\<exists>p. v = JPrincipal p)"
| "candid_value IDL_Null v = (v = JNull)"
| "candid_value IDL_Bool v = (\<exists>b. v = JBool b)"
| "candid_value IDL_Text v = (\<exists>s. v = JStr s)"
| "candid_value IDL_Reserved v = True"
| "candid_value IDL_Int v = (\<exists>i. v = JBig i)"
| "candid_value IDL_Nat v = (\<exists>i. v = JBig i \<and> 0 \<le> i)"
| "candid_value (IDL_FixedInt n) v =
     (if n = 64 then (\<exists>i. v = JBig i \<and> - (2 ^ 63) \<le> i \<and> i < 2 ^ 63)
      else (\<exists>i. v = JNum (of_int i) \<and> - (2 ^ (n - 1)) \<le> i \<and> i < 2 ^ (n - 1)))"
| "candid_value (IDL_FixedNat n) v =
     (if n = 64 then (\<exists>i. v = JBig i \<and> 0 \<le> i \<and> i < 2 ^ 64)
      else (\<exists>i. v = JNum (of_int i) \<and> 0 \<le> i \<and> i < 2 ^ n))"
| "candid_value (IDL_Float n) v = (\<exists>r. v = JNum r)"
  by pat_completeness auto
termination
  by (relation "measure (\<lambda>(t, v). size t)") (auto dest: idl_size_assoc idl_size_map_of intro: idl_size_mem)

section \<open>What the frontend may pass\<close>

text \<open>The integer a number, a numeral or a BigInt is converted to.\<close>

fun big_of :: "jsval \<Rightarrow> int option" where
  "big_of (JBig i) = Some i"
| "big_of (JNum r) = bigint_of_num r"
| "big_of (JStr s) = Some (case parse_bigint s of Some i \<Rightarrow> i | None \<Rightarrow> 0)"
| "big_of _ = None"

text \<open>
  \<open>frontend_value ft t d\<close>: the shapes the adapter documents: numbers and numerals for big integers,
  texts for principals, missing, bare or wrapped optionals, text shorthands for null variants,
  byte arrays of any kind for blobs.
\<close>

function (sequential) frontend_value :: "(string \<Rightarrow> principal option) \<Rightarrow> idl \<Rightarrow> jsval \<Rightarrow> bool" where
  "frontend_value ft (IDL_Record flds) d =
     (is_object d \<and> distinct (map fst flds) \<and> list_all (\<lambda>(k, t). frontend_value ft t (get_prop d k)) flds)"
| "frontend_value ft (IDL_Opt t) d =
     (case d of JUndef \<Rightarrow> True | JNull \<Rightarrow> True | JArr [] \<Rightarrow> True
      | JArr (x # xs) \<Rightarrow> (if is_vec t then frontend_value ft t d else frontend_value ft t x)
      | _ \<Rightarrow> frontend_value ft t d)"
| "frontend_value ft (IDL_Vec t) d =
     (if t = IDL_FixedNat 8 then
        (case d of JBytes _ \<Rightarrow> True | JBuffer _ \<Rightarrow> True
         | JArr xs \<Rightarrow> list_all (\<lambda>x. case x of JBig _ \<Rightarrow> False | _ \<Rightarrow> True) xs | _ \<Rightarrow> False)
      else (case d of JArr xs \<Rightarrow> list_all (frontend_value ft t) xs | _ \<Rightarrow> True))"
| "frontend_value ft (IDL_Rec t) d = frontend_value ft t d"
| "frontend_value ft (IDL_Tuple ts) d = (case d of JArr xs \<Rightarrow> list_all2 (frontend_value ft) ts xs | _ \<Rightarrow> False)"
| "frontend_value ft (IDL_Variant flds) d =
     (case d of
        JStr s \<Rightarrow> map_of flds s = Some IDL_Null
      | JObj [(k, w)] \<Rightarrow> (case map_of flds k of Some t \<Rightarrow> frontend_value ft t w | None \<Rightarrow> False)
      | _ \<Rightarrow> False)"
| "frontend_value ft IDL_Principal d =
     (case d of JPrincipal _ \<Rightarrow> True | JStr s \<Rightarrow> ft s \<noteq> None | _ \<Rightarrow> False)"
| "frontend_value ft IDL_Int d = (big_of d \<noteq> None)"
| "frontend_value ft IDL_Nat d = (case big_of d of Some i \<Rightarrow> 0 \<le> i | None \<Rightarrow> False)"
| "frontend_value ft (IDL_FixedInt n) d =
     (if n = 64 then (case big_of d of Some i \<Rightarrow> - (2 ^ 63) \<le> i \<and> i < 2 ^ 63 | None \<Rightarrow> False)
      else candid_value (IDL_FixedInt n) d)"
| "frontend_value ft (IDL_FixedNat n) d =
     (if n = 64 then (case big_of d of Some i \<Rightarrow> 0 \<le> i \<and> i < 2 ^ 64 | None \<Rightarrow> False)
      else candid_value (IDL_FixedNat n) d)"
| "frontend_value ft t d = candid_value t d"
  by pat_completeness auto
termination
  by (relation "measure (\<lambda>(ft, t, d). size t)") (auto dest: idl_size_assoc idl_size_map_of intro: idl_size_mem)

section \<open>Lemmas\<close>

definition well_visited :: "(string \<Rightarrow> principal option) \<Rightarrow> idl \<Rightarrow> jsval \<Rightarrow> bool" where
  "well_visited ft t d \<longleftrightarrow> (\<exists>v. visit ft t d = Inr v \<and> candid_value t v)"

named_theorems visited \<open>the visitor turns accepted shapes into serializable values, type by type\<close>

lemma get_prop_assoc:
  "distinct (map fst kvs) \<Longrightarrow> (k, v) \<in> set kvs \<Longrightarrow> get_prop (JObj kvs) k = v"
  by simp

lemma visited_prim_big:
  assumes "is_big_type t" and "big_of d = Some i"
  shows "visitPrimitive t d = Inr (JBig i)"
  using assms by (cases d) (auto simp: visitPrimitive_def)

lemma visited_prim_other:
  assumes "\<not> is_big_type t"
  shows "visitPrimitive t d = Inr d"
  using assms by (cases d) (auto simp: visitPrimitive_def)

lemma visited_record [visited]:
  assumes sub: "\<And>k t. (k, t) \<in> set flds \<Longrightarrow> well_visited ft t (get_prop d k)"
    and obj: "is_object d" and dist: "distinct (map fst flds)"
  shows "well_visited ft (IDL_Record flds) d"
proof -
  let ?f = "\<lambda>(key, type). map_sum_r (Pair key) (visit ft type (get_prop d key))"
  let ?P = "\<lambda>(k, t) (k', v). k' = k \<and> candid_value t v"
  have "\<exists>y. ?f x = Inr y \<and> ?P x y" if x: "x \<in> set flds" for x
  proof -
    obtain k t where kt: "x = (k, t)" by (cases x)
    with sub x obtain v where "visit ft t (get_prop d k) = Inr v" "candid_value t v"
      unfolding well_visited_def by blast
    with kt show ?thesis by (intro exI [of _ "(k, v)"]) simp
  qed
  then obtain ys where ys: "traverse ?f flds = Inr ys" and all: "list_all2 ?P flds ys"
    using traverse_ex [of flds ?f ?P] by blast
  have keys: "map fst ys = map fst flds" using all
    by (induction flds ys rule: list_all2_induct) auto
  have "candid_value t (get_prop (JObj ys) k)" if kt: "(k, t) \<in> set flds" for k t
  proof -
    from kt obtain i where i: "i < length flds" "flds ! i = (k, t)" by (auto simp: in_set_conv_nth)
    with all have len: "i < length ys" and p: "?P (flds ! i) (ys ! i)"
      by (auto simp: list_all2_conv_all_nth)
    obtain k' v where kv: "ys ! i = (k', v)" by (cases "ys ! i")
    with p i have "k' = k" and "candid_value t v" by auto
    moreover have "(k, v) \<in> set ys" using kv len \<open>k' = k\<close> nth_mem [OF len] by simp
    ultimately show ?thesis using get_prop_assoc [of ys k v] dist keys by simp
  qed
  then have "candid_value (IDL_Record flds) (JObj ys)" by (auto simp: list_all_iff)
  then show ?thesis using ys obj by (auto simp: well_visited_def)
qed

lemma visited_opt_some:
  assumes "well_visited ft t d"
  shows "\<exists>v. map_sum_r (\<lambda>v. JArr [v]) (visit ft t d) = Inr v \<and> candid_value (IDL_Opt t) v"
  using assms by (auto simp: well_visited_def)

lemma visited_vec [visited]:
  assumes "t \<noteq> IDL_FixedNat 8"
    and "\<And>xs x. d = JArr xs \<Longrightarrow> x \<in> set xs \<Longrightarrow> well_visited ft t x"
  shows "well_visited ft (IDL_Vec t) d"
proof (cases "\<exists>xs. d = JArr xs")
  case True
  then obtain xs where d: "d = JArr xs" by blast
  have "\<exists>ys. traverse (visit ft t) xs = Inr ys \<and> list_all2 (\<lambda>_ y. candid_value t y) xs ys"
    by (rule traverse_ex) (use assms(2) [OF d] in \<open>auto simp: well_visited_def\<close>)
  then obtain ys where ys: "traverse (visit ft t) xs = Inr ys"
    and all: "list_all2 (\<lambda>_ y. candid_value t y) xs ys" by blast
  have "list_all (candid_value t) ys" using all
    by (auto simp: list_all2_conv_all_nth list_all_length)
  then show ?thesis using ys d assms(1) by (simp add: well_visited_def)
next
  case False
  then show ?thesis using assms(1) by (cases d) (auto simp: well_visited_def)
qed

lemma visited_blob [visited]:
  assumes "frontend_value ft (IDL_Vec (IDL_FixedNat 8)) d"
  shows "well_visited ft (IDL_Vec (IDL_FixedNat 8)) d"
proof -
  have u: "\<exists>w. to_uint8 x = Inr w \<and> True" if "case x of JBig _ \<Rightarrow> False | _ \<Rightarrow> True" for x
    using that by (cases x rule: to_uint8.cases) auto
  show ?thesis
  proof (cases d)
    case (JArr xs)
    have "\<exists>ys. traverse to_uint8 xs = Inr ys \<and> list_all2 (\<lambda>_ _. True) xs ys"
      by (rule traverse_ex) (use assms JArr u in \<open>auto simp: list_all_iff\<close>)
    then show ?thesis using JArr by (auto simp: well_visited_def visitBlob_def)
  qed (use assms in \<open>auto simp: well_visited_def visitBlob_def\<close>)
qed

lemma visited_tuple [visited]:
  assumes "list_all2 (well_visited ft) ts xs"
  shows "well_visited ft (IDL_Tuple ts) (JArr xs)"
proof -
  let ?f = "\<lambda>i. if i < length ts then visit ft (ts ! i) (xs ! i) else Inr (xs ! i)"
  have len: "length ts = length xs" using assms by (rule list_all2_lengthD)
  have "\<exists>ys. traverse ?f [0..<length xs] = Inr ys \<and> list_all2 (\<lambda>i y. candid_value (ts ! i) y) [0..<length xs] ys"
    by (rule traverse_ex)
       (use assms len in \<open>auto simp: well_visited_def list_all2_conv_all_nth\<close>)
  then obtain ys where ys: "traverse ?f [0..<length xs] = Inr ys"
    and all: "list_all2 (\<lambda>i y. candid_value (ts ! i) y) [0..<length xs] ys" by blast
  from all len have "list_all2 candid_value ts ys" by (auto simp: list_all2_conv_all_nth)
  then show ?thesis using ys by (simp add: well_visited_def)
qed

lemma visit_frontend_value: "frontend_value ft t d \<Longrightarrow> well_visited ft t d"
proof (induction ft t d rule: frontend_value.induct)
  case (1 ft flds d)
  show ?case
    by (rule visited_record) (use 1 in \<open>auto simp: list_all_iff\<close>)
next
  case (2 ft t d)
  show ?case
  proof (cases d)
    case (JArr xs)
    show ?thesis
    proof (cases xs)
      case Nil
      with JArr show ?thesis by (simp add: well_visited_def)
    next
      case (Cons x ys)
      show ?thesis
      proof (cases "is_vec t")
        case True
        with 2 JArr Cons have "well_visited ft t d" by simp
        then show ?thesis using visited_opt_some [of ft t d] JArr Cons True
          by (simp add: well_visited_def)
      next
        case False
        with 2 JArr Cons have "well_visited ft t x" by simp
        then show ?thesis using visited_opt_some [of ft t x] JArr Cons False
          by (simp add: well_visited_def)
      qed
    qed
  qed (use 2 visited_opt_some [of ft t d] in \<open>simp_all add: well_visited_def\<close>)
next
  case (3 ft t d)
  show ?case
  proof (cases "t = IDL_FixedNat 8")
    case True
    with 3 show ?thesis using visited_blob by blast
  next
    case False
    show ?thesis by (rule visited_vec [OF False]) (use 3 False in \<open>auto simp: list_all_iff\<close>)
  qed
next
  case (4 ft t d)
  then show ?case by (simp add: well_visited_def)
next
  case (5 ft ts d)
  from 5(2) obtain xs where d: "d = JArr xs" and all: "list_all2 (frontend_value ft) ts xs"
    by (cases d) auto
  have "list_all2 (well_visited ft) ts xs"
    unfolding list_all2_conv_all_nth
  proof (intro conjI allI impI)
    show "length ts = length xs" using all by (rule list_all2_lengthD)
    fix i
    assume i: "i < length ts"
    with all have "frontend_value ft (ts ! i) (xs ! i)" and "i < length xs"
      by (auto simp: list_all2_conv_all_nth)
    with 5(1) [OF d, of "ts ! i" "xs ! i"] i show "well_visited ft (ts ! i) (xs ! i)" by simp
  qed
  then show ?case unfolding d by (rule visited_tuple)
next
  case (6 ft flds d)
  show ?case
  proof (cases "\<exists>k w. d = JObj [(k, w)]")
    case True
    then obtain k w where d: "d = JObj [(k, w)]" by blast
    with 6(2) obtain t where t: "map_of flds k = Some t" and "frontend_value ft t w"
      by (cases "map_of flds k") auto
    with 6(1) [OF d] obtain v where "visit ft t w = Inr v" and "candid_value t v"
      unfolding well_visited_def by blast
    with d t show ?thesis by (simp add: well_visited_def)
  next
    case False
    with 6(2) have "\<exists>s. d = JStr s \<and> map_of flds s = Some IDL_Null"
      by (auto simp: neq_Nil_conv split: jsval.splits list.splits prod.splits)
    then obtain s where "d = JStr s" and "map_of flds s = Some IDL_Null" by blast
    then show ?thesis by (simp add: well_visited_def)
  qed
next
  case (7 ft d)
  then show ?case
    by (auto simp: well_visited_def visitPrincipal_def split: jsval.splits option.splits)
next
  case (8 ft d)
  then obtain i where "big_of d = Some i" by auto
  then show ?case using visited_prim_big [of IDL_Int d i] by (simp add: well_visited_def)
next
  case (9 ft d)
  then obtain i where "big_of d = Some i" "0 \<le> i" by (auto split: option.splits)
  then show ?case using visited_prim_big [of IDL_Nat d i] by (simp add: well_visited_def)
next
  case (10 ft n d)
  show ?case
  proof (cases "n = 64")
    case True
    with 10 obtain i where "big_of d = Some i" "- (2 ^ 63) \<le> i" "i < 2 ^ 63"
      by (auto split: option.splits)
    then show ?thesis using visited_prim_big [of "IDL_FixedInt 64" d i] True
      by (simp add: well_visited_def)
  next
    case False
    with 10 show ?thesis by (auto simp: well_visited_def visited_prim_other)
  qed
next
  case (11 ft n d)
  show ?case
  proof (cases "n = 64")
    case True
    with 11 obtain i where "big_of d = Some i" "0 \<le> i" "i < 2 ^ 64"
      by (auto split: option.splits)
    then show ?thesis using visited_prim_big [of "IDL_FixedNat 64" d i] True
      by (simp add: well_visited_def)
  next
    case False
    with 11 show ?thesis by (auto simp: well_visited_def visited_prim_other)
  qed
qed (auto simp: well_visited_def visited_prim_other)

section \<open>Properties\<close>

text \<open>
  \<open>stands_for ft t d v\<close>: at type \<open>t\<close> the frontend's value \<open>d\<close> means the Candid value \<open>v\<close>, by the conversions the comment
  of the class lists: integers as BigInt, number or numeral, a principal's text, an optional that is missing,
  bare or wrapped, the name of a variant without a payload, bytes in any kind of array. A wrapped optional is read as
  one only when its inner type is no vector, where a wrapped and a bare value look alike.
\<close>

inductive stands_for :: "(string \<Rightarrow> principal option) \<Rightarrow> idl \<Rightarrow> jsval \<Rightarrow> jsval \<Rightarrow> bool" for ft where
  fields: "is_object d \<Longrightarrow> distinct (map fst flds) \<Longrightarrow> map fst kvs = map fst flds
    \<Longrightarrow> (\<And>i. i < length flds \<Longrightarrow> stands_for ft (snd (flds ! i)) (get_prop d (fst (flds ! i))) (snd (kvs ! i)))
    \<Longrightarrow> stands_for ft (IDL_Record flds) d (JObj kvs)"
| none: "d \<in> {JUndef, JNull, JArr []} \<Longrightarrow> stands_for ft (IDL_Opt t) d (JArr [])"
| bare: "stands_for ft t d v \<Longrightarrow> d \<notin> {JUndef, JNull, JArr []} \<Longrightarrow> is_vec t \<or> (\<forall>xs. d \<noteq> JArr xs)
    \<Longrightarrow> stands_for ft (IDL_Opt t) d (JArr [v])"
| wrapped: "stands_for ft t x v \<Longrightarrow> \<not> is_vec t \<Longrightarrow> stands_for ft (IDL_Opt t) (JArr [x]) (JArr [v])"
| bytes: "d \<in> {JBytes b, JBuffer b, JArr (map (\<lambda>w. JNum (of_int (uint w))) b)}
    \<Longrightarrow> stands_for ft (IDL_Vec (IDL_FixedNat 8)) d (JBytes b)"
| vec: "t \<noteq> IDL_FixedNat 8 \<Longrightarrow> length vs = length xs \<Longrightarrow> (\<And>i. i < length xs \<Longrightarrow> stands_for ft t (xs ! i) (vs ! i))
    \<Longrightarrow> stands_for ft (IDL_Vec t) (JArr xs) (JArr vs)"
| rec_type: "stands_for ft t d v \<Longrightarrow> stands_for ft (IDL_Rec t) d v"
| tuple: "length xs = length ts \<Longrightarrow> length vs = length ts
    \<Longrightarrow> (\<And>i. i < length ts \<Longrightarrow> stands_for ft (ts ! i) (xs ! i) (vs ! i)) \<Longrightarrow> stands_for ft (IDL_Tuple ts) (JArr xs) (JArr vs)"
| variant: "map_of flds k = Some t \<Longrightarrow> stands_for ft t w v \<Longrightarrow> stands_for ft (IDL_Variant flds) (JObj [(k, w)]) (JObj [(k, v)])"
| variant_name: "map_of flds s = Some IDL_Null \<Longrightarrow> stands_for ft (IDL_Variant flds) (JStr s) (JObj [(s, JNull)])"
| principal: "stands_for ft IDL_Principal (JPrincipal p) (JPrincipal p)"
| principal_text: "ft s = Some p \<Longrightarrow> stands_for ft IDL_Principal (JStr s) (JPrincipal p)"
| big: "is_big_type t \<Longrightarrow> candid_value t (JBig i) \<Longrightarrow> d = JBig i \<or> d = JNum (of_int i) \<or> (\<exists>s. d = JStr s \<and> parse_bigint s = Some i)
    \<Longrightarrow> stands_for ft t d (JBig i)"
| itself: "candid_value t d \<Longrightarrow> t \<in> {IDL_Null, IDL_Bool, IDL_Text, IDL_Reserved} \<union> range IDL_Float
      \<union> IDL_FixedInt ` (- {64}) \<union> IDL_FixedNat ` (- {64}) \<Longrightarrow> stands_for ft t d d"

lemma candid_record:
  assumes "distinct (map fst flds)" "map fst kvs = map fst flds"
    and "\<And>i. i < length flds \<Longrightarrow> candid_value (snd (flds ! i)) (snd (kvs ! i))"
  shows "candid_value (IDL_Record flds) (JObj kvs)"
proof -
  have "candid_value t (get_prop (JObj kvs) k)" if "(k, t) \<in> set flds" for k t
  proof -
    from that obtain i where i: "i < length flds" "flds ! i = (k, t)" by (auto simp: in_set_conv_nth)
    have len: "length kvs = length flds" using assms(2) by (metis length_map)
    then have "fst (kvs ! i) = k" using assms(2) i by (metis fst_conv nth_map)
    then have "(k, snd (kvs ! i)) \<in> set kvs" using i len nth_mem [of i kvs] by (metis prod.collapse)
    then have "get_prop (JObj kvs) k = snd (kvs ! i)" using get_prop_assoc assms(1,2) by simp
    then show ?thesis using assms(3) [OF i(1)] i(2) by simp
  qed
  then show ?thesis by (auto simp: list_all_iff)
qed

lemma traverse_by_nth:
  assumes "length ys = length xs" "\<And>i. i < length xs \<Longrightarrow> f (xs ! i) = Inr (ys ! i)"
  shows "traverse f xs = Inr ys"
  using assms
proof (induction xs arbitrary: ys)
  case (Cons x xs)
  then obtain y zs where ys: "ys = y # zs" by (cases ys) auto
  have "traverse f xs = Inr zs" by (rule Cons.IH) (use Cons.prems ys Cons.prems(2) [of "Suc i" for i] in auto)
  moreover have "f x = Inr y" using Cons.prems(2) [of 0] ys by simp
  ultimately show ?case by (simp add: ys)
qed simp

lemma to_uint8_uint: "to_uint8 (JNum (of_int (uint w))) = Inr w"
proof -
  have "trunc_rat (of_int i) = i" for i :: int by (simp add: trunc_rat_def)
  then show ?thesis by (simp only: to_uint8.simps word_of_int_uint)
qed

lemma visit_stands_for: "stands_for ft t d v \<Longrightarrow> visit ft t d = Inr v \<and> candid_value t v"
proof (induction rule: stands_for.induct)
  case (fields d flds kvs)
  have len: "length kvs = length flds" using fields.hyps(3) by (metis length_map)
  have "traverse (\<lambda>(key, type). map_sum_r (Pair key) (visit ft type (get_prop d key))) flds = Inr kvs"
  proof (rule traverse_by_nth [OF len])
    fix i
    assume i: "i < length flds"
    then have "fst (kvs ! i) = fst (flds ! i)" using fields.hyps(3) len by (metis nth_map)
    with fields.IH [OF i] show "(\<lambda>(key, type). map_sum_r (Pair key) (visit ft type (get_prop d key))) (flds ! i) = Inr (kvs ! i)"
      by (simp add: case_prod_unfold) (metis prod.collapse)
  qed
  with fields candid_record [OF fields.hyps(2,3)] show ?case by simp
next
  case (bare t d v)
  then show ?case by (cases d) (auto split: list.split)
next
  case (bytes d b)
  have "traverse to_uint8 (map (\<lambda>w. JNum (of_int (uint w))) b) = Inr b"
    by (rule traverse_by_nth) (simp_all only: length_map nth_map to_uint8_uint)
  with bytes show ?case by (auto simp: visitBlob_def)
next
  case (vec t vs xs)
  have "traverse (visit ft t) xs = Inr vs" by (rule traverse_by_nth) (use vec in simp_all)
  moreover have "list_all (candid_value t) vs" using vec by (simp add: list_all_length)
  ultimately show ?case using vec by simp
next
  case (tuple xs ts vs)
  have "traverse (\<lambda>i. if i < length ts then visit ft (ts ! i) (xs ! i) else Inr (xs ! i)) [0..<length xs] = Inr vs"
    by (rule traverse_by_nth) (use tuple in simp_all)
  moreover have "list_all2 candid_value ts vs" using tuple by (simp add: list_all2_conv_all_nth)
  ultimately show ?case by simp
next
  case (big t i d)
  then have "visitPrimitive t d = Inr (JBig i)" by (intro visited_prim_big) auto
  with big show ?case by (cases t) auto
next
  case (itself t d)
  then have "visitPrimitive t d = Inr d" by (intro visited_prim_other) auto
  with itself show ?case by auto
qed (auto simp: visitPrincipal_def)

text \<open>
  C23: the adapter does what it documents. When every argument stands for a Candid value of the declared type, by the
  conversions above, \<open>normalizePayload\<close> throws nothing and gives exactly these values, which the serializer accepts.
  The documented exception from double wrapping fails for optional vectors: the wrapped list of texts is accepted by
  the serializer, and the visitor wraps it again into a value that is not.
\<close>

theorem normalizePayload_serializable:
  assumes "map_of service methodName = Some argTypes"
    and "length args = length argTypes" "length out = length argTypes"
    and "\<And>i. i < length argTypes \<Longrightarrow> stands_for ft (argTypes ! i) (args ! i) (out ! i)"
  shows "normalizePayload ft service methodName args = Inr out \<and> list_all2 candid_value argTypes out
    \<and> candid_value (IDL_Opt (IDL_Vec IDL_Text)) (JArr [JArr (map JStr ws)])
      \<and> visit ft (IDL_Opt (IDL_Vec IDL_Text)) (JArr [JArr (map JStr ws)]) = Inr (JArr [JArr [JArr (map JStr ws)]])
      \<and> \<not> candid_value (IDL_Opt (IDL_Vec IDL_Text)) (JArr [JArr [JArr (map JStr ws)]])"
proof (intro conjI)
  let ?f = "\<lambda>i. if i < length argTypes then visit ft (argTypes ! i) (args ! i) else Inr (args ! i)"
  have "traverse ?f [0..<length args] = Inr out"
    by (rule traverse_by_nth) (use assms visit_stands_for in simp_all)
  then show "normalizePayload ft service methodName args = Inr out"
    using assms(1) by (simp add: normalizePayload_def)
  show "list_all2 candid_value argTypes out"
    unfolding list_all2_conv_all_nth using assms(3) visit_stands_for [OF assms(4)] by simp
qed (simp_all add: list_all_iff visitPrimitive_def)

lemma normalizePayload_serializable_witness:
  "normalizePayload Some
       [(''delete_chat'', [IDL_Nat, IDL_Opt IDL_Text]), (''kind'', [IDL_Variant [(''On'', IDL_Null)]])]
       ''delete_chat'' [JStr ''12'', JArr [JStr ''x'']] = Inr [JBig 12, JArr [JStr ''x'']]"
proof -
  have p: "parse_bigint ''12'' = Some 12" by code_simp
  have "stands_for Some ([IDL_Nat, IDL_Opt IDL_Text] ! i) ([JStr ''12'', JArr [JStr ''x'']] ! i)
      ([JBig 12, JArr [JStr ''x'']] ! i)" if "i < length [IDL_Nat, IDL_Opt IDL_Text]" for i
  proof -
    have "stands_for Some IDL_Nat (JStr ''12'') (JBig 12)" by (rule stands_for.big) (simp_all add: p)
    moreover have "stands_for Some (IDL_Opt IDL_Text) (JArr [JStr ''x'']) (JArr [JStr ''x''])"
      by (intro stands_for.wrapped stands_for.itself) simp_all
    ultimately show ?thesis using that by (cases i) simp_all
  qed
  from normalizePayload_serializable [OF _ _ _ this] show ?thesis by simp
qed

end
