(* ===== verification/Message_Tree.thy ===== *)
theory Message_Tree
  imports Domain
begin

text \<open>
  \<open>src/gpt_frontend/src/utils/messageTree.ts\<close>: the conversation tree of a chat. The messages of a
  chat are a \<open>Map\<close> in insertion order; a message names its parent, tool messages are left out of
  the tree. \<open>buildChildMap\<close> groups the messages by parent, \<open>findNewestLeaf\<close> walks the tree breadth
  first from a message to its newest leaf, \<open>getSiblings\<close> lists the alternatives at one place.
\<close>

type_synonym message_map = "(message_id, message) jsmap"

section \<open>Operations\<close>

definition add_child :: "message \<Rightarrow> (message_id, message list) jsmap \<Rightarrow> (message_id, message list) jsmap" where
  "add_child msg childMap =
     (if m_role msg = ToolMsg then childMap
      else case m_parentMessageId msg of
        None \<Rightarrow> childMap
      | Some pid \<Rightarrow>
          if pid = [] then childMap
          else
            let cm = (if map_has childMap pid then childMap else map_set pid [] childMap);
                children = the (map_get cm pid)
            in if List.find (\<lambda>child. msg_key child = msg_key msg) children = None
               then map_set pid (children @ [msg]) cm
               else cm)"

definition buildChildMap :: "message_map \<Rightarrow> (message_id, message list) jsmap" where
  "buildChildMap messagesMap =
     map (\<lambda>(key, arr). (key, sort_key m_createdAt arr)) (fold add_child (map_values messagesMap) [])"

definition children_of :: "(message_id, message list) jsmap \<Rightarrow> message_id \<Rightarrow> message list" where
  "children_of childMap nodeId = (case map_get childMap nodeId of Some arr \<Rightarrow> arr | None \<Rightarrow> [])"

text \<open>
  The \<open>while\<close> loop of \<open>findNewestLeaf\<close>: its state is the queue, the visited nodes and the newest
  leaf so far (\<open>None\<close> is the empty text of \<open>newestTime\<close>). It ends because a node is expanded at
  most once.
\<close>

definition pending_ids ::
  "(message_id, message list) jsmap \<Rightarrow> message_id list \<Rightarrow> message_id set \<Rightarrow> message_id set" where
  "pending_ids childMap queue visited =
     (set queue \<union> (\<Union>arr \<in> set (map_values childMap). msg_key ` set arr)) - visited"

lemma pending_ids_finite: "finite (pending_ids childMap queue visited)"
  by (simp add: pending_ids_def)

lemma children_of_pending:
  "msg_key ` set (children_of childMap n) \<subseteq> (\<Union>arr \<in> set (map_values childMap). msg_key ` set arr)"
proof (cases "map_get childMap n")
  case (Some arr)
  then have "arr \<in> set (map_values childMap)" by (rule map_get_value)
  with Some show ?thesis by (auto simp: children_of_def)
qed (simp add: children_of_def)

lemma pending_ids_skip: "pending_ids childMap queue visited \<subseteq> pending_ids childMap (n # queue) visited"
  by (auto simp: pending_ids_def)

lemma pending_ids_expand:
  assumes "n \<notin> visited" and "set extra \<subseteq> msg_key ` set (children_of childMap n)"
  shows "card (pending_ids childMap (queue @ extra) (insert n visited)) < card (pending_ids childMap (n # queue) visited)"
proof (rule psubset_card_mono [OF pending_ids_finite])
  have "set extra \<subseteq> (\<Union>arr \<in> set (map_values childMap). msg_key ` set arr)"
    using assms(2) children_of_pending [of childMap n] by (rule order_trans)
  then have "pending_ids childMap (queue @ extra) (insert n visited) \<subseteq> pending_ids childMap (n # queue) visited"
    unfolding pending_ids_def by auto
  moreover have "n \<in> pending_ids childMap (n # queue) visited"
    using assms(1) by (simp add: pending_ids_def)
  moreover have "n \<notin> pending_ids childMap (queue @ extra) (insert n visited)"
    by (simp add: pending_ids_def)
  ultimately show "pending_ids childMap (queue @ extra) (insert n visited) \<subset> pending_ids childMap (n # queue) visited"
    by blast
qed

function newest_leaf_loop ::
  "message_map \<Rightarrow> (message_id, message list) jsmap \<Rightarrow> message_id list \<Rightarrow> message_id set
     \<Rightarrow> instant option \<Rightarrow> message_id \<Rightarrow> message_id" where
  "newest_leaf_loop messagesMap childMap [] visited newestTime newestLeafId = newestLeafId"
| "newest_leaf_loop messagesMap childMap (nodeId # queue) visited newestTime newestLeafId =
     (if nodeId \<in> visited
      then newest_leaf_loop messagesMap childMap queue visited newestTime newestLeafId
      else
        let visited' = insert nodeId visited;
            childrenMessages = children_of childMap nodeId
        in if childrenMessages = [] then
             (case map_get messagesMap nodeId of
                Some node \<Rightarrow>
                  if m_role node \<noteq> ToolMsg
                     \<and> (case newestTime of None \<Rightarrow> True | Some t \<Rightarrow> t \<le> m_createdAt node)
                  then newest_leaf_loop messagesMap childMap queue visited' (Some (m_createdAt node)) nodeId
                  else newest_leaf_loop messagesMap childMap queue visited' newestTime newestLeafId
              | None \<Rightarrow> newest_leaf_loop messagesMap childMap queue visited' newestTime newestLeafId)
           else newest_leaf_loop messagesMap childMap
                  (queue @ filter (\<lambda>c. c \<notin> visited') (map msg_key childrenMessages))
                  visited' newestTime newestLeafId)"
  by pat_completeness auto

termination
proof (relation "measures [\<lambda>(m, cm, q, v, t, l). card (pending_ids cm q v), \<lambda>(m, cm, q, v, t, l). length q]",
    goal_cases)
  case 1
  then show ?case by simp
next
  case (2 m cm n q v t l)
  have "card (pending_ids cm q v) \<le> card (pending_ids cm (n # q) v)"
    by (rule card_mono [OF pending_ids_finite pending_ids_skip])
  then show ?case by auto
next
  case (3 m cm n q v t l)
  then show ?case using pending_ids_expand [of n v "[]" cm q] by simp
next
  case (4 m cm n q v t l)
  then show ?case using pending_ids_expand [of n v "[]" cm q] by simp
next
  case (5 m cm n q v t l)
  then show ?case using pending_ids_expand [of n v "[]" cm q] by simp
next
  case (6 m cm n q v t l v' ch)
  have "set (filter (\<lambda>c. c \<notin> v') (map msg_key ch)) \<subseteq> msg_key ` set (children_of cm n)"
    using 6 by auto
  with 6 show ?case
    using pending_ids_expand [of n v "filter (\<lambda>c. c \<notin> v') (map msg_key ch)" cm q] by simp
qed

definition findNewestLeaf :: "message_map \<Rightarrow> message_id \<Rightarrow> message_id" where
  "findNewestLeaf messagesMap startId =
     (case map_get messagesMap startId of
        None \<Rightarrow> startId
      | Some start \<Rightarrow>
          newest_leaf_loop messagesMap (buildChildMap messagesMap) [startId] {} (Some (m_createdAt start)) startId)"

definition getSiblings :: "message_map \<Rightarrow> message_id option \<Rightarrow> message list" where
  "getSiblings allMsgsMap parentId =
     sort_key m_createdAt
       (filter (\<lambda>msg. m_role msg \<noteq> ToolMsg \<and> m_parentMessageId msg = parentId) (map_values allMsgsMap))"

section \<open>The child map\<close>

text \<open>\<open>kid_of p m\<close>: message \<open>m\<close> hangs below \<open>p\<close> in the tree.\<close>

definition kid_of :: "message_id \<Rightarrow> message \<Rightarrow> bool" where
  "kid_of p m \<longleftrightarrow> m_role m \<noteq> ToolMsg \<and> m_parentMessageId m = Some p \<and> p \<noteq> []"

text \<open>The elements of a list whose key has not occurred before.\<close>

fun nub_by :: "('a \<Rightarrow> 'k) \<Rightarrow> 'a list \<Rightarrow> 'a list" where
  "nub_by f [] = []"
| "nub_by f (x # xs) = x # filter (\<lambda>y. f y \<noteq> f x) (nub_by f xs)"

lemma nub_by_keys [simp]: "f ` set (nub_by f xs) = f ` set xs"
proof (induction xs)
  case (Cons x xs)
  have "f ` set (nub_by f (x # xs)) = insert (f x) (f ` set (nub_by f xs))" by auto
  with Cons show ?case by simp
qed simp

lemma nub_by_subset: "set (nub_by f xs) \<subseteq> set xs"
  by (induction xs) auto

lemma nub_by_Nil_iff [simp]: "nub_by f xs = [] \<longleftrightarrow> xs = []"
  by (cases xs) auto

lemma nub_by_distinct: "distinct (map f (nub_by f xs))"
  by (induction xs) (auto simp: distinct_map inj_on_def)

lemma nub_by_id: "distinct (map f xs) \<Longrightarrow> nub_by f xs = xs"
proof (induction xs)
  case (Cons x xs)
  then have "nub_by f xs = xs" by simp
  moreover have "filter (\<lambda>y. f y \<noteq> f x) xs = xs"
    using Cons.prems by (metis (mono_tags, lifting) distinct.simps(2) filter_True image_eqI list.simps(9) list.set_map)
  ultimately show ?case by simp
qed simp

lemma find_key_None: "List.find (\<lambda>c. f c = k) xs = None \<longleftrightarrow> k \<notin> f ` set xs"
  by (auto simp: find_None_iff_all)

lemma children_of_add_child:
  "children_of (add_child m cm) p =
     (if kid_of p m \<and> msg_key m \<notin> msg_key ` set (children_of cm p) then children_of cm p @ [m]
      else children_of cm p)"
  by (auto simp: add_child_def children_of_def kid_of_def Let_def map_has_def find_key_None
      split: option.splits)

lemma children_of_fold:
  "children_of (fold add_child xs cm) p =
     children_of cm p @ filter (\<lambda>y. msg_key y \<notin> msg_key ` set (children_of cm p)) (nub_by msg_key (filter (kid_of p) xs))"
proof (induction xs arbitrary: cm)
  case (Cons x xs)
  show ?case
    by (simp only: fold_simps Cons.IH children_of_add_child)
       (auto simp: image_iff intro!: filter_cong)
qed simp

definition child_map_ok :: "(message_id, message list) jsmap \<Rightarrow> bool" where
  "child_map_ok cm \<longleftrightarrow> map_ok cm \<and> (\<forall>k arr. map_get cm k = Some arr \<longrightarrow> arr \<noteq> [])"

lemma child_map_ok_add: "child_map_ok cm \<Longrightarrow> child_map_ok (add_child m cm)"
  by (auto simp: child_map_ok_def add_child_def Let_def map_has_def split: option.splits)

lemma child_map_ok_fold: "child_map_ok cm \<Longrightarrow> child_map_ok (fold add_child xs cm)"
  by (induction xs arbitrary: cm) (auto simp: child_map_ok_add)

lemma map_get_buildChildMap:
  "map_get (buildChildMap m) p = map_option (sort_key m_createdAt) (map_get (fold add_child (map_values m) []) p)"
  by (simp add: buildChildMap_def map_of_map)

lemma children_of_buildChildMap:
  "children_of (buildChildMap m) p = sort_key m_createdAt (nub_by msg_key (filter (kid_of p) (map_values m)))"
proof -
  have "children_of (buildChildMap m) p = sort_key m_createdAt (children_of (fold add_child (map_values m) []) p)"
    by (simp add: children_of_def map_get_buildChildMap split: option.split)
  also have "children_of (fold add_child (map_values m) []) p = nub_by msg_key (filter (kid_of p) (map_values m))"
    by (simp add: children_of_fold) (simp add: children_of_def)
  finally show ?thesis .
qed

lemma map_get_buildChildMap_None:
  "map_get (buildChildMap m) p = None \<longleftrightarrow> (\<forall>v \<in> set (map_values m). \<not> kid_of p v)"
proof -
  let ?cm = "fold add_child (map_values m) []"
  have ok: "child_map_ok ?cm" by (rule child_map_ok_fold) (simp add: child_map_ok_def)
  have "map_get ?cm p = None \<longleftrightarrow> children_of ?cm p = []"
    using ok by (auto simp: child_map_ok_def children_of_def split: option.split)
  also have "\<dots> \<longleftrightarrow> filter (kid_of p) (map_values m) = []"
    by (simp add: children_of_fold) (simp add: children_of_def)
  finally show ?thesis by (simp add: map_get_buildChildMap filter_empty_conv)
qed

text \<open>A store keeps every message under its own identifier.\<close>

definition keyed :: "message_map \<Rightarrow> bool" where
  "keyed m \<longleftrightarrow> map_ok m \<and> (\<forall>(k, v) \<in> set m. msg_key v = k)"

lemma keyed_Nil [simp]: "keyed []"
  by (simp add: keyed_def)

lemma keyed_values: "keyed m \<Longrightarrow> map msg_key (map_values m) = map_keys m"
  by (auto simp: keyed_def)

lemma keyed_distinct: "keyed m \<Longrightarrow> distinct (map msg_key (filter P (map_values m)))"
proof -
  assume m: "keyed m"
  then have "distinct (map msg_key (map_values m))"
    unfolding keyed_values [OF m] by (simp add: keyed_def map_ok_def)
  then show ?thesis by (rule distinct_map_filter)
qed

lemma keyed_get: "keyed m \<Longrightarrow> map_get m k = Some v \<Longrightarrow> msg_key v = k"
  by (auto simp: keyed_def dest: map_of_SomeD)

lemma keyed_set: "keyed m \<Longrightarrow> msg_key v = k \<Longrightarrow> keyed (map_set k v m)"
proof -
  assume m: "keyed m" and v: "msg_key v = k"
  have "set (map_set k v m) \<subseteq> insert (k, v) (set m)"
    by (induction m) auto
  with m v show ?thesis by (auto simp: keyed_def)
qed

section \<open>The newest leaf\<close>

text \<open>The edges of the tree, its leaves, and what holds at every turn of the walk.\<close>

definition below :: "message_map \<Rightarrow> (message_id \<times> message_id) set" where
  "below m = {(p, c). \<exists>v \<in> set (map_values m). kid_of p v \<and> msg_key v = c}"

definition leaf_at :: "message_map \<Rightarrow> message_id \<Rightarrow> message \<Rightarrow> bool" where
  "leaf_at m c v \<longleftrightarrow> map_get m c = Some v \<and> m_role v \<noteq> ToolMsg \<and> (\<forall>w \<in> set (map_values m). \<not> kid_of c w)"

lemma children_keys: "msg_key ` set (children_of (buildChildMap m) p) = {c. (p, c) \<in> below m}"
  by (auto simp: children_of_buildChildMap below_def)

lemma sort_key_Nil_iff [simp]: "sort_key f xs = [] \<longleftrightarrow> xs = []"
  by (metis length_0_conv length_sort)

lemma children_Nil_iff: "children_of (buildChildMap m) p = [] \<longleftrightarrow> (\<forall>w \<in> set (map_values m). \<not> kid_of p w)"
  by (auto simp: children_of_buildChildMap filter_empty_conv)

definition leaf_inv ::
  "message_map \<Rightarrow> message_id \<Rightarrow> instant \<Rightarrow> message_id list \<Rightarrow> message_id set \<Rightarrow> instant \<Rightarrow> message_id \<Rightarrow> bool" where
  "leaf_inv m s t0 queue visited t l \<longleftrightarrow>
     (\<forall>c \<in> visited \<union> set queue. (s, c) \<in> (below m)\<^sup>*) \<and> s \<in> visited \<union> set queue
     \<and> (\<forall>p \<in> visited. \<forall>c. (p, c) \<in> below m \<longrightarrow> c \<in> visited \<union> set queue)
     \<and> (s, l) \<in> (below m)\<^sup>* \<and> t0 \<le> t
     \<and> (\<forall>c \<in> visited. \<forall>v. leaf_at m c v \<longrightarrow> m_createdAt v \<le> t)
     \<and> ((\<exists>v. leaf_at m l v \<and> m_createdAt v = t)
        \<or> l = s \<and> t = t0 \<and> (\<forall>c \<in> visited. \<forall>v. leaf_at m c v \<longrightarrow> m_createdAt v < t0))"

lemma leaf_inv_reach: "leaf_inv m s t0 queue visited t l \<Longrightarrow> c \<in> visited \<union> set queue \<Longrightarrow> (s, c) \<in> (below m)\<^sup>*"
  by (simp add: leaf_inv_def)

lemma leaf_inv_skip: "leaf_inv m s t0 (n # queue) visited t l \<Longrightarrow> n \<in> visited \<Longrightarrow> leaf_inv m s t0 queue visited t l"
  unfolding leaf_inv_def by auto

text \<open>Visiting a node: its children are queued, and the best leaf is adjusted.\<close>

lemma leaf_inv_visit:
  assumes inv: "leaf_inv m s t0 (n # queue) visited t l"
    and extra: "\<And>c. (n, c) \<in> below m \<Longrightarrow> c \<in> insert n visited \<union> set extra"
      "\<And>c. c \<in> set extra \<Longrightarrow> (n, c) \<in> below m"
    and best: "(s, l') \<in> (below m)\<^sup>*" "t \<le> t'"
      "\<And>v. leaf_at m n v \<Longrightarrow> m_createdAt v \<le> t'"
      "(\<exists>v. leaf_at m l' v \<and> m_createdAt v = t') \<or> l' = l \<and> t' = t \<and> (\<forall>v. leaf_at m n v \<longrightarrow> m_createdAt v < t)"
  shows "leaf_inv m s t0 (queue @ extra) (insert n visited) t' l'"
proof -
  note inv' = inv [unfolded leaf_inv_def]
  have n: "(s, n) \<in> (below m)\<^sup>*" using inv' by simp
  have reach: "\<forall>c \<in> insert n visited \<union> set (queue @ extra). (s, c) \<in> (below m)\<^sup>*"
    using inv' extra(2) rtrancl_into_rtrancl [OF n] by auto
  have closed: "\<forall>p \<in> insert n visited. \<forall>c. (p, c) \<in> below m \<longrightarrow> c \<in> insert n visited \<union> set (queue @ extra)"
    using inv' extra(1) by auto
  have bound: "\<forall>c \<in> insert n visited. \<forall>v. leaf_at m c v \<longrightarrow> m_createdAt v \<le> t'"
    using inv' best(2,3) order_trans by blast
  have last: "(\<exists>v. leaf_at m l' v \<and> m_createdAt v = t')
    \<or> l' = s \<and> t' = t0 \<and> (\<forall>c \<in> insert n visited. \<forall>v. leaf_at m c v \<longrightarrow> m_createdAt v < t0)"
    using inv' best(4) by blast
  have "s \<in> insert n visited \<union> set (queue @ extra)" and "t0 \<le> t'" using inv' best(2) by auto
  with reach closed best(1) bound last show ?thesis unfolding leaf_inv_def by blast
qed

lemma leaf_inv_expand:
  assumes "leaf_inv m s t0 (n # queue) visited t l"
    and ch: "children_of (buildChildMap m) n = ch" and "ch \<noteq> []"
  shows "leaf_inv m s t0 (queue @ filter (\<lambda>c. c \<notin> insert n visited) (map msg_key ch)) (insert n visited) t l"
proof -
  have keys: "msg_key ` set ch = {c. (n, c) \<in> below m}" using children_keys [of m n] ch by simp
  have nl: "\<not> leaf_at m n v" for v
    using assms(2,3) children_Nil_iff [of m n] by (auto simp: leaf_at_def)
  show ?thesis
  proof (rule leaf_inv_visit [OF assms(1)])
    show "(s, l) \<in> (below m)\<^sup>*" using assms(1) by (simp add: leaf_inv_def)
  qed (use keys nl in auto)
qed

lemma leaf_no_edge: "children_of (buildChildMap m) n = [] \<Longrightarrow> (n, c) \<notin> below m"
  by (auto simp: children_Nil_iff below_def)

lemma leaf_inv_leaf:
  assumes "leaf_inv m s t0 (n # queue) visited t l"
    and "children_of (buildChildMap m) n = []" and v: "map_get m n = Some v" "m_role v \<noteq> ToolMsg" "t \<le> m_createdAt v"
  shows "leaf_inv m s t0 queue (insert n visited) (m_createdAt v) n"
proof -
  have lv: "leaf_at m n v" using assms(2) v by (simp add: leaf_at_def children_Nil_iff)
  have "leaf_inv m s t0 (queue @ []) (insert n visited) (m_createdAt v) n"
  proof (rule leaf_inv_visit [OF assms(1)])
    show "(s, n) \<in> (below m)\<^sup>*" using leaf_inv_reach [OF assms(1), of n] by simp
  qed (use lv v leaf_no_edge [OF assms(2)] in \<open>auto simp: leaf_at_def\<close>)
  then show ?thesis by simp
qed

lemma leaf_inv_older:
  assumes "leaf_inv m s t0 (n # queue) visited t l"
    and "children_of (buildChildMap m) n = []"
    and old: "\<And>v. map_get m n = Some v \<Longrightarrow> m_role v \<noteq> ToolMsg \<Longrightarrow> m_createdAt v < t"
  shows "leaf_inv m s t0 queue (insert n visited) t l"
proof -
  have "leaf_inv m s t0 (queue @ []) (insert n visited) t l"
  proof (rule leaf_inv_visit [OF assms(1)])
    show "(s, l) \<in> (below m)\<^sup>*" using assms(1) by (simp add: leaf_inv_def)
  qed (use leaf_no_edge [OF assms(2)] old in \<open>auto simp: leaf_at_def less_imp_le\<close>)
  then show ?thesis by simp
qed

lemma newest_leaf_loop_inv:
  assumes "leaf_inv m s t0 queue visited t l"
  shows "\<exists>visited' t'. leaf_inv m s t0 [] visited' t'
           (newest_leaf_loop m (buildChildMap m) queue visited (Some t) l)"
  using assms
proof (induction m "buildChildMap m" queue visited "Some t" l arbitrary: t rule: newest_leaf_loop.induct)
  case (1 m visited l t)
  then show ?case by auto
next
  case (2 m n queue visited l t)
  note IH = 2(1-5) and inv = 2(6)
  show ?case
  proof (cases "n \<in> visited")
    case True
    with IH(1) leaf_inv_skip [OF inv True] show ?thesis by simp
  next
    case new: False
    show ?thesis
    proof (cases "children_of (buildChildMap m) n = []")
      case leaf: True
      show ?thesis
      proof (cases "\<exists>v. map_get m n = Some v \<and> m_role v \<noteq> ToolMsg \<and> t \<le> m_createdAt v")
        case True
        then obtain v where v: "map_get m n = Some v" "m_role v \<noteq> ToolMsg" "t \<le> m_createdAt v" by blast
        with IH(3) [OF new refl refl leaf v(1)] leaf_inv_leaf [OF inv leaf v] new leaf
        show ?thesis by simp
      next
        case False
        then have old: "leaf_inv m s t0 queue (insert n visited) t l"
          by (intro leaf_inv_older [OF inv leaf]) force
        have "newest_leaf_loop m (buildChildMap m) (n # queue) visited (Some t) l
            = newest_leaf_loop m (buildChildMap m) queue (insert n visited) (Some t) l"
          using False new leaf by (cases "map_get m n") auto
        moreover have "\<exists>visited' t'. leaf_inv m s t0 [] visited' t'
            (newest_leaf_loop m (buildChildMap m) queue (insert n visited) (Some t) l)"
        proof (cases "map_get m n")
          case None
          show ?thesis by (rule IH(2) [OF new refl refl leaf None old])
        next
          case (Some v)
          show ?thesis by (rule IH(4) [OF new refl refl leaf Some _ old]) (use False Some in simp)
        qed
        ultimately show ?thesis by (simp only:)
      qed
    next
      case False
      from IH(5) [OF new refl refl False] leaf_inv_expand [OF inv refl False] new False
      show ?thesis by simp
    qed
  qed
qed

lemma leaf_inv_done:
  assumes "leaf_inv m s t0 [] visited t l"
  shows "(s, c) \<in> (below m)\<^sup>* \<Longrightarrow> c \<in> visited"
proof (induction rule: rtrancl_induct)
  case base
  then show ?case using assms by (simp add: leaf_inv_def)
next
  case (step y z)
  then show ?case using assms by (auto simp: leaf_inv_def)
qed

lemma leaf_inv_start: "leaf_inv m s t0 [s] {} t0 s"
  by (simp add: leaf_inv_def)

text \<open>
  C21: \<open>findNewestLeaf\<close> returns, on every message map (also one with cycles), a message reachable from
  the start. It is a leaf at least as new as the start and as every other leaf below the start,
  or it is the start itself and every leaf below it is older.
\<close>

theorem findNewestLeaf_newest:
  assumes "map_get m s = Some start"
  shows "\<exists>v. map_get m (findNewestLeaf m s) = Some v \<and> (s, findNewestLeaf m s) \<in> (below m)\<^sup>*
     \<and> m_createdAt start \<le> m_createdAt v
     \<and> (\<forall>c w. (s, c) \<in> (below m)\<^sup>* \<and> leaf_at m c w \<longrightarrow> m_createdAt w \<le> m_createdAt v)
     \<and> (leaf_at m (findNewestLeaf m s) v
        \<or> findNewestLeaf m s = s
          \<and> (\<forall>c w. (s, c) \<in> (below m)\<^sup>* \<and> leaf_at m c w \<longrightarrow> m_createdAt w < m_createdAt start))"
proof -
  let ?r = "findNewestLeaf m s"
  have r: "?r = newest_leaf_loop m (buildChildMap m) [s] {} (Some (m_createdAt start)) s"
    using assms by (simp add: findNewestLeaf_def)
  obtain visited t where inv: "leaf_inv m s (m_createdAt start) [] visited t ?r"
    using newest_leaf_loop_inv [OF leaf_inv_start] unfolding r by blast
  note all = leaf_inv_done [OF inv]
  consider (leaf) v where "leaf_at m ?r v" "m_createdAt v = t"
    | (start) "?r = s" "t = m_createdAt start" "\<forall>c \<in> visited. \<forall>w. leaf_at m c w \<longrightarrow> m_createdAt w < m_createdAt start"
    using inv unfolding leaf_inv_def by blast
  then show ?thesis
  proof cases
    case leaf
    have "m_createdAt start \<le> m_createdAt v" "(s, ?r) \<in> (below m)\<^sup>*"
      using inv leaf(2) by (simp_all add: leaf_inv_def)
    moreover have "m_createdAt w \<le> m_createdAt v" if "(s, c) \<in> (below m)\<^sup>*" "leaf_at m c w" for c w
      using inv all [OF that(1)] that(2) leaf(2) by (simp add: leaf_inv_def)
    moreover have "map_get m ?r = Some v" using leaf(1) by (simp add: leaf_at_def)
    ultimately show ?thesis using leaf(1) by blast
  next
    case start
    have "m_createdAt w < m_createdAt start" if "(s, c) \<in> (below m)\<^sup>*" "leaf_at m c w" for c w
      using start(3) all [OF that(1)] that(2) by simp
    with start(1) assms show ?thesis by (intro exI [of _ start]) (auto intro: less_imp_le)
  qed
qed

lemma findNewestLeaf_newest_witness:
  "\<exists>v. map_get [(''1'', plain_message ''1'' ''c'' User [] None 5), (''2'', plain_message ''2'' ''c'' Assistant [] (Some ''1'') 9)]
        (findNewestLeaf [(''1'', plain_message ''1'' ''c'' User [] None 5), (''2'', plain_message ''2'' ''c'' Assistant [] (Some ''1'') 9)] ''1'')
      = Some v \<and> 5 \<le> m_createdAt v"
proof -
  let ?m = "[(''1'', plain_message ''1'' ''c'' User [] None 5), (''2'', plain_message ''2'' ''c'' Assistant [] (Some ''1'') 9)]"
  have "map_get ?m ''1'' = Some (plain_message ''1'' ''c'' User [] None 5)" by simp
  from findNewestLeaf_newest [OF this] show ?thesis unfolding plain_message_simps by blast
qed

text \<open>
  The two views of the tree agree. In a map that keeps every message under its own identifier,
  the child map lists below a message exactly its siblings' list: the non-tool messages with that
  parent, oldest first, equal times in insertion order; a message without children has no entry.
\<close>

theorem buildChildMap_siblings:
  assumes "keyed m" and "p \<noteq> []"
  shows "map_get (buildChildMap m) p =
           (if getSiblings m (Some p) = [] then None else Some (getSiblings m (Some p)))
    \<and> sorted (map m_createdAt (getSiblings m (Some p)))
    \<and> set (getSiblings m (Some p)) = {v \<in> set (map_values m). m_role v \<noteq> ToolMsg \<and> m_parentMessageId v = Some p}"
proof (intro conjI)
  have kid: "kid_of p = (\<lambda>msg. m_role msg \<noteq> ToolMsg \<and> m_parentMessageId msg = Some p)"
    using assms(2) by (auto simp: kid_of_def fun_eq_iff)
  have eq: "children_of (buildChildMap m) p = getSiblings m (Some p)"
    using nub_by_id [OF keyed_distinct [OF assms(1)], of "kid_of p"]
    by (simp add: children_of_buildChildMap getSiblings_def kid)
  show "map_get (buildChildMap m) p = (if getSiblings m (Some p) = [] then None else Some (getSiblings m (Some p)))"
  proof (cases "map_get (buildChildMap m) p")
    case None
    then have "children_of (buildChildMap m) p = []" by (simp add: children_of_def)
    with None eq show ?thesis by simp
  next
    case (Some arr)
    then have "arr = getSiblings m (Some p)" using eq by (simp add: children_of_def)
    moreover have "\<exists>v \<in> set (map_values m). kid_of p v"
      using Some map_get_buildChildMap_None [of m p] by auto
    then have "children_of (buildChildMap m) p \<noteq> []" by (simp add: children_Nil_iff)
    ultimately show ?thesis using Some eq by simp
  qed
qed (auto simp: getSiblings_def)

lemma buildChildMap_siblings_witness:
  "map_get (buildChildMap [(''2'', plain_message ''2'' ''c'' User [] (Some ''1'') 9), (''3'', plain_message ''3'' ''c'' User [] (Some ''1'') 7)]) ''1''
   = Some [plain_message ''3'' ''c'' User [] (Some ''1'') 7, plain_message ''2'' ''c'' User [] (Some ''1'') 9]"
  using buildChildMap_siblings
    [of "[(''2'', plain_message ''2'' ''c'' User [] (Some ''1'') 9), (''3'', plain_message ''3'' ''c'' User [] (Some ''1'') 7)]" "''1''"]
  by (simp add: keyed_def getSiblings_def)

end
