(* ===== verification/Message_Merge.thy ===== *)
theory Message_Merge
  imports Message_Tree
begin

text \<open>
  \<open>src/gpt_frontend/src/store/chatStore/actions/messageData/helpers.ts\<close>: reconciling the messages
  fetched from the user's canister with the local ones (which may be ahead of it while a stream
  runs), and with the state of the chat's jobs. Fetched messages come from \<open>mappers.ts\<close>, which
  writes every property but \<open>jobId\<close> and \<open>modelId\<close>; a missing optional property and one set to
  \<open>undefined\<close> are both \<open>None\<close>, and only these two can therefore show through the second spread of
  the fetched message.
\<close>

section \<open>Operations\<close>

text \<open>The merged message of one key.\<close>

definition merge_message :: "message \<Rightarrow> message \<Rightarrow> message" where
  "merge_message fetchedVersion lMsg =
     (let finalContent =
            (if m_content lMsg \<noteq> [] \<and> (m_content fetchedVersion = []
                 \<or> truthy (m_isComplete lMsg) \<and> \<not> truthy (m_isComplete fetchedVersion))
             then m_content lMsg
             else if m_content fetchedVersion \<noteq> [] then m_content fetchedVersion else m_content lMsg);
          finalErrorStatus = or_else (m_errorStatus lMsg) (m_errorStatus fetchedVersion);
          finalUsage = or_else (m_usage lMsg) (m_usage fetchedVersion);
          finalModelId = or_str (m_modelId lMsg) (m_modelId fetchedVersion)
      in fetchedVersion
           \<lparr>m_jobId := or_else (m_jobId fetchedVersion) (m_jobId lMsg),
            m_content := finalContent, m_errorStatus := finalErrorStatus, m_usage := finalUsage,
            m_modelId := finalModelId,
            m_isComplete := Some (truthy (m_isComplete fetchedVersion) \<or> truthy (m_isComplete lMsg)
                                  \<or> finalErrorStatus \<noteq> None)\<rparr>)"

definition merge_entry :: "message_id \<times> message \<Rightarrow> message_map \<Rightarrow> message_map" where
  "merge_entry entry mergedMap =
     (case entry of (lMsgId, lMsg) \<Rightarrow>
       (case map_get mergedMap lMsgId of
          Some fetchedVersion \<Rightarrow> map_set lMsgId (merge_message fetchedVersion lMsg) mergedMap
        | None \<Rightarrow> map_set lMsgId lMsg mergedMap))"

definition mergeFetchedWithLocalMap :: "message list \<Rightarrow> message_map option \<Rightarrow> message_map" where
  "mergeFetchedWithLocalMap fetchedMessages localMap =
     (let mergedMap = map_set_all msg_key id fetchedMessages [];
          currentLocalMessages = (case localMap of Some m \<Rightarrow> m | None \<Rightarrow> [])
      in fold merge_entry currentLocalMessages mergedMap)"

text \<open>The generation status of a job is the name of its variant.\<close>

definition find_related_job :: "message \<Rightarrow> job list \<Rightarrow> job option" where
  "find_related_job msg jobs =
     List.find (\<lambda>job. j_placeholder_message_id job = msg_key msg \<or> Some (j_job_id job) = m_jobId msg) jobs"

definition merge_job :: "job list \<Rightarrow> message \<Rightarrow> message" where
  "merge_job jobs msg =
     (if m_role msg \<noteq> Assistant then msg
      else case find_related_job msg jobs of
        None \<Rightarrow> msg
      | Some relatedJob \<Rightarrow>
          let isJobComplete = (j_generation_status relatedJob = ''Completed'');
              isJobFailed = (j_generation_status relatedJob = ''Failed'');
              inferredErrorStatus =
                (if isJobFailed \<and> m_errorStatus msg = None
                 then Some \<lparr>es_type = UnknownError, es_message = Some ''Generation failed as per job status.'',
                            es_details = None\<rparr>
                 else m_errorStatus msg)
          in msg\<lparr>m_modelId := or_str (m_modelId msg) (Some (j_model_id relatedJob)),
                 m_jobId := or_str (m_jobId msg) (Some (j_job_id relatedJob)),
                 m_isComplete := Some (truthy (m_isComplete msg) \<or> isJobComplete \<or> isJobFailed
                                       \<or> inferredErrorStatus \<noteq> None),
                 m_errorStatus := inferredErrorStatus\<rparr>)"

definition mergeJobDetailsIntoMap :: "message_map \<Rightarrow> job list \<Rightarrow> message_map" where
  "mergeJobDetailsIntoMap messageMap jobs = map (\<lambda>(msgId, msg). (msgId, merge_job jobs msg)) messageMap"

section \<open>Merging one message\<close>

lemma msg_key_merge [simp]: "msg_key (merge_message f l) = msg_key f"
  by (simp add: merge_message_def Let_def)

lemma merge_message_flds [simp]:
  "m_role (merge_message f l) = m_role f"
  "m_parentMessageId (merge_message f l) = m_parentMessageId f"
  "m_createdAt (merge_message f l) = m_createdAt f"
  "m_errorStatus (merge_message f l) = or_else (m_errorStatus l) (m_errorStatus f)"
  "m_isComplete (merge_message f l) = Some (truthy (m_isComplete f) \<or> truthy (m_isComplete l)
      \<or> or_else (m_errorStatus l) (m_errorStatus f) \<noteq> None)"
  "m_jobId (merge_message f l) = or_else (m_jobId f) (m_jobId l)"
  by (simp_all add: merge_message_def Let_def)

lemma merge_message_content:
  "m_content (merge_message f l) =
     (if m_content f = [] \<or> m_content l \<noteq> [] \<and> truthy (m_isComplete l) \<and> \<not> truthy (m_isComplete f)
      then m_content l else m_content f)"
  by (auto simp: merge_message_def Let_def)

lemma merge_message_idem: "merge_message f (merge_message f l) = merge_message f l"
  by (cases f; cases l)
     (auto simp: merge_message_def Let_def or_else_def or_str_def split: option.splits)

lemma merge_job_flds [simp]:
  "m_role (merge_job jobs v) = m_role v" "m_parentMessageId (merge_job jobs v) = m_parentMessageId v"
  "m_createdAt (merge_job jobs v) = m_createdAt v" "m_content (merge_job jobs v) = m_content v"
  "msg_key (merge_job jobs v) = msg_key v"
  by (simp_all add: merge_job_def Let_def split: option.split)

section \<open>Merging the maps\<close>

definition merge_result :: "message option \<Rightarrow> message option \<Rightarrow> message option" where
  "merge_result f l =
     (case f of None \<Rightarrow> l
      | Some fm \<Rightarrow> (case l of None \<Rightarrow> Some fm | Some lm \<Rightarrow> Some (merge_message fm lm)))"

lemma map_get_merge_entry:
  "map_get (merge_entry (i, l) m) k = (if k = i then merge_result (map_get m k) (Some l) else map_get m k)"
  by (auto simp: merge_entry_def merge_result_def split: option.split)

lemma map_get_fold_merge:
  "map_ok lm \<Longrightarrow> map_get (fold merge_entry lm m) k = merge_result (map_get m k) (map_get lm k)"
proof (induction lm arbitrary: m)
  case Nil
  then show ?case by (simp add: merge_result_def split: option.split)
next
  case (Cons e lm)
  obtain i l where e: "e = (i, l)" by (cases e)
  with Cons.prems have "map_ok lm" and "map_get lm i = None"
    by (auto simp: map_of_eq_None_iff)
  with Cons.IH e show ?case
    by (auto simp: map_get_merge_entry) (simp add: merge_result_def split: option.split)
qed

text \<open>The fetched messages by key.\<close>

abbreviation fetched_map :: "message list \<Rightarrow> message_map" where
  "fetched_map fs \<equiv> map_set_all msg_key id fs []"

definition local_get :: "message_map option \<Rightarrow> message_id \<Rightarrow> message option" where
  "local_get lm k = (case lm of Some m \<Rightarrow> map_get m k | None \<Rightarrow> None)"

lemma merge_lookup:
  "(\<And>m. lm = Some m \<Longrightarrow> map_ok m) \<Longrightarrow>
   map_get (mergeFetchedWithLocalMap fs lm) k = merge_result (map_get (fetched_map fs) k) (local_get lm k)"
proof (cases lm)
  case None
  then show ?thesis
    by (simp add: mergeFetchedWithLocalMap_def local_get_def merge_result_def split: option.split)
next
  case (Some m)
  moreover assume "\<And>m. lm = Some m \<Longrightarrow> map_ok m"
  ultimately have "map_ok m" by simp
  with Some show ?thesis
    by (simp add: mergeFetchedWithLocalMap_def local_get_def map_get_fold_merge)
qed

lemma map_ok_merge_entry: "map_ok m \<Longrightarrow> map_ok (merge_entry e m)"
  by (cases e) (auto simp: merge_entry_def split: option.split)

lemma map_ok_merge: "map_ok (mergeFetchedWithLocalMap fs lm)"
proof -
  have "map_ok m \<Longrightarrow> map_ok (fold merge_entry es m)" for es m
    by (induction es arbitrary: m) (auto simp: map_ok_merge_entry)
  then show ?thesis by (simp add: mergeFetchedWithLocalMap_def Let_def)
qed

lemma fetched_map_key: "map_get (fetched_map fs) k = Some f \<Longrightarrow> msg_key f = k \<and> f \<in> set fs"
  using map_get_set_all_mem [of msg_key id fs "[]" k f] by auto

lemma keyed_iff_get: "map_ok m \<Longrightarrow> keyed m \<longleftrightarrow> (\<forall>k v. map_get m k = Some v \<longrightarrow> msg_key v = k)"
  by (auto simp: keyed_def dest: map_of_SomeD map_mem_get)

lemma keyed_merge:
  assumes "\<And>m. lm = Some m \<Longrightarrow> keyed m"
  shows "keyed (mergeFetchedWithLocalMap fs lm)"
proof -
  have ok: "\<And>m. lm = Some m \<Longrightarrow> map_ok m" using assms by (simp add: keyed_def)
  have "msg_key v = k" if "map_get (mergeFetchedWithLocalMap fs lm) k = Some v" for k v
    using that fetched_map_key [of fs k] assms keyed_get
    by (auto simp: merge_lookup [OF ok] merge_result_def local_get_def split: option.splits)
  then show ?thesis by (simp add: keyed_iff_get [OF map_ok_merge])
qed

lemma map_get_merge_jobs: "map_get (mergeJobDetailsIntoMap m jobs) k = map_option (merge_job jobs) (map_get m k)"
  by (simp add: mergeJobDetailsIntoMap_def map_of_map)

lemma keyed_merge_jobs: "keyed m \<Longrightarrow> keyed (mergeJobDetailsIntoMap m jobs)"
  by (force simp: keyed_def map_ok_def mergeJobDetailsIntoMap_def comp_def case_prod_unfold)

lemma merge_keys:
  assumes "\<And>m. lm = Some m \<Longrightarrow> map_ok m"
  shows "set (map_keys (mergeFetchedWithLocalMap fs lm)) = msg_key ` set fs \<union> {k. local_get lm k \<noteq> None}"
proof -
  have "k \<in> set (map_keys (mergeFetchedWithLocalMap fs lm)) \<longleftrightarrow> map_get (mergeFetchedWithLocalMap fs lm) k \<noteq> None" for k
    by (simp only: map_get_None_iff) simp
  moreover have "map_get (mergeFetchedWithLocalMap fs lm) k \<noteq> None
      \<longleftrightarrow> map_get (fetched_map fs) k \<noteq> None \<or> local_get lm k \<noteq> None" for k
  proof -
    have "map_get (mergeFetchedWithLocalMap fs lm) k = merge_result (map_get (fetched_map fs) k) (local_get lm k)"
      using assms by (rule merge_lookup)
    then show ?thesis by (simp only:) (simp add: merge_result_def split: option.split)
  qed
  moreover have "map_get (fetched_map fs) k \<noteq> None \<longleftrightarrow> k \<in> msg_key ` set fs" for k
    using map_keys_set_all [of msg_key id fs "[]"] by (simp only: map_get_None_iff) simp
  ultimately show ?thesis by (intro set_eqI) simp
qed

lemma merge_job_complete: "truthy (m_isComplete v) \<Longrightarrow> truthy (m_isComplete (merge_job jobs v))"
  by (simp add: merge_job_def Let_def split: option.split)

lemma merge_job_error: "m_errorStatus v = Some e \<Longrightarrow> m_errorStatus (merge_job jobs v) = Some e"
  by (simp add: merge_job_def Let_def split: option.split)

lemma merge_job_done:
  assumes "m_role v = Assistant" and "find_related_job v jobs = Some j"
  shows "(j_generation_status j = ''Completed'' \<or> j_generation_status j = ''Failed'' \<longrightarrow> truthy (m_isComplete (merge_job jobs v)))
    \<and> (j_generation_status j = ''Failed'' \<longrightarrow> m_errorStatus (merge_job jobs v) \<noteq> None)"
  using assms by (auto simp: merge_job_def Let_def)

section \<open>Properties\<close>



text \<open>A text that is still being streamed gives way to a shorter one the canister already has.\<close>

lemma streamed_text_overwritten:
  "m_content f \<noteq> [] \<Longrightarrow> \<not> truthy (m_isComplete l) \<Longrightarrow> m_content (merge_message f l) = m_content f"
  by (simp add: merge_message_content)

lemma merge_message_self:
  assumes "m_isComplete f \<noteq> None" and "m_errorStatus f \<noteq> None \<Longrightarrow> truthy (m_isComplete f)"
  shows "merge_message f f = f"
  using assms by (cases f) (auto simp: merge_message_def Let_def or_else_def or_str_def truthy_def split: option.splits)

text \<open>
  Refreshing is idempotent: merging the same fetched messages into the result of a merge changes
  no message, whatever the local map was. (The mapper sets \<open>isComplete\<close> on every fetched message,
  to true on one with an error.)
\<close>

theorem merge_idempotent:
  assumes "map_ok lm"
    and "\<And>f. f \<in> set fs \<Longrightarrow> m_isComplete f \<noteq> None \<and> (m_errorStatus f \<noteq> None \<longrightarrow> truthy (m_isComplete f))"
  shows "map_get (mergeFetchedWithLocalMap fs (Some (mergeFetchedWithLocalMap fs (Some lm)))) k
       = map_get (mergeFetchedWithLocalMap fs (Some lm)) k"
proof -
  let ?m = "mergeFetchedWithLocalMap fs (Some lm)"
  have ok: "\<And>m. Some lm = Some m \<Longrightarrow> map_ok m" and ok': "\<And>m. Some ?m = Some m \<Longrightarrow> map_ok m"
    using assms(1) map_ok_merge by auto
  have one: "map_get ?m k = merge_result (map_get (fetched_map fs) k) (map_get lm k)"
    by (simp add: merge_lookup [OF ok] local_get_def)
  have "map_get (mergeFetchedWithLocalMap fs (Some ?m)) k = merge_result (map_get (fetched_map fs) k) (map_get ?m k)"
    by (simp add: merge_lookup [OF ok'] local_get_def)
  also have "\<dots> = map_get ?m k"
  proof (cases "map_get (fetched_map fs) k")
    case None
    then show ?thesis by (simp add: merge_result_def)
  next
    case (Some f)
    then have "merge_message f f = f"
      using fetched_map_key [OF Some] assms(2) merge_message_self by blast
    with Some one show ?thesis
      by (simp add: merge_result_def merge_message_idem split: option.split)
  qed
  finally show ?thesis .
qed

lemma merge_idempotent_witness:
  "map_get (mergeFetchedWithLocalMap [(plain_message ''2'' ''c'' User ''x'' None 9)\<lparr>m_isComplete := Some True\<rparr>]
     (Some (mergeFetchedWithLocalMap [(plain_message ''2'' ''c'' User ''x'' None 9)\<lparr>m_isComplete := Some True\<rparr>]
        (Some [(''2'', plain_message ''2'' ''c'' User ''y'' None 9)])))) ''2''
   = map_get (mergeFetchedWithLocalMap [(plain_message ''2'' ''c'' User ''x'' None 9)\<lparr>m_isComplete := Some True\<rparr>]
        (Some [(''2'', plain_message ''2'' ''c'' User ''y'' None 9)])) ''2''"
  by (rule merge_idempotent) auto

end
