(* ===== verification/Auth_State.thy ===== *)
theory Auth_State
  imports Domain
begin

text \<open>
  \<open>src/gpt_frontend/src/store/authStore/state.ts\<close>: the session state the other stores consult. The
  authentication client is an object of a library; \<open>au_authClient\<close> is the principal of the
  identity it currently gives, \<open>None\<close> when there is no client.
\<close>

datatype auth_status =
    INITIALIZING | UNAUTHENTICATED | AUTHENTICATING_II | PENDING_SETUP | REGISTERED
  | SETUP_ERROR | VAULT_LOCKED | SETUP_VAULT

record auth_state =
  au_authStatus :: auth_status
  au_principal :: "string option"
  au_authClient :: "principal option"
  au_userCanisterId :: "string option"
  au_userStorageUsage :: int
  au_userStorageLimit :: int
  au_setupError :: "string option"
  au_setupErrorTitle :: "string option"
  au_isFatalError :: bool
  au_isSessionExpired :: bool
  au_rootKey :: "string option"

definition initialAuthState :: auth_state where
  "initialAuthState =
     \<lparr>au_authStatus = INITIALIZING, au_principal = None, au_authClient = None, au_userCanisterId = None,
      au_userStorageUsage = 0, au_userStorageLimit = 7 * 1024 * 1024 * 1024, au_setupError = None,
      au_setupErrorTitle = None, au_isFatalError = False, au_isSessionExpired = False, au_rootKey = None\<rparr>"

text \<open>
  The guards most actions start with: \<open>authStatus !== REGISTERED || !authClient || !userCanisterId\<close>,
  and the same with \<open>|| !rootKey\<close>.
\<close>

definition registered :: "auth_state \<Rightarrow> bool" where
  "registered a \<longleftrightarrow> au_authStatus a = REGISTERED \<and> au_authClient a \<noteq> None \<and> truthy_str (au_userCanisterId a)"

definition vault_open :: "auth_state \<Rightarrow> bool" where
  "vault_open a \<longleftrightarrow> registered a \<and> truthy_str (au_rootKey a)"

text \<open>The guard of the sending actions, which do not look at the status.\<close>

definition session_ready :: "auth_state \<Rightarrow> bool" where
  "session_ready a \<longleftrightarrow> au_authClient a \<noteq> None \<and> truthy_str (au_userCanisterId a) \<and> truthy_str (au_rootKey a)"

lemma vault_open_registered: "vault_open a \<Longrightarrow> registered a"
  by (simp add: vault_open_def)

lemma vault_open_session: "vault_open a \<Longrightarrow> session_ready a"
  by (simp add: vault_open_def registered_def session_ready_def)

definition example_auth :: auth_state where
  "example_auth = initialAuthState\<lparr>au_authStatus := REGISTERED, au_authClient := Some ''p'',
     au_userCanisterId := Some ''c'', au_rootKey := Some ''k''\<rparr>"

lemma example_auth_open [simp]: "vault_open example_auth" "registered example_auth" "session_ready example_auth"
  by (simp_all add: example_auth_def vault_open_def registered_def session_ready_def)

end
