(* ===== verification/Chat_State.thy ===== *)
theory Chat_State
  imports Message_Merge Auth_State
begin

text \<open>
  The chat store (\<open>src/gpt_frontend/src/store/chatStore\<close>): its state (\<open>state.ts\<close>), the setters
  (\<open>actions/setters\<close>) and the operations on the list of chats (\<open>actions/chat\<close>). An object keyed by
  identifiers is a partial function. Web sockets, promises and timers are objects of the browser:
  the state holds their handles and an operation returns what it does to them as a list of
  effects. An asynchronous action is split where it awaits an answer: the answer, or the error
  thrown, is an argument of what follows.
\<close>

section \<open>The state\<close>

text \<open>\<open>readyState\<close> of a web socket.\<close>

datatype ready_state = CONNECTING | OPEN | CLOSING | CLOSED

record reconciled_node =
  rn_nodeId :: node_id
  rn_address :: string
  rn_modelId :: string
  rn_principal :: string
  rn_publicKey :: "string option"

record active_job_info =
  aj_jobId :: job_id
  aj_erroredViaStream :: bool

type_synonym ws_handle = nat
type_synonym timer = nat
type_synonym promise = nat
type_synonym 'v by_id = "string \<Rightarrow> 'v option"

record chat_state =
  chats :: "chat list"
  messages :: "message_map by_id"
  currentChatId :: "chat_id option"
  cs_input :: string
  isWaiting :: "bool by_id"
  isAITyping :: "bool by_id"
  isGenerating :: "bool by_id"
  chatTitle :: string
  chatVersion :: nat
  temperature :: rat
  maxOutput :: int
  maxContext :: int
  compressionLevel :: compression_level
  renderMode :: render_mode
  selectedModel :: "model option"
  selectedTools :: "tool list"
  reasoningEffort :: string
  isLoading :: bool
  webSockets :: "(job_id, ws_handle) jsmap"
  activeChatJobs :: "active_job_info by_id"
  hasFetchedChats :: bool
  hasFetchedMyNodes :: bool
  hasFetchedAllNodes :: bool
  activeLeafMessageId :: "message_id by_id"
  reconciledActiveNodes :: "reconciled_node list"
  myNodesLoading :: bool
  allNodesLoading :: bool
  reconciledNodesLoading :: bool
  myNodes :: "node_info list"
  allNodes :: "node_info list"
  isNextChatTemporary :: bool
  attachments :: "attachment list"
  attachmentCleanupTimer :: "timer option"
  isAttachmentsExiting :: bool
  isProcessingTools :: "bool by_id"
  hasUserSelectedModel :: bool
  ocrPromises :: "(job_id, promise) jsmap"
  queuedToolCalls :: "(chat_id \<times> message_id) list"
  isInitialAnimationComplete :: bool
  temporaryNodeBlacklist :: "(node_id, nat) jsmap"

definition initialChatState :: chat_state where
  "initialChatState =
     \<lparr>chats = [], messages = Map.empty, currentChatId = None, cs_input = [], isWaiting = Map.empty,
      isAITyping = Map.empty, isGenerating = Map.empty, chatTitle = [], chatVersion = 0,
      temperature = 9 / 10, maxOutput = 2048, maxContext = 8192, compressionLevel = Extreme,
      renderMode = Markdown, selectedModel = None, selectedTools = [], reasoningEffort = ''medium'',
      isLoading = False, webSockets = [], activeChatJobs = Map.empty, hasFetchedChats = False,
      hasFetchedMyNodes = False, hasFetchedAllNodes = False, activeLeafMessageId = Map.empty,
      reconciledActiveNodes = [], myNodesLoading = False, allNodesLoading = False,
      reconciledNodesLoading = False, myNodes = [], allNodes = [], isNextChatTemporary = False,
      attachments = [], attachmentCleanupTimer = None, isAttachmentsExiting = False,
      isProcessingTools = Map.empty, hasUserSelectedModel = False, ocrPromises = [],
      queuedToolCalls = [], isInitialAnimationComplete = False, temporaryNodeBlacklist = []\<rparr>"

text \<open>What an operation does to the browser's objects.\<close>

datatype chat_effect =
    WsCreate ws_handle string | WsClose ws_handle | WsSend ws_handle string
  | ScheduleFetch chat_id nat | ResolveOcr promise string | RejectOcr promise string
  | SetTimer timer nat | ClearTimer timer | RevokeUrls "string list"
  | StartTitle chat_id string string | RequestFrame nat | CancelFrame nat
  | QueueCloseCheck ws_handle nat string

text \<open>Reading a flag: a missing key is \<open>undefined\<close>, hence false.\<close>

definition flag :: "bool by_id \<Rightarrow> string \<Rightarrow> bool" where
  "flag f k = truthy (f k)"

lemma flag_upd [simp]: "flag (f(k \<mapsto> b)) j = (if j = k then b else flag f j)"
  by (simp add: flag_def)

lemma flag_del [simp]: "flag (f(k := None)) j = (j \<noteq> k \<and> flag f j)"
  by (simp add: flag_def)

lemma flag_empty [simp]: "flag Map.empty j = False"
  by (simp add: flag_def)

section \<open>Status setters\<close>

definition setIsGenerating :: "string \<Rightarrow> bool \<Rightarrow> chat_state \<Rightarrow> chat_state" where
  "setIsGenerating chatId b state = state\<lparr>isGenerating := (isGenerating state)(chatId \<mapsto> b)\<rparr>"

definition setIsWaiting :: "string \<Rightarrow> bool \<Rightarrow> chat_state \<Rightarrow> chat_state" where
  "setIsWaiting chatId b state = state\<lparr>isWaiting := (isWaiting state)(chatId \<mapsto> b)\<rparr>"

definition setIsAITyping :: "string \<Rightarrow> bool \<Rightarrow> chat_state \<Rightarrow> chat_state" where
  "setIsAITyping chatId b state = state\<lparr>isAITyping := (isAITyping state)(chatId \<mapsto> b)\<rparr>"

text \<open>The three flags at once, as most handlers write them.\<close>

definition set_flags :: "string \<Rightarrow> bool \<Rightarrow> chat_state \<Rightarrow> chat_state" where
  "set_flags chatId b state =
     state\<lparr>isGenerating := (isGenerating state)(chatId \<mapsto> b), isAITyping := (isAITyping state)(chatId \<mapsto> b),
           isWaiting := (isWaiting state)(chatId \<mapsto> b)\<rparr>"

definition setActiveChatJob :: "chat_id \<Rightarrow> job_id \<Rightarrow> bool \<Rightarrow> chat_state \<Rightarrow> chat_state" where
  "setActiveChatJob chatId jobId erroredViaStream state =
     state\<lparr>activeChatJobs := (activeChatJobs state)(chatId \<mapsto> \<lparr>aj_jobId = jobId, aj_erroredViaStream = erroredViaStream\<rparr>),
           isGenerating := (isGenerating state)(chatId \<mapsto> \<not> erroredViaStream),
           isAITyping := (isAITyping state)(chatId \<mapsto> \<not> erroredViaStream),
           isWaiting := (isWaiting state)(chatId \<mapsto> \<not> erroredViaStream)\<rparr>"

definition clearActiveChatJob :: "chat_id \<Rightarrow> chat_state \<Rightarrow> chat_state" where
  "clearActiveChatJob chatId state =
     state\<lparr>activeChatJobs := (activeChatJobs state)(chatId := None),
           isGenerating := (isGenerating state)(chatId \<mapsto> False),
           isAITyping := (isAITyping state)(chatId \<mapsto> False),
           isWaiting := (isWaiting state)(chatId \<mapsto> False)\<rparr>"

section \<open>Message setters and getters\<close>

definition setMessages :: "chat_id \<Rightarrow> message_map \<Rightarrow> chat_state \<Rightarrow> chat_state" where
  "setMessages chatId messagesMap state = state\<lparr>messages := (messages state)(chatId \<mapsto> messagesMap)\<rparr>"

definition setActiveLeaf :: "chat_id \<Rightarrow> message_id \<Rightarrow> chat_state \<Rightarrow> chat_state" where
  "setActiveLeaf chatId leafMessageId state =
     state\<lparr>activeLeafMessageId := (activeLeafMessageId state)(chatId \<mapsto> leafMessageId)\<rparr>"

definition hasMessagesLoaded :: "chat_state \<Rightarrow> chat_id \<Rightarrow> bool" where
  "hasMessagesLoaded state chatId = (case messages state chatId of Some m \<Rightarrow> length m > 0 | None \<Rightarrow> False)"

section \<open>OCR promises\<close>

definition addOcrPromise :: "job_id \<Rightarrow> promise \<Rightarrow> chat_state \<Rightarrow> chat_state" where
  "addOcrPromise jobId p state = state\<lparr>ocrPromises := map_set jobId p (ocrPromises state)\<rparr>"

definition removeOcrPromise :: "job_id \<Rightarrow> chat_state \<Rightarrow> chat_state" where
  "removeOcrPromise jobId state =
     (if map_has (ocrPromises state) jobId then state\<lparr>ocrPromises := map_del jobId (ocrPromises state)\<rparr> else state)"

section \<open>Configuration\<close>

text \<open>\<open>chatParameterOptions.context.min\<close>\<close>

definition context_min :: int where
  "context_min = 1024"

definition handleModelChange :: "model option \<Rightarrow> chat_state \<Rightarrow> chat_state" where
  "handleModelChange mdl state =
     (case mdl of
        None \<Rightarrow> state\<lparr>selectedModel := None, selectedTools := []\<rparr>
      | Some m \<Rightarrow>
          let newMaxOutput = md_maxOutput m;
              calculatedContext = md_maxContext m - md_maxOutput m;
              newMaxContext = max context_min calculatedContext
          in state\<lparr>selectedModel := Some m, maxOutput := newMaxOutput, maxContext := newMaxContext,
                   reasoningEffort := ''medium''\<rparr>)"

definition setSelectedModel :: "model option \<Rightarrow> chat_state \<Rightarrow> chat_state" where
  "setSelectedModel mdl state = (handleModelChange mdl state)\<lparr>hasUserSelectedModel := True\<rparr>"

definition setDefaultModel :: "model option \<Rightarrow> chat_state \<Rightarrow> chat_state" where
  "setDefaultModel mdl state = handleModelChange mdl state"

definition toggleTool :: "tool \<Rightarrow> chat_state \<Rightarrow> chat_state" where
  "toggleTool picked state =
     (if list_ex (\<lambda>t. t_name t = t_name picked) (selectedTools state)
      then state\<lparr>selectedTools := filter (\<lambda>t. t_name t \<noteq> t_name picked) (selectedTools state)\<rparr>
      else
        let maxTools = (case selectedModel state of Some m \<Rightarrow> md_max_tools m | None \<Rightarrow> 0)
        in if int (length (selectedTools state)) < maxTools
           then state\<lparr>selectedTools := selectedTools state @ [picked]\<rparr> else state)"

definition toggleSingleTool :: "tool \<Rightarrow> chat_state \<Rightarrow> chat_state" where
  "toggleSingleTool picked state =
     state\<lparr>selectedTools := (if list_ex (\<lambda>t. t_name t = t_name picked) (selectedTools state) then [] else [picked])\<rparr>"

section \<open>Attachments\<close>

text \<open>
  The identifier of a new attachment contains a random number; \<open>random i\<close> is its text for the
  \<open>i\<close>-th file. The loop keeps the images while there are slots left: the slot counter is only
  decremented on images.
\<close>

fun select_attachments :: "(nat \<Rightarrow> string) \<Rightarrow> nat \<Rightarrow> int \<Rightarrow> attachment list \<Rightarrow> attachment list" where
  "select_attachments random i availableSlots [] = []"
| "select_attachments random i availableSlots (file # filesToAdd) =
     (if a_type file = ImageAtt \<and> availableSlots > 0
      then file\<lparr>a_id := a_name file @ ''-'' @ show_nat (f_lastModified (a_file file)) @ ''-'' @ random i\<rparr>
             # select_attachments random (Suc i) (availableSlots - 1) filesToAdd
      else if a_type file = ImageAtt then select_attachments random (Suc i) (availableSlots - 1) filesToAdd
      else select_attachments random (Suc i) availableSlots filesToAdd)"

definition image_limit :: "chat_state \<Rightarrow> int" where
  "image_limit state = (case selectedModel state of Some m \<Rightarrow> md_max_image_attachments m | None \<Rightarrow> 0)"

definition addAttachments :: "(nat \<Rightarrow> string) \<Rightarrow> attachment list \<Rightarrow> chat_state \<Rightarrow> chat_state" where
  "addAttachments random filesToAdd state =
     (let availableSlots = image_limit state - int (length (filter (\<lambda>a. a_type a = ImageAtt) (attachments state)));
          newAttachments = select_attachments random 0 availableSlots filesToAdd
      in if length newAttachments > 0
         then state\<lparr>attachments := attachments state @ newAttachments, isAttachmentsExiting := False\<rparr>
         else state)"

definition removeAttachment :: "string \<Rightarrow> chat_state \<Rightarrow> chat_state \<times> chat_effect list" where
  "removeAttachment aid state =
     (state\<lparr>attachments := filter (\<lambda>a. a_id a \<noteq> aid) (attachments state)\<rparr>,
      case List.find (\<lambda>a. a_id a = aid) (attachments state) of
        Some att \<Rightarrow> (if truthy_str (a_previewUrl att) then [RevokeUrls [the (a_previewUrl att)]] else [])
      | None \<Rightarrow> [])"

text \<open>
  \<open>clearAttachments\<close> empties the list at once; the callback 300 ms later reads the list again, so
  what it revokes are the previews of the attachments added since.
\<close>

definition clearAttachments :: "chat_state \<Rightarrow> chat_state" where
  "clearAttachments state = state\<lparr>attachments := [], isAttachmentsExiting := False\<rparr>"

definition clear_attachments_callback :: "chat_state \<Rightarrow> chat_effect list" where
  "clear_attachments_callback state =
     [RevokeUrls (map the (filter truthy_str (map a_previewUrl (attachments state))))]"

text \<open>A timer handle is a positive number; \<open>t\<close> is the handle \<open>setTimeout\<close> returns.\<close>

definition timer_set :: "chat_state \<Rightarrow> bool" where
  "timer_set state = (case attachmentCleanupTimer state of Some t \<Rightarrow> t \<noteq> 0 | None \<Rightarrow> False)"

definition scheduleAttachmentCleanup :: "timer \<Rightarrow> nat \<Rightarrow> chat_state \<Rightarrow> chat_state \<times> chat_effect list" where
  "scheduleAttachmentCleanup t delay state =
     (let cleared = (if timer_set state then [ClearTimer (the (attachmentCleanupTimer state))] else [])
      in if attachments state = [] then (state, cleared)
         else (state\<lparr>isAttachmentsExiting := True, attachmentCleanupTimer := Some t\<rparr>, cleared @ [SetTimer t delay]))"

definition attachment_cleanup_fires :: "chat_state \<Rightarrow> chat_state" where
  "attachment_cleanup_fires state = (clearAttachments state)\<lparr>attachmentCleanupTimer := None\<rparr>"

definition cancelAttachmentCleanup :: "chat_state \<Rightarrow> chat_state \<times> chat_effect list" where
  "cancelAttachmentCleanup state =
     (if timer_set state
      then (state\<lparr>attachmentCleanupTimer := None, isAttachmentsExiting := False\<rparr>,
            [ClearTimer (the (attachmentCleanupTimer state))])
      else (state, []))"

section \<open>The current chat\<close>

definition setCurrentChatId :: "timer \<Rightarrow> chat_id option \<Rightarrow> chat_state \<Rightarrow> chat_state \<times> chat_effect list" where
  "setCurrentChatId t chatId state =
     (let cleared = (if timer_set state then [ClearTimer (the (attachmentCleanupTimer state))] else []);
          (state', effs) = (if length (attachments state) > 0 then scheduleAttachmentCleanup t 250 state else (state, []))
      in (state'\<lparr>currentChatId := chatId,
                 chatTitle := (if truthy_str chatId
                               then (case List.find (\<lambda>c. Some (c_chatId c) = chatId) (chats state) of
                                       Some c \<Rightarrow> c_title c | None \<Rightarrow> [])
                               else []),
                 chatVersion := chatVersion state + 1\<rparr>,
          cleared @ effs))"

text \<open>\<open>ready\<close> gives the current \<open>readyState\<close> of every socket.\<close>

definition resetChat :: "(ws_handle \<Rightarrow> ready_state) \<Rightarrow> chat_state \<Rightarrow> chat_state \<times> chat_effect list" where
  "resetChat ready state =
     (initialChatState,
      map WsClose (filter (\<lambda>ws. ready ws = OPEN) (map_values (webSockets state)))
        @ snd (cancelAttachmentCleanup state))"

definition createNewChat :: "chat_state \<Rightarrow> chat_state" where
  "createNewChat state =
     state\<lparr>chatTitle := [], cs_input := [],
           isGenerating := (isGenerating state)(''new'' \<mapsto> False),
           isWaiting := (isWaiting state)(''new'' \<mapsto> False),
           isAITyping := (isAITyping state)(''new'' \<mapsto> False),
           currentChatId := None\<rparr>"

section \<open>Chats\<close>

text \<open>\<open>fetchChats\<close>: the chats with no active job get all their flags cleared.\<close>

definition idle_chats :: "chat list \<Rightarrow> chat_id set" where
  "idle_chats cs = {c_chatId c |c. c \<in> set cs \<and> \<not> truthy_str (c_activeJobId c)}"

definition clear_flags_of :: "chat list \<Rightarrow> bool by_id \<Rightarrow> bool by_id" where
  "clear_flags_of cs f =
     fold (\<lambda>c f. if \<not> truthy_str (c_activeJobId c) then f(c_chatId c \<mapsto> False) else f) cs f"

definition fetchChats :: "auth_state \<Rightarrow> string + chat list \<Rightarrow> chat_state \<Rightarrow> chat_state" where
  "fetchChats auth answer state =
     (if \<not> registered auth then state
      else case answer of
        Inl err \<Rightarrow> state\<lparr>hasFetchedChats := True\<rparr>
      | Inr cs \<Rightarrow>
          state\<lparr>chats := cs, hasFetchedChats := True,
                isGenerating := clear_flags_of cs (isGenerating state),
                isAITyping := clear_flags_of cs (isAITyping state),
                isWaiting := clear_flags_of cs (isWaiting state)\<rparr>)"

text \<open>
  The actions that change one chat: the answer of the canister, then the update, then a refetch
  (with the session \<open>auth'\<close> and the answer of that later moment). An error of the call is rethrown.
\<close>

definition chat_call ::
  "auth_state \<Rightarrow> string + unit \<Rightarrow> (chat_state \<Rightarrow> chat_state) \<Rightarrow> auth_state \<Rightarrow> string + chat list \<Rightarrow> chat_state
     \<Rightarrow> string + chat_state" where
  "chat_call auth answer update auth' listed state =
     (if \<not> registered auth then Inr state
      else case answer of
        Inl err \<Rightarrow> Inl err
      | Inr _ \<Rightarrow> Inr (fetchChats auth' listed (update state)))"

definition delete_chat_locally :: "chat_id \<Rightarrow> chat_state \<Rightarrow> chat_state" where
  "delete_chat_locally chatId state =
     state\<lparr>chats := filter (\<lambda>c. c_chatId c \<noteq> chatId) (chats state),
           messages := (messages state)(chatId := None),
           isGenerating := (isGenerating state)(chatId := None),
           isWaiting := (isWaiting state)(chatId := None),
           isAITyping := (isAITyping state)(chatId := None),
           activeChatJobs := (activeChatJobs state)(chatId := None),
           activeLeafMessageId := (activeLeafMessageId state)(chatId := None)\<rparr>"

definition deleteChat where
  "deleteChat auth chatId answer auth' listed state =
     chat_call auth answer (delete_chat_locally chatId) auth' listed state"

definition rename_chat_locally :: "instant \<Rightarrow> chat_id \<Rightarrow> string \<Rightarrow> chat_state \<Rightarrow> chat_state" where
  "rename_chat_locally now chatId newTitle state =
     (let state' = state\<lparr>chats := map (\<lambda>c. if c_chatId c = chatId then c\<lparr>c_title := newTitle, c_updatedAt := now\<rparr> else c)
                                 (chats state)\<rparr>
      in if currentChatId state = Some chatId then state'\<lparr>chatTitle := newTitle\<rparr> else state')"

definition renameChat where
  "renameChat auth now chatId newTitle answer auth' listed state =
     chat_call auth answer (rename_chat_locally now chatId newTitle) auth' listed state"

definition set_archived :: "chat_id \<Rightarrow> bool \<Rightarrow> chat_state \<Rightarrow> chat_state" where
  "set_archived chatId b state =
     state\<lparr>chats := map (\<lambda>c. if c_chatId c = chatId then c\<lparr>c_archived := b\<rparr> else c) (chats state)\<rparr>"

definition archiveChat where
  "archiveChat auth chatId answer auth' listed state =
     (case List.find (\<lambda>c. c_chatId c = chatId) (chats state) of
        Some c \<Rightarrow> if registered auth \<and> c_temporary c then Inr state
                  else chat_call auth answer (set_archived chatId True) auth' listed state
      | None \<Rightarrow> chat_call auth answer (set_archived chatId True) auth' listed state)"

definition unarchiveChat where
  "unarchiveChat auth chatId answer auth' listed state =
     chat_call auth answer (set_archived chatId False) auth' listed state"

section \<open>Lemmas\<close>

named_theorems chat_ops \<open>the small state updates of the chat store\<close>

lemmas [chat_ops] =
  setIsGenerating_def setIsWaiting_def setIsAITyping_def set_flags_def setActiveChatJob_def
  clearActiveChatJob_def setMessages_def setActiveLeaf_def

text \<open>The three flags of a chat agree.\<close>

definition flags_are :: "chat_state \<Rightarrow> chat_id \<Rightarrow> bool \<Rightarrow> bool" where
  "flags_are s k b \<longleftrightarrow> flag (isGenerating s) k = b \<and> flag (isAITyping s) k = b \<and> flag (isWaiting s) k = b"

lemma flags_set_flags [simp]: "flags_are (set_flags k b s) j c \<longleftrightarrow> (if j = k then c = b else flags_are s j c)"
  by (auto simp: flags_are_def chat_ops)

lemma flags_setActive [simp]: "flags_are (setActiveChatJob k jb e s) j c \<longleftrightarrow> (if j = k then c = (\<not> e) else flags_are s j c)"
  by (auto simp: flags_are_def chat_ops)

lemma flags_clearActive [simp]: "flags_are (clearActiveChatJob k s) j c \<longleftrightarrow> (if j = k then \<not> c else flags_are s j c)"
  by (auto simp: flags_are_def chat_ops)

lemma flags_setActiveLeaf [simp]: "flags_are (setActiveLeaf k l s) j c = flags_are s j c"
  by (simp add: flags_are_def chat_ops)

lemma active_setActive [simp]:
  "activeChatJobs (setActiveChatJob k jb e s) = (activeChatJobs s)(k \<mapsto> \<lparr>aj_jobId = jb, aj_erroredViaStream = e\<rparr>)"
  by (simp add: chat_ops)

lemma active_clearActive [simp]: "activeChatJobs (clearActiveChatJob k s) = (activeChatJobs s)(k := None)"
  by (simp add: chat_ops)

lemma flag_clear_flags_of: "flag (clear_flags_of cs f) k \<longleftrightarrow> flag f k \<and> k \<notin> idle_chats cs"
proof -
  have "flag (fold (\<lambda>c f. if \<not> truthy_str (c_activeJobId c) then f(c_chatId c \<mapsto> False) else f) cs f) k
      \<longleftrightarrow> flag f k \<and> (\<forall>c \<in> set cs. \<not> (c_chatId c = k \<and> \<not> truthy_str (c_activeJobId c)))"
    by (induction cs arbitrary: f) (auto split: if_splits)
  then show ?thesis by (auto simp: clear_flags_of_def idle_chats_def)
qed

lemma select_attachments_images:
  "a \<in> set (select_attachments rnd i n xs) \<Longrightarrow> a_type a = ImageAtt"
  by (induction xs arbitrary: i n) (auto split: if_splits)

lemma select_attachments_length: "int (length (select_attachments rnd i n xs)) \<le> max 0 n"
proof (induction xs arbitrary: i n)
  case (Cons x xs)
  from Cons.IH [of "Suc i" "n - 1"] Cons.IH [of "Suc i" n] show ?case
    by (cases "0 < n"; cases "a_type x = ImageAtt") (simp_all add: max_def)
qed simp

text \<open>What every operation keeps: each message is stored under its own identifier.\<close>

definition store_ok :: "chat_state \<Rightarrow> bool" where
  "store_ok s \<longleftrightarrow> (\<forall>k m. messages s k = Some m \<longrightarrow> keyed m)"

lemma store_okD: "store_ok s \<Longrightarrow> messages s k = Some m \<Longrightarrow> keyed m"
  by (simp add: store_ok_def)

lemma store_ok_initial [simp]: "store_ok initialChatState"
  by (simp add: store_ok_def initialChatState_def)

lemma store_ok_setMessages: "store_ok s \<Longrightarrow> keyed m \<Longrightarrow> store_ok (setMessages k m s)"
  by (simp add: store_ok_def setMessages_def)

lemma store_ok_cong: "messages s' = messages s \<Longrightarrow> store_ok s' = store_ok s"
  by (simp add: store_ok_def)

text \<open>
  What an operation on one chat leaves alone: the messages, the flags, the active job and the active
  leaf of every other chat.
\<close>

definition same_elsewhere :: "chat_id set \<Rightarrow> chat_state \<Rightarrow> chat_state \<Rightarrow> bool" where
  "same_elsewhere K s s' \<longleftrightarrow> (\<forall>j. j \<notin> K \<longrightarrow> messages s' j = messages s j \<and> isGenerating s' j = isGenerating s j
     \<and> isAITyping s' j = isAITyping s j \<and> isWaiting s' j = isWaiting s j
     \<and> activeChatJobs s' j = activeChatJobs s j \<and> activeLeafMessageId s' j = activeLeafMessageId s j)"

lemma same_elsewhere_refl [simp]: "same_elsewhere K s s"
  by (simp add: same_elsewhere_def)

lemma same_elsewhere_trans: "same_elsewhere K s s' \<Longrightarrow> same_elsewhere K s' s'' \<Longrightarrow> same_elsewhere K s s''"
  by (simp add: same_elsewhere_def)

lemma same_elsewhere_mono: "same_elsewhere K s s' \<Longrightarrow> K \<subseteq> K' \<Longrightarrow> same_elsewhere K' s s'"
  by (auto simp: same_elsewhere_def)

named_theorems elsewhere \<open>updates that touch only the chat they are called for\<close>

lemma same_elsewhere_ops [elsewhere]:
  "k \<in> K \<Longrightarrow> same_elsewhere K s0 (set_flags k b s) = same_elsewhere K s0 s"
  "k \<in> K \<Longrightarrow> same_elsewhere K s0 (setIsGenerating k b s) = same_elsewhere K s0 s"
  "k \<in> K \<Longrightarrow> same_elsewhere K s0 (setIsWaiting k b s) = same_elsewhere K s0 s"
  "k \<in> K \<Longrightarrow> same_elsewhere K s0 (setIsAITyping k b s) = same_elsewhere K s0 s"
  "k \<in> K \<Longrightarrow> same_elsewhere K s0 (setActiveChatJob k jb e s) = same_elsewhere K s0 s"
  "k \<in> K \<Longrightarrow> same_elsewhere K s0 (clearActiveChatJob k s) = same_elsewhere K s0 s"
  "k \<in> K \<Longrightarrow> same_elsewhere K s0 (setMessages k m s) = same_elsewhere K s0 s"
  "k \<in> K \<Longrightarrow> same_elsewhere K s0 (setActiveLeaf k l s) = same_elsewhere K s0 s"
  unfolding same_elsewhere_def by (auto simp: chat_ops)

lemma same_elsewhere_other [elsewhere]:
  "same_elsewhere K s0 (removeOcrPromise jb s) = same_elsewhere K s0 s"
  "same_elsewhere K s0 (s\<lparr>webSockets := w\<rparr>) = same_elsewhere K s0 s"
  "same_elsewhere K s0 (s\<lparr>temporaryNodeBlacklist := bl\<rparr>) = same_elsewhere K s0 s"
  by (simp_all add: same_elsewhere_def removeOcrPromise_def)

text \<open>The message maps are changed by \<open>setMessages\<close> only.\<close>

lemma messages_ops [simp]:
  "messages (set_flags k b s) = messages s" "messages (setIsGenerating k b s) = messages s"
  "messages (setIsWaiting k b s) = messages s" "messages (setIsAITyping k b s) = messages s"
  "messages (setActiveChatJob k jb e s) = messages s" "messages (clearActiveChatJob k s) = messages s"
  "messages (setActiveLeaf k l s) = messages s" "messages (removeOcrPromise jb s) = messages s"
  "messages (setMessages k m s) = (messages s)(k \<mapsto> m)"
  by (simp_all add: chat_ops removeOcrPromise_def)

lemma store_ok_ops [simp]:
  "store_ok (set_flags k b s) = store_ok s" "store_ok (setIsGenerating k b s) = store_ok s"
  "store_ok (setIsWaiting k b s) = store_ok s" "store_ok (setIsAITyping k b s) = store_ok s"
  "store_ok (setActiveChatJob k jb e s) = store_ok s" "store_ok (clearActiveChatJob k s) = store_ok s"
  "store_ok (setActiveLeaf k l s) = store_ok s" "store_ok (removeOcrPromise jb s) = store_ok s"
  "store_ok (s\<lparr>webSockets := w\<rparr>) = store_ok s" "store_ok (s\<lparr>temporaryNodeBlacklist := bl\<rparr>) = store_ok s"
  by (simp_all add: store_ok_def)

text \<open>The blacklist and the sockets are changed by direct updates only.\<close>

lemma blacklist_ops [simp]:
  "temporaryNodeBlacklist (set_flags k b s) = temporaryNodeBlacklist s"
  "temporaryNodeBlacklist (setIsGenerating k b s) = temporaryNodeBlacklist s"
  "temporaryNodeBlacklist (setIsWaiting k b s) = temporaryNodeBlacklist s"
  "temporaryNodeBlacklist (setIsAITyping k b s) = temporaryNodeBlacklist s"
  "temporaryNodeBlacklist (setActiveChatJob k jb e s) = temporaryNodeBlacklist s"
  "temporaryNodeBlacklist (clearActiveChatJob k s) = temporaryNodeBlacklist s"
  "temporaryNodeBlacklist (setMessages k m s) = temporaryNodeBlacklist s"
  "temporaryNodeBlacklist (setActiveLeaf k l s) = temporaryNodeBlacklist s"
  "temporaryNodeBlacklist (removeOcrPromise jb s) = temporaryNodeBlacklist s"
  by (simp_all add: chat_ops removeOcrPromise_def)

lemma webSockets_ops [simp]:
  "webSockets (set_flags k b s) = webSockets s" "webSockets (setIsGenerating k b s) = webSockets s"
  "webSockets (setIsWaiting k b s) = webSockets s" "webSockets (setIsAITyping k b s) = webSockets s"
  "webSockets (setActiveChatJob k jb e s) = webSockets s" "webSockets (clearActiveChatJob k s) = webSockets s"
  "webSockets (setMessages k m s) = webSockets s" "webSockets (setActiveLeaf k l s) = webSockets s"
  "webSockets (removeOcrPromise jb s) = webSockets s"
  by (simp_all add: chat_ops removeOcrPromise_def)

lemma active_ops [simp]:
  "activeChatJobs (set_flags k b s) = activeChatJobs s" "activeChatJobs (setIsGenerating k b s) = activeChatJobs s"
  "activeChatJobs (setIsWaiting k b s) = activeChatJobs s" "activeChatJobs (setIsAITyping k b s) = activeChatJobs s"
  "activeChatJobs (setMessages k m s) = activeChatJobs s" "activeChatJobs (setActiveLeaf k l s) = activeChatJobs s"
  "activeChatJobs (removeOcrPromise jb s) = activeChatJobs s"
  by (simp_all add: chat_ops removeOcrPromise_def)

lemma chats_ops [simp]:
  "chats (set_flags k b s) = chats s" "chats (setIsGenerating k b s) = chats s"
  "chats (setIsWaiting k b s) = chats s" "chats (setIsAITyping k b s) = chats s"
  "chats (setActiveChatJob k jb e s) = chats s" "chats (clearActiveChatJob k s) = chats s"
  "chats (setMessages k m s) = chats s" "chats (setActiveLeaf k l s) = chats s"
  "chats (removeOcrPromise jb s) = chats s"
  by (simp_all add: chat_ops removeOcrPromise_def)

lemma ocr_ops [simp]:
  "ocrPromises (set_flags k b s) = ocrPromises s" "ocrPromises (setActiveChatJob k jb e s) = ocrPromises s"
  "ocrPromises (clearActiveChatJob k s) = ocrPromises s" "ocrPromises (setMessages k m s) = ocrPromises s"
  "ocrPromises (setIsGenerating k b s) = ocrPromises s" "ocrPromises (setIsWaiting k b s) = ocrPromises s"
  "ocrPromises (setIsAITyping k b s) = ocrPromises s"
  "map_get (ocrPromises (removeOcrPromise jb s)) j = (if j = jb then None else map_get (ocrPromises s) j)"
  by (simp_all add: chat_ops removeOcrPromise_def map_has_def)

lemma flags_other_ops [simp]:
  "flags_are (setMessages k m s) j b = flags_are s j b" "flags_are (removeOcrPromise jb s) j b = flags_are s j b"
  "flags_are (s\<lparr>webSockets := w\<rparr>) j b = flags_are s j b"
  "flags_are (s\<lparr>temporaryNodeBlacklist := bl\<rparr>) j b = flags_are s j b"
  by (simp_all add: flags_are_def setMessages_def removeOcrPromise_def)

section \<open>Properties\<close>

text \<open>
  Selecting images never exceeds the model's limit: after \<open>addAttachments\<close> there are at most as
  many images as the larger of the limit and the number already there; nothing that was attached
  is lost and everything added is an image.
\<close>

theorem addAttachments_limit:
  "int (length (filter (\<lambda>a. a_type a = ImageAtt) (attachments (addAttachments rnd new s))))
     \<le> max (image_limit s) (int (length (filter (\<lambda>a. a_type a = ImageAtt) (attachments s))))
   \<and> (\<exists>added. attachments (addAttachments rnd new s) = attachments s @ added
        \<and> set (map a_type added) \<subseteq> {ImageAtt} \<and> length added \<le> length new)"
proof -
  let ?img = "\<lambda>a. a_type a = ImageAtt"
  let ?n = "image_limit s - int (length (filter ?img (attachments s)))"
  let ?new = "select_attachments rnd 0 ?n new"
  have att: "attachments (addAttachments rnd new s) = attachments s @ ?new"
    by (simp add: addAttachments_def Let_def)
  have all: "\<forall>a \<in> set ?new. ?img a" using select_attachments_images by blast
  then have img: "filter ?img ?new = ?new" by (simp only: filter_id_conv)
  have len: "length (select_attachments rnd i k new) \<le> length new" for i k
    by (induction new arbitrary: i k) (simp_all add: le_SucI)
  have bound: "int (length (filter ?img (attachments s @ ?new)))
      \<le> max (image_limit s) (int (length (filter ?img (attachments s))))"
    using select_attachments_length [of rnd 0 ?n new] by (simp only: filter_append img length_append of_nat_add)
  have types: "set (map a_type ?new) \<subseteq> {ImageAtt}"
  proof
    fix x
    assume "x \<in> set (map a_type ?new)"
    then obtain a where "a \<in> set ?new" and "x = a_type a" by auto
    with all show "x \<in> {ImageAtt}" by blast
  qed
  show ?thesis unfolding att using bound len types by blast
qed

text \<open>
  Refreshing the list of chats clears stale spinners: exactly the listed chats without an active
  job lose their generating, typing and waiting flags, every other flag and all message maps stay.
\<close>

theorem fetchChats_clears_idle:
  assumes "registered auth"
  shows "chats (fetchChats auth (Inr cs) s) = cs
    \<and> messages (fetchChats auth (Inr cs) s) = messages s
    \<and> (flag (isGenerating (fetchChats auth (Inr cs) s)) k \<longleftrightarrow> flag (isGenerating s) k \<and> k \<notin> idle_chats cs)
    \<and> (flag (isAITyping (fetchChats auth (Inr cs) s)) k \<longleftrightarrow> flag (isAITyping s) k \<and> k \<notin> idle_chats cs)
    \<and> (flag (isWaiting (fetchChats auth (Inr cs) s)) k \<longleftrightarrow> flag (isWaiting s) k \<and> k \<notin> idle_chats cs)"
proof -
  have "fetchChats auth (Inr cs) s = s\<lparr>chats := cs, hasFetchedChats := True,
                isGenerating := clear_flags_of cs (isGenerating s),
                isAITyping := clear_flags_of cs (isAITyping s),
                isWaiting := clear_flags_of cs (isWaiting s)\<rparr>"
    using assms by (simp add: fetchChats_def)
  then show ?thesis by (simp add: flag_clear_flags_of)
qed

lemma fetchChats_clears_idle_witness:
  "chats (fetchChats example_auth (Inr []) initialChatState) = []"
  using fetchChats_clears_idle [of example_auth "[]" initialChatState] by simp

text \<open>
  Deleting a chat removes every trace of it: when the canister has deleted it, its messages, flags,
  active job and active leaf are gone and, unless the following listing still names it, so is its
  entry; the messages, jobs and leaves of all other chats are untouched. An error of the canister
  leaves the store as it was and is rethrown.
\<close>

theorem deleteChat_removes:
  assumes "registered auth"
  shows "deleteChat auth k (Inl err) auth' listed s = Inl err
    \<and> (\<exists>s'. deleteChat auth k (Inr ()) auth' listed s = Inr s'
        \<and> messages s' = (messages s)(k := None) \<and> activeChatJobs s' = (activeChatJobs s)(k := None)
        \<and> activeLeafMessageId s' = (activeLeafMessageId s)(k := None) \<and> flags_are s' k False
        \<and> (k \<in> c_chatId ` set (chats s') \<longrightarrow> (\<exists>cs. listed = Inr cs \<and> k \<in> c_chatId ` set cs)))"
proof -
  let ?s = "delete_chat_locally k s"
  have "deleteChat auth k (Inr ()) auth' listed s = Inr (fetchChats auth' listed ?s)"
    using assms by (simp add: deleteChat_def chat_call_def)
  moreover have "messages (fetchChats auth' listed ?s) = (messages s)(k := None)
    \<and> activeChatJobs (fetchChats auth' listed ?s) = (activeChatJobs s)(k := None)
    \<and> activeLeafMessageId (fetchChats auth' listed ?s) = (activeLeafMessageId s)(k := None)
    \<and> flags_are (fetchChats auth' listed ?s) k False
    \<and> (k \<in> c_chatId ` set (chats (fetchChats auth' listed ?s)) \<longrightarrow> (\<exists>cs. listed = Inr cs \<and> k \<in> c_chatId ` set cs))"
    by (auto simp: fetchChats_def delete_chat_locally_def flags_are_def flag_clear_flags_of split: sum.splits)
  ultimately show ?thesis using assms by (simp add: deleteChat_def chat_call_def)
qed

lemma deleteChat_removes_witness:
  "\<exists>s'. deleteChat example_auth ''7'' (Inr ()) example_auth (Inr []) initialChatState = Inr s' \<and> flags_are s' ''7'' False"
  using deleteChat_removes [of example_auth "''7''" "[]" example_auth "Inr []" initialChatState] by auto

end
