(* ===== verification/Message_Data.thy ===== *)
theory Message_Data
  imports Chat_State
begin

text \<open>
  \<open>src/gpt_frontend/src/store/chatStore/actions/messageData/fetch.ts\<close>: loading the messages of a
  chat. The canister's answers, the derivation of the chat key and the decryption are parameters;
  \<open>other1\<close> and \<open>other2\<close> are whatever the rest of the program does to the store while the action
  waits for the chat and for the messages and jobs.
\<close>

section \<open>Decrypting\<close>

definition decrypt_one :: "('k \<Rightarrow> bytes \<Rightarrow> string + string) \<Rightarrow> 'k \<Rightarrow> encrypted_message \<Rightarrow> message" where
  "decrypt_one decryptMessage chatKey encMsg =
     (let msg = message.truncate encMsg in
      if em_encryptedContent encMsg = [] then msg\<lparr>m_content := []\<rparr>
      else case decryptMessage chatKey (em_encryptedContent encMsg) of
        Inr plaintext \<Rightarrow> msg\<lparr>m_content := plaintext\<rparr>
      | Inl e \<Rightarrow> msg\<lparr>m_content := ''[Decryption Failed]'',
                     m_errorStatus := Some \<lparr>es_type = UnknownError, es_message = Some ''Decryption failed'',
                                             es_details = None\<rparr>\<rparr>)"

definition decrypt_fetched ::
  "('k \<Rightarrow> bytes \<Rightarrow> string + string) \<Rightarrow> 'k \<Rightarrow> (string + encrypted_message) list \<Rightarrow> message list" where
  "decrypt_fetched decryptMessage chatKey results =
     concat (map (\<lambda>r. case r of Inr encMsg \<Rightarrow> [decrypt_one decryptMessage chatKey encMsg] | Inl e \<Rightarrow> []) results)"

section \<open>Storing the result\<close>

definition was_locally_complete :: "message_map option \<Rightarrow> job_id option \<Rightarrow> bool" where
  "was_locally_complete localMap backendActiveJobId =
     (case localMap of
        None \<Rightarrow> False
      | Some m \<Rightarrow> backendActiveJobId \<noteq> None
          \<and> list_ex (\<lambda>msg. m_role msg = Assistant \<and> m_jobId msg = backendActiveJobId \<and> truthy (m_isComplete msg))
              (map_values m))"

definition job_running :: "job_id option \<Rightarrow> bool \<Rightarrow> job list \<Rightarrow> message_map \<Rightarrow> bool" where
  "job_running backendActiveJobId wasLocallyComplete jobs finalMessagesMap =
     (if backendActiveJobId \<noteq> None \<and> \<not> wasLocallyComplete
      then (case List.find (\<lambda>job. Some (j_job_id job) = backendActiveJobId) jobs of
              None \<Rightarrow> False
            | Some activeJobDetails \<Rightarrow>
                (case map_get finalMessagesMap (j_placeholder_message_id activeJobDetails) of
                   None \<Rightarrow> False
                 | Some placeholder \<Rightarrow>
                     m_role placeholder = Assistant
                     \<and> \<not> truthy (m_isComplete placeholder) \<and> m_errorStatus placeholder = None))
      else False)"

fun latest_message :: "message list \<Rightarrow> instant \<Rightarrow> message_id option \<Rightarrow> message_id option" where
  "latest_message [] latestTime newLeafId = newLeafId"
| "latest_message (msg # msgs) latestTime newLeafId =
     (if latestTime \<le> m_createdAt msg then latest_message msgs (m_createdAt msg) (Some (msg_key msg))
      else latest_message msgs latestTime newLeafId)"

definition set_job_after_fetch :: "chat_id \<Rightarrow> job_id option \<Rightarrow> bool \<Rightarrow> bool \<Rightarrow> chat_state \<Rightarrow> chat_state" where
  "set_job_after_fetch chatId backendActiveJobId isJobActuallyRunning wasLocallyComplete state =
     (case backendActiveJobId of
        Some jobId \<Rightarrow>
          if isJobActuallyRunning \<and> \<not> wasLocallyComplete
          then setActiveChatJob chatId jobId
                 (case activeChatJobs state chatId of
                    Some aj \<Rightarrow> aj_jobId aj = jobId \<and> aj_erroredViaStream aj | None \<Rightarrow> False) state
          else clearActiveChatJob chatId state
      | None \<Rightarrow> clearActiveChatJob chatId state)"

definition set_leaf_after_fetch :: "chat_id \<Rightarrow> message_map \<Rightarrow> chat_state \<Rightarrow> chat_state" where
  "set_leaf_after_fetch chatId finalMessagesMap state =
     (let missing = (case activeLeafMessageId state chatId of
                       None \<Rightarrow> True | Some leaf \<Rightarrow> \<not> map_has finalMessagesMap leaf) in
      if missing
      then (case latest_message (map_values finalMessagesMap) 0 None of
              Some newLeafId \<Rightarrow> setActiveLeaf chatId newLeafId state
            | None \<Rightarrow> state)
      else state)"

definition store_fetched :: "chat_id \<Rightarrow> chat \<Rightarrow> message list \<Rightarrow> job list \<Rightarrow> chat_state \<Rightarrow> chat_state" where
  "store_fetched chatId c decryptedMessages jobs state =
     (let localMapBeforeMerge = messages state chatId;
          backendActiveJobId = c_activeJobId c;
          wasLocallyComplete = was_locally_complete localMapBeforeMerge backendActiveJobId;
          mergedMap = mergeFetchedWithLocalMap decryptedMessages localMapBeforeMerge;
          finalMessagesMap = mergeJobDetailsIntoMap mergedMap jobs;
          isJobActuallyRunning = job_running backendActiveJobId wasLocallyComplete jobs finalMessagesMap;
          state' = state\<lparr>messages := (messages state)(chatId \<mapsto> finalMessagesMap),
                         isLoading := False,
                         isGenerating := (isGenerating state)(chatId \<mapsto> isJobActuallyRunning),
                         isAITyping := (isAITyping state)(chatId \<mapsto> isJobActuallyRunning),
                         isWaiting := (isWaiting state)(chatId \<mapsto> isJobActuallyRunning \<and> \<not> flag (isAITyping state) chatId)\<rparr>
      in set_leaf_after_fetch chatId finalMessagesMap
           (set_job_after_fetch chatId backendActiveJobId isJobActuallyRunning wasLocallyComplete state'))"

definition fetch_failed :: "chat_id \<Rightarrow> chat_state \<Rightarrow> chat_state" where
  "fetch_failed chatId state =
     clearActiveChatJob chatId
       (state\<lparr>isLoading := False,
              isAITyping := (isAITyping state)(chatId \<mapsto> False),
              isGenerating := (isGenerating state)(chatId \<mapsto> False),
              isWaiting := (isWaiting state)(chatId \<mapsto> False)\<rparr>)"

section \<open>The action\<close>

definition fetchMessages ::
  "(string \<Rightarrow> bytes \<Rightarrow> string + 'k) \<Rightarrow> ('k \<Rightarrow> bytes \<Rightarrow> string + string)
     \<Rightarrow> auth_state \<Rightarrow> chat_id \<Rightarrow> string + chat \<Rightarrow> (int \<Rightarrow> string + encrypted_message) \<Rightarrow> string + job list
     \<Rightarrow> (chat_state \<Rightarrow> chat_state) \<Rightarrow> (chat_state \<Rightarrow> chat_state) \<Rightarrow> chat_state \<Rightarrow> chat_state" where
  "fetchMessages deriveChatKey decryptMessage auth chatId chatAnswer messageAnswer jobsAnswer other1 other2 state =
     (if \<not> vault_open auth then state
      else
        let state1 = other1 (state\<lparr>isLoading := True\<rparr>) in
        case chatAnswer of
          Inl e \<Rightarrow> fetch_failed chatId state1
        | Inr c \<Rightarrow>
            let state2 = (if currentChatId state1 = Some chatId then state1\<lparr>chatTitle := c_title c\<rparr> else state1) in
            (case deriveChatKey (the (au_rootKey auth)) (c_encryptionSalt c) of
               Inl e \<Rightarrow> fetch_failed chatId (other2 state2)
             | Inr chatKey \<Rightarrow>
                 if list_ex (\<lambda>i. parse_bigint i = None) (c_messageIds c) then fetch_failed chatId (other2 state2)
                 else
                   let results = map (\<lambda>i. messageAnswer (the (parse_bigint i))) (c_messageIds c);
                       decryptedMessages = decrypt_fetched decryptMessage chatKey results
                   in (case jobsAnswer of
                         Inl e \<Rightarrow> fetch_failed chatId (other2 state2)
                       | Inr jobs \<Rightarrow> store_fetched chatId c decryptedMessages jobs (other2 state2))))"

section \<open>Lemmas\<close>

lemma latest_message_key:
  "latest_message ms t l = Some k \<Longrightarrow> (\<exists>m \<in> set ms. msg_key m = k) \<or> l = Some k"
  by (induction ms arbitrary: t l) (auto split: if_splits)

lemma latest_message_some: "latest_message ms t (Some l) \<noteq> None"
  by (induction ms arbitrary: t l) auto

lemma latest_message_exists: "ms \<noteq> [] \<Longrightarrow> latest_message ms 0 None \<noteq> None"
  using latest_message_some by (cases ms) (auto split: if_splits)

lemma set_leaf_simps [simp]:
  "activeChatJobs (set_leaf_after_fetch k m s) = activeChatJobs s"
  "messages (set_leaf_after_fetch k m s) = messages s"
  "isLoading (set_leaf_after_fetch k m s) = isLoading s"
  "flags_are (set_leaf_after_fetch k m s) j b = flags_are s j b"
  by (simp_all add: set_leaf_after_fetch_def Let_def setActiveLeaf_def flags_are_def split: option.split)

lemma set_job_simps [simp]:
  "messages (set_job_after_fetch k j r w s) = messages s"
  "isLoading (set_job_after_fetch k j r w s) = isLoading s"
  "activeLeafMessageId (set_job_after_fetch k j r w s) = activeLeafMessageId s"
  by (simp_all add: set_job_after_fetch_def setActiveChatJob_def clearActiveChatJob_def split: option.split)

lemma leaf_after_fetch:
  assumes "m \<noteq> []" and "keyed m"
  shows "\<exists>leaf. activeLeafMessageId (set_leaf_after_fetch k m s) k = Some leaf \<and> map_has m leaf"
proof (cases "case activeLeafMessageId s k of None \<Rightarrow> True | Some leaf \<Rightarrow> \<not> map_has m leaf")
  case True
  obtain l where l: "latest_message (map_values m) 0 None = Some l"
    using latest_message_exists [of "map_values m"] assms(1) by auto
  then obtain v where "v \<in> set (map_values m)" and "msg_key v = l"
    using latest_message_key by force
  then have "map_has m l" using assms(2) map_value_key [of v m] by (force simp: map_has_iff keyed_def)
  with True l show ?thesis by (simp add: set_leaf_after_fetch_def setActiveLeaf_def)
next
  case False
  then show ?thesis by (auto simp: set_leaf_after_fetch_def split: option.splits)
qed

lemma store_fetched_messages:
  "messages (store_fetched k c ms jobs s) k = Some (mergeJobDetailsIntoMap (mergeFetchedWithLocalMap ms (messages s k)) jobs)"
  by (simp add: store_fetched_def Let_def)

lemma store_fetched_job:
  fixes k c ms jobs s
  defines "m \<equiv> mergeJobDetailsIntoMap (mergeFetchedWithLocalMap ms (messages s k)) jobs"
    and "r \<equiv> job_running (c_activeJobId c) (was_locally_complete (messages s k) (c_activeJobId c)) jobs
                (mergeJobDetailsIntoMap (mergeFetchedWithLocalMap ms (messages s k)) jobs)"
  shows "if r then \<exists>j e. c_activeJobId c = Some j \<and> flags_are (store_fetched k c ms jobs s) k (\<not> e)
              \<and> activeChatJobs (store_fetched k c ms jobs s) k = Some \<lparr>aj_jobId = j, aj_erroredViaStream = e\<rparr>
              \<and> (e \<longrightarrow> (\<exists>aj. activeChatJobs s k = Some aj \<and> aj_jobId aj = j \<and> aj_erroredViaStream aj))
         else flags_are (store_fetched k c ms jobs s) k False \<and> activeChatJobs (store_fetched k c ms jobs s) k = None"
proof (cases r)
  case True
  then obtain j where j: "c_activeJobId c = Some j" and w: "\<not> was_locally_complete (messages s k) (c_activeJobId c)"
    by (auto simp: r_def job_running_def split: if_splits)
  let ?e = "case activeChatJobs s k of Some aj \<Rightarrow> aj_jobId aj = j \<and> aj_erroredViaStream aj | None \<Rightarrow> False"
  have "flags_are (store_fetched k c ms jobs s) k (\<not> ?e)"
    and "activeChatJobs (store_fetched k c ms jobs s) k = Some \<lparr>aj_jobId = j, aj_erroredViaStream = ?e\<rparr>"
    using True j w by (simp_all add: store_fetched_def Let_def set_job_after_fetch_def r_def)
  with True j show ?thesis by (auto split: option.splits)
next
  case False
  then show ?thesis
    by (cases "c_activeJobId c") (simp_all add: store_fetched_def Let_def set_job_after_fetch_def r_def)
qed

lemma store_fetched_loading: "isLoading (store_fetched k c ms jobs s) = False"
  by (simp add: store_fetched_def Let_def)

lemma fetch_failed_simps [simp]:
  "isLoading (fetch_failed k s) = False" "flags_are (fetch_failed k s) j b = (if j = k then \<not> b else flags_are s j b)"
  "activeChatJobs (fetch_failed k s) = (activeChatJobs s)(k := None)" "messages (fetch_failed k s) = messages s"
  by (simp_all add: fetch_failed_def clearActiveChatJob_def flags_are_def)

text \<open>How a fetch ends: with an error, or with what was fetched stored.\<close>

lemma fetchMessages_cases:
  assumes "vault_open auth"
  obtains (failed) s' where "fetchMessages derive decrypt auth k chatA msgA jobsA o1 o2 s = fetch_failed k s'"
  | (stored) c ms jobs s2 where "chatA = Inr c" "jobsA = Inr jobs"
      "fetchMessages derive decrypt auth k chatA msgA jobsA o1 o2 s = store_fetched k c ms jobs (o2 s2)"
proof (cases chatA)
  case (Inl e)
  with failed assms show thesis by (simp add: fetchMessages_def)
next
  case (Inr c)
  note c = Inr
  let ?s2 = "let s1 = o1 (s\<lparr>isLoading := True\<rparr>) in if currentChatId s1 = Some k then s1\<lparr>chatTitle := c_title c\<rparr> else s1"
  show thesis
  proof (cases "derive (the (au_rootKey auth)) (c_encryptionSalt c)")
    case (Inl e)
    with failed [of "o2 ?s2"] c assms show thesis by (simp add: fetchMessages_def Let_def)
  next
    case (Inr key)
    note key = Inr
    let ?ms = "decrypt_fetched decrypt key (map (\<lambda>i. msgA (the (parse_bigint i))) (c_messageIds c))"
    show thesis
    proof (cases "list_ex (\<lambda>i. parse_bigint i = None) (c_messageIds c)")
      case True
      with failed [of "o2 ?s2"] c key assms show thesis by (simp add: fetchMessages_def Let_def)
    next
      case False
      with failed [of "o2 ?s2"] stored [of c _ ?ms ?s2] c key assms show thesis
        by (cases jobsA) (simp_all add: fetchMessages_def Let_def)
    qed
  qed
qed

section \<open>Properties\<close>

text \<open>
  C6: the spinner after a fetch is truthful. However the answers come and whatever else happens in
  between, a fetch ends with \<open>isLoading\<close> off and the three flags of the chat agreeing; when they are
  on, the chat has an active, not errored job, whose placeholder is an assistant message of the
  chat that is neither complete nor errored; when they are off, the chat has no active job or one
  that failed in its stream.
\<close>

theorem fetchMessages_outcome:
  assumes "vault_open auth" and "s' = fetchMessages derive decrypt auth k chatA msgA jobsA o1 o2 s"
  shows "isLoading s' = False
    \<and> (\<exists>b. flags_are s' k b
        \<and> (b \<longrightarrow> (\<exists>aj c jobs j v. activeChatJobs s' k = Some aj \<and> \<not> aj_erroredViaStream aj \<and> chatA = Inr c
              \<and> c_activeJobId c = Some (aj_jobId aj) \<and> jobsA = Inr jobs \<and> j \<in> set jobs \<and> j_job_id j = aj_jobId aj
              \<and> map_get (the (messages s' k)) (j_placeholder_message_id j) = Some v \<and> m_role v = Assistant
              \<and> \<not> truthy (m_isComplete v) \<and> m_errorStatus v = None))
        \<and> (\<not> b \<longrightarrow> (\<forall>aj. activeChatJobs s' k = Some aj \<longrightarrow> aj_erroredViaStream aj)))"
  using assms(1)
proof (cases rule: fetchMessages_cases [of auth derive decrypt k chatA msgA jobsA o1 o2 s])
  case (failed t)
  then show ?thesis by (auto simp: assms(2) intro: exI [of _ False])
next
  case (stored c ms jobs s2)
  let ?s = "o2 s2" and ?m = "mergeJobDetailsIntoMap (mergeFetchedWithLocalMap ms (messages (o2 s2) k)) jobs"
  have s': "s' = store_fetched k c ms jobs ?s" using stored(3) assms(2) by simp
  let ?r = "job_running (c_activeJobId c) (was_locally_complete (messages ?s k) (c_activeJobId c)) jobs ?m"
  show ?thesis
  proof (cases ?r)
    case True
    then obtain j e where j: "c_activeJobId c = Some j" "flags_are s' k (\<not> e)"
      "activeChatJobs s' k = Some \<lparr>aj_jobId = j, aj_erroredViaStream = e\<rparr>"
      using store_fetched_job [of c ?s k jobs ms] s' by auto
    obtain d v where d: "d \<in> set jobs" "j_job_id d = j" and v: "map_get ?m (j_placeholder_message_id d) = Some v"
      "m_role v = Assistant" "\<not> truthy (m_isComplete v)" "m_errorStatus v = None"
      using True j(1) by (auto simp: job_running_def dest!: find_SomeD split: if_splits option.splits)
    have m: "messages s' k = Some ?m" using s' by (simp add: store_fetched_messages)
    have "isLoading s' = False" using s' by (simp add: store_fetched_loading)
    with j d v m stored(1,2) show ?thesis by (intro conjI exI [of _ "\<not> e"]) auto
  next
    case False
    then have "flags_are s' k False" "activeChatJobs s' k = None" "isLoading s' = False"
      using store_fetched_job [of c ?s k jobs ms] s' by (auto simp: store_fetched_loading)
    then show ?thesis by (intro conjI exI [of _ False]) auto
  qed
qed

lemma fetchMessages_outcome_witness:
  "isLoading (fetchMessages (\<lambda>_ _. Inr ()) (\<lambda>_ _. Inr []) example_auth ''7'' (Inl ''offline'') (\<lambda>_. Inl []) (Inr []) id id
     initialChatState) = False"
  using fetchMessages_outcome [of example_auth _ "\<lambda>_ _. Inr ()" "\<lambda>_ _. Inr []" "''7''" "Inl ''offline''" "\<lambda>_. Inl []"
      "Inr []" id id initialChatState] by simp

text \<open>
  Storing a fetch keeps the store consistent: the chat's messages are still each under its own
  identifier, the active leaf is one of them when there are any, other chats' messages are
  untouched, and a job whose answer was already complete locally is not started again, although
  the canister still lists it as active.
\<close>

theorem store_fetched_consistent:
  assumes "\<And>m. messages s k = Some m \<Longrightarrow> keyed m"
  shows "\<exists>m. messages (store_fetched k c ms jobs s) = (messages s)(k \<mapsto> m) \<and> keyed m
    \<and> (m \<noteq> [] \<longrightarrow> (\<exists>leaf. activeLeafMessageId (store_fetched k c ms jobs s) k = Some leaf \<and> map_has m leaf))
    \<and> (was_locally_complete (messages s k) (c_activeJobId c) \<longrightarrow>
         flags_are (store_fetched k c ms jobs s) k False \<and> activeChatJobs (store_fetched k c ms jobs s) k = None)"
proof -
  let ?m = "mergeJobDetailsIntoMap (mergeFetchedWithLocalMap ms (messages s k)) jobs"
  have key: "keyed ?m" by (intro keyed_merge_jobs keyed_merge) (rule assms)
  have "messages (store_fetched k c ms jobs s) = (messages s)(k \<mapsto> ?m)"
    by (simp add: store_fetched_def Let_def)
  moreover have "?m \<noteq> [] \<longrightarrow> (\<exists>leaf. activeLeafMessageId (store_fetched k c ms jobs s) k = Some leaf \<and> map_has ?m leaf)"
    using leaf_after_fetch [OF _ key] by (simp add: store_fetched_def Let_def)
  moreover have "was_locally_complete (messages s k) (c_activeJobId c) \<longrightarrow>
      flags_are (store_fetched k c ms jobs s) k False \<and> activeChatJobs (store_fetched k c ms jobs s) k = None"
    using store_fetched_job [of c s k jobs ms] by (auto simp: job_running_def)
  ultimately show ?thesis using key by blast
qed

lemma store_fetched_consistent_witness:
  "\<exists>m. messages (store_fetched ''7'' (plain_chat ''7'') [plain_message ''1'' ''7'' User ''a'' None 3] [] initialChatState) ''7''
      = Some m \<and> keyed m"
proof -
  have "\<And>m. messages initialChatState ''7'' = Some m \<Longrightarrow> keyed m" by (simp add: initialChatState_def)
  then show ?thesis
    using store_fetched_consistent [where s = initialChatState and k = "''7''" and c = "plain_chat ''7''" and jobs = "[]"
      and ms = "[plain_message ''1'' ''7'' User ''a'' None 3]"]
    by fastforce
qed

end
