(* ===== verification/Backend_Mappers.thy ===== *)
theory Backend_Mappers
  imports Candid_Utils
begin

text \<open>
  \<open>src/gpt_frontend/src/utils/mappers.ts\<close> and \<open>model-enhancement.ts\<close>: from the Candid records the
  canisters return to the frontend's domain types. An optional of Candid is a list, a \<open>nat64\<close> an
  integer, a variant its name with its text payload. The instants built by
  \<open>new Date(...).toISOString()\<close> are the milliseconds themselves.
\<close>

section \<open>Backend records\<close>

text \<open>
  An error as Candid gives it is an object with the variant's name as its key; in the \<open>JSON\<close> a node sends, \<open>serde\<close>
  writes a variant without a payload as its bare name.
\<close>

datatype backend_provider_error = Provider_Variant string "string option" | Provider_Text string

datatype backend_error =
  Error_Variant string "string option" | Provider_Error backend_provider_error | Error_Text string

datatype backend_role = BSystem | BTool | BUser | BAssistant

record backend_tool_call =
  btc_id :: string
  btc_name :: string
  btc_arguments :: string

record backend_tool_result =
  btr_tool_call_id :: string
  btr_content :: string
  btr_error :: "string list"

record backend_attachment =
  bat_mime_type :: string
  bat_data :: blob_arg

record backend_message =
  bm_message_id :: int
  bm_chat_id :: int
  bm_role :: backend_role
  bm_content :: blob_arg
  bm_parent_message_id :: "int list"
  bm_created_at :: int
  bm_updated_at :: int
  bm_error_status :: "backend_error list"
  bm_attachments :: "backend_attachment list list"
  bm_tool_calls :: "backend_tool_call list list"
  bm_tool_results :: "backend_tool_result list list"
  bm_tool_call_id :: "string list"
  bm_requires_client_action :: bool
  bm_usage :: "token_usage list"

record backend_chat =
  bc_chat_id :: int
  bc_title :: string
  bc_message_ids :: "int list"
  bc_job_ids :: "int list"
  bc_created_at :: int
  bc_updated_at :: int
  bc_owner :: principal
  bc_active_job_id :: "int list"
  bc_archived :: bool
  bc_temporary :: bool
  bc_encryption_salt :: blob_arg

record backend_job =
  bj_job_id :: int
  bj_chat_id :: int
  bj_node_id :: int
  bj_model_id :: string
  bj_placeholder_message_id :: int
  bj_generation_status :: string
  bj_temperature :: rat
  bj_max_completion_tokens :: int
  bj_max_context :: int
  bj_custom_prompt :: "string list"
  bj_tools :: "tool list list"
  bj_extra_body_json :: "string list"
  bj_reasoning_effort :: "string list"
  bj_created_at :: int
  bj_updated_at :: int

record backend_chunk =
  bk_chunk_index :: nat
  bk_start_char :: nat
  bk_end_char :: nat
  bk_embedding :: embedding_arg

record backend_file =
  bf_id :: int
  bf_name :: string
  bf_content_size_bytes :: int
  bf_updated_at :: int
  bf_mime_type :: string
  bf_parent_folder_id :: int
  bf_chunks :: "backend_chunk list"

record backend_folder =
  bfo_id :: int
  bfo_name :: string

record backend_model =
  bmd_model_id :: string
  bmd_name :: string
  bmd_provider :: string
  bmd_provider_model :: string
  bmd_provider_endpoint :: string
  bmd_maker :: string
  bmd_max_context :: int
  bmd_max_output :: int
  bmd_input_token_price :: rat
  bmd_output_token_price :: rat
  bmd_max_image_attachments :: int
  bmd_max_tools :: int
  bmd_aa_score :: "rat list"
  bmd_release_date :: "string list"
  bmd_status :: string
  bmd_extra_body_json :: "string list"
  bmd_is_reasoning :: bool
  bmd_is_embedding :: bool
  bmd_is_featured :: bool

record backend_local_node =
  bln_node_id :: int
  bln_public_key :: "string list"
  bln_address :: string
  bln_model_id :: string
  bln_node_principal :: "principal list"

record backend_public_node =
  bpn_node_id :: int
  bpn_public_key :: "string list"
  bpn_owner :: principal
  bpn_detected_generation :: "string list"
  bpn_hostname :: string
  bpn_attestation_verified_at :: "int list"
  bpn_reported_measurement_hex :: "string list"
  bpn_is_active :: bool
  bpn_model_id :: string
  bpn_reported_chip_id_hex :: "string list"
  bpn_node_principal :: "principal list"
  bpn_last_heartbeat_timestamp :: "int list"

definition id_text :: "int \<Rightarrow> string" where
  "id_text i = fromBigInt (Some i)"

definition instant_of :: "int \<Rightarrow> instant" where
  "instant_of ns = nat (fromTimestamp (Some ns))"

section \<open>Error status\<close>

definition provider_status :: "provider_error_kind \<Rightarrow> string option \<Rightarrow> provider_error" where
  "provider_status k msg = \<lparr>pe_type = k, pe_message = msg\<rparr>"

text \<open>\<open>name in err\<close> throws when \<open>err\<close> is not an object.\<close>

definition in_error :: "string \<Rightarrow> string \<Rightarrow> string" where
  "in_error name txt = ''Cannot use 'in' operator to search for '' @ [CHR 0x27] @ name @ [CHR 0x27] @ '' in '' @ txt"

fun normalizeProviderError :: "backend_provider_error \<Rightarrow> string + provider_error" where
  "normalizeProviderError (Provider_Variant name payload) =
     Inr (if name = ''RateLimited'' then provider_status RateLimited None
      else if name = ''AuthenticationError'' then provider_status AuthenticationError None
      else if name = ''ServerError'' then provider_status ServerError None
      else if name = ''ServiceUnavailable'' then provider_status ServiceUnavailable None
      else if name = ''BadRequest'' then provider_status BadRequest None
      else if name = ''ContextLengthExceeded'' then provider_status ContextLengthExceeded None
      else if name = ''ContentPolicyViolation'' then provider_status ContentPolicyViolation None
      else if name = ''NetworkError'' then provider_status NetworkError None
      else if name = ''Timeout'' then provider_status ProviderTimeout None
      else if name = ''InvalidImage'' then provider_status InvalidImage payload
      else if name = ''Unknown'' then provider_status UnknownProvider payload
      else provider_status UnknownProvider (Some ''Unknown provider error''))"
| "normalizeProviderError (Provider_Text txt) = Inl (in_error ''RateLimited'' txt)"

definition status_of :: "error_kind \<Rightarrow> string option \<Rightarrow> error_status" where
  "status_of k msg = \<lparr>es_type = k, es_message = msg, es_details = None\<rparr>"

definition normalizeErrorStatus :: "backend_error opt_arg \<Rightarrow> string + error_status option" where
  "normalizeErrorStatus backendError =
     (case fromOpt backendError of
        None \<Rightarrow> Inr None
      | Some (Error_Text txt) \<Rightarrow> if txt = [] then Inr None else Inl (in_error ''NodeOffline'' txt)
      | Some (Error_Variant name payload) \<Rightarrow>
          Inr (Some (if name = ''NodeOffline'' then status_of NodeOffline None
                else if name = ''Timeout'' then status_of Timeout None
                else if name = ''CanisterCallError'' then status_of CanisterCallError payload
                else if name = ''InvalidState'' then status_of InvalidState payload
                else if name = ''ConfigurationError'' then status_of ConfigurationError payload
                else if name = ''Unknown'' then status_of UnknownError payload
                else status_of UnknownError (Some ''Unknown error kind'')))
      | Some (Provider_Error err) \<Rightarrow>
          map_sum_r (\<lambda>e. Some \<lparr>es_type = ProviderError, es_message = None, es_details = Some e\<rparr>) (normalizeProviderError err))"

section \<open>Chats, messages, jobs\<close>

definition mapBackendChatToFrontend :: "backend_chat \<Rightarrow> chat" where
  "mapBackendChatToFrontend backendChat =
     \<lparr>c_chatId = toChatId (id_text (bc_chat_id backendChat)),
      c_title = bc_title backendChat,
      c_createdAt = instant_of (bc_created_at backendChat),
      c_updatedAt = instant_of (bc_updated_at backendChat),
      c_owner = bc_owner backendChat,
      c_messageIds = map (\<lambda>i. toMessageId (id_text i)) (bc_message_ids backendChat),
      c_jobIds = map (\<lambda>i. toJobId (id_text i)) (bc_job_ids backendChat),
      c_activeJobId = (case fromOptArr (bc_active_job_id backendChat) of
                         Some j \<Rightarrow> Some (toJobId (id_text j)) | None \<Rightarrow> None),
      c_archived = bc_archived backendChat,
      c_temporary = bc_temporary backendChat,
      c_encryptionSalt = toBlob (bc_encryption_salt backendChat)\<rparr>"

definition list_or_undefined :: "'a list \<Rightarrow> 'a list option" where
  "list_or_undefined xs = (if xs = [] then None else Some xs)"

definition mapBackendAttachments :: "backend_attachment list \<Rightarrow> image_attachment list option" where
  "mapBackendAttachments atts =
     list_or_undefined (map (\<lambda>att. \<lparr>ia_mime_type = bat_mime_type att, ia_data = toBlob (bat_data att)\<rparr>) atts)"

definition mapBackendToolCalls :: "backend_tool_call list \<Rightarrow> tool_call list option" where
  "mapBackendToolCalls calls =
     list_or_undefined (map (\<lambda>c. \<lparr>tc_id = btc_id c, tc_name = btc_name c, tc_arguments = btc_arguments c\<rparr>) calls)"

definition mapBackendToolResults :: "backend_tool_result list \<Rightarrow> tool_result list option" where
  "mapBackendToolResults results =
     list_or_undefined (map (\<lambda>r. \<lparr>tr_tool_call_id = btr_tool_call_id r, tr_content = btr_content r,
                                   tr_error = fromOptArr (btr_error r)\<rparr>) results)"

definition mapBackendUsage :: "backend_message \<Rightarrow> token_usage option" where
  "mapBackendUsage m = fromOptArr (bm_usage m)"

text \<open>\<open>roleKey.toLowerCase()\<close>\<close>

fun role_of_key :: "backend_role \<Rightarrow> role" where
  "role_of_key BSystem = System"
| "role_of_key BTool = ToolMsg"
| "role_of_key BUser = User"
| "role_of_key BAssistant = Assistant"

text \<open>\<open>fromOpt(x) ?? []\<close>\<close>

definition opt_list :: "'a list list \<Rightarrow> 'a list" where
  "opt_list x = (case fromOptArr x of Some xs \<Rightarrow> xs | None \<Rightarrow> [])"

definition mapBackendMessageToFrontend :: "backend_message \<Rightarrow> string + encrypted_message" where
  "mapBackendMessageToFrontend m =
     bind_sum (normalizeErrorStatus (case fromOptArr (bm_error_status m) of Some e \<Rightarrow> OptValue e | None \<Rightarrow> OptMissing))
       (\<lambda>mappedErrorStatus.
      let hasContent = toBlob (bm_content m) \<noteq> [];
          hasToolResults = opt_list (bm_tool_results m) \<noteq> [];
          isComplete = (mappedErrorStatus \<noteq> None
                        \<or> \<not> bm_requires_client_action m \<and> (hasContent \<or> hasToolResults));
          parentId = map_option (\<lambda>i. toMessageId (id_text i)) (fromOptArr (bm_parent_message_id m))
      in Inr \<lparr>m_id = toMessageId (id_text (bm_message_id m)),
          m_backendId = Some (toMessageId (id_text (bm_message_id m))),
          m_chatId = toChatId (id_text (bm_chat_id m)),
          m_role = role_of_key (bm_role m),
          m_content = [],
          m_parentMessageId = parentId,
          m_createdAt = instant_of (bm_created_at m),
          m_updatedAt = instant_of (bm_updated_at m),
          m_errorStatus = mappedErrorStatus,
          m_isComplete = Some isComplete,
          m_jobId = None,
          m_modelId = None,
          m_attachments = mapBackendAttachments (opt_list (bm_attachments m)),
          m_tool_calls = mapBackendToolCalls (opt_list (bm_tool_calls m)),
          m_tool_results = mapBackendToolResults (opt_list (bm_tool_results m)),
          m_tool_call_id = fromOptArr (bm_tool_call_id m),
          m_requires_client_action = Some (bm_requires_client_action m),
          m_usage = mapBackendUsage m,
          em_encryptedContent = toBlob (bm_content m)\<rparr>)"

definition mapBackendJobToFrontend :: "backend_job \<Rightarrow> job" where
  "mapBackendJobToFrontend b =
     \<lparr>j_job_id = toJobId (id_text (bj_job_id b)),
      j_chat_id = toChatId (id_text (bj_chat_id b)),
      j_node_id = toNodeId (id_text (bj_node_id b)),
      j_model_id = bj_model_id b,
      j_placeholder_message_id = toMessageId (id_text (bj_placeholder_message_id b)),
      j_generation_status = bj_generation_status b,
      j_temperature = bj_temperature b,
      j_max_completion_tokens = bj_max_completion_tokens b,
      j_max_context = bj_max_context b,
      j_custom_prompt = fromOptArr (bj_custom_prompt b),
      j_tools = map_option (map (\<lambda>t. t\<lparr>t_displayName := None\<rparr>)) (fromOptArr (bj_tools b)),
      j_extra_body_json = fromOptArr (bj_extra_body_json b),
      j_reasoning_effort = fromOptArr (bj_reasoning_effort b),
      j_created_at = fromTimestamp (Some (bj_created_at b)),
      j_updated_at = fromTimestamp (Some (bj_updated_at b))\<rparr>"

section \<open>Files and folders\<close>

definition mapBackendTextChunk :: "(32 word \<Rightarrow> rat) \<Rightarrow> backend_chunk \<Rightarrow> text_chunk" where
  "mapBackendTextChunk of_f32 c =
     \<lparr>k_chunk_index = bk_chunk_index c, k_start_char = bk_start_char c, k_end_char = bk_end_char c,
      k_embedding = deserializeEmbedding of_f32 (bk_embedding c)\<rparr>"

definition mapBackendFile :: "(32 word \<Rightarrow> rat) \<Rightarrow> backend_file \<Rightarrow> file_item" where
  "mapBackendFile of_f32 f =
     \<lparr>fi_id = toFileId (id_text (bf_id f)),
      fi_name = bf_name f,
      fi_size = nat (bf_content_size_bytes f),
      fi_uploadedAt = instant_of (bf_updated_at f),
      fi_mimeType = bf_mime_type f,
      fi_parentId = toFolderId (id_text (bf_parent_folder_id f)),
      fi_chunks = map (mapBackendTextChunk of_f32) (bf_chunks f)\<rparr>"

definition mapBackendFolder :: "backend_folder \<Rightarrow> folder_id option \<Rightarrow> folder" where
  "mapBackendFolder b parentId =
     \<lparr>fo_id = toFolderId (id_text (bfo_id b)), fo_name = bfo_name b,
      fo_parentId = map_option toFolderId parentId\<rparr>"

section \<open>Models\<close>

definition mapBackendModelToFrontend :: "backend_model \<Rightarrow> model" where
  "mapBackendModelToFrontend b =
     \<lparr>md_modelId = bmd_model_id b, md_name = bmd_name b, md_provider = bmd_provider b,
      md_providerModel = bmd_provider_model b, md_providerEndpoint = bmd_provider_endpoint b,
      md_maker = to_lower (bmd_maker b), md_nodeCount = 0,
      md_maxContext = bmd_max_context b, md_maxOutput = bmd_max_output b,
      md_inputTokenPrice = bmd_input_token_price b, md_outputTokenPrice = bmd_output_token_price b,
      md_max_image_attachments = bmd_max_image_attachments b, md_max_tools = bmd_max_tools b,
      md_aaScore = fromOptArr (bmd_aa_score b), md_releaseDate = fromOptArr (bmd_release_date b),
      md_status = (if bmd_status b = ''Active'' then Active else Paused),
      md_extra_body_json = fromOptArr (bmd_extra_body_json b),
      md_isReasoning = bmd_is_reasoning b, md_isEmbedding = bmd_is_embedding b,
      md_isFeatured = bmd_is_featured b\<rparr>"

text \<open>\<open>enhanceModel\<close> of \<open>model-enhancement.ts\<close> destructures the record first.\<close>

definition enhanceModel :: "backend_model \<Rightarrow> model" where
  "enhanceModel b =
     (let statusEnum = (if bmd_status b = ''Active'' then Active else Paused) in
      \<lparr>md_modelId = bmd_model_id b, md_name = bmd_name b, md_provider = bmd_provider b,
       md_providerModel = bmd_provider_model b, md_providerEndpoint = bmd_provider_endpoint b,
       md_maker = to_lower (bmd_maker b), md_nodeCount = 0,
       md_maxContext = bmd_max_context b, md_maxOutput = bmd_max_output b,
       md_inputTokenPrice = bmd_input_token_price b, md_outputTokenPrice = bmd_output_token_price b,
       md_max_image_attachments = bmd_max_image_attachments b, md_max_tools = bmd_max_tools b,
       md_aaScore = fromOptArr (bmd_aa_score b), md_releaseDate = fromOptArr (bmd_release_date b),
       md_status = statusEnum,
       md_extra_body_json = fromOptArr (bmd_extra_body_json b),
       md_isReasoning = bmd_is_reasoning b, md_isEmbedding = bmd_is_embedding b,
       md_isFeatured = bmd_is_featured b\<rparr>)"

section \<open>Nodes\<close>

text \<open>\<open>Principal.anonymous()\<close> has the text form \<open>2vxsx-fae\<close>.\<close>

definition anonymous :: principal where
  "anonymous = ''2vxsx-fae''"

definition mapBackendLocalNodeToFrontend :: "backend_local_node \<Rightarrow> node_info" where
  "mapBackendLocalNodeToFrontend node =
     (let nodePrincipalOpt = fromOptArr (bln_node_principal node);
          ownerPrincipal = (case nodePrincipalOpt of Some p \<Rightarrow> p | None \<Rightarrow> anonymous)
      in \<lparr>n_nodeId = toNodeId (id_text (bln_node_id node)), n_owner = ownerPrincipal,
          n_nodePrincipal = nodePrincipalOpt, n_hostname = bln_address node,
          n_modelId = bln_model_id node, n_isActive = True,
          n_attestationVerifiedAt = None, n_lastHeartbeatTimestamp = None,
          n_reportedMeasurementHex = None, n_reportedChipIdHex = None,
          n_detectedGeneration = None, n_publicKey = fromOptArr (bln_public_key node)\<rparr>)"

text \<open>\<open>fromOpt(t) ? fromTimestamp(fromOpt(t)) : null\<close>: a timestamp of zero counts as missing.\<close>

definition opt_timestamp :: "int list \<Rightarrow> int option" where
  "opt_timestamp t = (case fromOptArr t of
     Some ns \<Rightarrow> if ns = 0 then None else Some (fromTimestamp (Some ns)) | None \<Rightarrow> None)"

definition mapBackendPublicNodeInfoToFrontend :: "backend_public_node \<Rightarrow> node_info" where
  "mapBackendPublicNodeInfoToFrontend node =
     \<lparr>n_nodeId = toNodeId (id_text (bpn_node_id node)), n_owner = bpn_owner node,
      n_nodePrincipal = fromOptArr (bpn_node_principal node), n_hostname = bpn_hostname node,
      n_modelId = bpn_model_id node, n_isActive = bpn_is_active node,
      n_attestationVerifiedAt = opt_timestamp (bpn_attestation_verified_at node),
      n_lastHeartbeatTimestamp = opt_timestamp (bpn_last_heartbeat_timestamp node),
      n_reportedMeasurementHex = fromOptArr (bpn_reported_measurement_hex node),
      n_reportedChipIdHex = fromOptArr (bpn_reported_chip_id_hex node),
      n_detectedGeneration = fromOptArr (bpn_detected_generation node),
      n_publicKey = fromOptArr (bpn_public_key node)\<rparr>"

section \<open>The canister pool\<close>

datatype backend_pool_state = BAvailable | BAssigned principal "int list"

datatype pool_state = PoolAvailable | PoolAssigned principal "int option"

record backend_pool_entry =
  bpe_time_created :: int
  bpe_canister_id :: principal
  bpe_state :: backend_pool_state

text \<open>The optional storage argument: not given, null, or usage and limit.\<close>

datatype storage_arg = StorageMissing | StorageNull | Storage rat rat

record canister_info =
  ci_canisterId :: principal
  ci_timeCreated :: int
  ci_state :: pool_state
  ci_storageUsageBytes :: "rat option"
  ci_storageLimitBytes :: rat
  ci_storageUtilizationPct :: rat
  ci_isLoadingStorage :: bool
  ci_storageLoadError :: "string option"

fun mapCanisterPoolState :: "backend_pool_state \<Rightarrow> pool_state" where
  "mapCanisterPoolState BAvailable = PoolAvailable"
| "mapCanisterPoolState (BAssigned owner expires_at) =
     PoolAssigned owner (if length expires_at > 0 then Some (fromTimestamp (Some (expires_at ! 0))) else None)"

definition mapBackendCanisterPoolEntryToFrontend :: "backend_pool_entry \<Rightarrow> storage_arg \<Rightarrow> canister_info" where
  "mapBackendCanisterPoolEntryToFrontend entry storageData =
     (let STORAGE_LIMIT = 7 * 1024 * 1024 * 1024;
          usageBytes = (case storageData of Storage u l \<Rightarrow> u | _ \<Rightarrow> 0);
          limitBytes = (case storageData of Storage u l \<Rightarrow> l | _ \<Rightarrow> STORAGE_LIMIT)
      in \<lparr>ci_canisterId = bpe_canister_id entry,
          ci_timeCreated = fromTimestamp (Some (bpe_time_created entry)),
          ci_state = mapCanisterPoolState (bpe_state entry),
          ci_storageUsageBytes = (case storageData of Storage u l \<Rightarrow> Some usageBytes | _ \<Rightarrow> None),
          ci_storageLimitBytes = limitBytes,
          ci_storageUtilizationPct = (case storageData of Storage u l \<Rightarrow> (usageBytes / limitBytes) * 100 | _ \<Rightarrow> 0),
          ci_isLoadingStorage = (storageData = StorageMissing),
          ci_storageLoadError = (if storageData = StorageNull then Some ''Failed to load storage'' else None)\<rparr>)"

definition mapBackendCanisterPoolToFrontend ::
  "backend_pool_entry list \<Rightarrow> backend_pool_entry list \<Rightarrow> nat \<Rightarrow> canister_info list \<times> canister_info list \<times> nat" where
  "mapBackendCanisterPoolToFrontend available assigned pool_target_size =
     (map (\<lambda>e. mapBackendCanisterPoolEntryToFrontend e StorageMissing) available,
      map (\<lambda>e. mapBackendCanisterPoolEntryToFrontend e StorageMissing) assigned,
      pool_target_size)"

section \<open>Lemmas\<close>

lemma parse_id_text [simp]: "parse_bigint (id_text i) = Some i"
  by (simp add: id_text_def fromBigInt_def parse_bigint_show_int)

text \<open>Identifiers are distinct when their numbers are.\<close>

interpretation identifiers: codec id_text parse_bigint
  by unfold_locales (rule parse_id_text)

lemma mapped_message_key: "mapBackendMessageToFrontend m = Inr f \<Longrightarrow> msg_key (message.truncate f) = id_text (bm_message_id m)"
  by (cases "normalizeErrorStatus (case fromOptArr (bm_error_status m) of Some e \<Rightarrow> OptValue e | None \<Rightarrow> OptMissing)")
     (auto simp: mapBackendMessageToFrontend_def Let_def message.truncate_def msg_key_def)

lemma mapped_message_flags:
  assumes "mapBackendMessageToFrontend m = Inr f"
  shows "\<exists>b. m_isComplete f = Some b \<and> (m_errorStatus f \<noteq> None \<longrightarrow> b) \<and> m_jobId f = None \<and> m_modelId f = None"
  using assms
  by (cases "normalizeErrorStatus (case fromOptArr (bm_error_status m) of Some e \<Rightarrow> OptValue e | None \<Rightarrow> OptMissing)")
     (auto simp: mapBackendMessageToFrontend_def Let_def)

text \<open>The errors of a canister are objects, and those never throw.\<close>

fun is_object_error :: "backend_error \<Rightarrow> bool" where
  "is_object_error (Error_Variant name payload) = True"
| "is_object_error (Provider_Error (Provider_Variant name payload)) = True"
| "is_object_error _ = False"

lemma object_error_read: "is_object_error e \<Longrightarrow> \<exists>r. normalizeErrorStatus (OptValue e) = Inr (Some r)"
  by (cases e rule: is_object_error.cases) (simp_all add: normalizeErrorStatus_def)

lemma canister_message_mapped:
  assumes "\<forall>e \<in> set (bm_error_status m). is_object_error e"
  shows "\<exists>f. mapBackendMessageToFrontend m = Inr f"
proof (cases "bm_error_status m")
  case Nil
  then show ?thesis by (simp add: mapBackendMessageToFrontend_def normalizeErrorStatus_def Let_def)
next
  case (Cons e es)
  with assms object_error_read [of e] show ?thesis by (auto simp: mapBackendMessageToFrontend_def Let_def)
qed

text \<open>
  The two copies of the model mapping in \<open>mappers.ts\<close> and \<open>model-enhancement.ts\<close> agree on every
  model, and both keep exactly the paused and active states apart.
\<close>

theorem enhanceModel_eq_mapper:
  "enhanceModel b = mapBackendModelToFrontend b \<and> (md_status (enhanceModel b) = Active \<longleftrightarrow> bmd_status b = ''Active'')"
  by (simp add: enhanceModel_def mapBackendModelToFrontend_def)

text \<open>
  Identifiers survive the trip to the frontend and back: the text of a backend identifier parses
  to the same number when it is sent in a request, and different backend messages get different
  keys in the message map.
\<close>

theorem backend_ids_roundtrip:
  assumes "mapBackendMessageToFrontend m = Inr f" and "mapBackendMessageToFrontend m' = Inr f'"
  shows "toBigInt (StrArg (msg_key (message.truncate f))) = bm_message_id m
   \<and> toBigInt (StrArg (c_chatId (mapBackendChatToFrontend b))) = bc_chat_id b
   \<and> map (\<lambda>s. toBigInt (StrArg s)) (c_messageIds (mapBackendChatToFrontend b)) = bc_message_ids b
   \<and> (msg_key (message.truncate f) = msg_key (message.truncate f') \<longleftrightarrow> bm_message_id m = bm_message_id m')"
  unfolding mapped_message_key [OF assms(1)] mapped_message_key [OF assms(2)]
  by (simp add: mapBackendChatToFrontend_def comp_def)

end
