(* ===== verification/Web_Socket.thy ===== *)
theory Web_Socket
  imports Message_Data Backend_Mappers
begin

text \<open>
  The web socket of a generation job (\<open>src/gpt_frontend/src/store/chatStore/actions/webSocket\<close>):
  the address of the node (\<open>url.ts\<close>), the message a job writes to (\<open>find.ts\<close>), the error path
  (\<open>error.ts\<close>), the batching of stream packets per animation frame (\<open>messageHandler.ts\<close>) and the
  connection with its four callbacks (\<open>connection.ts\<close>). The clock, the sockets' \<open>readyState\<close>, and
  the results of decryption, parsing and encryption are arguments.
\<close>

section \<open>The address\<close>

definition strip_prefix :: "string \<Rightarrow> string \<Rightarrow> string" where
  "strip_prefix p s = (if prefix p s then drop (length p) s else s)"

text \<open>\<open>replace(/^https?:\/\//, "")\<close>, then \<open>replace(/^ws:\/\//, "")\<close>\<close>

definition strip_scheme :: "string \<Rightarrow> string" where
  "strip_scheme a =
     strip_prefix ''ws://''
       (if prefix ''https://'' a then drop (length ''https://'') a else strip_prefix ''http://'' a)"

definition buildWebSocketUrl :: "string \<Rightarrow> string + string" where
  "buildWebSocketUrl nodeAddress =
     (if nodeAddress = [] \<or> trim nodeAddress = [] then Inl ''Invalid node address provided: cannot be empty.''
      else
        let address = trim nodeAddress;
            isLocalhost = str_includes ''localhost'' address \<or> str_includes ''127.0.0.1'' address
        in if prefix ''ws://'' address \<and> isLocalhost then Inr address
           else
             let address1 = (if prefix ''ws://'' address then ''wss://'' @ drop (length ''ws://'') address else address)
             in if prefix ''wss://'' address1 then Inr address1
                else
                  let address2 = strip_scheme address1
                  in if str_includes ''://'' address2
                     then Inl (''Invalid characters in node address after scheme removal: '' @ address2)
                     else Inr (''wss://'' @ address2))"

section \<open>The message of a job\<close>

definition is_job_message :: "job_id \<Rightarrow> message \<Rightarrow> bool" where
  "is_job_message jobId msg \<longleftrightarrow> m_role msg = Assistant \<and> m_jobId msg = Some jobId"

text \<open>\<open>msg.backendId ?? id\<close>, where \<open>id\<close> is the key of the map.\<close>

definition target_key :: "message_id \<times> message \<Rightarrow> message_id" where
  "target_key e = (case m_backendId (snd e) of Some b \<Rightarrow> b | None \<Rightarrow> fst e)"

definition findTargetMessageDetails :: "chat_state \<Rightarrow> chat_id \<Rightarrow> job_id \<Rightarrow> (message_id \<times> message) option" where
  "findTargetMessageDetails state chatId jobId =
     (case messages state chatId of
        None \<Rightarrow> None
      | Some messagesMap \<Rightarrow>
          (case List.find (\<lambda>(i, msg). is_job_message jobId msg \<and> \<not> truthy (m_isComplete msg) \<and> m_errorStatus msg = None)
                  messagesMap of
             Some e \<Rightarrow> Some (target_key e, snd e)
           | None \<Rightarrow>
               (case List.find (\<lambda>(i, msg). is_job_message jobId msg) messagesMap of
                  Some e \<Rightarrow> Some (target_key e, snd e)
                | None \<Rightarrow> None)))"

section \<open>The error path\<close>

definition BLACKLIST_DURATION_MS :: nat where
  "BLACKLIST_DURATION_MS = 10 * 60 * 1000"

definition reject_ocr :: "job_id \<Rightarrow> string \<Rightarrow> chat_state \<Rightarrow> chat_state \<times> chat_effect list" where
  "reject_ocr jobId err state =
     (case map_get (ocrPromises state) jobId of
        Some p \<Rightarrow> (removeOcrPromise jobId state, [RejectOcr p err])
      | None \<Rightarrow> (state, []))"

definition error_message :: "nat \<Rightarrow> bool \<Rightarrow> string \<Rightarrow> message \<Rightarrow> message" where
  "error_message now isConnectionLevelError specificErrorMessage msg =
     msg\<lparr>m_errorStatus := Some (case m_errorStatus msg of
             Some e \<Rightarrow> e
           | None \<Rightarrow> status_of (if isConnectionLevelError then NodeOffline else UnknownError) (Some specificErrorMessage)),
         m_isComplete := Some True, m_updatedAt := now\<rparr>"

definition blacklist_update :: "nat \<Rightarrow> bool \<Rightarrow> node_id option \<Rightarrow> (node_id, nat) jsmap \<Rightarrow> (node_id, nat) jsmap" where
  "blacklist_update now isConnectionLevelError failedNodeId bl =
     (case failedNodeId of
        Some n \<Rightarrow> if isConnectionLevelError then map_set n (now + BLACKLIST_DURATION_MS) bl else bl
      | None \<Rightarrow> bl)"

definition mark_target_errored :: "nat \<Rightarrow> bool \<Rightarrow> string \<Rightarrow> chat_id \<Rightarrow> job_id \<Rightarrow> chat_state \<Rightarrow> chat_state" where
  "mark_target_errored now isConnectionLevelError specificErrorMessage chatId jobId state =
     (case findTargetMessageDetails state chatId jobId of
        Some (targetId, targetMessage) \<Rightarrow>
          (case messages state chatId of
             Some m \<Rightarrow> setMessages chatId
                 (map_set targetId (error_message now isConnectionLevelError specificErrorMessage targetMessage) m) state
           | None \<Rightarrow> state)
      | None \<Rightarrow> state)"

definition handleWebSocketError ::
  "nat \<Rightarrow> chat_id \<Rightarrow> job_id \<Rightarrow> string \<Rightarrow> bool \<Rightarrow> node_id option \<Rightarrow> chat_state \<Rightarrow> chat_state \<times> chat_effect list" where
  "handleWebSocketError now chatId jobId specificErrorMessage isConnectionLevelError failedNodeId state =
     (let (state1, effs) = reject_ocr jobId specificErrorMessage state;
          state2 = setActiveChatJob chatId jobId True state1;
          state3 = mark_target_errored now isConnectionLevelError specificErrorMessage chatId jobId state2;
          state4 = state3\<lparr>temporaryNodeBlacklist :=
                      blacklist_update now isConnectionLevelError failedNodeId (temporaryNodeBlacklist state3)\<rparr>
      in (set_flags chatId False state4, effs @ [ScheduleFetch chatId 500]))"

section \<open>Stream packets\<close>

record packet =
  p_text :: string
  p_isComplete :: bool
  p_errorStatus :: "backend_error opt_arg"
  p_usage :: "token_usage option"

text \<open>\<open>!!currentData.errorStatus\<close>: an array is true even when it is empty, an empty text is not.\<close>

definition packet_error :: "packet \<Rightarrow> bool" where
  "packet_error d \<longleftrightarrow> p_errorStatus d \<noteq> OptMissing \<and> p_errorStatus d \<noteq> OptValue (Error_Text [])"

definition think_end :: string where
  "think_end = ''</think>''"

definition hasOnlyReasoning :: "string \<Rightarrow> bool" where
  "hasOnlyReasoning txt \<longleftrightarrow> trim txt \<noteq> [] \<and> suffix think_end (trim txt)
     \<and> (case index_of think_end txt of Some i \<Rightarrow> trim (drop (i + 8) txt) = [] | None \<Rightarrow> False)"

definition isLikelyToolCall :: "packet \<Rightarrow> bool" where
  "isLikelyToolCall d \<longleftrightarrow> p_isComplete d \<and> \<not> packet_error d \<and> (trim (p_text d) = [] \<or> hasOnlyReasoning (p_text d))"

text \<open>\<open>Inl\<close> when \<open>normalizeErrorStatus\<close> throws.\<close>

definition updated_ai_message :: "nat \<Rightarrow> packet \<Rightarrow> message \<Rightarrow> string + message" where
  "updated_ai_message now d existing =
     (let shouldSetComplete = p_isComplete d \<and> \<not> isLikelyToolCall d in
      map_sum_r (\<lambda>normalizedErrorStatus.
         existing\<lparr>m_content := p_text d, m_updatedAt := now,
                  m_isComplete := Some (shouldSetComplete \<or> normalizedErrorStatus \<noteq> None),
                  m_errorStatus := or_else normalizedErrorStatus (m_errorStatus existing),
                  m_usage := or_else (p_usage d) (m_usage existing)\<rparr>)
        (normalizeErrorStatus (p_errorStatus d)))"

definition message_changed :: "message \<Rightarrow> message \<Rightarrow> bool" where
  "message_changed a b \<longleftrightarrow> m_content a \<noteq> m_content b \<or> m_isComplete a \<noteq> m_isComplete b
     \<or> m_errorStatus a \<noteq> m_errorStatus b \<or> m_usage a \<noteq> m_usage b"

text \<open>The first \<open>set\<close> of \<open>processBatchedUpdate\<close>; what is thrown in it leaves the store as it was.\<close>

definition apply_packet ::
  "nat \<Rightarrow> chat_id \<Rightarrow> job_id \<Rightarrow> packet \<Rightarrow> chat_state \<Rightarrow> string + (chat_state \<times> chat_effect list)" where
  "apply_packet now chatId jobId d state =
     (if messages state chatId = None \<and> \<not> list_ex (\<lambda>c. c_chatId c = chatId) (chats state) then Inr (state, [])
      else
        let mapToUse = (case messages state chatId of Some m \<Rightarrow> m | None \<Rightarrow> []) in
        case List.find (\<lambda>(i, msg). is_job_message jobId msg) mapToUse of
          None \<Rightarrow>
            Inr (if messages state chatId = None then setMessages chatId mapToUse state else state,
                 if p_isComplete d \<or> packet_error d then [ScheduleFetch chatId 500] else [])
        | Some e \<Rightarrow>
            map_sum_r (\<lambda>updatedAiMessage.
              if message_changed (snd e) updatedAiMessage
              then let isNowGenerating = (\<not> truthy (m_isComplete updatedAiMessage) \<and> m_errorStatus updatedAiMessage = None)
                   in (setIsWaiting chatId False
                         (setIsGenerating chatId isNowGenerating
                           (setIsAITyping chatId isNowGenerating
                             (setMessages chatId (map_set (target_key e) updatedAiMessage mapToUse) state))), [])
              else if flag (isWaiting state) chatId then (setIsWaiting chatId False state, [])
              else (state, []))
             (updated_ai_message now d (snd e)))"

definition settle_ocr :: "(packet \<Rightarrow> string) \<Rightarrow> job_id \<Rightarrow> packet \<Rightarrow> chat_state \<Rightarrow> chat_state \<times> chat_effect list" where
  "settle_ocr show_error jobId d state =
     (case map_get (ocrPromises state) jobId of
        Some p \<Rightarrow> (removeOcrPromise jobId state,
                    [if packet_error d then RejectOcr p (''OCR generation failed: '' @ show_error d)
                     else ResolveOcr p (p_text d)])
      | None \<Rightarrow> (state, []))"

text \<open>What follows it when the stream has ended.\<close>

definition finish_stream ::
  "(packet \<Rightarrow> string) \<Rightarrow> ready_state \<Rightarrow> chat_id \<Rightarrow> job_id \<Rightarrow> ws_handle \<Rightarrow> packet \<Rightarrow> chat_state \<Rightarrow> chat_state \<times> chat_effect list" where
  "finish_stream show_error rs chatId jobId ws d state =
     (if p_isComplete d \<or> packet_error d
      then
        let state1 = (if isLikelyToolCall d then state else set_flags chatId False state);
            state2 = (if packet_error d then setActiveChatJob chatId jobId True state1
                      else clearActiveChatJob chatId state1);
            closing = (if rs = OPEN \<or> rs = CONNECTING then [WsClose ws] else []);
            (state3, ocr) = settle_ocr show_error jobId d state2
        in (state3, closing @ ocr @ [ScheduleFetch chatId 1000])
      else (state, []))"

section \<open>The message handler\<close>

text \<open>The closure of \<open>createMessageHandler\<close> for one connection.\<close>

record connection =
  co_chatId :: chat_id
  co_jobId :: job_id
  co_ws :: ws_handle
  co_nodeId :: "node_id option"

record handler =
  latestMessageData :: "packet option"
  isUpdateScheduled :: bool
  animationFrameId :: "nat option"
  receivedFinalMessage :: bool

definition newHandler :: handler where
  "newHandler = \<lparr>latestMessageData = None, isUpdateScheduled = False, animationFrameId = None, receivedFinalMessage = False\<rparr>"

record env =
  ev_now :: nat
  ev_ready :: "ws_handle \<Rightarrow> ready_state"
  ev_frame :: nat
  ev_show :: "packet \<Rightarrow> string"

type_synonym ws_state = "chat_state \<times> handler"

text \<open>\<open>Some e\<close> at the end: \<open>e\<close> was thrown and the caller goes on only if it catches it.\<close>

definition processBatchedUpdate ::
  "env \<Rightarrow> connection \<Rightarrow> ws_state \<Rightarrow> ws_state \<times> chat_effect list \<times> string option" where
  "processBatchedUpdate en co st =
     (let (state, h) = st; h1 = h\<lparr>isUpdateScheduled := False, animationFrameId := None\<rparr> in
      case latestMessageData h of
        None \<Rightarrow> ((state, h1), [], None)
      | Some currentData \<Rightarrow>
          let h2 = h1\<lparr>latestMessageData := None\<rparr> in
          case apply_packet (ev_now en) (co_chatId co) (co_jobId co) currentData state of
            Inl e \<Rightarrow> ((state, h2), [], Some e)
          | Inr (state1, effs1) \<Rightarrow>
              let (state2, effs2) = finish_stream (ev_show en) (ev_ready en (co_ws co)) (co_chatId co) (co_jobId co) (co_ws co)
                                      currentData state1
              in ((state2, h2), effs1 @ effs2, None))"

text \<open>
  A message event after decoding and decryption: \<open>Inl\<close> is what was thrown; otherwise the decrypted
  text, and \<open>parse\<close> is \<open>JSON.parse\<close> followed by reading the properties, a \<open>text\<close> that is not a
  string or an \<open>isComplete\<close> that is not a boolean being \<open>None\<close>.
\<close>

record raw_packet =
  rp_text :: "string option"
  rp_isComplete :: "bool option"
  rp_errorStatus :: "backend_error opt_arg"
  rp_usage :: "token_usage option"

definition read_packet :: "(string \<Rightarrow> string + raw_packet) \<Rightarrow> string + string \<Rightarrow> string + packet" where
  "read_packet parse decrypted =
     (case decrypted of
        Inl e \<Rightarrow> Inl e
      | Inr decryptedJson \<Rightarrow>
          if decryptedJson = ''[Decryption Error]'' then Inl ''Failed to decrypt stream packet''
          else case parse decryptedJson of
            Inl e \<Rightarrow> Inl e
          | Inr rp \<Rightarrow>
              (case (rp_text rp, rp_isComplete rp) of
                 (Some t, Some b) \<Rightarrow> Inr \<lparr>p_text = t, p_isComplete = b, p_errorStatus = rp_errorStatus rp, p_usage = rp_usage rp\<rparr>
               | _ \<Rightarrow> Inl ''Invalid message format''))"

definition onMessage :: "env \<Rightarrow> connection \<Rightarrow> string + packet \<Rightarrow> ws_state \<Rightarrow> ws_state \<times> chat_effect list" where
  "onMessage en co parsed st =
     (let (state, h) = st in
      case parsed of
        Inl errMsg \<Rightarrow>
          let (state1, effs) = handleWebSocketError (ev_now en) (co_chatId co) (co_jobId co)
                                 (''WebSocket message error: '' @ errMsg) False None state;
              rs = ev_ready en (co_ws co);
              closing = (if rs = OPEN \<or> rs = CONNECTING then [WsClose (co_ws co)] else []);
              cancelled = (case animationFrameId h of Some f \<Rightarrow> [CancelFrame f] | None \<Rightarrow> [])
          in ((state1, h\<lparr>animationFrameId := None\<rparr>), effs @ closing @ cancelled)
      | Inr parsedData \<Rightarrow>
          let h1 = h\<lparr>receivedFinalMessage := receivedFinalMessage h \<or> p_isComplete parsedData,
                     latestMessageData := Some parsedData\<rparr>
          in if isUpdateScheduled h then ((state, h1), [])
             else ((state, h1\<lparr>isUpdateScheduled := True, animationFrameId := Some (ev_frame en)\<rparr>),
                   [RequestFrame (ev_frame en)]))"

text \<open>\<open>cancel\<close>\<close>

definition cancel_updates :: "env \<Rightarrow> connection \<Rightarrow> ws_state \<Rightarrow> ws_state \<times> chat_effect list \<times> string option" where
  "cancel_updates en co st =
     (let cancelled = (case animationFrameId (snd st) of Some f \<Rightarrow> [CancelFrame f] | None \<Rightarrow> [])
      in case latestMessageData (snd st) of
           Some _ \<Rightarrow> let (st', effs, thrown) = processBatchedUpdate en co st in (st', cancelled @ effs, thrown)
         | None \<Rightarrow> (st, cancelled, None))"

section \<open>The connection\<close>

definition connection_error :: "nat \<Rightarrow> connection \<Rightarrow> string \<Rightarrow> chat_state \<Rightarrow> chat_state \<times> chat_effect list" where
  "connection_error now co msg state =
     handleWebSocketError now (co_chatId co) (co_jobId co) msg True (co_nodeId co) state"

text \<open>
  \<open>connectToChainWebSocket\<close> up to the derivation of the chat key: the salt, or the error that ends it
  and whether the failing node is named.
\<close>

definition connect_guard ::
  "auth_state \<Rightarrow> chat_id \<Rightarrow> job_id \<Rightarrow> string option \<Rightarrow> node_id option \<Rightarrow> string option \<Rightarrow> bytes option
     \<Rightarrow> chat_state \<Rightarrow> (string \<times> node_id option) + bytes" where
  "connect_guard auth chatId jobId nodeAddress nodeId nodePublicKey ephemeralSalt state =
     (if \<not> truthy_str nodeAddress \<or> \<not> truthy_str nodeId \<or> \<not> truthy_str nodePublicKey
      then Inl (''Node address, ID, or public key missing for job '' @ jobId @ ''.'', None)
      else if \<not> vault_open auth
      then Inl (''User not fully registered or vault locked for WebSocket connection for job '' @ jobId @ ''.'', nodeId)
      else case ephemeralSalt of
        Some salt \<Rightarrow> Inr salt
      | None \<Rightarrow>
          (case List.find (\<lambda>c. c_chatId c = chatId) (chats state) of
             Some c \<Rightarrow> Inr (c_encryptionSalt c)
           | None \<Rightarrow> Inl (''Chat encryption data missing for chat '' @ chatId @ ''.'', nodeId)))"

definition connect_socket ::
  "env \<Rightarrow> (string \<Rightarrow> string + ws_handle) \<Rightarrow> job_id \<Rightarrow> string \<Rightarrow> chat_state
     \<Rightarrow> string + (ws_handle \<times> chat_state \<times> chat_effect list)" where
  "connect_socket en create jobId wsUrl state =
     (let reuse = (case map_get (webSockets state) jobId of
                     Some ws \<Rightarrow> if ev_ready en ws \<noteq> CLOSED \<and> ev_ready en ws \<noteq> CLOSING then Some ws else None
                   | None \<Rightarrow> None)
      in case reuse of
           Some ws \<Rightarrow> Inr (ws, state, [])
         | None \<Rightarrow>
             (case create wsUrl of
                Inl e \<Rightarrow> Inl e
              | Inr ws \<Rightarrow> Inr (ws, state\<lparr>webSockets := map_set jobId ws (webSockets state)\<rparr>, [WsCreate ws wsUrl])))"

text \<open>
  The whole action. \<open>derived\<close> is the answer of \<open>deriveChatKey\<close>, \<open>create\<close> the \<open>WebSocket\<close> constructor,
  \<open>other\<close> what the rest of the program does to the store while the key is derived. The result is
  the connection whose callbacks are installed, when there is one.
\<close>

definition connectToChainWebSocket ::
  "env \<Rightarrow> auth_state \<Rightarrow> (bytes \<Rightarrow> string + unit) \<Rightarrow> (string \<Rightarrow> string + ws_handle) \<Rightarrow> (chat_state \<Rightarrow> chat_state)
     \<Rightarrow> chat_id \<Rightarrow> job_id \<Rightarrow> string option \<Rightarrow> node_id option \<Rightarrow> string option \<Rightarrow> bytes option \<Rightarrow> chat_state
     \<Rightarrow> connection option \<times> chat_state \<times> chat_effect list" where
  "connectToChainWebSocket en auth derived create other chatId jobId nodeAddress nodeId nodePublicKey ephemeralSalt state =
     (let fail = (\<lambda>msg node s. (None, handleWebSocketError (ev_now en) chatId jobId msg True node s)) in
      case connect_guard auth chatId jobId nodeAddress nodeId nodePublicKey ephemeralSalt state of
        Inl (msg, node) \<Rightarrow> fail msg node state
      | Inr salt \<Rightarrow>
          let state1 = other state in
          (case derived salt of
             Inl e \<Rightarrow> fail (''Failed to derive chat key: '' @ e) nodeId state1
           | Inr _ \<Rightarrow>
               (case buildWebSocketUrl (the nodeAddress) of
                  Inl e \<Rightarrow> fail (''Invalid node address format: '' @ e) nodeId state1
                | Inr url \<Rightarrow>
                    (case connect_socket en create jobId (url @ ''/conversation/ws'') state1 of
                       Inl e \<Rightarrow> fail (''Error during WebSocket setup: '' @ e) nodeId state1
                     | Inr (ws, state2, effs) \<Rightarrow>
                         (Some \<lparr>co_chatId = chatId, co_jobId = jobId, co_ws = ws, co_nodeId = nodeId\<rparr>,
                          setActiveChatJob chatId jobId False state2, effs)))))"

text \<open>\<open>ws.onopen\<close>: \<open>encrypted\<close> is the handshake encrypted for the node, in base64.\<close>

definition ws_onopen :: "env \<Rightarrow> connection \<Rightarrow> string + string \<Rightarrow> ws_state \<Rightarrow> ws_state \<times> chat_effect list" where
  "ws_onopen en co encrypted st =
     (let (state, h) = st in
      case encrypted of
        Inr payload \<Rightarrow>
          ((if map_get (webSockets state) (co_jobId co) = Some (co_ws co)
            then setIsGenerating (co_chatId co) True (setIsAITyping (co_chatId co) True (setIsWaiting (co_chatId co) False state))
            else state, h), [WsSend (co_ws co) payload])
      | Inl e \<Rightarrow>
          let (state1, effs) = connection_error (ev_now en) co ''Encryption handshake failed.'' state
          in ((state1, h), WsClose (co_ws co) # effs))"

text \<open>Neither \<open>ws.onerror\<close> nor \<open>ws.onclose\<close> catches what \<open>cancel\<close> throws: it ends them.\<close>

definition ws_onerror :: "env \<Rightarrow> connection \<Rightarrow> ws_state \<Rightarrow> ws_state \<times> chat_effect list" where
  "ws_onerror en co st =
     (case cancel_updates en co st of
        (st1, effs, Some e) \<Rightarrow> (st1, effs)
      | ((state, h), effs, None) \<Rightarrow>
          let (state1, effs1) = connection_error (ev_now en) co ''WebSocket connection encountered an error.'' state;
              rs = ev_ready en (co_ws co)
          in ((state1, h), effs @ effs1 @ (if rs \<noteq> CLOSING \<and> rs \<noteq> CLOSED then [WsClose (co_ws co)] else [])))"

definition ws_onclose :: "env \<Rightarrow> connection \<Rightarrow> nat \<Rightarrow> string \<Rightarrow> ws_state \<Rightarrow> ws_state \<times> chat_effect list" where
  "ws_onclose en co code reason st =
     (case cancel_updates en co st of
        (st1, effs, Some e) \<Rightarrow> (st1, effs)
      | ((state, h), effs, None) \<Rightarrow>
          let state1 = state\<lparr>webSockets := map_del (co_jobId co) (webSockets state)\<rparr>
          in if receivedFinalMessage h
             then ((clearActiveChatJob (co_chatId co) (set_flags (co_chatId co) False state1), h), effs)
             else ((state1, h), effs @ [QueueCloseCheck (co_ws co) code reason]))"

text \<open>The microtask queued by \<open>ws.onclose\<close>.\<close>

definition ws_close_check :: "env \<Rightarrow> connection \<Rightarrow> nat \<Rightarrow> string \<Rightarrow> ws_state \<Rightarrow> ws_state \<times> chat_effect list" where
  "ws_close_check en co code reason st =
     (let (state, h) = st;
          k = co_chatId co;
          alreadyHandledFinalStateViaStream =
            (case findTargetMessageDetails state k (co_jobId co) of
               Some (_, msg) \<Rightarrow> truthy (m_isComplete msg) \<or> m_errorStatus msg \<noteq> None
             | None \<Rightarrow> False);
          isStillGenerating = (flag (isGenerating state) k \<or> flag (isAITyping state) k \<or> flag (isWaiting state) k)
      in if \<not> alreadyHandledFinalStateViaStream \<and> isStillGenerating
         then let (state1, effs) = connection_error (ev_now en) co
                    (''WebSocket closed unexpectedly (code: '' @ show_nat code @ '', reason: '' @ [CHR 0x27]
                     @ (if reason = [] then ''unknown'' else reason) @ [CHR 0x27] @ '').'') state
              in ((state1, h), effs)
         else if isStillGenerating then ((clearActiveChatJob k (set_flags k False state), h), [])
         else ((state, h), []))"

section \<open>Runs of a connection\<close>

datatype ws_event =
    EvOpen "string + string" | EvPacket "string + packet" | EvFrame | EvError
  | EvClose nat string | EvCloseCheck nat string

fun ws_step :: "connection \<Rightarrow> env \<times> ws_event \<Rightarrow> ws_state \<Rightarrow> ws_state \<times> chat_effect list" where
  "ws_step co (en, EvOpen encrypted) st = ws_onopen en co encrypted st"
| "ws_step co (en, EvPacket parsed) st = onMessage en co parsed st"
| "ws_step co (en, EvFrame) st = (let (st', effs, _) = processBatchedUpdate en co st in (st', effs))"
| "ws_step co (en, EvError) st = ws_onerror en co st"
| "ws_step co (en, EvClose code reason) st = ws_onclose en co code reason st"
| "ws_step co (en, EvCloseCheck code reason) st = ws_close_check en co code reason st"

fun ws_run :: "connection \<Rightarrow> (env \<times> ws_event) list \<Rightarrow> ws_state \<Rightarrow> ws_state \<times> chat_effect list" where
  "ws_run co [] st = (st, [])"
| "ws_run co (e # es) st =
     (let (st1, effs1) = ws_step co e st; (st2, effs2) = ws_run co es st1 in (st2, effs1 @ effs2))"

end
