(* ===== verification/Base64.thy ===== *)
theory Base64
  imports Domain
begin

text \<open>
  \<open>btoa\<close> of the browser on a binary string given by its bytes, which is how the program calls it
  (\<open>String.fromCharCode\<close> of every byte, then \<open>btoa\<close>), and its inverse \<open>atob\<close> on canonical texts.
\<close>

definition b64_char :: "nat \<Rightarrow> char" where
  "b64_char n =
     (if n < 26 then char_of (65 + n) else if n < 52 then char_of (71 + n)
      else if n < 62 then char_of (n - 4) else if n = 62 then CHR ''+'' else CHR ''/'')"

fun btoa :: "bytes \<Rightarrow> string" where
  "btoa [] = []"
| "btoa [a] = [b64_char (unat a div 4), b64_char (unat a mod 4 * 16), CHR ''='', CHR ''='']"
| "btoa [a, b] =
     [b64_char (unat a div 4), b64_char (unat a mod 4 * 16 + unat b div 16),
      b64_char (unat b mod 16 * 4), CHR ''='']"
| "btoa (a # b # c # r) =
     b64_char (unat a div 4) # b64_char (unat a mod 4 * 16 + unat b div 16)
       # b64_char (unat b mod 16 * 4 + unat c div 64) # b64_char (unat c mod 64) # btoa r"

definition b64_val :: "char \<Rightarrow> nat option" where
  "b64_val ch =
     (let n = of_char ch in
      if 65 \<le> n \<and> n < 91 then Some (n - 65) else if 97 \<le> n \<and> n < 123 then Some (n - 71)
      else if 48 \<le> n \<and> n < 58 then Some (n + 4) else if ch = CHR ''+'' then Some 62
      else if ch = CHR ''/'' then Some 63 else None)"

definition quad :: "nat \<Rightarrow> nat \<Rightarrow> nat \<Rightarrow> nat \<Rightarrow> bytes" where
  "quad p q r s = [of_nat (p * 4 + q div 16), of_nat (q mod 16 * 16 + r div 4), of_nat (r mod 4 * 64 + s)]"

fun atob :: "string \<Rightarrow> bytes option" where
  "atob [] = Some []"
| "atob (p # q # r # s # rest) =
     (case (b64_val p, b64_val q) of
        (Some vp, Some vq) \<Rightarrow>
          if rest = [] \<and> r = CHR ''='' \<and> s = CHR ''='' then Some (take 1 (quad vp vq 0 0))
          else (case b64_val r of
            Some vr \<Rightarrow>
              if rest = [] \<and> s = CHR ''='' then Some (take 2 (quad vp vq vr 0))
              else (case (b64_val s, atob rest) of
                      (Some vs, Some bs) \<Rightarrow> Some (quad vp vq vr vs @ bs) | _ \<Rightarrow> None)
          | None \<Rightarrow> None)
      | _ \<Rightarrow> None)"
| "atob _ = None"

lemma of_char_b64: "n < 64 \<Longrightarrow> of_char (b64_char n) =
    (if n < 26 then 65 + n else if n < 52 then 71 + n else if n < 62 then n - 4 else if n = 62 then 43 else (47::nat))"
  by (simp add: b64_char_def of_char_of)

lemma b64_val_char [simp]:
  assumes "n < 64"
  shows "b64_val (b64_char n) = Some n"
proof -
  have "n < 62 \<or> n = 62 \<or> n = 63" using assms by arith
  then show ?thesis
  proof (elim disjE)
    assume n: "n < 62"
    have "of_char (b64_char n) = (if n < 26 then 65 + n else if n < 52 then 71 + n else n - (4::nat))"
      using of_char_b64 [OF assms] n by simp
    moreover from this n have "b64_char n \<noteq> CHR ''+''" "b64_char n \<noteq> CHR ''/''"
      by (auto split: if_splits)
    ultimately show ?thesis using n
      by (cases "n < 26"; cases "n < 52") (simp_all add: b64_val_def Let_def, linarith)
  qed (simp_all add: b64_val_def b64_char_def)
qed

lemma b64_char_not_pad [simp]:
  assumes "n < 64"
  shows "b64_char n \<noteq> CHR ''=''"
proof
  assume "b64_char n = CHR ''=''"
  with b64_val_char [OF assms] show False by (simp add: b64_val_def)
qed

lemma byte_lt: "unat (a :: 8 word) < 256"
  using unsigned_less [of a] by simp

lemma byte_parts:
  fixes a :: "8 word"
  shows "unat a div 4 < 64" "unat a mod 4 < 4" "unat a div 16 < 16" "unat a mod 16 < 16" "unat a div 64 < 4" "unat a mod 64 < 64"
  using byte_lt [of a] by (simp_all add: less_mult_imp_div_less)

lemma digits_join:
  fixes x y n :: nat
  assumes "y < n"
  shows "(x * n + y) div n = x" "(x * n + y) mod n = y"
  using assms by simp_all

lemma quad_bytes:
  fixes a b c :: "8 word"
  shows "quad (unat a div 4) (unat a mod 4 * 16 + unat b div 16) (unat b mod 16 * 4 + unat c div 64) (unat c mod 64) = [a, b, c]"
proof -
  have "unat a div 4 * 4 + (unat a mod 4 * 16 + unat b div 16) div 16 = unat a"
    by (simp only: digits_join byte_parts div_mult_mod_eq)
  moreover have "(unat a mod 4 * 16 + unat b div 16) mod 16 * 16 + (unat b mod 16 * 4 + unat c div 64) div 4 = unat b"
    by (simp only: digits_join byte_parts div_mult_mod_eq)
  moreover have "(unat b mod 16 * 4 + unat c div 64) mod 4 * 64 + unat c mod 64 = unat c"
    by (simp only: digits_join byte_parts div_mult_mod_eq)
  ultimately show ?thesis by (simp only: quad_def of_nat_unat ucast_id)
qed

lemma sextets:
  fixes a b :: "8 word"
  shows "unat a mod 4 * 16 < 64" "unat a mod 4 * 16 + unat b div 16 < 64"
    "unat a mod 16 * 4 < 64" "unat a mod 16 * 4 + unat b div 64 < 64"
  using byte_parts [of a] byte_parts [of b] by linarith+

lemma atob_btoa: "atob (btoa bs) = Some bs"
proof (induction bs rule: btoa.induct)
  case (2 a)
  show ?case using quad_bytes [of a 0 0] by (simp add: sextets byte_parts)
next
  case (3 a b)
  show ?case using quad_bytes [of a b 0] by (simp add: sextets byte_parts)
next
  case (4 a b c r)
  then show ?case by (simp add: sextets byte_parts quad_bytes)
qed simp

interpretation base64: codec btoa atob
  by unfold_locales (rule atob_btoa)

lemma btoa_Nil_iff [simp]: "btoa bs = [] \<longleftrightarrow> bs = []"
  by (cases bs rule: btoa.cases) simp_all

end
