(* ===== verification/Nodes.thy ===== *)
theory Nodes
  imports Web_Socket Base64
begin

text \<open>
  The inference nodes (\<open>src/gpt_frontend/src/store/chatStore/actions/node\<close>): choosing one for a model
  (\<open>pick.ts\<close>), reconciling the index's list with the user canister's (\<open>reconcile.ts\<close>), the details of
  a node or job (\<open>details.ts\<close>), the two lists of the settings pages (\<open>fetch.ts\<close>), reconnecting to a
  running job (\<open>reconnect.ts\<close>) and registering a node (\<open>create.ts\<close>). The answers of the canisters are
  arguments; an \<open>other\<close> argument is what the rest of the program does to the store meanwhile.
\<close>

section \<open>Choosing a node\<close>

record picked_node =
  pn_address :: string
  pn_nodeId :: node_id
  pn_publicKey :: "string option"

text \<open>\<open>expiry && now < expiry\<close>\<close>

definition blacklisted :: "nat \<Rightarrow> (node_id, nat) jsmap \<Rightarrow> node_id \<Rightarrow> bool" where
  "blacklisted now bl n = (case map_get bl n of Some expiry \<Rightarrow> expiry \<noteq> 0 \<and> now < expiry | None \<Rightarrow> False)"

definition suitable_nodes :: "nat \<Rightarrow> string \<Rightarrow> chat_state \<Rightarrow> reconciled_node list" where
  "suitable_nodes now modelId state =
     filter (\<lambda>node. rn_modelId node = modelId \<and> \<not> blacklisted now (temporaryNodeBlacklist state) (rn_nodeId node))
       (reconciledActiveNodes state)"

text \<open>\<open>random\<close> is what \<open>Math.random()\<close> returns, a number from 0 (included) to 1 (excluded).\<close>

definition random_index :: "rat \<Rightarrow> nat \<Rightarrow> nat" where
  "random_index random n = nat \<lfloor>random * of_nat n\<rfloor>"

definition pickNodeForModel :: "nat \<Rightarrow> rat \<Rightarrow> string \<Rightarrow> chat_state \<Rightarrow> picked_node option" where
  "pickNodeForModel now random modelId state =
     (if reconciledActiveNodes state = [] then None
      else
        let suitable = suitable_nodes now modelId state
        in if length suitable = 0 then None
           else let chosen = suitable ! random_index random (length suitable)
                in Some \<lparr>pn_address = rn_address chosen, pn_nodeId = rn_nodeId chosen, pn_publicKey = rn_publicKey chosen\<rparr>)"

section \<open>Reconciling the lists\<close>

text \<open>The body of the loop: what an index node contributes, given the map of the user's nodes.\<close>

definition reconcile_node :: "(node_id, node_info) jsmap \<Rightarrow> node_info \<Rightarrow> reconciled_node list" where
  "reconcile_node userNodeMap indexNode =
     (case n_nodePrincipal indexNode of
        None \<Rightarrow> []
      | Some indexPrincipal \<Rightarrow>
          if \<not> n_isActive indexNode then []
          else case map_get userNodeMap (n_nodeId indexNode) of
            None \<Rightarrow> []
          | Some userNode \<Rightarrow>
              if n_nodePrincipal userNode = Some indexPrincipal
              then [\<lparr>rn_nodeId = toNodeId (n_nodeId indexNode), rn_address = n_hostname userNode,
                     rn_modelId = n_modelId indexNode, rn_principal = indexPrincipal,
                     rn_publicKey = n_publicKey indexNode\<rparr>]
              else [])"

definition reconcile_nodes :: "node_info list \<Rightarrow> node_info list \<Rightarrow> reconciled_node list" where
  "reconcile_nodes indexNodes userNodes =
     (let userNodeMap = map_set_all n_nodeId id userNodes []
      in concat (map (reconcile_node userNodeMap) indexNodes))"

definition fetchAndReconcileNodes ::
  "auth_state \<Rightarrow> string + node_info list \<Rightarrow> (chat_state \<Rightarrow> chat_state) \<Rightarrow> string + node_info list
     \<Rightarrow> (chat_state \<Rightarrow> chat_state) \<Rightarrow> chat_state \<Rightarrow> chat_state" where
  "fetchAndReconcileNodes auth indexAnswer other1 userAnswer other2 state =
     (let alreadyHasNodes = (length (reconciledActiveNodes state) > 0);
          state1 = (if alreadyHasNodes then state else state\<lparr>reconciledNodesLoading := True\<rparr>)
      in if \<not> registered auth
         then state1\<lparr>reconciledActiveNodes := [], reconciledNodesLoading := False\<rparr>
         else case indexAnswer of
           Inl _ \<Rightarrow> (other1 state1)\<lparr>reconciledNodesLoading := False\<rparr>
         | Inr indexNodes \<Rightarrow>
             let state2 = (other1 state1)\<lparr>allNodes := indexNodes, hasFetchedAllNodes := True\<rparr>
             in case userAnswer of
                  Inl _ \<Rightarrow> (other2 state2)\<lparr>reconciledNodesLoading := False\<rparr>
                | Inr userNodes \<Rightarrow>
                    (other2 state2)\<lparr>reconciledActiveNodes := reconcile_nodes indexNodes userNodes,
                                    reconciledNodesLoading := False\<rparr>)"

section \<open>Details\<close>

record node_details =
  nd_address :: string
  nd_nodeId :: node_id
  nd_publicKey :: string

definition getNodeDetails :: "auth_state \<Rightarrow> string + node_info list \<Rightarrow> node_id \<Rightarrow> node_details option" where
  "getNodeDetails auth answer nodeId =
     (if \<not> registered auth then None
      else case answer of
        Inl _ \<Rightarrow> None
      | Inr nodes \<Rightarrow>
          (case List.find (\<lambda>node. n_nodeId node = nodeId) nodes of
             Some foundNode \<Rightarrow>
               if n_nodePrincipal foundNode \<noteq> None \<and> truthy_str (n_publicKey foundNode)
               then Some \<lparr>nd_address = n_hostname foundNode, nd_nodeId = n_nodeId foundNode,
                          nd_publicKey = the (n_publicKey foundNode)\<rparr>
               else None
           | None \<Rightarrow> None))"

definition getChatJobDetails :: "auth_state \<Rightarrow> string + job list \<Rightarrow> job_id \<Rightarrow> job option" where
  "getChatJobDetails auth answer jobId =
     (if \<not> registered auth then None
      else case answer of Inl _ \<Rightarrow> None | Inr jobs \<Rightarrow> List.find (\<lambda>job. j_job_id job = jobId) jobs)"

section \<open>The lists of nodes\<close>

text \<open>The guard \<open>authStatus !== REGISTERED || !authClient\<close>.\<close>

definition signed_in :: "auth_state \<Rightarrow> bool" where
  "signed_in auth \<longleftrightarrow> au_authStatus auth = REGISTERED \<and> au_authClient auth \<noteq> None"

text \<open>Up to the call (\<open>None\<close>: no call is made), and from its answer on.\<close>

definition my_nodes_call :: "bool \<Rightarrow> auth_state \<Rightarrow> chat_state \<Rightarrow> chat_state option" where
  "my_nodes_call force auth state =
     (if \<not> force \<and> myNodesLoading state then None
      else if \<not> signed_in auth then None
      else Some (if \<not> hasFetchedMyNodes state \<or> force then state\<lparr>myNodesLoading := True\<rparr> else state))"

definition my_nodes_answer :: "string + node_info list \<Rightarrow> chat_state \<Rightarrow> chat_state" where
  "my_nodes_answer answer state =
     (case answer of
        Inr nodes \<Rightarrow> state\<lparr>myNodes := nodes, hasFetchedMyNodes := True, myNodesLoading := False\<rparr>
      | Inl _ \<Rightarrow> state\<lparr>myNodesLoading := False\<rparr>)"

definition fetchMyNodesAuth ::
  "bool \<Rightarrow> auth_state \<Rightarrow> string + node_info list \<Rightarrow> (chat_state \<Rightarrow> chat_state) \<Rightarrow> chat_state \<Rightarrow> chat_state" where
  "fetchMyNodesAuth force auth answer other state =
     (case my_nodes_call force auth state of None \<Rightarrow> state | Some state1 \<Rightarrow> my_nodes_answer answer (other state1))"

definition all_nodes_call :: "bool \<Rightarrow> chat_state \<Rightarrow> chat_state option" where
  "all_nodes_call force state =
     (if \<not> force \<and> allNodesLoading state then None
      else Some (if \<not> hasFetchedAllNodes state \<or> force then state\<lparr>allNodesLoading := True\<rparr> else state))"

definition all_nodes_answer :: "string + node_info list \<Rightarrow> chat_state \<Rightarrow> chat_state" where
  "all_nodes_answer answer state =
     (case answer of
        Inr nodes \<Rightarrow> state\<lparr>allNodes := nodes, hasFetchedAllNodes := True, allNodesLoading := False\<rparr>
      | Inl _ \<Rightarrow> state\<lparr>allNodesLoading := False\<rparr>)"

definition fetchAllActiveNodesAuth ::
  "bool \<Rightarrow> string + node_info list \<Rightarrow> (chat_state \<Rightarrow> chat_state) \<Rightarrow> chat_state \<Rightarrow> chat_state" where
  "fetchAllActiveNodesAuth force answer other state =
     (case all_nodes_call force state of None \<Rightarrow> state | Some state1 \<Rightarrow> all_nodes_answer answer (other state1))"

definition clearNodeCache :: "chat_state \<Rightarrow> chat_state" where
  "clearNodeCache state = state\<lparr>myNodes := [], allNodes := [], hasFetchedMyNodes := False, hasFetchedAllNodes := False\<rparr>"

section \<open>Reconnecting\<close>

text \<open>
  Reconnecting to a job: the connection that results, if any, and the store. The answers of the
  two calls of \<open>details.ts\<close> come first, then \<open>connectToChainWebSocket\<close> with its own arguments.
\<close>

definition reconnectToActiveJob ::
  "env \<Rightarrow> auth_state \<Rightarrow> string + job list \<Rightarrow> (chat_state \<Rightarrow> chat_state) \<Rightarrow> auth_state \<Rightarrow> string + node_info list
     \<Rightarrow> (chat_state \<Rightarrow> chat_state) \<Rightarrow> auth_state \<Rightarrow> (bytes \<Rightarrow> string + unit) \<Rightarrow> (string \<Rightarrow> string + ws_handle)
     \<Rightarrow> (chat_state \<Rightarrow> chat_state) \<Rightarrow> chat_id \<Rightarrow> job_id \<Rightarrow> chat_state
     \<Rightarrow> connection option \<times> chat_state \<times> chat_effect list" where
  "reconnectToActiveJob en auth1 jobsAnswer other1 auth2 nodesAnswer other2 auth3 derived create other3 chatId jobId state =
     (if map_get (webSockets state) jobId \<noteq> None then (None, state, [])
      else
        let state1 = set_flags chatId True state;
            fail = (\<lambda>s. (None, set_flags chatId False s, []))
        in case getChatJobDetails auth1 jobsAnswer jobId of
             None \<Rightarrow> fail (other1 state1)
           | Some jobDetails \<Rightarrow>
               (case getNodeDetails auth2 nodesAnswer (j_node_id jobDetails) of
                  None \<Rightarrow> fail (other2 (other1 state1))
                | Some nodeDetails \<Rightarrow>
                    if nd_publicKey nodeDetails = [] then fail (other2 (other1 state1))
                    else connectToChainWebSocket en auth3 derived create other3 chatId jobId
                           (Some (nd_address nodeDetails)) (Some (j_node_id jobDetails)) (Some (nd_publicKey nodeDetails))
                           None (other2 (other1 state1))))"

section \<open>Registering a node\<close>

record create_node_request =
  cn_hostname :: string
  cn_modelId :: string
  cn_encryptedApiKey :: string
  cn_expectedChipId :: string

text \<open>What is sent, or the error; \<open>encrypt\<close> is the age encryption of a text for a recipient.\<close>

definition create_node_payload ::
  "auth_state \<Rightarrow> (string \<Rightarrow> string \<Rightarrow> string + bytes) \<Rightarrow> string \<Rightarrow> string \<Rightarrow> string \<Rightarrow> string \<Rightarrow> string
     \<Rightarrow> string + create_node_request" where
  "create_node_payload auth encrypt hostname modelId apiKey chipId hostIdentity =
     (if \<not> signed_in auth then Inl ''User must be registered to create a node.''
      else
        let trimmedHostname = trim hostname; trimmedChipId = to_lower (trim chipId); trimmedIdentity = trim hostIdentity
        in if trimmedHostname = [] \<or> modelId = [] \<or> trim apiKey = [] \<or> trimmedChipId = []
           then Inl ''Missing required fields.''
           else if \<not> prefix ''age1'' trimmedIdentity then Inl ''Invalid Host Identity.''
           else case encrypt trimmedIdentity (trim apiKey) of
             Inl msg \<Rightarrow> Inl (''Encryption failed: '' @ msg)
           | Inr ciphertextUint8 \<Rightarrow>
               Inr \<lparr>cn_hostname = trimmedHostname, cn_modelId = modelId, cn_encryptedApiKey = btoa ciphertextUint8,
                    cn_expectedChipId = trimmedChipId\<rparr>)"

text \<open>
  The whole action. After the call the cache is cleared and both lists are fetched; the two fetches
  write different fields, so the order of their answers does not matter.
\<close>

definition createNode ::
  "auth_state \<Rightarrow> (string \<Rightarrow> string \<Rightarrow> string + bytes) \<Rightarrow> (create_node_request \<Rightarrow> string + unit) \<Rightarrow> auth_state
     \<Rightarrow> string + node_info list \<Rightarrow> string + node_info list \<Rightarrow> (chat_state \<Rightarrow> chat_state) \<Rightarrow> (chat_state \<Rightarrow> chat_state)
     \<Rightarrow> string \<Rightarrow> string \<Rightarrow> string \<Rightarrow> string \<Rightarrow> string \<Rightarrow> chat_state \<Rightarrow> (string + unit) \<times> chat_state" where
  "createNode auth encrypt call auth' myAnswer allAnswer other1 other2 hostname modelId apiKey chipId hostIdentity state =
     (case create_node_payload auth encrypt hostname modelId apiKey chipId hostIdentity of
        Inl e \<Rightarrow> (Inl e, state)
      | Inr req \<Rightarrow>
          (case call req of
             Inl e \<Rightarrow> (Inl e, other1 state)
           | Inr _ \<Rightarrow>
               let state1 = clearNodeCache (other1 state);
                   called = my_nodes_call True auth' state1;
                   state2 = (case called of Some s \<Rightarrow> s | None \<Rightarrow> state1);
                   state3 = (case all_nodes_call True state2 of Some s \<Rightarrow> s | None \<Rightarrow> state2);
                   state4 = other2 state3;
                   state5 = (if called = None then state4 else my_nodes_answer myAnswer state4)
               in (Inr (), all_nodes_answer allAnswer state5)))"

section \<open>Lemmas\<close>

lemma random_index_less:
  assumes "0 \<le> r" and "r < 1" and "0 < n"
  shows "random_index r n < n"
proof -
  have "r * of_nat n < of_nat n" using assms(2,3) by simp
  then have "\<lfloor>r * of_nat n\<rfloor> < int n" by (simp add: floor_less_iff)
  then show ?thesis using assms(3) by (simp add: random_index_def nat_less_iff)
qed

lemma pickNode_Some:
  assumes "0 \<le> r" and "r < 1" and "pickNodeForModel now r md s = Some p"
  shows "\<exists>node \<in> set (suitable_nodes now md s). pn_address p = rn_address node \<and> pn_nodeId p = rn_nodeId node
    \<and> pn_publicKey p = rn_publicKey node"
proof -
  let ?xs = "suitable_nodes now md s"
  have ne: "?xs \<noteq> []" and p: "p = (let c = ?xs ! random_index r (length ?xs) in
      \<lparr>pn_address = rn_address c, pn_nodeId = rn_nodeId c, pn_publicKey = rn_publicKey c\<rparr>)"
    using assms(3) by (auto simp: pickNodeForModel_def Let_def split: if_splits)
  have "?xs ! random_index r (length ?xs) \<in> set ?xs"
    using random_index_less [OF assms(1,2)] ne by (intro nth_mem) simp
  then show ?thesis using p by (auto simp: Let_def)
qed

lemma pickNode_None_iff: "pickNodeForModel now r md s = None \<longleftrightarrow> suitable_nodes now md s = []"
  by (auto simp: pickNodeForModel_def Let_def suitable_nodes_def)

lemma suitable_iff:
  "node \<in> set (suitable_nodes now md s) \<longleftrightarrow> node \<in> set (reconciledActiveNodes s) \<and> rn_modelId node = md
     \<and> \<not> blacklisted now (temporaryNodeBlacklist s) (rn_nodeId node)"
  by (auto simp: suitable_nodes_def)

lemma user_node_map:
  "map_get (map_set_all n_nodeId id ns []) k = Some u \<Longrightarrow> u \<in> set ns \<and> n_nodeId u = k"
  using map_get_set_all_mem [of n_nodeId id ns "[]" k u] by auto

lemma reconcile_node_mem:
  "r \<in> set (reconcile_node um x) \<longleftrightarrow> (\<exists>u. n_isActive x \<and> map_get um (n_nodeId x) = Some u \<and> n_nodePrincipal x \<noteq> None
      \<and> n_nodePrincipal u = n_nodePrincipal x
      \<and> r = \<lparr>rn_nodeId = n_nodeId x, rn_address = n_hostname u, rn_modelId = n_modelId x,
             rn_principal = the (n_nodePrincipal x), rn_publicKey = n_publicKey x\<rparr>)"
  by (cases "n_nodePrincipal x"; cases "map_get um (n_nodeId x)") (auto simp: reconcile_node_def)

section \<open>Properties\<close>

text \<open>
  A node is only chosen when it serves the model and is not blacklisted, and one is chosen
  whenever there is one: with a random number from 0 to 1 the index is always inside the list.
\<close>

theorem pickNodeForModel_correct:
  assumes "0 \<le> r" and "r < 1"
  shows "case pickNodeForModel now r md s of
      Some p \<Rightarrow> \<exists>node \<in> set (reconciledActiveNodes s). rn_modelId node = md \<and> rn_nodeId node = pn_nodeId p
          \<and> rn_address node = pn_address p \<and> rn_publicKey node = pn_publicKey p
          \<and> (\<forall>expiry. map_get (temporaryNodeBlacklist s) (pn_nodeId p) = Some expiry \<longrightarrow> expiry \<le> now)
    | None \<Rightarrow> \<forall>node \<in> set (reconciledActiveNodes s). rn_modelId node = md \<longrightarrow>
          (\<exists>expiry. map_get (temporaryNodeBlacklist s) (rn_nodeId node) = Some expiry \<and> now < expiry)"
proof (cases "pickNodeForModel now r md s")
  case None
  then have none: "suitable_nodes now md s = []" by (simp add: pickNode_None_iff)
  have "\<exists>expiry. map_get (temporaryNodeBlacklist s) (rn_nodeId node) = Some expiry \<and> now < expiry"
    if "node \<in> set (reconciledActiveNodes s)" "rn_modelId node = md" for node
  proof -
    have "blacklisted now (temporaryNodeBlacklist s) (rn_nodeId node)"
      using suitable_iff [of node now md s] none that by simp
    then show ?thesis by (auto simp: blacklisted_def split: option.splits)
  qed
  with None show ?thesis by simp
next
  case (Some p)
  from pickNode_Some [OF assms Some] obtain node where node: "node \<in> set (suitable_nodes now md s)"
    "pn_address p = rn_address node" "pn_nodeId p = rn_nodeId node" "pn_publicKey p = rn_publicKey node" by blast
  then have "node \<in> set (reconciledActiveNodes s)" "rn_modelId node = md"
    and bl: "\<not> blacklisted now (temporaryNodeBlacklist s) (pn_nodeId p)" by (simp_all add: suitable_iff)
  moreover have "\<forall>expiry. map_get (temporaryNodeBlacklist s) (pn_nodeId p) = Some expiry \<longrightarrow> expiry \<le> now"
    using bl by (auto simp: blacklisted_def)
  ultimately show ?thesis using Some node by auto
qed

definition example_node :: reconciled_node where
  "example_node = \<lparr>rn_nodeId = ''1'', rn_address = ''a.example'', rn_modelId = ''m'', rn_principal = ''p'', rn_publicKey = Some ''age1n''\<rparr>"

definition node_state :: chat_state where
  "node_state = initialChatState\<lparr>reconciledActiveNodes := [example_node]\<rparr>"

lemma pick_node_state [simp]:
  "pickNodeForModel now (1/2) ''m'' node_state
     = Some \<lparr>pn_address = ''a.example'', pn_nodeId = ''1'', pn_publicKey = Some ''age1n''\<rparr>"
  by (simp add: pickNodeForModel_def suitable_nodes_def blacklisted_def node_state_def initialChatState_def
      example_node_def random_index_def)

lemma pickNodeForModel_correct_witness:
  "\<exists>node \<in> set (reconciledActiveNodes node_state). rn_nodeId node = ''1''"
  using pickNodeForModel_correct [where r = "1/2" and now = 5 and md = "''m''" and s = node_state] by auto

text \<open>
  Only nodes both sides agree on are used: every reconciled node is active in the index, the user's
  canister knows it under the same identifier with the very same principal, its address is the
  one of the user's canister and its model and public key the index's; and no such node is
  left out (when the canister lists an identifier once).
\<close>

theorem reconcile_nodes_agree:
  assumes "distinct (map n_nodeId userNodes)"
  shows "r \<in> set (reconcile_nodes indexNodes userNodes) \<longleftrightarrow>
    (\<exists>x \<in> set indexNodes. \<exists>u \<in> set userNodes. n_isActive x \<and> n_nodeId u = n_nodeId x
        \<and> n_nodePrincipal x \<noteq> None \<and> n_nodePrincipal u = n_nodePrincipal x
        \<and> r = \<lparr>rn_nodeId = n_nodeId x, rn_address = n_hostname u, rn_modelId = n_modelId x,
               rn_principal = the (n_nodePrincipal x), rn_publicKey = n_publicKey x\<rparr>)"
proof -
  let ?um = "map_set_all n_nodeId id userNodes []"
  have inj: "inj_on n_nodeId (set userNodes)" using assms by (simp add: distinct_map)
  have um: "map_get ?um k = Some u \<longleftrightarrow> u \<in> set userNodes \<and> n_nodeId u = k" for k u
    using user_node_map [of userNodes k u] map_get_set_all_in [OF _ inj, of u id "[]"] by auto
  have "r \<in> set (reconcile_nodes indexNodes userNodes) \<longleftrightarrow> (\<exists>x \<in> set indexNodes. r \<in> set (reconcile_node ?um x))"
    by (auto simp: reconcile_nodes_def)
  then show ?thesis unfolding reconcile_node_mem um by blast
qed

definition example_info :: node_info where
  "example_info = \<lparr>n_nodeId = ''1'', n_owner = ''o'', n_nodePrincipal = Some ''p'', n_hostname = ''a.example'', n_modelId = ''m'',
     n_isActive = True, n_attestationVerifiedAt = None, n_lastHeartbeatTimestamp = None, n_reportedMeasurementHex = None,
     n_reportedChipIdHex = None, n_detectedGeneration = None, n_publicKey = Some ''age1n''\<rparr>"

lemma reconcile_nodes_agree_witness: "example_node \<in> set (reconcile_nodes [example_info] [example_info])"
  using reconcile_nodes_agree [of "[example_info]" example_node "[example_info]"]
  by (simp add: example_info_def example_node_def)

text \<open>
  C14: a failing node is avoided: after a connection-level error that names a node, that node is not chosen
  for any model during the next ten minutes, whatever the model and the random number, while
  every node not named by the error stays exactly as eligible as it was.
\<close>

theorem failed_node_avoided:
  assumes "0 \<le> r" and "r < 1" and "t < now + 10 * 60 * 1000"
    and "s' = fst (handleWebSocketError now k jb msg True (Some n) s)"
  shows "(pickNodeForModel t r md s' = Some p \<longrightarrow> pn_nodeId p \<noteq> n)
    \<and> suitable_nodes t md s' = filter (\<lambda>node. rn_nodeId node \<noteq> n) (suitable_nodes t md s)"
proof -
  have bl: "temporaryNodeBlacklist s' = map_set n (now + BLACKLIST_DURATION_MS) (temporaryNodeBlacklist s)"
    and nodes: "reconciledActiveNodes s' = reconciledActiveNodes s"
    by (auto simp: assms(4) handleWebSocketError_def Let_def blacklist_update_def reject_ocr_def mark_target_errored_def
        removeOcrPromise_def chat_ops split: option.split)
  have black: "blacklisted t (temporaryNodeBlacklist s') x \<longleftrightarrow> x = n \<or> blacklisted t (temporaryNodeBlacklist s) x" for x
    using assms(3) by (auto simp: bl blacklisted_def BLACKLIST_DURATION_MS_def)
  have suit: "suitable_nodes t md s' = filter (\<lambda>node. rn_nodeId node \<noteq> n) (suitable_nodes t md s)"
    unfolding suitable_nodes_def nodes black filter_filter by (rule filter_cong) auto
  have "pn_nodeId p \<noteq> n" if p: "pickNodeForModel t r md s' = Some p"
    using pickNode_Some [OF assms(1,2) p] suit by auto
  then show ?thesis using suit by blast
qed

lemma failed_node_avoided_witness:
  "suitable_nodes 70 ''m'' (fst (handleWebSocketError 60 ''7'' ''j'' ''x'' True (Some ''1'') node_state)) = []"
proof -
  have "suitable_nodes 70 ''m'' node_state = [example_node]"
    by (simp add: suitable_nodes_def blacklisted_def node_state_def initialChatState_def example_node_def)
  then show ?thesis
    using failed_node_avoided [where r = "1/2" and t = 70 and now = 60 and k = "''7''" and jb = "''j''" and msg = "''x''"
        and n = "''1''" and s = node_state and md = "''m''", OF _ _ _ refl]
    by (simp add: example_node_def)
qed

end
