(* ===== verification/Crypto.thy ===== *)
theory Crypto
  imports Base64 File_Utils
begin

text \<open>
  \<open>src/gpt_frontend/src/utils/crypto\<close>: the chat's key and messages (\<open>chat.ts\<close>) and the vault
  (\<open>vault.ts\<close>). Web Crypto, \<open>noble/hashes\<close>, \<open>age-encryption\<close>, \<open>hash-wasm\<close>, \<open>scure/base\<close> and \<open>Buffer\<close>
  are libraries: their functions are the components of the record \<open>crypto_lib\<close>, an argument of
  every definition, and what the code relies on are the laws \<open>aes_law\<close>, \<open>age_law\<close>, \<open>base64_law\<close>.
  A call that draws random numbers is a function of its arguments for one such drawing.
\<close>

section \<open>Text encoding\<close>

text \<open>\<open>TextEncoder\<close> on Latin-1 texts; \<open>TextDecoder\<close>, where \<open>?\<close> stands for a character beyond them.\<close>

definition utf8_char :: "char \<Rightarrow> bytes" where
  "utf8_char ch =
     (let n = of_char ch in if n < (128::nat) then [of_nat n] else [of_nat (192 + n div 64), of_nat (128 + n mod 64)])"

definition utf8_encode :: "string \<Rightarrow> bytes" where
  "utf8_encode s = concat (map utf8_char s)"

fun utf8_decode :: "bytes \<Rightarrow> string" where
  "utf8_decode [] = []"
| "utf8_decode [b] = [if unat b < 128 then char_of (unat b) else CHR ''?'']"
| "utf8_decode (b # c # r) =
     (if unat b < 128 then char_of (unat b) # utf8_decode (c # r)
      else if (unat b = 194 \<or> unat b = 195) \<and> 128 \<le> unat c \<and> unat c < 192
      then char_of ((unat b - 192) * 64 + (unat c - 128)) # utf8_decode r
      else CHR ''?'' # utf8_decode (c # r))"

lemma utf8_decode_ascii: "unat b < 128 \<Longrightarrow> utf8_decode (b # r) = char_of (unat b) # utf8_decode r"
  by (cases r) simp_all

lemma unat_byte: "n < 256 \<Longrightarrow> unat (of_nat n :: 8 word) = n"
  by (simp add: unat_of_nat)

lemma utf8_decode_char: "utf8_decode (utf8_char ch @ r) = ch # utf8_decode r"
proof -
  define n where "n = (of_char ch :: nat)"
  have n: "n < 256" by (simp add: n_def)
  have ch: "char_of n = ch" by (simp add: n_def)
  show ?thesis
  proof (cases "n < 128")
    case True
    then show ?thesis using ch by (simp add: utf8_char_def Let_def n_def [symmetric] utf8_decode_ascii unat_byte)
  next
    case False
    have lead: "n div 64 = 2 \<or> n div 64 = 3" and last: "n mod 64 < 64" using False n by (linarith, simp)
    have join: "n div 64 * 64 + n mod 64 = n" by simp
    have enc: "utf8_char ch = [of_nat (192 + n div 64), of_nat (128 + n mod 64)]"
      using False by (simp add: utf8_char_def Let_def n_def [symmetric])
    have bytes: "unat (of_nat (192 + n div 64) :: 8 word) = 192 + n div 64"
      "unat (of_nat (128 + n mod 64) :: 8 word) = 128 + n mod 64"
      using lead last by (intro unat_byte, linarith)+
    show ?thesis
      unfolding enc using lead last join ch by (auto simp del: of_nat_add simp: bytes)
  qed
qed

lemma utf8_roundtrip [simp]: "utf8_decode (utf8_encode s) = s"
  by (induction s) (simp_all add: utf8_encode_def utf8_decode_char)

interpretation utf8: codec utf8_encode "\<lambda>bs. Some (utf8_decode bs)"
  by unfold_locales simp

section \<open>The libraries\<close>

record 'k crypto_lib =
  cl_hkdf :: "bytes \<Rightarrow> bytes \<Rightarrow> bytes \<Rightarrow> nat \<Rightarrow> bytes"
  cl_import :: "bytes \<Rightarrow> string + 'k"
  cl_export :: "'k \<Rightarrow> bytes"
  cl_aes_encrypt :: "bytes \<Rightarrow> 'k \<Rightarrow> bytes \<Rightarrow> bytes"
  cl_aes_decrypt :: "bytes \<Rightarrow> 'k \<Rightarrow> bytes \<Rightarrow> bytes option"
  cl_age_encrypt :: "string \<Rightarrow> bytes \<Rightarrow> string + bytes"
  cl_age_decrypt :: "string \<Rightarrow> bytes \<Rightarrow> string + bytes"
  cl_age_recipient :: "string \<Rightarrow> string + string"
  cl_argon2id :: "string \<Rightarrow> bytes \<Rightarrow> bytes"
  cl_bech32 :: "bytes \<Rightarrow> string"
  cl_from_base64 :: "string \<Rightarrow> bytes"

text \<open>AES-GCM decrypts what it encrypted with the same key and nonce.\<close>

definition aes_law :: "'k crypto_lib \<Rightarrow> bool" where
  "aes_law lib \<longleftrightarrow> (\<forall>iv k m. cl_aes_decrypt lib iv k (cl_aes_encrypt lib iv k m) = Some m)"

text \<open>age: what is encrypted for an identity's recipient is decrypted by the identity.\<close>

definition age_law :: "'k crypto_lib \<Rightarrow> bool" where
  "age_law lib \<longleftrightarrow> (\<forall>i r m c. cl_age_recipient lib i = Inr r \<longrightarrow> cl_age_encrypt lib r m = Inr c
     \<longrightarrow> cl_age_decrypt lib i c = Inr m)"

definition base64_law :: "'k crypto_lib \<Rightarrow> bool" where
  "base64_law lib \<longleftrightarrow> (\<forall>bs. cl_from_base64 lib (btoa bs) = bs)"

section \<open>\<open>ChatCrypto\<close>\<close>

definition IV_LENGTH :: nat where
  "IV_LENGTH = 12"

definition deriveChatKey :: "'k crypto_lib \<Rightarrow> string \<Rightarrow> bytes \<Rightarrow> string + 'k" where
  "deriveChatKey lib rootKeyHex salt =
     cl_import lib (cl_hkdf lib (utf8_encode rootKeyHex) salt (utf8_encode ''gpt_chat_v1'') 32)"

text \<open>\<open>iv\<close> are the random bytes drawn.\<close>

definition encryptMessage :: "'k crypto_lib \<Rightarrow> bytes \<Rightarrow> string \<Rightarrow> 'k \<Rightarrow> bytes" where
  "encryptMessage lib iv plain key = iv @ cl_aes_encrypt lib iv key (utf8_encode plain)"

definition decryptMessage :: "'k crypto_lib \<Rightarrow> bytes \<Rightarrow> 'k \<Rightarrow> string + string" where
  "decryptMessage lib packed key =
     (if length packed < IV_LENGTH then Inl ''Invalid encrypted message: too short''
      else case cl_aes_decrypt lib (take IV_LENGTH packed) key (drop IV_LENGTH packed) of
        Some m \<Rightarrow> Inr (utf8_decode m)
      | None \<Rightarrow> Inr ''[Decryption Error]'')"

definition wrapKeyForNode :: "'k crypto_lib \<Rightarrow> 'k \<Rightarrow> string \<Rightarrow> string + string" where
  "wrapKeyForNode lib chatKey nodePublicKey =
     (let keyBytes = cl_export lib chatKey; cleanKey = trim nodePublicKey in
      if \<not> prefix ''age1'' cleanKey
      then Inl (''Invalid node public key format: '' @ substring 0 10 cleanKey @ ''...'')
      else map_sum_r btoa (cl_age_encrypt lib cleanKey keyBytes))"

section \<open>\<open>VaultCrypto\<close>\<close>

definition toAgeSecretKey :: "'k crypto_lib \<Rightarrow> bytes \<Rightarrow> string" where
  "toAgeSecretKey lib seed = to_upper (cl_bech32 lib seed)"

definition deriveRootKey :: "'k crypto_lib \<Rightarrow> string \<Rightarrow> bytes \<Rightarrow> string" where
  "deriveRootKey lib pin salt = toAgeSecretKey lib (cl_argon2id lib pin salt)"

definition encryptValidator :: "'k crypto_lib \<Rightarrow> string \<Rightarrow> string + string" where
  "encryptValidator lib rootKey =
     (case cl_age_recipient lib rootKey of
        Inl e \<Rightarrow> Inl e
      | Inr recipient \<Rightarrow> map_sum_r btoa (cl_age_encrypt lib recipient (utf8_encode ''GPT-VALID'')))"

definition verifyPin :: "'k crypto_lib \<Rightarrow> string \<Rightarrow> bytes \<Rightarrow> string \<Rightarrow> string option" where
  "verifyPin lib pin salt encryptedValidatorBase64 =
     (let rootKey = deriveRootKey lib pin salt in
      case cl_age_decrypt lib rootKey (cl_from_base64 lib encryptedValidatorBase64) of
        Inr result \<Rightarrow> if utf8_decode result = ''GPT-VALID'' then Some rootKey else None
      | Inl _ \<Rightarrow> None)"

definition verifyKey :: "'k crypto_lib \<Rightarrow> string \<Rightarrow> string \<Rightarrow> bool" where
  "verifyKey lib rootKey encryptedValidatorBase64 =
     (case cl_age_decrypt lib rootKey (cl_from_base64 lib encryptedValidatorBase64) of
        Inr result \<Rightarrow> utf8_decode result = ''GPT-VALID''
      | Inl _ \<Rightarrow> False)"

section \<open>Lemmas\<close>

lemma decrypt_encrypt:
  assumes "aes_law lib" and "length iv = IV_LENGTH"
  shows "decryptMessage lib (encryptMessage lib iv plain key) key = Inr plain"
  using assms by (simp add: decryptMessage_def encryptMessage_def aes_law_def)

lemma wrapKeyForNode_Inr:
  assumes "wrapKeyForNode lib key pk = Inr w"
  shows "prefix ''age1'' (trim pk) \<and> (\<exists>c. cl_age_encrypt lib (trim pk) (cl_export lib key) = Inr c \<and> w = btoa c)"
  using assms by (cases "cl_age_encrypt lib (trim pk) (cl_export lib key)")
    (auto simp: wrapKeyForNode_def Let_def split: if_splits)

lemma unwrap_key:
  assumes "age_law lib" and "cl_age_recipient lib i = Inr (trim pk)" and "wrapKeyForNode lib key pk = Inr w"
  shows "map_option (cl_age_decrypt lib i) (atob w) = Some (Inr (cl_export lib key))"
  using wrapKeyForNode_Inr [OF assms(3)] assms(1,2) by (auto simp: atob_btoa age_law_def)

section \<open>Example libraries\<close>

text \<open>Stand-ins that satisfy the laws, for the witnesses: no cipher at all.\<close>

definition example_lib :: "bytes crypto_lib" where
  "example_lib =
     \<lparr>cl_hkdf = \<lambda>ikm salt info n. take n (ikm @ salt @ info), cl_import = Inr, cl_export = id,
      cl_aes_encrypt = \<lambda>iv k m. rev m, cl_aes_decrypt = \<lambda>iv k c. Some (rev c),
      cl_age_encrypt = \<lambda>r m. Inr (utf8_encode r @ m),
      cl_age_decrypt = \<lambda>i c. (let p = utf8_encode (''age1'' @ i) in
         if prefix p c then Inr (drop (length p) c) else Inl ''no identity matched''),
      cl_age_recipient = \<lambda>i. Inr (''age1'' @ i), cl_argon2id = \<lambda>pin salt. utf8_encode pin @ salt,
      cl_bech32 = \<lambda>bs. ''age-secret-key-'' @ utf8_decode bs, cl_from_base64 = \<lambda>s. the (atob s)\<rparr>"

lemma example_lib_laws [simp]: "aes_law example_lib" "age_law example_lib" "base64_law example_lib"
  by (auto simp: example_lib_def aes_law_def age_law_def base64_law_def atob_btoa)

section \<open>Properties\<close>

text \<open>
  C16: the messages of a chat can be read back: whatever random nonce was drawn, decrypting an encrypted
  text with the key of the same chat gives the text; a packed text shorter than a nonce is
  refused, and bytes the cipher rejects are shown as a decryption error instead of raising one.
\<close>

theorem message_encryption_roundtrip:
  assumes "aes_law lib" and "length iv = IV_LENGTH" and "deriveChatKey lib rootKey salt = Inr key"
    and "deriveChatKey lib rootKey salt = Inr key'"
  shows "decryptMessage lib (encryptMessage lib iv plain key) key' = Inr plain
    \<and> length (encryptMessage lib iv plain key) \<ge> 12
    \<and> (\<forall>packed e. decryptMessage lib packed key = Inl e \<longleftrightarrow>
          length packed < 12 \<and> e = ''Invalid encrypted message: too short'')
    \<and> (\<forall>n c. length n = 12 \<longrightarrow> cl_aes_decrypt lib n key c = None \<longrightarrow>
          decryptMessage lib (n @ c) key = Inr ''[Decryption Error]'')"
proof -
  have "key' = key" using assms(3,4) by simp
  moreover have "decryptMessage lib packed key = Inl e \<longleftrightarrow>
      length packed < 12 \<and> e = ''Invalid encrypted message: too short''" for packed e
    by (auto simp: decryptMessage_def IV_LENGTH_def split: option.splits)
  moreover have "length n = 12 \<Longrightarrow> cl_aes_decrypt lib n key c = None \<Longrightarrow>
      decryptMessage lib (n @ c) key = Inr ''[Decryption Error]''" for n c
    by (simp add: decryptMessage_def IV_LENGTH_def)
  moreover have "length (encryptMessage lib iv plain key) \<ge> 12"
    using assms(2) by (simp add: encryptMessage_def IV_LENGTH_def)
  ultimately show ?thesis using decrypt_encrypt [OF assms(1,2)] by blast
qed

lemma message_encryption_roundtrip_witness:
  "decryptMessage example_lib (encryptMessage example_lib (replicate 12 0) ''hi'' (take 32 (utf8_encode ''k'' @ [] @ utf8_encode ''gpt_chat_v1'')))
     (take 32 (utf8_encode ''k'' @ [] @ utf8_encode ''gpt_chat_v1'')) = Inr ''hi''"
  using message_encryption_roundtrip [where lib = example_lib and iv = "replicate 12 0" and rootKey = "''k''"
      and salt = "[]" and plain = "''hi''"
      and key = "take 32 (utf8_encode ''k'' @ [] @ utf8_encode ''gpt_chat_v1'')"
      and key' = "take 32 (utf8_encode ''k'' @ [] @ utf8_encode ''gpt_chat_v1'')"]
  by (simp add: deriveChatKey_def example_lib_def IV_LENGTH_def aes_law_def)

text \<open>
  A chat key is wrapped only for something that looks like an age recipient, and the node whose
  identity has that recipient unwraps exactly the key; a key with stray blanks around it is
  wrapped as the clean one, and anything else is refused before encryption, quoting at most ten
  of its characters.
\<close>

theorem wrapped_key_opens_at_node:
  assumes "age_law lib" and "cl_age_recipient lib i = Inr (trim pk)"
  shows "(wrapKeyForNode lib key pk = Inr w \<longrightarrow>
        prefix ''age1'' (trim pk) \<and> map_option (cl_age_decrypt lib i) (atob w) = Some (Inr (cl_export lib key)))
    \<and> wrapKeyForNode lib key (trim pk) = wrapKeyForNode lib key pk
    \<and> (\<not> prefix ''age1'' (trim pk) \<longrightarrow> (\<exists>q. length q \<le> 10 \<and> prefix q (trim pk)
          \<and> wrapKeyForNode lib key pk = Inl (''Invalid node public key format: '' @ q @ ''...'')))"
proof -
  have "trim (trim pk) = trim pk" by (rule trim_idem)
  then have "wrapKeyForNode lib key (trim pk) = wrapKeyForNode lib key pk" by (simp add: wrapKeyForNode_def)
  moreover have "\<exists>q. length q \<le> 10 \<and> prefix q (trim pk)
      \<and> wrapKeyForNode lib key pk = Inl (''Invalid node public key format: '' @ q @ ''...'')"
    if "\<not> prefix ''age1'' (trim pk)"
    using that by (intro exI [of _ "take 10 (trim pk)"])
      (simp add: wrapKeyForNode_def Let_def substring_def take_is_prefix)
  ultimately show ?thesis using wrapKeyForNode_Inr [of lib key pk w] unwrap_key [OF assms, of key w] by blast
qed

lemma wrapped_key_opens_at_node_witness:
  "map_option (cl_age_decrypt example_lib ''n'') (atob (btoa (utf8_encode ''age1n'' @ [7]))) = Some (Inr [7])"
  using wrapped_key_opens_at_node [where lib = example_lib and i = "''n''" and pk = "''age1n ''" and key = "[7]"
      and w = "btoa (utf8_encode ''age1n'' @ [7])"]
  by (simp add: example_lib_def wrapKeyForNode_def trim_def trim_start_def is_ws_def age_law_def)

lemma validator_opens:
  assumes "age_law lib" and "base64_law lib" and "encryptValidator lib k = Inr v"
  shows "verifyKey lib k v"
proof -
  obtain r c where "cl_age_recipient lib k = Inr r" and "cl_age_encrypt lib r (utf8_encode ''GPT-VALID'') = Inr c"
    and v: "v = btoa c"
    using assms(3) by (auto simp: encryptValidator_def split: sum.splits elim: map_sum_r.elims)
  then have "cl_age_decrypt lib k (cl_from_base64 lib v) = Inr (utf8_encode ''GPT-VALID'')"
    using assms(1,2) by (simp add: age_law_def base64_law_def)
  then show ?thesis by (simp add: verifyKey_def)
qed

lemma verifyPin_iff: "verifyPin lib pin salt v = Some k \<longleftrightarrow> k = deriveRootKey lib pin salt \<and> verifyKey lib k v"
  by (auto simp: verifyPin_def verifyKey_def Let_def split: sum.splits if_splits)

text \<open>
  C18: the vault opens with the PIN it was set up with: when the validator was encrypted under the key
  derived from a PIN and a salt, that PIN gives the root key back and the cached root key is
  accepted; and a PIN is accepted only if the key derived from it decrypts the validator to the
  expected text, so whatever comes back passes the check of a cached key too.
\<close>

theorem vault_pin_roundtrip:
  assumes "age_law lib" and "base64_law lib" and "encryptValidator lib (deriveRootKey lib pin salt) = Inr v"
  shows "verifyPin lib pin salt v = Some (deriveRootKey lib pin salt)
    \<and> verifyKey lib (deriveRootKey lib pin salt) v
    \<and> (\<forall>pin' k. verifyPin lib pin' salt v = Some k \<longleftrightarrow> k = deriveRootKey lib pin' salt \<and> verifyKey lib k v)"
  using validator_opens [OF assms] by (auto simp: verifyPin_iff)

lemma vault_pin_roundtrip_witness:
  "verifyKey example_lib (deriveRootKey example_lib ''1234'' [])
     (btoa (utf8_encode (''age1'' @ deriveRootKey example_lib ''1234'' []) @ utf8_encode ''GPT-VALID''))"
proof -
  have "encryptValidator example_lib (deriveRootKey example_lib ''1234'' [])
      = Inr (btoa (utf8_encode (''age1'' @ deriveRootKey example_lib ''1234'' []) @ utf8_encode ''GPT-VALID''))"
    by (simp add: encryptValidator_def example_lib_def)
  then show ?thesis using vault_pin_roundtrip [OF example_lib_laws(2,3)] by blast
qed

end
