(* ===== verification/Send_Message.thy ===== *)
theory Send_Message
  imports Nodes Crypto
begin

text \<open>
  Sending (\<open>src/gpt_frontend/src/store/chatStore/actions/message\<close>): the dispatcher (\<open>index.ts\<close>), the
  first message of a new chat (\<open>createAndSend.ts\<close>), a further message (\<open>addAndSend.ts\<close>), editing a
  message (\<open>edit.ts\<close>) and retrying an answer (\<open>retry.ts\<close>). Each encrypts for the chat, wraps the chat
  key for the chosen node, calls the user's canister, stores what it answers and opens the job's
  web socket. A generation needs the browser: what it answers is the record \<open>send_env\<close>.
\<close>

section \<open>The environment\<close>

text \<open>
  \<open>se_meanwhile\<close> is what the rest of the program does to the store until the canister has answered or
  an error is thrown, \<open>se_connecting\<close> what it does while the key of the connection is derived;
  \<open>se_pick_now\<close> and \<open>se_now\<close> are the clock at the choice of the node and after the answer,
  \<open>se_prompt\<close> is \<open>compileSystemPrompt\<close> and \<open>se_read\<close> reads a file.
\<close>

record 'k send_env =
  se_auth :: auth_state
  se_pick_now :: nat
  se_random :: rat
  se_salt :: bytes
  se_iv :: bytes
  se_read :: "js_file \<Rightarrow> string + bytes"
  se_prompt :: "model \<Rightarrow> string"
  se_lib :: "'k crypto_lib"
  se_meanwhile :: "chat_state \<Rightarrow> chat_state"
  se_now :: nat
  se_timer :: timer
  se_connect_auth :: auth_state
  se_create :: "string \<Rightarrow> string + ws_handle"
  se_connecting :: "chat_state \<Rightarrow> chat_state"
  se_env :: env

definition se_rootKey :: "'k send_env \<Rightarrow> string" where
  "se_rootKey en = the (au_rootKey (se_auth en))"

section \<open>Attachments\<close>

definition transformAttachmentsForBackend ::
  "(js_file \<Rightarrow> string + bytes) \<Rightarrow> attachment list \<Rightarrow> string + image_attachment list" where
  "transformAttachmentsForBackend read atts =
     (if length atts = 0 then Inr []
      else traverse (\<lambda>att. map_sum_r (\<lambda>d. \<lparr>ia_mime_type = f_type (a_file att), ia_data = d\<rparr>) (read (a_file att)))
             (filter (\<lambda>att. a_type att = ImageAtt) atts))"

section \<open>What is sent\<close>

text \<open>\<open>Number(nodeId)\<close>: node identifiers are decimal texts of integers; anything else is \<open>NaN\<close>, here \<open>None\<close>.\<close>

definition node_number :: "node_id \<Rightarrow> int option" where
  "node_number n = parse_bigint n"

record generation_params =
  gp_modelId :: string
  gp_nodeId :: "int option"
  gp_temperature :: rat
  gp_maxCompletionTokens :: int
  gp_maxContext :: int
  gp_encryptedChatKey :: string
  gp_tools :: "tool list"
  gp_customPrompt :: string

record create_chat_params = generation_params +
  cp_title :: string
  cp_initialMessage :: bytes
  cp_encryptionSalt :: bytes
  cp_attachments :: "image_attachment list"
  cp_temporary :: bool

record add_message_params = generation_params +
  ap_chatId :: chat_id
  ap_content :: bytes
  ap_attachments :: "image_attachment list"
  ap_reasoningEffort :: "string option"
  ap_parentMessageId :: "message_id option"

record edit_message_params = generation_params +
  ep_chatId :: chat_id
  ep_oldUserMessageId :: message_id
  ep_newContent :: bytes
  ep_attachments :: "image_attachment list"
  ep_reasoningEffort :: "string option"

record retry_message_params = generation_params +
  rp_chatId :: chat_id
  rp_userMessageId :: message_id
  rp_reasoningEffort :: "string option"

record create_chat_response =
  cr_chat_id :: int
  cr_user_message_id :: int
  cr_ai_message_id :: int
  cr_job_id :: int

text \<open>The identifiers of the answers of \<open>addMessage\<close>, \<open>editUserMessage\<close> and \<open>retryAiMessage\<close>.\<close>

record message_response =
  mr_user_message_id :: int
  mr_ai_message_id :: int
  mr_job_id :: int

text \<open>\<open>selectedModel.isEmbedding ? undefined : reasoningEffort\<close>\<close>

definition effort_param :: "model \<Rightarrow> chat_state \<Rightarrow> string option" where
  "effort_param mdl state = (if md_isEmbedding mdl then None else Some (reasoningEffort state))"

section \<open>The new messages\<close>

definition new_user_message ::
  "message_id \<Rightarrow> chat_id \<Rightarrow> string \<Rightarrow> message_id option \<Rightarrow> string option \<Rightarrow> image_attachment list \<Rightarrow> instant \<Rightarrow> message" where
  "new_user_message i chatId content parent mdl atts nowStr =
     (plain_message i chatId User content parent nowStr)
        \<lparr>m_backendId := Some i, m_modelId := mdl, m_attachments := Some atts\<rparr>"

definition new_ai_message :: "message_id \<Rightarrow> chat_id \<Rightarrow> message_id \<Rightarrow> job_id \<Rightarrow> string \<Rightarrow> instant \<Rightarrow> message" where
  "new_ai_message i chatId parent jobId mdl nowStr =
     (plain_message i chatId Assistant [] (Some parent) nowStr)
        \<lparr>m_backendId := Some i, m_jobId := Some jobId, m_modelId := Some mdl, m_isComplete := Some False\<rparr>"

text \<open>How the action ends: the value or error of its promise, the connection it opened, the store, the effects.\<close>

type_synonym send_result = "(string + chat_id) \<times> connection option \<times> chat_state \<times> chat_effect list"

definition connect_job ::
  "'k send_env \<Rightarrow> chat_id \<Rightarrow> job_id \<Rightarrow> picked_node \<Rightarrow> chat_state \<Rightarrow> connection option \<times> chat_state \<times> chat_effect list" where
  "connect_job en chatId jobId node state =
     connectToChainWebSocket (se_env en) (se_connect_auth en)
       (\<lambda>salt. map_sum_r (\<lambda>_. ()) (deriveChatKey (se_lib en) (the (au_rootKey (se_connect_auth en))) salt))
       (se_create en) (se_connecting en) chatId jobId (Some (pn_address node)) (Some (pn_nodeId node)) (pn_publicKey node)
       None state"

text \<open>The end of the catch blocks: the flags of a chat are cleared and the attachments cleaned up.\<close>

definition abort_send :: "'k send_env \<Rightarrow> chat_id \<Rightarrow> string \<Rightarrow> chat_state \<Rightarrow> send_result" where
  "abort_send en chatId e state =
     (let (s, effs) = scheduleAttachmentCleanup (se_timer en) 250 (set_flags chatId False state)
      in (Inl e, None, s, effs))"

section \<open>The first message of a new chat\<close>

text \<open>What precedes the \<open>try\<close>: a node with a public key and the attachments, or the error thrown.\<close>

definition create_prepare ::
  "'k send_env \<Rightarrow> chat_state \<Rightarrow> string + (model \<times> picked_node \<times> image_attachment list)" where
  "create_prepare en state =
     (if \<not> session_ready (se_auth en) then Inl ''User is not authenticated or Vault is locked.''
      else case selectedModel state of
        None \<Rightarrow> Inl ''No model selected.''
      | Some mdl \<Rightarrow>
          (case pickNodeForModel (se_pick_now en) (se_random en) (md_modelId mdl) state of
             None \<Rightarrow> Inl (''No active nodes available for model: '' @ md_name mdl
                          @ ''. Please try again later or select a different model.'')
           | Some node \<Rightarrow>
               if \<not> truthy_str (pn_publicKey node)
               then Inl ''Selected node does not have a public key for encryption. Cannot proceed safely.''
               else map_sum_r (\<lambda>atts. (mdl, node, atts)) (transformAttachmentsForBackend (se_read en) (attachments state))))"

definition new_chat_title :: "string \<Rightarrow> string" where
  "new_chat_title trimmedInput =
     (if trimmedInput \<noteq> []
      then if length trimmedInput > 50 then substring 0 50 trimmedInput @ ''...'' else trimmedInput
      else ''New Chat'')"

definition create_params_of ::
  "'k send_env \<Rightarrow> model \<Rightarrow> picked_node \<Rightarrow> image_attachment list \<Rightarrow> chat_state \<Rightarrow> string + create_chat_params" where
  "create_params_of en mdl node atts state =
     (let trimmedInput = trim (cs_input state); chatSalt = se_salt en in
      bind_sum (deriveChatKey (se_lib en) (se_rootKey en) chatSalt) (\<lambda>chatKey.
      let encryptedMessage = encryptMessage (se_lib en) (se_iv en) trimmedInput chatKey;
          cleanPublicKey = trim (the (pn_publicKey node))
      in bind_sum (wrapKeyForNode (se_lib en) chatKey cleanPublicKey) (\<lambda>wrapped.
         Inr \<lparr>gp_modelId = md_modelId mdl, gp_nodeId = node_number (pn_nodeId node), gp_temperature = temperature state,
              gp_maxCompletionTokens = maxOutput state, gp_maxContext = maxContext state,
              gp_encryptedChatKey = wrapped, gp_tools = selectedTools state, gp_customPrompt = se_prompt en mdl,
              cp_title = new_chat_title trimmedInput, cp_initialMessage = encryptedMessage,
              cp_encryptionSalt = chatSalt, cp_attachments = atts, cp_temporary = isNextChatTemporary state\<rparr>)))"

text \<open>The update of the store once the chat exists; \<open>state0\<close> is the store the action read at its start.\<close>

definition new_chat_object ::
  "'k send_env \<Rightarrow> chat_state \<Rightarrow> chat_id \<Rightarrow> message_id \<Rightarrow> message_id \<Rightarrow> job_id \<Rightarrow> chat" where
  "new_chat_object en state0 k u a j =
     \<lparr>c_chatId = k, c_title = new_chat_title (trim (cs_input state0)), c_createdAt = se_now en, c_updatedAt = se_now en,
      c_owner = (if truthy_str (au_principal (se_auth en)) then the (au_principal (se_auth en)) else []),
      c_messageIds = [u, a], c_jobIds = [j], c_activeJobId = Some j, c_archived = False,
      c_temporary = isNextChatTemporary state0, c_encryptionSalt = se_salt en\<rparr>"

definition new_chat_map ::
  "'k send_env \<Rightarrow> model \<Rightarrow> image_attachment list \<Rightarrow> chat_state \<Rightarrow> chat_id \<Rightarrow> message_id \<Rightarrow> message_id \<Rightarrow> job_id \<Rightarrow> message_map" where
  "new_chat_map en mdl atts state0 k u a j =
     map_set a (new_ai_message a k u j (md_modelId mdl) (se_now en))
       (map_set u (new_user_message u k (trim (cs_input state0)) None None atts (se_now en)) [])"

definition store_new_chat :: "chat \<Rightarrow> message_map \<Rightarrow> chat_state \<Rightarrow> chat_state" where
  "store_new_chat c m state =
     (let k = c_chatId c;
          flags_of = (\<lambda>f. f(''new'' \<mapsto> False, k \<mapsto> True));
          state1 = state\<lparr>messages := (messages state)(k \<mapsto> m), currentChatId := Some k, chatTitle := c_title c,
                         chats := c # chats state, isGenerating := flags_of (isGenerating state),
                         isWaiting := flags_of (isWaiting state), isAITyping := flags_of (isAITyping state), cs_input := []\<rparr>
      in if messages state1 k = None then setMessages k m state1 else state1)"

definition createNewChatWithFirstMessage ::
  "'k send_env \<Rightarrow> (create_chat_params \<Rightarrow> string + create_chat_response) \<Rightarrow> chat_state \<Rightarrow> send_result" where
  "createNewChatWithFirstMessage en api state =
     (case create_prepare en state of
        Inl e \<Rightarrow> (Inl e, None, se_meanwhile en state, [])
      | Inr (mdl, node, atts) \<Rightarrow>
          (case bind_sum (create_params_of en mdl node atts state) api of
             Inl e \<Rightarrow> abort_send en ''new'' e (se_meanwhile en state)
           | Inr response \<Rightarrow>
               let k = toChatId (id_text (cr_chat_id response));
                   u = toMessageId (id_text (cr_user_message_id response));
                   a = toMessageId (id_text (cr_ai_message_id response));
                   j = toJobId (id_text (cr_job_id response));
                   (s1, effs1) = scheduleAttachmentCleanup (se_timer en) 250 (se_meanwhile en state);
                   c = new_chat_object en state k u a j;
                   s2 = store_new_chat c (new_chat_map en mdl atts state k u a j) s1;
                   s3 = setActiveLeaf k a (setActiveChatJob k j False s2);
                   trimmedInput = trim (cs_input state);
                   title = (if trimmedInput \<noteq> [] \<and> \<not> isNextChatTemporary state
                            then [StartTitle k trimmedInput (new_chat_title trimmedInput)] else []);
                   (conn, s4, effs4) = connect_job en k j node s3
               in (Inr k, conn, s4, effs1 @ title @ effs4)))"

section \<open>A further message\<close>

definition add_prepare ::
  "'k send_env \<Rightarrow> chat_state \<Rightarrow> string + (chat \<times> model \<times> picked_node \<times> image_attachment list)" where
  "add_prepare en state =
     (if \<not> session_ready (se_auth en) then Inl ''User is not authenticated or Vault is locked.''
      else if \<not> truthy_str (currentChatId state) then Inl ''No active chat ID found.''
      else case List.find (\<lambda>c. Some (c_chatId c) = currentChatId state) (chats state) of
        None \<Rightarrow> Inl ''Chat metadata missing or encryption not initialized for this chat.''
      | Some currentChat \<Rightarrow>
          (case selectedModel state of
             None \<Rightarrow> Inl ''No model selected.''
           | Some mdl \<Rightarrow>
               (case pickNodeForModel (se_pick_now en) (se_random en) (md_modelId mdl) state of
                  None \<Rightarrow> Inl (''No active nodes available for model: '' @ md_name mdl @ ''.'')
                | Some node \<Rightarrow>
                    if \<not> truthy_str (pn_publicKey node)
                    then Inl ''Selected node does not have a public key for encryption.''
                    else map_sum_r (\<lambda>atts. (currentChat, mdl, node, atts))
                           (transformAttachmentsForBackend (se_read en) (attachments state)))))"

definition parent_of_next :: "chat_id \<Rightarrow> chat_state \<Rightarrow> message_id option" where
  "parent_of_next chatId state =
     (if truthy_str (activeLeafMessageId state chatId) then activeLeafMessageId state chatId else None)"

definition add_params_of ::
  "'k send_env \<Rightarrow> chat \<Rightarrow> model \<Rightarrow> picked_node \<Rightarrow> image_attachment list \<Rightarrow> chat_id \<Rightarrow> chat_state
     \<Rightarrow> string + add_message_params" where
  "add_params_of en currentChat mdl node atts chatId state =
     bind_sum (deriveChatKey (se_lib en) (se_rootKey en) (c_encryptionSalt currentChat)) (\<lambda>chatKey.
     let encryptedContent = encryptMessage (se_lib en) (se_iv en) (trim (cs_input state)) chatKey
     in bind_sum (wrapKeyForNode (se_lib en) chatKey (the (pn_publicKey node))) (\<lambda>wrapped.
        Inr \<lparr>gp_modelId = md_modelId mdl, gp_nodeId = node_number (pn_nodeId node), gp_temperature = temperature state,
             gp_maxCompletionTokens = maxOutput state, gp_maxContext = maxContext state,
             gp_encryptedChatKey = wrapped, gp_tools = selectedTools state, gp_customPrompt = se_prompt en mdl,
             ap_chatId = chatId, ap_content = encryptedContent, ap_attachments = atts,
             ap_reasoningEffort = effort_param mdl state, ap_parentMessageId = parent_of_next chatId state\<rparr>))"

text \<open>The two new messages are put into the chat's map, which is created when there is none.\<close>

definition store_exchange ::
  "chat_id \<Rightarrow> message list \<Rightarrow> (chat \<Rightarrow> chat) \<Rightarrow> chat_state \<Rightarrow> chat_state" where
  "store_exchange chatId ms touch state =
     (let existingMessages = (case messages state chatId of Some m \<Rightarrow> m | None \<Rightarrow> [])
      in state\<lparr>messages := (messages state)(chatId \<mapsto> map_set_all m_id id ms existingMessages),
               chats := map (\<lambda>c. if c_chatId c = chatId then touch c else c) (chats state)\<rparr>)"

definition addMessageToExistingChat ::
  "'k send_env \<Rightarrow> (add_message_params \<Rightarrow> string + message_response) \<Rightarrow> chat_state \<Rightarrow> send_result" where
  "addMessageToExistingChat en api state =
     (case add_prepare en state of
        Inl e \<Rightarrow> (Inl e, None, se_meanwhile en state, [])
      | Inr (currentChat, mdl, node, atts) \<Rightarrow>
          let chatId = the (currentChatId state) in
          (case bind_sum (add_params_of en currentChat mdl node atts chatId state) api of
             Inl e \<Rightarrow> abort_send en chatId e (se_meanwhile en state)
           | Inr response \<Rightarrow>
               let u = toMessageId (id_text (mr_user_message_id response));
                   a = toMessageId (id_text (mr_ai_message_id response));
                   j = toJobId (id_text (mr_job_id response));
                   (s1, effs1) = scheduleAttachmentCleanup (se_timer en) 250 (se_meanwhile en state);
                   user = new_user_message u chatId (trim (cs_input state)) (parent_of_next chatId state) None atts (se_now en);
                   ai = new_ai_message a chatId u j (md_modelId mdl) (se_now en);
                   s2 = (store_exchange chatId [user, ai] (\<lambda>c. c\<lparr>c_updatedAt := se_now en, c_activeJobId := Some j\<rparr>) s1)
                          \<lparr>cs_input := []\<rparr>;
                   s3 = setActiveChatJob chatId j False (setActiveLeaf chatId a s2);
                   (conn, s4, effs4) = connect_job en chatId j node s3
               in (Inr chatId, conn, s4, effs1 @ effs4)))"

section \<open>The dispatcher\<close>

definition sendMessage ::
  "'k send_env \<Rightarrow> (create_chat_params \<Rightarrow> string + create_chat_response) \<Rightarrow> (add_message_params \<Rightarrow> string + message_response)
     \<Rightarrow> chat_state \<Rightarrow> (string + chat_id option) \<times> connection option \<times> chat_state \<times> chat_effect list" where
  "sendMessage en create_api add_api state =
     (let chatKey = (case currentChatId state of Some k \<Rightarrow> k | None \<Rightarrow> ''new'') in
      if flag (isGenerating state) chatKey then (Inr None, None, state, [])
      else
        let state1 = set_flags chatKey True state;
            (r, rest) = (if currentChatId state = None then createNewChatWithFirstMessage en create_api state1
                         else addMessageToExistingChat en add_api state1)
        in (map_sum_r Some r, rest))"

section \<open>Editing and retrying\<close>

text \<open>
  Both swallow every error. \<open>pick_with_key\<close>: the choice of the node, with the errors of these two
  actions.
\<close>

definition pick_with_key :: "'k send_env \<Rightarrow> model \<Rightarrow> chat_state \<Rightarrow> string + picked_node" where
  "pick_with_key en mdl state =
     (case pickNodeForModel (se_pick_now en) (se_random en) (md_modelId mdl) state of
        None \<Rightarrow> Inl ''No suitable node found.''
      | Some node \<Rightarrow> if \<not> truthy_str (pn_publicKey node) then Inl ''Node missing public key for encryption.'' else Inr node)"

definition edit_params_of ::
  "'k send_env \<Rightarrow> chat \<Rightarrow> model \<Rightarrow> picked_node \<Rightarrow> image_attachment list \<Rightarrow> chat_id \<Rightarrow> message_id \<Rightarrow> string \<Rightarrow> chat_state
     \<Rightarrow> string + edit_message_params" where
  "edit_params_of en currentChat mdl node atts chatId oldUserMessageId newContent state =
     bind_sum (deriveChatKey (se_lib en) (se_rootKey en) (c_encryptionSalt currentChat)) (\<lambda>chatKey.
     let encryptedContent = encryptMessage (se_lib en) (se_iv en) newContent chatKey
     in bind_sum (wrapKeyForNode (se_lib en) chatKey (the (pn_publicKey node))) (\<lambda>wrapped.
        Inr \<lparr>gp_modelId = md_modelId mdl, gp_nodeId = node_number (pn_nodeId node), gp_temperature = temperature state,
             gp_maxCompletionTokens = maxOutput state, gp_maxContext = maxContext state,
             gp_encryptedChatKey = wrapped, gp_tools = selectedTools state, gp_customPrompt = se_prompt en mdl,
             ep_chatId = chatId, ep_oldUserMessageId = oldUserMessageId, ep_newContent = encryptedContent,
             ep_attachments = atts, ep_reasoningEffort = effort_param mdl state\<rparr>))"

text \<open>The canister's answer to an edit with what the rest needs, or the error.\<close>

definition edit_answer ::
  "'k send_env \<Rightarrow> (edit_message_params \<Rightarrow> string + message_response) \<Rightarrow> chat \<Rightarrow> model \<Rightarrow> chat_id \<Rightarrow> message_id \<Rightarrow> string \<Rightarrow> chat_state
     \<Rightarrow> string + (picked_node \<times> image_attachment list \<times> message option \<times> message_response)" where
  "edit_answer en api currentChat mdl chatId oldUserMessageId newContent state =
     (case messages state chatId of
        None \<Rightarrow> Inl ''Message map not found.''
      | Some chatMessagesMap \<Rightarrow>
          bind_sum (pick_with_key en mdl (setIsGenerating chatId True state)) (\<lambda>node.
          bind_sum (transformAttachmentsForBackend (se_read en) (attachments state)) (\<lambda>atts.
          bind_sum (bind_sum (edit_params_of en currentChat mdl node atts chatId oldUserMessageId newContent state) api) (\<lambda>response.
          Inr (node, atts, map_get chatMessagesMap oldUserMessageId, response)))))"

definition editUserMessage ::
  "'k send_env \<Rightarrow> (edit_message_params \<Rightarrow> string + message_response) \<Rightarrow> chat_id \<Rightarrow> message_id \<Rightarrow> string \<Rightarrow> chat_state
     \<Rightarrow> connection option \<times> chat_state \<times> chat_effect list" where
  "editUserMessage en api chatId oldUserMessageId newContent state =
     (case (selectedModel state, List.find (\<lambda>c. c_chatId c = chatId) (chats state)) of
        (Some mdl, Some currentChat) \<Rightarrow>
          if \<not> session_ready (se_auth en) \<or> trim newContent = [] \<and> length (attachments state) = 0 then (None, state, [])
          else
            let s1 = se_meanwhile en (setIsGenerating chatId True state) in
            (case edit_answer en api currentChat mdl chatId oldUserMessageId newContent state of
               Inl e \<Rightarrow>
                 let (s2, effs) = scheduleAttachmentCleanup (se_timer en) 250 (setIsGenerating chatId False s1)
                 in (None, s2, effs)
             | Inr (node, atts, oldLocalUser, response) \<Rightarrow>
                 let (s2, effs2) = scheduleAttachmentCleanup (se_timer en) 250 s1;
                     u = toMessageId (id_text (mr_user_message_id response));
                     a = toMessageId (id_text (mr_ai_message_id response));
                     j = toJobId (id_text (mr_job_id response));
                     parent = (case oldLocalUser of Some m \<Rightarrow> m_parentMessageId m | None \<Rightarrow> None);
                     user = new_user_message u chatId newContent parent (Some (md_modelId mdl)) atts (se_now en);
                     ai = new_ai_message a chatId u j (md_modelId mdl) (se_now en);
                     s3 = setActiveLeaf chatId a (store_exchange chatId [user, ai] (\<lambda>c. c\<lparr>c_updatedAt := se_now en\<rparr>) s2);
                     (conn, s4, effs4) = connect_job en chatId j node s3
                 in (conn, s4, effs2 @ effs4))
      | _ \<Rightarrow> (None, state, []))"

definition retry_params_of ::
  "'k send_env \<Rightarrow> chat \<Rightarrow> model \<Rightarrow> picked_node \<Rightarrow> chat_id \<Rightarrow> message_id \<Rightarrow> chat_state \<Rightarrow> string + retry_message_params" where
  "retry_params_of en currentChat mdl node chatId userMessageId state =
     bind_sum (deriveChatKey (se_lib en) (se_rootKey en) (c_encryptionSalt currentChat)) (\<lambda>chatKey.
     bind_sum (wrapKeyForNode (se_lib en) chatKey (the (pn_publicKey node))) (\<lambda>wrapped.
     Inr \<lparr>gp_modelId = md_modelId mdl, gp_nodeId = node_number (pn_nodeId node), gp_temperature = temperature state,
          gp_maxCompletionTokens = maxOutput state, gp_maxContext = maxContext state,
          gp_encryptedChatKey = wrapped, gp_tools = selectedTools state, gp_customPrompt = se_prompt en mdl,
          rp_chatId = chatId, rp_userMessageId = userMessageId, rp_reasoningEffort = effort_param mdl state\<rparr>))"

definition retryAiMessage ::
  "'k send_env \<Rightarrow> (retry_message_params \<Rightarrow> string + message_response) \<Rightarrow> chat_id \<Rightarrow> message_id \<Rightarrow> chat_state
     \<Rightarrow> connection option \<times> chat_state \<times> chat_effect list" where
  "retryAiMessage en api chatId userMessageId state =
     (case (selectedModel state, List.find (\<lambda>c. c_chatId c = chatId) (chats state)) of
        (Some mdl, Some currentChat) \<Rightarrow>
          if \<not> session_ready (se_auth en) then (None, state, [])
          else
            let s1 = se_meanwhile en (setIsGenerating chatId True state) in
            (case bind_sum (pick_with_key en mdl (setIsGenerating chatId True state)) (\<lambda>node.
                    bind_sum (bind_sum (retry_params_of en currentChat mdl node chatId userMessageId state) api)
                      (\<lambda>response. Inr (node, response))) of
               Inl e \<Rightarrow> (None, setIsGenerating chatId False s1, [])
             | Inr (node, response) \<Rightarrow>
                 let a = toMessageId (id_text (mr_ai_message_id response));
                     j = toJobId (id_text (mr_job_id response));
                     ai = new_ai_message a chatId userMessageId j (md_modelId mdl) (se_now en);
                     s2 = setActiveLeaf chatId a (store_exchange chatId [ai] (\<lambda>c. c\<lparr>c_updatedAt := se_now en\<rparr>) s1)
                 in connect_job en chatId j node s2)
      | _ \<Rightarrow> (None, state, []))"

end
