(* ===== verification/Web_Socket_Runs.thy ===== *)
theory Web_Socket_Runs
  imports Web_Socket
begin

text \<open>
  Properties of the web socket of a job: the security of the address, what each callback does to
  the store, and what holds along every run of events of a connection.
\<close>

section \<open>The address\<close>

lemma prefix_drop: "prefix p s \<Longrightarrow> p @ drop (length p) s = s"
  by (auto simp: prefix_def)

text \<open>
  The address built for a node is encrypted, or it is the given address itself and that contains
  the name or number of the local host.
\<close>

theorem buildWebSocketUrl_secure:
  assumes "buildWebSocketUrl addr = Inr url"
  shows "prefix ''wss://'' url
    \<or> prefix ''ws://'' url \<and> url = trim addr \<and> (str_includes ''localhost'' url \<or> str_includes ''127.0.0.1'' url)"
proof (cases "prefix ''ws://'' (trim addr) \<and> (str_includes ''localhost'' (trim addr) \<or> str_includes ''127.0.0.1'' (trim addr))")
  case True
  with assms show ?thesis by (auto simp: buildWebSocketUrl_def Let_def split: if_splits)
next
  case False
  with assms have "prefix ''wss://'' url"
    unfolding buildWebSocketUrl_def Let_def by (auto split: if_splits)
  then show ?thesis ..
qed

lemma buildWebSocketUrl_secure_witness:
  "buildWebSocketUrl '' ws://n1.net '' = Inr ''wss://n1.net'' \<and> prefix ''wss://'' ''wss://n1.net''"
proof -
  have b: "buildWebSocketUrl '' ws://n1.net '' = Inr ''wss://n1.net''" by code_simp
  from buildWebSocketUrl_secure [OF b] b show ?thesis by auto
qed

section \<open>The target message\<close>

lemma findTarget_cases:
  assumes "findTargetMessageDetails s k jb = Some (i, v)"
  obtains m j where "messages s k = Some m" "(j, v) \<in> set m" "is_job_message jb v" "i = target_key (j, v)"
proof (cases "messages s k")
  case None
  with assms show thesis by (simp add: findTargetMessageDetails_def)
next
  case (Some m)
  with assms that show thesis
    by (auto simp: findTargetMessageDetails_def dest!: find_SomeD split: option.splits)
qed

lemma findTarget_None:
  assumes "messages s k = Some m"
  shows "findTargetMessageDetails s k jb = None \<longleftrightarrow> (\<forall>(i, v) \<in> set m. \<not> is_job_message jb v)"
  using assms by (auto simp: findTargetMessageDetails_def find_None_iff_all dest!: find_SomeD split: option.splits)

lemma keyed_mem: "keyed m \<Longrightarrow> (j, v) \<in> set m \<Longrightarrow> msg_key v = j"
  by (auto simp: keyed_def)

lemma target_key_keyed: "keyed m \<Longrightarrow> (j, v) \<in> set m \<Longrightarrow> target_key (j, v) = j"
  by (auto simp: keyed_def target_key_def msg_key_def split: option.splits)

lemma findTarget_keyed:
  assumes "store_ok s" and "findTargetMessageDetails s k jb = Some (i, v)"
  shows "\<exists>m. messages s k = Some m \<and> map_get m i = Some v \<and> is_job_message jb v \<and> msg_key v = i"
  using assms(2)
proof (rule findTarget_cases)
  fix m j
  assume m: "messages s k = Some m" "(j, v) \<in> set m" "is_job_message jb v" "i = target_key (j, v)"
  with store_okD [OF assms(1)] have "keyed m" by simp
  with m target_key_keyed show ?thesis by (auto simp: keyed_def map_mem_get)
qed

section \<open>The error path\<close>

lemma is_job_message_error [simp]:
  "is_job_message jb (error_message now c msg v) = is_job_message jb v"
  "msg_key (error_message now c msg v) = msg_key v"
  by (simp_all add: error_message_def is_job_message_def)

lemma reject_ocr_simps [simp]:
  "messages (fst (reject_ocr jb e s)) = messages s" "webSockets (fst (reject_ocr jb e s)) = webSockets s"
  "temporaryNodeBlacklist (fst (reject_ocr jb e s)) = temporaryNodeBlacklist s"
  "store_ok (fst (reject_ocr jb e s)) = store_ok s" "same_elsewhere K s0 (fst (reject_ocr jb e s)) = same_elsewhere K s0 s"
  "chats (fst (reject_ocr jb e s)) = chats s"
  by (simp_all add: reject_ocr_def elsewhere split: option.split)

lemma findTarget_cong: "messages s' k = messages s k \<Longrightarrow> findTargetMessageDetails s' k jb = findTargetMessageDetails s k jb"
  by (simp add: findTargetMessageDetails_def)

lemma mark_target_simps [simp]:
  "webSockets (mark_target_errored now c msg k jb s) = webSockets s"
  "temporaryNodeBlacklist (mark_target_errored now c msg k jb s) = temporaryNodeBlacklist s"
  "activeChatJobs (mark_target_errored now c msg k jb s) = activeChatJobs s"
  "chats (mark_target_errored now c msg k jb s) = chats s"
  "same_elsewhere {k} s0 (mark_target_errored now c msg k jb s) = same_elsewhere {k} s0 s"
  by (simp_all add: mark_target_errored_def elsewhere split: option.split)

lemma mark_target_store_ok: "store_ok s \<Longrightarrow> store_ok (mark_target_errored now c msg k jb s)"
  using findTarget_keyed [of s k jb] store_okD [of s]
  by (auto simp: mark_target_errored_def intro!: store_ok_setMessages keyed_set split: option.splits)

lemma handleError_eq:
  "fst (handleWebSocketError now k jb msg c node s) =
     set_flags k False
       ((mark_target_errored now c msg k jb (setActiveChatJob k jb True (fst (reject_ocr jb msg s))))
          \<lparr>temporaryNodeBlacklist := blacklist_update now c node (temporaryNodeBlacklist s)\<rparr>)"
  by (simp add: handleWebSocketError_def Let_def case_prod_unfold)

lemma handleError_simps [simp]:
  "flags_are (fst (handleWebSocketError now k jb msg c node s)) k b = (\<not> b)"
  "activeChatJobs (fst (handleWebSocketError now k jb msg c node s)) k = Some \<lparr>aj_jobId = jb, aj_erroredViaStream = True\<rparr>"
  "temporaryNodeBlacklist (fst (handleWebSocketError now k jb msg c node s)) = blacklist_update now c node (temporaryNodeBlacklist s)"
  "webSockets (fst (handleWebSocketError now k jb msg c node s)) = webSockets s"
  "chats (fst (handleWebSocketError now k jb msg c node s)) = chats s"
  by (auto simp: handleError_eq)

lemma handleError_elsewhere [elsewhere]:
  "same_elsewhere {k} s0 (fst (handleWebSocketError now k jb msg c node s)) = same_elsewhere {k} s0 s"
  by (simp add: handleError_eq elsewhere)

lemma handleError_store_ok: "store_ok s \<Longrightarrow> store_ok (fst (handleWebSocketError now k jb msg c node s))"
  by (simp add: handleError_eq mark_target_store_ok)

lemma handleError_messages:
  "messages (fst (handleWebSocketError now k jb msg c node s)) =
     (case findTargetMessageDetails s k jb of
        Some (i, v) \<Rightarrow> (messages s)(k \<mapsto> map_set i (error_message now c msg v) (the (messages s k)))
      | None \<Rightarrow> messages s)"
proof -
  let ?s = "setActiveChatJob k jb True (fst (reject_ocr jb msg s))"
  have "findTargetMessageDetails ?s k jb = findTargetMessageDetails s k jb"
    by (rule findTarget_cong) simp
  then show ?thesis
    by (auto simp: handleError_eq mark_target_errored_def elim: findTarget_cases split: option.split)
qed

lemma blacklist_update_get:
  "map_get (blacklist_update now c node bl) n =
     (if c \<and> node = Some n then Some (now + BLACKLIST_DURATION_MS) else map_get bl n)"
  by (auto simp: blacklist_update_def split: option.split)

text \<open>
  C15: a failure is reported on the message and on the node. After \<open>handleWebSocketError\<close> the chat's
  flags are off and its job is marked as failed in its stream; the message the job writes to is
  complete and has an error, the one it already had or the new one; a failing connection blocks
  exactly the named node for ten minutes; no other chat is touched and the store stays consistent.
\<close>

theorem handleWebSocketError_reports:
  assumes "store_ok s" and "s' = fst (handleWebSocketError now k jb msg c node s)"
  shows "flags_are s' k False \<and> activeChatJobs s' k = Some \<lparr>aj_jobId = jb, aj_erroredViaStream = True\<rparr>
    \<and> same_elsewhere {k} s s' \<and> store_ok s'
    \<and> (\<forall>n. map_get (temporaryNodeBlacklist s') n =
         (if c \<and> node = Some n then Some (now + 600000) else map_get (temporaryNodeBlacklist s) n))
    \<and> (\<forall>i v. findTargetMessageDetails s k jb = Some (i, v) \<longrightarrow>
         (\<exists>m v'. messages s' k = Some m \<and> map_get m i = Some v' \<and> truthy (m_isComplete v') \<and> m_content v' = m_content v
            \<and> m_errorStatus v' = (if m_errorStatus v = None
                then Some (status_of (if c then NodeOffline else UnknownError) (Some msg)) else m_errorStatus v)))"
proof (intro conjI allI impI)
  show "flags_are s' k False" "activeChatJobs s' k = Some \<lparr>aj_jobId = jb, aj_erroredViaStream = True\<rparr>"
    "same_elsewhere {k} s s'" "store_ok s'"
    using assms by (simp_all add: elsewhere handleError_store_ok)
  show "map_get (temporaryNodeBlacklist s') n =
      (if c \<and> node = Some n then Some (now + 600000) else map_get (temporaryNodeBlacklist s) n)" for n
    by (simp add: assms(2) blacklist_update_get BLACKLIST_DURATION_MS_def)
  fix i v
  assume "findTargetMessageDetails s k jb = Some (i, v)"
  then show "\<exists>m v'. messages s' k = Some m \<and> map_get m i = Some v' \<and> truthy (m_isComplete v') \<and> m_content v' = m_content v
      \<and> m_errorStatus v' = (if m_errorStatus v = None
          then Some (status_of (if c then NodeOffline else UnknownError) (Some msg)) else m_errorStatus v)"
    by (auto simp: assms(2) handleError_messages error_message_def)
qed

definition example_env :: env where
  "example_env = \<lparr>ev_now = 5, ev_ready = \<lambda>_. OPEN, ev_frame = 1, ev_show = p_text\<rparr>"

definition example_conn :: connection where
  "example_conn = \<lparr>co_chatId = ''7'', co_jobId = ''9'', co_ws = 3, co_nodeId = Some ''n''\<rparr>"

definition one_job_state :: chat_state where
  "one_job_state = setMessages ''7'' [(''2'', (plain_message ''2'' ''7'' Assistant [] None 1)\<lparr>m_jobId := Some ''9''\<rparr>)] initialChatState"

lemma one_job_state_ok [simp]: "store_ok one_job_state"
  by (simp add: one_job_state_def store_ok_setMessages keyed_def)

lemma handleWebSocketError_reports_witness:
  "map_get (temporaryNodeBlacklist (fst (handleWebSocketError 5 ''7'' ''9'' ''lost'' True (Some ''n'') one_job_state))) ''n'' = Some 600005"
  using handleWebSocketError_reports [OF one_job_state_ok refl, of 5 "''7''" "''9''" "''lost''" True "Some ''n''"] by simp

section \<open>Stream packets\<close>

lemma updated_ai_Inr:
  assumes "updated_ai_message now d v = Inr u"
  obtains err where "normalizeErrorStatus (p_errorStatus d) = Inr err"
    "is_job_message jb u = is_job_message jb v" "msg_key u = msg_key v" "m_content u = p_text d"
    "m_isComplete u = Some (p_isComplete d \<and> \<not> isLikelyToolCall d \<or> err \<noteq> None)"
    "m_errorStatus u = or_else err (m_errorStatus v)"
  using assms
  by (cases "normalizeErrorStatus (p_errorStatus d)") (auto simp: updated_ai_message_def is_job_message_def Let_def)

text \<open>What is kept of a store in which a packet is applied.\<close>

lemma apply_packet_kept:
  assumes "apply_packet now k jb d s = Inr (s1, effs)"
  shows "webSockets s1 = webSockets s" "temporaryNodeBlacklist s1 = temporaryNodeBlacklist s"
    "activeChatJobs s1 = activeChatJobs s" "chats s1 = chats s" "ocrPromises s1 = ocrPromises s"
    "same_elsewhere {k} s0 s1 = same_elsewhere {k} s0 s" "WsClose w \<notin> set effs"
proof -
  have "webSockets s1 = webSockets s \<and> temporaryNodeBlacklist s1 = temporaryNodeBlacklist s
    \<and> activeChatJobs s1 = activeChatJobs s \<and> chats s1 = chats s \<and> ocrPromises s1 = ocrPromises s
    \<and> same_elsewhere {k} s0 s1 = same_elsewhere {k} s0 s \<and> WsClose w \<notin> set effs"
  proof (cases "List.find (\<lambda>(i, msg). is_job_message jb msg) (case messages s k of Some m \<Rightarrow> m | None \<Rightarrow> [])")
    case None
    with assms show ?thesis by (auto simp: apply_packet_def Let_def elsewhere split: if_splits)
  next
    case (Some e)
    with assms show ?thesis
      by (cases "updated_ai_message now d (snd e)") (auto simp: apply_packet_def Let_def elsewhere split: if_splits)
  qed
  then show "webSockets s1 = webSockets s" "temporaryNodeBlacklist s1 = temporaryNodeBlacklist s"
    "activeChatJobs s1 = activeChatJobs s" "chats s1 = chats s" "ocrPromises s1 = ocrPromises s"
    "same_elsewhere {k} s0 s1 = same_elsewhere {k} s0 s" "WsClose w \<notin> set effs" by blast+
qed

lemma apply_packet_store_ok:
  assumes "store_ok s" and "apply_packet now k jb d s = Inr (s1, effs)"
  shows "store_ok s1"
proof -
  let ?m = "case messages s k of Some m \<Rightarrow> m | None \<Rightarrow> []"
  have m: "keyed ?m" using store_okD [OF assms(1)] by (simp split: option.split)
  have upd: "keyed (map_set (target_key e) u ?m)"
    if e: "List.find (\<lambda>(i, msg). is_job_message jb msg) ?m = Some e" and u: "updated_ai_message now d (snd e) = Inr u" for e u
  proof (rule keyed_set [OF m])
    have mem: "(fst e, snd e) \<in> set ?m" using find_SomeD [OF e] by simp
    have "target_key e = fst e" using target_key_keyed [OF m mem] by simp
    moreover have "msg_key (snd e) = fst e" by (rule keyed_mem [OF m mem])
    moreover have "msg_key u = msg_key (snd e)" using u by (rule updated_ai_Inr)
    ultimately show "msg_key u = target_key e" by simp
  qed
  show ?thesis
  proof (cases "List.find (\<lambda>(i, msg). is_job_message jb msg) ?m")
    case None
    with assms m show ?thesis by (auto simp: apply_packet_def Let_def store_ok_setMessages split: if_splits)
  next
    case (Some e)
    with store_ok_setMessages [OF assms(1) upd [OF Some]] assms show ?thesis
      by (cases "updated_ai_message now d (snd e)") (auto simp: apply_packet_def Let_def split: if_splits)
  qed
qed

lemma settle_ocr_simps [simp]:
  "messages (fst (settle_ocr sh jb d s)) = messages s" "webSockets (fst (settle_ocr sh jb d s)) = webSockets s"
  "temporaryNodeBlacklist (fst (settle_ocr sh jb d s)) = temporaryNodeBlacklist s"
  "activeChatJobs (fst (settle_ocr sh jb d s)) = activeChatJobs s"
  "chats (fst (settle_ocr sh jb d s)) = chats s" "store_ok (fst (settle_ocr sh jb d s)) = store_ok s"
  "flags_are (fst (settle_ocr sh jb d s)) j b = flags_are s j b"
  "same_elsewhere K s0 (fst (settle_ocr sh jb d s)) = same_elsewhere K s0 s"
  "map_get (ocrPromises (fst (settle_ocr sh jb d s))) jb = None"
  by (auto simp: settle_ocr_def elsewhere split: option.split)

lemma finish_stream_eq:
  "finish_stream sh rs k jb ws d s =
     (if p_isComplete d \<or> packet_error d
      then let s1 = (if isLikelyToolCall d then s else set_flags k False s);
               s2 = (if packet_error d then setActiveChatJob k jb True s1 else clearActiveChatJob k s1)
           in (fst (settle_ocr sh jb d s2),
               (if rs = OPEN \<or> rs = CONNECTING then [WsClose ws] else []) @ snd (settle_ocr sh jb d s2) @ [ScheduleFetch k 1000])
      else (s, []))"
  by (simp add: finish_stream_def Let_def case_prod_unfold)

lemma finish_stream_simps [simp]:
  "messages (fst (finish_stream sh rs k jb ws d s)) = messages s"
  "webSockets (fst (finish_stream sh rs k jb ws d s)) = webSockets s"
  "temporaryNodeBlacklist (fst (finish_stream sh rs k jb ws d s)) = temporaryNodeBlacklist s"
  "chats (fst (finish_stream sh rs k jb ws d s)) = chats s"
  "store_ok (fst (finish_stream sh rs k jb ws d s)) = store_ok s"
  "same_elsewhere {k} s0 (fst (finish_stream sh rs k jb ws d s)) = same_elsewhere {k} s0 s"
  by (simp_all add: finish_stream_eq Let_def elsewhere)

lemma update_result:
  fixes u :: "ws_state \<times> chat_effect list \<times> string option"
  obtains s h effs thrown where "u = ((s, h), effs, thrown)"
  by (cases u) auto

lemma processBatched_Inl:
  assumes "latestMessageData h = Some d" and "apply_packet (ev_now en) (co_chatId co) (co_jobId co) d s = Inl e"
  shows "processBatchedUpdate en co (s, h) =
     ((s, h\<lparr>isUpdateScheduled := False, animationFrameId := None, latestMessageData := None\<rparr>), [], Some e)"
  using assms by (simp add: processBatchedUpdate_def Let_def)

lemma processBatched_Inr:
  assumes "latestMessageData h = Some d" and "apply_packet (ev_now en) (co_chatId co) (co_jobId co) d s = Inr (s1, effs)"
    and "finish_stream (ev_show en) (ev_ready en (co_ws co)) (co_chatId co) (co_jobId co) (co_ws co) d s1 = (s2, effs2)"
  shows "processBatchedUpdate en co (s, h) =
     ((s2, h\<lparr>isUpdateScheduled := False, animationFrameId := None, latestMessageData := None\<rparr>), effs @ effs2, None)"
  using assms by (simp add: processBatchedUpdate_def Let_def)

lemma processBatched_None:
  "latestMessageData h = None \<Longrightarrow>
   processBatchedUpdate en co (s, h) = ((s, h\<lparr>isUpdateScheduled := False, animationFrameId := None\<rparr>), [], None)"
  by (simp add: processBatchedUpdate_def Let_def)

text \<open>What every batched update keeps.\<close>

lemma processBatched_kept:
  assumes "processBatchedUpdate en co (s, h) = ((s', h'), effs, thrown)"
  shows "temporaryNodeBlacklist s' = temporaryNodeBlacklist s" "same_elsewhere {co_chatId co} s0 s' = same_elsewhere {co_chatId co} s0 s"
    "store_ok s \<Longrightarrow> store_ok s'" "latestMessageData h' = None" "receivedFinalMessage h' = receivedFinalMessage h"
proof -
  have "temporaryNodeBlacklist s' = temporaryNodeBlacklist s \<and> same_elsewhere {co_chatId co} s0 s' = same_elsewhere {co_chatId co} s0 s
    \<and> (store_ok s \<longrightarrow> store_ok s') \<and> latestMessageData h' = None \<and> receivedFinalMessage h' = receivedFinalMessage h"
  proof (cases "latestMessageData h")
    case None
    with assms show ?thesis by (auto simp: processBatched_None)
  next
    case (Some d)
    show ?thesis
    proof (cases "apply_packet (ev_now en) (co_chatId co) (co_jobId co) d s")
      case (Inl e)
      with assms show ?thesis by (auto simp: processBatched_Inl [OF Some Inl])
    next
      case (Inr r)
      obtain s1 e1 where r: "r = (s1, e1)" by (cases r)
      obtain s2 e2 where f: "finish_stream (ev_show en) (ev_ready en (co_ws co)) (co_chatId co) (co_jobId co) (co_ws co) d s1 = (s2, e2)"
        by fastforce
      note a = Inr [unfolded r]
      have s2: "s2 = fst (finish_stream (ev_show en) (ev_ready en (co_ws co)) (co_chatId co) (co_jobId co) (co_ws co) d s1)"
        by (simp add: f)
      have "s' = s2" and h': "h' = h\<lparr>isUpdateScheduled := False, animationFrameId := None, latestMessageData := None\<rparr>"
        using assms by (auto simp: processBatched_Inr [OF Some a f])
      then show ?thesis
        using apply_packet_kept [OF a] apply_packet_store_ok [OF _ a] by (simp add: s2)
    qed
  qed
  then show "temporaryNodeBlacklist s' = temporaryNodeBlacklist s" "same_elsewhere {co_chatId co} s0 s' = same_elsewhere {co_chatId co} s0 s"
    "store_ok s \<Longrightarrow> store_ok s'" "latestMessageData h' = None" "receivedFinalMessage h' = receivedFinalMessage h" by blast+
qed

text \<open>What a packet does to the message it belongs to.\<close>

lemma apply_packet_message:
  assumes "store_ok s" and "messages s k = Some m" and "List.find (\<lambda>(i, msg). is_job_message jb msg) m = Some (i, v)"
    and "normalizeErrorStatus (p_errorStatus d) = Inr err"
  shows "\<exists>s1 effs m' v'. apply_packet now k jb d s = Inr (s1, effs) \<and> messages s1 k = Some m' \<and> map_get m' i = Some v'
     \<and> m_content v' = p_text d
     \<and> (truthy (m_isComplete v') \<longleftrightarrow> p_isComplete d \<and> \<not> isLikelyToolCall d \<or> err \<noteq> None)
     \<and> m_errorStatus v' = or_else err (m_errorStatus v)"
proof -
  have mem: "(i, v) \<in> set m" using find_SomeD [OF assms(3)] by simp
  have key: "keyed m" using store_okD [OF assms(1,2)] .
  then have t: "target_key (i, v) = i" using mem by (rule target_key_keyed)
  have get: "map_get m i = Some v" using key mem by (auto simp: keyed_def map_mem_get)
  obtain u where u: "updated_ai_message now d v = Inr u"
    using assms(4) by (simp add: updated_ai_message_def Let_def)
  then have u': "m_content u = p_text d"
      "m_isComplete u = Some (p_isComplete d \<and> \<not> isLikelyToolCall d \<or> err \<noteq> None)" "m_errorStatus u = or_else err (m_errorStatus v)"
    using assms(4) by (auto elim: updated_ai_Inr)
  show ?thesis
  proof (cases "message_changed v u")
    case True
    then obtain s1 effs where "apply_packet now k jb d s = Inr (s1, effs)" "messages s1 k = Some (map_set i u m)"
      using assms(2,3) t u by (simp add: apply_packet_def Let_def)
    with u' show ?thesis by auto
  next
    case False
    then obtain s1 effs where "apply_packet now k jb d s = Inr (s1, effs)" "messages s1 = messages s"
      using assms(2,3) t u by (cases "flag (isWaiting s) k") (simp_all add: apply_packet_def Let_def)
    moreover have "m_content v = m_content u" "m_isComplete v = m_isComplete u" "m_errorStatus v = m_errorStatus u"
      using False by (simp_all only: message_changed_def) blast+
    ultimately show ?thesis using assms(2) get u' by auto
  qed
qed

lemma apply_packet_throws:
  assumes "messages s k = Some m" and "List.find (\<lambda>(i, msg). is_job_message jb msg) m = Some e"
    and "normalizeErrorStatus (p_errorStatus d) = Inl x"
  shows "apply_packet now k jb d s = Inl x"
  using assms by (simp add: apply_packet_def updated_ai_message_def Let_def)



text \<open>
  The errors without a payload reach the handler as bare names and make it throw: the error of a node that names
  its timeout is never shown, and the flags of the chat stay on until the socket closes.
\<close>

lemma bare_error_throws:
  "name \<noteq> [] \<Longrightarrow> normalizeErrorStatus (OptValue (Error_Text name)) = Inl (in_error ''NodeOffline'' name)"
  "normalizeErrorStatus (OptValue (Provider_Error (Provider_Text name))) = Inl (in_error ''RateLimited'' name)"
  by (simp_all add: normalizeErrorStatus_def)

section \<open>Runs of a connection\<close>

lemma ws_run_append:
  "ws_run co (es @ es') st =
     (let (st1, effs1) = ws_run co es st; (st2, effs2) = ws_run co es' st1 in (st2, effs1 @ effs2))"
  by (induction es arbitrary: st) (simp_all add: Let_def case_prod_unfold)

lemma ws_run_fold: "fst (ws_run co es st) = fold (\<lambda>e st. fst (ws_step co e st)) es st"
  by (induction es arbitrary: st) (simp_all add: Let_def case_prod_unfold)

lemma onMessage_Inr [simp]:
  "fst (fst (onMessage en co (Inr d) (s, h))) = s"
  "latestMessageData (snd (fst (onMessage en co (Inr d) (s, h)))) = Some d"
  by (simp_all add: onMessage_def Let_def)

lemma packets_run:
  "ds \<noteq> [] \<Longrightarrow> fst (fst (ws_run co (map (\<lambda>(en, d). (en, EvPacket (Inr d))) ds) (s, h))) = s
     \<and> latestMessageData (snd (fst (ws_run co (map (\<lambda>(en, d). (en, EvPacket (Inr d))) ds) (s, h)))) = Some (snd (last ds))"
proof (induction ds arbitrary: h)
  case (Cons e ds)
  obtain en d where e: "e = (en, d)" by (cases e)
  obtain s1 h1 effs where o: "onMessage en co (Inr d) (s, h) = ((s1, h1), effs)" by (cases "onMessage en co (Inr d) (s, h)") auto
  have "s1 = s" "latestMessageData h1 = Some d"
    using onMessage_Inr [of en co d s h] unfolding o by simp_all
  with Cons.IH [of h1] show ?case
    by (cases "ds = []") (simp_all add: e o Let_def case_prod_unfold)
qed simp

text \<open>
  Batching loses nothing that matters: however many valid packets arrive before the animation
  frame, the store after the frame is the one that only the last packet would have produced.
\<close>

theorem batching_applies_last_packet:
  assumes "ds \<noteq> []"
  shows "fst (fst (ws_run co (map (\<lambda>(en, d). (en, EvPacket (Inr d))) ds @ [(en', EvFrame)]) (s, h)))
       = fst (fst (ws_run co [(en, EvPacket (Inr (snd (last ds)))), (en', EvFrame)] (s, h)))"
proof -
  let ?pk = "map (\<lambda>(en, d). (en, EvPacket (Inr d))) ds"
  let ?after = "\<lambda>d. case apply_packet (ev_now en') (co_chatId co) (co_jobId co) d s of Inl _ \<Rightarrow> s
    | Inr (s1, _) \<Rightarrow> fst (finish_stream (ev_show en') (ev_ready en' (co_ws co)) (co_chatId co) (co_jobId co) (co_ws co) d s1)"
  have frame: "fst (fst (ws_run co (es @ [(en', EvFrame)]) (s, h))) =
      ?after d"
    if "fst (fst (ws_run co es (s, h))) = s" "latestMessageData (snd (fst (ws_run co es (s, h)))) = Some d" for es d
  proof -
    define h1 where "h1 = snd (fst (ws_run co es (s, h)))"
    have "fst (ws_run co es (s, h)) = (s, h1)" "latestMessageData h1 = Some d"
      using that by (simp_all add: h1_def prod_eq_iff)
    then show ?thesis
      by (simp add: ws_run_append processBatchedUpdate_def Let_def case_prod_unfold split: sum.split)
  qed
  note many = packets_run [OF assms, of co s h]
  note one = packets_run [of "[(en, snd (last ds))]" co s h]
  have "fst (fst (ws_run co ([(en, EvPacket (Inr (snd (last ds))))] @ [(en', EvFrame)]) (s, h))) =
      ?after (snd (last ds))"
    by (rule frame) (use one in simp_all)
  moreover have "fst (fst (ws_run co (?pk @ [(en', EvFrame)]) (s, h))) =
      ?after (snd (last ds))"
    by (rule frame) (use many in simp_all)
  ultimately show ?thesis by simp
qed

lemma batching_applies_last_packet_witness:
  "\<forall>d d'. fst (fst (ws_run example_conn [(example_env, EvPacket (Inr d)), (example_env, EvPacket (Inr d')), (example_env, EvFrame)]
       (one_job_state, newHandler)))
   = fst (fst (ws_run example_conn [(example_env, EvPacket (Inr d')), (example_env, EvFrame)] (one_job_state, newHandler)))"
proof (intro allI)
  fix d d'
  show "fst (fst (ws_run example_conn [(example_env, EvPacket (Inr d)), (example_env, EvPacket (Inr d')), (example_env, EvFrame)]
       (one_job_state, newHandler)))
   = fst (fst (ws_run example_conn [(example_env, EvPacket (Inr d')), (example_env, EvFrame)] (one_job_state, newHandler)))"
    using batching_applies_last_packet [of "[(example_env, d), (example_env, d')]" example_conn example_env one_job_state
        newHandler example_env] by simp
qed

text \<open>The invariant of a connection's runs: only its own chat changes, and the store stays consistent.\<close>

definition ws_inv :: "chat_id \<Rightarrow> chat_state \<Rightarrow> ws_state \<Rightarrow> bool" where
  "ws_inv k s0 st \<longleftrightarrow> same_elsewhere {k} s0 (fst st) \<and> store_ok (fst st)"

lemma processBatched_inv: "ws_inv (co_chatId co) s0 st \<Longrightarrow> ws_inv (co_chatId co) s0 (fst (processBatchedUpdate en co st))"
proof -
  obtain s h where st: "st = (s, h)" by (cases st)
  obtain s' h' effs thrown where r: "processBatchedUpdate en co (s, h) = ((s', h'), effs, thrown)"
    by (rule update_result)
  assume "ws_inv (co_chatId co) s0 st"
  with processBatched_kept [OF r] show ?thesis unfolding st by (simp add: r ws_inv_def)
qed

lemma handleError_inv:
  "ws_inv k s0 (s, h) \<Longrightarrow> ws_inv k s0 (fst (handleWebSocketError now k jb msg c node s), h')"
  by (simp add: ws_inv_def elsewhere handleError_store_ok)

lemma cancel_inv: "ws_inv (co_chatId co) s0 st \<Longrightarrow> ws_inv (co_chatId co) s0 (fst (cancel_updates en co st))"
  using processBatched_inv [of co s0 st en]
  by (simp add: cancel_updates_def Let_def case_prod_unfold split: option.split)

lemma connection_error_inv: "ws_inv (co_chatId co) s0 (s, h) \<Longrightarrow> ws_inv (co_chatId co) s0 (fst (connection_error now co msg s), h')"
  by (simp add: connection_error_def handleError_inv)

lemma onMessage_inv: "ws_inv (co_chatId co) s0 st \<Longrightarrow> ws_inv (co_chatId co) s0 (fst (onMessage en co d st))"
  by (cases st; cases d)
     (auto simp: onMessage_def Let_def case_prod_unfold handleError_inv, simp_all add: ws_inv_def)

lemma onopen_inv: "ws_inv (co_chatId co) s0 st \<Longrightarrow> ws_inv (co_chatId co) s0 (fst (ws_onopen en co e st))"
  by (cases st; cases e)
     (auto simp: ws_onopen_def Let_def case_prod_unfold connection_error_inv, simp_all add: ws_inv_def elsewhere)

lemma onerror_inv: "ws_inv (co_chatId co) s0 st \<Longrightarrow> ws_inv (co_chatId co) s0 (fst (ws_onerror en co st))"
proof -
  assume inv: "ws_inv (co_chatId co) s0 st"
  obtain s h effs thrown where c: "cancel_updates en co st = ((s, h), effs, thrown)" by (rule update_result)
  with cancel_inv [OF inv, of en] have "ws_inv (co_chatId co) s0 (s, h)" by simp
  with connection_error_inv [of co s0] show ?thesis
    by (cases thrown) (simp_all add: ws_onerror_def c Let_def case_prod_unfold)
qed

lemma onclose_inv: "ws_inv (co_chatId co) s0 st \<Longrightarrow> ws_inv (co_chatId co) s0 (fst (ws_onclose en co c r st))"
proof -
  assume inv: "ws_inv (co_chatId co) s0 st"
  obtain s h effs thrown where c: "cancel_updates en co st = ((s, h), effs, thrown)" by (rule update_result)
  with cancel_inv [OF inv, of en] have "ws_inv (co_chatId co) s0 (s, h)" by simp
  then show ?thesis
    by (cases thrown) (simp_all add: ws_onclose_def c Let_def ws_inv_def elsewhere)
qed

lemma close_check_inv: "ws_inv (co_chatId co) s0 st \<Longrightarrow> ws_inv (co_chatId co) s0 (fst (ws_close_check en co c r st))"
  using connection_error_inv [of co s0 "fst st" "snd st"]
  by (cases st) (simp add: ws_close_check_def Let_def case_prod_unfold, simp add: ws_inv_def elsewhere)

interpretation wsr: invariant_system "\<lambda>e st. fst (ws_step co e st)" "ws_inv (co_chatId co) s0" for co s0
proof
  fix st and e :: "env \<times> ws_event"
  assume inv: "ws_inv (co_chatId co) s0 st"
  obtain en ev where e: "e = (en, ev)" by (cases e)
  show "ws_inv (co_chatId co) s0 (fst (ws_step co e st))"
    using inv by (cases ev)
      (simp_all add: e onopen_inv onMessage_inv processBatched_inv onerror_inv onclose_inv close_check_inv Let_def case_prod_unfold)
qed

text \<open>
  C24: a connection works on its own chat only. Along every run of events of a connection, in any
  order and with any content, the messages, flags, active job and active leaf of all other chats
  are untouched, and every message stays under its own identifier.
\<close>

theorem ws_run_isolated:
  assumes "store_ok s"
  shows "same_elsewhere {co_chatId co} s (fst (fst (ws_run co es (s, h)))) \<and> store_ok (fst (fst (ws_run co es (s, h))))"
proof -
  have "ws_inv (co_chatId co) s (s, h)" using assms by (simp add: ws_inv_def)
  from wsr.inv_run [where co = co, OF this, of es] show ?thesis
    by (simp add: ws_run_fold wsr.run_def ws_inv_def)
qed

lemma ws_run_isolated_witness:
  "store_ok (fst (fst (ws_run example_conn [(example_env, EvError), (example_env, EvClose 1006 [])] (one_job_state, newHandler))))"
  using ws_run_isolated [OF one_job_state_ok] by blast

section \<open>How a connection ends\<close>

lemma cancel_kept:
  assumes "cancel_updates en co (s, h) = ((s', h'), effs, thrown)"
  shows "latestMessageData h' = None" "receivedFinalMessage h' = receivedFinalMessage h"
    "temporaryNodeBlacklist s' = temporaryNodeBlacklist s"
proof -
  have "latestMessageData h' = None \<and> receivedFinalMessage h' = receivedFinalMessage h
    \<and> temporaryNodeBlacklist s' = temporaryNodeBlacklist s"
  proof (cases "latestMessageData h")
    case None
    with assms show ?thesis by (auto simp: cancel_updates_def)
  next
    case (Some d)
    obtain s1 h1 e1 t1 where p: "processBatchedUpdate en co (s, h) = ((s1, h1), e1, t1)" by (rule update_result)
    with Some assms processBatched_kept [OF p] show ?thesis by (auto simp: cancel_updates_def)
  qed
  then show "latestMessageData h' = None" "receivedFinalMessage h' = receivedFinalMessage h"
    "temporaryNodeBlacklist s' = temporaryNodeBlacklist s" by blast+
qed

lemma cancel_idle: "latestMessageData h = None \<Longrightarrow>
   cancel_updates en co (s, h) = ((s, h), case animationFrameId h of Some f \<Rightarrow> [CancelFrame f] | None \<Rightarrow> [], None)"
  by (simp add: cancel_updates_def)

lemma onclose_idle:
  assumes "latestMessageData h = None"
  shows "fst (ws_onclose en co c r (s, h)) =
     ((if receivedFinalMessage h
       then clearActiveChatJob (co_chatId co) (set_flags (co_chatId co) False (s\<lparr>webSockets := map_del (co_jobId co) (webSockets s)\<rparr>))
       else s\<lparr>webSockets := map_del (co_jobId co) (webSockets s)\<rparr>), h)"
  using cancel_idle [OF assms, of en co s] by (simp add: ws_onclose_def Let_def)

lemma close_check_quiet:
  "flags_are s (co_chatId co) False \<Longrightarrow> fst (ws_close_check en co c r (s, h)) = (s, h)"
  by (simp add: ws_close_check_def Let_def flags_are_def)

text \<open>
  A failing connection is reported once. After an error event whose handler ran to its end, the close event the browser
  sends next and its deferred check change neither the messages nor the blacklist again; they only
  remove the socket and leave the flags off.
\<close>

theorem error_then_close_reports_once:
  assumes "snd (snd (cancel_updates en co st)) = None" and "r1 = fst (ws_step co (en, EvError) st)"
    and "r2 = fst (ws_run co [(en2, EvClose c r), (en3, EvCloseCheck c r)] r1)"
  shows "messages (fst r2) = messages (fst r1)
    \<and> temporaryNodeBlacklist (fst r2) = temporaryNodeBlacklist (fst r1)
    \<and> flags_are (fst r2) (co_chatId co) False \<and> map_get (webSockets (fst r2)) (co_jobId co) = None"
proof -
  obtain s h where st: "st = (s, h)" by (cases st)
  obtain s0 h1 effs t where c': "cancel_updates en co (s, h) = ((s0, h1), effs, t)" by (rule update_result)
  with assms(1) st have c: "cancel_updates en co (s, h) = ((s0, h1), effs, None)" by simp
  define s1 where "s1 = fst (connection_error (ev_now en) co ''WebSocket connection encountered an error.'' s0)"
  have r1: "r1 = (s1, h1)"
    using assms(2) st c by (simp add: ws_onerror_def s1_def Let_def case_prod_unfold)
  have off: "flags_are s1 (co_chatId co) False" by (simp add: s1_def connection_error_def)
  obtain s2 where close: "fst (ws_onclose en2 co c r (s1, h1)) = (s2, h1)"
    and s2: "messages s2 = messages s1" "temporaryNodeBlacklist s2 = temporaryNodeBlacklist s1"
      "flags_are s2 (co_chatId co) False" "map_get (webSockets s2) (co_jobId co) = None"
    using onclose_idle [OF cancel_kept(1) [OF c], of en2 co _ r s1] off by simp
  have "r2 = (s2, h1)"
    using assms(3) r1 close close_check_quiet [OF s2(3)] by (simp add: Let_def case_prod_unfold)
  then show ?thesis using s2 r1 by simp
qed

lemma error_then_close_reports_once_witness:
  "flags_are (fst (fst (ws_run example_conn [(example_env, EvClose 1006 []), (example_env, EvCloseCheck 1006 [])]
     (fst (ws_step example_conn (example_env, EvError) (one_job_state, newHandler)))))) (co_chatId example_conn) False"
proof -
  have "snd (snd (cancel_updates example_env example_conn (one_job_state, newHandler))) = None"
    by (simp add: cancel_updates_def newHandler_def)
  from error_then_close_reports_once [OF this refl refl] show ?thesis by blast
qed

text \<open>
  A finished stream is never mistaken for a broken one. If the final packet arrived before the
  socket closed, then even when the close event comes before the animation frame, the packet is
  applied, the chat's flags are off, no job stays active, and no node is blocked.
\<close>

theorem final_then_close_completes:
  assumes "store_ok s" and "p_isComplete d" and "normalizeErrorStatus (p_errorStatus d) = Inr err"
    and "messages s (co_chatId co) = Some m"
    and "List.find (\<lambda>(i, msg). is_job_message (co_jobId co) msg) m = Some (i, v)"
    and "s' = fst (fst (ws_run co [(en, EvPacket (Inr d)), (en2, EvClose c r)] (s, h)))"
  shows "flags_are s' (co_chatId co) False \<and> activeChatJobs s' (co_chatId co) = None
    \<and> temporaryNodeBlacklist s' = temporaryNodeBlacklist s \<and> map_get (webSockets s') (co_jobId co) = None
    \<and> (\<exists>m' v'. messages s' (co_chatId co) = Some m' \<and> map_get m' i = Some v' \<and> m_content v' = p_text d
         \<and> (truthy (m_isComplete v') \<longleftrightarrow> \<not> isLikelyToolCall d \<or> err \<noteq> None))"
proof -
  let ?k = "co_chatId co" and ?jb = "co_jobId co"
  obtain h1 effs where o: "onMessage en co (Inr d) (s, h) = ((s, h1), effs)"
    and lat: "latestMessageData h1 = Some d" and fin: "receivedFinalMessage h1"
    using assms(2) by (cases "isUpdateScheduled h") (simp_all add: onMessage_def Let_def)
  from apply_packet_message [OF assms(1,4,5,3), of "ev_now en2"] obtain s1 e1 m' v'
    where a: "apply_packet (ev_now en2) ?k ?jb d s = Inr (s1, e1)"
      and msg: "messages s1 ?k = Some m'" "map_get m' i = Some v'" "m_content v' = p_text d"
        "truthy (m_isComplete v') \<longleftrightarrow> p_isComplete d \<and> \<not> isLikelyToolCall d \<or> err \<noteq> None" by blast
  let ?fin = "finish_stream (ev_show en2) (ev_ready en2 (co_ws co)) ?k ?jb (co_ws co) d s1"
  obtain s2 e2 where f: "?fin = (s2, e2)" by fastforce
  then have s2_def: "s2 = fst ?fin" by simp
  obtain h2 e3 where c: "cancel_updates en2 co (s, h1) = ((s2, h2), e3, None)"
    using lat by (simp add: cancel_updates_def processBatched_Inr [OF lat a f])
  have "s' = clearActiveChatJob ?k (set_flags ?k False (s2\<lparr>webSockets := map_del ?jb (webSockets s2)\<rparr>))"
    using assms(6) cancel_kept(2) [OF c] fin c by (simp add: o ws_onclose_def Let_def case_prod_unfold)
  then have "messages s' = messages s1" "temporaryNodeBlacklist s' = temporaryNodeBlacklist s" "flags_are s' ?k False"
      "activeChatJobs s' ?k = None" "map_get (webSockets s') ?jb = None"
    using apply_packet_kept(2) [OF a] by (simp_all add: s2_def)
  with msg assms(2) show ?thesis by auto
qed

lemma final_then_close_completes_witness:
  "temporaryNodeBlacklist (fst (fst (ws_run \<lparr>co_chatId = ''7'', co_jobId = ''9'', co_ws = 3, co_nodeId = Some ''n''\<rparr>
      [(example_env, EvPacket (Inr \<lparr>p_text = ''Hi'', p_isComplete = True, p_errorStatus = OptMissing, p_usage = None\<rparr>)),
       (example_env, EvClose 1000 [])] (one_job_state, newHandler))))
   = temporaryNodeBlacklist one_job_state"
proof -
  let ?v = "(plain_message ''2'' ''7'' Assistant [] None 1)\<lparr>m_jobId := Some ''9''\<rparr>"
  let ?co = "\<lparr>co_chatId = ''7'', co_jobId = ''9'', co_ws = 3, co_nodeId = Some ''n''\<rparr>"
  let ?d = "\<lparr>p_text = ''Hi'', p_isComplete = True, p_errorStatus = OptMissing, p_usage = None\<rparr>"
  have m: "messages one_job_state (co_chatId ?co) = Some [(''2'', ?v)]" by (simp add: one_job_state_def)
  have f: "List.find (\<lambda>(i, msg). is_job_message (co_jobId ?co) msg) [(''2'', ?v)] = Some (''2'', ?v)"
    by (simp add: is_job_message_def)
  have d: "p_isComplete ?d" and n: "normalizeErrorStatus (p_errorStatus ?d) = Inr None"
    by (simp_all add: normalizeErrorStatus_def)
  from final_then_close_completes [OF one_job_state_ok d n m f refl] show ?thesis by blast
qed

text \<open>
  A connection opened while the previous socket of the same job is still closing is destroyed by
  that socket's close event. \<open>connectToChainWebSocket\<close> replaces a closing socket by a new one, but
  \<open>ws.onclose\<close>, unlike \<open>ws.onopen\<close>, does not check whose socket is stored: the new socket is
  dropped from the store, the unfinished message gets the error \<open>NodeOffline\<close> and the node is blocked.
\<close>

theorem stale_close_kills_new_connection:
  assumes "map_get (webSockets s) jb = Some old" and "ev_ready en old = CLOSING"
    and "connectToChainWebSocket en auth derived create id k jb addr node key salt s = (Some co, s1, effs)"
    and "findTargetMessageDetails s k jb = Some (i, v)" and "\<not> truthy (m_isComplete v)" and "m_errorStatus v = None"
    and "co_old = \<lparr>co_chatId = k, co_jobId = jb, co_ws = old, co_nodeId = Some n\<rparr>"
    and "latestMessageData h = None" and "\<not> receivedFinalMessage h"
    and "s2 = fst (fst (ws_run co_old [(en2, EvClose c r), (en3, EvCloseCheck c r)] (s1, h)))"
  shows "map_get (webSockets s1) jb = Some (co_ws co) \<and> flags_are s1 k True
    \<and> map_get (webSockets s2) jb = None \<and> flags_are s2 k False
    \<and> map_get (temporaryNodeBlacklist s2) n = Some (ev_now en3 + 600000)
    \<and> (\<exists>m v'. messages s2 k = Some m \<and> map_get m i = Some v' \<and> truthy (m_isComplete v')
         \<and> map_option es_type (m_errorStatus v') = Some NodeOffline)"
proof -
  obtain w where ws: "co_ws co = w"
    and s1: "s1 = setActiveChatJob k jb False (s\<lparr>webSockets := map_set jb w (webSockets s)\<rparr>)"
    using assms(1-3)
    by (auto simp: connectToChainWebSocket_def connect_socket_def Let_def split: sum.splits if_splits prod.splits)
  let ?s2 = "s1\<lparr>webSockets := map_del jb (webSockets s1)\<rparr>"
  have close: "fst (ws_onclose en2 co_old c r (s1, h)) = (?s2, h)"
    using onclose_idle [OF assms(8)] assms(7,9) by simp
  have target: "findTargetMessageDetails ?s2 k jb = Some (i, v)"
    using assms(4) findTarget_cong [of ?s2 k s jb] s1 by simp
  have on: "flags_are ?s2 k True" using s1 by simp
  have "s2 = fst (connection_error (ev_now en3) co_old
      (''WebSocket closed unexpectedly (code: '' @ show_nat c @ '', reason: '' @ [CHR 0x27]
        @ (if r = [] then ''unknown'' else r) @ [CHR 0x27] @ '').'') ?s2)" (is "_ = fst (connection_error _ _ ?msg _)")
    using assms(5,6,7,10) close target on
    by (simp add: Let_def case_prod_unfold ws_close_check_def flags_are_def)
  then have s2: "s2 = fst (handleWebSocketError (ev_now en3) k jb ?msg True (Some n) ?s2)"
    by (simp add: connection_error_def assms(7))
  have "messages s2 = (messages s)(k \<mapsto> map_set i (error_message (ev_now en3) True ?msg v) (the (messages s k)))"
    using target s1 by (simp add: s2 handleError_messages)
  then have "\<exists>m v'. messages s2 k = Some m \<and> map_get m i = Some v' \<and> truthy (m_isComplete v')
      \<and> map_option es_type (m_errorStatus v') = Some NodeOffline"
    using assms(6) by (simp add: error_message_def status_of_def)
  moreover have "map_get (webSockets s1) jb = Some (co_ws co)" "flags_are s1 k True" using s1 ws by simp_all
  moreover have "map_get (webSockets s2) jb = None" "flags_are s2 k False"
    "map_get (temporaryNodeBlacklist s2) n = Some (ev_now en3 + 600000)"
    by (simp_all add: s2 blacklist_update_get BLACKLIST_DURATION_MS_def)
  ultimately show ?thesis by blast
qed

lemma stale_close_kills_new_connection_witness:
  "\<exists>s1 effs co. connectToChainWebSocket \<lparr>ev_now = 5, ev_ready = \<lambda>_. CLOSING, ev_frame = 1, ev_show = p_text\<rparr> example_auth
      (\<lambda>_. Inr ()) (\<lambda>_. Inr 2) id ''7'' ''9'' (Some ''n1.net'') (Some ''n'') (Some ''k'') (Some [])
      (one_job_state\<lparr>webSockets := [(''9'', 1)]\<rparr>) = (Some co, s1, effs)
    \<and> map_get (webSockets s1) ''9'' = Some 2
    \<and> map_get (webSockets (fst (fst (ws_run \<lparr>co_chatId = ''7'', co_jobId = ''9'', co_ws = 1, co_nodeId = Some ''n''\<rparr>
        [(example_env, EvClose 1006 []), (example_env, EvCloseCheck 1006 [])] (s1, newHandler))))) ''9'' = None"
proof -
  let ?en = "\<lparr>ev_now = 5, ev_ready = \<lambda>_. CLOSING, ev_frame = 1, ev_show = p_text\<rparr>"
  let ?s = "one_job_state\<lparr>webSockets := [(''9'', 1)]\<rparr>"
  let ?v = "(plain_message ''2'' ''7'' Assistant [] None 1)\<lparr>m_jobId := Some ''9''\<rparr>"
  let ?co = "\<lparr>co_chatId = ''7'', co_jobId = ''9'', co_ws = 2, co_nodeId = Some ''n''\<rparr>"
  have u: "buildWebSocketUrl ''n1.net'' = Inr ''wss://n1.net''" by code_simp
  have ws: "map_get (webSockets ?s) ''9'' = Some 1" and cl: "ev_ready ?en 1 = CLOSING" by simp_all
  have c: "connectToChainWebSocket ?en example_auth (\<lambda>_. Inr ()) (\<lambda>_. Inr 2) id ''7'' ''9'' (Some ''n1.net'') (Some ''n'') (Some ''k'') (Some []) ?s
    = (Some ?co, setActiveChatJob ''7'' ''9'' False (?s\<lparr>webSockets := map_set ''9'' 2 (webSockets ?s)\<rparr>), [WsCreate 2 ''wss://n1.net/conversation/ws''])"
    by (simp add: connectToChainWebSocket_def connect_guard_def connect_socket_def Let_def u)
  have t: "findTargetMessageDetails ?s ''7'' ''9'' = Some (''2'', ?v)"
    by (simp add: findTargetMessageDetails_def one_job_state_def is_job_message_def target_key_def)
  from stale_close_kills_new_connection [OF ws cl c t _ _ refl _ _ refl, where h = newHandler and ?en2.0 = example_env and c = 1006 and r = "[]" and ?en3.0 = example_env] c
  show ?thesis by (auto simp: newHandler_def)
qed

end
