(* ===== verification/Promises.thy ===== *)
theory Promises
  imports Prelude
begin

text \<open>
  The contract of a JavaScript promise, which the long-running requests of the program (web searches,
  OCR and embedding requests) implement with handlers and timers of their own.
\<close>

text \<open>
  What its user relies on: a promise is pending until it is settled, and then stays as it is. Any system
  whose steps refine this contract gives its user one outcome.
\<close>

datatype 'r promise_state = Pending | Settled 'r

text \<open>A promise only moves up in this order, from pending to settled.\<close>

instantiation promise_state :: (type) order
begin

definition less_eq_promise_state :: "'a promise_state \<Rightarrow> 'a promise_state \<Rightarrow> bool" where
  "less_eq_promise_state a b \<longleftrightarrow> b = a \<or> a = Pending"

definition less_promise_state :: "'a promise_state \<Rightarrow> 'a promise_state \<Rightarrow> bool" where
  "less_promise_state a b \<longleftrightarrow> a = Pending \<and> b \<noteq> Pending"

instance
  by standard (auto simp: less_eq_promise_state_def less_promise_state_def)

end

lemma Settled_le [simp]: "Settled r \<le> a \<longleftrightarrow> a = Settled r"
  by (auto simp: less_eq_promise_state_def)

lemma Pending_le [simp]: "Pending \<le> a"
  by (simp add: less_eq_promise_state_def)

locale one_outcome =
  fixes step :: "'s \<Rightarrow> 'e \<Rightarrow> 's \<Rightarrow> bool" and abs :: "'s \<Rightarrow> 'r promise_state" and inv :: "'s \<Rightarrow> bool"
  assumes inv_step: "inv s \<Longrightarrow> step s e s' \<Longrightarrow> inv s'"
    and simulates: "inv s \<Longrightarrow> step s e s' \<Longrightarrow> abs s \<le> abs s'"
begin

inductive steps :: "'s \<Rightarrow> 'e list \<Rightarrow> 's \<Rightarrow> bool" where
  none: "steps s [] s"
| snoc: "steps s es s' \<Longrightarrow> step s' e s'' \<Longrightarrow> steps s (es @ [e]) s''"

lemma inv_steps: "steps s es s' \<Longrightarrow> inv s \<Longrightarrow> inv s'"
  by (induction rule: steps.induct) (auto intro: inv_step)

lemma simulates_steps: "steps s es s' \<Longrightarrow> inv s \<Longrightarrow> abs s \<le> abs s'"
proof (induction rule: steps.induct)
  case (snoc s es s' e s'')
  with inv_steps have "abs s' \<le> abs s''" by (blast intro: simulates)
  with snoc show ?case by (meson order_trans)
qed simp

lemma settled_stays: "steps s es s' \<Longrightarrow> inv s \<Longrightarrow> abs s = Settled r \<Longrightarrow> abs s' = Settled r"
  using simulates_steps by fastforce

end

text \<open>The first outcome a promise is given stays.\<close>

definition first_outcome :: "'r \<Rightarrow> 'r option \<Rightarrow> 'r option" where
  "first_outcome r old = (case old of None \<Rightarrow> Some r | Some q \<Rightarrow> Some q)"

lemma first_outcome_simps [simp]:
  "first_outcome r None = Some r" "first_outcome r (Some q) = Some q" "first_outcome r old \<noteq> None"
  by (simp_all add: first_outcome_def split: option.split)

definition outcome_state :: "'r option \<Rightarrow> 'r promise_state" where
  "outcome_state old = (case old of None \<Rightarrow> Pending | Some r \<Rightarrow> Settled r)"

lemma outcome_first_le [simp]: "outcome_state old \<le> outcome_state (first_outcome r old)"
  by (simp add: outcome_state_def first_outcome_def split: option.split)

lemma outcome_state_Settled [simp]: "outcome_state old = Settled r \<longleftrightarrow> old = Some r"
  by (simp add: outcome_state_def split: option.split)

end
