(* ===== verification/Temp_Chats.thy ===== *)
theory Temp_Chats
  imports Send_Message Web_Socket_Runs Promises
begin

text \<open>
  Requests that need an answer of a model but no chat of their own: reading images
  (\<open>src/gpt_frontend/src/store/chatStore/actions/ocr.ts\<close>) and, in other theories, embeddings, titles and
  web searches. Each creates a temporary chat under a fresh key. The promise of an OCR or embedding
  request is registered under its job (\<open>ocrPromises\<close>), where the handlers of the job's web socket find
  it, and rejected by a timer.
\<close>

section \<open>Opening a temporary chat\<close>

text \<open>The parameters of \<open>createChat\<close>; \<open>tools\<close> is always empty, \<open>customPrompt\<close> undefined and \<open>temporary\<close> true.\<close>

record temp_params =
  tp_title :: string
  tp_initialMessage :: bytes
  tp_modelId :: string
  tp_nodeId :: "int option"
  tp_temperature :: rat
  tp_maxCompletionTokens :: int
  tp_maxContext :: int
  tp_encryptedChatKey :: string
  tp_encryptionSalt :: bytes
  tp_attachments :: "image_attachment list"

definition pick_temp_node :: "'k send_env \<Rightarrow> string \<Rightarrow> string \<Rightarrow> string \<Rightarrow> chat_state \<Rightarrow> string + picked_node" where
  "pick_temp_node en modelId noNode noKey state =
     (case pickNodeForModel (se_pick_now en) (se_random en) modelId state of
        None \<Rightarrow> Inl noNode
      | Some node \<Rightarrow> if \<not> truthy_str (pn_publicKey node) then Inl noKey else Inr node)"

text \<open>A fresh key, the prompt encrypted under it, and the key wrapped for the node.\<close>

definition seal_prompt :: "'k send_env \<Rightarrow> string \<Rightarrow> picked_node \<Rightarrow> string + (bytes \<times> string)" where
  "seal_prompt en prompt node =
     bind_sum (deriveChatKey (se_lib en) (se_rootKey en) (se_salt en)) (\<lambda>chatKey.
     let encryptedPrompt = encryptMessage (se_lib en) (se_iv en) prompt chatKey
     in map_sum_r (\<lambda>wrapped. (encryptedPrompt, wrapped)) (wrapKeyForNode (se_lib en) chatKey (the (pn_publicKey node))))"

definition temp_chat_params ::
  "'k send_env \<Rightarrow> string \<Rightarrow> string \<Rightarrow> string \<Rightarrow> rat \<Rightarrow> int \<Rightarrow> int \<Rightarrow> image_attachment list \<Rightarrow> picked_node \<Rightarrow> string + temp_params" where
  "temp_chat_params en title prompt modelId temp maxTokens maxCtx atts node =
     map_sum_r (\<lambda>(encryptedPrompt, wrapped).
         \<lparr>tp_title = title, tp_initialMessage = encryptedPrompt, tp_modelId = modelId, tp_nodeId = node_number (pn_nodeId node),
          tp_temperature = temp, tp_maxCompletionTokens = maxTokens, tp_maxContext = maxCtx,
          tp_encryptedChatKey = wrapped, tp_encryptionSalt = se_salt en, tp_attachments = atts\<rparr>)
       (seal_prompt en prompt node)"

text \<open>The connection of a temporary chat: its salt is handed over, since the store does not hold the chat.\<close>

definition connect_temp_job ::
  "'k send_env \<Rightarrow> chat_id \<Rightarrow> job_id \<Rightarrow> picked_node \<Rightarrow> chat_state \<Rightarrow> connection option \<times> chat_state \<times> chat_effect list" where
  "connect_temp_job en chatId jobId node state =
     connectToChainWebSocket (se_env en) (se_connect_auth en)
       (\<lambda>salt. map_sum_r (\<lambda>_. ()) (deriveChatKey (se_lib en) (the (au_rootKey (se_connect_auth en))) salt))
       (se_create en) (se_connecting en) chatId jobId (Some (pn_address node)) (Some (pn_nodeId node)) (pn_publicKey node)
       (Some (se_salt en)) state"

section \<open>Reading images\<close>

definition ocr_params ::
  "'k send_env \<Rightarrow> (js_file list \<Rightarrow> string + attachment list) \<Rightarrow> string \<Rightarrow> js_file list \<Rightarrow> string \<Rightarrow> chat_state
     \<Rightarrow> string + (picked_node \<times> temp_params)" where
  "ocr_params en compress prompt images modelId state =
     (if \<not> session_ready (se_auth en) then Inl ''User is not authenticated or Vault is locked.''
      else
        bind_sum (pick_temp_node en modelId (''No available node for model '' @ modelId @ ''.'')
                    ''Node missing public key for encryption.'' state) (\<lambda>node.
        bind_sum (bind_sum (compress images) (transformAttachmentsForBackend (se_read en))) (\<lambda>atts.
        map_sum_r (\<lambda>p. (node, p)) (temp_chat_params en ''Temporary OCR Chat'' prompt modelId (1 / 10) 4096 8192 atts node))))"

text \<open>
  Up to the promise: an error, or the job it is registered under with what connecting did. \<open>promise\<close> and
  \<open>timeout\<close> are the new promise and timer.
\<close>

definition executeOcrOnImages ::
  "'k send_env \<Rightarrow> (js_file list \<Rightarrow> string + attachment list) \<Rightarrow> string \<Rightarrow> (temp_params \<Rightarrow> string + create_chat_response)
     \<Rightarrow> promise \<Rightarrow> timer \<Rightarrow> js_file list \<Rightarrow> string \<Rightarrow> chat_state
     \<Rightarrow> (string + job_id) \<times> connection option \<times> chat_state \<times> chat_effect list" where
  "executeOcrOnImages en compress prompt api promise timeout images modelId state =
     (let s1 = se_meanwhile en state in
      case bind_sum (ocr_params en compress prompt images modelId state)
             (\<lambda>(node, p). map_sum_r (\<lambda>r. (node, r)) (api p)) of
        Inl e \<Rightarrow> (Inl e, None, s1, [])
      | Inr (node, response) \<Rightarrow>
          let tempChatId = toChatId (id_text (cr_chat_id response));
              tempJobId = toJobId (id_text (cr_job_id response));
              (conn, s2, effs) = connect_temp_job en tempChatId tempJobId node (addOcrPromise tempJobId promise s1)
          in (Inr tempJobId, conn, s2, SetTimer timeout 300000 # effs))"

section \<open>The promise of such a request\<close>

text \<open>
  The registered callbacks stop the timer and settle the promise; \<open>finish\<close> is what the answer becomes, and
  \<open>refuse\<close> the reason of a rejection. When the timer fires first the registration is removed and the
  promise rejected. \<open>None\<close>: the event cannot happen.
\<close>

record ('x, 'r) pending_request =
  pr_jobId :: job_id
  pr_outcome :: "('x + 'r) option"
  pr_timer :: bool

datatype 'e request_event = Answered string | Refused 'e | TimeUp

definition settle_request :: "'x + 'r \<Rightarrow> ('x, 'r) pending_request \<Rightarrow> ('x, 'r) pending_request" where
  "settle_request r req = req\<lparr>pr_timer := False, pr_outcome := first_outcome r (pr_outcome req)\<rparr>"

definition request_handle ::
  "(string \<Rightarrow> 'x + 'r) \<Rightarrow> ('e \<Rightarrow> 'x) \<Rightarrow> 'x \<Rightarrow> 'e request_event \<Rightarrow> chat_state \<times> ('x, 'r) pending_request
     \<Rightarrow> (chat_state \<times> ('x, 'r) pending_request) option" where
  "request_handle finish refuse late ev st =
     (case ev of
        Answered v \<Rightarrow> Some (fst st, settle_request (finish v) (snd st))
      | Refused e \<Rightarrow> Some (fst st, settle_request (Inl (refuse e)) (snd st))
      | TimeUp \<Rightarrow>
          if pr_timer (snd st)
          then Some (removeOcrPromise (pr_jobId (snd st)) (fst st), settle_request (Inl late) (snd st)) else None)"

definition ocr_handle :: "string request_event \<Rightarrow> chat_state \<times> (string, string) pending_request
     \<Rightarrow> (chat_state \<times> (string, string) pending_request) option" where
  "ocr_handle = request_handle Inr (\<lambda>e. e) ''OCR request timed out after 5 minutes.''"

definition new_request :: "job_id \<Rightarrow> ('x, 'r) pending_request" where
  "new_request jobId = \<lparr>pr_jobId = jobId, pr_outcome = None, pr_timer = True\<rparr>"

fun request_events ::
  "(string \<Rightarrow> 'x + 'r) \<Rightarrow> ('e \<Rightarrow> 'x) \<Rightarrow> 'x \<Rightarrow> 'e request_event list \<Rightarrow> chat_state \<times> ('x, 'r) pending_request
     \<Rightarrow> (chat_state \<times> ('x, 'r) pending_request) option" where
  "request_events finish refuse late [] st = Some st"
| "request_events finish refuse late (e # es) st =
     (case request_handle finish refuse late e st of None \<Rightarrow> None | Some st' \<Rightarrow> request_events finish refuse late es st')"

section \<open>Connecting\<close>

text \<open>How connecting a job ends.\<close>

lemma connect_cases:
  assumes "connectToChainWebSocket en auth derived create id k j (Some a) (Some n) pk eph s = (conn, s', effs)"
  obtains (failed) msg nd where "conn = None" "handleWebSocketError (ev_now en) k j msg True nd s = (s', effs)"
  | (opened) co w where "conn = Some co" "co_chatId co = k" "co_jobId co = j"
      "s' = setActiveChatJob k j False (s\<lparr>webSockets := w\<rparr>)"
proof (cases "connect_guard auth k j (Some a) (Some n) pk eph s")
  case (Inl e)
  with assms show ?thesis
    by (intro failed [of "fst e" "snd e"]) (auto simp: connectToChainWebSocket_def Let_def split: prod.splits)
next
  case (Inr salt)
  note guard = Inr
  show ?thesis
  proof (cases "derived salt")
    case (Inl e)
    with guard assms failed show ?thesis by (auto simp: connectToChainWebSocket_def Let_def)
  next
    case (Inr key)
    note key = Inr
    show ?thesis
    proof (cases "buildWebSocketUrl a")
      case (Inl e)
      with guard key assms failed show ?thesis by (auto simp: connectToChainWebSocket_def Let_def)
    next
      case (Inr url)
      note url = Inr
      show ?thesis
      proof (cases "connect_socket en create j (url @ ''/conversation/ws'') s")
        case (Inl e)
        with guard key url assms failed show ?thesis by (auto simp: connectToChainWebSocket_def Let_def)
      next
        case (Inr r)
        have "fst (snd r) = s\<lparr>webSockets := webSockets (fst (snd r))\<rparr>"
          using Inr by (auto simp: connect_socket_def Let_def split: option.splits sum.splits if_splits)
        moreover obtain ws s2 fx where r: "r = (ws, s2, fx)" by (cases r)
        ultimately have s2: "s2 = s\<lparr>webSockets := webSockets s2\<rparr>" by simp
        have "conn = Some \<lparr>co_chatId = k, co_jobId = j, co_ws = ws, co_nodeId = Some n\<rparr>" "s' = setActiveChatJob k j False s2"
          using guard key url Inr assms by (auto simp: connectToChainWebSocket_def Let_def r)
        with s2 show ?thesis by (metis opened connection.select_convs(1,2))
      qed
    qed
  qed
qed

section \<open>It keeps the contract of a promise\<close>

definition request_ok :: "('x, 'r) pending_request \<Rightarrow> bool" where
  "request_ok req \<longleftrightarrow> (pr_timer req \<longleftrightarrow> pr_outcome req = None)"

lemma settle_request_simps [simp]:
  "pr_outcome (settle_request r req) = first_outcome r (pr_outcome req)" "\<not> pr_timer (settle_request r req)"
  "pr_jobId (settle_request r req) = pr_jobId req"
  by (simp_all add: settle_request_def)

lemma request_handle_cases:
  assumes "request_handle finish refuse late ev st = Some st'"
  obtains r where "snd st' = settle_request r (snd st)"
  using assms by (auto simp: request_handle_def split: request_event.splits if_splits)

interpretation request: one_outcome
  "\<lambda>st ev st'. request_handle finish refuse late ev st = Some st'" "\<lambda>st. outcome_state (pr_outcome (snd st))" "\<lambda>st. request_ok (snd st)"
  for finish refuse late
proof
  fix s e s' assume step: "request_handle finish refuse late e s = Some s'"
  from step obtain r where r: "snd s' = settle_request r (snd s)" by (rule request_handle_cases)
  then show "outcome_state (pr_outcome (snd s)) \<le> outcome_state (pr_outcome (snd s'))" by simp
  from r show "request_ok (snd s')" by (simp add: request_ok_def)
qed

lemma request_events_snoc:
  "request_events finish refuse late (es @ [e]) st =
     (case request_events finish refuse late es st of None \<Rightarrow> None | Some st' \<Rightarrow> request_handle finish refuse late e st')"
  by (induction finish refuse late es st rule: request_events.induct) (auto split: option.split)

lemma request_events_steps:
  "request_events finish refuse late es st = Some st' \<Longrightarrow> request.steps finish refuse late st es st'"
proof (induction es arbitrary: st' rule: rev_induct)
  case Nil
  then show ?case by (auto intro: request.none)
next
  case (snoc e es)
  then obtain st1 where "request_events finish refuse late es st = Some st1" "request_handle finish refuse late e st1 = Some st'"
    by (auto simp: request_events_snoc split: option.splits)
  with snoc.IH show ?case by (blast intro: request.snoc)
qed

end
