(* ===== verification/Search_Stream.thy ===== *)
theory Search_Stream
  imports Domain Promises
begin

text \<open>
  The web socket of one web search (\<open>web_search\<close> in
  \<open>src/gpt_frontend/src/store/chatStore/actions/message/tool.ts\<close>): a promise that is settled by the last
  packet of the stream, an error, the end of the connection, or a timer of one minute, whichever comes
  first. The code is a set of handlers on shared variables; here it is a step relation, and a function
  that computes the same steps.
\<close>

section \<open>The handlers\<close>

text \<open>
  \<open>sp_outcome\<close> is the promise (\<open>Inl\<close> rejected, \<open>Inr\<close> resolved): JavaScript keeps the first outcome it is
  given. \<open>sp_closed\<close> says that \<open>ws.close()\<close> was called, \<open>sp_timer\<close> that the timer is running.
\<close>

record search_promise =
  sp_text :: string
  sp_isSettled :: bool
  sp_outcome :: "(string + string) option"
  sp_timer :: bool
  sp_closed :: bool
  sp_sent :: "string list"

definition search_start :: search_promise where
  "search_start = \<lparr>sp_text = [], sp_isSettled = False, sp_outcome = None, sp_timer = True, sp_closed = False, sp_sent = []\<rparr>"

definition settle :: "string + string \<Rightarrow> search_promise \<Rightarrow> search_promise" where
  "settle r st = st\<lparr>sp_outcome := first_outcome r (sp_outcome st)\<rparr>"

definition search_cleanup :: "search_promise \<Rightarrow> search_promise" where
  "search_cleanup st = st\<lparr>sp_isSettled := True, sp_closed := True\<rparr>"

text \<open>
  What happens: the connection opens (with the encrypted request, or the error of encrypting it), a
  message arrives (\<open>None\<close> when it cannot be decrypted or parsed), the connection fails or closes, the
  timer fires.
\<close>

datatype search_event =
    Opened "string + string" | Packet "streamed_response option" | SocketError | SocketClosed | TimerFired

definition is_final :: "streamed_response \<Rightarrow> bool" where
  "is_final data \<longleftrightarrow> sr_isComplete data \<or> sr_errorStatus data \<noteq> None"

definition keep_text :: "streamed_response \<Rightarrow> search_promise \<Rightarrow> search_promise" where
  "keep_text data st = (if sr_text data \<noteq> [] then st\<lparr>sp_text := sr_text data\<rparr> else st)"

definition final_outcome :: "streamed_response \<Rightarrow> search_promise \<Rightarrow> string + string" where
  "final_outcome data st =
     (case sr_errorStatus data of
        Some e \<Rightarrow> Inl (if truthy_str (es_message e) then the (es_message e) else ''Unknown search error'')
      | None \<Rightarrow> Inr (sp_text st))"

text \<open>One rule per branch of a handler. The timer fires only while it is running.\<close>

inductive search_step :: "search_promise \<Rightarrow> search_event \<Rightarrow> search_promise \<Rightarrow> bool" where
  opened: "search_step st (Opened (Inr payload)) (st\<lparr>sp_sent := sp_sent st @ [payload]\<rparr>)"
| open_failed: "search_step st (Opened (Inl e)) (settle (Inl e) (search_cleanup st))"
| garbled: "search_step st (Packet None) st"
| partial: "\<not> is_final data \<Longrightarrow> search_step st (Packet (Some data)) (keep_text data st)"
| finished: "is_final data \<Longrightarrow> st' = keep_text data st \<Longrightarrow>
    search_step st (Packet (Some data)) (settle (final_outcome data st') (search_cleanup (st'\<lparr>sp_timer := False\<rparr>)))"
| socket_error: "\<not> sp_isSettled st \<Longrightarrow>
    search_step st SocketError (settle (Inl ''WebSocket connection error.'') (search_cleanup (st\<lparr>sp_timer := False\<rparr>)))"
| late_error: "sp_isSettled st \<Longrightarrow> search_step st SocketError (st\<lparr>sp_timer := False\<rparr>)"
| socket_closed: "\<not> sp_isSettled st \<Longrightarrow>
    search_step st SocketClosed (settle (Inl ''WebSocket closed unexpectedly.'') (search_cleanup (st\<lparr>sp_timer := False\<rparr>)))"
| late_close: "sp_isSettled st \<Longrightarrow> search_step st SocketClosed (st\<lparr>sp_timer := False\<rparr>)"
| timed_out: "sp_timer st \<Longrightarrow> \<not> sp_isSettled st \<Longrightarrow>
    search_step st TimerFired (settle (Inl ''Search request timed out.'') (search_cleanup (st\<lparr>sp_timer := False\<rparr>)))"
| late_timer: "sp_timer st \<Longrightarrow> sp_isSettled st \<Longrightarrow> search_step st TimerFired (st\<lparr>sp_timer := False\<rparr>)"

text \<open>The runs of the promise, from the construction of the socket.\<close>

inductive search_run :: "search_promise \<Rightarrow> search_event list \<Rightarrow> search_promise \<Rightarrow> bool" where
  run_Nil: "search_run st [] st"
| run_snoc: "search_run st es st' \<Longrightarrow> search_step st' e st'' \<Longrightarrow> search_run st (es @ [e]) st''"

inductive_cases run_snocE: "search_run st (es @ [e]) st'"

section \<open>The same as a function\<close>

text \<open>\<open>None\<close>: the event cannot happen.\<close>

definition search_handle :: "search_event \<Rightarrow> search_promise \<Rightarrow> search_promise option" where
  "search_handle ev st =
     (let stop = (\<lambda>msg. let st1 = st\<lparr>sp_timer := False\<rparr> in if sp_isSettled st then st1 else settle (Inl msg) (search_cleanup st1)) in
      case ev of
        Opened (Inr payload) \<Rightarrow> Some (st\<lparr>sp_sent := sp_sent st @ [payload]\<rparr>)
      | Opened (Inl e) \<Rightarrow> Some (settle (Inl e) (search_cleanup st))
      | Packet None \<Rightarrow> Some st
      | Packet (Some data) \<Rightarrow>
          let st1 = keep_text data st in
          Some (if is_final data then settle (final_outcome data st1) (search_cleanup (st1\<lparr>sp_timer := False\<rparr>)) else st1)
      | SocketError \<Rightarrow> Some (stop ''WebSocket connection error.'')
      | SocketClosed \<Rightarrow> Some (stop ''WebSocket closed unexpectedly.'')
      | TimerFired \<Rightarrow> if sp_timer st then Some (stop ''Search request timed out.'') else None)"

fun search_events :: "search_event list \<Rightarrow> search_promise \<Rightarrow> search_promise option" where
  "search_events [] st = Some st"
| "search_events (e # es) st = (case search_handle e st of None \<Rightarrow> None | Some st' \<Rightarrow> search_events es st')"

lemma search_step_iff: "search_step st e st' \<longleftrightarrow> search_handle e st = Some st'"
proof
  assume "search_step st e st'"
  then show "search_handle e st = Some st'" by cases (simp_all add: search_handle_def Let_def)
next
  assume h: "search_handle e st = Some st'"
  show "search_step st e st'"
  proof (cases e)
    case (Opened r)
    with h show ?thesis by (cases r) (auto simp: search_handle_def intro: search_step.intros)
  next
    case (Packet p)
    with h show ?thesis
      by (cases p) (auto simp: search_handle_def Let_def intro: search_step.intros split: if_splits)
  next
    case SocketError
    with h show ?thesis by (cases "sp_isSettled st") (auto simp: search_handle_def Let_def intro: search_step.intros)
  next
    case SocketClosed
    with h show ?thesis by (cases "sp_isSettled st") (auto simp: search_handle_def Let_def intro: search_step.intros)
  next
    case TimerFired
    with h show ?thesis by (cases "sp_isSettled st") (auto simp: search_handle_def Let_def intro: search_step.intros split: if_splits)
  qed
qed

lemma search_events_append:
  "search_events (xs @ ys) st = (case search_events xs st of None \<Rightarrow> None | Some st' \<Rightarrow> search_events ys st')"
  by (induction xs arbitrary: st) (auto split: option.split)

lemma search_run_iff: "search_run st es st' \<longleftrightarrow> search_events es st = Some st'"
proof
  assume "search_run st es st'"
  then show "search_events es st = Some st'"
    by induction (simp_all add: search_events_append search_step_iff)
next
  assume "search_events es st = Some st'"
  then show "search_run st es st'"
  proof (induction es arbitrary: st' rule: rev_induct)
    case (snoc e es)
    then obtain st1 where "search_events es st = Some st1" "search_step st1 e st'"
      by (auto simp: search_events_append search_step_iff split: option.splits)
    with snoc show ?case by (auto intro: run_snoc)
  qed (simp add: run_Nil)
qed

section \<open>The invariant\<close>

definition search_abs :: "search_promise \<Rightarrow> (string + string) promise_state" where
  "search_abs st = outcome_state (sp_outcome st)"

text \<open>The invariant: settled means decided and closed, and while it is not, the timer runs.\<close>

definition search_ok :: "search_promise \<Rightarrow> bool" where
  "search_ok st \<longleftrightarrow> (sp_isSettled st \<longleftrightarrow> sp_outcome st \<noteq> None) \<and> (sp_isSettled st \<longleftrightarrow> sp_closed st)
     \<and> (\<not> sp_isSettled st \<longrightarrow> sp_timer st)"

lemma settle_simps [simp]:
  "sp_outcome (settle r st) \<noteq> None" "sp_isSettled (settle r st) = sp_isSettled st" "sp_closed (settle r st) = sp_closed st"
  "sp_timer (settle r st) = sp_timer st" "sp_outcome st = None \<Longrightarrow> sp_outcome (settle r st) = Some r"
  "sp_outcome st = Some q \<Longrightarrow> sp_outcome (settle r st) = Some q"
  by (simp_all add: settle_def)

lemma cleanup_simps [simp]:
  "sp_isSettled (search_cleanup st)" "sp_closed (search_cleanup st)" "sp_outcome (search_cleanup st) = sp_outcome st"
  "sp_timer (search_cleanup st) = sp_timer st"
  by (simp_all add: search_cleanup_def)

lemma keep_text_simps [simp]:
  "sp_isSettled (keep_text d st) = sp_isSettled st" "sp_closed (keep_text d st) = sp_closed st"
  "sp_outcome (keep_text d st) = sp_outcome st" "sp_timer (keep_text d st) = sp_timer st"
  by (simp_all add: keep_text_def)

lemma search_ok_start [simp]: "search_ok search_start"
  by (simp add: search_ok_def search_start_def)

lemma search_ok_step: "search_step st e st' \<Longrightarrow> search_ok st \<Longrightarrow> search_ok st'"
  by (induction rule: search_step.induct) (auto simp: search_ok_def)

lemma search_step_outcome: "search_step st e st' \<Longrightarrow> sp_outcome st' = sp_outcome st \<or> sp_outcome st = None"
  by (induction rule: search_step.induct) (auto simp: settle_def first_outcome_def split: option.splits)

interpretation search: one_outcome search_step search_abs search_ok
proof
  show "search_ok s'" if "search_ok s" "search_step s e s'" for s e s'
    using that by (blast intro: search_ok_step)
  show "search_abs s \<le> search_abs s'" if "search_step s e s'" for s e s'
    using search_step_outcome [OF that] by (auto simp: search_abs_def outcome_state_def)
qed

lemma search_run_steps: "search_run st es st' \<Longrightarrow> search.steps st es st'"
  by (induction rule: search_run.induct) (auto intro: search.steps.intros)

section \<open>Properties\<close>

text \<open>
  C19: a web search has one outcome and gets one. In every run of the handlers the invariant holds: as long as
  the promise is pending the timer runs and the socket is open; once it has an outcome, the socket is
  closed and whatever else happens (late packets, the end of the connection, the timer) the outcome
  stays. A run with a final packet, an error, an end of the connection or a firing of the timer in it has settled it.
\<close>

theorem search_settles_once:
  assumes "search_run search_start es st"
  shows "search_ok st
    \<and> (\<forall>more st' r. search_run st more st' \<and> sp_outcome st = Some r \<longrightarrow> sp_outcome st' = Some r)
    \<and> ((SocketError \<in> set es \<or> SocketClosed \<in> set es \<or> TimerFired \<in> set es \<or> (\<exists>d. Packet (Some d) \<in> set es \<and> is_final d)
        \<or> (\<exists>e. Opened (Inl e) \<in> set es)) \<longrightarrow> sp_outcome st \<noteq> None)"
proof -
  have ok: "search_ok st'" if "search_run search_start es st'" for es st'
    using search.inv_steps [OF search_run_steps [OF that]] by simp
  have stays: "sp_outcome st' = Some r" if "search_run s more st'" "search_ok s" "sp_outcome s = Some r" for s more st' r
    using search.settled_stays [OF search_run_steps [OF that(1)] that(2), of r] that(3)
    by (auto simp: search_abs_def)
  let ?ends = "\<lambda>e. e = SocketError \<or> e = SocketClosed \<or> e = TimerFired \<or> (\<exists>d. e = Packet (Some d) \<and> is_final d) \<or> (\<exists>x. e = Opened (Inl x))"
  have settles: "sp_outcome s' \<noteq> None" if "search_step s e s'" "search_ok s" "?ends e" for s e s'
    using that by cases (auto simp: search_ok_def)
  have "\<exists>e \<in> set es. ?ends e \<Longrightarrow> sp_outcome st \<noteq> None" using assms
  proof (induction es arbitrary: st rule: rev_induct)
    case (snoc e es)
    from snoc.prems(2) obtain s where s: "search_run search_start es s" "search_step s e st"
      by (auto elim: run_snocE)
    show ?case
    proof (cases "?ends e")
      case True
      then show ?thesis using settles [OF s(2) ok [OF s(1)]] by blast
    next
      case False
      then have "sp_outcome s \<noteq> None" using snoc.IH [OF _ s(1)] snoc.prems(1) by auto
      then show ?thesis using search_step_outcome [OF s(2)] by auto
    qed
  qed simp
  then show ?thesis using ok [OF assms] stays [OF _ ok [OF assms]] by blast
qed

definition example_packet :: "string \<Rightarrow> bool \<Rightarrow> streamed_response" where
  "example_packet body final = \<lparr>sr_text = body, sr_isComplete = final, sr_errorStatus = None, sr_usage = None\<rparr>"

lemma search_settles_once_witness:
  "\<exists>st. search_run search_start [Opened (Inr ''p''), Packet (Some (example_packet ''a'' False)), Packet None,
      Packet (Some (example_packet ''ab'' True)), SocketClosed] st \<and> sp_outcome st = Some (Inr ''ab'') \<and> sp_outcome st \<noteq> None"
proof -
  let ?es = "[Opened (Inr ''p''), Packet (Some (example_packet ''a'' False)), Packet None,
      Packet (Some (example_packet ''ab'' True)), SocketClosed]"
  obtain st where st: "search_events ?es search_start = Some st" and o: "sp_outcome st = Some (Inr ''ab'')"
    by (simp add: search_handle_def search_start_def example_packet_def keep_text_def is_final_def settle_def final_outcome_def search_cleanup_def)
  then have "search_run search_start ?es st" by (simp add: search_run_iff)
  then show ?thesis using search_settles_once [of ?es st] o by auto
qed

end
