(* ===== verification/Chunking.thy ===== *)
theory Chunking
  imports Domain
begin

text \<open>
  Cutting a text into chunks for the search: \<open>createChunks\<close> of
  \<open>src/gpt_frontend/src/services/fileProcessingService.ts\<close>, which is meant to cut at paragraphs and
  sentences, and the loop of \<open>embedFileContent\<close> in \<open>store/embeddingStore.ts\<close>, which cuts at a fixed size.
\<close>

section \<open>Split points\<close>

text \<open>The matches of \<open>/\n\n+/g\<close> and of \<open>/[.!?]\s+/g\<close>: position and length, from position \<open>i\<close> on.\<close>

function para_matches :: "nat \<Rightarrow> string \<Rightarrow> (nat \<times> nat) list" where
  "para_matches i s =
     (if s = [] then []
      else
        let n = length (takeWhile (\<lambda>c. c = CHR 0x0A) s) in
        if n \<ge> 2 then (i, n) # para_matches (i + n) (drop n s) else para_matches (i + 1) (drop 1 s))"
  by pat_completeness auto
termination
  by (relation "measure (\<lambda>(_, s). length s)") (auto intro!: diff_less)

declare para_matches.simps [simp del]

function sentence_matches :: "nat \<Rightarrow> string \<Rightarrow> (nat \<times> nat) list" where
  "sentence_matches i s =
     (if s = [] then []
      else
        let n = length (takeWhile is_ws (drop 1 s)) in
        if hd s \<in> {CHR ''.'', CHR ''!'', CHR ''?''} \<and> n \<ge> 1
        then (i, n + 1) # sentence_matches (i + n + 1) (drop (n + 1) s)
        else sentence_matches (i + 1) (drop 1 s))"
  by pat_completeness auto
termination
  by (relation "measure (\<lambda>(_, s). length s)") (auto intro!: diff_less)

declare sentence_matches.simps [simp del]

text \<open>\<open>searchRange / 2\<close> is exact for the default range of 500; positions are natural numbers.\<close>

definition distance :: "nat \<Rightarrow> nat \<Rightarrow> nat" where
  "distance a b = nat \<bar>int a - int b\<bar>"

definition closer_match :: "nat \<Rightarrow> nat \<Rightarrow> nat \<Rightarrow> nat \<times> nat \<Rightarrow> nat \<Rightarrow> nat" where
  "closer_match searchStart targetPos searchRange m bestPos =
     (let absPos = searchStart + fst m + snd m in
      if distance absPos targetPos < distance bestPos targetPos \<and> 2 * absPos \<le> 2 * targetPos + searchRange
      then absPos else bestPos)"

definition findBestSplitPoint :: "string \<Rightarrow> nat \<Rightarrow> nat \<Rightarrow> nat" where
  "findBestSplitPoint body targetPos searchRange =
     (if targetPos \<ge> length body then length body
      else
        let searchStart = targetPos - searchRange;
            searchEnd = min (length body) (targetPos + searchRange);
            searchText = substring searchStart searchEnd body;
            bestPos = fold (closer_match searchStart targetPos searchRange) (para_matches 0 searchText) targetPos;
            bestPos2 = (if bestPos = targetPos
                        then fold (closer_match searchStart targetPos searchRange) (sentence_matches 0 searchText) bestPos
                        else bestPos)
        in min bestPos2 (length body))"

section \<open>Chunks\<close>

definition CHUNK_SIZE :: nat where
  "CHUNK_SIZE = 8000"

definition CHUNK_OVERLAP :: nat where
  "CHUNK_OVERLAP = 500"

definition chunk_at :: "nat \<Rightarrow> nat \<Rightarrow> nat \<Rightarrow> text_chunk" where
  "chunk_at i a b = \<lparr>k_chunk_index = i, k_start_char = a, k_end_char = b, k_embedding = []\<rparr>"

text \<open>
  The loop, from the chunk number and start it has reached: \<open>Math.max(end, nextStart)\<close> with
  \<open>nextStart = end - CHUNK_OVERLAP\<close> is the next start. Whether a loop ends depends on the split point:
  \<open>None\<close> is that \<open>fuel\<close> rounds were not enough.
\<close>

definition next_start :: "nat \<Rightarrow> int" where
  "next_start e = max (int e) (int e - int CHUNK_OVERLAP)"

fun chunk_loop :: "nat \<Rightarrow> string \<Rightarrow> nat \<Rightarrow> nat \<Rightarrow> text_chunk list option" where
  "chunk_loop 0 body start chunkIndex = (if start < length body then None else Some [])"
| "chunk_loop (Suc fuel) body start chunkIndex =
     (if start < length body
      then
        let e = findBestSplitPoint body (start + CHUNK_SIZE) 500;
            start' = nat (next_start e);
            chunk = chunk_at chunkIndex start e
        in if start' \<ge> length body \<or> e \<ge> length body then Some [chunk]
           else map_option (\<lambda>cs. chunk # cs) (chunk_loop fuel body start' (chunkIndex + 1))
      else Some [])"

definition createChunks :: "nat \<Rightarrow> string \<Rightarrow> text_chunk list option" where
  "createChunks fuel body =
     map_option (\<lambda>chunks. if chunks = [] \<and> length body > 0 then [chunk_at 0 0 (length body)] else chunks)
       (chunk_loop fuel body 0 0)"

text \<open>\<open>embedFileContent\<close>: the same without a search for boundaries; a chunk also carries its text.\<close>

fun embed_loop :: "nat \<Rightarrow> string \<Rightarrow> nat \<Rightarrow> nat \<Rightarrow> (text_chunk \<times> string) list option" where
  "embed_loop 0 fileContent startChar chunkIndex = (if startChar < length fileContent then None else Some [])"
| "embed_loop (Suc fuel) fileContent startChar chunkIndex =
     (if startChar < length fileContent
      then
        let endChar = min (startChar + CHUNK_SIZE) (length fileContent);
            chunk = (chunk_at chunkIndex startChar endChar, substring startChar endChar fileContent);
            startChar' = nat (next_start endChar)
        in if startChar' \<ge> length fileContent then Some [chunk]
           else map_option (\<lambda>cs. chunk # cs) (embed_loop fuel fileContent startChar' (chunkIndex + 1))
      else Some [])"

definition embedFileContent :: "nat \<Rightarrow> string \<Rightarrow> (string + (text_chunk \<times> string) list) option" where
  "embedFileContent fuel fileContent =
     (if fileContent = [] then Some (Inl ''File content is empty'')
      else if length fileContent > 10 * 1024 * 1024 then Some (Inl ''File content exceeds 10MB limit'')
      else map_option
             (\<lambda>chunks. Inr (if chunks = [] \<and> length fileContent > 0
                            then [(chunk_at 0 0 (length fileContent), fileContent)] else chunks))
             (embed_loop fuel fileContent 0 0))"

section \<open>Lemmas\<close>

text \<open>Nothing is closer to the target than the target itself.\<close>

lemma closer_match_target: "fold (closer_match st t r) ms t = t"
  by (induction ms) (simp_all add: closer_match_def distance_def)

lemma split_point_fixed: "findBestSplitPoint body t r = min t (length body)"
  by (simp add: findBestSplitPoint_def Let_def closer_match_target)

lemma next_start [simp]: "nat (next_start e) = e"
  by (simp add: next_start_def)

lemma chunk_loop_embed:
  "chunk_loop fuel body a i = map_option (map fst) (embed_loop fuel body a i)"
proof (induction fuel arbitrary: a i)
  case (Suc fuel)
  then show ?case
    by (cases "embed_loop fuel body (a + CHUNK_SIZE) (i + 1)") (auto simp: split_point_fixed min_def Let_def)
qed simp

text \<open>What the chunks of a text from position \<open>a\<close> and number \<open>i\<close> on look like.\<close>

fun chunks_from :: "string \<Rightarrow> nat \<Rightarrow> nat \<Rightarrow> (text_chunk \<times> string) list \<Rightarrow> bool" where
  "chunks_from body a i [] = (a = length body)"
| "chunks_from body a i ((k, t) # ks) =
     (k_chunk_index k = i \<and> k_start_char k = a \<and> a < k_end_char k \<and> k_end_char k \<le> a + CHUNK_SIZE \<and> k_embedding k = []
        \<and> t = take (k_end_char k - a) (drop a body) \<and> k_end_char k \<le> length body \<and> chunks_from body (k_end_char k) (i + 1) ks)"

lemma embed_loop_some:
  assumes "a \<le> length body" and "length body - a \<le> fuel * CHUNK_SIZE"
  shows "\<exists>ks. embed_loop fuel body a i = Some ks \<and> chunks_from body a i ks \<and> (ks = [] \<longleftrightarrow> a = length body)"
  using assms
proof (induction fuel arbitrary: a i)
  case (Suc fuel)
  show ?case
  proof (cases "a < length body")
    case True
    let ?e = "min (a + CHUNK_SIZE) (length body)"
    have e: "a < ?e" using True by (simp add: CHUNK_SIZE_def)
    have piece: "substring a ?e body = take (?e - a) (drop a body)" using e by (simp add: substring_def take_drop)
    show ?thesis
    proof (cases "?e \<ge> length body")
      case True
      then show ?thesis using \<open>a < length body\<close> e piece by (auto simp: Let_def chunk_at_def)
    next
      case False
      then have e': "?e = a + CHUNK_SIZE" by simp
      have "a + CHUNK_SIZE \<le> length body" and "length body - (a + CHUNK_SIZE) \<le> fuel * CHUNK_SIZE"
        using False Suc.prems by auto
      then obtain ks where "embed_loop fuel body (a + CHUNK_SIZE) (i + 1) = Some ks" "chunks_from body (a + CHUNK_SIZE) (i + 1) ks"
        using Suc.IH by blast
      then show ?thesis using True False e piece unfolding e' by (simp add: Let_def chunk_at_def e')
    qed
  next
    case False
    then show ?thesis using Suc.prems by auto
  qed
qed simp

lemma chunks_from_text: "chunks_from body a i ks \<Longrightarrow> a \<le> length body \<Longrightarrow> concat (map snd ks) = drop a body"
proof (induction ks arbitrary: a i)
  case (Cons k ks)
  obtain c t where k: "k = (c, t)" by (cases k)
  have "concat (map snd ks) = drop (k_end_char c) body" using Cons.prems k by (intro Cons.IH [of _ "i + 1"]) simp_all
  moreover have "t = take (k_end_char c - a) (drop a body)" and "a < k_end_char c" using Cons k by simp_all
  moreover have "take (k_end_char c - a) (drop a body) @ drop (k_end_char c) body = drop a body" if "a < k_end_char c"
    using append_take_drop_id [of "k_end_char c - a" "drop a body"] that by simp
  ultimately show ?case using k by simp
qed simp

section \<open>Properties\<close>

text \<open>
  The chunks of a text are the text: with as many rounds as it has chunks of full size, both loops end, and
  the pieces follow one another from 0 to the end without gap or overlap, are numbered from 0, at
  most 8000 characters long and never empty, and together give the text back.
\<close>

theorem chunks_partition:
  assumes "body \<noteq> []" and "length body \<le> 10 * 1024 * 1024" and "length body \<le> fuel * CHUNK_SIZE"
  shows "\<exists>ks. embedFileContent fuel body = Some (Inr ks) \<and> createChunks fuel body = Some (map fst ks)
    \<and> chunks_from body 0 0 ks \<and> concat (map snd ks) = body"
proof -
  obtain ks where ks: "embed_loop fuel body 0 0 = Some ks" "chunks_from body 0 0 ks" "ks = [] \<longleftrightarrow> body = []"
    using embed_loop_some [of 0 body fuel 0] assms(3) by auto
  then have "embedFileContent fuel body = Some (Inr ks)" and "createChunks fuel body = Some (map fst ks)"
    using assms by (simp_all add: embedFileContent_def createChunks_def chunk_loop_embed)
  moreover have "concat (map snd ks) = body" using chunks_from_text [OF ks(2)] by simp
  ultimately show ?thesis using ks(2) by blast
qed

lemma chunks_partition_witness: "\<exists>ks. createChunks 1 ''abc'' = Some ks"
  using chunks_partition [of "''abc''" 1] by (auto simp: CHUNK_SIZE_def)

text \<open>
  The search for a paragraph or sentence boundary has no effect: a match replaces the target position only
  when it is nearer to the target than the position chosen so far, which is the target itself,
  so the split point is always the target, cut to the length of the text.
\<close>

theorem split_point_ignores_boundaries:
  "findBestSplitPoint body targetPos searchRange = min targetPos (length body)"
  by (rule split_point_fixed)

end
