(* ===== verification/Text_Search.thy ===== *)
theory Text_Search
  imports Chunking "HOL-Library.Multiset"
begin

text \<open>
  The text search of \<open>src/gpt_frontend/src/store/embeddingStore.ts\<close>: BM25 ranking of the chunks of a
  set of files. Scores are rational numbers (the code's doubles without rounding) and the logarithm is an
  argument, used only through \<open>log x > 0\<close> for \<open>x > 1\<close>. The Unicode tables behind \<open>toLowerCase\<close>,
  \<open>\p{L}\<close>, \<open>\p{N}\<close> and the range test for Chinese, Japanese and Korean characters are the fields of a
  \<open>script\<close>; \<open>latin1_script\<close> is the one of the texts below 256.
\<close>

section \<open>Words of a text\<close>

record script =
  sc_lower :: "string \<Rightarrow> string"
  sc_word :: "char \<Rightarrow> bool"
  sc_cjk :: "char \<Rightarrow> bool"

definition latin1_word :: "char \<Rightarrow> bool" where
  "latin1_word c =
     (let n = (of_char c :: nat) in
      48 \<le> n \<and> n \<le> 57 \<or> 65 \<le> n \<and> n \<le> 90 \<or> 97 \<le> n \<and> n \<le> 122
      \<or> n \<in> {170, 178, 179, 181, 185, 186, 188, 189, 190} \<or> 192 \<le> n \<and> n \<noteq> 215 \<and> n \<noteq> 247)"

definition latin1_script :: script where
  "latin1_script = \<lparr>sc_lower = to_lower, sc_word = latin1_word, sc_cjk = (\<lambda>_. False)\<rparr>"

text \<open>\<open>s.replace(/\s+/g, " ")\<close>\<close>

fun collapse_ws :: "bool \<Rightarrow> string \<Rightarrow> string" where
  "collapse_ws after [] = []"
| "collapse_ws after (c # cs) =
     (if is_ws c then (if after then collapse_ws True cs else CHR '' '' # collapse_ws True cs)
      else c # collapse_ws False cs)"

definition normalizeText :: "script \<Rightarrow> string \<Rightarrow> string" where
  "normalizeText sc body =
     trim (collapse_ws False (map (\<lambda>c. if sc_word sc c \<or> is_ws c then c else CHR '' '') (sc_lower sc body)))"

definition tokenize :: "script \<Rightarrow> string \<Rightarrow> string list" where
  "tokenize sc body =
     (let normalized = normalizeText sc body in
      if normalized = [] then [] else filter (\<lambda>t. length t \<ge> 1) (split_char (CHR '' '') normalized))"

definition containsCJK :: "script \<Rightarrow> string \<Rightarrow> bool" where
  "containsCJK sc body \<longleftrightarrow> list_ex (sc_cjk sc) body"

definition tokenizeCJK :: "script \<Rightarrow> nat \<Rightarrow> string \<Rightarrow> string list" where
  "tokenizeCJK sc ngramSize body =
     (let normalized = filter (\<lambda>c. \<not> is_ws c) (sc_lower sc body) in
      if length normalized < ngramSize then [normalized]
      else map (\<lambda>i. substring i (i + ngramSize) normalized) [0..<length normalized - ngramSize + 1]
           @ map (\<lambda>c. [c]) (filter (sc_cjk sc) normalized))"

definition smartTokenize :: "script \<Rightarrow> string \<Rightarrow> string list" where
  "smartTokenize sc body = (if containsCJK sc body then tokenizeCJK sc 2 body else tokenize sc body)"

section \<open>Scores\<close>

definition count_of :: "('a, nat) jsmap \<Rightarrow> 'a \<Rightarrow> nat" where
  "count_of m k = (case map_get m k of Some n \<Rightarrow> n | None \<Rightarrow> 0)"

definition count_one :: "'a \<Rightarrow> ('a, nat) jsmap \<Rightarrow> ('a, nat) jsmap" where
  "count_one k m = map_set k (count_of m k + 1) m"

definition buildTermFrequencyMap :: "string list \<Rightarrow> (string, nat) jsmap" where
  "buildTermFrequencyMap tokens = fold count_one tokens []"

definition BM25_K1 :: rat where
  "BM25_K1 = 12 / 10"

definition BM25_B :: rat where
  "BM25_B = 75 / 100"

definition idf_of :: "(rat \<Rightarrow> rat) \<Rightarrow> nat \<Rightarrow> nat \<Rightarrow> rat" where
  "idf_of lg totalDocs df = lg ((of_nat totalDocs - of_nat df + 1 / 2) / (of_nat df + 1 / 2) + 1)"

definition tf_normalized :: "nat \<Rightarrow> nat \<Rightarrow> rat \<Rightarrow> rat" where
  "tf_normalized tf chunkLength avgDocLength =
     of_nat tf * (BM25_K1 + 1)
     / (of_nat tf + BM25_K1 * (1 - BM25_B + BM25_B * (of_nat chunkLength / avgDocLength)))"

definition term_score ::
  "(rat \<Rightarrow> rat) \<Rightarrow> (string, nat) jsmap \<Rightarrow> nat \<Rightarrow> rat \<Rightarrow> (string, nat) jsmap \<Rightarrow> nat \<Rightarrow> string \<Rightarrow> rat \<Rightarrow> rat" where
  "term_score lg chunkTermFreq chunkLength avgDocLength docFrequencies totalDocs queryTerm score =
     (let tf = count_of chunkTermFreq queryTerm in
      if tf = 0 then score
      else score + idf_of lg totalDocs (count_of docFrequencies queryTerm) * tf_normalized tf chunkLength avgDocLength)"

definition calculateBM25Score ::
  "(rat \<Rightarrow> rat) \<Rightarrow> string list \<Rightarrow> string list \<Rightarrow> nat \<Rightarrow> rat \<Rightarrow> (string, nat) jsmap \<Rightarrow> nat \<Rightarrow> rat" where
  "calculateBM25Score lg queryTokens chunkTokens chunkLength avgDocLength docFrequencies totalDocs =
     fold (term_score lg (buildTermFrequencyMap chunkTokens) chunkLength avgDocLength docFrequencies totalDocs) queryTokens 0"

definition keyword_step ::
  "(rat \<Rightarrow> rat) \<Rightarrow> string list \<Rightarrow> rat \<Rightarrow> (string, nat) jsmap \<Rightarrow> nat \<Rightarrow> nat \<times> string list \<Rightarrow> (nat, rat) jsmap \<Rightarrow> (nat, rat) jsmap" where
  "keyword_step lg queryTokens avgDocLength docFrequencies totalDocs c scores =
     (let score = calculateBM25Score lg queryTokens (snd c) (length (snd c)) avgDocLength docFrequencies totalDocs
      in if score > 0 then map_set (fst c) score scores else scores)"

definition keywordSearch ::
  "(rat \<Rightarrow> rat) \<Rightarrow> string list \<Rightarrow> (nat \<times> string list) list \<Rightarrow> rat \<Rightarrow> (string, nat) jsmap \<Rightarrow> (nat, rat) jsmap" where
  "keywordSearch lg queryTokens tokenizedChunks avgDocLength docFrequencies =
     (if length queryTokens = 0 then []
      else fold (keyword_step lg queryTokens avgDocLength docFrequencies (length tokenizedChunks)) tokenizedChunks [])"

section \<open>The search\<close>

text \<open>A chunk of the search index carries an identifier, one fresh from \<open>embedFileContent\<close> does not.\<close>

datatype search_doc = Indexed searchable_chunk | Plain_Chunk text_chunk string

fun doc_text :: "search_doc \<Rightarrow> string" where
  "doc_text (Indexed c) = sc_text c"
| "doc_text (Plain_Chunk c body) = body"

fun doc_id :: "search_doc \<Rightarrow> string" where
  "doc_id (Indexed c) = sc_id c"
| "doc_id (Plain_Chunk c body) = ''chunk-'' @ show_nat (k_chunk_index c)"

definition MAX_RESULTS :: nat where
  "MAX_RESULTS = 20"

definition doc_frequencies :: "(nat \<times> string list) list \<Rightarrow> (string, nat) jsmap" where
  "doc_frequencies tokenizedChunks = fold (\<lambda>c m. fold count_one (remdups (snd c)) m) tokenizedChunks []"

definition phrase_bonus :: "script \<Rightarrow> string \<Rightarrow> string \<Rightarrow> rat \<Rightarrow> rat" where
  "phrase_bonus sc normalizedQuery body score =
     (if normalizedQuery \<noteq> [] \<and> str_includes (normalizeText sc body) normalizedQuery then score * (3 / 2) else score)"

definition tokens_for :: "script \<Rightarrow> string \<Rightarrow> string \<Rightarrow> string list" where
  "tokens_for sc query body = (if containsCJK sc query then smartTokenize sc body else tokenize sc body)"

definition average_length :: "(nat \<times> string list) list \<Rightarrow> rat" where
  "average_length tokenizedChunks =
     (let totalTokens = sum_list (map (\<lambda>c. length (snd c)) tokenizedChunks);
          avg = of_nat totalTokens / of_nat (length tokenizedChunks)
      in if avg = 0 then 1 else avg)"

definition textBasedSearch :: "(rat \<Rightarrow> rat) \<Rightarrow> script \<Rightarrow> string \<Rightarrow> search_doc list \<Rightarrow> search_result list" where
  "textBasedSearch lg sc query chunks =
     (if trim query = [] \<or> length chunks = 0 then []
      else
        let queryTokens = smartTokenize sc query;
            tokenizedChunks = map (\<lambda>i. (i, tokens_for sc query (doc_text (chunks ! i)))) [0..<length chunks];
            keywordScores = keywordSearch lg queryTokens tokenizedChunks (average_length tokenizedChunks)
                              (doc_frequencies tokenizedChunks);
            normalizedQuery = normalizeText sc query;
            bonusScores = map (\<lambda>(idx, score). (idx, phrase_bonus sc normalizedQuery (doc_text (chunks ! idx)) score)) keywordScores;
            sortedResults = take MAX_RESULTS (sort_key (\<lambda>e. - snd e) bonusScores);
            maxScore = (case sortedResults of [] \<Rightarrow> 1 | e # _ \<Rightarrow> if snd e = 0 then 1 else snd e)
        in map (\<lambda>(idx, score).
                  \<lparr>s_id = doc_id (chunks ! idx), s_text = doc_text (chunks ! idx), s_rrf_score = score / maxScore\<rparr>)
             sortedResults)"

text \<open>Every mode of the store runs this search.\<close>

datatype search_mode = TextMode | EmbeddingMode | HybridMode

definition runSearch :: "(rat \<Rightarrow> rat) \<Rightarrow> script \<Rightarrow> string \<Rightarrow> search_doc list \<Rightarrow> search_mode \<Rightarrow> search_result list" where
  "runSearch lg sc query chunks mode = textBasedSearch lg sc query chunks"

definition runHybridSearch :: "(rat \<Rightarrow> rat) \<Rightarrow> script \<Rightarrow> string \<Rightarrow> search_doc list \<Rightarrow> search_result list" where
  "runHybridSearch lg sc query chunks = textBasedSearch lg sc query chunks"

section \<open>The relevance of a chunk\<close>

text \<open>
  The specification: the relevance of a text for a query among all texts, counted directly. A word of
  the query counts each time it stands in the query.
\<close>

definition docs_with :: "string list list \<Rightarrow> string \<Rightarrow> nat" where
  "docs_with docs w = length (filter (\<lambda>ts. w \<in> set ts) docs)"

definition mean_length :: "string list list \<Rightarrow> rat" where
  "mean_length docs = (let s = sum_list (map length docs) in if s = 0 then 1 else of_nat s / of_nat (length docs))"

definition bm25 :: "(rat \<Rightarrow> rat) \<Rightarrow> string list list \<Rightarrow> string list \<Rightarrow> string list \<Rightarrow> rat" where
  "bm25 lg docs q ts =
     sum_list (map (\<lambda>w. idf_of lg (length docs) (docs_with docs w)
                          * tf_normalized (count_list ts w) (length ts) (mean_length docs))
                 (filter (\<lambda>w. w \<in> set ts) q))"

definition relevance :: "(rat \<Rightarrow> rat) \<Rightarrow> script \<Rightarrow> string \<Rightarrow> search_doc list \<Rightarrow> search_doc \<Rightarrow> rat" where
  "relevance lg sc query chunks d =
     phrase_bonus sc (normalizeText sc query) (doc_text d)
       (bm25 lg (map (tokens_for sc query \<circ> doc_text) chunks) (smartTokenize sc query) (tokens_for sc query (doc_text d)))"

lemma count_of_count_one [simp]: "count_of (count_one k m) j = (if j = k then count_of m k + 1 else count_of m j)"
  by (simp add: count_of_def count_one_def)

lemma count_of_Nil [simp]: "count_of [] j = 0"
  by (simp add: count_of_def)

lemma count_of_fold: "count_of (fold count_one xs m) j = count_of m j + count_list xs j"
  by (induction xs arbitrary: m) auto

lemma count_of_terms [simp]: "count_of (buildTermFrequencyMap ts) w = count_list ts w"
  by (simp add: buildTermFrequencyMap_def count_of_fold)

lemma count_remdups: "count_list (remdups xs) w = (if w \<in> set xs then 1 else 0)"
  by (induction xs) auto

lemma count_of_docs: "count_of (doc_frequencies tcs) w = docs_with (map snd tcs) w"
proof -
  have "count_of (fold (\<lambda>c m. fold count_one (remdups (snd c)) m) tcs m) w = count_of m w + docs_with (map snd tcs) w" for m
    by (induction tcs arbitrary: m) (auto simp: docs_with_def count_of_fold count_remdups)
  then show ?thesis by (simp add: doc_frequencies_def)
qed

lemma average_mean: "tcs \<noteq> [] \<Longrightarrow> average_length tcs = mean_length (map snd tcs)"
  by (auto simp: average_length_def mean_length_def Let_def comp_def)

lemma fold_add:
  fixes f :: "'a \<Rightarrow> rat"
  shows "fold (\<lambda>w s. if P w then s + f w else s) ws s = s + sum_list (map f (filter P ws))"
  by (induction ws arbitrary: s) auto

lemma score_bm25:
  assumes "docs \<noteq> []" and "docs = map snd tcs"
  shows "calculateBM25Score lg q ts (length ts) (average_length tcs) (doc_frequencies tcs) (length tcs) = bm25 lg docs q ts"
proof -
  have "term_score lg (buildTermFrequencyMap ts) (length ts) (average_length tcs) (doc_frequencies tcs) (length tcs)
      = (\<lambda>w s. if w \<in> set ts then s + idf_of lg (length docs) (docs_with docs w) * tf_normalized (count_list ts w) (length ts) (mean_length docs) else s)"
    using assms by (auto simp: term_score_def Let_def fun_eq_iff count_of_docs average_mean count_list_0_iff)
  then show ?thesis by (simp add: calculateBM25Score_def bm25_def fold_add)
qed

text \<open>The scores are positive exactly for the texts with a word of the query.\<close>

lemma mean_length_pos: "docs \<noteq> [] \<Longrightarrow> 0 < mean_length docs"
proof (cases "sum_list (map length docs) = 0")
  case False
  moreover assume "docs \<noteq> []"
  ultimately have "0 < (of_nat (sum_list (map length docs)) :: rat)" and "0 < (of_nat (length docs) :: rat)"
    by (simp_all only: of_nat_0_less_iff neq0_conv length_greater_0_conv simp_thms)
  with False show ?thesis by (simp only: mean_length_def Let_def if_False divide_pos_pos simp_thms)
qed (simp add: mean_length_def)

lemma docs_with_le: "docs_with docs w \<le> length docs"
  by (simp add: docs_with_def)

lemma term_pos:
  assumes "\<And>x. x > 1 \<Longrightarrow> lg x > 0" and "docs \<noteq> []" and "w \<in> set ts"
  shows "0 < idf_of lg (length docs) (docs_with docs w) * tf_normalized (count_list ts w) (length ts) (mean_length docs)"
proof -
  let ?n = "of_nat (length docs) :: rat" and ?d = "of_nat (docs_with docs w) :: rat"
  have "?d \<le> ?n" using docs_with_le [of docs w] by simp
  then have "(?n - ?d + 1 / 2) / (?d + 1 / 2) > 0" by (intro divide_pos_pos) (simp_all add: add_nonneg_pos)
  then have "0 < idf_of lg (length docs) (docs_with docs w)" using assms(1) by (simp add: idf_of_def)
  moreover have "0 < tf_normalized (count_list ts w) (length ts) (mean_length docs)"
  proof -
    have c: "0 < (of_nat (count_list ts w) :: rat)" using assms(3) by (simp add: count_list_0_iff zero_less_iff_neq_zero)
    have "0 \<le> BM25_K1 * (1 - BM25_B + BM25_B * (of_nat (length ts) / mean_length docs))"
      using mean_length_pos [OF assms(2)] by (auto simp: BM25_K1_def BM25_B_def intro!: mult_nonneg_nonneg add_nonneg_nonneg)
    from divide_pos_pos [OF mult_pos_pos [OF c] add_pos_nonneg [OF c this], of "BM25_K1 + 1"]
    show ?thesis unfolding tf_normalized_def by (simp add: BM25_K1_def)
  qed
  ultimately show ?thesis by simp
qed

lemma bm25_pos:
  assumes "\<And>x. x > 1 \<Longrightarrow> lg x > 0" and "docs \<noteq> []"
  shows "0 < bm25 lg docs q ts \<longleftrightarrow> (\<exists>w \<in> set q. w \<in> set ts)"
proof -
  have "(0 < sum_list (map f (filter (\<lambda>w. w \<in> set ts) q))) = (\<exists>w \<in> set q. w \<in> set ts)"
    if "\<And>w. w \<in> set ts \<Longrightarrow> 0 < f w" for f :: "string \<Rightarrow> rat"
  proof (induction q)
    case (Cons w q)
    have "0 \<le> sum_list (map f (filter (\<lambda>w. w \<in> set ts) q))"
      using that by (intro sum_list_nonneg) (auto simp: less_imp_le)
    then show ?case using Cons that [of w] by (auto simp: add_pos_nonneg)
  qed simp
  then show ?thesis using term_pos [of lg docs, OF assms] by (simp add: bm25_def)
qed

text \<open>The chunks with a word of the query, in the order of the files, and ranked.\<close>

definition matching :: "script \<Rightarrow> string \<Rightarrow> search_doc list \<Rightarrow> search_doc list" where
  "matching sc query chunks =
     filter (\<lambda>d. \<exists>w \<in> set (smartTokenize sc query). w \<in> set (tokens_for sc query (doc_text d))) chunks"

definition ranking :: "(rat \<Rightarrow> rat) \<Rightarrow> script \<Rightarrow> string \<Rightarrow> search_doc list \<Rightarrow> search_doc list" where
  "ranking lg sc query chunks = sort_key (\<lambda>d. - relevance lg sc query chunks d) (matching sc query chunks)"

definition result_of :: "(search_doc \<Rightarrow> rat) \<Rightarrow> rat \<Rightarrow> search_doc \<Rightarrow> search_result" where
  "result_of rel best d = \<lparr>s_id = doc_id d, s_text = doc_text d, s_rrf_score = rel d / best\<rparr>"

lemma relevance_pos:
  assumes "\<And>x. x > 1 \<Longrightarrow> lg x > 0" and "chunks \<noteq> []"
  shows "0 < bm25 lg (map (tokens_for sc query \<circ> doc_text) chunks) (smartTokenize sc query) (tokens_for sc query (doc_text d))
    \<longleftrightarrow> (\<exists>w \<in> set (smartTokenize sc query). w \<in> set (tokens_for sc query (doc_text d)))"
  using bm25_pos [of lg "map (tokens_for sc query \<circ> doc_text) chunks"] assms by simp

lemma phrase_bonus_pos [simp]: "0 < phrase_bonus sc nq body x \<longleftrightarrow> 0 < x"
  by (simp add: phrase_bonus_def zero_less_mult_iff)

text \<open>Scoring one tokenized chunk after another is filtering them.\<close>

lemma fold_scores:
  assumes "distinct (map fst tcs)" and "fst ` set m \<inter> fst ` set tcs = {}"
  shows "fold (\<lambda>c scores. if f c > (0 :: rat) then map_set (fst c) (f c) scores else scores) tcs m
    = m @ map (\<lambda>c. (fst c, f c)) (filter (\<lambda>c. f c > 0) tcs)"
  using assms
proof (induction tcs arbitrary: m)
  case (Cons c tcs)
  then have "fst c \<notin> set (map_keys m)" by auto
  then have "map_set (fst c) (f c) m = m @ [(fst c, f c)]" by (rule map_keys_set_absent)
  with Cons show ?case by auto
qed simp

lemma sort_key_map: "sort_key f (map g xs) = map g (sort_key (\<lambda>x. f (g x)) xs)"
proof -
  have ins: "insort_key f (g x) (map g ys) = map g (insort_key (\<lambda>x. f (g x)) x ys)" for x ys
    by (induction ys) auto
  show ?thesis by (induction xs) (simp_all add: ins comp_def)
qed

lemma search_ranking:
  assumes "\<And>x. x > 1 \<Longrightarrow> lg x > 0" and "trim query \<noteq> []" and "chunks \<noteq> []"
  shows "textBasedSearch lg sc query chunks =
    (let top = take MAX_RESULTS (ranking lg sc query chunks);
         best = (case top of [] \<Rightarrow> 1 | d # _ \<Rightarrow> relevance lg sc query chunks d)
     in map (result_of (relevance lg sc query chunks) best) top)"
proof -
  let ?n = "length chunks" and ?q = "smartTokenize sc query" and ?rel = "relevance lg sc query chunks"
  let ?ts = "\<lambda>i. tokens_for sc query (doc_text (chunks ! i))"
  let ?tcs = "map (\<lambda>i. (i, ?ts i)) [0..<?n]" and ?docs = "map (tokens_for sc query \<circ> doc_text) chunks"
  let ?hit = "\<lambda>d. \<exists>w \<in> set ?q. w \<in> set (tokens_for sc query (doc_text d))"
  let ?hits = "filter (?hit \<circ> (!) chunks) [0..<?n]" and ?score = "\<lambda>ts. bm25 lg ?docs ?q ts"
  have docs: "?docs = map snd ?tcs" by (rule nth_equalityI) simp_all
  have "map ((!) chunks) ?hits = filter ?hit (map ((!) chunks) [0..<?n])" by (rule filter_map [symmetric])
  then have hits: "map ((!) chunks) ?hits = matching sc query chunks" unfolding matching_def map_nth .
  have pos: "0 < ?score (?ts i) \<longleftrightarrow> ?hit (chunks ! i)" for i
    by (rule relevance_pos [of lg chunks sc query, OF assms(1,3)])
  have score: "calculateBM25Score lg ?q ts (length ts) (average_length ?tcs) (doc_frequencies ?tcs) (length ?tcs) = ?score ts" for ts
    by (rule score_bm25 [OF _ docs]) (simp add: assms(3))
  have step: "keyword_step lg ?q (average_length ?tcs) (doc_frequencies ?tcs) (length ?tcs)
      = (\<lambda>c scores. if ?score (snd c) > 0 then map_set (fst c) (?score (snd c)) scores else scores)"
    by (intro ext) (simp only: keyword_step_def Let_def score)
  have "keywordSearch lg ?q ?tcs (average_length ?tcs) (doc_frequencies ?tcs)
      = map (\<lambda>c. (fst c, ?score (snd c))) (filter (\<lambda>c. ?score (snd c) > 0) ?tcs)"
  proof (cases "?q = []")
    case True
    then show ?thesis by (simp add: keywordSearch_def bm25_def)
  next
    case False
    have "distinct (map fst ?tcs)" by (simp add: comp_def)
    then have "fold (\<lambda>c scores. if ?score (snd c) > 0 then map_set (fst c) (?score (snd c)) scores else scores) ?tcs []
        = map (\<lambda>c. (fst c, ?score (snd c))) (filter (\<lambda>c. ?score (snd c) > 0) ?tcs)"
      using fold_scores [of ?tcs "[]" "\<lambda>c. ?score (snd c)"] by simp
    with False show ?thesis by (simp only: keywordSearch_def length_0_conv if_False step)
  qed
  also have "\<dots> = map (\<lambda>i. (i, ?score (?ts i))) ?hits"
    by (simp add: filter_map comp_def pos [unfolded comp_def])
  finally have kw: "keywordSearch lg ?q ?tcs (average_length ?tcs) (doc_frequencies ?tcs) = map (\<lambda>i. (i, ?score (?ts i))) ?hits" .
  have bonus: "map (\<lambda>(idx, score). (idx, phrase_bonus sc (normalizeText sc query) (doc_text (chunks ! idx)) score))
      (map (\<lambda>i. (i, ?score (?ts i))) ?hits) = map (\<lambda>i. (i, ?rel (chunks ! i))) ?hits"
    by (simp add: relevance_def)
  let ?top = "take MAX_RESULTS (sort_key (\<lambda>i. - ?rel (chunks ! i)) ?hits)"
  have top: "take MAX_RESULTS (sort_key (\<lambda>e. - snd e) (map (\<lambda>i. (i, ?rel (chunks ! i))) ?hits)) = map (\<lambda>i. (i, ?rel (chunks ! i))) ?top"
    by (simp add: sort_key_map take_map)
  have rank: "take MAX_RESULTS (ranking lg sc query chunks) = map ((!) chunks) ?top"
    by (simp only: ranking_def hits [symmetric] sort_key_map take_map)
  have rel_pos: "?rel (chunks ! i) \<noteq> 0" if "i \<in> set ?hits" for i
  proof -
    have "0 < ?score (?ts i)" using that pos [of i] by simp
    then have "0 < ?rel (chunks ! i)" by (simp add: relevance_def)
    then show ?thesis by simp
  qed
  have ne: "(trim query = [] \<or> length chunks = 0) = False" using assms(2,3) by simp
  have found: "textBasedSearch lg sc query chunks =
      map (\<lambda>(idx, score). \<lparr>s_id = doc_id (chunks ! idx), s_text = doc_text (chunks ! idx), s_rrf_score = score
            / (case map (\<lambda>i. (i, ?rel (chunks ! i))) ?top of [] \<Rightarrow> 1 | e # _ \<Rightarrow> if snd e = 0 then 1 else snd e)\<rparr>)
        (map (\<lambda>i. (i, ?rel (chunks ! i))) ?top)"
    by (simp only: textBasedSearch_def Let_def kw bonus top ne if_False)
  show ?thesis
  proof (cases ?top)
    case Nil
    then show ?thesis by (simp only: found rank Let_def list.map)
  next
    case (Cons i rest)
    have "i \<in> set ?top" unfolding Cons by (rule list.set_intros(1))
    then have "i \<in> set (sort_key (\<lambda>i. - ?rel (chunks ! i)) ?hits)" by (rule in_set_takeD)
    then have "i \<in> set ?hits" unfolding set_sort .
    then have "?rel (chunks ! i) \<noteq> 0" by (rule rel_pos)
    then show ?thesis unfolding found rank Cons by (simp add: result_of_def)
  qed
qed

lemma ranking_facts:
  assumes "\<And>x. x > 1 \<Longrightarrow> lg x > 0" and "chunks \<noteq> []"
  shows "mset (ranking lg sc query chunks) = mset (matching sc query chunks)"
    and "set (ranking lg sc query chunks) = set (matching sc query chunks)"
    and "sorted_wrt (\<lambda>a b. relevance lg sc query chunks b \<le> relevance lg sc query chunks a) (ranking lg sc query chunks)"
    and "d \<in> set (matching sc query chunks) \<Longrightarrow> 0 < relevance lg sc query chunks d"
proof -
  show "mset (ranking lg sc query chunks) = mset (matching sc query chunks)" and
    "set (ranking lg sc query chunks) = set (matching sc query chunks)" by (simp_all add: ranking_def)
  have "sorted (map (\<lambda>d. - relevance lg sc query chunks d) (ranking lg sc query chunks))" by (simp add: ranking_def)
  then show "sorted_wrt (\<lambda>a b. relevance lg sc query chunks b \<le> relevance lg sc query chunks a) (ranking lg sc query chunks)"
    by (simp add: sorted_map)
  show "0 < relevance lg sc query chunks d" if "d \<in> set (matching sc query chunks)"
    using that relevance_pos [of lg chunks sc query d, OF assms] by (simp add: relevance_def matching_def)
qed

lemma ranking_best:
  assumes "\<And>x. x > 1 \<Longrightarrow> lg x > 0" and "chunks \<noteq> []" and "d \<in> set (ranking lg sc query chunks)"
  shows "relevance lg sc query chunks d \<le> relevance lg sc query chunks (hd (ranking lg sc query chunks))"
  using ranking_facts(3) [where lg = lg and chunks = chunks and sc = sc and query = query, OF assms(1,2)] assms(3) by (cases "ranking lg sc query chunks") auto

section \<open>Properties\<close>

text \<open>
  C12: the search refines its specification: for a logarithm that is positive above 1, the results of every search
  mode are the twenty most relevant chunks, where relevance is the BM25 sum counted directly over
  the texts with half as much again for the whole phrase, most relevant first, ties in the order of
  the files, the scores divided by the best one.
\<close>

theorem search_refines_ranking:
  assumes "\<And>x. x > 1 \<Longrightarrow> lg x > 0" and "trim query \<noteq> []" and "chunks \<noteq> []"
  shows "runSearch lg sc query chunks mode =
      map (\<lambda>d. \<lparr>s_id = doc_id d, s_text = doc_text d,
                 s_rrf_score = relevance lg sc query chunks d / relevance lg sc query chunks (hd (ranking lg sc query chunks))\<rparr>)
        (take 20 (ranking lg sc query chunks))"
proof -
  have eq: "take 20 (ranking lg sc query chunks) = d # ds \<Longrightarrow> hd (ranking lg sc query chunks) = d" for d ds
    by (cases "ranking lg sc query chunks") simp_all
  have "runSearch lg sc query chunks mode = textBasedSearch lg sc query chunks" by (simp add: runSearch_def)
  also have "\<dots> = (let top = take MAX_RESULTS (ranking lg sc query chunks);
         best = (case top of [] \<Rightarrow> 1 | d # _ \<Rightarrow> relevance lg sc query chunks d)
     in map (result_of (relevance lg sc query chunks) best) top)"
    by (rule search_ranking [of lg query chunks sc, OF assms])
  finally show ?thesis
    by (cases "take 20 (ranking lg sc query chunks)") (auto simp: MAX_RESULTS_def Let_def result_of_def dest: eq)
qed

definition example_log :: "rat \<Rightarrow> rat" where
  "example_log x = x - 1"

definition example_docs :: "search_doc list" where
  "example_docs = [Plain_Chunk (chunk_at 0 0 9) ''one apple'', Plain_Chunk (chunk_at 1 9 14) ''pears'']"

lemma search_refines_ranking_witness:
  "\<exists>rel. runSearch example_log latin1_script ''apple'' example_docs HybridMode =
     map (\<lambda>d. \<lparr>s_id = doc_id d, s_text = doc_text d,
        s_rrf_score = rel d / rel (hd (ranking example_log latin1_script ''apple'' example_docs))\<rparr>)
       (take 20 (ranking example_log latin1_script ''apple'' example_docs))"
proof -
  have "trim ''apple'' \<noteq> []" by (simp add: trim_def is_ws_def)
  then show ?thesis
    using search_refines_ranking [of example_log "''apple''" example_docs latin1_script HybridMode]
    by (auto simp: example_log_def example_docs_def)
qed

text \<open>
  What a search returns is right and complete: at most twenty results, each a chunk that shares a word with
  the query, with scores above 0 and at most 1 in descending order and 1 for the first; every chunk that shares a word
  with the query is among them unless there are more than twenty such chunks.
\<close>

theorem search_sound_and_complete:
  assumes "\<And>x. x > 1 \<Longrightarrow> lg x > 0" and "trim query \<noteq> []" and "chunks \<noteq> []"
    and "found = textBasedSearch lg sc query chunks"
  shows "length found = min 20 (length (matching sc query chunks))
    \<and> (\<forall>r \<in> set found. (\<exists>d \<in> set (matching sc query chunks). s_id r = doc_id d \<and> s_text r = doc_text d)
           \<and> 0 < s_rrf_score r \<and> s_rrf_score r \<le> 1)
    \<and> sorted_wrt (\<lambda>r r'. s_rrf_score r' \<le> s_rrf_score r) found
    \<and> (found \<noteq> [] \<longrightarrow> s_rrf_score (hd found) = 1)
    \<and> (length (matching sc query chunks) \<le> 20 \<longrightarrow> mset (map s_id found) = mset (map doc_id (matching sc query chunks)))"
proof -
  let ?rk = "ranking lg sc query chunks" and ?rel = "relevance lg sc query chunks" and ?m = "matching sc query chunks"
  define best where "best = (case take MAX_RESULTS ?rk of [] \<Rightarrow> 1 | d # _ \<Rightarrow> ?rel d)"
  have found: "found = map (result_of ?rel best) (take 20 ?rk)"
    using search_ranking [of lg query chunks sc, OF assms(1-3)] by (simp add: assms(4) Let_def best_def MAX_RESULTS_def)
  have facts: "mset ?rk = mset ?m" "set ?rk = set ?m" "sorted_wrt (\<lambda>a b. ?rel b \<le> ?rel a) ?rk" and pos: "\<And>d. d \<in> set ?m \<Longrightarrow> 0 < ?rel d"
    using ranking_facts [where lg = lg and chunks = chunks and sc = sc and query = query, OF assms(1,3)] by blast+
  have best: "0 < best \<and> ?rel d \<le> best" if "d \<in> set (take 20 ?rk)" for d
    using that ranking_best [where lg = lg and chunks = chunks and d = d and sc = sc and query = query, OF assms(1,3) in_set_takeD [OF that]] pos facts(2)
    by (cases ?rk) (auto simp: best_def MAX_RESULTS_def)
  have len: "length ?rk = length ?m" using facts(1) by (metis mset_eq_length)
  have "sorted_wrt (\<lambda>a b. ?rel b \<le> ?rel a) (take 20 ?rk)" using facts(3) by (rule sorted_wrt_take)
  then have sorted: "sorted_wrt (\<lambda>a b. ?rel b / best \<le> ?rel a / best) (take 20 ?rk)"
    by (rule sorted_wrt_mono_rel [rotated]) (use best in \<open>auto intro: divide_right_mono less_imp_le\<close>)
  have one: "?rel d \<noteq> 0" if "take 20 ?rk = d # ds" for d ds
    using best [of d] pos [of d] that facts(2) in_set_takeD [of d 20 ?rk] by auto
  show ?thesis
  proof (intro conjI ballI impI)
    show "length found = min 20 (length ?m)" by (simp add: found len)
  next
    fix r assume "r \<in> set found"
    then obtain d where d: "d \<in> set (take 20 ?rk)" "r = result_of ?rel best d" by (auto simp: found)
    then have "d \<in> set ?m" using facts(2) in_set_takeD by fastforce
    with d show "\<exists>d \<in> set ?m. s_id r = doc_id d \<and> s_text r = doc_text d" by (auto simp: result_of_def)
    show "0 < s_rrf_score r" using best [OF d(1)] pos [OF \<open>d \<in> set ?m\<close>] by (simp add: d(2) result_of_def)
    show "s_rrf_score r \<le> 1" using best [OF d(1)] by (simp add: d(2) result_of_def)
  next
    show "sorted_wrt (\<lambda>r r'. s_rrf_score r' \<le> s_rrf_score r) found"
      using sorted by (simp add: found sorted_wrt_map result_of_def)
  next
    assume "found \<noteq> []"
    then show "s_rrf_score (hd found) = 1"
      using one by (cases "take 20 ?rk") (auto simp: found best_def MAX_RESULTS_def result_of_def)
  next
    assume "length ?m \<le> 20"
    then have "take 20 ?rk = ?rk" by (simp add: len)
    then have "map s_id found = map doc_id ?rk" by (simp add: found result_of_def)
    then show "mset (map s_id found) = mset (map doc_id ?m)" using facts(1) by (simp add: mset_map)
  qed
qed

lemma search_sound_and_complete_witness:
  "mset (map s_id (textBasedSearch example_log latin1_script ''apple'' example_docs))
     = mset (map doc_id (matching latin1_script ''apple'' example_docs))"
proof -
  have "trim ''apple'' \<noteq> []" by (simp add: trim_def is_ws_def)
  moreover have "length (matching latin1_script ''apple'' example_docs) \<le> 20"
    unfolding matching_def by (rule order.trans [OF length_filter_le]) (simp add: example_docs_def)
  ultimately show ?thesis
    using search_sound_and_complete [of example_log "''apple''" example_docs _ latin1_script]
    by (auto simp: example_log_def example_docs_def)
qed

end
