(* ===== verification/File_Store.thy ===== *)
theory File_Store
  imports Auth_State File_Utils Crypto
begin

text \<open>
  The file store (\<open>src/gpt_frontend/src/store/fileStore\<close>): its state and search index (\<open>index.ts\<close>),
  reading and navigating (\<open>actions/read.ts\<close>), creating, uploading, renaming and deleting
  (\<open>actions/write.ts\<close>). The canister's answers are arguments; an argument \<open>other\<close> is what the rest
  of the program does to the store while an answer is awaited. The upload queue is in another theory.
\<close>

section \<open>The state\<close>

datatype fs_status = FsIdle | FsLoading | FsError

datatype hydration_status = NotHydrated | Hydrating | Hydrated

record folder_contents =
  fc_folders :: "folder_id list"
  fc_files :: "file_id list"

record file_state =
  fs_files :: "(file_id, file_item) jsmap"
  fs_folders :: "(folder_id, folder) jsmap"
  folderContents :: "(folder_id, folder_contents) jsmap"
  rootFolderId :: "folder_id option"
  currentFolderId :: "folder_id option"
  fs_history :: "(folder_id \<times> string) list"
  fs_status :: fs_status
  fs_error :: "string option"
  fileProcessingJobs :: "(string, upload_job) jsmap"
  searchableChunks :: "(file_id, searchable_chunk list) jsmap"
  indexingStatus :: indexing_status
  indexingProgress :: "indexing_progress option"
  indexingError :: "string option"
  isIndexStale :: bool
  hydrationStatus :: hydration_status
  filesNeedingEmbeddings :: "file_id list"

definition initialFileState :: file_state where
  "initialFileState =
     \<lparr>fs_files = [], fs_folders = [], folderContents = [], rootFolderId = None, currentFolderId = None, fs_history = [],
      fs_status = FsIdle, fs_error = None, fileProcessingJobs = [], searchableChunks = [], indexingStatus = IdxIdle,
      indexingProgress = None, indexingError = None, isIndexStale = False, hydrationStatus = NotHydrated,
      filesNeedingEmbeddings = []\<rparr>"

text \<open>The guard \<open>!authClient || !userCanisterId\<close>.\<close>

definition has_session :: "auth_state \<Rightarrow> bool" where
  "has_session auth \<longleftrightarrow> au_authClient auth \<noteq> None \<and> truthy_str (au_userCanisterId auth)"

section \<open>Reading\<close>

record folder_answer =
  fa_folderId :: string
  fa_parentFolderId :: "string option"
  fa_folderName :: string
  fa_folders :: "folder list"
  fa_files :: "file_item list"

definition answer_parent :: "folder_answer \<Rightarrow> folder_id option" where
  "answer_parent r =
     (if truthy_str (fa_parentFolderId r) then Some (toFolderId (the (fa_parentFolderId r))) else None)"

text \<open>The update of the store with the content of a folder.\<close>

definition store_folder :: "bool \<Rightarrow> folder_answer \<Rightarrow> file_state \<Rightarrow> file_state" where
  "store_folder isInitialHydration response state =
     (let k = toFolderId (fa_folderId response);
          parentIdNum = answer_parent response;
          finalRootId = (if isInitialHydration \<and> parentIdNum = None then Some k else None)
      in state\<lparr>
           fs_files := map_set_all fi_id id (fa_files response) (fs_files state),
           fs_folders := map_set k \<lparr>fo_id = k, fo_name = fa_folderName response, fo_parentId = parentIdNum\<rparr>
                           (map_set_all fo_id id (fa_folders response) (fs_folders state)),
           folderContents := map_set k \<lparr>fc_folders = map fo_id (fa_folders response), fc_files = map fi_id (fa_files response)\<rparr>
                               (folderContents state),
           fs_status := FsIdle,
           rootFolderId := or_else finalRootId (rootFolderId state),
           currentFolderId := Some k,
           fs_history := (if isInitialHydration \<or> length (fs_history state) = 0 then [(k, fa_folderName response)]
                          else fs_history state)\<rparr>)"

definition fetch_error :: "folder_id option \<Rightarrow> string \<Rightarrow> string" where
  "fetch_error folderId msg =
     ''Failed to fetch content for folder '' @ (case folderId of Some f \<Rightarrow> f | None \<Rightarrow> ''Home'') @ '': '' @ msg"

text \<open>Up to the call: \<open>None\<close> when no call is made. Then from its answer on.\<close>

definition fetch_folder_call :: "auth_state \<Rightarrow> file_state \<Rightarrow> file_state option \<times> file_state" where
  "fetch_folder_call auth state =
     (if \<not> has_session auth then (None, state\<lparr>fs_error := Some ''Authentication required.'', fs_status := FsError\<rparr>)
      else if hydrationStatus state = Hydrating then (None, state)
      else let s = state\<lparr>fs_status := FsLoading, fs_error := None, hydrationStatus := Hydrating\<rparr> in (Some s, s))"

definition fetch_folder_answer :: "bool \<Rightarrow> folder_id option \<Rightarrow> string + folder_answer \<Rightarrow> file_state \<Rightarrow> file_state" where
  "fetch_folder_answer isInitialHydration folderId answer state =
     (case answer of
        Inl msg \<Rightarrow> state\<lparr>hydrationStatus := NotHydrated, fs_error := Some (fetch_error folderId msg), fs_status := FsError\<rparr>
      | Inr response \<Rightarrow>
          let s = store_folder isInitialHydration response state
          in if isInitialHydration then s\<lparr>hydrationStatus := Hydrated\<rparr> else s)"

definition fetchFolderContents ::
  "auth_state \<Rightarrow> folder_id option \<Rightarrow> string + folder_answer \<Rightarrow> (file_state \<Rightarrow> file_state) \<Rightarrow> file_state \<Rightarrow> file_state" where
  "fetchFolderContents auth folderId answer other state =
     (case fetch_folder_call auth state of
        (None, s) \<Rightarrow> s
      | (Some s, _) \<Rightarrow> fetch_folder_answer (rootFolderId s = None) folderId answer (other s))"

text \<open>
  The loop of \<open>navigateToPath\<close>, from a folder up to the root: the folders the store knows, else the
  canister's answer. It follows parents as long as there are any, so it may not end; \<open>None\<close> is
  that \<open>fuel\<close> steps were not enough.
\<close>

definition step_up ::
  "(folder_id, folder) jsmap \<Rightarrow> (folder_id \<Rightarrow> string + folder_answer) \<Rightarrow> folder_id \<Rightarrow> string + (string \<times> folder_id option)" where
  "step_up known fetch currentId =
     (case map_get known currentId of
        Some f \<Rightarrow>
          if fo_name f \<noteq> [] then Inr (fo_name f, fo_parentId f)
          else map_sum_r (\<lambda>r. (fa_folderName r, answer_parent r)) (fetch currentId)
      | None \<Rightarrow> map_sum_r (\<lambda>r. (fa_folderName r, answer_parent r)) (fetch currentId))"

fun path_to_root ::
  "nat \<Rightarrow> (folder_id, folder) jsmap \<Rightarrow> (folder_id \<Rightarrow> string + folder_answer) \<Rightarrow> folder_id option \<Rightarrow> (folder_id \<times> string) list
     \<Rightarrow> (string + (folder_id \<times> string) list) option" where
  "path_to_root fuel known fetch None history = Some (Inr history)"
| "path_to_root 0 known fetch (Some currentId) history = None"
| "path_to_root (Suc fuel) known fetch (Some currentId) history =
     (case step_up known fetch currentId of
        Inl e \<Rightarrow> Some (Inl e)
      | Inr (folderName, parentId) \<Rightarrow> path_to_root fuel known fetch parentId ((currentId, folderName) # history))"

datatype path_item = PathFolder folder_id | PathFile file_id folder_id

definition target_folder :: "path_item \<Rightarrow> folder_id" where
  "target_folder item = (case item of PathFolder f \<Rightarrow> f | PathFile _ p \<Rightarrow> p)"

text \<open>
  \<open>navigateToPath\<close>; \<open>resolve\<close> is the answer of \<open>getItemByPath\<close>, the \<open>again\<close> arguments those of the
  final \<open>fetchFolderContents\<close>.
\<close>

definition navigateToPath ::
  "nat \<Rightarrow> auth_state \<Rightarrow> string + path_item \<Rightarrow> (folder_id \<Rightarrow> string + folder_answer) \<Rightarrow> (file_state \<Rightarrow> file_state)
     \<Rightarrow> auth_state \<Rightarrow> (folder_id option \<Rightarrow> string + folder_answer) \<Rightarrow> (file_state \<Rightarrow> file_state) \<Rightarrow> file_state
     \<Rightarrow> file_state option" where
  "navigateToPath fuel auth resolve fetch other auth' again other' state =
     (if \<not> has_session auth then Some (state\<lparr>fs_error := Some ''Authentication required.'', fs_status := FsError\<rparr>)
      else if fs_status state = FsLoading then Some state
      else
        let s1 = other (state\<lparr>fs_status := FsLoading, fs_error := None\<rparr>);
            fail = (\<lambda>msg. fetchFolderContents auth' None (again None) other'
                      (s1\<lparr>fs_error := Some (''Failed to navigate to path: '' @ msg), fs_status := FsError\<rparr>))
        in case resolve of
             Inl msg \<Rightarrow> Some (fail msg)
           | Inr item \<Rightarrow>
               let targetFolderId = target_folder item in
               (case path_to_root fuel (fs_folders s1) fetch (Some targetFolderId) [] of
                  None \<Rightarrow> None
                | Some (Inl msg) \<Rightarrow> Some (fail msg)
                | Some (Inr history) \<Rightarrow>
                    Some (fetchFolderContents auth' (Some targetFolderId) (again (Some targetFolderId)) other'
                            (s1\<lparr>fs_history := history\<rparr>))))"

definition getFileContent :: "auth_state \<Rightarrow> string + (bytes \<times> string) \<Rightarrow> (bytes \<times> string) option" where
  "getFileContent auth answer =
     (if \<not> has_session auth then None else case answer of Inl _ \<Rightarrow> None | Inr c \<Rightarrow> Some c)"

text \<open>\<open>navigateToFolder\<close>, and whether it starts a fetch.\<close>

definition navigateToFolder :: "folder_id \<Rightarrow> file_state \<Rightarrow> file_state \<times> bool" where
  "navigateToFolder folderId state =
     (case map_get (fs_folders state) folderId of
        None \<Rightarrow> (state, False)
      | Some folder \<Rightarrow>
          (state\<lparr>currentFolderId := Some folderId, fs_history := fs_history state @ [(folderId, fo_name folder)]\<rparr>,
           \<not> map_has (folderContents state) folderId))"

definition navigateToHistoryIndex :: "int \<Rightarrow> file_state \<Rightarrow> file_state" where
  "navigateToHistoryIndex index state =
     (if index < 0 \<or> index \<ge> int (length (fs_history state)) then state
      else let target = fs_history state ! nat index
           in state\<lparr>currentFolderId := Some (fst target), fs_history := take (nat index + 1) (fs_history state)\<rparr>)"

definition navigateBack :: "file_state \<Rightarrow> file_state" where
  "navigateBack state =
     (if length (fs_history state) > 1 then navigateToHistoryIndex (int (length (fs_history state)) - 2) state else state)"

section \<open>Writing\<close>

text \<open>The content of a folder, empty when it was never fetched.\<close>

definition contents_of :: "file_state \<Rightarrow> folder_id \<Rightarrow> folder_contents" where
  "contents_of state p = (case map_get (folderContents state) p of Some c \<Rightarrow> c | None \<Rightarrow> \<lparr>fc_folders = [], fc_files = []\<rparr>)"

definition store_new_folder :: "folder \<Rightarrow> folder_id \<Rightarrow> file_state \<Rightarrow> file_state" where
  "store_new_folder newFolder parentId state =
     (let parentContent = contents_of state parentId
      in state\<lparr>fs_folders := map_set (fo_id newFolder) newFolder (fs_folders state),
               folderContents := (if fo_id newFolder \<notin> set (fc_folders parentContent)
                                  then map_set parentId (parentContent\<lparr>fc_folders := fc_folders parentContent @ [fo_id newFolder]\<rparr>)
                                         (folderContents state)
                                  else folderContents state),
               fs_status := FsIdle\<rparr>)"

text \<open>Up to the refetch of the parent, which \<open>createFolder\<close> starts when the result says so.\<close>

definition createFolder ::
  "auth_state \<Rightarrow> string \<Rightarrow> folder_id \<Rightarrow> string + string \<Rightarrow> (file_state \<Rightarrow> file_state) \<Rightarrow> file_state \<Rightarrow> file_state \<times> folder_id option" where
  "createFolder auth name parentId answer other state =
     (if \<not> has_session auth then (state, None)
      else
        let s1 = other (state\<lparr>fs_status := FsLoading, fs_error := None\<rparr>) in
        (case answer of
           Inr newId \<Rightarrow>
             (store_new_folder \<lparr>fo_id = toFolderId newId, fo_name = name, fo_parentId = Some parentId\<rparr> parentId s1, Some parentId)
         | Inl msg \<Rightarrow> (s1\<lparr>fs_error := Some (''Failed to create folder: '' @ msg), fs_status := FsError\<rparr>, None)))"

record upload_request =
  ur_name :: string
  ur_parentFolderId :: folder_id
  ur_mimeType :: string
  ur_content :: bytes
  ur_chunks :: "text_chunk list option"

definition upload_request_of :: "js_file \<Rightarrow> bytes \<Rightarrow> text_chunk list option \<Rightarrow> folder_id \<Rightarrow> upload_request" where
  "upload_request_of file content chunks parentId =
     \<lparr>ur_name = f_name file, ur_parentFolderId = parentId, ur_mimeType = f_type file, ur_content = content,
      ur_chunks = chunks\<rparr>"

definition uploaded_item :: "instant \<Rightarrow> js_file \<Rightarrow> text_chunk list option \<Rightarrow> folder_id \<Rightarrow> file_id \<Rightarrow> file_item" where
  "uploaded_item now file chunks parentId newId =
     \<lparr>fi_id = toFileId newId, fi_name = f_name file, fi_size = f_size file, fi_uploadedAt = now, fi_mimeType = f_type file,
      fi_parentId = parentId, fi_chunks = (case chunks of Some cs \<Rightarrow> cs | None \<Rightarrow> [])\<rparr>"

definition store_uploads :: "file_item list \<Rightarrow> folder_id \<Rightarrow> file_state \<Rightarrow> file_state" where
  "store_uploads uploadedItems parentId state =
     (let currentContent = contents_of state parentId;
          newFileList = fold (\<lambda>item l. if fi_id item \<in> set l then l else l @ [fi_id item]) uploadedItems (fc_files currentContent)
      in state\<lparr>fs_files := map_set_all fi_id id uploadedItems (fs_files state),
               folderContents := map_set parentId (currentContent\<lparr>fc_files := newFileList\<rparr>) (folderContents state)\<rparr>)"

text \<open>\<open>read\<close> reads a file, \<open>call\<close> is the upload of one file, answering its identifier.\<close>

definition uploadFiles ::
  "auth_state \<Rightarrow> instant \<Rightarrow> (js_file \<Rightarrow> string + bytes) \<Rightarrow> (upload_request \<Rightarrow> string + string) \<Rightarrow> (file_state \<Rightarrow> file_state)
     \<Rightarrow> (js_file \<times> text_chunk list option) list \<Rightarrow> folder_id \<Rightarrow> file_state \<Rightarrow> string + file_state" where
  "uploadFiles auth now read call other filesToUpload parentId state =
     (if \<not> has_session auth then Inr state
      else
        map_sum_r
          (\<lambda>uploadedItems.
             let s = store_uploads uploadedItems parentId (other state)
             in if list_ex (\<lambda>(file, _). isTextMimeType (f_type file) (f_name file)) filesToUpload
                then s\<lparr>isIndexStale := True\<rparr> else s)
          (traverse (\<lambda>(file, chunks).
               bind_sum (read file) (\<lambda>content.
               map_sum_r (uploaded_item now file chunks parentId) (call (upload_request_of file content chunks parentId))))
             filesToUpload))"

datatype item_kind = FileKind | FolderKind

definition item_parent :: "file_state \<Rightarrow> string \<times> item_kind \<Rightarrow> folder_id option" where
  "item_parent state it =
     (case snd it of
        FileKind \<Rightarrow> map_option fi_parentId (map_get (fs_files state) (fst it))
      | FolderKind \<Rightarrow> (case map_get (fs_folders state) (fst it) of Some f \<Rightarrow> fo_parentId f | None \<Rightarrow> None))"

definition rename_locally :: "string \<Rightarrow> item_kind \<Rightarrow> string \<Rightarrow> file_state \<Rightarrow> file_state" where
  "rename_locally i kind newName state =
     (case kind of
        FileKind \<Rightarrow>
          (case map_get (fs_files state) i of
             Some file \<Rightarrow> state\<lparr>fs_status := FsIdle, fs_files := map_set i (file\<lparr>fi_name := newName\<rparr>) (fs_files state),
                                searchableChunks := map_del i (searchableChunks state), isIndexStale := True\<rparr>
           | None \<Rightarrow> state\<lparr>fs_status := FsIdle\<rparr>)
      | FolderKind \<Rightarrow>
          (case map_get (fs_folders state) i of
             Some folder \<Rightarrow> state\<lparr>fs_status := FsIdle, fs_folders := map_set i (folder\<lparr>fo_name := newName\<rparr>) (fs_folders state)\<rparr>
           | None \<Rightarrow> state\<lparr>fs_status := FsIdle\<rparr>))"

definition renameItem ::
  "auth_state \<Rightarrow> string \<Rightarrow> item_kind \<Rightarrow> string \<Rightarrow> string + unit \<Rightarrow> (file_state \<Rightarrow> file_state) \<Rightarrow> file_state
     \<Rightarrow> file_state \<times> folder_id option" where
  "renameItem auth i kind newName answer other state =
     (if \<not> has_session auth then (state, None)
      else case item_parent state (i, kind) of
        None \<Rightarrow> (state, None)
      | Some parentId \<Rightarrow>
          let s1 = other (state\<lparr>fs_status := FsLoading, fs_error := None\<rparr>) in
          (case answer of
             Inr _ \<Rightarrow> (rename_locally i kind newName s1, Some parentId)
           | Inl msg \<Rightarrow> (s1\<lparr>fs_error := Some (''Failed to rename item: '' @ msg), fs_status := FsError\<rparr>, None)))"

definition delete_one :: "string \<times> item_kind \<Rightarrow> file_state \<Rightarrow> file_state" where
  "delete_one it state =
     (case snd it of
        FileKind \<Rightarrow> state\<lparr>fs_files := map_del (fst it) (fs_files state),
                         searchableChunks := map_del (fst it) (searchableChunks state)\<rparr>
      | FolderKind \<Rightarrow> state\<lparr>fs_folders := map_del (fst it) (fs_folders state)\<rparr>)"

definition delete_locally :: "(string \<times> item_kind) list \<Rightarrow> folder_id option \<Rightarrow> file_state \<Rightarrow> file_state" where
  "delete_locally itemsToDelete parentId state =
     (let indexChanged = list_ex (\<lambda>(i, kind). kind = FileKind \<and> map_has (searchableChunks state) i) itemsToDelete;
          s = (fold delete_one itemsToDelete state)\<lparr>fs_status := FsIdle, isIndexStale := indexChanged \<or> isIndexStale state\<rparr>
      in case parentId of
           None \<Rightarrow> s
         | Some p \<Rightarrow>
             (case map_get (folderContents state) p of
                None \<Rightarrow> s
              | Some content \<Rightarrow>
                  s\<lparr>folderContents := map_set p
                      \<lparr>fc_folders = filter (\<lambda>fid. (fid, FolderKind) \<notin> set itemsToDelete) (fc_folders content),
                       fc_files = filter (\<lambda>fid. (fid, FileKind) \<notin> set itemsToDelete) (fc_files content)\<rparr>
                      (folderContents state)\<rparr>))"

definition deleteItems ::
  "auth_state \<Rightarrow> (string \<times> item_kind) list \<Rightarrow> string + unit \<Rightarrow> (file_state \<Rightarrow> file_state) \<Rightarrow> file_state
     \<Rightarrow> file_state \<times> folder_id option" where
  "deleteItems auth itemsToDelete answer other state =
     (if \<not> has_session auth \<or> length itemsToDelete = 0 then (state, None)
      else
        let parentId = item_parent state (hd itemsToDelete);
            s1 = other (state\<lparr>fs_status := FsLoading, fs_error := None\<rparr>)
        in case answer of
             Inr _ \<Rightarrow> (delete_locally itemsToDelete parentId s1, parentId)
           | Inl msg \<Rightarrow> (s1\<lparr>fs_error := Some (''Deletion failed: '' @ msg), fs_status := FsError\<rparr>, None))"

section \<open>The search index\<close>

definition fileHasValidEmbeddings :: "file_item \<Rightarrow> bool" where
  "fileHasValidEmbeddings file \<longleftrightarrow>
     length (fi_chunks file) \<noteq> 0 \<and> list_ex (\<lambda>k. length (k_embedding k) > 0 \<and> list_ex (\<lambda>v. v \<noteq> 0) (k_embedding k)) (fi_chunks file)"

definition is_text_file :: "file_item \<Rightarrow> bool" where
  "is_text_file file = isTextMimeType (fi_mimeType file) (fi_name file)"

definition enriched_chunk :: "file_item \<Rightarrow> string \<Rightarrow> text_chunk \<Rightarrow> searchable_chunk" where
  "enriched_chunk file body chunk =
     \<lparr>k_chunk_index = k_chunk_index chunk, k_start_char = k_start_char chunk, k_end_char = k_end_char chunk,
      k_embedding = k_embedding chunk, sc_id = fi_id file @ ''-'' @ show_nat (k_chunk_index chunk), sc_fileId = fi_id file,
      sc_text = substring (k_start_char chunk) (k_end_char chunk) body\<rparr>"

definition missing_content :: "file_id \<Rightarrow> string" where
  "missing_content fileId = ''Could not fetch content for file '' @ fileId"

text \<open>\<open>content\<close> is what \<open>getFileContent\<close> answers for a file.\<close>

definition buildSearchIndexForFile :: "(file_id \<Rightarrow> bytes option) \<Rightarrow> file_id \<Rightarrow> file_state \<Rightarrow> string + file_state" where
  "buildSearchIndexForFile content fileId state =
     (if map_has (searchableChunks state) fileId then Inr state
      else case map_get (fs_files state) fileId of
        None \<Rightarrow> Inr state
      | Some file \<Rightarrow>
          if \<not> is_text_file file then Inr state
          else (case content fileId of
                  None \<Rightarrow> Inl (missing_content fileId)
                | Some bs \<Rightarrow>
                    Inr (state\<lparr>searchableChunks :=
                           map_set fileId (map (enriched_chunk file (utf8_decode bs)) (fi_chunks file)) (searchableChunks state)\<rparr>)))"

text \<open>
  One batch runs concurrently: every file of it is tried, the first failure is what it rejects with.
  The next batch starts only when the batch succeeded.
\<close>

definition index_one :: "(file_id \<Rightarrow> bytes option) \<Rightarrow> file_item \<Rightarrow> string option \<times> file_state \<Rightarrow> string option \<times> file_state" where
  "index_one content file st =
     (case buildSearchIndexForFile content (fi_id file) (snd st) of
        Inr s \<Rightarrow> (fst st, s)
      | Inl e \<Rightarrow> (or_else (fst st) (Some e), snd st))"

definition CONCURRENT_BATCH_SIZE :: nat where
  "CONCURRENT_BATCH_SIZE = 5"

function index_batches :: "(file_id \<Rightarrow> bytes option) \<Rightarrow> file_item list \<Rightarrow> file_state \<Rightarrow> string option \<times> file_state" where
  "index_batches content filesToIndex state =
     (if filesToIndex = [] then (None, state)
      else case fold (index_one content) (take CONCURRENT_BATCH_SIZE filesToIndex) (None, state) of
        (Some e, s) \<Rightarrow> (Some e, s)
      | (None, s) \<Rightarrow> index_batches content (drop CONCURRENT_BATCH_SIZE filesToIndex) s)"
  by pat_completeness auto
termination
  by (relation "measure (\<lambda>(_, fs, _). length fs)") (auto simp: CONCURRENT_BATCH_SIZE_def)

declare index_batches.simps [simp del]

definition files_to_index :: "file_state \<Rightarrow> file_item list" where
  "files_to_index state =
     filter (\<lambda>file. is_text_file file \<and> \<not> map_has (searchableChunks state) (fi_id file)) (map_values (fs_files state))"

text \<open>\<open>other\<close> is what happens meanwhile; the result says whether the build is to be repeated in 100 ms.\<close>

definition buildGlobalSearchIndex ::
  "(file_id \<Rightarrow> bytes option) \<Rightarrow> (file_state \<Rightarrow> file_state) \<Rightarrow> file_state \<Rightarrow> file_state \<times> bool" where
  "buildGlobalSearchIndex content other state =
     (if hydrationStatus state \<noteq> Hydrated then (state, False)
      else if indexingStatus state = IdxInProgress then (state, False)
      else
        let toIndex = files_to_index state;
            s1 = state\<lparr>indexingStatus := IdxInProgress, isIndexStale := False, indexingError := None,
                       filesNeedingEmbeddings := remdups (map fi_id (filter (\<lambda>f. \<not> fileHasValidEmbeddings f) toIndex))\<rparr>;
            (failure, s2) = (if toIndex = [] then (None, s1)
                             else (case index_batches content toIndex s1 of (e, s) \<Rightarrow> (e, other s)));
            s3 = (case failure of Some msg \<Rightarrow> s2\<lparr>indexingError := Some msg\<rparr> | None \<Rightarrow> s2);
            s4 = s3\<lparr>indexingStatus := (if failure = None then IdxComplete else IdxError), indexingProgress := None\<rparr>
        in (s4, failure = None \<and> isIndexStale s4))"

definition hasValidEmbeddings :: "file_state \<Rightarrow> file_id \<Rightarrow> bool" where
  "hasValidEmbeddings state fileId =
     (case map_get (fs_files state) fileId of None \<Rightarrow> False | Some file \<Rightarrow> fileHasValidEmbeddings file)"

end
