(* ===== verification/Tool_Calls.thy ===== *)
theory Tool_Calls
  imports Temp_Chats Search_Stream Text_Search File_Store
begin

text \<open>
  Running the tools an answer asks for and continuing the conversation with their results
  (\<open>src/gpt_frontend/src/store/chatStore/actions/message/tool.ts\<close>), and the queue of searches that wait
  for the index (\<open>actions/queue.ts\<close>).
\<close>

section \<open>Results\<close>

text \<open>\<open>JSON.stringify\<close> of a text below 256, and of an object whose only member is \<open>error\<close>.\<close>

definition hex_char :: "nat \<Rightarrow> char" where
  "hex_char d = (if d < 10 then char_of (48 + d) else char_of (87 + d))"

definition json_char :: "char \<Rightarrow> string" where
  "json_char c =
     (let n = (of_char c :: nat); bs = CHR 0x5C in
      if n = 34 \<or> n = 92 then [bs, c]
      else if n = 8 then [bs, CHR ''b''] else if n = 9 then [bs, CHR ''t''] else if n = 10 then [bs, CHR ''n'']
      else if n = 12 then [bs, CHR ''f''] else if n = 13 then [bs, CHR ''r'']
      else if n < 32 then bs # ''u00'' @ [hex_char (n div 16), hex_char (n mod 16)]
      else [c])"

definition json_string :: "string \<Rightarrow> string" where
  "json_string s = CHR 0x22 # concat (map json_char s) @ [CHR 0x22]"

definition json_error :: "string \<Rightarrow> string" where
  "json_error msg = ''{'' @ json_string ''error'' @ '':'' @ json_string msg @ ''}''"

definition plain_result :: "tool_call \<Rightarrow> string \<Rightarrow> tool_result" where
  "plain_result call content = \<lparr>tr_tool_call_id = tc_id call, tr_content = content, tr_error = None\<rparr>"

definition failed_result :: "tool_call \<Rightarrow> string \<Rightarrow> tool_result" where
  "failed_result call e =
     \<lparr>tr_tool_call_id = tc_id call, tr_content = json_error (''Tool failed: '' @ e), tr_error = Some e\<rparr>"

section \<open>The environment\<close>

text \<open>
  One web search: the clock, random numbers and library calls it makes (a \<open>send_env\<close>), the answer of the
  canister, and what its socket does within a minute, or the error of constructing it.
\<close>

record 'k web_search_env =
  ws_env :: "'k send_env"
  ws_api :: "temp_params \<Rightarrow> string + create_chat_response"
  ws_socket :: "string \<Rightarrow> string + search_event list"

text \<open>
  \<open>te_query\<close> reads the member \<open>query\<close> of the arguments: an error of \<open>JSON.parse\<close>, or the text, \<open>None\<close>
  when it is not one. \<open>te_search\<close> belongs to the call with that index. The \<open>meanwhile\<close>
  components are what the rest of the program does to the store while the tools run and while their
  results are stored; \<open>se_meanwhile\<close> is that while the canister continues the conversation.
\<close>

record 'k tool_env = "'k send_env" +
  te_query :: "string \<Rightarrow> string + string option"
  te_files :: file_state
  te_log :: "rat \<Rightarrow> rat"
  te_script :: script
  te_models :: "model list"
  te_search_prompt :: "string \<Rightarrow> string"
  te_search :: "nat \<Rightarrow> 'k web_search_env"
  te_tools_meanwhile :: "chat_state \<Rightarrow> chat_state"
  te_store_meanwhile :: "chat_state \<Rightarrow> chat_state"
  te_results_now :: instant
  te_result_iv :: "nat \<Rightarrow> bytes"

section \<open>Searching the files\<close>

definition queued_text :: string where
  "queued_text = ''The file index is being updated. I will provide an answer as soon as it'' @ [CHR 0x27] @ ''s ready.''"

definition needs_indexing :: "file_state \<Rightarrow> bool" where
  "needs_indexing fs \<longleftrightarrow>
     isIndexStale fs \<or> length (filter is_text_file (map_values (fs_files fs))) > length (searchableChunks fs)
     \<or> indexingStatus fs = IdxIdle"

text \<open>\<open>chunkToFileMap\<close>: the name and identifier of the file of a chunk, by the identifier of the chunk.\<close>

definition chunk_files :: "file_state \<Rightarrow> (string, string \<times> file_id) jsmap" where
  "chunk_files fs =
     fold (\<lambda>(fileId, chunksInFile) m.
             case map_get (fs_files fs) fileId of
               None \<Rightarrow> m
             | Some file \<Rightarrow>
                 map_set_all (\<lambda>k. fileId @ ''-'' @ show_nat (k_chunk_index k)) (\<lambda>_. (fi_name file, fi_id file)) chunksInFile m)
       (searchableChunks fs) []"

definition newline :: string where
  "newline = [CHR 0x0A]"

definition quoted :: "string \<Rightarrow> string" where
  "quoted s = CHR 0x22 # s @ [CHR 0x22]"

definition format_result :: "nat \<Rightarrow> search_result \<times> (string \<times> file_id) \<Rightarrow> string" where
  "format_result i r =
     ''Result '' @ show_nat (i + 1) @ '':'' @ newline @ ''Source File: '' @ quoted (fst (snd r)) @ newline @ ''---'' @ newline
     @ s_text (fst r) @ newline @ ''---''"

definition search_with_info :: "file_state \<Rightarrow> search_result list \<Rightarrow> (search_result \<times> (string \<times> file_id)) list" where
  "search_with_info fs results =
     concat (map (\<lambda>r. case map_get (chunk_files fs) (s_id r) of Some info \<Rightarrow> [(r, info)] | None \<Rightarrow> []) results)"

definition format_results :: "(search_result \<times> (string \<times> file_id)) list \<Rightarrow> string" where
  "format_results rs = join (newline @ newline) (map (\<lambda>i. format_result i (rs ! i)) [0..<length rs])"

text \<open>The result or the error thrown, and whether the call is queued for the index.\<close>

definition files_search :: "'k tool_env \<Rightarrow> tool_call \<Rightarrow> (string + tool_result) \<times> bool" where
  "files_search en call =
     (case te_query en (tc_arguments call) of
        Inl e \<Rightarrow> (Inl e, False)
      | Inr query_text \<Rightarrow>
          if query_text = None \<or> trim (the query_text) = [] then (Inl ''Invalid query for files_search.'', False)
          else
            let query = the query_text; fs = te_files en;
                textFiles = filter is_text_file (map_values (fs_files fs));
                allSearchableChunks = concat (map_values (searchableChunks fs));
                top5Results = take 5 (search_with_info fs
                                (runHybridSearch (te_log en) (te_script en) query (map Indexed allSearchableChunks)))
            in if length textFiles = 0 then (Inr (plain_result call ''No searchable file content found.''), False)
               else if needs_indexing fs \<or> indexingStatus fs = IdxInProgress then (Inr (plain_result call queued_text), True)
               else if length allSearchableChunks = 0 then (Inr (plain_result call ''No searchable chunks found.''), False)
               else if length top5Results = 0 then (Inr (plain_result call ''No relevant information found.''), False)
               else (Inr (plain_result call (format_results top5Results)), False))"

section \<open>Searching the web\<close>

definition SEARCH_MODEL_ID :: string where
  "SEARCH_MODEL_ID = ''openrouter-sonar-pro-search''"

text \<open>The outcome of the promise: what the socket does before the timer decides, else the timer.\<close>

definition await_search :: "search_event list \<Rightarrow> string + string" where
  "await_search es =
     (case search_events (filter (\<lambda>e. e \<noteq> TimerFired) es) search_start of
        None \<Rightarrow> Inl ''Search request timed out.''
      | Some st \<Rightarrow> (case sp_outcome st of Some r \<Rightarrow> r | None \<Rightarrow> Inl ''Search request timed out.''))"

text \<open>The request of one search, from the choice of the node to the text it accumulates.\<close>

definition search_answer :: "'k web_search_env \<Rightarrow> string \<Rightarrow> chat_state \<Rightarrow> string + string" where
  "search_answer we compiledPrompt state =
     bind_sum (pick_temp_node (ws_env we) SEARCH_MODEL_ID ''No active nodes available for search model.''
                 ''Node missing encryption key for search.'' state) (\<lambda>node.
     bind_sum (temp_chat_params (ws_env we) ''Temp Search'' compiledPrompt SEARCH_MODEL_ID (7 / 10) 16384 100000 [] node) (\<lambda>p.
     bind_sum (ws_api we p) (\<lambda>createRes.
     bind_sum (buildWebSocketUrl (pn_address node)) (\<lambda>url.
     bind_sum (ws_socket we (url @ ''/conversation/ws'')) await_search))))"

definition no_search_service :: "tool_call \<Rightarrow> tool_result" where
  "no_search_service call =
     \<lparr>tr_tool_call_id = tc_id call, tr_content = json_error ''Search service unavailable (model not found or offline).'',
      tr_error = Some ''Search service unavailable.''\<rparr>"

definition search_report :: "string \<Rightarrow> string \<Rightarrow> string" where
  "search_report query accumulatedText =
     ''Search Results for '' @ quoted query @ '':'' @ newline @ newline @ take 100000 accumulatedText"

definition web_search :: "'k tool_env \<Rightarrow> nat \<Rightarrow> tool_call \<Rightarrow> chat_state \<Rightarrow> string + tool_result" where
  "web_search en i call state =
     bind_sum (te_query en (tc_arguments call)) (\<lambda>query_text.
       if query_text = None \<or> trim (the query_text) = [] \<or> te_search_prompt en (the query_text) = []
       then Inl ''Invalid query for web_search.''
       else
         let query = the query_text in
         (case List.find (\<lambda>m. md_modelId m = SEARCH_MODEL_ID) (te_models en) of
            None \<Rightarrow> Inr (no_search_service call)
          | Some searchModel \<Rightarrow>
              if md_nodeCount searchModel = 0 then Inr (no_search_service call)
              else map_sum_r (\<lambda>accumulatedText. plain_result call (search_report query accumulatedText))
                     (search_answer (te_search en i) (te_search_prompt en query) state)))"

section \<open>One call\<close>

definition stored_result :: "message \<Rightarrow> tool_call \<Rightarrow> tool_result option" where
  "stored_result assistantMessage call =
     (case m_tool_results assistantMessage of
        None \<Rightarrow> None | Some rs \<Rightarrow> List.find (\<lambda>res. tr_tool_call_id res = tc_id call) rs)"

definition execute_tool :: "'k tool_env \<Rightarrow> nat \<Rightarrow> tool_call \<Rightarrow> chat_state \<Rightarrow> (string + tool_result) \<times> bool" where
  "execute_tool en i call state =
     (if tc_name call = ''files_search'' then files_search en call
      else if tc_name call = ''web_search'' then (web_search en i call state, False)
      else (Inr \<lparr>tr_tool_call_id = tc_id call,
                 tr_content = json_error (''Tool '' @ [CHR 0x27] @ tc_name call @ [CHR 0x27] @ '' not recognized.''),
                 tr_error = Some (''Tool '' @ [CHR 0x27] @ tc_name call @ [CHR 0x27] @ '' not found.'')\<rparr>, False))"

definition run_tool :: "'k tool_env \<Rightarrow> message \<Rightarrow> chat_state \<Rightarrow> nat \<times> tool_call \<Rightarrow> tool_result \<times> bool" where
  "run_tool en assistantMessage state ic =
     (case stored_result assistantMessage (snd ic) of
        Some r \<Rightarrow> (r, False)
      | None \<Rightarrow>
          (case execute_tool en (fst ic) (snd ic) state of
             (Inr r, q) \<Rightarrow> (r, q)
           | (Inl e, q) \<Rightarrow> (failed_result (snd ic) e, q)))"

definition run_tools :: "'k tool_env \<Rightarrow> message \<Rightarrow> tool_call list \<Rightarrow> chat_state \<Rightarrow> (tool_result \<times> bool) list" where
  "run_tools en assistantMessage calls state = map (run_tool en assistantMessage state) (zip [0..<length calls] calls)"

section \<open>Running and continuing\<close>

definition tools_key :: "chat_id \<Rightarrow> message_id \<Rightarrow> string" where
  "tools_key chatId assistantMessageId = chatId @ '':'' @ assistantMessageId"

definition set_processing :: "chat_id \<Rightarrow> message_id \<Rightarrow> bool \<Rightarrow> chat_state \<Rightarrow> chat_state" where
  "set_processing chatId assistantMessageId b state =
     state\<lparr>isProcessingTools := (isProcessingTools state)(tools_key chatId assistantMessageId \<mapsto> b)\<rparr>"

definition queue_tool_call :: "chat_id \<Rightarrow> message_id \<Rightarrow> chat_state \<Rightarrow> chat_state" where
  "queue_tool_call chatId assistantMessageId state =
     (if (chatId, assistantMessageId) \<in> set (queuedToolCalls state) then state
      else state\<lparr>queuedToolCalls := queuedToolCalls state @ [(chatId, assistantMessageId)]\<rparr>)"

text \<open>A message of a chat, and replacing it if it is there.\<close>

definition message_at :: "chat_state \<Rightarrow> chat_id \<Rightarrow> message_id \<Rightarrow> message option" where
  "message_at state chatId i = (case messages state chatId of None \<Rightarrow> None | Some m \<Rightarrow> map_get m i)"

definition update_message :: "chat_id \<Rightarrow> message_id \<Rightarrow> (message \<Rightarrow> message) \<Rightarrow> chat_state \<Rightarrow> chat_state" where
  "update_message chatId i f state =
     (case messages state chatId of
        None \<Rightarrow> state
      | Some m \<Rightarrow>
          (case map_get m i of
             None \<Rightarrow> state
           | Some msg \<Rightarrow> state\<lparr>messages := (messages state)(chatId \<mapsto> map_set i (f msg) m)\<rparr>))"

definition with_results :: "instant \<Rightarrow> tool_result list \<Rightarrow> message \<Rightarrow> message" where
  "with_results now results msg =
     msg\<lparr>m_requires_client_action := Some False, m_tool_results := Some results, m_updatedAt := now\<rparr>"

definition unknown_error :: "string \<Rightarrow> error_status" where
  "unknown_error msg = \<lparr>es_type = UnknownError, es_message = Some msg, es_details = None\<rparr>"

definition with_tool_error :: "string \<Rightarrow> message \<Rightarrow> message" where
  "with_tool_error msg m =
     m\<lparr>m_requires_client_action := Some False,
       m_errorStatus := Some (unknown_error (if msg \<noteq> [] then msg else ''Tool execution failed.''))\<rparr>"

text \<open>What precedes the tools: the model, the chat, the message and its calls, or the error.\<close>

definition tools_prepare ::
  "'k tool_env \<Rightarrow> chat_id \<Rightarrow> message_id \<Rightarrow> chat_state \<Rightarrow> string + (model \<times> chat \<times> message \<times> tool_call list)" where
  "tools_prepare en chatId assistantMessageId state =
     (case selectedModel state of
        None \<Rightarrow> Inl ''Cannot run tools: user or model not configured.''
      | Some mdl \<Rightarrow>
          if \<not> session_ready (se_auth en) then Inl ''Cannot run tools: user or model not configured.''
          else case List.find (\<lambda>c. c_chatId c = chatId) (chats state) of
            None \<Rightarrow> Inl ''Encryption metadata missing.''
          | Some currentChat \<Rightarrow>
              (case message_at state chatId assistantMessageId of
                 None \<Rightarrow> Inl ''Parent assistant message with tool calls not found.''
               | Some assistantMessage \<Rightarrow>
                   (case m_tool_calls assistantMessage of
                      None \<Rightarrow> Inl ''Parent assistant message with tool calls not found.''
                    | Some calls \<Rightarrow> Inr (mdl, currentChat, assistantMessage, calls))))"

record store_results_params =
  srp_chatId :: chat_id
  srp_assistantMessageId :: message_id
  srp_results :: "tool_result list"

record continue_params = generation_params +
  np_chatId :: chat_id
  np_assistantMessageId :: message_id
  np_responses :: "(string \<times> bytes) list"
  np_reasoningEffort :: "string option"

text \<open>\<open>state0\<close> is the store as the action read it first, \<open>state\<close> the store now.\<close>

definition pick_continuation :: "'k tool_env \<Rightarrow> model \<Rightarrow> chat_state \<Rightarrow> string + picked_node" where
  "pick_continuation en mdl state =
     (case pickNodeForModel (se_pick_now en) (se_random en) (md_modelId mdl) state of
        None \<Rightarrow> Inl ''No suitable node found for tool continuation.''
      | Some node \<Rightarrow>
          if \<not> truthy_str (pn_publicKey node) then Inl ''Node public key required for continuation.'' else Inr node)"

definition continue_params_of ::
  "'k tool_env \<Rightarrow> model \<Rightarrow> chat \<Rightarrow> picked_node \<Rightarrow> chat_id \<Rightarrow> message_id \<Rightarrow> tool_result list \<Rightarrow> chat_state \<Rightarrow> string + continue_params" where
  "continue_params_of en mdl currentChat node chatId assistantMessageId results state0 =
     bind_sum (deriveChatKey (se_lib en) (the (au_rootKey (se_auth en))) (c_encryptionSalt currentChat)) (\<lambda>chatKey.
     let responses = map (\<lambda>(i, r). (tr_tool_call_id r, encryptMessage (se_lib en) (te_result_iv en i) (tr_content r) chatKey))
                       (zip [0..<length results] results)
     in map_sum_r (\<lambda>wrapped.
          \<lparr>gp_modelId = md_modelId mdl, gp_nodeId = node_number (pn_nodeId node), gp_temperature = temperature state0,
           gp_maxCompletionTokens = maxOutput state0, gp_maxContext = maxContext state0,
           gp_encryptedChatKey = wrapped, gp_tools = selectedTools state0, gp_customPrompt = se_prompt en mdl,
           np_chatId = chatId, np_assistantMessageId = assistantMessageId, np_responses = responses,
           np_reasoningEffort = effort_param mdl state0\<rparr>)
          (wrapKeyForNode (se_lib en) chatKey (the (pn_publicKey node))))"

text \<open>The new answer below the message, its leaf, its job and its connection.\<close>

definition continue_thread ::
  "'k tool_env \<Rightarrow> model \<Rightarrow> picked_node \<Rightarrow> chat_id \<Rightarrow> message_id \<Rightarrow> message_response \<Rightarrow> chat_state
     \<Rightarrow> connection option \<times> chat_state \<times> chat_effect list" where
  "continue_thread en mdl node chatId assistantMessageId response state =
     (let a = toMessageId (id_text (mr_ai_message_id response));
          j = toJobId (id_text (mr_job_id response));
          ai = new_ai_message a chatId assistantMessageId j (md_modelId mdl) (se_now en);
          old = (case messages state chatId of Some m \<Rightarrow> m | None \<Rightarrow> []);
          s1 = state\<lparr>messages := (messages state)(chatId \<mapsto> map_set a ai old)\<rparr>
      in connect_job (send_env.truncate en) chatId j node (setActiveChatJob chatId j False (setActiveLeaf chatId a s1)))"

text \<open>
  The whole action, up to the \<open>finally\<close> block. \<open>store_api\<close> and \<open>continue_api\<close> are the canister.
  Of the answer of \<open>continueFromToolResponse\<close> only the new message and the job are read.
\<close>

definition tools_body ::
  "'k tool_env \<Rightarrow> (store_results_params \<Rightarrow> string + unit) \<Rightarrow> (continue_params \<Rightarrow> string + message_response)
     \<Rightarrow> chat_id \<Rightarrow> message_id \<Rightarrow> chat_state \<Rightarrow> connection option \<times> chat_state \<times> chat_effect list" where
  "tools_body en store_api continue_api chatId assistantMessageId state =
     (let fail = (\<lambda>msg s. (None, update_message chatId assistantMessageId (with_tool_error msg) s, [])) in
      case tools_prepare en chatId assistantMessageId state of
        Inl e \<Rightarrow> fail e state
      | Inr (mdl, currentChat, assistantMessage, calls) \<Rightarrow>
          let ran = run_tools en assistantMessage calls state;
              results = map fst ran;
              s1 = te_tools_meanwhile en
                     (if list_ex snd ran then queue_tool_call chatId assistantMessageId state else state);
              (stored, s2) = (if m_tool_results assistantMessage = None
                              then (store_api \<lparr>srp_chatId = chatId, srp_assistantMessageId = assistantMessageId, srp_results = results\<rparr>,
                                    te_store_meanwhile en s1)
                              else (Inr (), s1))
          in case stored of
               Inl e \<Rightarrow> fail e s2
             | Inr _ \<Rightarrow>
                 let s3 = update_message chatId assistantMessageId (with_results (te_results_now en) results) s2 in
                 if list_ex (\<lambda>c. snd c = assistantMessageId) (queuedToolCalls s3) then (None, s3, [])
                 else
                   (case bind_sum (pick_continuation en mdl s3) (\<lambda>node.
                           map_sum_r (\<lambda>r. (node, r))
                             (bind_sum (continue_params_of en mdl currentChat node chatId assistantMessageId results state) continue_api)) of
                      Inl e \<Rightarrow> fail e (se_meanwhile en s3)
                    | Inr (node, response) \<Rightarrow>
                        continue_thread en mdl node chatId assistantMessageId response (se_meanwhile en s3)))"

definition runAndContinueFromTools ::
  "'k tool_env \<Rightarrow> (store_results_params \<Rightarrow> string + unit) \<Rightarrow> (continue_params \<Rightarrow> string + message_response)
     \<Rightarrow> chat_id \<Rightarrow> message_id \<Rightarrow> chat_state \<Rightarrow> connection option \<times> chat_state \<times> chat_effect list" where
  "runAndContinueFromTools en store_api continue_api chatId assistantMessageId state =
     (let (conn, s, effs) = tools_body en store_api continue_api chatId assistantMessageId
                              (set_processing chatId assistantMessageId True state)
      in (conn, set_processing chatId assistantMessageId False s, effs))"

section \<open>The queue\<close>

definition with_index_error :: "string option \<Rightarrow> message \<Rightarrow> message" where
  "with_index_error e m =
     m\<lparr>m_isComplete := Some True,
       m_errorStatus := Some (unknown_error (''File indexing failed: '' @ (if truthy_str e then the e else ''Unknown error'')))\<rparr>"

text \<open>
  Rejecting one queued call: the message map written back is the one read before the loop, with this one
  message changed.
\<close>

definition reject_queued :: "string option \<Rightarrow> message_map by_id \<Rightarrow> chat_id \<times> message_id \<Rightarrow> chat_state \<Rightarrow> chat_state" where
  "reject_queued e snapshot call state =
     (case snapshot (fst call) of
        None \<Rightarrow> state
      | Some m \<Rightarrow>
          (case map_get m (snd call) of
             None \<Rightarrow> state
           | Some assistantMessage \<Rightarrow>
               set_processing (fst call) (snd call) False
                 (state\<lparr>messages := (messages state)(fst call \<mapsto> map_set (snd call) (with_index_error e assistantMessage) m)\<rparr>)))"

text \<open>\<open>run\<close> is \<open>runAndContinueFromTools\<close> on the store; the calls are run one after another.\<close>

definition processQueuedToolCalls ::
  "file_state \<Rightarrow> (chat_id \<Rightarrow> message_id \<Rightarrow> chat_state \<Rightarrow> chat_state) \<Rightarrow> chat_state \<Rightarrow> chat_state" where
  "processQueuedToolCalls fs run state =
     (let validCalls = filter (\<lambda>c. Some (fst c) = currentChatId state) (queuedToolCalls state);
          rest = filter (\<lambda>c. Some (fst c) \<noteq> currentChatId state) (queuedToolCalls state)
      in if length (queuedToolCalls state) = 0 then state
         else if length validCalls = 0 then state
         else if indexingStatus fs = IdxComplete
         then fold (\<lambda>c s. run (fst c) (snd c) s) validCalls (state\<lparr>queuedToolCalls := rest\<rparr>)
         else if indexingStatus fs = IdxError
         then fold (reject_queued (indexingError fs) (messages state)) validCalls (state\<lparr>queuedToolCalls := rest\<rparr>)
         else state)"

end
