(* ===== verification/Send_Message_Props.thy ===== *)
theory Send_Message_Props
  imports Send_Message Web_Socket_Runs
begin

text \<open>
  What sending a message guarantees: what reaches the node and the canister can be read by the user
  and the node only through the chat key, how the store looks after each way of sending, that an
  edited message and a retried answer are alternatives in the conversation tree, and which errors
  leave the chat blocked.
\<close>

section \<open>Frames\<close>

lemma bind_sum_Inr: "bind_sum x f = Inr y \<longleftrightarrow> (\<exists>z. x = Inr z \<and> f z = Inr y)"
  by (cases x) simp_all

lemma map_sum_r_Inr: "map_sum_r f x = Inr y \<longleftrightarrow> (\<exists>z. x = Inr z \<and> y = f z)"
  by (cases x) auto

lemma bind_sum_Inl: "bind_sum x f = Inl e \<longleftrightarrow> x = Inl e \<or> (\<exists>z. x = Inr z \<and> f z = Inl e)"
  by (cases x) simp_all

lemma cleanup_frame [simp]:
  "messages (fst (scheduleAttachmentCleanup t d s)) = messages s"
  "chats (fst (scheduleAttachmentCleanup t d s)) = chats s"
  "webSockets (fst (scheduleAttachmentCleanup t d s)) = webSockets s"
  "activeChatJobs (fst (scheduleAttachmentCleanup t d s)) = activeChatJobs s"
  "activeLeafMessageId (fst (scheduleAttachmentCleanup t d s)) = activeLeafMessageId s"
  "currentChatId (fst (scheduleAttachmentCleanup t d s)) = currentChatId s"
  "isGenerating (fst (scheduleAttachmentCleanup t d s)) = isGenerating s"
  "isAITyping (fst (scheduleAttachmentCleanup t d s)) = isAITyping s"
  "isWaiting (fst (scheduleAttachmentCleanup t d s)) = isWaiting s"
  "cs_input (fst (scheduleAttachmentCleanup t d s)) = cs_input s"
  "flags_are (fst (scheduleAttachmentCleanup t d s)) k b = flags_are s k b"
  "store_ok (fst (scheduleAttachmentCleanup t d s)) = store_ok s"
  by (simp_all add: scheduleAttachmentCleanup_def Let_def flags_are_def store_ok_def)

lemma cleanup_elsewhere [elsewhere]:
  "same_elsewhere K s0 (fst (scheduleAttachmentCleanup t d s)) = same_elsewhere K s0 s"
  by (simp add: same_elsewhere_def)

lemma handleError_frame [simp]:
  "activeLeafMessageId (fst (handleWebSocketError now k jb msg c node s)) = activeLeafMessageId s"
  "currentChatId (fst (handleWebSocketError now k jb msg c node s)) = currentChatId s"
  "cs_input (fst (handleWebSocketError now k jb msg c node s)) = cs_input s"
  by (simp_all add: handleError_eq mark_target_errored_def reject_ocr_def removeOcrPromise_def chat_ops split: option.split)

lemma setActive_frame [simp]:
  "activeLeafMessageId (setActiveChatJob k jb e s) = activeLeafMessageId s"
  "currentChatId (setActiveChatJob k jb e s) = currentChatId s" "cs_input (setActiveChatJob k jb e s) = cs_input s"
  "activeLeafMessageId (setActiveLeaf k l s) = (activeLeafMessageId s)(k \<mapsto> l)"
  "currentChatId (setActiveLeaf k l s) = currentChatId s" "cs_input (setActiveLeaf k l s) = cs_input s"
  by (simp_all add: chat_ops)

lemma same_elsewhere_cs_input: "same_elsewhere K s0 (s\<lparr>cs_input := x\<rparr>) = same_elsewhere K s0 s"
  by (simp add: same_elsewhere_def)

text \<open>The flags of the chats an operation does not name.\<close>

lemma flags_elsewhere: "same_elsewhere K s s' \<Longrightarrow> j \<notin> K \<Longrightarrow> flags_are s' j b = flags_are s j b"
  by (simp add: same_elsewhere_def flags_are_def flag_def)

lemma find_unique:
  assumes "x \<in> set xs" and "P x" and "\<And>y. y \<in> set xs \<Longrightarrow> P y \<Longrightarrow> y = x"
  shows "List.find P xs = Some x"
proof -
  obtain y where y: "List.find P xs = Some y" using find_exists [of xs P] assms(1,2) by blast
  then have "y \<in> set xs \<and> P y" by (rule find_SomeD)
  with assms(3) y show ?thesis by blast
qed

section \<open>The new messages\<close>

lemma new_message_simps [simp]:
  "m_id (new_user_message i k c p md ats t) = i" "msg_key (new_user_message i k c p md ats t) = i"
  "m_role (new_user_message i k c p md ats t) = User" "m_content (new_user_message i k c p md ats t) = c"
  "m_parentMessageId (new_user_message i k c p md ats t) = p"
  "m_id (new_ai_message i k p' jb md' t) = i" "msg_key (new_ai_message i k p' jb md' t) = i"
  "m_role (new_ai_message i k p' jb md' t) = Assistant" "m_content (new_ai_message i k p' jb md' t) = []"
  "m_parentMessageId (new_ai_message i k p' jb md' t) = Some p'" "m_jobId (new_ai_message i k p' jb md' t) = Some jb"
  "m_isComplete (new_ai_message i k p' jb md' t) = Some False" "m_errorStatus (new_ai_message i k p' jb md' t) = None"
  "m_backendId (new_ai_message i k p' jb md' t) = Some i"
  by (simp_all add: new_user_message_def new_ai_message_def plain_message_def msg_key_def)

lemma user_not_job [simp]: "\<not> is_job_message jb (new_user_message i k c p md ats t)"
  by (simp add: is_job_message_def)

lemma ai_is_job [simp]: "is_job_message j (new_ai_message i k p jb md t) \<longleftrightarrow> j = jb"
  by (auto simp: is_job_message_def)

text \<open>The answer after the attempt to connect: still pending, or failed because no node was reached.\<close>

definition answer_after :: "connection option \<Rightarrow> message \<Rightarrow> message \<Rightarrow> bool" where
  "answer_after conn ai v \<longleftrightarrow> (if conn = None then \<exists>t msg. v = error_message t True msg ai else v = ai)"

lemma answer_after_simps:
  assumes "answer_after conn (new_ai_message i k p jb md t) v"
  shows "m_role v = Assistant \<and> msg_key v = i \<and> m_parentMessageId v = Some p \<and> m_jobId v = Some jb \<and> m_content v = []
    \<and> m_isComplete v = Some (conn = None) \<and> (m_errorStatus v = None \<longleftrightarrow> conn \<noteq> None)"
  using assms by (cases conn) (auto simp: answer_after_def error_message_def)

section \<open>Connecting the new job\<close>

lemma connect_job_cases:
  assumes "se_connecting en = id" and "connect_job en k j node s = (conn, s', effs)"
  obtains (failed) msg n where "conn = None" "s' = fst (handleWebSocketError (ev_now (se_env en)) k j msg True n s)"
  | (opened) co w where "conn = Some co" "co_chatId co = k" "co_jobId co = j" "map_get w j = Some (co_ws co)"
      "s' = setActiveChatJob k j False (s\<lparr>webSockets := w\<rparr>)"
proof -
  let ?fail = "\<lambda>msg n. (None :: connection option, handleWebSocketError (ev_now (se_env en)) k j msg True n s)"
  have f: thesis if "connect_job en k j node s = ?fail msg n" for msg n
    using that assms(2) failed [of msg n] by (cases "handleWebSocketError (ev_now (se_env en)) k j msg True n s") auto
  show thesis
  proof (cases "connect_guard (se_connect_auth en) k j (Some (pn_address node)) (Some (pn_nodeId node)) (pn_publicKey node) None s")
    case (Inl e)
    then show thesis
      by (intro f [of "fst e" "snd e"]) (simp add: connect_job_def connectToChainWebSocket_def Let_def split: prod.split)
  next
    case (Inr salt)
    note guard = Inr
    let ?d = "deriveChatKey (se_lib en) (the (au_rootKey (se_connect_auth en))) salt"
    show thesis
    proof (cases ?d)
      case (Inl e)
      then show thesis
        by (intro f [of "''Failed to derive chat key: '' @ e" "Some (pn_nodeId node)"])
          (simp add: connect_job_def connectToChainWebSocket_def Let_def guard assms(1))
    next
      case (Inr key)
      note key = Inr
      show thesis
      proof (cases "buildWebSocketUrl (pn_address node)")
        case (Inl e)
        then show thesis
          by (intro f [of "''Invalid node address format: '' @ e" "Some (pn_nodeId node)"])
            (simp add: connect_job_def connectToChainWebSocket_def Let_def guard key assms(1))
      next
        case (Inr url)
        let ?c = "connect_socket (se_env en) (se_create en) j (url @ ''/conversation/ws'') s"
        show thesis
        proof (cases ?c)
          case (Inl e)
          then show thesis
            by (intro f [of "''Error during WebSocket setup: '' @ e" "Some (pn_nodeId node)"])
              (simp add: connect_job_def connectToChainWebSocket_def Let_def guard key Inr assms(1))
        next
          case c: (Inr r)
          obtain ws s2 e2 where r: "r = (ws, s2, e2)" by (cases r)
          have res: "conn = Some \<lparr>co_chatId = k, co_jobId = j, co_ws = ws, co_nodeId = Some (pn_nodeId node)\<rparr>"
            "s' = setActiveChatJob k j False s2"
            using assms by (simp_all add: connect_job_def connectToChainWebSocket_def Let_def guard key Inr c r)
          have "s2 = s\<lparr>webSockets := webSockets s2\<rparr> \<and> map_get (webSockets s2) j = Some ws"
            using c r by (auto simp: connect_socket_def Let_def split: option.splits if_splits sum.splits)
          with res opened show thesis by (metis connection.select_convs(1,2,3))
        qed
      qed
    qed
  qed
qed

text \<open>
  What connecting does to a chat whose last addition is the pending answer \<open>ai\<close> of the job, no other
  message of the chat belonging to it.
\<close>

lemma connect_job_outcome:
  fixes k :: chat_id and i p :: message_id and j :: job_id
  defines "ai \<equiv> \<lambda>md t. new_ai_message i k p j md t"
  assumes "se_connecting en = id" and "connect_job en k j node s = (conn, s', effs)"
    and m: "messages s k = Some (map_set i (ai md t) m0)" and fresh: "\<forall>v \<in> set (map_values m0). \<not> is_job_message j v"
    and "map_ok m0"
  shows "\<exists>v. messages s' = (messages s)(k \<mapsto> map_set i v m0) \<and> answer_after conn (ai md t) v"
    and "flags_are s' k (conn \<noteq> None)"
    and "activeChatJobs s' = (activeChatJobs s)(k \<mapsto> \<lparr>aj_jobId = j, aj_erroredViaStream = (conn = None)\<rparr>)"
    and "chats s' = chats s" "activeLeafMessageId s' = activeLeafMessageId s" "currentChatId s' = currentChatId s"
      "cs_input s' = cs_input s"
    and "same_elsewhere {k} s s'"
proof -
  let ?ai = "ai md t" and ?m = "map_set i (ai md t) m0"
  have ok: "map_ok ?m" using assms(6) by simp
  have mem: "(i, ?ai) \<in> set ?m" by (rule map_get_mem) simp
  have only: "e = (i, ?ai)" if "e \<in> set ?m" "is_job_message j (snd e)" for e
  proof (cases "fst e = i")
    case True
    have "map_get ?m (fst e) = Some (snd e)" using map_mem_get [OF ok, of "fst e" "snd e"] that(1) by simp
    with True show ?thesis by (simp add: prod_eq_iff)
  next
    case False
    have "map_get ?m (fst e) = Some (snd e)" using map_mem_get [OF ok, of "fst e" "snd e"] that(1) by simp
    with False have "map_get m0 (fst e) = Some (snd e)" by simp
    then have "snd e \<in> set (map_values m0)" by (rule map_get_value)
    with fresh that(2) show ?thesis by blast
  qed
  have target: "findTargetMessageDetails s k j = Some (i, ?ai)"
  proof -
    have "List.find (\<lambda>(i, msg). is_job_message j msg \<and> \<not> truthy (m_isComplete msg) \<and> m_errorStatus msg = None) ?m
        = Some (i, ?ai)"
    proof (rule find_unique [OF mem])
      fix e
      assume "e \<in> set ?m" and "case e of (i, msg) \<Rightarrow> is_job_message j msg \<and> \<not> truthy (m_isComplete msg) \<and> m_errorStatus msg = None"
      then show "e = (i, ?ai)" by (intro only) (simp_all add: case_prod_unfold)
    qed (simp add: ai_def)
    then show ?thesis by (simp add: findTargetMessageDetails_def m target_key_def ai_def)
  qed
  define all where "all \<longleftrightarrow> (\<exists>v. messages s' = (messages s)(k \<mapsto> map_set i v m0) \<and> answer_after conn ?ai v)
      \<and> flags_are s' k (conn \<noteq> None)
      \<and> activeChatJobs s' = (activeChatJobs s)(k \<mapsto> \<lparr>aj_jobId = j, aj_erroredViaStream = (conn = None)\<rparr>)
      \<and> chats s' = chats s \<and> activeLeafMessageId s' = activeLeafMessageId s \<and> currentChatId s' = currentChatId s
      \<and> cs_input s' = cs_input s \<and> same_elsewhere {k} s s'"
  have all
    using assms(2,3)
  proof (cases rule: connect_job_cases)
    case (failed msg n)
    have "messages s' = (messages s)(k \<mapsto> map_set i (error_message (ev_now (se_env en)) True msg ?ai) m0)"
      using failed(2) by (simp add: handleError_messages target m update_last)
    moreover have "activeChatJobs s' = (activeChatJobs s)(k \<mapsto> \<lparr>aj_jobId = j, aj_erroredViaStream = True\<rparr>)"
      using failed(2) by (simp add: handleError_eq reject_ocr_def split: option.split)
    ultimately show all using failed by (auto simp: all_def answer_after_def elsewhere)
  next
    case (opened co w)
    then show all using m by (auto simp: all_def answer_after_def elsewhere fun_upd_idem)
  qed
  then show "\<exists>v. messages s' = (messages s)(k \<mapsto> map_set i v m0) \<and> answer_after conn ?ai v"
    and "flags_are s' k (conn \<noteq> None)"
    and "activeChatJobs s' = (activeChatJobs s)(k \<mapsto> \<lparr>aj_jobId = j, aj_erroredViaStream = (conn = None)\<rparr>)"
    and "chats s' = chats s" and "activeLeafMessageId s' = activeLeafMessageId s" and "currentChatId s' = currentChatId s"
    and "cs_input s' = cs_input s" and "same_elsewhere {k} s s'"
    unfolding all_def by blast+
qed

section \<open>What is stored\<close>

lemma store_new_chat_simps [simp]:
  "messages (store_new_chat c m s) = (messages s)(c_chatId c \<mapsto> m)"
  "chats (store_new_chat c m s) = c # chats s" "currentChatId (store_new_chat c m s) = Some (c_chatId c)"
  "cs_input (store_new_chat c m s) = []" "activeChatJobs (store_new_chat c m s) = activeChatJobs s"
  "activeLeafMessageId (store_new_chat c m s) = activeLeafMessageId s" "webSockets (store_new_chat c m s) = webSockets s"
  "flags_are (store_new_chat c m s) ''new'' b = (if c_chatId c = ''new'' then b else \<not> b)"
  by (auto simp: store_new_chat_def Let_def flags_are_def)

lemma store_new_chat_elsewhere:
  "same_elsewhere {c_chatId c, ''new''} s0 (store_new_chat c m s) = same_elsewhere {c_chatId c, ''new''} s0 s"
  by (auto simp: store_new_chat_def Let_def same_elsewhere_def)

lemma new_chat_object_simps [simp]:
  "c_chatId (new_chat_object en s0 k u a j) = k" "c_encryptionSalt (new_chat_object en s0 k u a j) = se_salt en"
  "c_activeJobId (new_chat_object en s0 k u a j) = Some j" "c_title (new_chat_object en s0 k u a j) = new_chat_title (trim (cs_input s0))"
  by (simp_all add: new_chat_object_def)

lemma store_exchange_simps [simp]:
  "messages (store_exchange k ms f s) = (messages s)(k \<mapsto> map_set_all m_id id ms (case messages s k of Some m \<Rightarrow> m | None \<Rightarrow> []))"
  "chats (store_exchange k ms f s) = map (\<lambda>c. if c_chatId c = k then f c else c) (chats s)"
  "activeChatJobs (store_exchange k ms f s) = activeChatJobs s" "currentChatId (store_exchange k ms f s) = currentChatId s"
  "activeLeafMessageId (store_exchange k ms f s) = activeLeafMessageId s" "cs_input (store_exchange k ms f s) = cs_input s"
  by (simp_all add: store_exchange_def)

lemma store_exchange_elsewhere [elsewhere]:
  "k \<in> K \<Longrightarrow> same_elsewhere K s0 (store_exchange k ms f s) = same_elsewhere K s0 s"
  by (auto simp: store_exchange_def Let_def same_elsewhere_def)

section \<open>How sending succeeds\<close>

lemma create_params_simps:
  assumes "create_params_of en mdl node atts s = Inr p"
  shows "\<exists>key. deriveChatKey (se_lib en) (se_rootKey en) (se_salt en) = Inr key
    \<and> wrapKeyForNode (se_lib en) key (trim (the (pn_publicKey node))) = Inr (gp_encryptedChatKey p)
    \<and> cp_initialMessage p = encryptMessage (se_lib en) (se_iv en) (trim (cs_input s)) key
    \<and> cp_encryptionSalt p = se_salt en \<and> cp_title p = new_chat_title (trim (cs_input s))
    \<and> gp_modelId p = md_modelId mdl \<and> gp_nodeId p = node_number (pn_nodeId node) \<and> cp_attachments p = atts"
  using assms unfolding create_params_of_def Let_def
  by (auto simp: bind_sum_Inr)

lemma create_success:
  assumes "createNewChatWithFirstMessage en api s = (Inr k, conn, s', effs)"
  obtains mdl node atts p resp u a j s1 where
    "create_prepare en s = Inr (mdl, node, atts)" "create_params_of en mdl node atts s = Inr p" "api p = Inr resp"
    "k = id_text (cr_chat_id resp)" "u = id_text (cr_user_message_id resp)" "a = id_text (cr_ai_message_id resp)"
    "j = id_text (cr_job_id resp)" "s1 = fst (scheduleAttachmentCleanup (se_timer en) 250 (se_meanwhile en s))"
    "\<exists>e. connect_job en k j node (setActiveLeaf k a (setActiveChatJob k j False
        (store_new_chat (new_chat_object en s k u a j) (new_chat_map en mdl atts s k u a j) s1))) = (conn, s', e)"
proof (cases "create_prepare en s")
  case (Inl e)
  with assms show thesis by (simp add: createNewChatWithFirstMessage_def)
next
  case (Inr r)
  obtain mdl node atts where r: "r = (mdl, node, atts)" by (cases r)
  show thesis
  proof (cases "create_params_of en mdl node atts s")
    case (Inl e)
    with assms Inr r show thesis
      by (simp add: createNewChatWithFirstMessage_def abort_send_def case_prod_unfold)
  next
    case p: (Inr p)
    show thesis
    proof (cases "api p")
      case (Inl e)
      with assms Inr r p show thesis
        by (simp add: createNewChatWithFirstMessage_def abort_send_def case_prod_unfold)
    next
      case resp: (Inr resp)
      have "k = id_text (cr_chat_id resp)" and "\<exists>e. connect_job en k (id_text (cr_job_id resp)) node
          (setActiveLeaf k (id_text (cr_ai_message_id resp)) (setActiveChatJob k (id_text (cr_job_id resp)) False
            (store_new_chat (new_chat_object en s k (id_text (cr_user_message_id resp)) (id_text (cr_ai_message_id resp)) (id_text (cr_job_id resp)))
               (new_chat_map en mdl atts s k (id_text (cr_user_message_id resp)) (id_text (cr_ai_message_id resp)) (id_text (cr_job_id resp)))
               (fst (scheduleAttachmentCleanup (se_timer en) 250 (se_meanwhile en s)))))) = (conn, s', e)"
        using assms Inr r p resp
        by (auto simp: createNewChatWithFirstMessage_def Let_def split: prod.splits)
      with Inr r p resp that show thesis by blast
    qed
  qed
qed

lemma add_params_simps:
  assumes "add_params_of en c mdl node atts k s = Inr p"
  shows "\<exists>key. deriveChatKey (se_lib en) (se_rootKey en) (c_encryptionSalt c) = Inr key
    \<and> wrapKeyForNode (se_lib en) key (the (pn_publicKey node)) = Inr (gp_encryptedChatKey p)
    \<and> ap_content p = encryptMessage (se_lib en) (se_iv en) (trim (cs_input s)) key
    \<and> ap_chatId p = k \<and> ap_parentMessageId p = parent_of_next k s"
  using assms unfolding add_params_of_def Let_def
  by (auto simp: bind_sum_Inr)

lemma add_success:
  assumes "addMessageToExistingChat en api s = (Inr k, conn, s', effs)"
  obtains c mdl node atts p resp u a j s1 s2 where
    "add_prepare en s = Inr (c, mdl, node, atts)" "add_params_of en c mdl node atts k s = Inr p" "api p = Inr resp"
    "k = the (currentChatId s)" "u = id_text (mr_user_message_id resp)" "a = id_text (mr_ai_message_id resp)"
    "j = id_text (mr_job_id resp)" "s1 = fst (scheduleAttachmentCleanup (se_timer en) 250 (se_meanwhile en s))"
    "s2 = (store_exchange k [new_user_message u k (trim (cs_input s)) (parent_of_next k s) None atts (se_now en),
              new_ai_message a k u j (md_modelId mdl) (se_now en)] (\<lambda>c. c\<lparr>c_updatedAt := se_now en, c_activeJobId := Some j\<rparr>) s1)
            \<lparr>cs_input := []\<rparr>"
    "\<exists>e. connect_job en k j node (setActiveChatJob k j False (setActiveLeaf k a s2)) = (conn, s', e)"
proof (cases "add_prepare en s")
  case (Inl e)
  with assms show thesis by (simp add: addMessageToExistingChat_def)
next
  case (Inr r)
  obtain c mdl node atts where r: "r = (c, mdl, node, atts)" by (cases r)
  show thesis
  proof (cases "bind_sum (add_params_of en c mdl node atts (the (currentChatId s)) s) api")
    case (Inl e)
    with assms Inr r show thesis
      by (simp add: addMessageToExistingChat_def abort_send_def case_prod_unfold Let_def)
  next
    case resp: (Inr resp)
    then obtain p where p: "add_params_of en c mdl node atts (the (currentChatId s)) s = Inr p" "api p = Inr resp"
      by (auto simp: bind_sum_Inr)
    have k: "k = the (currentChatId s)"
      using assms Inr r resp by (auto simp: addMessageToExistingChat_def Let_def split: prod.splits)
    let ?u = "id_text (mr_user_message_id resp)" and ?a = "id_text (mr_ai_message_id resp)" and ?j = "id_text (mr_job_id resp)"
    have "\<exists>e. connect_job en k ?j node (setActiveChatJob k ?j False (setActiveLeaf k ?a
        ((store_exchange k [new_user_message ?u k (trim (cs_input s)) (parent_of_next k s) None atts (se_now en),
              new_ai_message ?a k ?u ?j (md_modelId mdl) (se_now en)] (\<lambda>c. c\<lparr>c_updatedAt := se_now en, c_activeJobId := Some ?j\<rparr>)
              (fst (scheduleAttachmentCleanup (se_timer en) 250 (se_meanwhile en s))))
            \<lparr>cs_input := []\<rparr>))) = (conn, s', e)"
      using assms Inr r resp k
      by (auto simp: addMessageToExistingChat_def Let_def split: prod.splits)
    with Inr r p k that show thesis by blast
  qed
qed

text \<open>Every way of sending but the first puts the two new messages after the others.\<close>

lemma keyed_exchange:
  assumes "keyed m" and "answer_after conn (new_ai_message a k p j md t) v" and "msg_key w = u"
  shows "keyed (map_set a v (map_set u w m))" and "keyed (map_set a v m)"
  using assms answer_after_simps [OF assms(2)] by (auto intro!: keyed_set)

text \<open>Everything of \<open>m\<close> is still there, and the two new messages are under their identifiers.\<close>

lemma siblings_iff:
  "map_ok m \<Longrightarrow> map_get m i = Some v \<Longrightarrow> m_role v \<noteq> ToolMsg \<Longrightarrow> m_parentMessageId v = p \<Longrightarrow> v \<in> set (getSiblings m p)"
  by (auto simp: getSiblings_def dest: map_get_value)

lemma fresh_after_set:
  assumes "map_ok m" and "\<forall>v \<in> set (map_values m). \<not> is_job_message j v" and "\<not> is_job_message j w"
  shows "\<forall>v \<in> set (map_values (map_set u w m)). \<not> is_job_message j v"
proof
  fix v
  assume "v \<in> set (map_values (map_set u w m))"
  then obtain i where "(i, v) \<in> set (map_set u w m)" by auto
  then have "map_get (map_set u w m) i = Some v" using assms(1) by (intro map_mem_get) simp_all
  with assms(2,3) show "\<not> is_job_message j v" by (force split: if_splits dest: map_of_SomeD)
qed

section \<open>Example values\<close>

definition example_model :: model where
  "example_model =
     \<lparr>md_modelId = ''m'', md_name = ''M'', md_provider = ''p'', md_providerModel = ''m'', md_providerEndpoint = [],
      md_maker = ''o'', md_nodeCount = 1, md_maxContext = 8192, md_maxOutput = 2048, md_inputTokenPrice = 0,
      md_outputTokenPrice = 0, md_max_image_attachments = 1, md_max_tools = 1, md_aaScore = None, md_releaseDate = None,
      md_status = Active, md_extra_body_json = None, md_isReasoning = False, md_isEmbedding = False, md_isFeatured = False\<rparr>"

lemma pick_cong:
  "reconciledActiveNodes s' = reconciledActiveNodes s \<Longrightarrow> temporaryNodeBlacklist s' = temporaryNodeBlacklist s \<Longrightarrow>
     pickNodeForModel now r md s' = pickNodeForModel now r md s"
  by (simp add: pickNodeForModel_def suitable_nodes_def)

lemma id_text_examples [simp]: "id_text 2 = ''2''" "id_text 3 = ''3''" "id_text 4 = ''4''" "id_text 8 = ''8''"
  by code_simp+

definition example_picked :: picked_node where
  "example_picked = \<lparr>pn_address = ''a.example'', pn_nodeId = ''1'', pn_publicKey = Some ''age1n''\<rparr>"

definition example_send_env :: "bytes send_env" where
  "example_send_env =
     \<lparr>se_auth = example_auth, se_pick_now = 5, se_random = 1/2, se_salt = [], se_iv = replicate 12 0,
      se_read = \<lambda>f. Inr (f_bytes f), se_prompt = \<lambda>m. md_name m, se_lib = example_lib, se_meanwhile = id, se_now = 9,
      se_timer = 1, se_connect_auth = example_auth, se_create = \<lambda>url. Inr 3, se_connecting = id,
      se_env = \<lparr>ev_now = 9, ev_ready = \<lambda>_. CONNECTING, ev_frame = 1, ev_show = \<lambda>_. []\<rparr>\<rparr>"

definition send_state :: chat_state where
  "send_state = node_state\<lparr>selectedModel := Some example_model, cs_input := '' hi '', chats := [plain_chat ''7''],
     messages := [''7'' \<mapsto> [(''1'', plain_message ''1'' ''7'' User ''a'' None 3)]], currentChatId := Some ''7''\<rparr>"

lemma example_send_simps [simp]:
  "se_auth example_send_env = example_auth" "se_lib example_send_env = example_lib" "se_meanwhile example_send_env = id"
  "se_connecting example_send_env = id" "se_iv example_send_env = replicate 12 0" "se_salt example_send_env = []"
  "se_random example_send_env = 1/2" "selectedModel send_state = Some example_model" "attachments send_state = []"
  "chats send_state = [plain_chat ''7'']" "currentChatId send_state = Some ''7''" "md_modelId example_model = ''m''"
  "messages send_state ''7'' = Some [(''1'', plain_message ''1'' ''7'' User ''a'' None 3)]" "cs_input send_state = '' hi ''"
  by (simp_all add: example_send_env_def send_state_def node_state_def initialChatState_def example_model_def)

lemma pick_send_state [simp]:
  "pickNodeForModel now (1/2) ''m'' send_state = Some example_picked"
  "pickNodeForModel now (1/2) ''m'' (setIsGenerating k b send_state) = Some example_picked"
  "pickNodeForModel now (1/2) ''m'' (send_state\<lparr>currentChatId := x\<rparr>) = Some example_picked"
  using pick_node_state [of now]
  by (simp_all add: pick_cong [of _ node_state] send_state_def setIsGenerating_def example_picked_def)

lemma example_key: "deriveChatKey example_lib r salt = Inr (take 32 (utf8_encode r @ salt @ utf8_encode ''gpt_chat_v1''))"
  by (simp add: deriveChatKey_def example_lib_def)

lemma example_wrap: "wrapKeyForNode example_lib key ''age1n'' = Inr (btoa (utf8_encode ''age1n'' @ key))"
  by (simp add: wrapKeyForNode_def example_lib_def trim_def is_ws_def)

lemma example_trim [simp]: "trim ''age1n'' = ''age1n''" "trim '' hi '' = ''hi''"
  by (simp_all add: trim_def is_ws_def)

lemma example_create: "create_prepare example_send_env (send_state\<lparr>currentChatId := None\<rparr>) = Inr (example_model, example_picked, [])"
  by (simp add: create_prepare_def transformAttachmentsForBackend_def) (simp add: example_picked_def)

lemma example_create_params:
  "\<exists>p. create_params_of example_send_env example_model example_picked [] (send_state\<lparr>currentChatId := None\<rparr>) = Inr p"
  by (simp add: create_params_of_def Let_def example_key example_picked_def example_wrap)

section \<open>Properties\<close>

text \<open>
  C1: what is sent can be read at both ends: the first message of a chat, as it goes to the canister, decrypts
  to the trimmed input under the key derived from the root key and the salt that is sent with it
  (which is the salt the chat keeps), and the node whose identity has the chosen node's public
  key recovers exactly that chat key from what is sent for it.
\<close>

theorem first_message_readable:
  assumes "aes_law (se_lib en)" and "age_law (se_lib en)" and "length (se_iv en) = IV_LENGTH"
    and "create_prepare en s = Inr (mdl, node, atts)" and "create_params_of en mdl node atts s = Inr p"
    and "cl_age_recipient (se_lib en) identity = Inr (trim (the (pn_publicKey node)))"
  shows "\<exists>key. deriveChatKey (se_lib en) (se_rootKey en) (cp_encryptionSalt p) = Inr key
    \<and> decryptMessage (se_lib en) (cp_initialMessage p) key = Inr (trim (cs_input s))
    \<and> map_option (cl_age_decrypt (se_lib en) identity) (atob (gp_encryptedChatKey p)) = Some (Inr (cl_export (se_lib en) key))
    \<and> c_encryptionSalt (new_chat_object en s k u a j) = cp_encryptionSalt p
    \<and> c_title (new_chat_object en s k u a j) = cp_title p"
proof -
  obtain key where key: "deriveChatKey (se_lib en) (se_rootKey en) (se_salt en) = Inr key"
    and wrap: "wrapKeyForNode (se_lib en) key (trim (the (pn_publicKey node))) = Inr (gp_encryptedChatKey p)"
    and p: "cp_initialMessage p = encryptMessage (se_lib en) (se_iv en) (trim (cs_input s)) key"
      "cp_encryptionSalt p = se_salt en" "cp_title p = new_chat_title (trim (cs_input s))"
    using create_params_simps [OF assms(5)] by blast
  have "map_option (cl_age_decrypt (se_lib en) identity) (atob (gp_encryptedChatKey p)) = Some (Inr (cl_export (se_lib en) key))"
    using assms(6) by (intro unwrap_key [OF assms(2) _ wrap]) (simp add: trim_idem)
  then show ?thesis using key p decrypt_encrypt [OF assms(1,3)] by simp
qed

lemma first_message_readable_witness:
  "\<exists>p. create_params_of example_send_env example_model example_picked [] (send_state\<lparr>currentChatId := None\<rparr>) = Inr p
     \<and> (\<exists>key. decryptMessage example_lib (cp_initialMessage p) key = Inr ''hi'')"
proof -
  obtain p where p: "create_params_of example_send_env example_model example_picked [] (send_state\<lparr>currentChatId := None\<rparr>) = Inr p"
    using example_create_params by blast
  have "cl_age_recipient example_lib ''n'' = Inr (trim (the (pn_publicKey example_picked)))"
    by (simp add: example_lib_def example_picked_def)
  then show ?thesis
    using first_message_readable [OF _ _ _ example_create p, of "''n''"] p by (auto simp: IV_LENGTH_def)
qed

text \<open>
  C5: a new chat is ready as soon as it exists: when the first message has been sent, the chat is the current
  one and heads the list, with the job as its active one; its messages are exactly the user's,
  with the trimmed input and no parent, and the assistant's answer below it, which is the active
  leaf; when the socket is open the answer is pending and the flags of the chat are on,
  otherwise it carries an error and they are off; the input is empty, the flags of the unsaved
  chat are off and no other chat is touched.
\<close>

theorem first_message_creates_chat:
  assumes "createNewChatWithFirstMessage en api s = (Inr k, conn, s', effs)" and "se_connecting en = id" and "k \<noteq> ''new''"
  shows "\<exists>p resp u a j c. api p = Inr resp \<and> k = id_text (cr_chat_id resp) \<and> u = id_text (cr_user_message_id resp)
    \<and> a = id_text (cr_ai_message_id resp) \<and> j = id_text (cr_job_id resp)
    \<and> currentChatId s' = Some k \<and> cs_input s' = [] \<and> chats s' = c # chats (se_meanwhile en s)
    \<and> c_chatId c = k \<and> c_activeJobId c = Some j \<and> c_encryptionSalt c = cp_encryptionSalt p
    \<and> activeLeafMessageId s' k = Some a
    \<and> activeChatJobs s' k = Some \<lparr>aj_jobId = j, aj_erroredViaStream = (conn = None)\<rparr>
    \<and> flags_are s' k (conn \<noteq> None) \<and> flags_are s' ''new'' False \<and> same_elsewhere {k, ''new''} (se_meanwhile en s) s'
    \<and> (a \<noteq> u \<longrightarrow> (\<exists>vu va. messages s' k = Some [(u, vu), (a, va)]
        \<and> m_role vu = User \<and> m_content vu = trim (cs_input s) \<and> m_parentMessageId vu = None
        \<and> m_role va = Assistant \<and> m_parentMessageId va = Some u \<and> m_jobId va = Some j
        \<and> m_isComplete va = Some (conn = None) \<and> (m_errorStatus va = None \<longleftrightarrow> conn \<noteq> None)))"
  using assms(1)
proof (rule create_success)
  fix mdl node atts p resp u a j s1
  assume prep: "create_prepare en s = Inr (mdl, node, atts)" "create_params_of en mdl node atts s = Inr p" "api p = Inr resp"
    and ids: "k = id_text (cr_chat_id resp)" "u = id_text (cr_user_message_id resp)" "a = id_text (cr_ai_message_id resp)"
      "j = id_text (cr_job_id resp)"
    and s1: "s1 = fst (scheduleAttachmentCleanup (se_timer en) 250 (se_meanwhile en s))"
    and "\<exists>e. connect_job en k j node (setActiveLeaf k a (setActiveChatJob k j False
        (store_new_chat (new_chat_object en s k u a j) (new_chat_map en mdl atts s k u a j) s1))) = (conn, s', e)"
  then obtain e where con: "connect_job en k j node (setActiveLeaf k a (setActiveChatJob k j False
        (store_new_chat (new_chat_object en s k u a j) (new_chat_map en mdl atts s k u a j) s1))) = (conn, s', e)" by blast
  let ?user = "new_user_message u k (trim (cs_input s)) None None atts (se_now en)"
  let ?ai = "new_ai_message a k u j (md_modelId mdl) (se_now en)"
  let ?c = "new_chat_object en s k u a j"
  let ?s3 = "setActiveLeaf k a (setActiveChatJob k j False (store_new_chat ?c (new_chat_map en mdl atts s k u a j) s1))"
  have m: "messages ?s3 k = Some (map_set a ?ai [(u, ?user)])" by (simp add: new_chat_map_def)
  note out = connect_job_outcome [OF assms(2) con m]
  obtain v where v: "messages s' = (messages ?s3)(k \<mapsto> map_set a v [(u, ?user)])" "answer_after conn ?ai v"
    using out(1) by auto
  have salt: "c_encryptionSalt ?c = cp_encryptionSalt p" using create_params_simps [OF prep(2)] by auto
  have else3: "same_elsewhere {k, ''new''} (se_meanwhile en s) ?s3"
    using store_new_chat_elsewhere [of ?c "se_meanwhile en s"] by (simp add: elsewhere s1)
  have "same_elsewhere {k, ''new''} (se_meanwhile en s) s'"
    using same_elsewhere_trans [OF else3 same_elsewhere_mono [OF out(8)]] by simp
  moreover have "flags_are s' ''new'' False"
    using flags_elsewhere [OF out(8), of "''new''" False] assms(3) by simp
  moreover have "messages s' k = Some [(u, ?user), (a, v)]" if "a \<noteq> u" using v(1) that by simp
  moreover note answer_after_simps [OF v(2)]
  ultimately show ?thesis
    using prep(3) ids salt out(2-7) assms(3)
    by (intro exI [of _ p] exI [of _ resp] exI [of _ u] exI [of _ a] exI [of _ j] exI [of _ ?c]) (simp add: s1)
qed

lemma first_message_creates_chat_witness:
  "\<exists>conn s' effs. createNewChatWithFirstMessage example_send_env (\<lambda>_. Inr \<lparr>cr_chat_id = 8, cr_user_message_id = 1, cr_ai_message_id = 2, cr_job_id = 3\<rparr>)
      (send_state\<lparr>currentChatId := None\<rparr>) = (Inr ''8'', conn, s', effs) \<and> currentChatId s' = Some ''8'' \<and> cs_input s' = []"
proof -
  let ?api = "\<lambda>_ :: create_chat_params. (Inr \<lparr>cr_chat_id = 8, cr_user_message_id = 1, cr_ai_message_id = 2, cr_job_id = 3\<rparr> :: string + create_chat_response)"
  let ?r = "createNewChatWithFirstMessage example_send_env ?api (send_state\<lparr>currentChatId := None\<rparr>)"
  obtain p where p: "create_params_of example_send_env example_model example_picked [] (send_state\<lparr>currentChatId := None\<rparr>) = Inr p"
    using example_create_params by blast
  have "fst ?r = Inr ''8''"
    by (simp add: createNewChatWithFirstMessage_def example_create p Let_def case_prod_unfold)
  then obtain conn s' effs where r: "?r = (Inr ''8'', conn, s', effs)" by (cases ?r) auto
  from first_message_creates_chat [OF r] r show ?thesis by auto
qed

text \<open>
  C2: a message goes to the end of the thread being read: the canister is told the active leaf as its parent
  and gets the text encrypted for this very chat; afterwards the chat's messages are the old ones
  with the user's message below that leaf and the pending or failed answer below it, each under
  its own identifier, the answer is the new active leaf, the job the active one, and the list of
  chats differs only in this chat's entry.
\<close>

theorem message_extends_thread:
  assumes "addMessageToExistingChat en api s = (Inr k, conn, s', effs)" and "se_connecting en = id"
    and "aes_law (se_lib en)" and "length (se_iv en) = IV_LENGTH"
    and "m = (case messages (se_meanwhile en s) k of Some m \<Rightarrow> m | None \<Rightarrow> [])" and "keyed m"
    and "\<And>p r v. api p = Inr r \<Longrightarrow> v \<in> set (map_values m) \<Longrightarrow> m_jobId v \<noteq> Some (id_text (mr_job_id r))"
  shows "currentChatId s = Some k \<and> (\<exists>p resp c key u a j vu va. api p = Inr resp
    \<and> u = id_text (mr_user_message_id resp) \<and> a = id_text (mr_ai_message_id resp) \<and> j = id_text (mr_job_id resp)
    \<and> c \<in> set (chats s) \<and> c_chatId c = k
    \<and> deriveChatKey (se_lib en) (se_rootKey en) (c_encryptionSalt c) = Inr key
    \<and> decryptMessage (se_lib en) (ap_content p) key = Inr (trim (cs_input s)) \<and> ap_parentMessageId p = parent_of_next k s
    \<and> messages s' k = Some (map_set a va (map_set u vu m)) \<and> keyed (map_set a va (map_set u vu m))
    \<and> m_role vu = User \<and> m_content vu = trim (cs_input s) \<and> m_parentMessageId vu = ap_parentMessageId p
    \<and> m_role va = Assistant \<and> m_parentMessageId va = Some u \<and> m_jobId va = Some j
    \<and> m_isComplete va = Some (conn = None) \<and> (m_errorStatus va = None \<longleftrightarrow> conn \<noteq> None)
    \<and> activeLeafMessageId s' k = Some a \<and> flags_are s' k (conn \<noteq> None)
    \<and> activeChatJobs s' k = Some \<lparr>aj_jobId = j, aj_erroredViaStream = (conn = None)\<rparr>
    \<and> chats s' = map (\<lambda>c. if c_chatId c = k then c\<lparr>c_updatedAt := se_now en, c_activeJobId := Some j\<rparr> else c)
        (chats (se_meanwhile en s))
    \<and> same_elsewhere {k} (se_meanwhile en s) s')"
  using assms(1)
proof (rule add_success)
  fix c mdl node atts p resp u a j s1 s2
  assume prep: "add_prepare en s = Inr (c, mdl, node, atts)" and par: "add_params_of en c mdl node atts k s = Inr p"
    and resp: "api p = Inr resp" and k: "k = the (currentChatId s)" and ids: "u = id_text (mr_user_message_id resp)"
      "a = id_text (mr_ai_message_id resp)" "j = id_text (mr_job_id resp)"
    and s1: "s1 = fst (scheduleAttachmentCleanup (se_timer en) 250 (se_meanwhile en s))"
    and s2: "s2 = (store_exchange k [new_user_message u k (trim (cs_input s)) (parent_of_next k s) None atts (se_now en),
              new_ai_message a k u j (md_modelId mdl) (se_now en)] (\<lambda>c. c\<lparr>c_updatedAt := se_now en, c_activeJobId := Some j\<rparr>) s1)
            \<lparr>cs_input := []\<rparr>"
    and "\<exists>e. connect_job en k j node (setActiveChatJob k j False (setActiveLeaf k a s2)) = (conn, s', e)"
  then obtain e where con: "connect_job en k j node (setActiveChatJob k j False (setActiveLeaf k a s2)) = (conn, s', e)" by blast
  let ?user = "new_user_message u k (trim (cs_input s)) (parent_of_next k s) None atts (se_now en)"
  let ?ai = "new_ai_message a k u j (md_modelId mdl) (se_now en)" and ?m0 = "map_set u ?user m"
  let ?s3 = "setActiveChatJob k j False (setActiveLeaf k a s2)"
  have cur: "currentChatId s = Some k" and c: "c \<in> set (chats s)" "c_chatId c = k"
    using prep k unfolding add_prepare_def
    by (auto simp: map_sum_r_Inr eq_commute [of "Some _"] split: if_splits option.splits dest!: find_SomeD)
  have m: "messages ?s3 k = Some (map_set a ?ai ?m0)" by (simp add: s2 s1 assms(5))
  have ok: "map_ok ?m0" using assms(6) by (simp add: keyed_def)
  have fresh: "\<forall>v \<in> set (map_values ?m0). \<not> is_job_message j v"
    using assms(6) assms(7) [OF resp] ids(3) by (intro fresh_after_set) (auto simp: keyed_def is_job_message_def)
  note out = connect_job_outcome [OF assms(2) con m fresh ok]
  obtain v where v: "messages s' = (messages ?s3)(k \<mapsto> map_set a v ?m0)" "answer_after conn ?ai v" using out(1) by blast
  obtain key where key: "deriveChatKey (se_lib en) (se_rootKey en) (c_encryptionSalt c) = Inr key"
    "ap_content p = encryptMessage (se_lib en) (se_iv en) (trim (cs_input s)) key" "ap_parentMessageId p = parent_of_next k s"
    using add_params_simps [OF par] by blast
  have "same_elsewhere {k} (se_meanwhile en s) ?s3" by (simp add: s2 s1 elsewhere same_elsewhere_cs_input)
  then have else3: "same_elsewhere {k} (se_meanwhile en s) s'" using out(8) by (rule same_elsewhere_trans)
  have "keyed (map_set a v ?m0)" by (rule keyed_exchange(1) [OF assms(6) v(2)]) simp
  moreover note answer_after_simps [OF v(2)]
  moreover have "decryptMessage (se_lib en) (ap_content p) key = Inr (trim (cs_input s))"
    using key(2) decrypt_encrypt [OF assms(3,4)] by simp
  ultimately show ?thesis
    using cur c resp ids key(1,3) v(1) out(2-5) else3
    by (intro conjI exI [of _ p] exI [of _ resp] exI [of _ c] exI [of _ key] exI [of _ u] exI [of _ a] exI [of _ j]
        exI [of _ ?user] exI [of _ v]) (simp_all add: s2 s1)
qed

lemma message_extends_thread_witness:
  "\<exists>conn s' effs. addMessageToExistingChat example_send_env (\<lambda>_. Inr \<lparr>mr_user_message_id = 2, mr_ai_message_id = 3, mr_job_id = 4\<rparr>)
      send_state = (Inr ''7'', conn, s', effs) \<and> activeLeafMessageId s' ''7'' = Some ''3''"
proof -
  let ?api = "\<lambda>_ :: add_message_params. (Inr \<lparr>mr_user_message_id = 2, mr_ai_message_id = 3, mr_job_id = 4\<rparr> :: string + message_response)"
  let ?r = "addMessageToExistingChat example_send_env ?api send_state"
  have prep: "add_prepare example_send_env send_state = Inr (plain_chat ''7'', example_model, example_picked, [])"
    by (simp add: add_prepare_def transformAttachmentsForBackend_def) (simp add: example_picked_def)
  have "\<exists>p. add_params_of example_send_env (plain_chat ''7'') example_model example_picked [] ''7'' send_state = Inr p"
    by (simp add: add_params_of_def Let_def example_key example_picked_def example_wrap)
  then have "fst ?r = Inr ''7''"
    by (auto simp: addMessageToExistingChat_def prep Let_def case_prod_unfold)
  then obtain conn s' effs where r: "?r = (Inr ''7'', conn, s', effs)" by (cases ?r) auto
  have no_job: "m_jobId (plain_message ''1'' ''7'' User ''a'' None 3) = None" by simp
  have "keyed [(''1'', plain_message ''1'' ''7'' User ''a'' None 3)]" by (simp add: keyed_def)
  with message_extends_thread [OF r, of "[(''1'', plain_message ''1'' ''7'' User ''a'' None 3)]"] r
  show ?thesis by (force simp: IV_LENGTH_def no_job)
qed

text \<open>
  C8: editing keeps the old version: after an edit the new user message is a sibling of the edited one in the
  conversation tree, with the new text, and the answer hangs below it and is the active leaf;
  no message of the chat is lost or changed.
\<close>

theorem edit_creates_alternative:
  assumes "selectedModel s = Some mdl" and "List.find (\<lambda>c. c_chatId c = k) (chats s) = Some c" and "session_ready (se_auth en)"
    and "trim content \<noteq> []" and "edit_answer en api c mdl k old content s = Inr (node, atts, Some vo, resp)"
    and "editUserMessage en api k old content s = (conn, s', effs)" and "se_connecting en = id"
    and "messages (se_meanwhile en (setIsGenerating k True s)) k = Some m" and "keyed m"
    and "map_get m old = Some vo" and "m_role vo = User"
    and "u = id_text (mr_user_message_id resp)" and "a = id_text (mr_ai_message_id resp)" and "a \<noteq> u"
    and "\<not> map_has m u" and "\<not> map_has m a"
    and "\<forall>v \<in> set (map_values m). m_jobId v \<noteq> Some (id_text (mr_job_id resp))"
  shows "\<exists>m' vu va. messages s' k = Some m' \<and> keyed m' \<and> map_get m' u = Some vu \<and> map_get m' a = Some va
    \<and> m_content vu = content \<and> vu \<in> set (getSiblings m' (m_parentMessageId vo)) \<and> vo \<in> set (getSiblings m' (m_parentMessageId vo))
    \<and> va \<in> set (getSiblings m' (Some u)) \<and> activeLeafMessageId s' k = Some a \<and> flags_are s' k (conn \<noteq> None)
    \<and> (\<forall>i v. map_get m i = Some v \<longrightarrow> map_get m' i = Some v)"
proof -
  let ?s1 = "fst (scheduleAttachmentCleanup (se_timer en) 250 (se_meanwhile en (setIsGenerating k True s)))"
  let ?user = "new_user_message u k content (m_parentMessageId vo) (Some (md_modelId mdl)) atts (se_now en)"
  let ?j = "id_text (mr_job_id resp)" and ?m0 = "map_set u ?user m"
  let ?ai = "new_ai_message a k u ?j (md_modelId mdl) (se_now en)"
  let ?s2 = "setActiveLeaf k a (store_exchange k [?user, ?ai] (\<lambda>c. c\<lparr>c_updatedAt := se_now en\<rparr>) ?s1)"
  obtain e where con: "connect_job en k ?j node ?s2 = (conn, s', e)"
    using assms(1-6) by (auto simp: editUserMessage_def Let_def assms(12,13) split: prod.splits)
  have m: "messages ?s2 k = Some (map_set a ?ai ?m0)" by (simp add: assms(8))
  have ok: "map_ok ?m0" using assms(9) by (simp add: keyed_def)
  have fresh: "\<forall>v \<in> set (map_values ?m0). \<not> is_job_message ?j v"
    using assms(9,17) by (intro fresh_after_set) (auto simp: keyed_def is_job_message_def)
  note out = connect_job_outcome [OF assms(7) con m fresh ok]
  obtain v where v: "messages s' = (messages ?s2)(k \<mapsto> map_set a v ?m0)" "answer_after conn ?ai v" using out(1) by blast
  let ?m = "map_set a v ?m0"
  have key: "keyed ?m" by (rule keyed_exchange(1) [OF assms(9) v(2)]) simp
  then have mok: "map_ok ?m" by (simp add: keyed_def)
  have keep: "map_get ?m i = Some w" if "map_get m i = Some w" for i w
    using that assms(15,16) by (auto simp: map_has_def)
  have "?user \<in> set (getSiblings ?m (m_parentMessageId vo))"
    by (rule siblings_iff [OF mok, of u]) (use assms(14) in simp_all)
  moreover have "vo \<in> set (getSiblings ?m (m_parentMessageId vo))"
    by (rule siblings_iff [OF mok keep [OF assms(10)]]) (simp_all add: assms(11))
  moreover have "v \<in> set (getSiblings ?m (Some u))"
    using answer_after_simps [OF v(2)] by (intro siblings_iff [OF mok, of a]) simp_all
  ultimately show ?thesis
    using key keep v(1) out(2,5) assms(14)
    by (intro exI [of _ ?m] exI [of _ ?user] exI [of _ v]) simp
qed

lemma edit_creates_alternative_witness:
  "\<exists>conn s' effs. editUserMessage example_send_env (\<lambda>_. Inr \<lparr>mr_user_message_id = 2, mr_ai_message_id = 3, mr_job_id = 4\<rparr>) ''7'' ''1'' ''b'' send_state
      = (conn, s', effs) \<and> activeLeafMessageId s' ''7'' = Some ''3''"
proof -
  let ?api = "\<lambda>_ :: edit_message_params. (Inr \<lparr>mr_user_message_id = 2, mr_ai_message_id = 3, mr_job_id = 4\<rparr> :: string + message_response)"
  let ?vo = "plain_message ''1'' ''7'' User ''a'' None 3"
  have pick: "pick_with_key example_send_env example_model (setIsGenerating ''7'' True send_state) = Inr example_picked"
    by (simp add: pick_with_key_def) (simp add: example_picked_def)
  have "\<exists>p. edit_params_of example_send_env (plain_chat ''7'') example_model example_picked [] ''7'' ''1'' ''b'' send_state = Inr p"
    by (simp add: edit_params_of_def Let_def example_key example_picked_def example_wrap)
  then have ans: "edit_answer example_send_env ?api (plain_chat ''7'') example_model ''7'' ''1'' ''b'' send_state
      = Inr (example_picked, [], Some ?vo, \<lparr>mr_user_message_id = 2, mr_ai_message_id = 3, mr_job_id = 4\<rparr>)"
    by (auto simp: edit_answer_def pick transformAttachmentsForBackend_def)
  obtain conn s' effs where r: "editUserMessage example_send_env ?api ''7'' ''1'' ''b'' send_state = (conn, s', effs)"
    by (cases "editUserMessage example_send_env ?api ''7'' ''1'' ''b'' send_state")
  have "keyed [(''1'', ?vo)]" by (simp add: keyed_def)
  then have "\<exists>m' vu va. messages s' ''7'' = Some m' \<and> activeLeafMessageId s' ''7'' = Some ''3''"
    using edit_creates_alternative [OF _ _ _ _ ans r, of "[(''1'', ?vo)]" "''2''" "''3''"]
    by (force simp: map_has_def trim_def is_ws_def setIsGenerating_def)
  with r show ?thesis by auto
qed

text \<open>
  A retried answer is an alternative to the earlier ones: it hangs below the same user message, every
  earlier answer is still its sibling, it is the active leaf, and nothing of the chat is lost.
\<close>

theorem retry_creates_alternative:
  assumes "selectedModel s = Some mdl" and "List.find (\<lambda>c. c_chatId c = k) (chats s) = Some c" and "session_ready (se_auth en)"
    and "pick_with_key en mdl (setIsGenerating k True s) = Inr node"
    and "retry_params_of en c mdl node k userId s = Inr p" and "api p = Inr resp"
    and "retryAiMessage en api k userId s = (conn, s', effs)" and "se_connecting en = id"
    and "messages (se_meanwhile en (setIsGenerating k True s)) k = Some m" and "keyed m"
    and "a = id_text (mr_ai_message_id resp)" and "\<not> map_has m a"
    and "\<forall>v \<in> set (map_values m). m_jobId v \<noteq> Some (id_text (mr_job_id resp))"
  shows "\<exists>m' va. messages s' k = Some m' \<and> keyed m' \<and> map_get m' a = Some va \<and> m_role va = Assistant
    \<and> set (getSiblings m' (Some userId)) = insert va (set (getSiblings m (Some userId)))
    \<and> activeLeafMessageId s' k = Some a \<and> flags_are s' k (conn \<noteq> None)
    \<and> (\<forall>i v. map_get m i = Some v \<longrightarrow> map_get m' i = Some v)"
proof -
  let ?s1 = "se_meanwhile en (setIsGenerating k True s)" and ?j = "id_text (mr_job_id resp)"
  let ?ai = "new_ai_message a k userId ?j (md_modelId mdl) (se_now en)"
  let ?s2 = "setActiveLeaf k a (store_exchange k [?ai] (\<lambda>c. c\<lparr>c_updatedAt := se_now en\<rparr>) ?s1)"
  have con: "connect_job en k ?j node ?s2 = (conn, s', effs)"
    using assms(1-7) by (simp add: retryAiMessage_def Let_def assms(11))
  have m: "messages ?s2 k = Some (map_set a ?ai m)" by (simp add: assms(9))
  have ok: "map_ok m" using assms(10) by (simp add: keyed_def)
  have fresh: "\<forall>v \<in> set (map_values m). \<not> is_job_message ?j v" using assms(13) by (auto simp: is_job_message_def)
  note out = connect_job_outcome [OF assms(8) con m fresh ok]
  obtain v where v: "messages s' = (messages ?s2)(k \<mapsto> map_set a v m)" "answer_after conn ?ai v" using out(1) by blast
  have app: "map_set a v m = m @ [(a, v)]" using assms(12) by (intro map_keys_set_absent) (simp add: map_has_iff)
  have key: "keyed (map_set a v m)" by (rule keyed_exchange(2) [OF assms(10) v(2)]) simp
  have v': "m_role v = Assistant \<and> m_parentMessageId v = Some userId" using answer_after_simps [OF v(2)] by simp
  have sib: "set (getSiblings (map_set a v m) (Some userId)) = insert v (set (getSiblings m (Some userId)))"
    unfolding app using v' by (auto simp: getSiblings_def)
  have keep: "map_get (map_set a v m) i = Some w" if "map_get m i = Some w" for i w
    using that assms(12) by (auto simp: map_has_def)
  show ?thesis
    using key keep v(1) v' sib out(2,5) by (intro exI [of _ "map_set a v m"] exI [of _ v]) simp
qed

lemma retry_creates_alternative_witness:
  "\<exists>conn s' effs. retryAiMessage example_send_env (\<lambda>_. Inr \<lparr>mr_user_message_id = 2, mr_ai_message_id = 3, mr_job_id = 4\<rparr>) ''7'' ''1'' send_state
      = (conn, s', effs) \<and> activeLeafMessageId s' ''7'' = Some ''3''"
proof -
  let ?api = "\<lambda>_ :: retry_message_params. (Inr \<lparr>mr_user_message_id = 2, mr_ai_message_id = 3, mr_job_id = 4\<rparr> :: string + message_response)"
  let ?vo = "plain_message ''1'' ''7'' User ''a'' None 3"
  have pick: "pick_with_key example_send_env example_model (setIsGenerating ''7'' True send_state) = Inr example_picked"
    by (simp add: pick_with_key_def) (simp add: example_picked_def)
  obtain p where p: "retry_params_of example_send_env (plain_chat ''7'') example_model example_picked ''7'' ''1'' send_state = Inr p"
    by (simp add: retry_params_of_def example_key example_picked_def example_wrap)
  obtain conn s' effs where r: "retryAiMessage example_send_env ?api ''7'' ''1'' send_state = (conn, s', effs)"
    by (cases "retryAiMessage example_send_env ?api ''7'' ''1'' send_state")
  have "keyed [(''1'', ?vo)]" by (simp add: keyed_def)
  then have "activeLeafMessageId s' ''7'' = Some ''3''"
    using retry_creates_alternative [OF _ _ _ pick p refl r, of "[(''1'', ?vo)]" "''3''"]
    by (force simp: map_has_def setIsGenerating_def)
  with r show ?thesis by auto
qed

text \<open>
  An error while sending leaves no trace of the message: nothing is added to the chats or messages and no
  connection is opened. An error raised once the node and the attachments are ready clears the
  chat's flags. An error raised before that (no session, no model, no node, an unreadable file)
  does not: the chat keeps the flags the dispatcher set although nothing is generated, and every
  later attempt to send in it is refused without effect.
\<close>

theorem send_error_outcome:
  fixes en :: "'k send_env"
  assumes "sendMessage en create_api add_api s = (Inl e, conn, s', effs)" and "se_meanwhile en = id"
    and "key = (case currentChatId s of Some k \<Rightarrow> k | None \<Rightarrow> ''new'')"
    and "early \<longleftrightarrow> (if currentChatId s = None then \<exists>x. create_prepare en (set_flags key True s) = Inl x
                    else \<exists>x. add_prepare en (set_flags key True s) = Inl x)"
  shows "conn = None \<and> messages s' = messages s \<and> chats s' = chats s \<and> activeChatJobs s' = activeChatJobs s
    \<and> (\<not> early \<longrightarrow> flags_are s' key False)
    \<and> (early \<longrightarrow> s' = set_flags key True s
        \<and> (\<forall>(en' :: 'k send_env) ca aa. sendMessage en' ca aa s' = (Inr None, None, s', [])))"
proof -
  let ?s = "set_flags key True s"
  have cur: "currentChatId ?s = currentChatId s" by (simp add: set_flags_def)
  have stuck: "sendMessage en' ca aa ?s = (Inr None, None, ?s, [])" for en' :: "'k send_env" and ca aa
    unfolding sendMessage_def Let_def cur assms(3) [symmetric] by (simp add: set_flags_def)
  have run: "(if currentChatId s = None then createNewChatWithFirstMessage en create_api ?s
      else addMessageToExistingChat en add_api ?s) = (Inl e, conn, s', effs)"
    using assms(1) unfolding sendMessage_def Let_def assms(3) [symmetric]
    by (auto split: if_splits prod.splits elim: map_sum_r.elims)
  have abort: "conn = None \<and> messages s' = messages s \<and> chats s' = chats s \<and> activeChatJobs s' = activeChatJobs s \<and> flags_are s' key False"
    if "abort_send en key x ?s = (Inl e, conn, s', effs)" for x
  proof -
    have "conn = None" and "s' = fst (scheduleAttachmentCleanup (se_timer en) 250 (set_flags key False ?s))"
      using that by (auto simp: abort_send_def split: prod.splits)
    then show ?thesis by simp
  qed
  show ?thesis
  proof (cases "currentChatId s")
    case None
    with assms(3) have key: "key = ''new''" by simp
    show ?thesis
    proof (cases "create_prepare en ?s")
      case (Inl x)
      with run None assms(2) have "conn = None" "s' = ?s" by (simp_all add: createNewChatWithFirstMessage_def)
      with stuck assms(4) None Inl show ?thesis by simp
    next
      case (Inr r)
      obtain mdl node atts where r: "r = (mdl, node, atts)" by (cases r)
      have "\<exists>x. abort_send en key x ?s = (Inl e, conn, s', effs)"
        using run None Inr r assms(2) key
        by (auto simp: createNewChatWithFirstMessage_def Let_def split: sum.splits prod.splits)
      with abort assms(4) None Inr show ?thesis by auto
    qed
  next
    case (Some k)
    with assms(3) have key: "key = k" by simp
    show ?thesis
    proof (cases "add_prepare en ?s")
      case (Inl x)
      with run Some assms(2) have "conn = None" "s' = ?s" by (simp_all add: addMessageToExistingChat_def)
      with stuck assms(4) Some Inl show ?thesis by simp
    next
      case (Inr r)
      obtain c mdl node atts where r: "r = (c, mdl, node, atts)" by (cases r)
      have "\<exists>x. abort_send en key x ?s = (Inl e, conn, s', effs)"
        using run Some Inr r assms(2) key cur
        by (auto simp: addMessageToExistingChat_def Let_def split: sum.splits prod.splits)
      with abort assms(4) Some Inr show ?thesis by auto
    qed
  qed
qed

lemma send_error_outcome_witness:
  "sendMessage example_send_env (\<lambda>_. Inl ''x'') (\<lambda>_. Inl ''x'') (set_flags ''new'' True initialChatState) = (Inr None, None, set_flags ''new'' True initialChatState, [])"
proof -
  have p: "create_prepare example_send_env (set_flags ''new'' True initialChatState) = Inl ''No model selected.''"
    by (simp add: create_prepare_def) (simp add: initialChatState_def set_flags_def)
  have cur: "currentChatId initialChatState = None" "\<not> flag (isGenerating initialChatState) ''new''"
    by (simp_all add: initialChatState_def)
  have "sendMessage example_send_env (\<lambda>_. Inl ''x'') (\<lambda>_. Inl ''x'') initialChatState
      = (Inl ''No model selected.'', None, set_flags ''new'' True initialChatState, [])"
    by (simp add: sendMessage_def createNewChatWithFirstMessage_def p cur)
  from send_error_outcome [OF this _ refl refl] show ?thesis by (simp add: cur p)
qed

end
