(* ===== verification/Tool_Calls_Props.thy ===== *)
theory Tool_Calls_Props
  imports Tool_Calls Send_Message_Props
begin

text \<open>
  Running tools and continuing: one result per call, the thread goes on below the answer that asked
  for them, a failure stays with that answer; what happens to searches that wait for the index.
\<close>

section \<open>Lemmas\<close>

text \<open>Every call gets a result under its own identifier.\<close>

lemma run_tool_id: "tr_tool_call_id (fst (run_tool en msg s ic)) = tc_id (snd ic)"
proof (cases "stored_result msg (snd ic)")
  case (Some r)
  then have "tr_tool_call_id r = tc_id (snd ic)"
    by (auto simp: stored_result_def dest: find_SomeD split: option.splits)
  with Some show ?thesis by (simp add: run_tool_def)
next
  case None
  have plain: "tr_tool_call_id r = tc_id c" if "fst (files_search en c) = Inr r" for c r
    using that by (auto simp: files_search_def plain_result_def Let_def split: sum.splits if_splits)
  have web: "tr_tool_call_id r = tc_id c" if "web_search en i c s = Inr r" for i c r
    using that by (cases "te_query en (tc_arguments c)"; cases "search_answer (te_search en i) (te_search_prompt en (the (projr (te_query en (tc_arguments c))))) s")
      (auto simp: web_search_def plain_result_def no_search_service_def Let_def split: option.splits if_splits)
  obtain i c where ic: "ic = (i, c)" by (cases ic)
  obtain out q where ex: "execute_tool en i c s = (out, q)" by (cases "execute_tool en i c s")
  have "tr_tool_call_id r = tc_id c" if "out = Inr r" for r
    using ex that plain [of c r] web [of i c r] by (auto simp: execute_tool_def split: if_splits)
  with None ex ic show ?thesis by (cases out) (auto simp: run_tool_def failed_result_def)
qed

lemma run_tools_ids: "map tr_tool_call_id (map fst (run_tools en msg calls s)) = map tc_id calls"
proof -
  have "map tr_tool_call_id (map fst (run_tools en msg calls s)) = map (tc_id \<circ> snd) (zip [0..<length calls] calls)"
    by (simp add: run_tools_def run_tool_id comp_def)
  also have "\<dots> = map tc_id (map snd (zip [0..<length calls] calls))" unfolding map_map ..
  also have "map snd (zip [0..<length calls] calls) = calls" by (rule map_snd_zip) simp
  finally show ?thesis .
qed

lemma run_tools_length [simp]: "length (run_tools en msg calls s) = length calls"
  by (simp add: run_tools_def)

text \<open>Only the stores of the nodes are read.\<close>

lemma pick_processing [simp]: "pickNodeForModel now rnd md (set_processing k i b s) = pickNodeForModel now rnd md s"
  by (simp add: pickNodeForModel_def suitable_nodes_def set_processing_def)

lemma processing_simps [simp]:
  "messages (set_processing k i b s) = messages s" "chats (set_processing k i b s) = chats s"
  "selectedModel (set_processing k i b s) = selectedModel s" "queuedToolCalls (set_processing k i b s) = queuedToolCalls s"
  "activeLeafMessageId (set_processing k i b s) = activeLeafMessageId s" "activeChatJobs (set_processing k i b s) = activeChatJobs s"
  "flags_are (set_processing k i b s) j c = flags_are s j c" "same_elsewhere K s0 (set_processing k i b s) = same_elsewhere K s0 s"
  "same_elsewhere K (set_processing k i b s) s0 = same_elsewhere K s s0"
  "flag (isProcessingTools (set_processing k i b s)) (tools_key k i) = b" "webSockets (set_processing k i b s) = webSockets s"
  by (simp_all add: set_processing_def flags_are_def same_elsewhere_def)

lemma update_message_at:
  "messages s k = Some m \<Longrightarrow> map_get m i = Some msg \<Longrightarrow>
     update_message k i f s = s\<lparr>messages := (messages s)(k \<mapsto> map_set i (f msg) m)\<rparr>"
  by (simp add: update_message_def)

lemma update_message_simps [simp]:
  "queuedToolCalls (update_message k i f s) = queuedToolCalls s" "chats (update_message k i f s) = chats s"
  "isProcessingTools (update_message k i f s) = isProcessingTools s"
  by (auto simp: update_message_def split: option.split)

lemma update_message_elsewhere [simp]: "k \<in> K \<Longrightarrow> same_elsewhere K s0 (update_message k i f s) = same_elsewhere K s0 s"
  by (auto simp: update_message_def same_elsewhere_def split: option.split)

lemma update_message_other: "j \<noteq> i \<Longrightarrow> message_at (update_message k i f s) c j = message_at s c j"
  by (auto simp: update_message_def message_at_def split: option.split)

lemma tools_prepare_Inr:
  assumes "tools_prepare en k i s = Inr (mdl, c, msg, calls)"
  shows "selectedModel s = Some mdl" "c_chatId c = k" "c \<in> set (chats s)" "message_at s k i = Some msg" "m_tool_calls msg = Some calls"
  using assms by (auto simp: tools_prepare_def dest: find_SomeD split: option.splits if_splits)

lemma tools_prepare_processing [simp]: "tools_prepare en k i (set_processing k' i' b s) = tools_prepare en k i s"
  by (simp only: tools_prepare_def message_at_def processing_simps)

lemma execute_processing [simp]: "execute_tool en n c (set_processing k i b s) = execute_tool en n c s"
  by (simp only: execute_tool_def web_search_def search_answer_def pick_temp_node_def pick_processing)

lemma run_tools_processing [simp]: "run_tools en msg calls (set_processing k i b s) = run_tools en msg calls s"
  unfolding run_tools_def run_tool_def execute_processing ..

lemma pick_update_message [simp]: "pickNodeForModel now rnd md (update_message k i f s) = pickNodeForModel now rnd md s"
  by (simp add: pickNodeForModel_def suitable_nodes_def update_message_def split: option.split)

lemma update_message_fields [simp]:
  "activeLeafMessageId (update_message k i f s) = activeLeafMessageId s" "activeChatJobs (update_message k i f s) = activeChatJobs s"
  "webSockets (update_message k i f s) = webSockets s"
  by (auto simp: update_message_def split: option.split)

lemma continue_params_processing [simp]:
  "continue_params_of en mdl c node k i rs (set_processing k' i' b s) = continue_params_of en mdl c node k i rs s"
  unfolding continue_params_of_def effort_param_def by (simp add: set_processing_def)

lemma continue_params_Inr:
  assumes "continue_params_of en mdl c node k i rs s = Inr p"
  obtains key where "deriveChatKey (se_lib en) (the (au_rootKey (se_auth en))) (c_encryptionSalt c) = Inr key"
    and "np_responses p = map (\<lambda>(i, r). (tr_tool_call_id r, encryptMessage (se_lib en) (te_result_iv en i) (tr_content r) key)) (zip [0..<length rs] rs)"
    and "wrapKeyForNode (se_lib en) key (the (pn_publicKey node)) = Inr (gp_encryptedChatKey p)"
    and "np_chatId p = k" "np_assistantMessageId p = i"
  using assms unfolding continue_params_of_def
  by (cases "deriveChatKey (se_lib en) (the (au_rootKey (se_auth en))) (c_encryptionSalt c)";
      cases "wrapKeyForNode (se_lib en) (projr (deriveChatKey (se_lib en) (the (au_rootKey (se_auth en))) (c_encryptionSalt c))) (the (pn_publicKey node))")
    (auto simp: Let_def)

lemma map_values_set: "set (map_values (map_set k v m)) \<subseteq> insert v (set (map_values m))"
  by (induction m) auto

text \<open>Nothing else happens to the store while the action awaits an answer.\<close>

definition undisturbed :: "'k tool_env \<Rightarrow> bool" where
  "undisturbed en \<longleftrightarrow> te_tools_meanwhile en = id \<and> te_store_meanwhile en = id \<and> se_meanwhile en = id \<and> se_connecting en = id"

text \<open>An action that opens a connection has gone through all its steps.\<close>

lemma tools_body_connected:
  assumes "undisturbed en" and "tools_body en store_api continue_api k i s = (Some conn, s', effs)"
  obtains mdl c msg calls node p resp where "tools_prepare en k i s = Inr (mdl, c, msg, calls)"
    and "\<not> list_ex snd (run_tools en msg calls s)" and "\<forall>q \<in> set (queuedToolCalls s). snd q \<noteq> i"
    and "continue_params_of en mdl c node k i (map fst (run_tools en msg calls s)) s = Inr p" and "continue_api p = Inr resp"
    and "continue_thread en mdl node k i resp (update_message k i (with_results (te_results_now en) (map fst (run_tools en msg calls s))) s)
      = (Some conn, s', effs)"
proof (cases "tools_prepare en k i s")
  case (Inl e)
  then show ?thesis using assms(2) by (simp add: tools_body_def)
next
  case (Inr r)
  obtain mdl c msg calls where r: "r = (mdl, c, msg, calls)" by (cases r)
  let ?ran = "run_tools en msg calls s"
  let ?q = "if list_ex snd ?ran then queue_tool_call k i s else s"
  let ?s3 = "update_message k i (with_results (te_results_now en) (map fst ?ran)) ?q"
  let ?params = "\<lambda>node. continue_params_of en mdl c node k i (map fst ?ran) s"
  have id: "te_tools_meanwhile en = id" "te_store_meanwhile en = id" "se_meanwhile en = id" using assms(1) by (simp_all add: undisturbed_def)
  have q: "\<not> list_ex (\<lambda>c. snd c = i) (queuedToolCalls ?s3)"
    and rest: "(case bind_sum (pick_continuation en mdl ?s3) (\<lambda>node. map_sum_r (\<lambda>r. (node, r)) (bind_sum (?params node) continue_api)) of
        Inl e \<Rightarrow> (None, update_message k i (with_tool_error e) ?s3, [])
      | Inr (node, response) \<Rightarrow> continue_thread en mdl node k i response ?s3) = (Some conn, s', effs)"
    using assms(2) unfolding tools_body_def Inr r Let_def
    by (auto simp: id split: if_splits sum.splits)
  from q have notq: "\<not> list_ex snd ?ran" and q': "\<forall>q \<in> set (queuedToolCalls s). snd q \<noteq> i"
    by (auto simp: queue_tool_call_def list_ex_iff split: if_splits)
  from rest obtain node resp where "bind_sum (?params node) continue_api = Inr resp" and
    thread: "continue_thread en mdl node k i resp ?s3 = (Some conn, s', effs)"
    by (cases "pick_continuation en mdl ?s3"; cases "bind_sum (?params (projr (pick_continuation en mdl ?s3))) continue_api") auto
  then obtain p where "?params node = Inr p" "continue_api p = Inr resp" by (cases "?params node") auto
  with that [of mdl c msg calls node p resp] Inr r notq q' thread show ?thesis by simp
qed

lemma decrypt_responses:
  assumes "aes_law lib" and "\<And>i. length (iv i) = IV_LENGTH"
  shows "map (\<lambda>(c, b). (c, decryptMessage lib b key))
      (map (\<lambda>(i, r). (tr_tool_call_id r, encryptMessage lib (iv i) (tr_content r) key)) (zip [0..<length rs] rs))
    = map (\<lambda>r. (tr_tool_call_id r, Inr (tr_content r))) rs"
proof -
  have "map (\<lambda>(c, b). (c, decryptMessage lib b key))
      (map (\<lambda>(i, r). (tr_tool_call_id r, encryptMessage lib (iv i) (tr_content r) key)) (zip [0..<length rs] rs))
    = map ((\<lambda>r. (tr_tool_call_id r, Inr (tr_content r))) \<circ> snd) (zip [0..<length rs] rs)"
    using decrypt_encrypt [OF assms(1) assms(2)] by auto
  also have "\<dots> = map (\<lambda>r. (tr_tool_call_id r, Inr (tr_content r))) (map snd (zip [0..<length rs] rs))" unfolding map_map ..
  also have "map snd (zip [0..<length rs] rs) = rs" by (rule map_snd_zip) simp
  finally show ?thesis .
qed

section \<open>An example\<close>

definition quoted_name :: "string \<Rightarrow> string" where
  "quoted_name n = CHR 0x27 # n @ [CHR 0x27]"

definition example_call :: "string \<Rightarrow> string \<Rightarrow> tool_call" where
  "example_call i name = \<lparr>tc_id = i, tc_name = name, tc_arguments = ''notes''\<rparr>"

definition example_asking :: message where
  "example_asking = (plain_message ''2'' ''7'' Assistant [] (Some ''1'') 4)\<lparr>m_tool_calls := Some [example_call ''c1'' ''files_search'', example_call ''c2'' ''other'']\<rparr>"

definition example_notes :: file_item where
  "example_notes = \<lparr>fi_id = ''f'', fi_name = ''n.txt'', fi_size = 5, fi_uploadedAt = 0, fi_mimeType = ''text/plain'', fi_parentId = ''0'', fi_chunks = []\<rparr>"

definition tool_state :: chat_state where
  "tool_state = send_state\<lparr>messages := [''7'' \<mapsto> [(''1'', plain_message ''1'' ''7'' User ''a'' None 3), (''2'', example_asking)]]\<rparr>"

definition example_tool_env :: "file_state \<Rightarrow> bytes tool_env" where
  "example_tool_env fs =
     \<lparr>se_auth = example_auth, se_pick_now = 5, se_random = 1/2, se_salt = [], se_iv = replicate 12 0,
      se_read = \<lambda>f. Inr (f_bytes f), se_prompt = \<lambda>m. md_name m, se_lib = example_lib, se_meanwhile = id, se_now = 9,
      se_timer = 1, se_connect_auth = example_auth, se_create = \<lambda>url. Inr 3, se_connecting = id,
      se_env = \<lparr>ev_now = 9, ev_ready = \<lambda>_. CONNECTING, ev_frame = 1, ev_show = \<lambda>_. []\<rparr>,
      te_query = \<lambda>a. Inr (Some a), te_files = fs, te_log = example_log, te_script = latin1_script, te_models = [],
      te_search_prompt = \<lambda>q. q, te_search = \<lambda>_. \<lparr>ws_env = example_send_env, ws_api = \<lambda>_. Inl ''x'', ws_socket = \<lambda>_. Inl ''x''\<rparr>,
      te_tools_meanwhile = id, te_store_meanwhile = id, te_results_now = 6, te_result_iv = \<lambda>_. replicate 12 0\<rparr>"

definition example_continue :: "continue_params \<Rightarrow> string + message_response" where
  "example_continue p = Inr \<lparr>mr_user_message_id = 2, mr_ai_message_id = 3, mr_job_id = 4\<rparr>"

lemma example_tool_env_simps [simp]:
  "se_auth (example_tool_env fs) = example_auth" "se_lib (example_tool_env fs) = example_lib"
  "se_meanwhile (example_tool_env fs) = id" "se_connecting (example_tool_env fs) = id" "se_random (example_tool_env fs) = 1 / 2"
  "te_files (example_tool_env fs) = fs" "te_query (example_tool_env fs) = (\<lambda>a. Inr (Some a))"
  "te_tools_meanwhile (example_tool_env fs) = id" "te_store_meanwhile (example_tool_env fs) = id"
  "te_result_iv (example_tool_env fs) i = replicate 12 0" "send_env.truncate (example_tool_env fs) = example_send_env"
  by (simp_all add: example_tool_env_def example_send_env_def send_env.truncate_def)

lemma tool_state_simps [simp]:
  "messages tool_state ''7'' = Some [(''1'', plain_message ''1'' ''7'' User ''a'' None 3), (''2'', example_asking)]"
  "chats tool_state = [plain_chat ''7'']" "selectedModel tool_state = Some example_model" "queuedToolCalls tool_state = []"
  "pickNodeForModel now (1/2) ''m'' tool_state = Some example_picked" "webSockets tool_state = []"
proof -
  have "pickNodeForModel now (1/2) ''m'' tool_state = pickNodeForModel now (1/2) ''m'' send_state"
    by (rule pick_cong) (simp_all add: tool_state_def)
  then show "pickNodeForModel now (1/2) ''m'' tool_state = Some example_picked" by simp
qed (simp_all add: tool_state_def, simp_all add: send_state_def node_state_def initialChatState_def)

lemma example_prepare:
  "tools_prepare (example_tool_env fs) ''7'' ''2'' tool_state
     = Inr (example_model, plain_chat ''7'', example_asking, [example_call ''c1'' ''files_search'', example_call ''c2'' ''other''])"
  by (simp add: tools_prepare_def message_at_def example_asking_def)

lemma example_results:
  "run_tools (example_tool_env initialFileState) example_asking [example_call ''c1'' ''files_search'', example_call ''c2'' ''other''] s
     = [(plain_result (example_call ''c1'' ''files_search'') ''No searchable file content found.'', False),
        (\<lparr>tr_tool_call_id = ''c2'', tr_content = json_error (''Tool '' @ quoted_name ''other'' @ '' not recognized.''),
          tr_error = Some (''Tool '' @ quoted_name ''other'' @ '' not found.'')\<rparr>, False)]"
  by (simp add: run_tools_def run_tool_def stored_result_def example_asking_def example_call_def execute_tool_def files_search_def
      initialFileState_def trim_def is_ws_def quoted_name_def)

lemma example_connect:
  assumes "chats s = [plain_chat ''7'']" and "webSockets s = []"
  shows "\<exists>conn s' effs. connect_job example_send_env ''7'' ''4'' example_picked s = (Some conn, s', effs)"
proof -
  have "buildWebSocketUrl ''a.example'' = Inr ''wss://a.example''" by code_simp
  then have url: "\<exists>u. buildWebSocketUrl ''a.example'' = Inr u" by blast
  have env: "se_connect_auth example_send_env = example_auth" "se_create example_send_env = (\<lambda>url. Inr 3)"
    by (simp_all add: example_send_env_def)
  show ?thesis unfolding connect_job_def env example_picked_def using assms url
    by (auto simp: connectToChainWebSocket_def connect_guard_def connect_socket_def example_key Let_def)
qed

definition example_tools_run :: "file_state \<Rightarrow> connection option \<times> chat_state \<times> chat_effect list" where
  "example_tools_run fs = runAndContinueFromTools (example_tool_env fs) (\<lambda>_. Inr ()) example_continue ''7'' ''2'' tool_state"

lemma example_run_connects: "\<exists>conn s' effs. example_tools_run initialFileState = (Some conn, s', effs)"
proof -
  let ?en = "example_tool_env initialFileState" and ?s = "set_processing ''7'' ''2'' True tool_state"
  let ?calls = "[example_call ''c1'' ''files_search'', example_call ''c2'' ''other'']"
  let ?results = "map fst (run_tools ?en example_asking ?calls ?s)"
  have fresh: "m_tool_results example_asking = None" by (simp add: example_asking_def)
  have ran: "\<not> list_ex snd (run_tools ?en example_asking ?calls ?s)" by (simp add: example_results)
  have node: "pick_continuation ?en example_model s = Inr example_picked"
    if "pickNodeForModel (se_pick_now ?en) (1/2) ''m'' s = Some example_picked" for s
    using that by (simp add: pick_continuation_def) (simp add: example_picked_def)
  have params: "\<exists>p. continue_params_of ?en example_model (plain_chat ''7'') example_picked ''7'' ''2'' rs ?s = Inr p" for rs
    by (simp add: continue_params_of_def Let_def example_key example_picked_def example_wrap)
  let ?s3 = "update_message ''7'' ''2'' (with_results (te_results_now ?en) ?results) ?s"
  obtain p where p: "continue_params_of ?en example_model (plain_chat ''7'') example_picked ''7'' ''2'' ?results ?s = Inr p"
    using params by blast
  let ?resp = "\<lparr>mr_user_message_id = 2, mr_ai_message_id = 3, mr_job_id = 4\<rparr>"
  have "tools_body ?en (\<lambda>_. Inr ()) example_continue ''7'' ''2'' ?s
      = continue_thread ?en example_model example_picked ''7'' ''2'' ?resp ?s3"
    unfolding tools_body_def tools_prepare_processing example_prepare Let_def
    using p params ran by (simp add: fresh node example_continue_def)
  moreover have "\<exists>conn s' effs. continue_thread ?en example_model example_picked ''7'' ''2'' ?resp ?s3 = (Some conn, s', effs)"
    unfolding continue_thread_def Let_def by (simp, rule example_connect) (simp_all add: chat_ops)
  ultimately show ?thesis by (auto simp: example_tools_run_def runAndContinueFromTools_def)
qed

section \<open>Properties\<close>

text \<open>
  C4: tools carry the conversation on: when the action has opened its connection, every call of the answer got
  exactly one result, under its own identifier and in the order of the calls; the answer keeps these
  results and no longer waits for the client; what was sent to the canister are these results, each
  readable under the key of the chat; the new answer hangs below the one that asked, pending, and
  is the active leaf and job; the tools are not running any more, and no other chat is touched.
\<close>

theorem tools_continue_thread:
  assumes "undisturbed en" and "runAndContinueFromTools en store_api continue_api k i s = (Some conn, s', effs)"
    and "messages s k = Some m" and "map_ok m"
    and "\<forall>p resp. continue_api p = Inr resp \<longrightarrow> (\<forall>v \<in> set (map_values m). \<not> is_job_message (id_text (mr_job_id resp)) v)"
    and "aes_law (se_lib en)" and "\<And>n. length (te_result_iv en n) = IV_LENGTH"
  shows "\<exists>mdl c msg calls results p resp a j key. tools_prepare en k i s = Inr (mdl, c, msg, calls)
    \<and> results = map fst (run_tools en msg calls s) \<and> map tr_tool_call_id results = map tc_id calls
    \<and> continue_api p = Inr resp \<and> a = id_text (mr_ai_message_id resp) \<and> j = id_text (mr_job_id resp)
    \<and> np_chatId p = k \<and> np_assistantMessageId p = i
    \<and> deriveChatKey (se_lib en) (the (au_rootKey (se_auth en))) (c_encryptionSalt c) = Inr key
    \<and> map (\<lambda>(c, b). (c, decryptMessage (se_lib en) b key)) (np_responses p) = map (\<lambda>r. (tr_tool_call_id r, Inr (tr_content r))) results
    \<and> messages s' k = Some (map_set a (new_ai_message a k i j (md_modelId mdl) (se_now en))
                              (map_set i (with_results (te_results_now en) results msg) m))
    \<and> activeLeafMessageId s' k = Some a \<and> activeChatJobs s' k = Some \<lparr>aj_jobId = j, aj_erroredViaStream = False\<rparr>
    \<and> flags_are s' k True \<and> \<not> flag (isProcessingTools s') (tools_key k i) \<and> same_elsewhere {k} s s'"
proof -
  let ?s = "set_processing k i True s"
  obtain t where t: "tools_body en store_api continue_api k i ?s = (Some conn, t, effs)" and s': "s' = set_processing k i False t"
    using assms(2) by (auto simp: runAndContinueFromTools_def split: prod.splits)
  obtain mdl c msg calls node p resp where prep: "tools_prepare en k i s = Inr (mdl, c, msg, calls)"
    and p: "continue_params_of en mdl c node k i (map fst (run_tools en msg calls s)) s = Inr p" and resp: "continue_api p = Inr resp"
    and thread: "continue_thread en mdl node k i resp (update_message k i (with_results (te_results_now en) (map fst (run_tools en msg calls s))) ?s)
        = (Some conn, t, effs)"
    by (rule tools_body_connected [OF assms(1) t]) (unfold tools_prepare_processing run_tools_processing continue_params_processing, blast)
  let ?rs = "map fst (run_tools en msg calls s)" and ?a = "id_text (mr_ai_message_id resp)" and ?j = "id_text (mr_job_id resp)"
  let ?m = "map_set i (with_results (te_results_now en) ?rs msg) m"
  let ?ai = "new_ai_message ?a k i ?j (md_modelId mdl) (se_now en)"
  let ?s3 = "?s\<lparr>messages := (messages s)(k \<mapsto> ?m)\<rparr>"
  let ?s4 = "setActiveChatJob k ?j False (setActiveLeaf k ?a (?s3\<lparr>messages := (messages s)(k \<mapsto> map_set ?a ?ai ?m)\<rparr>))"
  have msg: "map_get m i = Some msg" using tools_prepare_Inr(4) [OF prep] assms(3) by (simp add: message_at_def)
  have upd: "update_message k i (with_results (te_results_now en) ?rs) ?s = ?s3"
    using update_message_at [of ?s k m i msg] assms(3) msg by simp
  have con: "connect_job (send_env.truncate en) k ?j node ?s4 = (Some conn, t, effs)"
    using thread unfolding upd continue_thread_def by (simp add: Let_def toMessageId_def toJobId_def)
  have "\<not> is_job_message ?j (with_results (te_results_now en) ?rs msg)"
    using assms(5) resp map_get_value [OF msg] by (auto simp: is_job_message_def with_results_def)
  then have fresh: "\<forall>v \<in> set (map_values ?m). \<not> is_job_message ?j v"
    using assms(5) resp map_values_set [of i _ m] by blast
  have id: "se_connecting (send_env.truncate en) = id" using assms(1) by (simp add: undisturbed_def send_env.truncate_def)
  have m4: "messages ?s4 k = Some (map_set ?a ?ai ?m)" by simp
  note out = connect_job_outcome [OF id con m4 fresh]
  obtain key where key: "deriveChatKey (se_lib en) (the (au_rootKey (se_auth en))) (c_encryptionSalt c) = Inr key"
    and rsp: "np_responses p = map (\<lambda>(i, r). (tr_tool_call_id r, encryptMessage (se_lib en) (te_result_iv en i) (tr_content r) key)) (zip [0..<length ?rs] ?rs)"
    and pk: "np_chatId p = k" "np_assistantMessageId p = i"
    by (rule continue_params_Inr [OF p])
  have ok: "map_ok ?m" using assms(4) by simp
  have el: "same_elsewhere {k} s t"
    using out(8) [OF ok] by (auto simp: same_elsewhere_def chat_ops set_processing_def)
  have dec: "map (\<lambda>(c, b). (c, decryptMessage (se_lib en) b key)) (np_responses p) = map (\<lambda>r. (tr_tool_call_id r, Inr (tr_content r))) ?rs"
    unfolding rsp by (rule decrypt_responses [OF assms(6,7)])
  have msgs: "messages s' k = Some (map_set ?a ?ai ?m)" using out(1) [OF ok] by (auto simp: s' answer_after_def)
  have rest: "activeLeafMessageId s' k = Some ?a" "activeChatJobs s' k = Some \<lparr>aj_jobId = ?j, aj_erroredViaStream = False\<rparr>"
      "flags_are s' k True" "\<not> flag (isProcessingTools s') (tools_key k i)" "same_elsewhere {k} s s'"
    using out(2,3,5) [OF ok] el by (simp_all add: s' chat_ops)
  show ?thesis
    by (rule exI [of _ mdl], rule exI [of _ c], rule exI [of _ msg], rule exI [of _ calls], rule exI [of _ ?rs], rule exI [of _ p],
        rule exI [of _ resp], rule exI [of _ ?a], rule exI [of _ ?j], rule exI [of _ key], intro conjI refl)
      (fact prep run_tools_ids resp pk key dec msgs rest)+
qed

lemma tools_continue_thread_witness:
  "\<exists>conn s' effs. example_tools_run initialFileState = (Some conn, s', effs) \<and> activeLeafMessageId s' ''7'' = Some ''3''"
proof -
  obtain conn s' effs where run: "example_tools_run initialFileState = (Some conn, s', effs)" using example_run_connects by blast
  have "undisturbed (example_tool_env initialFileState)" by (simp add: undisturbed_def)
  then show ?thesis
    using tools_continue_thread [OF _ run [unfolded example_tools_run_def] tool_state_simps(1)] run
    by (force simp: example_continue_def is_job_message_def example_asking_def IV_LENGTH_def plain_message_def)
qed

text \<open>
  C21: a search that waits for the index is never run: when a search of the files is called while the index is
  stale or being built, the action stores the notice that the index is being updated as the result of
  the call, marks the answer as served, queues it and opens no connection. When the queue is
  processed, whatever the index has become, the stored notice is what each run returns for the call,
  so it is the notice that the model gets and not what the files say.
\<close>

theorem queued_search_never_runs:
  assumes "undisturbed en" and "tools_prepare en k i s = Inr (mdl, c, msg, calls)" and "m_tool_results msg = None"
    and "call \<in> set calls" and "tc_name call = ''files_search''" and "te_query en (tc_arguments call) = Inr (Some q)" and "trim q \<noteq> []"
    and "filter is_text_file (map_values (fs_files (te_files en))) \<noteq> []"
    and "needs_indexing (te_files en) \<or> indexingStatus (te_files en) = IdxInProgress"
    and "\<And>r. store_api r = Inr ()" and "messages s k = Some m" and "distinct (map tc_id calls)"
    and "runAndContinueFromTools en store_api continue_api k i s = (conn, s', effs)"
  shows "conn = None \<and> (k, i) \<in> set (queuedToolCalls s')
    \<and> (\<exists>msg'. message_at s' k i = Some msg' \<and> m_requires_client_action msg' = Some False \<and> m_tool_calls msg' = Some calls
         \<and> (\<forall>en' t n. run_tool en' msg' t (n, call) = (plain_result call queued_text, False)))"
proof -
  let ?s = "set_processing k i True s" and ?ran = "run_tools en msg calls s"
  have ran: "run_tool en msg t (n, call) = (plain_result call queued_text, True)" for t n
    using assms(3-9) by (auto simp: run_tool_def stored_result_def execute_tool_def files_search_def Let_def)
  obtain n where n: "n < length calls" "call = calls ! n" using assms(4) by (auto simp: in_set_conv_nth)
  have nth: "?ran ! n = (plain_result call queued_text, True)" and len: "n < length ?ran"
    using n ran by (simp_all add: run_tools_def)
  then have queued: "list_ex snd ?ran" by (metis list_ex_iff nth_mem snd_conv)
  let ?q = "queue_tool_call k i ?s" and ?msg = "with_results (te_results_now en) (map fst ?ran) msg"
  have msg: "map_get m i = Some msg" using tools_prepare_Inr(4) [OF assms(2)] assms(11) by (simp add: message_at_def)
  have mq: "messages ?q k = Some m" using assms(11) by (simp add: queue_tool_call_def)
  have inq: "(k, i) \<in> set (queuedToolCalls ?q)" by (simp add: queue_tool_call_def)
  let ?s3 = "update_message k i (with_results (te_results_now en) (map fst ?ran)) ?q"
  have "list_ex (\<lambda>c. snd c = i) (queuedToolCalls ?s3)" using inq by (force simp: list_ex_iff)
  then have body: "tools_body en store_api continue_api k i ?s = (None, ?s3, [])"
    using assms(1,10) unfolding tools_body_def tools_prepare_processing assms(2) Let_def
    by (simp add: queued assms(3) undisturbed_def)
  then have run: "conn = None" "s' = set_processing k i False ?s3"
    using assms(13) by (simp_all add: runAndContinueFromTools_def)
  have found: "message_at s' k i = Some ?msg" using update_message_at [OF mq msg] by (simp add: run(2) message_at_def)
  have "List.find (\<lambda>res. tr_tool_call_id res = tc_id call) (map fst ?ran) = Some (plain_result call queued_text)"
  proof -
    have ids: "map tr_tool_call_id (map fst ?ran) = map tc_id calls" by (rule run_tools_ids)
    have "tr_tool_call_id (map fst ?ran ! j) = tc_id (calls ! j)" if "j < length calls" for j
      using arg_cong [OF ids, of "\<lambda>xs. xs ! j"] that by simp
    then have "tr_tool_call_id (map fst ?ran ! j) \<noteq> tc_id call" if "j < n" for j
      using that n assms(12) by (simp add: distinct_conv_nth)
    then show ?thesis
      using nth len by (auto simp: find_Some_iff plain_result_def intro!: exI [of _ n])
  qed
  then have "run_tool en' ?msg t (n', call) = (plain_result call queued_text, False)" for en' t n'
    by (simp add: run_tool_def stored_result_def with_results_def)
  then show ?thesis
    using run inq found tools_prepare_Inr(5) [OF assms(2)] by (auto simp: with_results_def)
qed

lemma queued_search_never_runs_witness:
  "\<exists>s' msg'. message_at s' ''7'' ''2'' = Some msg'
     \<and> run_tool (example_tool_env initialFileState) msg' tool_state (0, example_call ''c1'' ''files_search'')
         = (plain_result (example_call ''c1'' ''files_search'') queued_text, False)"
proof -
  let ?fs = "initialFileState\<lparr>fs_files := [(''f'', example_notes)]\<rparr>"
  obtain conn s' effs where run: "runAndContinueFromTools (example_tool_env ?fs) (\<lambda>_. Inr ()) example_continue ''7'' ''2'' tool_state = (conn, s', effs)"
    by (metis prod.exhaust)
  have txt_file: "is_text_file example_notes" by code_simp
  have "undisturbed (example_tool_env ?fs)" and "m_tool_results example_asking = None" and "trim ''notes'' \<noteq> []"
    by (simp_all add: undisturbed_def example_asking_def trim_def is_ws_def)
  then show ?thesis
    using queued_search_never_runs [OF _ example_prepare _ _ _ _ _ _ _ _ tool_state_simps(1) _ run,
        of "example_call ''c1'' ''files_search''" "''notes''"] txt_file
    by (auto simp: example_call_def needs_indexing_def initialFileState_def) blast
qed

text \<open>
  A failed index loses all errors but one: when the index cannot be built, processing the queue of the
  current chat empties it for this chat and is meant to put an error on every waiting answer; each
  of them is written into the message map as it was before, so in the end only the last
  one has its error, and the others are as if nothing had happened, with nothing left in the queue
  to run them.
\<close>

theorem indexing_failure_keeps_last_error:
  assumes "indexingStatus fs = IdxError" and "currentChatId s = Some k"
    and "filter (\<lambda>c. fst c = k) (queuedToolCalls s) = waiting @ [(k, i)]"
    and "messages s k = Some m" and "map_get m i = Some msg"
  shows "message_at (processQueuedToolCalls fs run s) k i = Some (with_index_error (indexingError fs) msg)
    \<and> (\<forall>j. j \<noteq> i \<longrightarrow> message_at (processQueuedToolCalls fs run s) k j = message_at s k j)
    \<and> (\<forall>c \<in> set (queuedToolCalls (processQueuedToolCalls fs run s)). fst c \<noteq> k)"
proof -
  let ?f = "reject_queued (indexingError fs) (messages s)"
  let ?s0 = "s\<lparr>queuedToolCalls := filter (\<lambda>c. fst c \<noteq> k) (queuedToolCalls s)\<rparr>"
  have ne: "queuedToolCalls s \<noteq> []" using assms(3) by auto
  have eq: "processQueuedToolCalls fs run s = ?f (k, i) (fold ?f waiting ?s0)"
    using assms(1-3) ne by (simp add: processQueuedToolCalls_def Let_def)
  have q: "queuedToolCalls (fold ?f cs t) = queuedToolCalls t" for cs t
    by (induction cs arbitrary: t) (auto simp: reject_queued_def set_processing_def split: option.split)
  have "messages (processQueuedToolCalls fs run s) k = Some (map_set i (with_index_error (indexingError fs) msg) m)"
    unfolding eq using assms(4,5) by (simp add: reject_queued_def)
  moreover have "queuedToolCalls (processQueuedToolCalls fs run s) = queuedToolCalls ?s0"
    unfolding eq using q [of "[(k, i)]"] q [of waiting ?s0] by simp
  ultimately show ?thesis using assms(4) by (auto simp: message_at_def)
qed

definition two_waiting :: chat_state where
  "two_waiting = tool_state\<lparr>queuedToolCalls := [(''7'', ''1''), (''7'', ''2'')]\<rparr>"

lemma indexing_failure_keeps_last_error_witness:
  "message_at (processQueuedToolCalls (initialFileState\<lparr>indexingStatus := IdxError\<rparr>) (\<lambda>_ _ s. s) two_waiting) ''7'' ''1''
     = Some (plain_message ''1'' ''7'' User ''a'' None 3)"
proof -
  have c: "currentChatId two_waiting = Some ''7''" by (simp add: two_waiting_def tool_state_def)
  have m: "messages two_waiting ''7'' = Some [(''1'', plain_message ''1'' ''7'' User ''a'' None 3), (''2'', example_asking)]"
    by (simp add: two_waiting_def)
  show ?thesis
    using indexing_failure_keeps_last_error [OF _ c _ m, of "initialFileState\<lparr>indexingStatus := IdxError\<rparr>" "[(''7'', ''1'')]" "''2''" example_asking
        "\<lambda>_ _ s. s"] m
    by (simp add: two_waiting_def) (simp add: message_at_def)
qed

end
