(* ===== verification/Temp_Chats_Props.thy ===== *)
theory Temp_Chats_Props
  imports Temp_Chats Send_Message_Props
begin

text \<open>
  What becomes of an OCR request: its promise is registered, answered or rejected, and settled once.
\<close>

section \<open>Lemmas\<close>

lemma handleError_promises:
  assumes "handleWebSocketError now k j msg c nd s = (s', effs)" and "map_get (ocrPromises s) j = Some p"
  shows "RejectOcr p msg \<in> set effs" and "map_get (ocrPromises s') j = None"
proof -
  have eq: "s' = fst (handleWebSocketError now k j msg c nd s)" using assms(1) by simp
  have "ocrPromises s' = ocrPromises (fst (reject_ocr j msg s))"
    unfolding eq handleError_eq by (simp add: mark_target_errored_def chat_ops split: option.split)
  then show "map_get (ocrPromises s') j = None"
    using assms(2) by (simp add: reject_ocr_def removeOcrPromise_def map_has_def)
  have "effs = snd (handleWebSocketError now k j msg c nd s)" using assms(1) by simp
  then show "RejectOcr p msg \<in> set effs"
    using assms(2) by (simp add: handleWebSocketError_def reject_ocr_def Let_def)
qed

lemma settle_registered:
  assumes "map_get (ocrPromises s) j = Some p"
  shows "snd (settle_ocr show j d s) =
      [if packet_error d then RejectOcr p (''OCR generation failed: '' @ show d) else ResolveOcr p (p_text d)]"
    and "map_get (ocrPromises (fst (settle_ocr show j d s))) j = None"
  using assms by (simp_all add: settle_ocr_def removeOcrPromise_def map_has_def)

text \<open>
  The promise itself: a first answer, refusal or firing of the timer settles it and stops the timer, and
  nothing changes it afterwards.
\<close>

lemma request_settles_once:
  assumes "request_events finish refuse late (e # es) (s, new_request j) = Some (s', req)"
  shows "\<not> pr_timer req \<and> pr_outcome req = Some (case e of Answered v \<Rightarrow> finish v | Refused x \<Rightarrow> Inl (refuse x) | TimeUp \<Rightarrow> Inl late)"
proof -
  let ?r = "case e of Answered v \<Rightarrow> finish v | Refused x \<Rightarrow> Inl (refuse x) | TimeUp \<Rightarrow> Inl late"
  obtain st1 where st1: "request_handle finish refuse late e (s, new_request j) = Some st1"
    and rest: "request_events finish refuse late es st1 = Some (s', req)"
    using assms by (auto split: option.splits)
  have one: "pr_outcome (snd st1) = Some ?r" "request_ok (snd st1)"
    using st1 by (cases e; auto simp: request_handle_def new_request_def request_ok_def)+
  have steps: "request.steps finish refuse late st1 es (s', req)" using rest by (rule request_events_steps)
  have "pr_outcome req = Some ?r" using request.settled_stays [OF steps, of ?r] one by simp
  moreover have "request_ok req" using request.inv_steps [OF steps] one by simp
  ultimately show ?thesis by (auto simp: request_ok_def)
qed

text \<open>
  Registering the promise of a request under its job and connecting: either the connection is opened and the final
  packet of the job settles and unregisters it, or it has been rejected at once.
\<close>

definition will_settle :: "promise \<Rightarrow> job_id \<Rightarrow> connection option \<Rightarrow> chat_state \<Rightarrow> chat_effect list \<Rightarrow> bool" where
  "will_settle promise j conn s' effs \<longleftrightarrow>
     (if conn = None then (\<exists>msg. RejectOcr promise msg \<in> set effs) \<and> map_get (ocrPromises s') j = None
       else map_get (ocrPromises s') j = Some promise
         \<and> (\<forall>show d. snd (settle_ocr show j d s') =
               [if packet_error d then RejectOcr promise (''OCR generation failed: '' @ show d) else ResolveOcr promise (p_text d)]
             \<and> map_get (ocrPromises (fst (settle_ocr show j d s'))) j = None))"

lemma registered_settles:
  assumes "connect_temp_job en k j node (addOcrPromise j promise s) = (conn, s', effs)" and "se_connecting en = id"
  shows "will_settle promise j conn s' effs"
proof -
  have reg: "map_get (ocrPromises (addOcrPromise j promise s)) j = Some promise" by (simp add: addOcrPromise_def)
  from assms(1) [unfolded connect_temp_job_def assms(2)] show ?thesis
  proof (cases rule: connect_cases)
    case (failed msg nd)
    then show ?thesis using handleError_promises [OF failed(2) reg] by (auto simp: will_settle_def)
  next
    case (opened co w)
    then have "map_get (ocrPromises s') j = Some promise" using reg by (simp add: chat_ops)
    with opened settle_registered [OF this] show ?thesis by (simp add: will_settle_def)
  qed
qed

lemma will_settle_Cons [simp]: "will_settle promise j conn s' (SetTimer t n # effs) = will_settle promise j conn s' effs"
  by (simp add: will_settle_def)

section \<open>Properties\<close>

text \<open>
  An OCR request is never forgotten: when the request has been accepted, its timer of five minutes is set, and
  either its promise is registered under the job and the final packet of the job resolves it with the text (or
  rejects it with the error) and unregisters it, or the connection has failed and the promise has
  been rejected at once and is not registered.
\<close>

theorem ocr_request_answered:
  assumes "executeOcrOnImages en compress prompt api promise timeout images modelId s = (Inr j, conn, s', effs)"
    and "se_connecting en = id"
  shows "SetTimer timeout 300000 \<in> set effs
    \<and> (if conn = None then (\<exists>msg. RejectOcr promise msg \<in> set effs) \<and> map_get (ocrPromises s') j = None
       else map_get (ocrPromises s') j = Some promise
         \<and> (\<forall>show d. snd (settle_ocr show j d s') =
               [if packet_error d then RejectOcr promise (''OCR generation failed: '' @ show d) else ResolveOcr promise (p_text d)]
             \<and> map_get (ocrPromises (fst (settle_ocr show j d s'))) j = None))"
proof -
  let ?s1 = "se_meanwhile en s"
  obtain node p response where api: "bind_sum (ocr_params en compress prompt images modelId s)
      (\<lambda>(node, p). map_sum_r (\<lambda>r. (node, r)) (api p)) = Inr (node, response)"
    using assms(1) by (auto simp: executeOcrOnImages_def Let_def split: sum.splits prod.splits)
  obtain effs' k where "effs = SetTimer timeout 300000 # effs'"
    and "connect_temp_job en k j node (addOcrPromise j promise ?s1) = (conn, s', effs')"
    using assms(1) by (auto simp: executeOcrOnImages_def Let_def api split: prod.splits)
  with registered_settles [OF this(2) assms(2)] show ?thesis by (simp add: will_settle_def)
qed

definition example_images :: "js_file list \<Rightarrow> string + attachment list" where
  "example_images fs = Inr []"

lemma ocr_request_answered_witness:
  "\<exists>j conn s' effs. executeOcrOnImages example_send_env example_images ''read''
      (\<lambda>_. Inr \<lparr>cr_chat_id = 8, cr_user_message_id = 2, cr_ai_message_id = 3, cr_job_id = 4\<rparr>) 5 6 [] ''m'' send_state = (Inr j, conn, s', effs)
     \<and> SetTimer 6 300000 \<in> set effs"
proof -
  let ?api = "\<lambda>_. Inr \<lparr>cr_chat_id = 8, cr_user_message_id = 2, cr_ai_message_id = 3, cr_job_id = 4\<rparr>"
  let ?r = "executeOcrOnImages example_send_env example_images ''read'' ?api 5 6 [] ''m'' send_state"
  have "\<exists>p. ocr_params example_send_env example_images ''read'' [] ''m'' send_state = Inr (example_picked, p)"
    by (simp add: ocr_params_def pick_temp_node_def temp_chat_params_def seal_prompt_def example_images_def
        transformAttachmentsForBackend_def example_key Let_def) (simp add: example_picked_def example_wrap)
  then have "\<exists>j. fst ?r = Inr j" by (auto simp: executeOcrOnImages_def Let_def case_prod_unfold)
  then obtain j conn s' effs where r: "?r = (Inr j, conn, s', effs)" by (metis prod.collapse)
  then show ?thesis using ocr_request_answered [OF r] by simp
qed

end
