(* ===== verification/Result_Utils.thy ===== *)
theory Result_Utils
  imports File_Utils
begin

text \<open>
  \<open>src/gpt_frontend/src/utils/resultUtils.ts\<close>: unwrapping the results of canister calls, the texts of
  canister errors, and the classification of the errors a session's setup runs into.
\<close>

section \<open>Thrown values\<close>

text \<open>
  What a \<open>catch\<close> sees of a value: whether it is an \<open>Error\<close>; its message, or \<open>String(e)\<close> when it is not one;
  \<open>JSON.stringify(e)\<close>; the numbers \<open>e.status\<close> and \<open>e.props.status\<close> (0 when absent); and whether it is an
  \<open>AgentError\<close> whose cause is a certified reject of kind \<open>Trust\<close>.
\<close>

record thrown =
  th_is_error :: bool
  th_text :: string
  th_json :: string
  th_status :: nat
  th_props_status :: nat
  th_untrusted :: bool

definition js_Error :: "string \<Rightarrow> thrown" where
  "js_Error m = \<lparr>th_is_error = True, th_text = m, th_json = ''{}'', th_status = 0, th_props_status = 0, th_untrusted = False\<rparr>"

lemma js_Error_simps [simp]:
  "th_is_error (js_Error m)" "th_text (js_Error m) = m" "th_status (js_Error m) = 0" "th_props_status (js_Error m) = 0"
  "\<not> th_untrusted (js_Error m)"
  by (simp_all add: js_Error_def)

text \<open>\<open>error.message?.includes(p)\<close>\<close>

definition message_includes :: "thrown \<Rightarrow> string \<Rightarrow> bool" where
  "message_includes e p \<longleftrightarrow> th_is_error e \<and> str_includes (th_text e) p"

section \<open>Results\<close>

text \<open>
  An object as the bindings return it: its field \<open>__kind__\<close> with \<open>value\<close> of the kind's type, when it has one,
  and its fields \<open>Ok\<close> and \<open>Err\<close>. \<open>None\<close> instead of an object is null or undefined.
\<close>

datatype ('t, 'e) kinded = Kind_Ok 't | Kind_Err 'e | Kind_Other string

record ('t, 'e) result_object =
  ro_kind :: "('t, 'e) kinded option"
  ro_Ok :: "'t option"
  ro_Err :: "'e option"

definition legacy_result :: "('e \<Rightarrow> string) \<Rightarrow> ('t, 'e) result_object \<Rightarrow> string + 't" where
  "legacy_result errorFormatter r =
     (case ro_Ok r of
        Some v \<Rightarrow> Inr v
      | None \<Rightarrow> (case ro_Err r of
          Some e \<Rightarrow> Inl (errorFormatter e)
        | None \<Rightarrow> Inl ''Invalid result format: Neither Ok nor Err present.''))"

definition unwrapResult :: "('e \<Rightarrow> string) \<Rightarrow> ('t, 'e) result_object option \<Rightarrow> string + 't" where
  "unwrapResult errorFormatter result =
     (case result of
        None \<Rightarrow> Inl ''Received null/undefined result from canister.''
      | Some r \<Rightarrow>
          (case ro_kind r of
             Some (Kind_Ok v) \<Rightarrow> Inr v
           | Some (Kind_Err e) \<Rightarrow> Inl (errorFormatter e)
           | _ \<Rightarrow> legacy_result errorFormatter r))"

text \<open>The two shapes of each case.\<close>

definition ok_results :: "'t \<Rightarrow> ('t, 'e) result_object set" where
  "ok_results v = {r. ro_kind r = Some (Kind_Ok v) \<or> ro_kind r = None \<and> ro_Ok r = Some v}"

definition err_results :: "'e \<Rightarrow> ('t, 'e) result_object set" where
  "err_results e = {r. ro_kind r = Some (Kind_Err e) \<or> ro_kind r = None \<and> ro_Ok r = None \<and> ro_Err r = Some e}"

lemma unwrap_ok: "r \<in> ok_results v \<Longrightarrow> unwrapResult f (Some r) = Inr v"
  by (auto simp: unwrapResult_def ok_results_def legacy_result_def)

lemma unwrap_err: "r \<in> err_results e \<Longrightarrow> unwrapResult f (Some r) = Inl (f e)"
  by (auto simp: unwrapResult_def err_results_def legacy_result_def)

lemma unwrap_null [simp]: "unwrapResult f None = Inl ''Received null/undefined result from canister.''"
  by (simp add: unwrapResult_def)

section \<open>The texts of canister errors\<close>

text \<open>
  An error object as its fields with the text of each value; \<open>None\<close> when the error is not an object.
  The first of the known fields decides. \<open>json\<close> is \<open>JSON.stringify\<close>, which may throw.
\<close>

type_synonym error_object = "(string \<times> string) list"

definition canister_error_texts :: "(string \<times> (string \<Rightarrow> string)) list" where
  "canister_error_texts =
     [(''UserNotFound'', \<lambda>_. ''User not found.''),
      (''ChatNotFound'', \<lambda>_. ''Chat not found.''),
      (''MessageNotFound'', \<lambda>_. ''Message not found.''),
      (''ModelNotFound'', \<lambda>_. ''Model not found.''),
      (''NodeNotFound'', \<lambda>_. ''Node not found.''),
      (''InvalidSecretKey'', \<lambda>_. ''Invalid secret key.''),
      (''Unauthorized'', \<lambda>_. ''Unauthorized access.''),
      (''InvalidInput'', \<lambda>v. ''Invalid input: '' @ v),
      (''GenerationInProgress'', \<lambda>_. ''Generation in progress.''),
      (''CallError'', \<lambda>v. ''Canister call error: '' @ v),
      (''FileSystemLimitExceeded'', \<lambda>v. ''Storage limit exceeded: '' @ v),
      (''ItemNameCollision'', \<lambda>v. ''Name collision: '' @ v),
      (''FolderNotFound'', \<lambda>_. ''Folder not found.''),
      (''FileNotFound'', \<lambda>_. ''File not found.''),
      (''DeleteNonEmptyFolder'', \<lambda>_. ''Cannot delete a non-empty folder.''),
      (''CannotDeleteRootFolder'', \<lambda>_. ''The root folder cannot be deleted.''),
      (''InvalidPathDepth'', \<lambda>_. ''Maximum folder depth exceeded.''),
      (''UnsupportedMimeType'', \<lambda>v. ''Unsupported MIME type: '' @ v),
      (''PathNotFound'', \<lambda>_. ''The specified path does not exist.''),
      (''RoleAlreadyClaimed'', \<lambda>_. ''The manager role has already been claimed.''),
      (''Other'', \<lambda>v. v)]"

definition formatCanisterError :: "(error_object \<Rightarrow> string option) \<Rightarrow> error_object option \<Rightarrow> string" where
  "formatCanisterError json error =
     (case error of
        None \<Rightarrow> ''Unknown error''
      | Some err \<Rightarrow>
          (case List.find (\<lambda>(key, _). map_of err key \<noteq> None) canister_error_texts of
             Some (key, text) \<Rightarrow> text (the (map_of err key))
           | None \<Rightarrow> (case json err of Some s \<Rightarrow> s | None \<Rightarrow> ''Unknown canister error'')))"

text \<open>A variant, which is what a canister sends, has one field: its text is the one of its case.\<close>

lemma find_key_distinct:
  "distinct (map fst xs) \<Longrightarrow> (k, f) \<in> set xs \<Longrightarrow> List.find (\<lambda>(key, _). key = k) xs = Some (k, f)"
  by (induction xs) force+

lemma canister_error_keys: "distinct (map fst canister_error_texts)"
  by (simp add: canister_error_texts_def)

lemma formatCanisterError_variant:
  assumes "(k, f) \<in> set canister_error_texts"
  shows "formatCanisterError json (Some [(k, v)]) = f v"
proof -
  have "(\<lambda>(key, _ :: string \<Rightarrow> string). map_of [(k, v)] key \<noteq> None) = (\<lambda>(key, _). key = k)"
    by (auto simp: fun_eq_iff)
  then show ?thesis
    using find_key_distinct [OF canister_error_keys assms] by (simp add: formatCanisterError_def)
qed

lemma formatCanisterError_unknown:
  "k \<notin> fst ` set canister_error_texts \<Longrightarrow> json [(k, v)] = Some s \<Longrightarrow> formatCanisterError json (Some [(k, v)]) = s"
  by (force simp: formatCanisterError_def find_None_iff_all split: option.split dest: find_SomeD)

section \<open>Classification of setup errors\<close>

record error_detail =
  ed_title :: string
  ed_message :: string
  ed_isFatal :: bool

definition detail :: "string \<Rightarrow> string \<Rightarrow> bool \<Rightarrow> error_detail" where
  "detail t m fatal = \<lparr>ed_title = t, ed_message = m, ed_isFatal = fatal\<rparr>"

definition ERROR_CODE_MAP :: "(string \<times> error_detail) list" where
  "ERROR_CODE_MAP =
     [(''IC0101'', detail ''System Overload'' ''The subnet is oversubscribed. Please try again later.'' False),
      (''IC0102'', detail ''Capacity Limit'' ''Maximum number of canisters reached on the subnet.'' True),
      (''IC0201'', detail ''System Busy'' ''The canister queue is full. Please wait a moment and try again.'' False),
      (''IC0202'', detail ''Message Timeout'' ''The request timed out inside the ingress message queue.'' False),
      (''IC0203'', detail ''System Busy'' ''Canister queue is not empty. Please retry.'' False),
      (''IC0204'', detail ''System Busy'' ''Ingress history is full. Please retry.'' False),
      (''IC0205'', detail ''Conflict'' ''Canister ID already exists.'' False),
      (''IC0206'', detail ''Timeout'' ''Stop canister request timed out.'' False),
      (''IC0207'', detail ''Resource Exhausted'' ''The canister is out of cycles and cannot process requests.'' True),
      (''IC0208'', detail ''State Unavailable'' ''Certified state is currently unavailable.'' False),
      (''IC0209'', detail ''Rate Limited'' ''Install code rate limited.'' False),
      (''IC0210'', detail ''Rate Limited'' ''Heap delta rate limited.'' False),
      (''IC0301'', detail ''Not Found'' ''The target canister was not found. It may have been deleted or reclaimed.'' True),
      (''IC0302'', detail ''Method Not Found'' ''The canister does not have a method with that name.'' True),
      (''IC0303'', detail ''Invalid ID'' ''Canister ID is invalid.'' True),
      (''IC0304'', detail ''Resource Exhausted'' ''The canister has no resources.'' True),
      (''IC0305'', detail ''Snapshot Not Found'' ''The requested canister snapshot was not found.'' True),
      (''IC0402'', detail ''Allocation Error'' ''Insufficient memory allocation for canister.'' True),
      (''IC0403'', detail ''Insufficient Funds'' ''Insufficient cycles to create canister.'' True),
      (''IC0404'', detail ''Subnet Not Found'' ''The requested subnet was not found.'' True),
      (''IC0405'', detail ''Hosting Error'' ''Canister is not hosted by the subnet.'' True),
      (''IC0406'', detail ''Message Rejected'' ''The canister rejected the message explicitly.'' False),
      (''IC0501'', detail ''Canister Trapped'' ''The canister trapped during execution.'' False),
      (''IC0502'', detail ''Canister Trapped'' ''The canister encountered a runtime error (trap). Please retry.'' False),
      (''IC0503'', detail ''Canister Trapped'' ''The canister called trap explicitly.'' False),
      (''IC0504'', detail ''Contract Violation'' ''The canister violated the system contract.'' True),
      (''IC0505'', detail ''Invalid Configuration'' ''The canister code (Wasm) is invalid or missing.'' True),
      (''IC0506'', detail ''No Reply'' ''The canister did not produce a reply.'' False),
      (''IC0507'', detail ''Memory Exhausted'' ''The canister is out of memory.'' True),
      (''IC0508'', detail ''Maintenance Mode'' ''The system is currently stopped for maintenance. Please check back later.'' True),
      (''IC0509'', detail ''Stopping'' ''The system is currently shutting down.'' True),
      (''IC0515'', detail ''Input Error'' ''Arguments deserialization failed.'' True),
      (''IC0516'', detail ''Output Error'' ''Results serialization failed.'' True),
      (''IC0537'', detail ''Service Unavailable''
         ''The system is currently undergoing scheduled maintenance. Please try again shortly.'' True),
      (''IC0601'', detail ''Expired'' ''The request deadline expired.'' False),
      (''NET_403'', detail ''Access Denied'' ''You do not have permission to access this resource.'' True),
      (''NET_404'', detail ''Not Found'' ''The requested resource could not be found.'' True),
      (''NET_429'', detail ''Too Many Requests'' ''You are being rate limited. Please slow down.'' False),
      (''NET_502'', detail ''Bad Gateway'' ''The server received an invalid response from an upstream server.'' False),
      (''NET_503'', detail ''Service Unavailable'' ''The service is temporarily unavailable.'' False),
      (''NET_504'', detail ''Gateway Timeout'' ''The server timed out waiting for a response.'' False)]"

text \<open>The first match of the regular expression \<open>IC\d{4}\<close>.\<close>

definition is_digit :: "char \<Rightarrow> bool" where
  "is_digit c \<longleftrightarrow> (let n = of_char c in 48 \<le> n \<and> n \<le> (57 :: nat))"

definition starts_with_code :: "string \<Rightarrow> bool" where
  "starts_with_code s \<longleftrightarrow> prefix ''IC'' s \<and> 6 \<le> length s \<and> list_all is_digit (take 4 (drop 2 s))"

fun match_code :: "string \<Rightarrow> string option" where
  "match_code [] = None"
| "match_code (c # cs) = (if starts_with_code (c # cs) then Some (take 6 (c # cs)) else match_code cs)"

text \<open>The part of a text before the first occurrence of another, all of it when there is none.\<close>

definition upto :: "string \<Rightarrow> string \<Rightarrow> string" where
  "upto p s = (case index_of p s of None \<Rightarrow> s | Some i \<Rightarrow> take i s)"

definition reject_text :: "string \<Rightarrow> string" where
  "reject_text s =
     (case index_of ''Reject text:'' s of
        None \<Rightarrow> s
      | Some i \<Rightarrow>
          let afterText = upto ''Reject text:'' (drop (i + length ''Reject text:'') s)
          in trim (upto ''Error code:'' afterText))"

definition or_text :: "string \<Rightarrow> string \<Rightarrow> string" where
  "or_text s t = (if s = '''' then t else s)"

definition generic_detail :: "string \<Rightarrow> error_detail" where
  "generic_detail errString =
     (let cleanMessage = reject_text errString;
          cleanMessage = (if 200 < length cleanMessage then substring 0 197 cleanMessage @ ''...'' else cleanMessage)
      in detail ''Connection Error'' (or_text cleanMessage ''An unknown error occurred during setup.'') False)"

definition text_detail :: "string \<Rightarrow> error_detail" where
  "text_detail errString =
     (if str_includes errString ''no Wasm module'' then the (map_of ERROR_CODE_MAP ''IC0505'')
      else if str_includes errString ''stopped'' \<or> str_includes errString ''Canister stopped''
      then the (map_of ERROR_CODE_MAP ''IC0508'')
      else if str_includes errString ''Connection refused'' \<or> str_includes errString ''Network request failed''
         \<or> str_includes errString ''Failed to fetch''
      then detail ''Network Error''
             ''Could not connect to the Internet Computer. Please check your internet connection.'' False
      else if str_includes errString ''Fail to verify certificate''
      then detail ''Security Error'' ''Failed to verify the response certificate. Potential MITM.'' True
      else generic_detail errString)"

definition code_detail :: "thrown \<Rightarrow> error_detail option" where
  "code_detail error = (case match_code (th_text error) of None \<Rightarrow> None | Some code \<Rightarrow> map_of ERROR_CODE_MAP code)"

definition status_detail :: "thrown \<Rightarrow> error_detail option" where
  "status_detail error =
     (let status = (if th_status error \<noteq> 0 then th_status error else th_props_status error) in
      if status = 0 then None else map_of ERROR_CODE_MAP (''NET_'' @ show_nat status))"

definition classifySetupError :: "thrown \<Rightarrow> error_detail" where
  "classifySetupError error =
     (case code_detail error of
        Some d \<Rightarrow> d
      | None \<Rightarrow> (case status_detail error of
          Some d \<Rightarrow> d
        | None \<Rightarrow> text_detail (th_text error)))"

section \<open>Lemmas\<close>

definition presentable :: "error_detail \<Rightarrow> bool" where
  "presentable d \<longleftrightarrow> ed_title d \<noteq> '''' \<and> ed_message d \<noteq> '''' \<and> length (ed_message d) \<le> 200"

lemma presentable_detail: "presentable (detail t m b) \<longleftrightarrow> t \<noteq> '''' \<and> m \<noteq> '''' \<and> length m \<le> 200"
  by (simp add: presentable_def detail_def)

lemma presentable_codes: "list_all (\<lambda>(_, d). presentable d) ERROR_CODE_MAP"
  by (simp add: ERROR_CODE_MAP_def presentable_detail)

lemma presentable_code: "map_of ERROR_CODE_MAP c = Some d \<Longrightarrow> presentable d"
  using presentable_codes by (auto simp: list_all_iff dest: map_of_SomeD)

lemma code_known:
  "\<exists>d. map_of ERROR_CODE_MAP ''IC0505'' = Some d" "\<exists>d. map_of ERROR_CODE_MAP ''IC0508'' = Some d"
proof -
  have "map_of ERROR_CODE_MAP ''IC0505'' \<noteq> None" "map_of ERROR_CODE_MAP ''IC0508'' \<noteq> None" by code_simp+
  then show "\<exists>d. map_of ERROR_CODE_MAP ''IC0505'' = Some d" "\<exists>d. map_of ERROR_CODE_MAP ''IC0508'' = Some d" by blast+
qed

lemma presentable_generic: "presentable (generic_detail s)"
  by (simp add: generic_detail_def Let_def presentable_detail or_text_def substring_def)

lemma presentable_text: "presentable (text_detail s)"
  using code_known by (auto simp: text_detail_def presentable_detail presentable_generic dest: presentable_code)

lemma match_code_shape: "match_code s = Some c \<Longrightarrow> starts_with_code c \<and> length c = 6 \<and> sublist c s"
proof (induction s rule: match_code.induct)
  case (2 a s)
  show ?case
  proof (cases "starts_with_code (a # s)")
    case True
    with "2.prems" have c: "c = take 6 (a # s)" by simp
    have "prefix c (a # s)" unfolding c by (rule take_is_prefix)
    with True c show ?thesis
      by (auto simp: starts_with_code_def prefix_def take_Cons' drop_take intro: prefix_imp_sublist)
  next
    case False
    with 2 show ?thesis by (auto simp: sublist_Cons_right)
  qed
qed simp

lemma match_code_first:
  assumes "starts_with_code c" and "length c = 6"
    and "\<forall>i < length pre. \<not> starts_with_code (drop i pre @ c @ post)"
  shows "match_code (pre @ c @ post) = Some c"
  using assms(3)
proof (induction pre)
  case Nil
  from assms(2) obtain a r where "c = a # r" by (cases c) auto
  moreover from assms(1,2) have "starts_with_code (c @ post)" by (auto simp: starts_with_code_def prefix_def)
  ultimately show ?case using assms(2) by (simp add: take_Cons')
next
  case (Cons a pre)
  from Cons.prems have "\<not> starts_with_code (a # pre @ c @ post)" by force
  moreover from Cons.prems have "\<forall>i < length pre. \<not> starts_with_code (drop i pre @ c @ post)"
    by (metis Suc_less_eq drop_Suc_Cons length_Cons)
  ultimately show ?case using Cons.IH by simp
qed

lemma code_shapes: "list_all (\<lambda>c. prefix ''IC'' c \<longrightarrow> length c = 6 \<and> starts_with_code c) (map fst ERROR_CODE_MAP)"
  by code_simp

lemma map_code_shape: "map_of ERROR_CODE_MAP c = Some d \<Longrightarrow> prefix ''IC'' c \<Longrightarrow> length c = 6 \<and> starts_with_code c"
proof -
  assume "map_of ERROR_CODE_MAP c = Some d" and c: "prefix ''IC'' c"
  then have "c \<in> set (map fst ERROR_CODE_MAP)" by (auto dest!: map_of_SomeD intro: rev_image_eqI)
  then show ?thesis using code_shapes c unfolding list_all_iff by blast
qed

text \<open>
  Every error of a session's setup gets something to show: a title and a message of 1 to 200 characters;
  an error that names a known code of the Internet Computer, with no code before it, gets the entry of that
  code, whatever else it says; otherwise an HTTP status of the table decides before any text; and what the
  canister says after \<open>Reject text:\<close> up to \<open>Error code:\<close> is shown without the rest.
\<close>

theorem setup_error_classified:
  "presentable (classifySetupError e)
   \<and> (\<forall>pre c post d. th_text e = pre @ c @ post \<longrightarrow> prefix ''IC'' c \<longrightarrow> map_of ERROR_CODE_MAP c = Some d
        \<longrightarrow> (\<forall>i < length pre. \<not> starts_with_code (drop i pre @ c @ post)) \<longrightarrow> classifySetupError e = d)
   \<and> (\<forall>d. match_code (th_text e) = None \<longrightarrow> th_status e \<noteq> 0
        \<longrightarrow> map_of ERROR_CODE_MAP (''NET_'' @ show_nat (th_status e)) = Some d \<longrightarrow> classifySetupError e = d)"
proof (intro conjI allI impI)
  show "presentable (classifySetupError e)"
    by (auto simp: classifySetupError_def code_detail_def status_detail_def Let_def presentable_text
        dest: presentable_code split: option.splits if_splits)
next
  fix pre c post d
  assume e: "th_text e = pre @ c @ post" and c: "prefix ''IC'' c" "map_of ERROR_CODE_MAP c = Some d"
    and first: "\<forall>i < length pre. \<not> starts_with_code (drop i pre @ c @ post)"
  from map_code_shape [OF c(2,1)] first have "match_code (th_text e) = Some c" by (simp add: e match_code_first)
  with c show "classifySetupError e = d" by (simp add: classifySetupError_def code_detail_def)
qed (simp add: classifySetupError_def code_detail_def status_detail_def)

lemma setup_error_classified_witness:
  "classifySetupError (js_Error ''Call failed: IC0503 trapped'') = detail ''Canister Trapped'' ''The canister called trap explicitly.'' False"
proof -
  have e: "th_text (js_Error ''Call failed: IC0503 trapped'') = ''Call failed: '' @ ''IC0503'' @ '' trapped''" by simp
  have p: "prefix ''IC'' ''IC0503''" by simp
  have m: "map_of ERROR_CODE_MAP ''IC0503'' = Some (detail ''Canister Trapped'' ''The canister called trap explicitly.'' False)"
    by (simp add: ERROR_CODE_MAP_def)
  have f: "\<forall>i < length ''Call failed: ''. \<not> starts_with_code (drop i ''Call failed: '' @ ''IC0503'' @ '' trapped'')"
    by code_simp
  from setup_error_classified [THEN conjunct2, THEN conjunct1, rule_format, OF e p m] f show ?thesis by blast
qed

text \<open>
  A rejection's text, as the agent reports it.
\<close>

lemma reject_text_example:
  "reject_text ''Call was rejected: Reject text: Canister out of luck. Error code: 5'' = ''Canister out of luck.''"
  by code_simp

end
