(* ===== verification/Models_Store.thy ===== *)
theory Models_Store
  imports Chat_State Result_Utils
begin

text \<open>
  \<open>src/gpt_frontend/src/store/modelsStore.ts\<close>: the models the index canister offers, the lists derived from them,
  the model for images and the one for embeddings; with the effect of \<open>app/providers.tsx\<close> that counts the nodes of
  each model. Prices are exact numbers.
\<close>

section \<open>The store\<close>

definition DEFAULT_EMBEDDING_MODEL_ID :: string where
  "DEFAULT_EMBEDDING_MODEL_ID = ''deepinfra-qwen3-embedding-8b''"

record models_state =
  mo_models :: "model list"
  mo_imageModels :: "model list"
  mo_embeddingModels :: "model list"
  mo_loading :: bool
  mo_hasFetched :: bool
  mo_error :: "string option"

definition initialModels :: models_state where
  "initialModels = \<lparr>mo_models = [], mo_imageModels = [], mo_embeddingModels = [], mo_loading = False,
     mo_hasFetched = False, mo_error = None\<rparr>"

definition image_models :: "model list \<Rightarrow> model list" where
  "image_models = filter (\<lambda>m. md_max_image_attachments m > 0)"

definition embedding_models :: "model list \<Rightarrow> model list" where
  "embedding_models = filter md_isEmbedding"

text \<open>Storing models with the lists derived from them.\<close>

definition store_models :: "model list \<Rightarrow> models_state \<Rightarrow> models_state" where
  "store_models models s =
     s\<lparr>mo_models := models, mo_imageModels := image_models models, mo_embeddingModels := embedding_models models\<rparr>"

text \<open>
  A fetch: up to the call of the canister, \<open>None\<close> when it is not made, and from its answer on. A thrown value that is
  no \<open>Error\<close> has a text of its own.
\<close>

definition fetchModels_call :: "bool \<Rightarrow> models_state \<Rightarrow> models_state option" where
  "fetchModels_call force s =
     (if \<not> force \<and> mo_loading s then None
      else Some (if \<not> force \<and> \<not> mo_hasFetched s then s\<lparr>mo_loading := True, mo_error := None\<rparr> else s))"

definition fetchModels_answer :: "thrown + model list \<Rightarrow> models_state \<Rightarrow> models_state" where
  "fetchModels_answer answer s =
     (case answer of
        Inr models \<Rightarrow> (store_models models s)\<lparr>mo_loading := False, mo_hasFetched := True\<rparr>
      | Inl e \<Rightarrow> s\<lparr>mo_error := Some (if th_is_error e then th_text e else ''Failed to fetch models.''), mo_loading := False\<rparr>)"

text \<open>\<open>counts[modelId] ?? 0\<close>; nothing is written when no count changes.\<close>

definition counted :: "(string, int) jsmap \<Rightarrow> model \<Rightarrow> int" where
  "counted counts m = (case map_get counts (md_modelId m) of Some n \<Rightarrow> n | None \<Rightarrow> 0)"

definition updateNodeCounts :: "(string, int) jsmap \<Rightarrow> models_state \<Rightarrow> models_state" where
  "updateNodeCounts counts s =
     (let hasChanged = list_ex (\<lambda>model. md_nodeCount model \<noteq> counted counts model) (mo_models s);
          newModels = map (\<lambda>model. model\<lparr>md_nodeCount := counted counts model\<rparr>) (mo_models s)
      in if hasChanged then store_models newModels s else s)"

definition reset_models :: "models_state \<Rightarrow> models_state" where
  "reset_models s = initialModels"

section \<open>The choice of a model\<close>

definition token_price :: "model \<Rightarrow> rat" where
  "token_price m = md_inputTokenPrice m + md_outputTokenPrice m"

definition getCheapestImageModel :: "models_state \<Rightarrow> model option" where
  "getCheapestImageModel s =
     (if mo_imageModels s = [] then None else Some (hd (sort_key token_price (mo_imageModels s))))"

definition usable :: "model \<Rightarrow> bool" where
  "usable m \<longleftrightarrow> md_nodeCount m > 0 \<and> md_status m = Active"

definition getEmbeddingModel :: "models_state \<Rightarrow> model option" where
  "getEmbeddingModel s =
     (let fallback = List.find usable (mo_embeddingModels s)
      in case List.find (\<lambda>m. md_modelId m = DEFAULT_EMBEDDING_MODEL_ID) (mo_embeddingModels s) of
           Some defaultModel \<Rightarrow> if usable defaultModel then Some defaultModel else fallback
         | None \<Rightarrow> fallback)"

definition isEmbeddingModelAvailable :: "models_state \<Rightarrow> bool" where
  "isEmbeddingModelAvailable s \<longleftrightarrow> getEmbeddingModel s \<noteq> None"

section \<open>Counting nodes\<close>

definition no_nodes :: "model list \<Rightarrow> (string, int) jsmap" where
  "no_nodes models = map_set_all md_modelId (\<lambda>_. 0) models []"

definition count_node :: "reconciled_node \<Rightarrow> (string, int) jsmap \<Rightarrow> (string, int) jsmap" where
  "count_node node counts =
     (case map_get counts (rn_modelId node) of None \<Rightarrow> counts | Some n \<Rightarrow> map_set (rn_modelId node) (n + 1) counts)"

definition nodeCountPerModel :: "model list \<Rightarrow> reconciled_node list \<Rightarrow> (string, int) jsmap" where
  "nodeCountPerModel models nodes = fold count_node nodes (no_nodes models)"

text \<open>The effect, which runs whenever the models or the nodes are other than at its last run.\<close>

definition count_nodes_effect :: "reconciled_node list option \<Rightarrow> models_state \<Rightarrow> models_state" where
  "count_nodes_effect nodes s =
     (case nodes of
        None \<Rightarrow> s
      | Some ns \<Rightarrow> if mo_models s = [] then s else updateNodeCounts (nodeCountPerModel (mo_models s) ns) s)"

section \<open>Runs\<close>

text \<open>
  Any number of fetches may be under way; \<open>ms_fetching\<close> counts them. An answer needs a fetch it answers.
\<close>

record models_system =
  ms_store :: models_state
  ms_fetching :: nat

datatype models_event =
    Fetch_Called bool
  | Fetch_Answered "thrown + model list"
  | Counts_Updated "(string, int) jsmap"
  | Models_Reset

fun models_step :: "models_event \<Rightarrow> models_system \<Rightarrow> models_system" where
  "models_step (Fetch_Called force) s =
     (case fetchModels_call force (ms_store s) of
        None \<Rightarrow> s
      | Some st \<Rightarrow> s\<lparr>ms_store := st, ms_fetching := ms_fetching s + 1\<rparr>)"
| "models_step (Fetch_Answered answer) s =
     (if ms_fetching s = 0 then s
      else s\<lparr>ms_store := fetchModels_answer answer (ms_store s), ms_fetching := ms_fetching s - 1\<rparr>)"
| "models_step (Counts_Updated counts) s = s\<lparr>ms_store := updateNodeCounts counts (ms_store s)\<rparr>"
| "models_step Models_Reset s = s\<lparr>ms_store := reset_models (ms_store s)\<rparr>"

definition initial_models_system :: models_system where
  "initial_models_system = \<lparr>ms_store = initialModels, ms_fetching = 0\<rparr>"

section \<open>Lemmas\<close>

definition lists_derived :: "models_state \<Rightarrow> bool" where
  "lists_derived s \<longleftrightarrow>
     mo_imageModels s = image_models (mo_models s) \<and> mo_embeddingModels s = embedding_models (mo_models s)"

definition models_consistent :: "models_system \<Rightarrow> bool" where
  "models_consistent s \<longleftrightarrow>
     lists_derived (ms_store s) \<and> (mo_loading (ms_store s) \<longrightarrow> ms_fetching s > 0)
     \<and> (\<not> mo_hasFetched (ms_store s) \<longrightarrow> mo_models (ms_store s) = [])"

lemmas models_defs = fetchModels_call_def fetchModels_answer_def updateNodeCounts_def store_models_def reset_models_def
  initialModels_def Let_def

lemma initial_fields [simp]: "mo_models initialModels = []" "\<not> mo_loading initialModels" "mo_error initialModels = None"
  by (simp_all add: initialModels_def)

lemma lists_derived_store [simp]: "lists_derived (store_models ms s)"
  by (simp add: lists_derived_def store_models_def)

lemma lists_derived_initial [simp]: "lists_derived initialModels"
  by (simp add: lists_derived_def initialModels_def image_models_def embedding_models_def)

lemma lists_derived_other [simp]:
  "lists_derived (s\<lparr>mo_loading := l\<rparr>) = lists_derived s" "lists_derived (s\<lparr>mo_error := e\<rparr>) = lists_derived s"
  "lists_derived (s\<lparr>mo_hasFetched := h\<rparr>) = lists_derived s"
  by (simp_all add: lists_derived_def)

lemma updateNodeCounts_keeps:
  "lists_derived s \<Longrightarrow> lists_derived (updateNodeCounts counts s)"
  "mo_loading (updateNodeCounts counts s) = mo_loading s"
  "mo_hasFetched (updateNodeCounts counts s) = mo_hasFetched s"
  "mo_models s = [] \<Longrightarrow> mo_models (updateNodeCounts counts s) = []"
  by (auto simp: updateNodeCounts_def Let_def lists_derived_def store_models_def)

interpretation models: invariant_system models_step models_consistent
proof (unfold_locales, goal_cases)
  case (1 s e)
  show ?case
  proof (cases e)
    case (Fetch_Called force)
    with 1 show ?thesis
      by (auto simp: models_consistent_def fetchModels_call_def split: option.split)
  next
    case (Fetch_Answered answer)
    with 1 show ?thesis
      by (auto simp: models_consistent_def fetchModels_answer_def split: sum.split)
  qed (use 1 in \<open>auto simp: models_consistent_def updateNodeCounts_keeps reset_models_def initial_fields\<close>)
qed

abbreviation "models_run \<equiv> models.run"

lemma initial_consistent: "models_consistent initial_models_system"
  by (simp add: models_consistent_def initial_models_system_def)

lemma run_consistent: "models_consistent (models_run es initial_models_system)"
  by (rule models.inv_run) (rule initial_consistent)


section \<open>What is chosen\<close>

lemma filter_find: "filter P xs = y # ys \<Longrightarrow> List.find P xs = Some y"
  by (induction xs) (auto split: if_splits)

lemma sort_key_hd:
  assumes "xs \<noteq> []"
  shows "hd (sort_key f xs) \<in> set xs" and "x \<in> set xs \<Longrightarrow> f (hd (sort_key f xs)) \<le> f x"
    and "List.find (\<lambda>x. f x = f (hd (sort_key f xs))) xs = Some (hd (sort_key f xs))"
proof -
  obtain y ys where ys: "sort_key f xs = y # ys" using assms by (metis list.exhaust length_0_conv length_sort)
  have set: "set (y # ys) = set xs" using set_sort [of f xs] by (simp add: ys)
  then show "hd (sort_key f xs) \<in> set xs" by (simp add: ys) blast
  have sorted: "sorted (map f (y # ys))" using sorted_sort_key [of f xs] by (simp add: ys)
  then show "x \<in> set xs \<Longrightarrow> f (hd (sort_key f xs)) \<le> f x" using set by (auto simp: ys)
  have "filter (\<lambda>x. f x = f y) xs = filter (\<lambda>x. f x = f y) (sort_key f xs)" by (rule sort_key_stable [symmetric])
  then have "filter (\<lambda>x. f x = f y) xs = y # filter (\<lambda>x. f x = f y) ys" by (simp add: ys)
  then show "List.find (\<lambda>x. f x = f (hd (sort_key f xs))) xs = Some (hd (sort_key f xs))"
    by (simp add: ys filter_find)
qed


lemma cheapest_image:
  assumes "lists_derived s"
  shows "getCheapestImageModel s = None \<longleftrightarrow> (\<forall>m \<in> set (mo_models s). md_max_image_attachments m \<le> 0)"
    and "getCheapestImageModel s = Some m \<Longrightarrow> m \<in> set (mo_models s) \<and> md_max_image_attachments m > 0"
    and "getCheapestImageModel s = Some m \<Longrightarrow> m' \<in> set (mo_models s) \<Longrightarrow> md_max_image_attachments m' > 0 \<Longrightarrow> token_price m \<le> token_price m'"
proof -
  have l: "mo_imageModels s = image_models (mo_models s)" using assms by (simp add: lists_derived_def)
  show "getCheapestImageModel s = None \<longleftrightarrow> (\<forall>m \<in> set (mo_models s). md_max_image_attachments m \<le> 0)"
    by (auto simp: getCheapestImageModel_def l image_models_def filter_empty_conv not_less)
  show "m \<in> set (mo_models s) \<and> md_max_image_attachments m > 0" if "getCheapestImageModel s = Some m"
    using sort_key_hd(1) [of "mo_imageModels s" token_price] that
    by (auto simp: getCheapestImageModel_def l image_models_def split: if_splits)
  show "token_price m \<le> token_price m'"
    if "getCheapestImageModel s = Some m" "m' \<in> set (mo_models s)" "md_max_image_attachments m' > 0"
    using sort_key_hd(2) [of "mo_imageModels s" m' token_price] that
    by (auto simp: getCheapestImageModel_def l image_models_def split: if_splits)
qed

lemma embedding_choice:
  assumes "lists_derived s"
  shows "getEmbeddingModel s = Some m \<Longrightarrow> m \<in> set (mo_models s) \<and> md_isEmbedding m \<and> usable m"
    and "getEmbeddingModel s = None \<longleftrightarrow> \<not> (\<exists>m \<in> set (mo_models s). md_isEmbedding m \<and> usable m)"
    and "List.find (\<lambda>m. md_modelId m = DEFAULT_EMBEDDING_MODEL_ID) (mo_embeddingModels s) = Some d \<Longrightarrow> usable d \<Longrightarrow> getEmbeddingModel s = Some d"
proof -
  have l: "mo_embeddingModels s = embedding_models (mo_models s)" using assms by (simp add: lists_derived_def)
  show "m \<in> set (mo_models s) \<and> md_isEmbedding m \<and> usable m" if "getEmbeddingModel s = Some m"
    using that by (auto simp: getEmbeddingModel_def l embedding_models_def Let_def dest!: find_SomeD split: option.splits if_splits)
  show "getEmbeddingModel s = None \<longleftrightarrow> \<not> (\<exists>m \<in> set (mo_models s). md_isEmbedding m \<and> usable m)"
    by (auto simp: getEmbeddingModel_def l embedding_models_def Let_def find_None_iff_all dest!: find_SomeD split: option.splits if_splits)
qed (simp add: getEmbeddingModel_def Let_def)

text \<open>
  C29: in every run of the store, with any number of fetches under way and their answers in any order, the models for
  images and embeddings are chosen from the models as they are now: an image model costs no more than any other that
  takes images, and there is none only when no model takes images; an embedding model is active and has a node, the
  default one is taken when it is, and there is none only when no embedding model is active with a node. The store is
  loading only while a fetch is under way.
\<close>

theorem model_choice_sound:
  "let s = models_run es initial_models_system; st = ms_store s in
     (getCheapestImageModel st = None \<longleftrightarrow> (\<forall>m \<in> set (mo_models st). md_max_image_attachments m \<le> 0))
   \<and> (\<forall>m. getCheapestImageModel st = Some m \<longrightarrow> m \<in> set (mo_models st) \<and> md_max_image_attachments m > 0
        \<and> (\<forall>m' \<in> set (mo_models st). md_max_image_attachments m' > 0 \<longrightarrow> token_price m \<le> token_price m'))
   \<and> (\<forall>m. getEmbeddingModel st = Some m \<longrightarrow> m \<in> set (mo_models st) \<and> md_isEmbedding m \<and> usable m)
   \<and> (\<forall>d. List.find (\<lambda>m. md_isEmbedding m \<and> md_modelId m = DEFAULT_EMBEDDING_MODEL_ID) (mo_models st) = Some d
        \<longrightarrow> usable d \<longrightarrow> getEmbeddingModel st = Some d)
   \<and> (isEmbeddingModelAvailable st \<longleftrightarrow> (\<exists>m \<in> set (mo_models st). md_isEmbedding m \<and> usable m))
   \<and> (mo_loading st \<longrightarrow> ms_fetching s > 0)"
proof -
  let ?s = "models_run es initial_models_system"
  from run_consistent [of es] have c: "lists_derived (ms_store ?s)" "mo_loading (ms_store ?s) \<longrightarrow> ms_fetching ?s > 0"
    by (simp_all add: models_consistent_def)
  have "List.find (\<lambda>m. md_modelId m = DEFAULT_EMBEDDING_MODEL_ID) (filter md_isEmbedding ms) =
        List.find (\<lambda>m. md_isEmbedding m \<and> md_modelId m = DEFAULT_EMBEDDING_MODEL_ID) ms" for ms
    by (induction ms) auto
  then have d: "List.find (\<lambda>m. md_modelId m = DEFAULT_EMBEDDING_MODEL_ID) (mo_embeddingModels (ms_store ?s)) =
        List.find (\<lambda>m. md_isEmbedding m \<and> md_modelId m = DEFAULT_EMBEDDING_MODEL_ID) (mo_models (ms_store ?s))"
    using c(1) by (simp add: lists_derived_def embedding_models_def)
  show ?thesis
    using c(2) cheapest_image(1) [OF c(1)] cheapest_image(2,3) [OF c(1)] embedding_choice(1,3) [OF c(1)] embedding_choice(2) [OF c(1)]
    unfolding Let_def isEmbeddingModelAvailable_def d by (intro conjI allI impI ballI) blast+
qed


definition sample_model :: "string \<Rightarrow> int \<Rightarrow> rat \<Rightarrow> bool \<Rightarrow> model" where
  "sample_model i images price embedding =
     \<lparr>md_modelId = i, md_name = i, md_provider = '''', md_providerModel = '''', md_providerEndpoint = '''', md_maker = '''',
      md_nodeCount = 0, md_maxContext = 1, md_maxOutput = 1, md_inputTokenPrice = price, md_outputTokenPrice = price,
      md_max_image_attachments = images, md_max_tools = 0, md_aaScore = None, md_releaseDate = None, md_status = Active,
      md_extra_body_json = None, md_isReasoning = False, md_isEmbedding = embedding, md_isFeatured = False\<rparr>"

lemma model_choice_sound_witness:
  "\<exists>m. getCheapestImageModel (ms_store (models_run [Fetch_Called False, Fetch_Answered (Inr [sample_model ''a'' 2 5 False, sample_model ''b'' 1 3 False])]
      initial_models_system)) = Some m \<and> token_price m \<le> 6"
proof -
  let ?es = "[Fetch_Called False, Fetch_Answered (Inr [sample_model ''a'' 2 5 False, sample_model ''b'' 1 3 False])]"
  let ?b = "sample_model ''b'' 1 3 False" and ?st = "ms_store (models_run [Fetch_Called False,
      Fetch_Answered (Inr [sample_model ''a'' 2 5 False, sample_model ''b'' 1 3 False])] initial_models_system)"
  have b: "?b \<in> set (mo_models ?st)" "md_max_image_attachments ?b > 0" "token_price ?b = 6"
    by (simp_all add: initial_models_system_def fetchModels_call_def fetchModels_answer_def store_models_def sample_model_def token_price_def)
  note sound = model_choice_sound [of ?es, unfolded Let_def]
  from sound [THEN conjunct1] b(1,2) obtain m where m: "getCheapestImageModel ?st = Some m" by (metis not_None_eq not_less)
  with sound [THEN conjunct2, THEN conjunct1] b have "token_price m \<le> 6" by metis
  with m show ?thesis by blast
qed

section \<open>Counting nodes\<close>

definition nodes_of :: "reconciled_node list \<Rightarrow> model \<Rightarrow> int" where
  "nodes_of ns m = int (length (filter (\<lambda>n. rn_modelId n = md_modelId m) ns))"

lemma no_nodes_get: "map_get (no_nodes ms) i = (if i \<in> md_modelId ` set ms then Some 0 else None)"
proof -
  have "map_get (map_set_all md_modelId (\<lambda>_. 0 :: int) ms c) i = (if i \<in> md_modelId ` set ms then Some 0 else map_get c i)" for c
    by (induction ms arbitrary: c) auto
  then show ?thesis by (simp add: no_nodes_def)
qed

lemma count_node_get:
  "map_get (fold count_node ns c) i =
     map_option (\<lambda>k. k + int (length (filter (\<lambda>n. rn_modelId n = i) ns))) (map_get c i)"
proof (induction ns arbitrary: c)
  case (Cons n ns)
  then show ?case by (auto simp: count_node_def map_option_case split: option.splits)
qed (simp add: option.map_ident)

lemma count_of_nodes: "m \<in> set ms \<Longrightarrow> counted (nodeCountPerModel ms ns) m = nodes_of ns m"
  by (simp add: counted_def nodeCountPerModel_def count_node_get no_nodes_get nodes_of_def)

lemma updateNodeCounts_models:
  "mo_models (updateNodeCounts counts s) = map (\<lambda>m. m\<lparr>md_nodeCount := counted counts m\<rparr>) (mo_models s)"
proof (cases "list_ex (\<lambda>m. md_nodeCount m \<noteq> counted counts m) (mo_models s)")
  case False
  then have "\<forall>m \<in> set (mo_models s). m\<lparr>md_nodeCount := counted counts m\<rparr> = m" by (auto simp: list_ex_iff)
  with False show ?thesis by (simp add: updateNodeCounts_def map_idI)
qed (simp add: updateNodeCounts_def store_models_def)

lemma node_counts_same_ids:
  "md_modelId ` set ms = md_modelId ` set ms' \<Longrightarrow> map_get (nodeCountPerModel ms ns) i = map_get (nodeCountPerModel ms' ns) i"
  by (simp add: nodeCountPerModel_def count_node_get no_nodes_get)

lemma effect_models:
  "mo_models (count_nodes_effect (Some ns) s) = map (\<lambda>m. m\<lparr>md_nodeCount := nodes_of ns m\<rparr>) (mo_models s)"
  by (auto simp: count_nodes_effect_def updateNodeCounts_models count_of_nodes cong: map_cong)

text \<open>
  Counting the nodes gives every model the number of reconciled nodes that serve it and changes nothing else of
  it; the effect, which runs again because the models have changed, changes nothing the second time, so it ends; and
  without nodes known it changes nothing at all.
\<close>

theorem node_counts_settle:
  "mo_models (count_nodes_effect (Some ns) s) = map (\<lambda>m. m\<lparr>md_nodeCount := nodes_of ns m\<rparr>) (mo_models s)
   \<and> count_nodes_effect (Some ns) (count_nodes_effect (Some ns) s) = count_nodes_effect (Some ns) s
   \<and> count_nodes_effect None s = s
   \<and> (lists_derived s \<longrightarrow> lists_derived (count_nodes_effect (Some ns) s))"
proof (intro conjI impI)
  let ?s = "count_nodes_effect (Some ns) s"
  show "mo_models ?s = map (\<lambda>m. m\<lparr>md_nodeCount := nodes_of ns m\<rparr>) (mo_models s)" by (rule effect_models)
  have "md_nodeCount m = counted (nodeCountPerModel (mo_models ?s) ns) m" if "m \<in> set (mo_models ?s)" for m
    using that by (auto simp: count_of_nodes) (auto simp: effect_models nodes_of_def)
  then have "\<not> list_ex (\<lambda>m. md_nodeCount m \<noteq> counted (nodeCountPerModel (mo_models ?s) ns) m) (mo_models ?s)"
    by (auto simp: list_ex_iff)
  then show "count_nodes_effect (Some ns) ?s = ?s"
    by (subst count_nodes_effect_def) (simp add: updateNodeCounts_def)
qed (simp_all add: count_nodes_effect_def updateNodeCounts_keeps)

lemma node_counts_settle_witness:
  "lists_derived (count_nodes_effect (Some []) (store_models [sample_model ''a'' 2 5 True] initialModels))"
  using node_counts_settle [of "[]" "store_models [sample_model ''a'' 2 5 True] initialModels"] by simp

text \<open>
  Once the models have been fetched, no answer clears an error any more: after a failed refresh every later
  successful one stores its models and leaves the old error beside them, until the store is reset or the error
  replaced.
\<close>

theorem models_error_stays:
  assumes "mo_hasFetched s"
  shows "\<exists>s'. fetchModels_call force (fetchModels_answer (Inl e) s) = Some s'
    \<and> (\<exists>m. mo_error (fetchModels_answer (Inr models) s') = Some m) \<and> mo_models (fetchModels_answer (Inr models) s') = models"
  using assms by (simp add: fetchModels_call_def fetchModels_answer_def store_models_def)

lemma models_error_stays_witness:
  "\<exists>s'. fetchModels_call True (fetchModels_answer (Inl (js_Error ''offline'')) (initialModels\<lparr>mo_hasFetched := True\<rparr>)) = Some s'
    \<and> mo_error (fetchModels_answer (Inr []) s') \<noteq> None"
  using models_error_stays [of "initialModels\<lparr>mo_hasFetched := True\<rparr>" True "js_Error ''offline''" "[]"] by auto

end
