(* ===== verification/Prompts.thy ===== *)
theory Prompts
  imports Result_Utils Base64
begin

text \<open>
  Texts with values put into them: the prompts of \<open>src/gpt_frontend/src/utils/promptUtils.ts\<close>, whose templates
  (\<open>constants/prompts.ts\<close>) are arguments, and the texts of message errors and image sources of
  \<open>utils/messageUtils.ts\<close>.
\<close>

section \<open>Replacing\<close>

text \<open>
  \<open>s.replace(pattern, replacement)\<close> with two texts: the first occurrence is replaced, and in the replacement
  \<open>$$\<close> stands for a dollar sign, \<open>$&\<close> for the match, and \<open>$\<close> with a backquote or an apostrophe for what precedes or
  follows it.
\<close>

fun expand_dollars :: "string \<Rightarrow> string \<Rightarrow> string \<Rightarrow> string \<Rightarrow> string" where
  "expand_dollars matched before after (c # d # r) =
     (if c = CHR ''$'' \<and> d = CHR ''$'' then CHR ''$'' # expand_dollars matched before after r
      else if c = CHR ''$'' \<and> d = CHR ''&'' then matched @ expand_dollars matched before after r
      else if c = CHR ''$'' \<and> d = CHR 0x60 then before @ expand_dollars matched before after r
      else if c = CHR ''$'' \<and> d = CHR 0x27 then after @ expand_dollars matched before after r
      else c # expand_dollars matched before after (d # r))"
| "expand_dollars matched before after r = r"

definition js_replace :: "string \<Rightarrow> string \<Rightarrow> string \<Rightarrow> string" where
  "js_replace pat replacement s =
     (case index_of pat s of
        None \<Rightarrow> s
      | Some i \<Rightarrow>
          let before = take i s; after = drop (i + length pat) s
          in before @ expand_dollars pat before after replacement @ after)"

text \<open>
  \<open>s.replace(/pattern/g, replacement)\<close> for a pattern that matches itself only: \<open>before\<close> is what precedes the rest of the
  text.
\<close>

function replace_from :: "string \<Rightarrow> string \<Rightarrow> string \<Rightarrow> string \<Rightarrow> string" where
  "replace_from pat replacement before [] = []"
| "replace_from pat replacement before (c # cs) =
     (if pat \<noteq> [] \<and> prefix pat (c # cs)
      then let after = drop (length pat) (c # cs)
           in expand_dollars pat before after replacement @ replace_from pat replacement (before @ pat) after
      else c # replace_from pat replacement (before @ [c]) cs)"
  by pat_completeness auto
termination
  by (relation "measure (\<lambda>(pat, r, b, s). length s)") (auto simp: Let_def)

definition js_replace_all :: "string \<Rightarrow> string \<Rightarrow> string \<Rightarrow> string" where
  "js_replace_all pat replacement s = replace_from pat replacement [] s"

section \<open>Prompts\<close>

definition training_cutoff :: "string \<Rightarrow> string" where
  "training_cutoff maker =
     (if maker = ''openai'' \<or> maker = ''anthropic'' \<or> maker = ''google'' then ''October 2023''
      else if maker = ''meta'' \<or> maker = ''mistral'' then ''December 2023''
      else ''January 1, 2024'')"

text \<open>The date, the time and the zone as the browser gives them; the zone may be empty.\<close>

definition compileSystemPrompt :: "string \<Rightarrow> string \<Rightarrow> string \<Rightarrow> string \<Rightarrow> model \<Rightarrow> string" where
  "compileSystemPrompt template currentDate currentTime zone model =
     (let name = or_text (md_name model) ''AI Assistant'';
          maker = or_text (md_maker model) ''an advanced research lab'';
          provider = or_text (md_provider model) ''GPT Protocol'';
          userTimezone = or_text zone ''UTC''
      in js_replace_all ''{training_cutoff}'' (training_cutoff maker)
           (js_replace_all ''{user_timezone}'' userTimezone
           (js_replace_all ''{current_time}'' currentTime
           (js_replace_all ''{current_date}'' currentDate
           (js_replace_all ''{model_provider}'' provider
           (js_replace_all ''{model_maker}'' maker
           (js_replace_all ''{model_name}'' name template)))))))"

definition dated_template :: "string \<Rightarrow> string \<Rightarrow> string \<Rightarrow> string \<Rightarrow> string" where
  "dated_template template currentDate currentTime zone =
     js_replace_all ''{user_timezone}'' (or_text zone ''UTC'')
       (js_replace_all ''{current_time}'' currentTime (js_replace_all ''{current_date}'' currentDate template))"

definition compileWebSearchPrompt :: "string \<Rightarrow> string \<Rightarrow> string \<Rightarrow> string \<Rightarrow> string \<Rightarrow> string" where
  "compileWebSearchPrompt template currentDate currentTime zone query =
     js_replace_all ''{query}'' query (dated_template template currentDate currentTime zone)"

section \<open>The text of a message's error\<close>

text \<open>A missing text in a template literal.\<close>

definition or_undefined :: "string option \<Rightarrow> string" where
  "or_undefined m = (case m of None \<Rightarrow> ''undefined'' | Some s \<Rightarrow> s)"

fun provider_error_text :: "provider_error_kind \<Rightarrow> string option \<Rightarrow> string" where
  "provider_error_text RateLimited m = ''Rate limit reached with the AI provider. Please try again later.''"
| "provider_error_text AuthenticationError m =
     ''AI provider authentication failed. This could be due to an invalid API key on the node or other provider-side ''
     @ ''authentication issues. Please create an issue on GitHub if this persists.''"
| "provider_error_text ServerError m = ''The AI provider encountered a server error. Please try again.''"
| "provider_error_text ServiceUnavailable m = ''The AI service is temporarily unavailable (503). Please try again in a moment.''"
| "provider_error_text BadRequest m = ''The request to the AI provider was invalid. Please check your input or settings.''"
| "provider_error_text ContextLengthExceeded m =
     ''The conversation is too long for this model. Please start a new chat or select a model with a larger context window.''"
| "provider_error_text ContentPolicyViolation m =
     ''The request was rejected due to the AI provider'' @ [CHR 0x27] @ ''s content policy. Please modify your prompt.''"
| "provider_error_text NetworkError m = ''Network error connecting to the AI provider. Please check your connection and try again.''"
| "provider_error_text ProviderTimeout m = ''Timed out waiting for a response from the AI provider.''"
| "provider_error_text InvalidImage m = ''The provider rejected an image: '' @ or_undefined m"
| "provider_error_text UnknownProvider m = ''Provider error: '' @ or_undefined m"

definition formatErrorStatus :: "error_status option \<Rightarrow> string" where
  "formatErrorStatus errorStatus =
     (case errorStatus of
        None \<Rightarrow> ''''
      | Some e \<Rightarrow>
          (case es_type e of
             Timeout \<Rightarrow> ''Generation timed out. Please try again.''
           | NodeOffline \<Rightarrow> ''The assigned node seems to be offline. Please try again.''
           | ProviderError \<Rightarrow>
               (case es_details e of
                  None \<Rightarrow> ''An unknown provider error occurred.''
                | Some d \<Rightarrow> provider_error_text (pe_type d) (pe_message d))
           | CanisterCallError \<Rightarrow> ''Error communicating with backend canisters: '' @ or_undefined (es_message e)
           | InvalidState \<Rightarrow> ''An internal state error occurred: '' @ or_undefined (es_message e)
           | ConfigurationError \<Rightarrow> ''Node configuration error: '' @ or_undefined (es_message e)
           | UnknownError \<Rightarrow> ''An unknown error occurred during generation: '' @ or_undefined (es_message e)))"

section \<open>The source of an image\<close>

definition dataToSrc :: "string \<Rightarrow> bytes \<Rightarrow> string" where
  "dataToSrc mimeType data = ''data:'' @ mimeType @ '';base64,'' @ btoa data"

section \<open>Lemmas\<close>

lemma expand_no_dollar: "CHR ''$'' \<notin> set r \<Longrightarrow> expand_dollars matched before after r = r"
  by (induction matched before after r rule: expand_dollars.induct) auto

text \<open>Splitting a text at a separator and joining the parts.\<close>

function split_text :: "string \<Rightarrow> string \<Rightarrow> string \<Rightarrow> string list" where
  "split_text sep acc [] = [acc]"
| "split_text sep acc (c # cs) =
     (if sep \<noteq> [] \<and> prefix sep (c # cs) then acc # split_text sep [] (drop (length sep) (c # cs))
      else split_text sep (acc @ [c]) cs)"
  by pat_completeness auto
termination
  by (relation "measure (\<lambda>(sep, acc, s). length s)") auto

fun join_texts :: "string \<Rightarrow> string list \<Rightarrow> string" where
  "join_texts sep (x # y # xs) = x @ sep @ join_texts sep (y # xs)"
| "join_texts sep [x] = x"
| "join_texts sep [] = []"

lemma split_text_nonempty [simp]: "split_text sep acc s \<noteq> []"
  by (induction sep acc s rule: split_text.induct) auto

lemma join_texts_Cons: "xs \<noteq> [] \<Longrightarrow> join_texts sep (x # xs) = x @ sep @ join_texts sep xs"
  by (cases xs) simp_all

text \<open>Replacing every occurrence is splitting and joining, for a replacement without dollar signs.\<close>

lemma replace_from_join:
  "CHR ''$'' \<notin> set r \<Longrightarrow> acc @ replace_from pat r before s = join_texts r (split_text pat acc s)"
proof (induction pat r before s arbitrary: acc rule: replace_from.induct)
  case (2 pat r before c cs)
  show ?case
  proof (cases "pat \<noteq> [] \<and> prefix pat (c # cs)")
    case True
    with "2.IH"(1) [OF True refl "2.prems", of "[]"] show ?thesis
      by (simp add: expand_no_dollar "2.prems" join_texts_Cons Let_def)
  next
    case False
    with "2.IH"(2) [OF False "2.prems", of "acc @ [c]"] show ?thesis by auto
  qed
qed simp

lemma replace_all_join: "CHR ''$'' \<notin> set r \<Longrightarrow> js_replace_all pat r s = join_texts r (split_text pat [] s)"
  using replace_from_join [of r "[]"] by (simp add: js_replace_all_def)

text \<open>
  A web search asks for the query as it is, at every place the template has for it and without filling
  placeholders the query itself contains, if the query has no dollar sign; but a query with one can be changed, since
  it is used as a replacement pattern.
\<close>

theorem web_search_prompt_query:
  "(CHR ''$'' \<notin> set query \<longrightarrow>
      compileWebSearchPrompt template d t z query =
        join_texts query (split_text ''{query}'' [] (dated_template template d t z)))
   \<and> compileWebSearchPrompt ''Find {query}!'' ''Monday'' ''12:00'' ''UTC'' ''under $$5'' = ''Find under $5!''"
proof
  show "CHR ''$'' \<notin> set query \<longrightarrow> compileWebSearchPrompt template d t z query =
        join_texts query (split_text ''{query}'' [] (dated_template template d t z))"
    by (simp add: compileWebSearchPrompt_def replace_all_join)
  show "compileWebSearchPrompt ''Find {query}!'' ''Monday'' ''12:00'' ''UTC'' ''under $$5'' = ''Find under $5!''" by code_simp
qed

lemma web_search_prompt_query_witness:
  "compileWebSearchPrompt ''On {current_date}: {query}'' ''Monday'' ''12:00'' '''' ''{current_date}?'' = ''On Monday: {current_date}?''"
proof -
  have "join_texts ''{current_date}?'' (split_text ''{query}'' [] (dated_template ''On {current_date}: {query}'' ''Monday'' ''12:00'' '''')) =
      ''On Monday: {current_date}?''" by code_simp
  then show ?thesis
    using web_search_prompt_query [of "''{current_date}?''" "''On {current_date}: {query}''" "''Monday''" "''12:00''" "[]"] by simp
qed

text \<open>Every error has a text, and the bytes of an image can be read back from its source.\<close>

lemma formatErrorStatus_empty: "formatErrorStatus e = '''' \<longleftrightarrow> e = None"
proof (cases e)
  case (Some s)
  have "provider_error_text k m \<noteq> ''''" for k m by (cases k) simp_all
  with Some show ?thesis by (auto simp: formatErrorStatus_def split: error_kind.split option.split)
qed (simp add: formatErrorStatus_def)

lemma dataToSrc_bytes:
  assumes "dataToSrc mime bs = ''data:'' @ mime @ '';base64,'' @ code"
  shows "atob code = Some bs"
  using assms by (auto simp: dataToSrc_def atob_btoa)

end
