(* ===== verification/Title_Generation.thy ===== *)
theory Title_Generation
  imports Temp_Chats_Props Models_Store Prompts
begin

text \<open>
  Naming a new chat after its first message
  (\<open>src/gpt_frontend/src/store/chatStore/actions/titleGeneration.ts\<close>): the cheapest featured model is asked
  in a temporary chat, its answer is polled for, cleaned and, unless the user has renamed the chat in
  the meantime, becomes the title. Every error ends the action silently.
\<close>

section \<open>The prompt\<close>

definition title_content :: "string \<Rightarrow> string" where
  "title_content firstMessageContent =
     (if length firstMessageContent > 1000
      then take 500 firstMessageContent @ ''...'' @ drop (length firstMessageContent - 500) firstMessageContent
      else firstMessageContent)"

definition title_prompt :: "string \<Rightarrow> string \<Rightarrow> string" where
  "title_prompt template firstMessageContent = js_replace ''{content}'' (title_content firstMessageContent) template"

definition cheapest_model :: "model list \<Rightarrow> model option" where
  "cheapest_model models =
     (case sort_key token_price (filter (\<lambda>m. md_nodeCount m > 0 \<and> md_isFeatured m) models) of
        [] \<Rightarrow> None | m # _ \<Rightarrow> Some m)"

section \<open>The answer\<close>

text \<open>
  \<open>pollMessage\<close>, from the \<open>i\<close>-th attempt on with \<open>left\<close> attempts left: \<open>answers i\<close> is what the canister
  answers then. An error ends the polling like an error of the answer.
\<close>

fun poll_message :: "(bytes \<Rightarrow> string + string) \<Rightarrow> (nat \<Rightarrow> string + encrypted_message) \<Rightarrow> nat \<Rightarrow> nat \<Rightarrow> string option" where
  "poll_message decrypt answers i 0 = None"
| "poll_message decrypt answers i (Suc left) =
     (case answers i of
        Inl e \<Rightarrow> None
      | Inr encMsg \<Rightarrow>
          if truthy (m_isComplete encMsg) \<or> m_errorStatus encMsg \<noteq> None
          then if m_errorStatus encMsg \<noteq> None then None
               else if length (em_encryptedContent encMsg) > 0
               then (case decrypt (em_encryptedContent encMsg) of Inr t \<Rightarrow> Some t | Inl e \<Rightarrow> None)
               else poll_message decrypt answers (i + 1) left
          else poll_message decrypt answers (i + 1) left)"

text \<open>\<open>s.replace(/<think>[\s\S]*?<\/think>/gi, "")\<close>\<close>

function strip_think :: "string \<Rightarrow> string" where
  "strip_think s =
     (case index_of ''<think>'' (to_lower s) of
        None \<Rightarrow> s
      | Some i \<Rightarrow>
          let rest = drop (i + 7) s in
          (case index_of ''</think>'' (to_lower rest) of
             None \<Rightarrow> s
           | Some j \<Rightarrow> take i s @ strip_think (drop (j + 8) rest)))"
  by pat_completeness auto
termination
proof (relation "measure length")
  fix s i rest j
  assume i: "index_of ''<think>'' (to_lower s) = Some i" and "rest = drop (i + 7) s"
  from index_of_Some [OF i] have "prefix ''<think>'' (drop i (to_lower s))" by simp
  then have "length ''<think>'' \<le> length (drop i (to_lower s))" by (rule prefix_length_le)
  then show "(drop (j + 8) rest, s) \<in> measure length" using \<open>rest = _\<close> by auto
qed simp

declare strip_think.simps [simp del]

definition clean_title :: "string \<Rightarrow> string" where
  "clean_title generatedTitle =
     take 50 (trim (filter (\<lambda>c. c \<notin> {CHR 0x22, CHR ''*'', CHR 0x60, CHR ''_''}) (trim (strip_think generatedTitle))))"

section \<open>The action\<close>

text \<open>
  \<open>ti_rename\<close> is the action \<open>renameChat\<close> with everything it needs, \<open>ti_meanwhile\<close> what the rest of the program does to the
  store until the answer is there.
\<close>

record 'k title_env = "'k send_env" +
  ti_models :: "model list"
  ti_template :: string
  ti_answers :: "int \<Rightarrow> nat \<Rightarrow> string + encrypted_message"
  ti_meanwhile :: "chat_state \<Rightarrow> chat_state"
  ti_rename :: "chat_id \<Rightarrow> string \<Rightarrow> chat_state \<Rightarrow> string + chat_state"

text \<open>
  What the action did: the temporary chat it created, its connection, the title it set, and whether the
  temporary chat was deleted again.
\<close>

record title_run =
  tg_created :: "chat_id option"
  tg_connection :: "connection option"
  tg_title :: "string option"
  tg_deleted :: bool

definition no_title_run :: title_run where
  "no_title_run = \<lparr>tg_created = None, tg_connection = None, tg_title = None, tg_deleted = False\<rparr>"

definition title_params ::
  "'k title_env \<Rightarrow> string \<Rightarrow> chat_state \<Rightarrow> (picked_node \<times> 'k \<times> temp_params) option" where
  "title_params en firstMessageContent state =
     (case cheapest_model (ti_models en) of
        None \<Rightarrow> None
      | Some mdl \<Rightarrow>
          (case pickNodeForModel (se_pick_now en) (se_random en) (md_modelId mdl) state of
             None \<Rightarrow> None
           | Some node \<Rightarrow>
               if \<not> truthy_str (pn_publicKey node) then None
               else case (deriveChatKey (se_lib en) (the (au_rootKey (se_auth en))) (se_salt en),
                          temp_chat_params (send_env.truncate en) ''Temporary Title Generation''
                            (title_prompt (ti_template en) firstMessageContent) (md_modelId mdl) (2 / 10) 500 (md_maxContext mdl) [] node) of
                 (Inr key, Inr p) \<Rightarrow> Some (node, key, p)
               | _ \<Rightarrow> None))"

text \<open>From the generated title on: \<open>None\<close> for the second component is the early return.\<close>

definition apply_title ::
  "'k title_env \<Rightarrow> chat_id \<Rightarrow> string \<Rightarrow> string option \<Rightarrow> chat_state \<Rightarrow> chat_state \<times> (string + string option) option" where
  "apply_title en originalChatId placeholder generatedTitle state =
     (if \<not> truthy_str generatedTitle then (state, Some (Inr None))
      else case List.find (\<lambda>c. c_chatId c = originalChatId) (chats state) of
        Some currentChat \<Rightarrow>
          if c_title currentChat \<noteq> placeholder then (state, None)
          else let t = clean_title (the generatedTitle) in
               if t = [] then (state, Some (Inr None))
               else (case ti_rename en originalChatId t state of
                       Inl e \<Rightarrow> (state, Some (Inl e)) | Inr s \<Rightarrow> (s, Some (Inr (Some t))))
      | None \<Rightarrow>
          let t = clean_title (the generatedTitle) in
          if t = [] then (state, Some (Inr None))
          else (case ti_rename en originalChatId t state of
                  Inl e \<Rightarrow> (state, Some (Inl e)) | Inr s \<Rightarrow> (s, Some (Inr (Some t)))))"

definition generateTitleForChat ::
  "'k title_env \<Rightarrow> (temp_params \<Rightarrow> string + create_chat_response) \<Rightarrow> chat_id \<Rightarrow> string \<Rightarrow> string \<Rightarrow> chat_state
     \<Rightarrow> title_run \<times> chat_state" where
  "generateTitleForChat en api originalChatId firstMessageContent placeholder state =
     (if \<not> session_ready (se_auth en) then (no_title_run, state)
      else case title_params en firstMessageContent state of
        None \<Rightarrow> (no_title_run, state)
      | Some (node, key, p) \<Rightarrow>
          (case api p of
             Inl e \<Rightarrow> (no_title_run, se_meanwhile en state)
           | Inr response \<Rightarrow>
               let tempChatId = toChatId (id_text (cr_chat_id response));
                   tempJobId = toJobId (id_text (cr_job_id response));
                   (conn, s1, _) = connect_temp_job (send_env.truncate en) tempChatId tempJobId node (se_meanwhile en state);
                   generatedTitle = poll_message (\<lambda>b. decryptMessage (se_lib en) b key) (ti_answers en (cr_ai_message_id response)) 0 20;
                   (s2, result) = apply_title en originalChatId placeholder generatedTitle (ti_meanwhile en s1)
               in (\<lparr>tg_created = Some tempChatId, tg_connection = conn,
                    tg_title = (case result of Some (Inr t) \<Rightarrow> t | _ \<Rightarrow> None),
                    tg_deleted = (case result of Some (Inr _) \<Rightarrow> True | _ \<Rightarrow> False)\<rparr>, s2)))"

section \<open>Lemmas\<close>

lemma set_trim: "set (trim s) \<subseteq> set s"
  unfolding trim_def by (metis set_dropWhileD set_rev subsetI)

lemma hd_trim: "trim s \<noteq> [] \<Longrightarrow> \<not> is_ws (hd (trim s))"
proof -
  assume ne: "trim s \<noteq> []"
  let ?d = "dropWhile is_ws s"
  have p: "prefix (trim s) ?d"
    unfolding trim_def by (metis prefix_def rev_append rev_rev_ident takeWhile_dropWhile_id)
  then obtain zs where z: "?d = trim s @ zs" by (auto simp: prefix_def)
  have d: "?d \<noteq> []" and "hd (trim s) = hd ?d" unfolding z using ne by simp_all
  moreover from d have "\<not> is_ws (hd ?d)" by (rule hd_dropWhile)
  ultimately show ?thesis by simp
qed

lemma clean_title_length: "length (clean_title g) \<le> 50"
  by (simp add: clean_title_def)

section \<open>Properties\<close>

text \<open>
  A generated title fits: it has at most fifty characters, none of them a quotation mark, asterisk, backquote
  or underscore, and does not begin with a space.
\<close>

theorem clean_title_fits:
  "length (clean_title g) \<le> 50 \<and> set (clean_title g) \<inter> {CHR 0x22, CHR ''*'', CHR 0x60, CHR ''_''} = {}
    \<and> takeWhile is_ws (clean_title g) = []"
proof -
  let ?b = "{CHR 0x22, CHR ''*'', CHR 0x60, CHR ''_''}"
  let ?f = "filter (\<lambda>c. c \<notin> ?b) (trim (strip_think g))"
  have "set (clean_title g) \<subseteq> set ?f"
    unfolding clean_title_def using set_trim [of ?f] set_take_subset [of 50 "trim ?f"] by blast
  then have "set (clean_title g) \<inter> ?b = {}" by auto
  moreover have "clean_title g \<noteq> [] \<Longrightarrow> hd (clean_title g) = hd (trim ?f) \<and> trim ?f \<noteq> []"
    unfolding clean_title_def by auto
  ultimately show ?thesis using hd_trim [of ?f] clean_title_length [of g] by (cases "clean_title g") auto
qed

text \<open>
  The prompt holds the message unless it has a dollar sign: the first message of a chat, shortened to its ends
  when long, stands in the prompt in place of the marker; but since the text is used as a replacement
  pattern, a message with a dollar sign can be changed on the way.
\<close>

theorem title_prompt_message:
  "(CHR ''$'' \<notin> set message_text \<and> index_of ''{content}'' template = Some i \<longrightarrow>
      title_prompt template message_text = take i template @ title_content message_text @ drop (i + length ''{content}'') template)
    \<and> title_prompt ''About: {content}'' ''$$5'' = ''About: $5''"
proof
  have "set (title_content message_text) \<subseteq> set message_text \<union> {CHR ''.''}"
    by (auto simp: title_content_def dest: in_set_takeD in_set_dropD)
  then have "CHR ''$'' \<notin> set message_text \<Longrightarrow> CHR ''$'' \<notin> set (title_content message_text)" by auto
  then show "CHR ''$'' \<notin> set message_text \<and> index_of ''{content}'' template = Some i \<longrightarrow>
      title_prompt template message_text = take i template @ title_content message_text @ drop (i + length ''{content}'') template"
    by (auto simp: title_prompt_def js_replace_def Let_def expand_no_dollar)
  show "title_prompt ''About: {content}'' ''$$5'' = ''About: $5''" by code_simp
qed

lemma title_prompt_message_witness:
  "title_prompt ''A {content}'' ''hi'' = ''A hi''"
proof -
  have "index_of ''{content}'' ''A {content}'' = Some 2" by code_simp
  then show ?thesis using title_prompt_message [of "''hi''" "''A {content}''" 2] by (simp add: title_content_def)
qed

text \<open>
  The user's own title wins: naming a chat changes the title of no other chat, and of this one only if it
  still had its placeholder title when the answer came and something usable is left of the answer after cleaning;
  the new title is that cleaned answer, at most fifty characters. But when the user has renamed the
  chat, the temporary chat made for the question is left behind; otherwise it is deleted.
\<close>

theorem title_respects_user:
  assumes "generateTitleForChat en api k content placeholder s = (run, s')"
    and "se_meanwhile en = id" and "se_connecting en = id" and "ti_meanwhile en = id"
    and "ti_rename en = (\<lambda>k t s. Inr (rename_chat_locally now k t s))" and "List.find (\<lambda>c. c_chatId c = k) (chats s) = Some c"
  shows "(case tg_title run of
            None \<Rightarrow> chats s' = chats s
          | Some t \<Rightarrow> chats s' = map (\<lambda>c. if c_chatId c = k then c\<lparr>c_title := t, c_updatedAt := now\<rparr> else c) (chats s)
              \<and> c_title c = placeholder \<and> t \<noteq> [] \<and> length t \<le> 50 \<and> (\<exists>g. t = clean_title g))
    \<and> (tg_created run \<noteq> None \<and> \<not> tg_deleted run \<longrightarrow> c_title c \<noteq> placeholder)
    \<and> (tg_created run \<noteq> None \<and> tg_deleted run \<and> c_title c \<noteq> placeholder \<longrightarrow> tg_title run = None)"
proof -
  have rename: "chats (rename_chat_locally now k t u) = map (\<lambda>c. if c_chatId c = k then c\<lparr>c_title := t, c_updatedAt := now\<rparr> else c) (chats u)"
    for t u by (simp add: rename_chat_locally_def Let_def)
  have apply_case: "(case r of
        None \<Rightarrow> u' = u \<and> c_title c \<noteq> placeholder
      | Some (Inl e) \<Rightarrow> False
      | Some (Inr None) \<Rightarrow> u' = u
      | Some (Inr (Some t)) \<Rightarrow> u' = rename_chat_locally now k t u \<and> c_title c = placeholder \<and> t \<noteq> [] \<and> (\<exists>g. t = clean_title g))"
    if "apply_title en k placeholder g u = (u', r)" "chats u = chats s" for g u u' r
    using that assms(5,6) by (auto simp: apply_title_def Let_def split: if_splits)
  have conn: "chats u = chats s" if "connect_temp_job (send_env.truncate en) tc tj node s = (con, u, fx)" for tc tj node con u fx
  proof -
    have "se_connecting (send_env.truncate en) = id" using assms(3) by (simp add: send_env.truncate_def)
    from that [unfolded connect_temp_job_def this] show ?thesis
    proof (cases rule: connect_cases)
      case (failed msg nd)
      then have "u = fst (handleWebSocketError (ev_now (se_env (send_env.truncate en))) tc tj msg True nd s)" by (metis fst_conv)
      then show ?thesis by simp
    qed simp
  qed
  show ?thesis
  proof (cases "session_ready (se_auth en) \<and> title_params en content s \<noteq> None")
    case False
    then have "generateTitleForChat en api k content placeholder s = (no_title_run, s)"
      by (cases "session_ready (se_auth en)"; cases "title_params en content s") (auto simp: generateTitleForChat_def)
    then have "run = no_title_run \<and> s' = s" using assms(1) by simp
    then show ?thesis by (simp add: no_title_run_def)
  next
    case True
    then obtain node key p where tp: "title_params en content s = Some (node, key, p)" by auto
    show ?thesis
    proof (cases "api p")
      case (Inl e)
      then have "run = no_title_run \<and> s' = s" using assms(1,2) True tp by (simp add: generateTitleForChat_def)
      then show ?thesis by (simp add: no_title_run_def)
    next
      case (Inr response)
      let ?tc = "toChatId (id_text (cr_chat_id response))" and ?tj = "toJobId (id_text (cr_job_id response))"
      obtain con u fx where c: "connect_temp_job (send_env.truncate en) ?tc ?tj node s = (con, u, fx)"
        by (metis prod.exhaust)
      let ?g = "poll_message (\<lambda>b. decryptMessage (se_lib en) b key) (ti_answers en (cr_ai_message_id response)) 0 20"
      obtain u' r where a: "apply_title en k placeholder ?g u = (u', r)" by (metis prod.exhaust)
      have res: "s' = u'" "tg_created run = Some ?tc" "tg_title run = (case r of Some (Inr t) \<Rightarrow> t | _ \<Rightarrow> None)"
        "tg_deleted run = (case r of Some (Inr _) \<Rightarrow> True | _ \<Rightarrow> False)"
        using assms(1,2,4) True tp Inr c a by (auto simp: generateTitleForChat_def Let_def)
      from apply_case [OF a conn [OF c]] show ?thesis
        using rename conn [OF c] clean_title_length
        by (cases r) (auto simp: res split: sum.splits option.splits)
    qed
  qed
qed

definition example_title_env :: "bytes title_env" where
  "example_title_env =
     \<lparr>se_auth = example_auth, se_pick_now = 5, se_random = 1/2, se_salt = [], se_iv = replicate 12 0,
      se_read = \<lambda>f. Inr (f_bytes f), se_prompt = \<lambda>m. md_name m, se_lib = example_lib, se_meanwhile = id, se_now = 9,
      se_timer = 1, se_connect_auth = example_auth, se_create = \<lambda>url. Inr 3, se_connecting = id,
      se_env = \<lparr>ev_now = 9, ev_ready = \<lambda>_. CONNECTING, ev_frame = 1, ev_show = \<lambda>_. []\<rparr>,
      ti_models = [example_model\<lparr>md_isFeatured := True\<rparr>], ti_template = ''{content}'', ti_answers = \<lambda>_ _. Inl ''gone'',
      ti_meanwhile = id, ti_rename = \<lambda>k t s. Inr (rename_chat_locally 8 k t s)\<rparr>"

lemma title_respects_user_witness:
  "\<exists>run s'. generateTitleForChat example_title_env (\<lambda>_. Inr \<lparr>cr_chat_id = 8, cr_user_message_id = 2, cr_ai_message_id = 3, cr_job_id = 4\<rparr>)
      ''7'' ''hi'' [] send_state = (run, s')
     \<and> (case tg_title run of None \<Rightarrow> chats s' = chats send_state | Some t \<Rightarrow> length t \<le> 50)"
proof -
  let ?api = "\<lambda>_. Inr \<lparr>cr_chat_id = 8, cr_user_message_id = 2, cr_ai_message_id = 3, cr_job_id = 4\<rparr>"
  obtain run s' where run: "generateTitleForChat example_title_env ?api ''7'' ''hi'' [] send_state = (run, s')"
    by (metis prod.exhaust)
  have env: "se_meanwhile example_title_env = id" "se_connecting example_title_env = id" "ti_meanwhile example_title_env = id"
    "ti_rename example_title_env = (\<lambda>k t s. Inr (rename_chat_locally 8 k t s))"
    by (simp_all add: example_title_env_def)
  have chat: "List.find (\<lambda>c. c_chatId c = ''7'') (chats send_state) = Some (plain_chat ''7'')" by simp
  show ?thesis
    using title_respects_user [OF run env chat] run by (cases "tg_title run") auto
qed

end
