(* ===== verification/File_Store_Props.thy ===== *)
theory File_Store_Props
  imports File_Store
begin

text \<open>
  What the file store guarantees: the walk up to the root ends with the path, the search index is
  complete when its build succeeds, deleted files leave no trace; and two places where it does not
  do what it means to, a fetch that blocks all later ones and folders deleted without their files.
\<close>

section \<open>The search index\<close>

text \<open>The entry of a file, and the batches without batching: all entries one after another.\<close>

definition index_entry :: "(file_id \<Rightarrow> bytes option) \<Rightarrow> file_item \<Rightarrow> searchable_chunk list" where
  "index_entry content file = map (enriched_chunk file (utf8_decode (the (content (fi_id file))))) (fi_chunks file)"

definition index_all :: "(file_id \<Rightarrow> bytes option) \<Rightarrow> file_item list \<Rightarrow> file_state \<Rightarrow> file_state" where
  "index_all content fs state =
     state\<lparr>searchableChunks := map_set_all fi_id (index_entry content) fs (searchableChunks state)\<rparr>"

text \<open>The files to index: new text files of the store, each once.\<close>

definition indexable :: "file_item list \<Rightarrow> file_state \<Rightarrow> bool" where
  "indexable fs s \<longleftrightarrow> distinct (map fi_id fs)
     \<and> (\<forall>f \<in> set fs. map_get (fs_files s) (fi_id f) = Some f \<and> is_text_file f \<and> \<not> map_has (searchableChunks s) (fi_id f))"

lemma indexable_Cons [simp]:
  "indexable (f # fs) s \<longleftrightarrow> map_get (fs_files s) (fi_id f) = Some f \<and> is_text_file f \<and> \<not> map_has (searchableChunks s) (fi_id f)
     \<and> fi_id f \<notin> fi_id ` set fs \<and> indexable fs s"
  by (auto simp: indexable_def)

lemma indexable_after:
  "indexable fs s \<Longrightarrow> fi_id f \<notin> fi_id ` set fs \<Longrightarrow> indexable fs (s\<lparr>searchableChunks := map_set (fi_id f) e (searchableChunks s)\<rparr>)"
  by (auto simp: indexable_def map_has_def dest: sym intro: rev_image_eqI)

lemma index_one_ok:
  assumes "map_get (fs_files s) (fi_id f) = Some f" and "is_text_file f" and "\<not> map_has (searchableChunks s) (fi_id f)"
  shows "index_one content f (e, s) =
    (case content (fi_id f) of
       Some _ \<Rightarrow> (e, s\<lparr>searchableChunks := map_set (fi_id f) (index_entry content f) (searchableChunks s)\<rparr>)
     | None \<Rightarrow> (or_else e (Some (missing_content (fi_id f))), s))"
  using assms by (simp add: index_one_def buildSearchIndexForFile_def index_entry_def split: option.split)

lemma index_one_fails: "fst (fold (index_one content) fs (Some e, s)) = Some e"
  by (induction fs arbitrary: s) (simp_all add: index_one_def split: sum.split prod.split)

lemma fold_index_one:
  assumes "indexable fs s"
  shows "(\<forall>f \<in> set fs. content (fi_id f) \<noteq> None) \<Longrightarrow> fold (index_one content) fs (None, s) = (None, index_all content fs s)"
    and "(\<exists>f \<in> set fs. content (fi_id f) = None) \<Longrightarrow>
      \<exists>f \<in> set fs. content (fi_id f) = None \<and> fst (fold (index_one content) fs (None, s)) = Some (missing_content (fi_id f))"
  using assms
proof (induction fs arbitrary: s)
  case Nil
  {
    case 1
    show ?case by (simp add: index_all_def)
  next
    case 2
    then show ?case by simp
  }
next
  case (Cons f fs)
  {
    case (1 s)
    let ?s = "s\<lparr>searchableChunks := map_set (fi_id f) (index_entry content f) (searchableChunks s)\<rparr>"
    have "index_one content f (None, s) = (None, ?s)" using 1 index_one_ok [of s f content None] by auto
    moreover have "fold (index_one content) fs (None, ?s) = (None, index_all content fs ?s)"
      using 1 by (intro Cons.IH(1) indexable_after) simp_all
    ultimately show ?case by (simp add: index_all_def)
  next
    case (2 s)
    let ?s = "s\<lparr>searchableChunks := map_set (fi_id f) (index_entry content f) (searchableChunks s)\<rparr>"
    show ?case
    proof (cases "content (fi_id f)")
      case None
      then show ?thesis using 2 index_one_ok [of s f content None] by (simp add: index_one_fails)
    next
      case (Some bs)
      with 2 have "index_one content f (None, s) = (None, ?s)" using index_one_ok [of s f content None] by auto
      moreover have "\<exists>f \<in> set fs. content (fi_id f) = None
          \<and> fst (fold (index_one content) fs (None, ?s)) = Some (missing_content (fi_id f))"
        using 2 Some by (intro Cons.IH(2) indexable_after) auto
      ultimately show ?thesis by auto
    qed
  }
qed

lemma indexable_append:
  assumes "indexable (xs @ ys) s"
  shows "indexable xs s" and "indexable ys (index_all content xs s)"
proof -
  show "indexable xs s" using assms by (auto simp: indexable_def)
  have "map_get (map_set_all fi_id (index_entry content) xs (searchableChunks s)) (fi_id y) = map_get (searchableChunks s) (fi_id y)"
    if "y \<in> set ys" for y
    using assms that by (intro map_get_set_all_other) (auto simp: indexable_def)
  then show "indexable ys (index_all content xs s)"
    using assms by (auto simp: indexable_def index_all_def map_has_def)
qed

lemma index_all_append: "index_all content ys (index_all content xs s) = index_all content (xs @ ys) s"
proof -
  have "map_set_all fi_id g ys (map_set_all fi_id g xs m) = map_set_all fi_id g (xs @ ys) m"
    for g :: "file_item \<Rightarrow> searchable_chunk list" and m
    by (induction xs arbitrary: m) simp_all
  then show ?thesis by (simp add: index_all_def)
qed

text \<open>Working in batches is the same as working through all files, when every content is there.\<close>

lemma index_batches_all:
  assumes "indexable fs s" and "\<forall>f \<in> set fs. content (fi_id f) \<noteq> None"
  shows "index_batches content fs s = (None, index_all content fs s)"
  using assms
proof (induction content fs s rule: index_batches.induct)
  case (1 content fs s)
  let ?t = "take CONCURRENT_BATCH_SIZE fs" and ?d = "drop CONCURRENT_BATCH_SIZE fs"
  show ?case
  proof (cases "fs = []")
    case True
    then show ?thesis by (simp add: index_batches.simps index_all_def)
  next
    case False
    have "indexable (?t @ ?d) s" using 1(2) by simp
    note sub = indexable_append [OF this]
    have "\<forall>f \<in> set ?t. content (fi_id f) \<noteq> None" and d: "\<forall>f \<in> set ?d. content (fi_id f) \<noteq> None"
      using 1(3) by (meson in_set_takeD, meson in_set_dropD)
    then have "fold (index_one content) ?t (None, s) = (None, index_all content ?t s)"
      using sub(1) by (intro fold_index_one(1))
    then have "index_batches content fs s = (None, index_all content ?d (index_all content ?t s))"
      using False 1(1) [OF False] sub(2) d by (subst index_batches.simps) simp
    then show ?thesis by (simp add: index_all_append)
  qed
qed

lemma index_batches_error:
  assumes "indexable fs s" and "\<exists>f \<in> set fs. content (fi_id f) = None"
  shows "\<exists>f \<in> set fs. content (fi_id f) = None \<and> fst (index_batches content fs s) = Some (missing_content (fi_id f))"
  using assms
proof (induction content fs s rule: index_batches.induct)
  case (1 content fs s)
  let ?t = "take CONCURRENT_BATCH_SIZE fs" and ?d = "drop CONCURRENT_BATCH_SIZE fs"
  have ne: "fs \<noteq> []" using 1(3) by auto
  have "indexable (?t @ ?d) s" using 1(2) by simp
  note sub = indexable_append [OF this]
  show ?case
  proof (cases "\<exists>f \<in> set ?t. content (fi_id f) = None")
    case True
    then obtain f where f: "f \<in> set ?t" "content (fi_id f) = None"
      and e: "fst (fold (index_one content) ?t (None, s)) = Some (missing_content (fi_id f))"
      using fold_index_one(2) [OF sub(1)] by blast
    have "fst (index_batches content fs s) = Some (missing_content (fi_id f))"
      using ne e by (subst index_batches.simps) (cases "fold (index_one content) ?t (None, s)"; simp)
    moreover have "f \<in> set fs" using f(1) by (rule in_set_takeD)
    ultimately show ?thesis using f(2) by blast
  next
    case False
    then have t: "fold (index_one content) ?t (None, s) = (None, index_all content ?t s)"
      using sub(1) by (intro fold_index_one(1)) auto
    have "set fs = set ?t \<union> set ?d" by (metis append_take_drop_id set_append)
    with False 1(3) have ex: "\<exists>f \<in> set ?d. content (fi_id f) = None" by auto
    have "index_batches content fs s = index_batches content ?d (index_all content ?t s)"
      using ne t by (subst index_batches.simps) simp
    then show ?thesis using 1(1) [OF ne t [symmetric] refl sub(2) ex] in_set_dropD by fastforce
  qed
qed

text \<open>What is stored under its own identifier.\<close>

definition files_keyed :: "file_state \<Rightarrow> bool" where
  "files_keyed s \<longleftrightarrow> map_ok (fs_files s) \<and> (\<forall>(i, f) \<in> set (fs_files s). fi_id f = i)"

lemma files_keyed_get: "files_keyed s \<Longrightarrow> map_get (fs_files s) i = Some f \<Longrightarrow> fi_id f = i"
  by (auto simp: files_keyed_def dest: map_of_SomeD)

lemma files_keyed_mem: "files_keyed s \<Longrightarrow> f \<in> set (map_values (fs_files s)) \<Longrightarrow> map_get (fs_files s) (fi_id f) = Some f"
  by (auto simp: files_keyed_def intro!: map_mem_get)

lemma files_to_index_ok:
  assumes "files_keyed s"
  shows "indexable (files_to_index s) s"
proof -
  have "map fi_id (map_values (fs_files s)) = map_keys (fs_files s)"
    unfolding map_map using assms by (intro map_cong) (auto simp: files_keyed_def)
  then have "distinct (map fi_id (map_values (fs_files s)))" using assms by (simp only: files_keyed_def map_ok_def)
  then have "distinct (map fi_id (files_to_index s))" unfolding files_to_index_def by (rule distinct_map_filter)
  then show ?thesis using files_keyed_mem [OF assms] unfolding indexable_def by (auto simp: files_to_index_def)
qed

lemma keyed_store_ops:
  assumes "files_keyed s"
  shows "files_keyed (store_uploads items p s)" and "files_keyed (store_folder b r s)" and "files_keyed (rename_locally i k n s)"
    and "files_keyed (delete_one it s)"
proof -
  have all: "map_ok (map_set_all fi_id id items m) \<and> (\<forall>(i, f) \<in> set (map_set_all fi_id id items m). fi_id f = i)"
    if "map_ok m" "\<forall>(i, f) \<in> set m. fi_id f = i" for m :: "(file_id, file_item) jsmap" and items
  proof -
    have ok: "map_ok (map_set_all fi_id id items m)" using that(1) by simp
    have "fi_id f = i" if "(i, f) \<in> set (map_set_all fi_id id items m)" for i f
    proof -
      have "map_get (map_set_all fi_id id items m) i = Some f" using ok that by (rule map_mem_get)
      from map_get_set_all_mem [OF this] show ?thesis using \<open>\<forall>(i, f) \<in> set m. fi_id f = i\<close> by (auto dest: map_of_SomeD)
    qed
    with ok show ?thesis by auto
  qed
  show "files_keyed (store_uploads items p s)" and "files_keyed (store_folder b r s)"
    using assms all [of "fs_files s"] unfolding files_keyed_def store_uploads_def store_folder_def Let_def by simp_all
  show "files_keyed (rename_locally i k n s)"
  proof (cases "map_get (fs_files s) i")
    case None
    with assms show ?thesis by (auto simp: rename_locally_def files_keyed_def split: item_kind.split option.split)
  next
    case (Some f)
    then have "fi_id f = i" by (rule files_keyed_get [OF assms])
    then have "files_keyed (s\<lparr>fs_files := map_set i (f\<lparr>fi_name := n\<rparr>) (fs_files s)\<rparr>)"
      using assms all [of "fs_files s" "[f\<lparr>fi_name := n\<rparr>]"] by (simp add: files_keyed_def)
    with Some assms show ?thesis by (auto simp: rename_locally_def files_keyed_def split: item_kind.split option.split)
  qed
  have "set (map_del i (fs_files s)) \<subseteq> set (fs_files s)" for i by (auto simp: AList.delete_eq)
  then show "files_keyed (delete_one it s)"
    using assms unfolding files_keyed_def delete_one_def by (cases "snd it") fastforce+
qed

section \<open>Properties\<close>

text \<open>
  C22: the search index is complete: a build that is neither deferred nor disturbed ends complete exactly when
  the content of every new text file could be fetched; then every text file of the store has an
  entry, a new one holding for each of the file's chunks its identifier and the piece of the
  file's text it stands for, old entries are as they were, and nothing is left to index. If a
  content is missing the build ends in an error that names a file without content.
\<close>

theorem index_build_complete:
  assumes "files_keyed s" and "hydrationStatus s = Hydrated" and "indexingStatus s \<noteq> IdxInProgress"
    and "buildGlobalSearchIndex content id s = (s', again)"
  shows "(indexingStatus s' = IdxComplete \<longleftrightarrow> (\<forall>f \<in> set (files_to_index s). content (fi_id f) \<noteq> None))
    \<and> (indexingStatus s' = IdxComplete \<longrightarrow> \<not> again \<and> \<not> isIndexStale s' \<and> files_to_index s' = []
        \<and> (\<forall>f \<in> set (map_values (fs_files s)). is_text_file f \<longrightarrow>
             map_get (searchableChunks s') (fi_id f) =
               (case map_get (searchableChunks s) (fi_id f) of Some e \<Rightarrow> Some e | None \<Rightarrow> Some (index_entry content f))))
    \<and> (indexingStatus s' \<noteq> IdxComplete \<longrightarrow> indexingStatus s' = IdxError
        \<and> (\<exists>f \<in> set (files_to_index s). content (fi_id f) = None
            \<and> indexingError s' = Some (missing_content (fi_id f))))"
proof -
  let ?fs = "files_to_index s"
  let ?s1 = "s\<lparr>indexingStatus := IdxInProgress, isIndexStale := False, indexingError := None,
      filesNeedingEmbeddings := remdups (map fi_id (filter (\<lambda>f. \<not> fileHasValidEmbeddings f) ?fs))\<rparr>"
  have ok: "indexable ?fs ?s1" using files_to_index_ok [OF assms(1)] by (simp add: indexable_def)
  have run: "(if ?fs = [] then (None, ?s1) else (case index_batches content ?fs ?s1 of (e, s) \<Rightarrow> (e, id s)))
      = index_batches content ?fs ?s1"
    by (simp add: index_batches.simps [of content "[]"] split: prod.split)
  obtain e s2 where b: "index_batches content ?fs ?s1 = (e, s2)" by (cases "index_batches content ?fs ?s1")
  have res: "s' = (case e of Some msg \<Rightarrow> s2\<lparr>indexingError := Some msg\<rparr> | None \<Rightarrow> s2)
      \<lparr>indexingStatus := (if e = None then IdxComplete else IdxError), indexingProgress := None\<rparr>"
    "again \<longleftrightarrow> e = None \<and> isIndexStale s'"
    using assms(2-4) unfolding buildGlobalSearchIndex_def Let_def unfolding run unfolding b by auto
  show ?thesis
  proof (cases "\<forall>f \<in> set ?fs. content (fi_id f) \<noteq> None")
    case True
    with index_batches_all [OF ok] b have e: "e = None" and s2: "s2 = index_all content ?fs ?s1" by simp_all
    have chunks: "searchableChunks s' = map_set_all fi_id (index_entry content) ?fs (searchableChunks s)"
      and files: "fs_files s' = fs_files s" and stale: "\<not> isIndexStale s'" and st: "indexingStatus s' = IdxComplete"
      using res(1) e s2 by (simp_all add: index_all_def)
    have inj: "inj_on fi_id (set ?fs)" using ok by (simp add: indexable_def distinct_map)
    have entry: "map_get (searchableChunks s') (fi_id f) =
        (case map_get (searchableChunks s) (fi_id f) of Some e \<Rightarrow> Some e | None \<Rightarrow> Some (index_entry content f))"
      if f: "f \<in> set (map_values (fs_files s))" "is_text_file f" for f
    proof (cases "map_get (searchableChunks s) (fi_id f)")
      case None
      then have "f \<in> set ?fs" using f by (auto simp: files_to_index_def map_has_def)
      then show ?thesis using None by (simp add: chunks map_get_set_all_in [OF _ inj])
    next
      case (Some e)
      then have "fi_id f \<notin> fi_id ` set ?fs" using ok by (auto simp: indexable_def map_has_def)
      then show ?thesis using Some by (simp add: chunks map_get_set_all_other)
    qed
    then have "files_to_index s' = []"
      unfolding files_to_index_def files by (fastforce simp: filter_empty_conv map_has_def split: option.split)
    with entry True st stale res(2) show ?thesis by auto
  next
    case False
    then obtain f where f: "f \<in> set ?fs" "content (fi_id f) = None" "e = Some (missing_content (fi_id f))"
      using index_batches_error [OF ok, of content] b by fastforce
    then have "indexingStatus s' = IdxError" and "indexingError s' = Some (missing_content (fi_id f))"
      using res(1) by simp_all
    with False f show ?thesis by auto
  qed
qed

definition example_file :: file_item where
  "example_file = \<lparr>fi_id = ''5'', fi_name = ''a.txt'', fi_size = 2, fi_uploadedAt = 0, fi_mimeType = ''text/plain'',
     fi_parentId = ''2'', fi_chunks = [\<lparr>k_chunk_index = 0, k_start_char = 0, k_end_char = 2, k_embedding = []\<rparr>]\<rparr>"

definition example_files :: file_state where
  "example_files = initialFileState\<lparr>fs_files := [(''5'', example_file)], fs_folders := [(''2'', \<lparr>fo_id = ''2'', fo_name = ''d'', fo_parentId = Some ''1''\<rparr>)],
     folderContents := [(''1'', \<lparr>fc_folders = [''2''], fc_files = []\<rparr>), (''2'', \<lparr>fc_folders = [], fc_files = [''5'']\<rparr>)],
     rootFolderId := Some ''1'', currentFolderId := Some ''1'', fs_history := [(''1'', ''Home'')], hydrationStatus := Hydrated\<rparr>"

lemma example_files_simps [simp]:
  "fs_files example_files = [(''5'', example_file)]" "hydrationStatus example_files = Hydrated" "indexingStatus example_files = IdxIdle"
  "searchableChunks example_files = []" "rootFolderId example_files = Some ''1''" "isIndexStale example_files = False"
  "fi_id example_file = ''5''" "files_keyed example_files" "is_text_file example_file" "fi_parentId example_file = ''2''"
  by (simp_all add: example_files_def example_file_def initialFileState_def files_keyed_def is_text_file_def isTextMimeType_def)

lemma index_build_complete_witness:
  "\<exists>s' again. buildGlobalSearchIndex (\<lambda>_. Some []) id example_files = (s', again) \<and> indexingStatus s' = IdxComplete"
proof -
  obtain s' again where r: "buildGlobalSearchIndex (\<lambda>_. Some []) id example_files = (s', again)"
    by (cases "buildGlobalSearchIndex (\<lambda>_. Some []) id example_files")
  with index_build_complete [OF _ _ _ r] show ?thesis by auto
qed

text \<open>
  Fetching a second folder blocks the store. Once the root is known, a successful fetch stores the
  folder's content but leaves the store marked as hydrating; from then on every fetch returns
  without doing anything and every build of the search index is put off.
\<close>

theorem later_fetch_blocks_store:
  assumes "has_session auth" and "rootFolderId s \<noteq> None" and "hydrationStatus s \<noteq> Hydrating"
    and "s' = fetchFolderContents auth f (Inr r) id s"
  shows "map_get (folderContents s') (fa_folderId r) = Some \<lparr>fc_folders = map fo_id (fa_folders r), fc_files = map fi_id (fa_files r)\<rparr>
    \<and> hydrationStatus s' = Hydrating
    \<and> (\<forall>auth' f' answer other. has_session auth' \<longrightarrow> fetchFolderContents auth' f' answer other s' = s')
    \<and> (\<forall>content other. buildGlobalSearchIndex content other s' = (s', False))"
proof -
  let ?s = "s\<lparr>fs_status := FsLoading, fs_error := None, hydrationStatus := Hydrating\<rparr>"
  have s': "s' = store_folder False r ?s"
    using assms by (auto simp: fetchFolderContents_def fetch_folder_call_def fetch_folder_answer_def Let_def)
  then have "hydrationStatus s' = Hydrating" and "map_get (folderContents s') (fa_folderId r)
      = Some \<lparr>fc_folders = map fo_id (fa_folders r), fc_files = map fi_id (fa_files r)\<rparr>"
    by (simp_all add: store_folder_def Let_def)
  then show ?thesis by (simp add: fetchFolderContents_def fetch_folder_call_def buildGlobalSearchIndex_def)
qed

lemma later_fetch_blocks_store_witness:
  "buildGlobalSearchIndex (\<lambda>_. None) id (fetchFolderContents example_auth (Some ''2'')
      (Inr \<lparr>fa_folderId = ''2'', fa_parentFolderId = Some ''1'', fa_folderName = ''d'', fa_folders = [], fa_files = [example_file]\<rparr>) id example_files)
   = (fetchFolderContents example_auth (Some ''2'')
      (Inr \<lparr>fa_folderId = ''2'', fa_parentFolderId = Some ''1'', fa_folderName = ''d'', fa_folders = [], fa_files = [example_file]\<rparr>) id example_files, False)"
proof -
  have "has_session example_auth" using example_auth_open(3) by (simp add: has_session_def session_ready_def)
  then show ?thesis using later_fetch_blocks_store [OF _ _ _ refl, of example_auth example_files "Some ''2''"] by simp
qed

lemma fold_delete:
  "map_get (fs_files (fold delete_one its s)) i = (if (i, FileKind) \<in> set its then None else map_get (fs_files s) i)
   \<and> map_get (searchableChunks (fold delete_one its s)) i = (if (i, FileKind) \<in> set its then None else map_get (searchableChunks s) i)
   \<and> map_get (fs_folders (fold delete_one its s)) i = (if (i, FolderKind) \<in> set its then None else map_get (fs_folders s) i)"
proof (induction its arbitrary: s)
  case (Cons it its)
  obtain j k where "it = (j, k)" by (cases it)
  then show ?case using Cons.IH [of "delete_one it s"] by (cases k) (auto simp: delete_one_def)
qed simp

text \<open>
  A deleted file leaves no trace: when the canister has deleted the items, the deleted files are gone
  from the store and from the search index, which counts as stale if it held one of them, and the
  deleted items from the listing of their folder. Nothing else changes, and that includes the
  files and folders inside a deleted folder: they stay in the store and in the search index.
\<close>

theorem deleteItems_removes:
  assumes "has_session auth" and "its \<noteq> []" and "deleteItems auth its (Inr ()) id s = (s', refetch)"
  shows "refetch = item_parent s (hd its)
    \<and> (\<forall>i. map_get (fs_files s') i = (if (i, FileKind) \<in> set its then None else map_get (fs_files s) i)
         \<and> map_get (searchableChunks s') i = (if (i, FileKind) \<in> set its then None else map_get (searchableChunks s) i)
         \<and> map_get (fs_folders s') i = (if (i, FolderKind) \<in> set its then None else map_get (fs_folders s) i))
    \<and> (isIndexStale s' \<longleftrightarrow> isIndexStale s \<or> (\<exists>i. (i, FileKind) \<in> set its \<and> map_get (searchableChunks s) i \<noteq> None))
    \<and> (\<forall>p c. refetch = Some p \<longrightarrow> map_get (folderContents s) p = Some c \<longrightarrow>
         (\<exists>c'. map_get (folderContents s') p = Some c' \<and> set (fc_files c') = {i \<in> set (fc_files c). (i, FileKind) \<notin> set its}
            \<and> set (fc_folders c') = {i \<in> set (fc_folders c). (i, FolderKind) \<notin> set its}))"
proof -
  let ?s = "s\<lparr>fs_status := FsLoading, fs_error := None\<rparr>"
  let ?p = "item_parent s (hd its)"
  have r: "refetch = ?p" "s' = delete_locally its ?p ?s"
    using assms by (auto simp: deleteItems_def Let_def)
  have del: "fs_files s' = fs_files (fold delete_one its ?s)" "searchableChunks s' = searchableChunks (fold delete_one its ?s)"
    "fs_folders s' = fs_folders (fold delete_one its ?s)"
    by (simp_all add: r(2) delete_locally_def Let_def split: option.split)
  have stale: "isIndexStale s' \<longleftrightarrow> isIndexStale s \<or> (\<exists>i. (i, FileKind) \<in> set its \<and> map_get (searchableChunks s) i \<noteq> None)"
    unfolding r(2) delete_locally_def Let_def by (auto simp: list_ex_iff map_has_def split: option.split)
  have "\<exists>c'. map_get (folderContents s') p = Some c' \<and> set (fc_files c') = {i \<in> set (fc_files c). (i, FileKind) \<notin> set its}
      \<and> set (fc_folders c') = {i \<in> set (fc_folders c). (i, FolderKind) \<notin> set its}"
    if "refetch = Some p" "map_get (folderContents s) p = Some c" for p c
    using that r by (auto simp: delete_locally_def Let_def)
  then show ?thesis using r(1) stale fold_delete [of its ?s] unfolding del by simp
qed

lemma deleteItems_removes_witness:
  "map_get (fs_files (fst (deleteItems example_auth [(''2'', FolderKind)] (Inr ()) id example_files))) ''5'' = Some example_file"
proof -
  have "has_session example_auth" using example_auth_open(3) by (simp add: has_session_def session_ready_def)
  then show ?thesis
    using deleteItems_removes [of example_auth "[(''2'', FolderKind)]" example_files]
    by (cases "deleteItems example_auth [(''2'', FolderKind)] (Inr ()) id example_files") simp
qed

text \<open>How the entries of a path hang together: each is what \<open>step_up\<close> says, with the entry before it as parent.\<close>

definition path_ok :: "(folder_id, folder) jsmap \<Rightarrow> (folder_id \<Rightarrow> string + folder_answer) \<Rightarrow> (folder_id \<times> string) list \<Rightarrow> bool" where
  "path_ok known fetch h \<longleftrightarrow>
     (\<forall>j < length h. step_up known fetch (fst (h ! j)) = Inr (snd (h ! j), if j = 0 then None else Some (fst (h ! (j - 1)))))"

lemma path_ok_snoc:
  assumes "path_ok known fetch h" and "step_up known fetch t = Inr (n, if h = [] then None else Some (fst (last h)))"
  shows "path_ok known fetch (h @ [(t, n)])"
  using assms by (auto simp: path_ok_def nth_append less_Suc_eq last_conv_nth)

lemma path_to_root_ends:
  assumes "\<And>i. \<exists>n p. step_up known fetch i = Inr (n, p)" and "\<And>i n p. step_up known fetch i = Inr (n, Some p) \<Longrightarrow> rank p < (rank i :: nat)"
    and "rank t < fuel"
  shows "\<exists>h. path_to_root fuel known fetch (Some t) acc = Some (Inr (h @ acc)) \<and> h \<noteq> [] \<and> fst (last h) = t \<and> path_ok known fetch h
    \<and> length h \<le> rank t + 1"
  using assms(3)
proof (induction fuel arbitrary: t acc)
  case (Suc fuel)
  obtain n p where step: "step_up known fetch t = Inr (n, p)" using assms(1) by blast
  show ?case
  proof (cases p)
    case None
    have "path_ok known fetch ([] @ [(t, n)])" using step None by (intro path_ok_snoc) (simp_all add: path_ok_def)
    then show ?thesis using step None by (intro exI [of _ "[(t, n)]"]) simp
  next
    case (Some q)
    have rk: "rank q < rank t" using assms(2) step Some by blast
    then obtain h where h: "path_to_root fuel known fetch (Some q) ((t, n) # acc) = Some (Inr (h @ (t, n) # acc))" "h \<noteq> []"
      "fst (last h) = q" "path_ok known fetch h" "length h \<le> rank q + 1"
      using Suc.IH [of q "(t, n) # acc"] Suc.prems by auto
    have "path_ok known fetch (h @ [(t, n)])" using h step Some by (intro path_ok_snoc) simp_all
    then show ?thesis using step Some h rk by (intro exI [of _ "h @ [(t, n)]"]) simp
  qed
qed simp

text \<open>
  Navigating to a path ends with the way from the root: when every folder on the way can be read and
  parents do not form a cycle (each is of lower rank than its child), the walk ends after at most
  as many steps as the rank of the target and one, and the history is the chain of folders from
  one without a parent down to the target, each with its name and each the parent of the next.
\<close>

theorem navigateToPath_history:
  assumes "has_session auth" and "fs_status s \<noteq> FsLoading" and "rootFolderId s \<noteq> None"
    and "\<And>i. \<exists>n p. step_up (fs_folders s) fetch i = Inr (n, p)"
    and "\<And>i n p. step_up (fs_folders s) fetch i = Inr (n, Some p) \<Longrightarrow> rank p < (rank i :: nat)"
    and "rank (target_folder item) < fuel"
  shows "\<exists>s' h. navigateToPath fuel auth (Inr item) fetch id auth' again id s = Some s' \<and> fs_history s' = h
    \<and> h \<noteq> [] \<and> fst (last h) = target_folder item \<and> path_ok (fs_folders s) fetch h \<and> length h \<le> rank (target_folder item) + 1"
proof -
  obtain h where h: "path_to_root fuel (fs_folders s) fetch (Some (target_folder item)) [] = Some (Inr h)" "h \<noteq> []"
    "fst (last h) = target_folder item" "path_ok (fs_folders s) fetch h" "length h \<le> rank (target_folder item) + 1"
    using path_to_root_ends [of "fs_folders s" fetch rank "target_folder item" fuel "[]"] assms(4-6) by auto
  let ?s = "s\<lparr>fs_status := FsLoading, fs_error := None, fs_history := h\<rparr>"
  have keep: "fs_history (fetchFolderContents auth' f ans id ?s) = h" for f ans
    using assms(3) h(2)
    by (auto simp: fetchFolderContents_def fetch_folder_call_def fetch_folder_answer_def store_folder_def Let_def split: sum.split)
  have "navigateToPath fuel auth (Inr item) fetch id auth' again id s
      = Some (fetchFolderContents auth' (Some (target_folder item)) (again (Some (target_folder item))) id ?s)"
    using assms(1,2) h(1) by (simp add: navigateToPath_def Let_def)
  then show ?thesis using keep h(2-5) by blast
qed

lemma navigateToPath_history_witness:
  "\<exists>s' h. navigateToPath 3 example_auth (Inr (PathFolder ''2'')) (\<lambda>_. Inr \<lparr>fa_folderId = ''1'', fa_parentFolderId = None,
      fa_folderName = ''Home'', fa_folders = [], fa_files = []\<rparr>) id example_auth (\<lambda>_. Inl ''x'') id example_files = Some s'
    \<and> fs_history s' = h \<and> fst (last h) = ''2''"
proof -
  let ?fetch = "\<lambda>_ :: folder_id. Inr \<lparr>fa_folderId = ''1'', fa_parentFolderId = None, fa_folderName = ''Home'', fa_folders = [], fa_files = []\<rparr> :: string + folder_answer"
  have "has_session example_auth" using example_auth_open(3) by (simp add: has_session_def session_ready_def)
  moreover have "fs_status example_files \<noteq> FsLoading" by (simp add: example_files_def initialFileState_def)
  moreover have "\<exists>n p. step_up (fs_folders example_files) ?fetch i = Inr (n, p)" for i
    by (simp add: example_files_def initialFileState_def step_up_def answer_parent_def split: option.split)
  moreover have "(if p = ''2'' then 1 else 0) < (if i = ''2'' then 1 else (0 :: nat))"
    if "step_up (fs_folders example_files) ?fetch i = Inr (n, Some p)" for i n p
    using that by (auto simp: example_files_def initialFileState_def step_up_def answer_parent_def split: if_splits)
  ultimately show ?thesis
    using navigateToPath_history [of example_auth example_files ?fetch "\<lambda>i. if i = ''2'' then 1 else 0" "PathFolder ''2''" 3]
    by (simp add: target_folder_def) blast
qed

end
