(* ===== verification/Upload_Jobs.thy ===== *)
theory Upload_Jobs
  imports File_Store Chunking
begin

text \<open>
  The upload queue of the file store (\<open>src/gpt_frontend/src/store/fileStore/actions/write.ts\<close>, from
  \<open>addFileJob\<close> on) and the pipeline of one file (\<open>services/fileProcessingService.ts\<close>). The files
  waiting are kept outside the store (\<open>fileBlobStore\<close>), so an operation works on a pair. Rendering
  a PDF, reading its pages (OCR) and uploading are arguments.
\<close>

section \<open>The pipeline of one file\<close>

text \<open>\<open>retryAsync\<close>: the \<open>i\<close>-th attempt is \<open>fn i\<close>; the delays before the next attempts are in the result.\<close>

fun retry_loop :: "nat \<Rightarrow> nat \<Rightarrow> nat \<Rightarrow> (nat \<Rightarrow> string + 'a) \<Rightarrow> nat list \<times> (string + 'a)" where
  "retry_loop i 0 delay fn = ([], fn i)"
| "retry_loop i (Suc left) delay fn =
     (case fn i of
        Inr x \<Rightarrow> ([], Inr x)
      | Inl _ \<Rightarrow> (let (ds, r) = retry_loop (Suc i) left delay fn in (delay * 2 ^ i # ds, r)))"

definition retryAsync :: "nat \<Rightarrow> nat \<Rightarrow> (nat \<Rightarrow> string + 'a) \<Rightarrow> nat list \<times> (string + 'a)" where
  "retryAsync retries delay fn = retry_loop 0 retries delay fn"

record job_update =
  ju_status :: "upload_status option"
  ju_subStatus :: "string option"
  ju_progress :: "rat option"
  ju_error :: "string option"

definition status_update :: "upload_status \<Rightarrow> string \<Rightarrow> job_update" where
  "status_update st sub = \<lparr>ju_status = Some st, ju_subStatus = Some sub, ju_progress = None, ju_error = None\<rparr>"

definition progress_update :: "rat \<Rightarrow> string \<Rightarrow> job_update" where
  "progress_update p sub = \<lparr>ju_status = None, ju_subStatus = Some sub, ju_progress = Some p, ju_error = None\<rparr>"

definition full_update :: "upload_status \<Rightarrow> string \<Rightarrow> rat \<Rightarrow> job_update" where
  "full_update st sub p = \<lparr>ju_status = Some st, ju_subStatus = Some sub, ju_progress = Some p, ju_error = None\<rparr>"

definition error_update :: "string \<Rightarrow> job_update" where
  "error_update e =
     \<lparr>ju_status = Some Errored, ju_subStatus = None, ju_progress = None,
      ju_error = Some (if e \<noteq> [] then e else ''An unknown error occurred during processing'')\<rparr>"

text \<open>What the pipeline does, in order: updates of its job and the upload.\<close>

datatype job_event = JobUpdate job_update | JobUpload "(js_file \<times> text_chunk list option) list"

text \<open>
  What it gets from outside: the rendered pages of a PDF with their announced number and the error
  that ended the rendering, if any; the answers of the OCR model for a batch, by attempt; the
  text of a file; the clock; the outcome of the upload. The chunking loop makes at most one round
  per character, so the length of the text is fuel enough.
\<close>

record upload_env =
  ue_pages :: "js_file \<Rightarrow> js_file list \<times> nat \<times> string option"
  ue_ocr :: "js_file list \<Rightarrow> nat \<Rightarrow> string + string"
  ue_text :: "js_file \<Rightarrow> string + string"
  ue_now :: nat
  ue_upload :: "(js_file \<times> text_chunk list option) list \<Rightarrow> string + unit"

record process_options =
  po_file :: js_file
  po_fileName :: string
  po_fileType :: upload_file_type
  po_modelId :: "string option"
  po_chunks :: "text_chunk list option"
  po_existingFileNames :: "string list"

function batches_of :: "nat \<Rightarrow> 'a list \<Rightarrow> 'a list list" where
  "batches_of n xs = (if xs = [] \<or> n = 0 then [] else take n xs # batches_of n (drop n xs))"
  by pat_completeness auto
termination
  by (relation "measure (\<lambda>(_, xs). length xs)") auto

declare batches_of.simps [simp del]

definition OCR_BATCH_SIZE :: nat where
  "OCR_BATCH_SIZE = 3"

definition MAX_OCR_RETRIES :: nat where
  "MAX_OCR_RETRIES = 2"

definition page_updates :: "nat \<Rightarrow> nat \<Rightarrow> job_event list" where
  "page_updates pages totalPages =
     map (\<lambda>i. JobUpdate (progress_update (of_nat i / of_nat totalPages * 45)
                 (''Converting page '' @ show_nat i @ '' of '' @ show_nat totalPages))) [1..<Suc pages]"

definition batch_updates :: "nat \<Rightarrow> job_event list" where
  "batch_updates totalBatches =
     map (\<lambda>i. JobUpdate (progress_update (45 + of_nat i / of_nat totalBatches * 45)
                 (''Extracted '' @ show_nat i @ ''/'' @ show_nat totalBatches @ '' batches...''))) [1..<Suc totalBatches]"

text \<open>The texts of the batches that succeeded with something to say, in page order.\<close>

definition ocr_texts :: "upload_env \<Rightarrow> js_file list list \<Rightarrow> string list" where
  "ocr_texts ue batches =
     concat (map (\<lambda>b. case snd (retryAsync MAX_OCR_RETRIES 2000 (ue_ocr ue b)) of
                        Inr t \<Rightarrow> if trim t \<noteq> [] then [t] else [] | Inl _ \<Rightarrow> []) batches)"

text \<open>\<open>fileName.replace(/\.pdf$/i, "")\<close>\<close>

definition strip_pdf :: "string \<Rightarrow> string" where
  "strip_pdf n = (if suffix ''.pdf'' (to_lower n) then take (length n - 4) n else n)"

definition markdown_file :: "nat \<Rightarrow> string \<Rightarrow> string \<Rightarrow> js_file" where
  "markdown_file now name body =
     \<lparr>f_name = name, f_size = length (utf8_encode body), f_type = ''text/markdown'', f_lastModified = now,
      f_bytes = utf8_encode body\<rparr>"

text \<open>An upload is the last step: the end of the pipeline depends on its outcome.\<close>

definition finish_upload :: "upload_env \<Rightarrow> (js_file \<times> text_chunk list option) list \<Rightarrow> job_event list" where
  "finish_upload ue files =
     (case ue_upload ue files of
        Inr _ \<Rightarrow> [JobUpload files, JobUpdate (full_update Complete ''Done!'' 100)]
      | Inl e \<Rightarrow> [JobUpload files, JobUpdate (error_update e)])"

definition process_pdf :: "upload_env \<Rightarrow> process_options \<Rightarrow> job_event list" where
  "process_pdf ue op =
     (if \<not> truthy_str (po_modelId op) then [JobUpdate (error_update ''Missing modelId for PDF processing.'')]
      else
        let (pages, totalPages, failure) = ue_pages ue (po_file op);
            converting = JobUpdate (status_update Converting ''Preparing PDF...'') # page_updates (length pages) totalPages
        in case failure of
             Some e \<Rightarrow> converting @ [JobUpdate (error_update e)]
           | None \<Rightarrow>
               let pageBatches = batches_of OCR_BATCH_SIZE pages;
                   extracting = JobUpdate (status_update Extracting
                                   (''Extracting text from '' @ show_nat (length pages) @ '' pages...''))
                                # batch_updates (length pageBatches);
                   successfulResults = ocr_texts ue pageBatches
               in if length successfulResults = 0
                  then converting @ extracting @ [JobUpdate (error_update ''OCR extraction failed for all pages.'')]
                  else
                    let allMarkdown = join (replicate 2 (CHR 0x0A)) successfulResults;
                        finalFileName = getUniqueFileName (strip_pdf (po_fileName op) @ ''.md'') (po_existingFileNames op);
                        markdownFile = markdown_file (ue_now ue) finalFileName allMarkdown
                    in converting @ extracting
                       @ [JobUpdate (full_update Chunking ''Creating text chunks...'' 90),
                          JobUpdate (full_update Uploading ''Uploading processed file...'' 95)]
                       @ finish_upload ue [(markdownFile, createChunks (length allMarkdown) allMarkdown)])"

definition process_text :: "upload_env \<Rightarrow> process_options \<Rightarrow> job_event list" where
  "process_text ue op =
     (case po_chunks op of
        None \<Rightarrow>
          JobUpdate (full_update Chunking ''Creating text chunks...'' 30)
          # (case ue_text ue (po_file op) of
               Inl e \<Rightarrow> [JobUpdate (error_update e)]
             | Inr fileContent \<Rightarrow>
                 JobUpdate (full_update Uploading ''Uploading...'' 90)
                 # finish_upload ue [(po_file op, createChunks (length fileContent) fileContent)])
      | Some chunks \<Rightarrow>
          JobUpdate (full_update Uploading ''Uploading...'' 90) # finish_upload ue [(po_file op, Some chunks)])"

definition processFile :: "upload_env \<Rightarrow> process_options \<Rightarrow> job_event list" where
  "processFile ue op =
     (if po_fileType op = Pdf then process_pdf ue op
      else if po_fileType op = MarkdownFile \<or> isTextMimeType (f_type (po_file op)) (po_fileName op) then process_text ue op
      else JobUpdate (full_update Uploading ''Uploading...'' 50) # finish_upload ue [(po_file op, None)])"

section \<open>The queue\<close>

type_synonym queue_state = "file_state \<times> (string, js_file) jsmap"

definition set_job :: "string \<Rightarrow> (upload_job \<Rightarrow> upload_job) \<Rightarrow> file_state \<Rightarrow> file_state" where
  "set_job jobId f state =
     (case map_get (fileProcessingJobs state) jobId of
        None \<Rightarrow> state
      | Some job \<Rightarrow> state\<lparr>fileProcessingJobs := map_set jobId (f job) (fileProcessingJobs state)\<rparr>)"

definition file_type_of :: "js_file \<Rightarrow> upload_file_type" where
  "file_type_of file =
     (if f_type file = ''application/pdf'' then Pdf
      else if isTextMimeType (f_type file) (f_name file) then MarkdownFile
      else if prefix ''image/'' (f_type file) then Image else Other)"

text \<open>\<open>random\<close> is the random end of the job's identifier.\<close>

definition addFileJob ::
  "nat \<Rightarrow> string \<Rightarrow> js_file \<Rightarrow> string \<Rightarrow> string option \<Rightarrow> text_chunk list option \<Rightarrow> queue_state \<Rightarrow> queue_state" where
  "addFileJob now random file uiId modelId chunks st =
     (let jobId = f_name file @ ''-'' @ show_nat (f_size file) @ ''-'' @ show_nat now @ ''-'' @ random;
          newJob = \<lparr>uj_id = jobId, uj_uiId = uiId, uj_fileName = f_name file, uj_fileType = file_type_of file,
                    uj_status = Queued, uj_subStatus = ''Waiting in queue...'', uj_progress = 0, uj_error = None,
                    uj_modelId = modelId, uj_retries = 0, uj_chunks = chunks\<rparr>
      in ((fst st)\<lparr>fileProcessingJobs := map_set jobId newJob (fileProcessingJobs (fst st))\<rparr>, map_set jobId file (snd st)))"

definition is_finished :: "upload_job \<Rightarrow> bool" where
  "is_finished job \<longleftrightarrow> uj_status job = Complete \<or> uj_status job = Errored"

definition dismissJob :: "string \<Rightarrow> queue_state \<Rightarrow> queue_state" where
  "dismissJob jobId st =
     (case map_get (fileProcessingJobs (fst st)) jobId of
        Some job \<Rightarrow>
          if is_finished job
          then ((fst st)\<lparr>fileProcessingJobs := map_del jobId (fileProcessingJobs (fst st))\<rparr>, map_del jobId (snd st))
          else st
      | None \<Rightarrow> st)"

definition CONCURRENCY_LIMIT :: nat where
  "CONCURRENCY_LIMIT = 3"

text \<open>The statuses \<open>_manageJobQueue\<close> counts as running.\<close>

definition counts_active :: "upload_job \<Rightarrow> bool" where
  "counts_active job \<longleftrightarrow> uj_status job \<in> {Embedding, Converting, Extracting, Uploading}"

definition manageJobQueue :: "file_state \<Rightarrow> string list" where
  "manageJobQueue state =
     (let jobs = map_values (fileProcessingJobs state);
          activeCount = length (filter counts_active jobs);
          slotsAvailable = int CONCURRENCY_LIMIT - int activeCount
      in if slotsAvailable > 0
         then map uj_id (take (nat slotsAvailable) (filter (\<lambda>j. uj_status j = Queued) jobs)) else [])"

text \<open>The first update of \<open>_executeJob\<close>.\<close>

definition start_job :: "string \<Rightarrow> file_state \<Rightarrow> file_state" where
  "start_job jobId state = set_job jobId (\<lambda>job. job\<lparr>uj_status := Converting, uj_subStatus := ''Starting...''\<rparr>) state"

definition names_in :: "file_state \<Rightarrow> folder_id \<Rightarrow> string list" where
  "names_in state p =
     (case map_get (folderContents state) p of
        None \<Rightarrow> []
      | Some c \<Rightarrow>
          filter (\<lambda>n. n \<noteq> [])
            (concat (map (\<lambda>i. case map_get (fs_files state) i of Some f \<Rightarrow> [fi_name f] | None \<Rightarrow> []) (fc_files c))
             @ concat (map (\<lambda>i. case map_get (fs_folders state) i of Some f \<Rightarrow> [fo_name f] | None \<Rightarrow> []) (fc_folders c))))"

text \<open>What \<open>_executeJob\<close> hands to the pipeline, or the error before it; and the folder.\<close>

definition job_options :: "string \<Rightarrow> queue_state \<Rightarrow> string + (process_options \<times> folder_id)" where
  "job_options jobId st =
     (case map_get (fileProcessingJobs (fst st)) jobId of
        None \<Rightarrow> Inl (''Job '' @ jobId @ '' not found in state.'')
      | Some job \<Rightarrow>
          (case map_get (snd st) jobId of
             None \<Rightarrow> Inl (''File blob for job '' @ jobId @ '' not found.'')
           | Some file \<Rightarrow>
               (case currentFolderId (fst st) of
                  None \<Rightarrow> Inl ''No active folder to upload to.''
                | Some p \<Rightarrow>
                    Inr (\<lparr>po_file = file, po_fileName = uj_fileName job, po_fileType = uj_fileType job,
                          po_modelId = uj_modelId job, po_chunks = uj_chunks job,
                          po_existingFileNames = names_in (fst st) p\<rparr>, p))))"

definition apply_update :: "job_update \<Rightarrow> upload_job \<Rightarrow> upload_job" where
  "apply_update u job =
     job\<lparr>uj_status := (case ju_status u of Some s \<Rightarrow> s | None \<Rightarrow> uj_status job),
         uj_subStatus := (case ju_subStatus u of Some s \<Rightarrow> s | None \<Rightarrow> uj_subStatus job),
         uj_progress := (case ju_progress u of Some p \<Rightarrow> p | None \<Rightarrow> uj_progress job),
         uj_error := (case ju_error u of Some e \<Rightarrow> Some e | None \<Rightarrow> uj_error job)\<rparr>"

text \<open>One event of the pipeline on the store; \<open>uploaded\<close> is what \<open>uploadFiles\<close> does to it.\<close>

definition job_step ::
  "((js_file \<times> text_chunk list option) list \<Rightarrow> file_state \<Rightarrow> file_state) \<Rightarrow> string \<Rightarrow> job_event \<Rightarrow> file_state \<Rightarrow> file_state" where
  "job_step uploaded jobId ev state =
     (case ev of JobUpdate u \<Rightarrow> set_job jobId (apply_update u) state | JobUpload files \<Rightarrow> uploaded files state)"

text \<open>The \<open>finally\<close> block: the file of a finished job is dropped, and the queue is looked at again.\<close>

definition end_job :: "string \<Rightarrow> queue_state \<Rightarrow> queue_state \<times> string list" where
  "end_job jobId st =
     ((fst st,
       case map_get (fileProcessingJobs (fst st)) jobId of
         Some job \<Rightarrow> if is_finished job then map_del jobId (snd st) else snd st | None \<Rightarrow> snd st),
      manageJobQueue (fst st))"

text \<open>A whole job, nothing else happening to the store meanwhile; the result names the jobs started next.\<close>

definition executeJob ::
  "upload_env \<Rightarrow> ((js_file \<times> text_chunk list option) list \<Rightarrow> folder_id \<Rightarrow> file_state \<Rightarrow> file_state) \<Rightarrow> string \<Rightarrow> queue_state
     \<Rightarrow> queue_state \<times> string list" where
  "executeJob ue uploaded jobId st =
     (let st1 = (start_job jobId (fst st), snd st)
      in case job_options jobId st1 of
           Inl e \<Rightarrow> end_job jobId (set_job jobId (\<lambda>job. job\<lparr>uj_status := Errored, uj_error := Some e\<rparr>) (fst st1), snd st1)
         | Inr (op, p) \<Rightarrow>
             end_job jobId (fold (job_step (\<lambda>files. uploaded files p) jobId) (processFile ue op) (fst st1), snd st1))"

section \<open>Lemmas\<close>

lemma map_get_set_job:
  "map_get (fileProcessingJobs (set_job i f s)) j =
     (if j = i then map_option f (map_get (fileProcessingJobs s) i) else map_get (fileProcessingJobs s) j)"
  by (auto simp: set_job_def split: option.split)

text \<open>A pipeline ends in an update that finishes its job.\<close>

definition ends_finished :: "job_event list \<Rightarrow> bool" where
  "ends_finished evs \<longleftrightarrow> (\<exists>pre u. evs = pre @ [JobUpdate u] \<and> (ju_status u = Some Complete \<or> ju_status u = Some Errored)
     \<and> (ju_status u = Some Errored \<longrightarrow> ju_error u \<noteq> None))"

lemma ends_finished_snoc: "ju_status u = Some Complete \<or> ju_status u = Some Errored \<and> ju_error u \<noteq> None \<Longrightarrow> ends_finished (pre @ [JobUpdate u])"
  by (auto simp: ends_finished_def)

lemma ends_finished_append: "ends_finished evs \<Longrightarrow> ends_finished (pre @ evs)"
  unfolding ends_finished_def by (metis append.assoc)

lemma ends_finished_Cons: "ends_finished evs \<Longrightarrow> ends_finished (e # evs)"
  using ends_finished_append [of evs "[e]"] by simp

lemma update_simps [simp]:
  "ju_status (full_update st sub p) = Some st" "ju_status (error_update e) = Some Errored" "ju_error (error_update e) \<noteq> None"
  by (simp_all add: full_update_def error_update_def)

lemma finish_upload_ends: "ends_finished (finish_upload ue files)"
proof (cases "ue_upload ue files")
  case (Inl e)
  then show ?thesis using ends_finished_snoc [of "error_update e" "[JobUpload files]"] by (simp add: finish_upload_def)
next
  case (Inr x)
  then show ?thesis using ends_finished_snoc [of "full_update Complete ''Done!'' 100" "[JobUpload files]"] by (simp add: finish_upload_def)
qed

lemma single_error_ends: "ends_finished [JobUpdate (error_update e)]"
  using ends_finished_snoc [of "error_update e" "[]"] by simp

lemmas ends_finished_intros = ends_finished_append ends_finished_Cons finish_upload_ends single_error_ends

lemma process_pdf_ends: "ends_finished (process_pdf ue op)"
proof -
  obtain pages total failure where "ue_pages ue (po_file op) = (pages, total, failure)" by (cases "ue_pages ue (po_file op)")
  then show ?thesis
    by (cases failure) (auto simp: process_pdf_def Let_def simp del: append_Cons intro!: ends_finished_intros)
qed

lemma processFile_ends: "ends_finished (processFile ue op)"
  unfolding processFile_def process_text_def
  by (auto intro!: ends_finished_intros process_pdf_ends split: option.split sum.split)

lemma createChunks_total: "\<exists>cs. createChunks (length body) body = Some cs"
proof -
  obtain ks where "embed_loop (length body) body 0 0 = Some ks"
    using embed_loop_some [of 0 body "length body" 0] by (auto simp: CHUNK_SIZE_def)
  then show ?thesis by (simp add: createChunks_def chunk_loop_embed)
qed

text \<open>An upload is only announced as complete after it has succeeded.\<close>

definition completes_honestly :: "upload_env \<Rightarrow> job_event list \<Rightarrow> bool" where
  "completes_honestly ue evs \<longleftrightarrow> (\<forall>u. JobUpdate u \<in> set evs \<longrightarrow> ju_status u = Some Complete \<longrightarrow>
     (\<exists>files. JobUpload files \<in> set evs \<and> ue_upload ue files = Inr ()))"

lemma completes_append:
  "\<forall>u. JobUpdate u \<in> set pre \<longrightarrow> ju_status u \<noteq> Some Complete \<Longrightarrow> completes_honestly ue evs \<Longrightarrow> completes_honestly ue (pre @ evs)"
  by (auto simp: completes_honestly_def)

lemma completes_Cons:
  "ju_status u \<noteq> Some Complete \<Longrightarrow> completes_honestly ue evs \<Longrightarrow> completes_honestly ue (JobUpdate u # evs)"
  using completes_append [of "[JobUpdate u]"] by simp

lemma finish_upload_completes: "completes_honestly ue (finish_upload ue files)"
  by (auto simp: completes_honestly_def finish_upload_def split: sum.splits)

lemma single_error_completes: "completes_honestly ue [JobUpdate (error_update e)]"
  by (simp add: completes_honestly_def)

lemma running_updates [simp]:
  "ju_status (progress_update p sub) = None" "ju_status (status_update st sub) = Some st"
  by (simp_all add: progress_update_def status_update_def)

lemma bulk_updates:
  "JobUpdate u \<in> set (page_updates n t) \<Longrightarrow> ju_status u \<noteq> Some Complete"
  "JobUpdate u \<in> set (batch_updates t) \<Longrightarrow> ju_status u \<noteq> Some Complete"
  by (auto simp: page_updates_def batch_updates_def simp del: upt_Suc)

lemma process_pdf_completes: "completes_honestly ue (process_pdf ue op)"
proof -
  obtain pages total failure where p: "ue_pages ue (po_file op) = (pages, total, failure)" by (cases "ue_pages ue (po_file op)")
  let ?conv = "JobUpdate (status_update Converting ''Preparing PDF...'') # page_updates (length pages) total"
  let ?b = "batches_of OCR_BATCH_SIZE pages"
  let ?ext = "JobUpdate (status_update Extracting (''Extracting text from '' @ show_nat (length pages) @ '' pages...'')) # batch_updates (length ?b)"
  have conv: "\<forall>u. JobUpdate u \<in> set ?conv \<longrightarrow> ju_status u \<noteq> Some Complete" using bulk_updates(1) by auto
  have ext: "\<forall>u. JobUpdate u \<in> set ?ext \<longrightarrow> ju_status u \<noteq> Some Complete" using bulk_updates(2) by auto
  have mid: "\<forall>u. JobUpdate u \<in> set [JobUpdate (full_update Chunking ''Creating text chunks...'' 90),
      JobUpdate (full_update Uploading ''Uploading processed file...'' 95)] \<longrightarrow> ju_status u \<noteq> Some Complete" by simp
  show ?thesis
    unfolding process_pdf_def p Let_def prod.case
    by (simp only: split: if_split option.split)
      (intro conjI impI allI completes_append conv ext mid single_error_completes finish_upload_completes)
qed

lemma processFile_completes: "completes_honestly ue (processFile ue op)"
  unfolding processFile_def process_text_def
  by (auto intro!: completes_Cons finish_upload_completes process_pdf_completes single_error_completes split: option.split sum.split)

lemma fold_steps_other:
  assumes "\<And>files s. fileProcessingJobs (uploaded files s) = fileProcessingJobs s" and "j \<noteq> i"
  shows "map_get (fileProcessingJobs (fold (job_step uploaded i) evs s)) j = map_get (fileProcessingJobs s) j"
  using assms(2) by (induction evs arbitrary: s) (auto simp: job_step_def map_get_set_job assms(1) split: job_event.split)

lemma fold_steps_some:
  assumes "\<And>files s. fileProcessingJobs (uploaded files s) = fileProcessingJobs s"
  shows "map_get (fileProcessingJobs (fold (job_step uploaded i) evs s)) i = None \<longleftrightarrow> map_get (fileProcessingJobs s) i = None"
  by (induction evs arbitrary: s) (auto simp: job_step_def map_get_set_job assms split: job_event.split)

text \<open>Jobs are stored under their own identifiers.\<close>

definition jobs_keyed :: "file_state \<Rightarrow> bool" where
  "jobs_keyed s \<longleftrightarrow> map_ok (fileProcessingJobs s) \<and> (\<forall>(i, j) \<in> set (fileProcessingJobs s). uj_id j = i)"

lemma jobs_keyed_get: "jobs_keyed s \<Longrightarrow> map_get (fileProcessingJobs s) i = Some j \<Longrightarrow> uj_id j = i"
  by (auto simp: jobs_keyed_def dest: map_of_SomeD)

lemma map_set_present:
  "map_ok m \<Longrightarrow> map_get m k = Some v \<Longrightarrow> map_set k w m = map (\<lambda>(i, x). (i, if i = k then w else x)) m"
proof (induction m)
  case (Cons e m)
  obtain i x where e: "e = (i, x)" by (cases e)
  show ?case
  proof (cases "i = k")
    case True
    with Cons.prems(1) e have "k \<notin> fst ` set m" by (simp add: map_ok_def)
    then have "map (\<lambda>(i, x). (i, if i = k then w else x)) m = m" by (intro map_idI) (auto simp: image_iff)
    with True e show ?thesis by simp
  next
    case False
    with Cons e show ?thesis by simp
  qed
qed simp

text \<open>Starting a job turns one queued job into one that counts as running.\<close>

lemma active_after_start:
  assumes "jobs_keyed s"
  shows "length (filter counts_active (map_values (fileProcessingJobs (start_job i s))))
       \<le> Suc (length (filter counts_active (map_values (fileProcessingJobs s))))" and "jobs_keyed (start_job i s)"
proof -
  let ?f = "\<lambda>job. job\<lparr>uj_status := Converting, uj_subStatus := ''Starting...''\<rparr>" and ?m = "fileProcessingJobs s"
  have count: "length (filter counts_active (map_values (map (\<lambda>(j, x). (j, if j = i then w else x)) m)))
      \<le> Suc (length (filter counts_active (map_values m)))" if "map_ok m" for m :: "(string, upload_job) jsmap" and w
    using that
  proof (induction m)
    case (Cons e m)
    obtain j x where e: "e = (j, x)" by (cases e)
    have "map (\<lambda>(j, x). (j, if j = i then w else x)) m = m" if "j = i"
      using Cons.prems that e by (intro map_idI) (auto simp: map_ok_def image_iff)
    then show ?case using Cons e by (cases "j = i") auto
  qed simp
  show "length (filter counts_active (map_values (fileProcessingJobs (start_job i s))))
       \<le> Suc (length (filter counts_active (map_values ?m)))"
  proof (cases "map_get ?m i")
    case (Some job)
    then have "fileProcessingJobs (start_job i s) = map (\<lambda>(j, x). (j, if j = i then ?f job else x)) ?m"
      using map_set_present [of ?m i job "?f job"] assms by (simp add: start_job_def set_job_def jobs_keyed_def)
    then show ?thesis using count [of ?m "?f job"] assms by (simp add: jobs_keyed_def)
  qed (simp add: start_job_def set_job_def)
  show "jobs_keyed (start_job i s)"
  proof (cases "map_get ?m i")
    case (Some job)
    then have eq: "fileProcessingJobs (start_job i s) = map (\<lambda>(j, x). (j, if j = i then ?f job else x)) ?m"
      using map_set_present [of ?m i job "?f job"] assms by (simp add: start_job_def set_job_def jobs_keyed_def)
    have "map fst (map (\<lambda>(j, x). (j, if j = i then ?f job else x)) ?m) = map fst ?m" by (simp add: comp_def case_prod_unfold)
    then have "map_ok (fileProcessingJobs (start_job i s))"
      using assms by (simp only: eq map_ok_def jobs_keyed_def)
    moreover have "\<forall>(j, x) \<in> set (fileProcessingJobs (start_job i s)). uj_id x = j"
      using assms jobs_keyed_get [OF assms Some] unfolding eq jobs_keyed_def by auto
    ultimately show ?thesis by (simp add: jobs_keyed_def)
  qed (simp add: start_job_def set_job_def assms)
qed

lemma active_after_starts:
  assumes "jobs_keyed s"
  shows "length (filter counts_active (map_values (fileProcessingJobs (fold start_job js s))))
       \<le> length js + length (filter counts_active (map_values (fileProcessingJobs s)))"
  using assms
proof (induction js arbitrary: s)
  case (Cons i js)
  from Cons.IH [OF active_after_start(2) [OF Cons.prems, of i]] active_after_start(1) [OF Cons.prems, of i] show ?case
    unfolding fold_Cons comp_def list.size by linarith
qed simp

section \<open>Properties\<close>

text \<open>
  C13: every upload job ends. Whatever the rendering, the OCR model, the reader and the upload answer, when a
  job that exists has been executed it is complete or has an error; it is complete only if its
  upload succeeded; the file kept for it is dropped; and no other job has changed.
\<close>

theorem executeJob_finishes:
  assumes "\<And>files p s. fileProcessingJobs (uploaded files p s) = fileProcessingJobs s"
    and "map_get (fileProcessingJobs s) i = Some job" and "executeJob ue uploaded i (s, blobs) = ((s', blobs'), next_jobs)"
  shows "\<exists>job'. map_get (fileProcessingJobs s') i = Some job'
    \<and> (uj_status job' = Complete \<and> (\<exists>files. ue_upload ue files = Inr ())
       \<or> uj_status job' = Errored \<and> uj_error job' \<noteq> None)
    \<and> map_get blobs' i = None \<and> next_jobs = manageJobQueue s'
    \<and> (\<forall>j. j \<noteq> i \<longrightarrow> map_get (fileProcessingJobs s') j = map_get (fileProcessingJobs s) j \<and> map_get blobs' j = map_get blobs j)"
proof -
  let ?s1 = "start_job i s"
  have s1: "\<exists>j1. map_get (fileProcessingJobs ?s1) i = Some j1" and s1': "\<And>j. j \<noteq> i \<Longrightarrow> map_get (fileProcessingJobs ?s1) j = map_get (fileProcessingJobs s) j"
    using assms(2) by (simp_all add: start_job_def map_get_set_job)
  have finish: ?thesis if r: "((s', blobs'), next_jobs) = end_job i (t, blobs)" and t: "map_get (fileProcessingJobs t) i = Some j2"
    and st: "uj_status j2 = Complete \<and> (\<exists>files. ue_upload ue files = Inr ()) \<or> uj_status j2 = Errored \<and> uj_error j2 \<noteq> None"
    and other: "\<And>j. j \<noteq> i \<Longrightarrow> map_get (fileProcessingJobs t) j = map_get (fileProcessingJobs s) j" for t j2
    using r t st other by (auto simp: end_job_def is_finished_def)
  show ?thesis
  proof (cases "job_options i (?s1, blobs)")
    case (Inl e)
    let ?t = "set_job i (\<lambda>job. job\<lparr>uj_status := Errored, uj_error := Some e\<rparr>) ?s1"
    obtain j1 where j1: "map_get (fileProcessingJobs ?s1) i = Some j1" using s1 by blast
    show ?thesis
      by (rule finish [of ?t "j1\<lparr>uj_status := Errored, uj_error := Some e\<rparr>"])
        (use assms(3) Inl j1 s1' in \<open>simp_all add: executeJob_def Let_def map_get_set_job\<close>)
  next
    case (Inr r)
    obtain op p where r: "r = (op, p)" by (cases r)
    let ?step = "job_step (\<lambda>files. uploaded files p) i"
    obtain pre u where evs: "processFile ue op = pre @ [JobUpdate u]" and u: "ju_status u = Some Complete \<or> ju_status u = Some Errored"
      "ju_status u = Some Errored \<longrightarrow> ju_error u \<noteq> None"
      using processFile_ends [of ue op] by (auto simp: ends_finished_def)
    let ?t = "fold ?step (processFile ue op) ?s1"
    have "map_get (fileProcessingJobs (fold ?step pre ?s1)) i \<noteq> None"
      using fold_steps_some [of "\<lambda>files. uploaded files p" i pre ?s1] assms(1) s1 by simp
    then obtain j2 where j2: "map_get (fileProcessingJobs (fold ?step pre ?s1)) i = Some j2" by blast
    have t: "map_get (fileProcessingJobs ?t) i = Some (apply_update u j2)"
      using j2 by (simp add: evs job_step_def map_get_set_job)
    have "ju_status u = Some Complete \<Longrightarrow> \<exists>files. ue_upload ue files = Inr ()"
      using processFile_completes [of ue op] by (auto simp: completes_honestly_def evs)
    then have st: "uj_status (apply_update u j2) = Complete \<and> (\<exists>files. ue_upload ue files = Inr ())
        \<or> uj_status (apply_update u j2) = Errored \<and> uj_error (apply_update u j2) \<noteq> None"
      using u by (auto simp: apply_update_def)
    have other: "map_get (fileProcessingJobs ?t) j = map_get (fileProcessingJobs s) j" if "j \<noteq> i" for j
      using fold_steps_other [of "\<lambda>files. uploaded files p" j i] assms(1) that s1' by simp
    show ?thesis
      by (rule finish [OF _ t st other]) (use assms(3) Inr r in \<open>simp_all add: executeJob_def Let_def\<close>)
  qed
qed

definition example_upload_file :: js_file where
  "example_upload_file = \<lparr>f_name = ''a.txt'', f_size = 1, f_type = ''text/plain'', f_lastModified = 0, f_bytes = [97]\<rparr>"

definition example_upload_job :: "string \<Rightarrow> upload_status \<Rightarrow> upload_job" where
  "example_upload_job i st =
     \<lparr>uj_id = i, uj_uiId = ''u'', uj_fileName = ''a.txt'', uj_fileType = MarkdownFile, uj_status = st, uj_subStatus = [],
      uj_progress = 0, uj_error = None, uj_modelId = None, uj_retries = 0, uj_chunks = None\<rparr>"

lemma executeJob_finishes_witness:
  "\<exists>job'. map_get (fileProcessingJobs (fst (fst (executeJob
      \<lparr>ue_pages = \<lambda>_. ([], 0, None), ue_ocr = \<lambda>_ _. Inl ''x'', ue_text = \<lambda>_. Inr ''a'', ue_now = 0, ue_upload = \<lambda>_. Inl ''full''\<rparr>
      (\<lambda>_ _ s. s) ''j'' (initialFileState\<lparr>fileProcessingJobs := [(''j'', example_upload_job ''j'' Queued)]\<rparr>, [(''j'', example_upload_file)]))))) ''j''
    = Some job'"
proof -
  let ?ue = "\<lparr>ue_pages = \<lambda>_. ([], 0, None), ue_ocr = \<lambda>_ _. Inl ''x'', ue_text = \<lambda>_. Inr ''a'', ue_now = 0, ue_upload = \<lambda>_. Inl ''full''\<rparr>"
  let ?s = "initialFileState\<lparr>fileProcessingJobs := [(''j'', example_upload_job ''j'' Queued)]\<rparr>"
  obtain s' b n where r: "executeJob ?ue (\<lambda>_ _ s. s) ''j'' (?s, [(''j'', example_upload_file)]) = ((s', b), n)"
    by (metis prod.exhaust)
  show ?thesis using executeJob_finishes [OF _ _ r] r by auto
qed

text \<open>
  The queue keeps its order and, by its own count, its limit: the jobs started are the first queued ones,
  as many as there are free slots of three, so with them at most three are counted as running.
  The count leaves out jobs that are being cut into chunks: however many there are, three more
  are started.
\<close>

theorem manageJobQueue_limit:
  assumes "jobs_keyed s" and "active = length (filter counts_active (map_values (fileProcessingJobs s)))"
    and "queued = filter (\<lambda>j. uj_status j = Queued) (map_values (fileProcessingJobs s))"
  shows "manageJobQueue s = map uj_id (take (3 - active) queued)
    \<and> (active \<le> 3 \<longrightarrow> length (filter counts_active (map_values (fileProcessingJobs (fold start_job (manageJobQueue s) s)))) \<le> 3)
    \<and> ((\<forall>j \<in> set (map_values (fileProcessingJobs s)). uj_status j \<in> {Chunking, Queued}) \<longrightarrow>
         manageJobQueue s = map uj_id (take 3 queued))"
proof -
  have eq: "manageJobQueue s = map uj_id (take (3 - active) queued)"
    by (auto simp: manageJobQueue_def Let_def CONCURRENCY_LIMIT_def nat_diff_distrib assms(2,3))
  moreover have "length (filter counts_active (map_values (fileProcessingJobs (fold start_job (manageJobQueue s) s)))) \<le> 3"
    if "active \<le> 3"
    using active_after_starts [OF assms(1), of "manageJobQueue s"] that by (simp add: eq assms(2))
  moreover have "active = 0" if "\<forall>j \<in> set (map_values (fileProcessingJobs s)). uj_status j \<in> {Chunking, Queued}"
    using that unfolding assms(2) by (fastforce simp: filter_empty_conv counts_active_def)
  ultimately show ?thesis by auto
qed

lemma manageJobQueue_limit_witness:
  "manageJobQueue (initialFileState\<lparr>fileProcessingJobs := [(''1'', example_upload_job ''1'' Chunking), (''2'', example_upload_job ''2'' Chunking),
      (''3'', example_upload_job ''3'' Chunking), (''4'', example_upload_job ''4'' Queued)]\<rparr>) = [''4'']"
  using manageJobQueue_limit [OF _ refl refl, of "initialFileState\<lparr>fileProcessingJobs := [(''1'', example_upload_job ''1'' Chunking),
      (''2'', example_upload_job ''2'' Chunking), (''3'', example_upload_job ''3'' Chunking), (''4'', example_upload_job ''4'' Queued)]\<rparr>"]
  by (simp add: jobs_keyed_def example_upload_job_def counts_active_def)

end
