(* ===== verification/Traces.thy ===== *)
theory Traces
  imports Prelude
begin

text \<open>
  Runs of a system given by a step relation: the events that happened, oldest first, and the state they
  lead to. What the steps keep may speak about the events so far.
\<close>

inductive trace_run :: "('s \<Rightarrow> 'e \<Rightarrow> 's \<Rightarrow> bool) \<Rightarrow> 's \<Rightarrow> 'e list \<Rightarrow> 's \<Rightarrow> bool" for step where
  started: "trace_run step s [] s"
| went_on: "trace_run step s es s' \<Longrightarrow> step s' e s'' \<Longrightarrow> trace_run step s (es @ [e]) s''"

inductive_simps trace_run_Nil [simp]: "trace_run step s [] s'"

lemma trace_run_snoc [simp]: "trace_run step s (es @ [e]) s'' \<longleftrightarrow> (\<exists>s'. trace_run step s es s' \<and> step s' e s'')"
  by (subst trace_run.simps) auto

lemma trace_run_Cons: "trace_run step s (e # es) s'' \<longleftrightarrow> (\<exists>s'. step s e s' \<and> trace_run step s' es s'')"
proof (induction es arbitrary: s'' rule: rev_induct)
  case Nil
  show ?case using trace_run_snoc [of step s "[]" e s''] by simp
next
  case (snoc x xs)
  show ?case using trace_run_snoc [of step s "e # xs" x s''] by (auto simp: snoc.IH)
qed

lemma trace_run_append: "trace_run step s (es @ es') s'' \<longleftrightarrow> (\<exists>s'. trace_run step s es s' \<and> trace_run step s' es' s'')"
  by (induction es arbitrary: s) (auto simp: trace_run_Cons)

lemma trace_run_mono: "trace_run step s es s' \<Longrightarrow> (\<And>a e b. step a e b \<Longrightarrow> step' a e b) \<Longrightarrow> trace_run step' s es s'"
  by (induction rule: trace_run.induct) (auto intro: trace_run.intros)

locale traced_invariant =
  fixes step :: "'s \<Rightarrow> 'e \<Rightarrow> 's \<Rightarrow> bool" and inv :: "'e list \<Rightarrow> 's \<Rightarrow> bool"
  assumes inv_step: "inv es s \<Longrightarrow> step s e s' \<Longrightarrow> inv (es @ [e]) s'"
begin

lemma inv_run: "trace_run step s es s' \<Longrightarrow> inv [] s \<Longrightarrow> inv es s'"
  by (induction rule: trace_run.induct) (auto intro: inv_step)

end

text \<open>A system whose events determine what happens: its runs are the runs of a function.\<close>

fun exec_trace :: "('e \<Rightarrow> 's \<Rightarrow> 's option) \<Rightarrow> 'e list \<Rightarrow> 's \<Rightarrow> 's option" where
  "exec_trace f [] s = Some s"
| "exec_trace f (e # es) s = (case f e s of None \<Rightarrow> None | Some s' \<Rightarrow> exec_trace f es s')"

locale determined =
  fixes step :: "'s \<Rightarrow> 'e \<Rightarrow> 's \<Rightarrow> bool" and exec :: "'e \<Rightarrow> 's \<Rightarrow> 's option"
  assumes step_exec: "step s e s' \<longleftrightarrow> exec e s = Some s'"
begin

lemma run_exec: "trace_run step s es s' \<longleftrightarrow> exec_trace exec es s = Some s'"
  by (induction es arbitrary: s) (auto simp: trace_run_Cons step_exec split: option.split)

lemma run_unique: "trace_run step s es s1 \<Longrightarrow> trace_run step s es s2 \<Longrightarrow> s1 = s2"
  by (simp add: run_exec)

end

end
