(* ===== verification/Session.thy ===== *)
theory Session
  imports Auth_State Backend_Mappers Crypto Result_Utils Traces
begin

text \<open>
  The life of a session, \<open>src/gpt_frontend/src/store/authStore/actions\<close>: \<open>lifecycle.ts\<close> (start, login, logout),
  \<open>registration.ts\<close> (finding or creating the user's canister), \<open>vault.ts\<close> (the key derived from the PIN),
  \<open>usage.ts\<close> and \<open>setters.ts\<close>. An action runs without interruption up to an \<open>await\<close> and goes on when what it
  waits for arrives, in any order with the other actions: the state holds the actions that wait.
  Consecutive awaits between which the session is neither read nor changed are one.
\<close>

section \<open>State\<close>

text \<open>
  The actions that wait, with the values they hold: \<open>W_init\<close> for the authentication client (\<open>Some url\<close> when it is
  called by \<open>login\<close>, which goes on afterwards), \<open>W_login\<close> for Internet Identity and \<open>W_logout\<close> for the logout of the
  client the action has read from the store (its number, see below), \<open>W_resolve\<close> for the canisters' answers about the user, \<open>W_verify\<close> for the check of a cached key against
  a validator, \<open>W_setup\<close> and \<open>W_unlock\<close> for the user canister, \<open>W_usage\<close> for its usage.
\<close>

datatype waiting =
    W_init "string option option"
  | W_login nat
  | W_logout "nat option"
  | W_resolve string
  | W_verify string string string
  | W_setup string
  | W_unlock string
  | W_usage

record session =
  ss_auth :: auth_state
  ss_stored :: "string option"
  ss_waiting :: "waiting list"
  ss_resets :: nat
  ss_client :: nat

text \<open>
  \<open>ss_stored\<close> is the entry \<open>gpt_root_key\<close> of \<open>sessionStorage\<close>, which outlives a reload of the page;
  \<open>ss_resets\<close> counts how often \<open>logout\<close> has reset the other stores. Every client that is
  stored gets the next number, \<open>ss_client\<close> is that of the last one: an action that holds a client changes the identity of
  that client, which is the stored one only as long as no other has replaced it.
\<close>

abbreviation upd :: "(auth_state \<Rightarrow> auth_state) \<Rightarrow> session \<Rightarrow> session" where
  "upd f s \<equiv> s\<lparr>ss_auth := f (ss_auth s)\<rparr>"

abbreviation await_task :: "waiting \<Rightarrow> session \<Rightarrow> session" where
  "await_task w s \<equiv> s\<lparr>ss_waiting := ss_waiting s @ [w]\<rparr>"

text \<open>What a reload of the page leaves.\<close>

definition reload :: "session \<Rightarrow> session" where
  "reload s = \<lparr>ss_auth = initialAuthState, ss_stored = ss_stored s, ss_waiting = [], ss_resets = ss_resets s, ss_client = ss_client s\<rparr>"

section \<open>Setters\<close>

definition setAuthError :: "string option \<Rightarrow> string option \<Rightarrow> bool \<Rightarrow> session \<Rightarrow> session" where
  "setAuthError errorMessage title fatal =
     upd (\<lambda>a. a\<lparr>au_setupError := errorMessage,
                au_setupErrorTitle := Some (case title of None \<Rightarrow> ''Connection Error'' | Some t \<Rightarrow> t),
                au_isFatalError := fatal, au_authStatus := SETUP_ERROR\<rparr>)"

definition setPrincipal :: "string \<Rightarrow> session \<Rightarrow> session" where
  "setPrincipal p = upd (\<lambda>a. a\<lparr>au_principal := Some p\<rparr>)"

definition confirmUserCanisterId :: "string \<Rightarrow> session \<Rightarrow> session" where
  "confirmUserCanisterId canisterId s =
     (if canisterId = '''' then setAuthError (Some ''Internal error: Invalid user canister ID received.'') None False s
      else upd (\<lambda>a. a\<lparr>au_userCanisterId := Some canisterId, au_authStatus := REGISTERED, au_setupError := None,
                       au_setupErrorTitle := None, au_isFatalError := False, au_isSessionExpired := False\<rparr>) s)"

definition CRITICAL_INIT_ERROR_MSG :: string where
  "CRITICAL_INIT_ERROR_MSG = ''Critical: AuthClient initialization failed. Cannot proceed.''"

section \<open>Logout\<close>

definition logout :: "session \<Rightarrow> session" where
  "logout s = await_task (W_logout (if au_authClient (ss_auth s) = None then None else Some (ss_client s))) (s\<lparr>ss_stored := None\<rparr>)"

text \<open>
  The rest of it, whether the client's logout succeeded or failed (\<open>ok\<close>): a client that has logged out has the
  anonymous identity.
\<close>

definition finish_logout :: "nat option \<Rightarrow> bool \<Rightarrow> session \<Rightarrow> session" where
  "finish_logout client ok s =
     (upd (\<lambda>a. a\<lparr>au_authClient := (if client = Some (ss_client s) \<and> ok then map_option (\<lambda>_. anonymous) (au_authClient a) else au_authClient a),
                 au_authStatus := UNAUTHENTICATED, au_principal := None, au_userCanisterId := None,
                 au_userStorageUsage := 0, au_userStorageLimit := 7 * 1024 * 1024 * 1024, au_setupError := None,
                 au_isSessionExpired := False, au_rootKey := None\<rparr>) s)\<lparr>ss_resets := Suc (ss_resets s)\<rparr>"

definition handleInvalidDelegationError :: "session \<Rightarrow> session" where
  "handleInvalidDelegationError s =
     (if au_isSessionExpired (ss_auth s) then s else logout (upd (\<lambda>a. a\<lparr>au_isSessionExpired := True\<rparr>) s))"

section \<open>Start\<close>

text \<open>
  What the authentication client answers: its creation fails (or the question whether it is authenticated);
  it has no session; it has one, and the trial call to the index succeeds or fails.
\<close>

datatype client_answer =
    Create_Failed
  | No_Session principal
  | Has_Session principal "thrown option"

definition begin_init :: "string option option \<Rightarrow> session \<Rightarrow> session" where
  "begin_init after s =
     await_task (W_init after)
       (upd (\<lambda>a. a\<lparr>au_authStatus := INITIALIZING, au_setupError := None, au_isSessionExpired := False\<rparr>) s)"

definition initAuth :: "session \<Rightarrow> session" where
  "initAuth = begin_init None"

definition client_ready :: "principal \<Rightarrow> bool \<Rightarrow> session \<Rightarrow> session" where
  "client_ready client authenticated s =
     (upd (\<lambda>a. a\<lparr>au_authClient := Some client, au_principal := (if authenticated then Some client else None),
                 au_authStatus := (if authenticated then PENDING_SETUP else UNAUTHENTICATED), au_userCanisterId := None\<rparr>) s)
       \<lparr>ss_client := Suc (ss_client s)\<rparr>"

definition finish_init :: "client_answer \<Rightarrow> session \<Rightarrow> session" where
  "finish_init answer s =
     (case answer of
        Create_Failed \<Rightarrow>
          setAuthError (Some ''Critical: AuthClient initialization failed. Please try refreshing the page.'') None False s
      | No_Session client \<Rightarrow> client_ready client False s
      | Has_Session client trial \<Rightarrow>
          (case trial of
             Some e \<Rightarrow> if th_untrusted e then handleInvalidDelegationError s else client_ready client True s
           | None \<Rightarrow> client_ready client True s))"

section \<open>Login\<close>

text \<open>\<open>iiUrl\<close> is the configured address of Internet Identity.\<close>

definition login_client :: "string option \<Rightarrow> session \<Rightarrow> session" where
  "login_client iiUrl s =
     (let s1 = upd (\<lambda>a. a\<lparr>au_authStatus := AUTHENTICATING_II, au_setupError := None, au_isSessionExpired := False\<rparr>) s in
      if \<not> truthy_str iiUrl
      then setAuthError (Some ''Configuration error: Missing Internet Identity URL.'') None False s1
      else await_task (W_login (ss_client s1)) s1)"

definition login :: "string option \<Rightarrow> session \<Rightarrow> session" where
  "login iiUrl s =
     (case au_authClient (ss_auth s) of
        None \<Rightarrow> begin_init (Some iiUrl) s
      | Some _ \<Rightarrow> login_client iiUrl s)"

definition resume_login :: "string option \<Rightarrow> session \<Rightarrow> session" where
  "resume_login iiUrl s =
     (case au_authClient (ss_auth s) of
        None \<Rightarrow> setAuthError (Some ''Auth client failed to initialize.'') None False s
      | Some _ \<Rightarrow> login_client iiUrl s)"

datatype login_answer = Login_Success principal | Login_Refused | Login_Threw

text \<open>After a success the client the login was made with has the identity of the user.\<close>

definition finish_login :: "nat \<Rightarrow> login_answer \<Rightarrow> session \<Rightarrow> session" where
  "finish_login client answer s =
     (case answer of
        Login_Success p \<Rightarrow>
          upd (\<lambda>a. a\<lparr>au_authClient := (if client = ss_client s then Some p else au_authClient a), au_principal := Some p,
                     au_authStatus := PENDING_SETUP,
                     au_userCanisterId := None, au_setupError := None, au_isSessionExpired := False\<rparr>) s
      | Login_Refused \<Rightarrow>
          upd (\<lambda>a. a\<lparr>au_authStatus := UNAUTHENTICATED, au_setupError := Some ''Internet Identity login failed.''\<rparr>) s
      | Login_Threw \<Rightarrow> setAuthError (Some ''Login process error.'') None False s)"

definition retryUserSetup :: "session \<Rightarrow> session" where
  "retryUserSetup s =
     (let a = ss_auth s in
      if au_authStatus a = SETUP_ERROR \<and> au_setupError a = Some CRITICAL_INIT_ERROR_MSG
         \<or> au_authStatus a = INITIALIZING \<and> au_authClient a = None
      then initAuth s
      else if truthy_str (au_principal a) \<and> au_authStatus a = SETUP_ERROR
      then upd (\<lambda>a. a\<lparr>au_authStatus := PENDING_SETUP, au_setupError := None, au_setupErrorTitle := None,
                       au_isFatalError := False\<rparr>) s
      else s)"

section \<open>Finding the user's canister\<close>

record whoami_answer =
  wh_enc_salt :: "bytes option"
  wh_enc_validator :: "string option"

text \<open>
  One round of \<open>checkAndResolve\<close>: a call fails (the assignment, the question whether it is finalised, or
  \<open>whoami\<close>); there is no assignment and registering the user fails or succeeds; there is an assignment, not
  finalised or with the vault's data.
\<close>

datatype resolve_answer =
    Resolve_Failed thrown
  | Unassigned "thrown option"
  | Unfinalized string
  | Finalized string whoami_answer

definition resolveUserSession :: "session \<Rightarrow> session" where
  "resolveUserSession s =
     (let a = ss_auth s in
      if au_authClient a = None \<or> \<not> truthy_str (au_principal a) \<or> au_authStatus a \<noteq> PENDING_SETUP then s
      else await_task (W_resolve (the (au_principal a))) s)"

definition resolve_error :: "thrown \<Rightarrow> session \<Rightarrow> session" where
  "resolve_error e s =
     (if message_includes e ''delegation is invalid'' \<or> message_includes e ''cryptographic verification failed''
      then handleInvalidDelegationError s
      else let d = classifySetupError e in setAuthError (Some (ed_message d)) (Some (ed_title d)) (ed_isFatal d) s)"

definition locked_at :: "string \<Rightarrow> session \<Rightarrow> session" where
  "locked_at canisterId = upd (\<lambda>a. a\<lparr>au_authStatus := VAULT_LOCKED, au_userCanisterId := Some canisterId\<rparr>)"

definition vault_missing_at :: "string \<Rightarrow> session \<Rightarrow> session" where
  "vault_missing_at canisterId = upd (\<lambda>a. a\<lparr>au_authStatus := SETUP_VAULT, au_userCanisterId := Some canisterId\<rparr>)"

definition found_canister :: "string \<Rightarrow> whoami_answer \<Rightarrow> session \<Rightarrow> session" where
  "found_canister canisterId w s =
     (if wh_enc_salt w \<noteq> None \<and> truthy_str (wh_enc_validator w) then
        if truthy_str (ss_stored s)
        then await_task (W_verify (the (ss_stored s)) (the (wh_enc_validator w)) canisterId) s
        else locked_at canisterId s
      else vault_missing_at canisterId s)"

definition finish_resolve :: "string \<Rightarrow> resolve_answer \<Rightarrow> session \<Rightarrow> session" where
  "finish_resolve user answer s =
     (case answer of
        Resolve_Failed e \<Rightarrow> resolve_error e s
      | Unassigned (Some e) \<Rightarrow> resolve_error e s
      | Unassigned None \<Rightarrow> await_task (W_resolve user) s
      | Unfinalized canisterId \<Rightarrow> vault_missing_at canisterId s
      | Finalized canisterId w \<Rightarrow> found_canister canisterId w s)"

definition finish_verify :: "'k crypto_lib \<Rightarrow> string \<Rightarrow> string \<Rightarrow> string \<Rightarrow> session \<Rightarrow> session" where
  "finish_verify lib cachedKey validator canisterId s =
     (if verifyKey lib cachedKey validator
      then confirmUserCanisterId canisterId (upd (\<lambda>a. a\<lparr>au_rootKey := Some cachedKey\<rparr>) s)
      else locked_at canisterId (s\<lparr>ss_stored := None\<rparr>))"

section \<open>The vault\<close>

definition has_canister :: "session \<Rightarrow> bool" where
  "has_canister s \<longleftrightarrow> au_authClient (ss_auth s) \<noteq> None \<and> truthy_str (au_userCanisterId (ss_auth s))"

definition open_with :: "string \<Rightarrow> session \<Rightarrow> session" where
  "open_with rootKey s =
     (upd (\<lambda>a. a\<lparr>au_rootKey := Some rootKey, au_authStatus := REGISTERED\<rparr>) s)\<lparr>ss_stored := Some rootKey\<rparr>"

definition setupVault :: "string \<Rightarrow> session \<Rightarrow> session" where
  "setupVault pin s = (if \<not> has_canister s then s else await_task (W_setup pin) s)"

text \<open>\<open>salt\<close> is what was drawn, \<open>finalized\<close> the answer of the canister to the salt and the validator.\<close>

definition vault_data :: "'k crypto_lib \<Rightarrow> string \<Rightarrow> bytes \<Rightarrow> thrown + (string \<times> string)" where
  "vault_data lib pin salt =
     (let rootKey = deriveRootKey lib pin salt in
      case encryptValidator lib rootKey of Inl m \<Rightarrow> Inl (js_Error m) | Inr v \<Rightarrow> Inr (rootKey, v))"

definition finish_setup :: "'k crypto_lib \<Rightarrow> string \<Rightarrow> bytes \<Rightarrow> thrown option \<Rightarrow> session \<Rightarrow> session" where
  "finish_setup lib pin salt finalized s =
     (case (case vault_data lib pin salt of
              Inl e \<Rightarrow> Inl e
            | Inr (rootKey, _) \<Rightarrow> (case finalized of Some e \<Rightarrow> Inl e | None \<Rightarrow> Inr rootKey)) of
        Inr rootKey \<Rightarrow> open_with rootKey s
      | Inl error \<Rightarrow>
          upd (\<lambda>a. a\<lparr>au_setupError := Some (if th_is_error error then th_text error
                                             else ''Failed to setup vault. Please try again.'')\<rparr>) s)"

definition unlockVault :: "string \<Rightarrow> session \<Rightarrow> session" where
  "unlockVault pin s = (if \<not> has_canister s then s else await_task (W_unlock pin) s)"

text \<open>The key a PIN opens the vault with, or the error thrown to the caller.\<close>

definition unlock_key :: "'k crypto_lib \<Rightarrow> string \<Rightarrow> thrown + whoami_answer \<Rightarrow> thrown + string" where
  "unlock_key lib pin answer =
     bind_sum answer (\<lambda>w.
       case (wh_enc_salt w, wh_enc_validator w) of
         (Some salt, Some validator) \<Rightarrow>
           if validator = '''' then Inl (js_Error ''Vault corrupted: missing salt or validator.'')
           else (case verifyPin lib pin salt validator of
                   Some rootKey \<Rightarrow> if rootKey = '''' then Inl (js_Error ''Incorrect PIN'') else Inr rootKey
                 | None \<Rightarrow> Inl (js_Error ''Incorrect PIN''))
       | _ \<Rightarrow> Inl (js_Error ''Vault corrupted: missing salt or validator.''))"

definition finish_unlock :: "'k crypto_lib \<Rightarrow> string \<Rightarrow> thrown + whoami_answer \<Rightarrow> session \<Rightarrow> session" where
  "finish_unlock lib pin answer s = (case unlock_key lib pin answer of Inl _ \<Rightarrow> s | Inr rootKey \<Rightarrow> open_with rootKey s)"

definition clearVault :: "session \<Rightarrow> session" where
  "clearVault s = (upd (\<lambda>a. a\<lparr>au_rootKey := None\<rparr>) s)\<lparr>ss_stored := None\<rparr>"

section \<open>Storage usage\<close>

definition setUserStorageUsage :: "int \<Rightarrow> int \<Rightarrow> session \<Rightarrow> session" where
  "setUserStorageUsage bytes limit = upd (\<lambda>a. a\<lparr>au_userStorageUsage := bytes, au_userStorageLimit := limit\<rparr>)"

definition fetchUserUsage :: "session \<Rightarrow> session" where
  "fetchUserUsage s =
     (if au_isSessionExpired (ss_auth s) \<or> \<not> registered (ss_auth s) then s else await_task W_usage s)"

definition finish_usage :: "thrown + (int \<times> int) \<Rightarrow> session \<Rightarrow> session" where
  "finish_usage answer s =
     (case answer of
        Inr (usage, limit) \<Rightarrow> setUserStorageUsage usage limit s
      | Inl err \<Rightarrow>
          let errStr = (if th_is_error err then th_text err else th_json err) in
          if str_includes errStr ''delegation is invalid'' \<or> str_includes errStr ''verification failed''
          then handleInvalidDelegationError s else s)"

section \<open>Steps\<close>

text \<open>What the page calls, and what arrives for a waiting action.\<close>

datatype session_call =
    C_initAuth | C_login "string option" | C_logout | C_resolveUserSession | C_retryUserSetup
  | C_handleInvalidDelegationError | C_setupVault string | C_unlockVault string | C_clearVault | C_fetchUserUsage | C_reload

fun perform :: "session_call \<Rightarrow> session \<Rightarrow> session" where
  "perform C_initAuth = initAuth"
| "perform (C_login url) = login url"
| "perform C_logout = logout"
| "perform C_resolveUserSession = resolveUserSession"
| "perform C_retryUserSetup = retryUserSetup"
| "perform C_handleInvalidDelegationError = handleInvalidDelegationError"
| "perform (C_setupVault pin) = setupVault pin"
| "perform (C_unlockVault pin) = unlockVault pin"
| "perform C_clearVault = clearVault"
| "perform C_fetchUserUsage = fetchUserUsage"
| "perform C_reload = reload"

datatype arrival =
    A_init client_answer
  | A_login login_answer
  | A_logout bool
  | A_resolve resolve_answer
  | A_verify
  | A_setup bytes "thrown option"
  | A_unlock "thrown + whoami_answer"
  | A_usage "thrown + (int \<times> int)"

fun arrive :: "'k crypto_lib \<Rightarrow> waiting \<Rightarrow> arrival \<Rightarrow> (session \<Rightarrow> session) option" where
  "arrive lib (W_init None) (A_init a) = Some (finish_init a)"
| "arrive lib (W_init (Some url)) (A_init a) = Some (\<lambda>s. resume_login url (finish_init a s))"
| "arrive lib (W_login c) (A_login a) = Some (finish_login c a)"
| "arrive lib (W_logout c) (A_logout ok) = Some (finish_logout c ok)"
| "arrive lib (W_resolve p) (A_resolve a) = Some (finish_resolve p a)"
| "arrive lib (W_verify k v c) A_verify = Some (finish_verify lib k v c)"
| "arrive lib (W_setup pin) (A_setup salt r) = Some (finish_setup lib pin salt r)"
| "arrive lib (W_unlock pin) (A_unlock a) = Some (finish_unlock lib pin a)"
| "arrive lib W_usage (A_usage a) = Some (finish_usage a)"
| "arrive lib _ _ = None"

datatype session_event = Called session_call | Arrived waiting arrival

inductive session_step :: "'k crypto_lib \<Rightarrow> session \<Rightarrow> session_event \<Rightarrow> session \<Rightarrow> bool" for lib where
  called: "session_step lib s (Called c) (perform c s)"
| arrived: "w \<in> set (ss_waiting s) \<Longrightarrow> arrive lib w x = Some f
    \<Longrightarrow> session_step lib s (Arrived w x) (f (s\<lparr>ss_waiting := remove1 w (ss_waiting s)\<rparr>))"

inductive_cases session_stepE [elim]: "session_step lib s e s'"

text \<open>The same as a function: an event that is not possible gives \<open>None\<close>.\<close>

fun exec_event :: "'k crypto_lib \<Rightarrow> session_event \<Rightarrow> session \<Rightarrow> session option" where
  "exec_event lib (Called c) s = Some (perform c s)"
| "exec_event lib (Arrived w x) s =
     (if w \<in> set (ss_waiting s)
      then map_option (\<lambda>f. f (s\<lparr>ss_waiting := remove1 w (ss_waiting s)\<rparr>)) (arrive lib w x) else None)"

text \<open>The page as it opens: nothing has happened, the storage may hold a key of an earlier page.\<close>

definition opened :: "string option \<Rightarrow> session" where
  "opened key = \<lparr>ss_auth = initialAuthState, ss_stored = key, ss_waiting = [], ss_resets = 0, ss_client = 0\<rparr>"

end
