(* ===== verification/Session_Props.thy ===== *)
theory Session_Props
  imports Session
begin

text \<open>
  What a session keeps: where its key comes from, when it is complete, what survives a reload of the page, and
  what a logout leaves behind.
\<close>

section \<open>Runs\<close>

interpretation det: determined "session_step lib" "exec_event lib" for lib :: "'k crypto_lib"
proof (unfold_locales, rule iffI)
  fix s :: session and e s'
  assume "session_step lib s e s'"
  then show "exec_event lib e s = Some s'" by (cases rule: session_step.cases) auto
next
  fix s :: session and e s'
  assume "exec_event lib e s = Some s'"
  then show "session_step lib s e s'"
    by (cases e) (auto split: if_splits intro: session_step.intros)
qed

lemmas session_defs = setAuthError_def confirmUserCanisterId_def logout_def finish_logout_def
  handleInvalidDelegationError_def begin_init_def initAuth_def client_ready_def finish_init_def login_client_def
  login_def resume_login_def finish_login_def retryUserSetup_def resolveUserSession_def resolve_error_def
  locked_at_def vault_missing_at_def found_canister_def finish_resolve_def finish_verify_def has_canister_def
  open_with_def setupVault_def finish_setup_def unlockVault_def finish_unlock_def clearVault_def
  setUserStorageUsage_def fetchUserUsage_def finish_usage_def reload_def

section \<open>Where the key comes from\<close>

definition reported_validator :: "session_event list \<Rightarrow> string \<Rightarrow> bool" where
  "reported_validator es v \<longleftrightarrow>
     (\<exists>p c w. Arrived (W_resolve p) (A_resolve (Finalized c w)) \<in> set es \<and> wh_enc_validator w = Some v)
     \<or> (\<exists>pin w. Arrived (W_unlock pin) (A_unlock (Inr w)) \<in> set es \<and> wh_enc_validator w = Some v)"

definition checked_key :: "'k crypto_lib \<Rightarrow> session_event list \<Rightarrow> string \<Rightarrow> bool" where
  "checked_key lib es k \<longleftrightarrow>
     (\<exists>v. reported_validator es v \<and> verifyKey lib k v)
     \<or> (\<exists>pin salt v. Arrived (W_setup pin) (A_setup salt None) \<in> set es \<and> k = deriveRootKey lib pin salt
          \<and> encryptValidator lib k = Inr v)"

lemma reported_later [simp]: "reported_validator es v \<Longrightarrow> reported_validator (es @ [e]) v"
  by (auto simp: reported_validator_def)

lemma checked_later [simp]: "checked_key lib es k \<Longrightarrow> checked_key lib (es @ [e]) k"
  unfolding checked_key_def by (metis reported_later Un_iff set_append)

definition keys_checked :: "'k crypto_lib \<Rightarrow> string option \<Rightarrow> session_event list \<Rightarrow> session \<Rightarrow> bool" where
  "keys_checked lib key es s \<longleftrightarrow>
     (\<forall>k. au_rootKey (ss_auth s) = Some k \<longrightarrow> checked_key lib es k)
     \<and> (\<forall>k. ss_stored s = Some k \<longrightarrow> key = Some k \<or> checked_key lib es k)
     \<and> (\<forall>k v c. W_verify k v c \<in> set (ss_waiting s) \<longrightarrow> reported_validator es v)"

text \<open>Most operations add no key: what they leave of the keys and the checks in progress was there before.\<close>

definition adds_no_key :: "session \<Rightarrow> session \<Rightarrow> bool" where
  "adds_no_key s s' \<longleftrightarrow>
     (\<forall>k. au_rootKey (ss_auth s') = Some k \<longrightarrow> au_rootKey (ss_auth s) = Some k)
     \<and> (\<forall>k. ss_stored s' = Some k \<longrightarrow> ss_stored s = Some k)
     \<and> (\<forall>k v c. W_verify k v c \<in> set (ss_waiting s') \<longrightarrow> W_verify k v c \<in> set (ss_waiting s))"

lemma adds_no_key_trans [trans]: "adds_no_key s s' \<Longrightarrow> adds_no_key s' s'' \<Longrightarrow> adds_no_key s s''"
  by (simp add: adds_no_key_def)

lemma keys_checked_quiet:
  "keys_checked lib key es s \<Longrightarrow> adds_no_key s s' \<Longrightarrow> keys_checked lib key (es @ [e]) s'"
  unfolding keys_checked_def adds_no_key_def by (meson checked_later reported_later)

lemma keys_checked_less: "keys_checked lib key es s \<Longrightarrow> adds_no_key s s' \<Longrightarrow> keys_checked lib key es s'"
  unfolding keys_checked_def adds_no_key_def by meson

lemma keys_checked_waiting:
  "keys_checked lib key es s \<Longrightarrow> W_verify k v c \<in> set (ss_waiting s) \<Longrightarrow> reported_validator es v"
  unfolding keys_checked_def by blast

lemma adds_no_key_refl [simp]: "adds_no_key s s"
  by (simp add: adds_no_key_def)

lemma adds_no_key_upd [simp]: "au_rootKey (f (ss_auth s)) = au_rootKey (ss_auth s) \<Longrightarrow> adds_no_key s (upd f s)"
  by (simp add: adds_no_key_def)

lemma perform_adds_no_key: "adds_no_key s (perform c s)"
  by (cases c) (simp_all add: adds_no_key_def session_defs Let_def initialAuthState_def split: option.split)

lemma logout_adds_no_key [simp]: "adds_no_key s (handleInvalidDelegationError s)" "adds_no_key s (finish_logout c b s)"
  by (simp_all add: adds_no_key_def session_defs)

lemma finish_adds_no_key [simp]:
  "adds_no_key s (setAuthError m t f s)" "adds_no_key s (client_ready p b s)" "adds_no_key s (finish_init a s)"
  "adds_no_key s (login_client url s)" "adds_no_key s (resume_login url s)" "adds_no_key s (finish_login n l s)"
  "adds_no_key s (resolve_error err s)" "adds_no_key s (finish_usage u s)"
  by (auto simp: adds_no_key_def session_defs Let_def split: option.split sum.split client_answer.split login_answer.split)

lemma resumed_adds_no_key [simp]: "adds_no_key s (resume_login url (finish_init a s))"
  by (rule adds_no_key_trans [of _ "finish_init a s"]) simp_all

lemma removed_adds_no_key: "adds_no_key s (s\<lparr>ss_waiting := remove1 w (ss_waiting s)\<rparr>)"
  using set_remove1_subset [of w "ss_waiting s"] by (auto simp: adds_no_key_def)

text \<open>The three ways to open the vault, and the answer that starts a check.\<close>

lemma open_with_checked:
  "keys_checked lib key es s \<Longrightarrow> checked_key lib es k \<Longrightarrow> keys_checked lib key es (open_with k s)"
  by (auto simp: keys_checked_def open_with_def)

lemma confirm_checked:
  "keys_checked lib key es s \<Longrightarrow> checked_key lib es k
   \<Longrightarrow> keys_checked lib key es (confirmUserCanisterId c (upd (\<lambda>a. a\<lparr>au_rootKey := Some k\<rparr>) s))"
  by (auto simp: keys_checked_def session_defs)

lemma finish_resolve_checked:
  assumes "keys_checked lib key es s"
  shows "keys_checked lib key (es @ [Arrived (W_resolve p) (A_resolve a)]) (finish_resolve p a s)"
proof -
  let ?es = "es @ [Arrived (W_resolve p) (A_resolve a)]"
  have later: "keys_checked lib key ?es s" by (rule keys_checked_quiet [OF assms adds_no_key_refl])
  show ?thesis
  proof (cases a)
    case (Resolve_Failed e)
    then show ?thesis by (simp add: finish_resolve_def keys_checked_quiet [OF assms])
  next
    case (Unassigned e)
    show ?thesis
    proof (cases e)
      case None
      with later Unassigned show ?thesis by (auto simp: finish_resolve_def keys_checked_def)
    next
      case (Some m)
      with Unassigned show ?thesis by (simp add: finish_resolve_def keys_checked_quiet [OF assms])
    qed
  next
    case (Unfinalized c)
    with later show ?thesis by (auto simp: finish_resolve_def vault_missing_at_def keys_checked_def)
  next
    case (Finalized c w)
    then have "wh_enc_validator w = Some v \<Longrightarrow> reported_validator ?es v" for v
      by (auto simp: reported_validator_def)
    moreover note keys_checked_waiting [OF later]
    ultimately show ?thesis using later Finalized
      by (auto simp: finish_resolve_def found_canister_def locked_at_def vault_missing_at_def keys_checked_def truthy_str_def)
  qed
qed

lemma finish_verify_checked:
  assumes "keys_checked lib key es s" and "reported_validator es v"
  shows "keys_checked lib key es (finish_verify lib k v c s)"
proof (cases "verifyKey lib k v")
  case True
  with assms have "checked_key lib es k" by (auto simp: checked_key_def)
  with True show ?thesis by (simp add: finish_verify_def confirm_checked [OF assms(1)])
next
  case False
  with assms show ?thesis by (simp add: finish_verify_def locked_at_def keys_checked_def)
qed

lemma finish_setup_checked:
  assumes "keys_checked lib key es s" and "Arrived (W_setup pin) (A_setup salt r) \<in> set es"
  shows "keys_checked lib key es (finish_setup lib pin salt r s)"
proof (cases "\<exists>v. encryptValidator lib (deriveRootKey lib pin salt) = Inr v \<and> r = None")
  case True
  then have "checked_key lib es (deriveRootKey lib pin salt)" using assms(2) by (auto simp: checked_key_def)
  with True open_with_checked [OF assms(1)] show ?thesis
    by (auto simp: finish_setup_def vault_data_def Let_def)
next
  case False
  then have "\<exists>f. finish_setup lib pin salt r s = upd (\<lambda>a. a\<lparr>au_setupError := f\<rparr>) s"
    by (auto simp: finish_setup_def vault_data_def Let_def split: sum.split option.split)
  then obtain f where "finish_setup lib pin salt r s = upd (\<lambda>a. a\<lparr>au_setupError := f\<rparr>) s" ..
  then show ?thesis by (simp add: keys_checked_less [OF assms(1)])
qed

lemma unlock_key_verified:
  "unlock_key lib pin (Inr w) = Inr k \<Longrightarrow> \<exists>v. wh_enc_validator w = Some v \<and> verifyKey lib k v"
  by (auto simp: unlock_key_def verifyPin_iff split: option.splits if_splits)

lemma finish_unlock_checked:
  assumes "keys_checked lib key es s" and "Arrived (W_unlock pin) (A_unlock a) \<in> set es"
  shows "keys_checked lib key es (finish_unlock lib pin a s)"
proof (cases "unlock_key lib pin a")
  case (Inl e)
  with assms show ?thesis by (simp add: finish_unlock_def)
next
  case (Inr k)
  then obtain w where a: "a = Inr w" by (cases a) (auto simp: unlock_key_def)
  with Inr obtain v where "wh_enc_validator w = Some v" "verifyKey lib k v" by (blast dest: unlock_key_verified)
  with a assms(2) have "checked_key lib es k" unfolding checked_key_def reported_validator_def by blast
  with Inr show ?thesis by (simp add: finish_unlock_def open_with_checked [OF assms(1)])
qed

lemma keys_checked_step:
  assumes "keys_checked lib key es s" and "session_step lib s e s'"
  shows "keys_checked lib key (es @ [e]) s'"
  using assms(2)
proof (cases rule: session_step.cases)
  case (called c)
  then show ?thesis by (simp add: keys_checked_quiet [OF assms(1) perform_adds_no_key])
next
  case (arrived w x f)
  let ?r = "s\<lparr>ss_waiting := remove1 w (ss_waiting s)\<rparr>"
  have r: "keys_checked lib key es ?r" "keys_checked lib key (es @ [e]) ?r"
    using keys_checked_less [OF assms(1) removed_adds_no_key] keys_checked_quiet [OF assms(1) removed_adds_no_key] by auto
  from arrived(3) show ?thesis
  proof (cases rule: arrive.cases [of "(lib, w, x)"])
    case (5 lib' p a)
    with arrived finish_resolve_checked [OF r(1), of p a] show ?thesis by auto
  next
    case (6 lib' k v c)
    with arrived keys_checked_waiting [OF assms(1), of k v c] have "reported_validator (es @ [e]) v" by simp
    with 6 arrived finish_verify_checked [OF r(2), of v k c] show ?thesis by auto
  next
    case (7 lib' pin salt a)
    with arrived finish_setup_checked [OF r(2), of pin salt a] show ?thesis by auto
  next
    case (8 lib' pin a)
    with arrived finish_unlock_checked [OF r(2), of pin a] show ?thesis by auto
  qed (use arrived in \<open>auto intro: keys_checked_quiet [OF r(1)] adds_no_key_trans\<close>)
qed

interpretation key_trace: traced_invariant "session_step lib" "keys_checked lib key"
  for lib :: "'k crypto_lib" and key
  by unfold_locales (rule keys_checked_step)

text \<open>
  C3: the key a session holds has been checked: in every run from the opening of the page, in whatever order
  the answers arrive, the root key in memory decrypts a validator that the user's canister reported in this
  run to the expected text, or was derived from the PIN the user chose for a vault whose registration the
  canister accepted; and the key cached in the session storage is one of those or was there when the page opened.
\<close>

theorem session_key_checked:
  assumes "trace_run (session_step lib) (opened key) es s"
  shows "(\<forall>k. au_rootKey (ss_auth s) = Some k \<longrightarrow> checked_key lib es k)
    \<and> (\<forall>k. ss_stored s = Some k \<longrightarrow> key = Some k \<or> checked_key lib es k)"
proof -
  have "keys_checked lib key [] (opened key)" by (simp add: keys_checked_def opened_def initialAuthState_def)
  from key_trace.inv_run [OF assms this] show ?thesis by (simp add: keys_checked_def)
qed

definition first_visit :: "session_event list" where
  "first_visit =
     [Called C_initAuth, Arrived (W_init None) (A_init (Has_Session ''p'' None)), Called C_resolveUserSession,
      Arrived (W_resolve ''p'') (A_resolve (Unfinalized ''c'')), Called (C_setupVault ''1234''),
      Arrived (W_setup ''1234'') (A_setup [] None)]"

definition after_first_visit :: session where
  "after_first_visit = open_with (deriveRootKey example_lib ''1234'' [])
     (vault_missing_at ''c'' (client_ready ''p'' True (upd (\<lambda>a. a\<lparr>au_setupError := None, au_isSessionExpired := False\<rparr>) (opened None))))"

lemma first_visit_run: "trace_run (session_step example_lib) (opened None) first_visit after_first_visit"
  by (simp add: det.run_exec first_visit_def after_first_visit_def session_defs opened_def initialAuthState_def
      truthy_str_def vault_data_def encryptValidator_def example_lib_def Let_def)

lemma session_key_checked_witness:
  "checked_key example_lib first_visit (deriveRootKey example_lib ''1234'' [])"
proof -
  have "au_rootKey (ss_auth after_first_visit) = Some (deriveRootKey example_lib ''1234'' [])"
    by (simp add: after_first_visit_def open_with_def)
  with session_key_checked [OF first_visit_run] show ?thesis by blast
qed

section \<open>Complete sessions\<close>

text \<open>When the page lets each action end before it calls the next one (or is reloaded).\<close>

definition one_at_a_time :: "'k crypto_lib \<Rightarrow> session \<Rightarrow> session_event \<Rightarrow> session \<Rightarrow> bool" where
  "one_at_a_time lib s e s' \<longleftrightarrow>
     session_step lib s e s' \<and> (case e of Called c \<Rightarrow> ss_waiting s = [] \<or> c = C_reload | Arrived _ _ \<Rightarrow> True)"

fun needs_canister :: "waiting \<Rightarrow> bool" where
  "needs_canister (W_setup _) = True"
| "needs_canister (W_unlock _) = True"
| "needs_canister _ = False"

fun needs_user :: "waiting \<Rightarrow> bool" where
  "needs_user (W_init _) = False"
| "needs_user (W_login _) = False"
| "needs_user (W_logout _) = False"
| "needs_user _ = True"

definition signed_in :: "auth_state \<Rightarrow> bool" where
  "signed_in a \<longleftrightarrow> au_authClient a \<noteq> None \<and> au_principal a \<noteq> None"

definition complete_session :: "session \<Rightarrow> bool" where
  "complete_session s \<longleftrightarrow>
     (let a = ss_auth s in
      (au_authStatus a = REGISTERED \<longrightarrow> truthy_str (au_userCanisterId a))
      \<and> (au_authStatus a \<in> {PENDING_SETUP, REGISTERED, VAULT_LOCKED, SETUP_VAULT} \<longrightarrow> signed_in a)
      \<and> (au_userCanisterId a \<noteq> None \<longrightarrow> signed_in a)
      \<and> (au_principal a \<noteq> None \<longrightarrow> au_authClient a \<noteq> None)
      \<and> (case ss_waiting s of
           [] \<Rightarrow> True
         | [w] \<Rightarrow> (needs_user w \<longrightarrow> signed_in a) \<and> (needs_canister w \<longrightarrow> has_canister s)
                   \<and> (\<forall>url. w = W_init (Some url) \<longrightarrow> au_authClient a = None)
                   \<and> (\<forall>n. w = W_login n \<longrightarrow> au_authClient a \<noteq> None)
         | _ \<Rightarrow> False))"

lemma complete_perform:
  assumes "complete_session s" and "ss_waiting s = [] \<or> c = C_reload"
  shows "complete_session (perform c s)"
  using assms
  by (cases c) (auto simp: complete_session_def session_defs Let_def signed_in_def initialAuthState_def truthy_str_def
      registered_def split: option.splits if_splits)

lemma complete_waiting:
  assumes "complete_session s" and "w \<in> set (ss_waiting s)"
  shows "ss_waiting s = [w]"
  using assms by (auto simp: complete_session_def Let_def split: list.splits)

text \<open>The pieces the continuations consist of, started when nothing else waits.\<close>

lemma complete_error: "complete_session s \<Longrightarrow> complete_session (setAuthError m t f s)"
  by (auto simp: complete_session_def setAuthError_def Let_def signed_in_def has_canister_def split: list.splits)

lemma complete_invalid: "complete_session s \<Longrightarrow> ss_waiting s = [] \<Longrightarrow> complete_session (handleInvalidDelegationError s)"
  by (simp add: complete_session_def handleInvalidDelegationError_def logout_def Let_def signed_in_def)

lemma complete_ready: "ss_waiting s = [] \<Longrightarrow> complete_session (client_ready p b s)"
  by (simp add: complete_session_def client_ready_def Let_def signed_in_def)

lemma complete_login_client:
  "complete_session s \<Longrightarrow> ss_waiting s = [] \<Longrightarrow> au_authClient (ss_auth s) \<noteq> None \<Longrightarrow> complete_session (login_client url s)"
  by (auto simp: login_client_def setAuthError_def complete_session_def Let_def signed_in_def)

lemma complete_finish_init: "complete_session s \<Longrightarrow> ss_waiting s = [] \<Longrightarrow> complete_session (finish_init a s)"
  by (simp add: finish_init_def complete_error complete_invalid complete_ready split: client_answer.split option.split)

lemma waiting_finish_init:
  "ss_waiting (finish_init a s) = ss_waiting s \<or> au_authClient (ss_auth (finish_init a s)) = au_authClient (ss_auth s)"
  by (simp add: finish_init_def setAuthError_def handleInvalidDelegationError_def logout_def client_ready_def
      split: client_answer.split option.split)

lemma complete_resume_login:
  assumes "complete_session s" and "ss_waiting s = []" and "au_authClient (ss_auth s) = None"
  shows "complete_session (resume_login url (finish_init a s))"
  using complete_finish_init [OF assms(1,2), of a] waiting_finish_init [of a s] assms
  by (auto simp: resume_login_def complete_error complete_login_client split: option.split)

lemma complete_resolve_error: "complete_session s \<Longrightarrow> ss_waiting s = [] \<Longrightarrow> complete_session (resolve_error e s)"
  by (simp add: resolve_error_def Let_def complete_error complete_invalid)

lemma complete_finish_resolve:
  assumes "complete_session s" and "ss_waiting s = []" and "signed_in (ss_auth s)"
  shows "complete_session (finish_resolve p a s)"
proof -
  have "complete_session (await_task (W_resolve p) s)" "complete_session (await_task (W_verify k v c) s)"
    "complete_session (vault_missing_at c s)" "complete_session (locked_at c s)" for k v c
    using assms by (simp_all add: complete_session_def Let_def vault_missing_at_def locked_at_def signed_in_def)
  with assms show ?thesis
    by (simp add: finish_resolve_def found_canister_def complete_resolve_error split: resolve_answer.split option.split)
qed

lemma complete_confirm:
  "complete_session s \<Longrightarrow> ss_waiting s = [] \<Longrightarrow> signed_in (ss_auth s)
   \<Longrightarrow> complete_session (confirmUserCanisterId c (upd (\<lambda>a. a\<lparr>au_rootKey := k\<rparr>) s))"
  by (auto simp: confirmUserCanisterId_def setAuthError_def complete_session_def Let_def signed_in_def truthy_str_def)

lemma complete_open:
  "complete_session s \<Longrightarrow> ss_waiting s = [] \<Longrightarrow> signed_in (ss_auth s) \<Longrightarrow> has_canister s \<Longrightarrow> complete_session (open_with k s)"
  by (simp add: open_with_def complete_session_def Let_def signed_in_def has_canister_def)

lemma complete_quiet:
  "complete_session s \<Longrightarrow> ss_waiting s = [] \<Longrightarrow> complete_session (s\<lparr>ss_stored := k\<rparr>)"
  "complete_session s \<Longrightarrow> ss_waiting s = [] \<Longrightarrow> complete_session (upd (\<lambda>a. a\<lparr>au_setupError := m\<rparr>) s)"
  "complete_session s \<Longrightarrow> ss_waiting s = [] \<Longrightarrow> complete_session (setUserStorageUsage u l s)"
  by (simp_all add: complete_session_def Let_def signed_in_def setUserStorageUsage_def)

lemma complete_locked:
  "complete_session s \<Longrightarrow> ss_waiting s = [] \<Longrightarrow> signed_in (ss_auth s) \<Longrightarrow> complete_session (locked_at c s)"
  by (simp add: complete_session_def Let_def locked_at_def signed_in_def)

lemma complete_finish_setup:
  "complete_session s \<Longrightarrow> ss_waiting s = [] \<Longrightarrow> signed_in (ss_auth s) \<Longrightarrow> has_canister s
   \<Longrightarrow> complete_session (finish_setup lib pin salt r s)"
  by (simp add: finish_setup_def complete_open complete_quiet split: sum.split option.split)

lemma complete_finish_verify:
  "complete_session s \<Longrightarrow> ss_waiting s = [] \<Longrightarrow> signed_in (ss_auth s) \<Longrightarrow> complete_session (finish_verify lib k v c s)"
  by (simp add: finish_verify_def complete_confirm complete_locked complete_quiet)

lemma complete_finish_login:
  "complete_session s \<Longrightarrow> ss_waiting s = [] \<Longrightarrow> au_authClient (ss_auth s) \<noteq> None \<Longrightarrow> complete_session (finish_login n a s)"
  by (simp add: finish_login_def complete_error split: login_answer.split)
    (simp add: complete_session_def Let_def signed_in_def)

lemma complete_finish_logout: "ss_waiting s = [] \<Longrightarrow> complete_session (finish_logout c ok s)"
  by (simp add: finish_logout_def complete_session_def Let_def signed_in_def)

lemma complete_arrive:
  assumes "complete_session s" and "ss_waiting s = [w]" and "arrive lib w x = Some f"
  shows "complete_session (f (s\<lparr>ss_waiting := []\<rparr>))"
proof -
  let ?r = "s\<lparr>ss_waiting := []\<rparr>"
  have r: "complete_session ?r" "ss_waiting ?r = []" and user: "needs_user w \<Longrightarrow> signed_in (ss_auth ?r)"
    and canister: "needs_canister w \<Longrightarrow> has_canister ?r"
    and client: "w = W_init (Some url) \<Longrightarrow> au_authClient (ss_auth ?r) = None"
    and login: "w = W_login n \<Longrightarrow> au_authClient (ss_auth ?r) \<noteq> None" for url n
    using assms(1,2) by (simp_all add: complete_session_def Let_def has_canister_def)
  from assms(3) show ?thesis
  proof (cases rule: arrive.cases [of "(lib, w, x)"])
    case (1 lib' a)
    with assms(3) show ?thesis by (auto simp: complete_finish_init [OF r])
  next
    case (2 lib' url a)
    with assms(3) client show ?thesis by (auto simp: complete_resume_login [OF r])
  next
    case (3 lib' c a)
    with assms(3) login show ?thesis by (auto simp: complete_finish_login [OF r])
  next
    case (4 lib' c ok)
    with assms(3) show ?thesis by (auto simp: complete_finish_logout)
  next
    case (5 lib' p a)
    with assms(3) user show ?thesis by (auto simp: complete_finish_resolve [OF r])
  next
    case (6 lib' k v c)
    with assms(3) user show ?thesis by (auto simp: complete_finish_verify [OF r])
  next
    case (7 lib' pin salt a)
    with assms(3) user canister show ?thesis by (auto simp: complete_finish_setup [OF r])
  next
    case (8 lib' pin a)
    with assms(3) user canister show ?thesis
      by (auto simp: finish_unlock_def complete_open [OF r] r split: sum.split)
  next
    case (9 lib' a)
    with assms(3) show ?thesis
      by (auto simp: finish_usage_def Let_def complete_quiet [OF r] complete_invalid [OF r] r split: sum.split)
  qed (use assms in simp_all)
qed

lemma complete_step:
  assumes "complete_session s" and "one_at_a_time lib s e s'"
  shows "complete_session s'"
proof -
  from assms(2) have "session_step lib s e s'" by (simp add: one_at_a_time_def)
  then show ?thesis
  proof (cases rule: session_step.cases)
    case (called c)
    with assms show ?thesis by (auto simp: one_at_a_time_def intro: complete_perform)
  next
    case (arrived w x f)
    with complete_waiting [OF assms(1) arrived(3)] complete_arrive [OF assms(1) _ arrived(4)] show ?thesis by simp
  qed
qed

interpretation complete_trace: traced_invariant "one_at_a_time lib" "\<lambda>_. complete_session" for lib :: "'k crypto_lib"
  by unfold_locales (rule complete_step)

text \<open>The key of an open vault, in every run: it is there unless the vault has been cleared.\<close>

definition key_held :: "session_event list \<Rightarrow> session \<Rightarrow> bool" where
  "key_held es s \<longleftrightarrow>
     (au_authStatus (ss_auth s) = REGISTERED \<longrightarrow> truthy_str (au_rootKey (ss_auth s)) \<or> Called C_clearVault \<in> set es)
     \<and> (\<forall>k v c. W_verify k v c \<in> set (ss_waiting s) \<longrightarrow> k \<noteq> [])"

text \<open>What most operations do: they open no vault, keep the key of an open one, and start no check.\<close>

definition opens_nothing :: "session \<Rightarrow> session \<Rightarrow> bool" where
  "opens_nothing s s' \<longleftrightarrow>
     (au_authStatus (ss_auth s') = REGISTERED \<longrightarrow>
        au_authStatus (ss_auth s) = REGISTERED \<and> au_rootKey (ss_auth s') = au_rootKey (ss_auth s))
     \<and> (\<forall>k v c. W_verify k v c \<in> set (ss_waiting s') \<longrightarrow> W_verify k v c \<in> set (ss_waiting s))"

lemma opens_nothing_refl [simp]: "opens_nothing s s"
  by (simp add: opens_nothing_def)

lemma opens_nothing_trans: "opens_nothing s s' \<Longrightarrow> opens_nothing s' s'' \<Longrightarrow> opens_nothing s s''"
  by (simp add: opens_nothing_def)

lemma key_held_quiet: "key_held es s \<Longrightarrow> opens_nothing s s' \<Longrightarrow> key_held (es @ [e]) s'"
  unfolding key_held_def opens_nothing_def by (metis UnCI set_append)

lemma key_held_open: "key_held es s \<Longrightarrow> k \<noteq> [] \<Longrightarrow> key_held (es @ [e]) (open_with k s)"
  by (auto simp: key_held_def open_with_def truthy_str_def)

lemma finish_opens_nothing [simp]:
  "opens_nothing s (setAuthError m t f s)" "opens_nothing s (client_ready p b s)" "opens_nothing s (finish_init a s)"
  "opens_nothing s (login_client url s)" "opens_nothing s (resume_login url s)" "opens_nothing s (finish_login n l s)"
  "opens_nothing s (resolve_error err s)" "opens_nothing s (finish_usage u s)" "opens_nothing s (finish_logout c b s)"
  "opens_nothing s (locked_at c' s)" "opens_nothing s (vault_missing_at c' s)"
  by (auto simp: opens_nothing_def session_defs Let_def split: option.split sum.split client_answer.split login_answer.split)

lemma perform_opens_nothing: "c \<noteq> C_clearVault \<Longrightarrow> opens_nothing s (perform c s)"
  by (cases c) (auto simp: opens_nothing_def session_defs Let_def initialAuthState_def split: option.split)

lemma removed_opens_nothing: "opens_nothing s (s\<lparr>ss_waiting := remove1 w (ss_waiting s)\<rparr>)"
  using set_remove1_subset [of w "ss_waiting s"] by (auto simp: opens_nothing_def)

lemma finish_resolve_held: "key_held es s \<Longrightarrow> key_held (es @ [e]) (finish_resolve p a s)"
proof -
  assume held: "key_held es s"
  have "opens_nothing s (s\<lparr>ss_waiting := ss_waiting s @ [W_resolve p]\<rparr>)" by (simp add: opens_nothing_def)
  moreover have "key_held (es @ [e]) (await_task (W_verify (the (ss_stored s)) v c) s)" if "truthy_str (ss_stored s)" for v c
    using held that by (auto simp: key_held_def truthy_str_def)
  ultimately show ?thesis
    by (auto simp: finish_resolve_def found_canister_def intro: key_held_quiet [OF held] split: resolve_answer.split option.split)
qed

lemma finish_verify_held:
  assumes "key_held es s" and "k \<noteq> []"
  shows "key_held (es @ [e]) (finish_verify lib k v c s)"
  using assms by (auto simp: key_held_def finish_verify_def locked_at_def confirmUserCanisterId_def setAuthError_def truthy_str_def)

lemma unlock_key_text: "unlock_key lib pin a = Inr k \<Longrightarrow> k \<noteq> []"
  by (cases a) (auto simp: unlock_key_def split: option.splits if_splits)

lemma key_held_step:
  assumes "\<And>seed. cl_bech32 lib seed \<noteq> []" and "key_held es s" and "session_step lib s e s'"
  shows "key_held (es @ [e]) s'"
  using assms(3)
proof (cases rule: session_step.cases)
  case (called c)
  show ?thesis
  proof (cases "c = C_clearVault")
    case True
    with called assms(2) show ?thesis by (auto simp: key_held_def clearVault_def)
  qed (use called key_held_quiet [OF assms(2) perform_opens_nothing] in simp)
next
  case (arrived w x f)
  let ?r = "s\<lparr>ss_waiting := remove1 w (ss_waiting s)\<rparr>"
  have r: "key_held es ?r"
    using assms(2) removed_opens_nothing [of s w] unfolding key_held_def opens_nothing_def by metis
  from arrived(3) show ?thesis
  proof (cases rule: arrive.cases [of "(lib, w, x)"])
    case (2 lib' url a)
    have "opens_nothing ?r (resume_login url (finish_init a ?r))"
      by (rule opens_nothing_trans [of _ "finish_init a ?r"]) simp_all
    with 2 arrived key_held_quiet [OF r] show ?thesis by auto
  next
    case (5 lib' p a)
    with arrived finish_resolve_held [OF r] show ?thesis by auto
  next
    case (6 lib' k v c)
    with arrived assms(2) have "k \<noteq> []" unfolding key_held_def by blast
    with 6 arrived finish_verify_held [OF r] show ?thesis by auto
  next
    case (7 lib' pin salt a)
    have "to_upper w \<noteq> []" if "w \<noteq> []" for w
      using that by (cases w) (simp_all add: to_upper_def upper_char_def Let_def)
    with assms(1) have "deriveRootKey lib pin salt \<noteq> []" by (simp add: deriveRootKey_def toAgeSecretKey_def)
    then have "key_held (es @ [e]) (finish_setup lib pin salt a ?r)"
      using key_held_open [OF r] key_held_quiet [OF r]
      by (auto simp: finish_setup_def vault_data_def Let_def opens_nothing_def split: sum.split option.split)
    with 7 arrived show ?thesis by auto
  next
    case (8 lib' pin a)
    have "key_held (es @ [e]) (finish_unlock lib pin a ?r)"
      using key_held_open [OF r unlock_key_text] key_held_quiet [OF r opens_nothing_refl]
      by (auto simp: finish_unlock_def split: sum.split)
    with 8 arrived show ?thesis by auto
  qed (use arrived key_held_quiet [OF r] in auto)
qed

lemma key_held_run:
  assumes "\<And>seed. cl_bech32 lib seed \<noteq> []" and "trace_run (session_step lib) (opened key) es s"
  shows "key_held es s"
  using assms(2)
proof (induction es arbitrary: s rule: rev_induct)
  case Nil
  then show ?case by (simp add: key_held_def opened_def initialAuthState_def)
next
  case (snoc e es)
  then obtain s' where "trace_run (session_step lib) (opened key) es s'" "session_step lib s' e s" by auto
  with snoc.IH show ?case by (intro key_held_step [OF assms(1)])
qed

text \<open>
  C20: when the page lets each action end before it calls the next one, a session is complete. Whenever its
  status is \<open>REGISTERED\<close>, both guards of the other stores hold, that of a client and a canister and, unless \<open>clearVault\<close> (which
  nothing in the frontend calls) has dropped the key, that of the vault's key; whenever it waits for the
  PIN or has opened the vault there is a client and a principal; and at most one action is under way. It is assumed that
  the encoding of a derived key is not the empty text.
\<close>

theorem registered_session_complete:
  assumes "\<And>seed. cl_bech32 lib seed \<noteq> []" and "trace_run (one_at_a_time lib) (opened key) es s"
  shows "(au_authStatus (ss_auth s) = REGISTERED \<longrightarrow>
        registered (ss_auth s) \<and> (Called C_clearVault \<notin> set es \<longrightarrow> vault_open (ss_auth s) \<and> session_ready (ss_auth s)))
    \<and> (au_authStatus (ss_auth s) \<in> {PENDING_SETUP, REGISTERED, VAULT_LOCKED, SETUP_VAULT} \<longrightarrow> signed_in (ss_auth s))
    \<and> length (ss_waiting s) \<le> 1"
proof -
  have "complete_session (opened key)" by (simp add: complete_session_def opened_def initialAuthState_def)
  with complete_trace.inv_run [OF assms(2)] have "complete_session s" by blast
  moreover have "trace_run (session_step lib) (opened key) es s"
    using assms(2) by (rule trace_run_mono) (simp add: one_at_a_time_def)
  then have "key_held es s" by (rule key_held_run [OF assms(1)])
  ultimately show ?thesis
    by (auto simp: complete_session_def key_held_def Let_def registered_def vault_open_def session_ready_def signed_in_def
        split: list.splits)
qed

lemma first_visit_alone: "trace_run (one_at_a_time example_lib) (opened None) first_visit after_first_visit"
  unfolding first_visit_def trace_run_Cons one_at_a_time_def det.step_exec
  by (simp add: after_first_visit_def session_defs opened_def initialAuthState_def
      truthy_str_def vault_data_def encryptValidator_def example_lib_def Let_def)

lemma registered_session_complete_witness: "vault_open (ss_auth after_first_visit) \<and> signed_in (ss_auth after_first_visit)"
proof -
  have "au_authStatus (ss_auth after_first_visit) = REGISTERED" by (simp add: after_first_visit_def open_with_def)
  moreover have "cl_bech32 example_lib seed \<noteq> []" for seed by (simp add: example_lib_def)
  moreover have "Called C_clearVault \<notin> set first_visit" by (simp add: first_visit_def)
  ultimately show ?thesis using registered_session_complete [OF _ first_visit_alone] by simp
qed

section \<open>The next visit\<close>

text \<open>
  What the canister answers after a vault was set up with a salt and a validator, and the events of a visit up to
  the check of the vault.
\<close>

definition vault_answer :: "bytes \<Rightarrow> string \<Rightarrow> whoami_answer" where
  "vault_answer salt v = \<lparr>wh_enc_salt = Some salt, wh_enc_validator = Some v\<rparr>"

definition revisit :: "string \<Rightarrow> string \<Rightarrow> whoami_answer \<Rightarrow> session_event list" where
  "revisit p c w =
     [Called C_reload, Called C_initAuth, Arrived (W_init None) (A_init (Has_Session p None)), Called C_resolveUserSession,
      Arrived (W_resolve p) (A_resolve (Finalized c w))]"

definition revisited :: "string \<Rightarrow> session \<Rightarrow> session" where
  "revisited p s = client_ready p True (upd (\<lambda>a. a\<lparr>au_setupError := None, au_isSessionExpired := False\<rparr>) (reload s))"

lemma revisit_exec:
  assumes "p \<noteq> ''''"
  shows "exec_trace (exec_event lib) (revisit p c w @ es) s = exec_trace (exec_event lib) es (found_canister c w (revisited p s))"
  using assms by (simp add: revisit_def revisited_def session_defs initialAuthState_def truthy_str_def)

lemma vault_answer_simps [simp]: "wh_enc_salt (vault_answer salt v) = Some salt" "wh_enc_validator (vault_answer salt v) = Some v"
  by (simp_all add: vault_answer_def)

text \<open>
  C17: a vault opens again. After a vault was set up with a PIN, a later visit of the page whose canister answers
  with the salt and the validator of that set-up opens it without the PIN when the storage still holds the key,
  under the same key and with the guards of all stores satisfied; without a stored key it waits for the PIN, the
  PIN of the set-up gives the same key back, and a PIN whose key does not fit the validator is refused and changes
  nothing.
\<close>

theorem vault_opens_again:
  assumes "age_law lib" and "base64_law lib" and "encryptValidator lib k = Inr v" and "k = deriveRootKey lib pin salt"
    and "p \<noteq> ''''" and "c \<noteq> ''''" and "k \<noteq> ''''" and "v \<noteq> ''''"
  shows "(\<exists>s'. trace_run (session_step lib) (finish_setup lib pin salt None s)
            (revisit p c (vault_answer salt v) @ [Arrived (W_verify k v c) A_verify]) s'
          \<and> vault_open (ss_auth s') \<and> au_rootKey (ss_auth s') = Some k \<and> au_userCanisterId (ss_auth s') = Some c)
    \<and> (\<exists>s1. trace_run (session_step lib) (opened None) (revisit p c (vault_answer salt v)) s1
          \<and> au_authStatus (ss_auth s1) = VAULT_LOCKED
          \<and> (\<exists>s2. trace_run (session_step lib) s1
                [Called (C_unlockVault pin), Arrived (W_unlock pin) (A_unlock (Inr (vault_answer salt v)))] s2
                \<and> vault_open (ss_auth s2) \<and> au_rootKey (ss_auth s2) = Some k)
          \<and> (\<forall>pin'. \<not> verifyKey lib (deriveRootKey lib pin' salt) v \<longrightarrow>
                unlock_key lib pin' (Inr (vault_answer salt v)) = Inl (js_Error ''Incorrect PIN'')
                \<and> trace_run (session_step lib) s1
                    [Called (C_unlockVault pin'), Arrived (W_unlock pin') (A_unlock (Inr (vault_answer salt v)))] s1))"
    (is "_ \<and> ?locked")
proof -
  have valid: "verifyKey lib k v" using validator_opens assms(1-3) .
  have made: "finish_setup lib pin salt None s = open_with k s"
    using assms(3,4) by (simp add: finish_setup_def vault_data_def)
  have right: "unlock_key lib pin (Inr (vault_answer salt v)) = Inr k"
    using valid assms(4,7,8) verifyPin_iff [of lib pin salt v k] by (simp add: unlock_key_def)
  have wrong: "unlock_key lib pin' (Inr (vault_answer salt v)) = Inl (js_Error ''Incorrect PIN'')"
    if "\<not> verifyKey lib (deriveRootKey lib pin' salt) v" for pin'
    using that assms(8) verifyPin_iff [of lib pin' salt v] by (auto simp: unlock_key_def split: option.split)
  note facts = det.run_exec revisit_exec [OF assms(5)] made revisited_def found_canister_def locked_at_def
    finish_verify_def confirmUserCanisterId_def open_with_def client_ready_def reload_def opened_def initialAuthState_def
    truthy_str_def vault_open_def registered_def unlockVault_def has_canister_def finish_unlock_def right
  have visit: "exec_trace (exec_event lib) (revisit p c (vault_answer salt v)) (opened None)
      = Some (locked_at c (revisited p (opened None)))"
    using assms(8) revisit_exec [OF assms(5), of lib c "vault_answer salt v" "[]"]
    by (simp add: found_canister_def truthy_str_def revisited_def client_ready_def reload_def opened_def)
  have again: "\<exists>s'. trace_run (session_step lib) (finish_setup lib pin salt None s)
          (revisit p c (vault_answer salt v) @ [Arrived (W_verify k v c) A_verify]) s'
        \<and> vault_open (ss_auth s') \<and> au_rootKey (ss_auth s') = Some k \<and> au_userCanisterId (ss_auth s') = Some c"
      using valid assms(6,7,8) by (simp del: trace_run_snoc add: facts)
  have locked: "?locked"
  proof (rule exI [of _ "locked_at c (revisited p (opened None))"], intro conjI allI impI)
    show "trace_run (session_step lib) (opened None) (revisit p c (vault_answer salt v)) (locked_at c (revisited p (opened None)))"
      using visit by (simp add: det.run_exec)
    show "\<exists>s2. trace_run (session_step lib) (locked_at c (revisited p (opened None)))
          [Called (C_unlockVault pin), Arrived (W_unlock pin) (A_unlock (Inr (vault_answer salt v)))] s2
        \<and> vault_open (ss_auth s2) \<and> au_rootKey (ss_auth s2) = Some k"
      using assms(6,7) by (simp add: facts)
  next
    fix pin' assume w: "\<not> verifyKey lib (deriveRootKey lib pin' salt) v"
    show "unlock_key lib pin' (Inr (vault_answer salt v)) = Inl (js_Error ''Incorrect PIN'')" using wrong [OF w] .
    show "trace_run (session_step lib) (locked_at c (revisited p (opened None)))
        [Called (C_unlockVault pin'), Arrived (W_unlock pin') (A_unlock (Inr (vault_answer salt v)))]
        (locked_at c (revisited p (opened None)))"
      using wrong [OF w] assms(6) by (simp add: facts)
  qed (simp add: locked_at_def)
  from again locked show ?thesis by (rule conjI)
qed

lemma vault_opens_again_witness:
  "\<exists>s'. trace_run (session_step example_lib) (finish_setup example_lib ''1234'' [] None (opened None))
        (revisit ''p'' ''c'' (vault_answer []
            (btoa (utf8_encode (''age1'' @ deriveRootKey example_lib ''1234'' []) @ utf8_encode ''GPT-VALID'')))
          @ [Arrived (W_verify (deriveRootKey example_lib ''1234'' [])
              (btoa (utf8_encode (''age1'' @ deriveRootKey example_lib ''1234'' []) @ utf8_encode ''GPT-VALID'')) ''c'') A_verify]) s'
      \<and> vault_open (ss_auth s')"
proof -
  have v: "encryptValidator example_lib (deriveRootKey example_lib ''1234'' [])
      = Inr (btoa (utf8_encode (''age1'' @ deriveRootKey example_lib ''1234'' []) @ utf8_encode ''GPT-VALID''))"
    by (simp add: encryptValidator_def example_lib_def)
  have k: "deriveRootKey example_lib ''1234'' [] \<noteq> ''''" by code_simp
  have "btoa (utf8_encode (''age1'' @ deriveRootKey example_lib ''1234'' []) @ utf8_encode ''GPT-VALID'') \<noteq> ''''"
    by code_simp
  with vault_opens_again [OF example_lib_laws(2,3) v refl, of "''p''" "''c''" "opened None"] k show ?thesis by auto
qed

section \<open>What a logout leaves\<close>

text \<open>
  C25: a logout forgets the vault's key unless an action is still under way. When nothing else waits, the key is
  gone from memory and storage once the logout has ended, together with the user, and the other stores have been
  reset; but an unlocking that was started before and whose answer arrives afterwards puts the key back into
  memory and into the session storage and makes the session \<open>REGISTERED\<close> again, without a user.
\<close>

theorem logout_forgets_key_unless_unlocking:
  assumes "has_canister s" and "ss_waiting s = []" and "unlock_key lib pin a = Inr k"
  shows "(\<exists>s'. trace_run (session_step lib) s [Called C_logout, Arrived (W_logout (Some (ss_client s))) (A_logout ok)] s'
          \<and> au_rootKey (ss_auth s') = None \<and> ss_stored s' = None \<and> au_principal (ss_auth s') = None
          \<and> au_authStatus (ss_auth s') = UNAUTHENTICATED \<and> ss_resets s' = Suc (ss_resets s))
    \<and> (\<exists>s'. trace_run (session_step lib) s
            [Called (C_unlockVault pin), Called C_logout, Arrived (W_logout (Some (ss_client s))) (A_logout ok), Arrived (W_unlock pin) (A_unlock a)] s'
          \<and> au_rootKey (ss_auth s') = Some k \<and> ss_stored s' = Some k \<and> au_principal (ss_auth s') = None
          \<and> au_authStatus (ss_auth s') = REGISTERED \<and> \<not> registered (ss_auth s'))"
  using assms
  by (simp add: det.run_exec has_canister_def unlockVault_def logout_def finish_logout_def finish_unlock_def open_with_def
      registered_def truthy_str_def)

definition locked_session :: session where
  "locked_session = locked_at ''c'' (client_ready ''p'' True (opened None))"

lemma logout_forgets_key_unless_unlocking_witness:
  "\<exists>s'. trace_run (session_step example_lib) locked_session
        [Called (C_unlockVault ''1234''), Called C_logout, Arrived (W_logout (Some 1)) (A_logout True),
         Arrived (W_unlock ''1234'') (A_unlock (Inr (vault_answer [] (btoa (utf8_encode (''age1'' @ deriveRootKey example_lib ''1234'' []) @ utf8_encode ''GPT-VALID'')))))] s'
      \<and> ss_stored s' = Some (deriveRootKey example_lib ''1234'' [])"
proof -
  have "unlock_key example_lib ''1234'' (Inr (vault_answer [] (btoa (utf8_encode (''age1'' @ deriveRootKey example_lib ''1234'' []) @ utf8_encode ''GPT-VALID''))))
      = Inr (deriveRootKey example_lib ''1234'' [])"
    by code_simp
  moreover have "has_canister locked_session" "ss_waiting locked_session = []"
    by (simp_all add: locked_session_def has_canister_def locked_at_def client_ready_def opened_def truthy_str_def)
  moreover have "ss_client locked_session = 1" by (simp add: locked_session_def locked_at_def client_ready_def opened_def)
  ultimately show ?thesis using logout_forgets_key_unless_unlocking [of locked_session] by metis
qed

section \<open>A failed start\<close>

text \<open>
  A failed start cannot be retried: when the authentication client cannot be created the session shows an
  error that is not the one \<open>retryUserSetup\<close> looks for, and with no user known the retry button then does nothing
  at all, however often it is pressed.
\<close>

theorem failed_start_not_retried:
  "\<exists>s. trace_run (session_step lib) (opened key) [Called C_initAuth, Arrived (W_init None) (A_init Create_Failed)] s
      \<and> au_authStatus (ss_auth s) = SETUP_ERROR \<and> \<not> au_isFatalError (ss_auth s)
      \<and> trace_run (session_step lib) s (replicate n (Called C_retryUserSetup)) s"
proof -
  let ?s = "setAuthError (Some ''Critical: AuthClient initialization failed. Please try refreshing the page.'') None False
    (upd (\<lambda>a. a\<lparr>au_setupError := None, au_isSessionExpired := False\<rparr>) (opened key))"
  have "retryUserSetup ?s = ?s"
    by (simp add: retryUserSetup_def setAuthError_def CRITICAL_INIT_ERROR_MSG_def opened_def initialAuthState_def truthy_str_def)
  then have "exec_trace (exec_event lib) (replicate n (Called C_retryUserSetup)) ?s = Some ?s" by (induction n) simp_all
  then show ?thesis
    by (intro exI [of _ ?s]) (simp add: det.run_exec initAuth_def begin_init_def finish_init_def setAuthError_def opened_def initialAuthState_def)
qed

section \<open>Finding the canister ends\<close>

definition again :: "string \<Rightarrow> session_event" where
  "again p = Arrived (W_resolve p) (A_resolve (Unassigned None))"

lemma exec_again:
  assumes "ss_waiting s = [W_resolve p]"
  shows "exec_trace (exec_event lib) (replicate n (again p) @ es) s = exec_trace (exec_event lib) es s"
proof (induction n)
  case (Suc n)
  have "s\<lparr>ss_waiting := [W_resolve p]\<rparr> = s" using assms by simp
  with assms have "exec_event lib (again p) s = Some s" by (simp add: again_def finish_resolve_def)
  with Suc show ?case by simp
qed simp

definition resolved :: "auth_status set" where
  "resolved = {SETUP_VAULT, VAULT_LOCKED, REGISTERED, SETUP_ERROR, UNAUTHENTICATED}"

lemma resolve_error_ends:
  assumes "ss_waiting s = []" and "\<not> au_isSessionExpired (ss_auth s)"
  shows "\<exists>rest s'. exec_trace (exec_event lib) rest (resolve_error e s) = Some s' \<and> length rest \<le> 1 \<and> ss_waiting s' = []
    \<and> au_authStatus (ss_auth s') \<in> resolved"
proof (cases "message_includes e ''delegation is invalid'' \<or> message_includes e ''cryptographic verification failed''")
  case True
  let ?had = "if au_authClient (ss_auth s) = None then None else Some (ss_client s)"
  from True assms show ?thesis
    by (intro exI [of _ "[Arrived (W_logout ?had) (A_logout True)]"])
      (simp add: resolve_error_def handleInvalidDelegationError_def logout_def finish_logout_def resolved_def)
next
  case False
  with assms show ?thesis
    by (intro exI [of _ "[]"]) (simp add: resolve_error_def Let_def setAuthError_def resolved_def)
qed

lemma found_ends:
  assumes "ss_waiting s = []"
  shows "\<exists>rest s'. exec_trace (exec_event lib) rest (found_canister c w s) = Some s' \<and> length rest \<le> 1 \<and> ss_waiting s' = []
    \<and> au_authStatus (ss_auth s') \<in> resolved"
proof (cases "wh_enc_salt w \<noteq> None \<and> truthy_str (wh_enc_validator w) \<and> truthy_str (ss_stored s)")
  case True
  with assms show ?thesis
    by (intro exI [of _ "[Arrived (W_verify (the (ss_stored s)) (the (wh_enc_validator w)) c) A_verify]"])
      (simp add: found_canister_def finish_verify_def confirmUserCanisterId_def setAuthError_def locked_at_def resolved_def)
next
  case False
  with assms show ?thesis
    by (intro exI [of _ "[]"]) (auto simp: found_canister_def locked_at_def vault_missing_at_def resolved_def)
qed

text \<open>
  The search for the user's canister comes to an end with the first conclusive answer: however many rounds
  of registering the user and asking again went before, an answer that names a canister, or any error, leads
  within one more step (checking a cached key or logging out) to one of the states the page shows, with nothing
  under way; there is no bound on the rounds themselves.
\<close>

theorem resolving_ends:
  assumes "ss_waiting s = [W_resolve p]" and "\<not> au_isSessionExpired (ss_auth s)" and "a \<noteq> Unassigned None"
  shows "\<exists>rest s'. trace_run (session_step lib) s (replicate n (again p) @ [Arrived (W_resolve p) (A_resolve a)] @ rest) s'
      \<and> length rest \<le> 1 \<and> ss_waiting s' = [] \<and> au_authStatus (ss_auth s') \<in> resolved"
proof -
  let ?r = "s\<lparr>ss_waiting := []\<rparr>"
  have "\<exists>rest s'. exec_trace (exec_event lib) rest (finish_resolve p a ?r) = Some s' \<and> length rest \<le> 1 \<and> ss_waiting s' = []
      \<and> au_authStatus (ss_auth s') \<in> resolved"
    using resolve_error_ends [of ?r lib] found_ends [of ?r lib] assms
    by (cases a) (auto simp: finish_resolve_def vault_missing_at_def resolved_def intro: exI [of _ "[]"] split: option.split)
  then show ?thesis unfolding det.run_exec exec_again [OF assms(1)] using assms(1) by simp
qed

lemma resolving_ends_witness:
  "\<exists>rest s'. trace_run (session_step example_lib) (resolveUserSession (client_ready ''p'' True (opened None)))
        (replicate 2 (again ''p'') @ [Arrived (W_resolve ''p'') (A_resolve (Unfinalized ''c''))] @ rest) s'
      \<and> au_authStatus (ss_auth s') \<in> resolved"
proof -
  let ?s = "resolveUserSession (client_ready ''p'' True (opened None))"
  have "ss_waiting ?s = [W_resolve ''p'']" "\<not> au_isSessionExpired (ss_auth ?s)"
    by (simp_all add: resolveUserSession_def client_ready_def opened_def initialAuthState_def truthy_str_def Let_def)
  from resolving_ends [OF this, of "Unfinalized ''c''" example_lib 2] show ?thesis by blast
qed

end
