(* ===== verification/Canister_Types.thy ===== *)
theory Canister_Types
  imports Candid_Adapter
begin

text \<open>
  The argument types of the canisters' methods, as their interface files declare them:
  \<open>src/candid/declarations/gpt_user.did.js\<close> (names with \<open>U_\<close>) and \<open>gpt_index.did.js\<close> (names with \<open>X_\<close>). They are
  what the payload adapter is run with. The types of results are not needed there and left out,
  except the errors.
\<close>

abbreviation Nat64 :: idl where "Nat64 \<equiv> IDL_FixedNat 64"

abbreviation Nat32 :: idl where "Nat32 \<equiv> IDL_FixedNat 32"

abbreviation Nat8 :: idl where "Nat8 \<equiv> IDL_FixedNat 8"

section \<open>The user canister\<close>

definition U_Tool :: idl where
  "U_Tool = IDL_Record [(''name'', IDL_Text),
      (''parameters'', IDL_Text),
      (''description'', IDL_Text)]"

definition U_Role :: idl where
  "U_Role = IDL_Variant [(''System'', IDL_Null),
      (''Tool'', IDL_Null),
      (''User'', IDL_Null),
      (''Assistant'', IDL_Null)]"

definition U_ImageAttachment :: idl where
  "U_ImageAttachment = IDL_Record [(''data'', IDL_Vec Nat8),
      (''mime_type'', IDL_Text)]"

definition U_AddMessageRequest :: idl where
  "U_AddMessageRequest = IDL_Record [(''custom_prompt'', IDL_Opt IDL_Text),
      (''tools'', IDL_Opt (IDL_Vec U_Tool)),
      (''node_id'', Nat64),
      (''content'', IDL_Vec Nat8),
      (''temperature'', IDL_Float 32),
      (''encrypted_chat_key'', IDL_Opt IDL_Text),
      (''role'', U_Role),
      (''parent_message_id'', IDL_Opt Nat64),
      (''max_completion_tokens'', Nat32),
      (''reasoning_effort'', IDL_Opt IDL_Text),
      (''model_id'', IDL_Text),
      (''chat_id'', Nat64),
      (''attachments'', IDL_Opt (IDL_Vec U_ImageAttachment)),
      (''max_context'', Nat32)]"

definition U_FunctionCall :: idl where
  "U_FunctionCall = IDL_Record [(''name'', IDL_Text),
      (''arguments'', IDL_Text)]"

definition U_ToolCall :: idl where
  "U_ToolCall = IDL_Record [(''id'', IDL_Text),
      (''function'', U_FunctionCall),
      (''type'', IDL_Text)]"

definition U_ProviderErrorType :: idl where
  "U_ProviderErrorType = IDL_Variant [(''InvalidImage'', IDL_Text),
      (''NetworkError'', IDL_Null),
      (''ContentPolicyViolation'', IDL_Null),
      (''ContextLengthExceeded'', IDL_Null),
      (''ServiceUnavailable'', IDL_Null),
      (''RateLimited'', IDL_Null),
      (''Timeout'', IDL_Null),
      (''Unknown'', IDL_Text),
      (''AuthenticationError'', IDL_Null),
      (''BadRequest'', IDL_Null),
      (''ServerError'', IDL_Null)]"

definition U_MessageErrorStatus :: idl where
  "U_MessageErrorStatus = IDL_Variant [(''NodeOffline'', IDL_Null),
      (''ProviderError'', U_ProviderErrorType),
      (''Timeout'', IDL_Null),
      (''Unknown'', IDL_Text),
      (''ConfigurationError'', IDL_Text),
      (''CanisterCallError'', IDL_Text),
      (''InvalidState'', IDL_Text)]"

definition U_TokenUsage :: idl where
  "U_TokenUsage = IDL_Record [(''completion_tokens'', Nat32),
      (''prompt_tokens'', Nat32),
      (''total_tokens'', Nat32)]"

definition U_ToolResult :: idl where
  "U_ToolResult = IDL_Record [(''content'', IDL_Text),
      (''error'', IDL_Opt IDL_Text),
      (''tool_call_id'', IDL_Text)]"

definition U_CanisterError :: idl where
  "U_CanisterError = IDL_Variant [(''CannotDeleteRootFolder'', IDL_Null),
      (''UserAlreadyRegistered'', IDL_Null),
      (''InvalidFileName'', IDL_Text),
      (''DeleteNonEmptyFolder'', IDL_Null),
      (''ModelNotFound'', IDL_Null),
      (''InvalidPathDepth'', IDL_Null),
      (''InvalidInput'', IDL_Text),
      (''UnsupportedMimeType'', IDL_Text),
      (''PoolExhausted'', IDL_Null),
      (''NoAvailableUserCanister'', IDL_Null),
      (''MessageNotFound'', IDL_Null),
      (''FileSystemLimitExceeded'', IDL_Text),
      (''ChatNotFound'', IDL_Null),
      (''Unauthorized'', IDL_Null),
      (''FileNotFound'', IDL_Null),
      (''CallError'', IDL_Text),
      (''PathNotFound'', IDL_Null),
      (''ItemNameCollision'', IDL_Text),
      (''GenerationInProgress'', IDL_Null),
      (''NodeNotFound'', IDL_Null),
      (''InvalidSecretKey'', IDL_Null),
      (''FolderNotFound'', IDL_Null),
      (''Other'', IDL_Text),
      (''TrialExpired'', IDL_Null),
      (''RoleAlreadyClaimed'', IDL_Null),
      (''UserNotFound'', IDL_Null)]"

definition U_ArchiveChatRequest :: idl where
  "U_ArchiveChatRequest = IDL_Record [(''chat_id'', Nat64)]"

definition U_ClaimJobRequest :: idl where
  "U_ClaimJobRequest = IDL_Record [(''job_id'', Nat64)]"

definition U_JobCompletionResult :: idl where
  "U_JobCompletionResult = IDL_Variant [(''Success'', IDL_Vec Nat8),
      (''ToolCall'', IDL_Vec U_ToolCall),
      (''Failure'', U_MessageErrorStatus)]"

definition U_CompleteJobRequest :: idl where
  "U_CompleteJobRequest = IDL_Record [(''result'', U_JobCompletionResult),
      (''job_id'', Nat64),
      (''usage'', IDL_Opt U_TokenUsage)]"

definition U_ToolResponseMessage :: idl where
  "U_ToolResponseMessage = IDL_Record [(''content'', IDL_Vec Nat8),
      (''tool_call_id'', IDL_Text)]"

definition U_ContinueFromToolResponseRequest :: idl where
  "U_ContinueFromToolResponseRequest = IDL_Record [(''custom_prompt'', IDL_Opt IDL_Text),
      (''tools'', IDL_Opt (IDL_Vec U_Tool)),
      (''node_id'', Nat64),
      (''responses'', IDL_Vec U_ToolResponseMessage),
      (''assistant_message_id'', Nat64),
      (''temperature'', IDL_Float 32),
      (''encrypted_chat_key'', IDL_Opt IDL_Text),
      (''max_completion_tokens'', Nat32),
      (''reasoning_effort'', IDL_Opt IDL_Text),
      (''model_id'', IDL_Text),
      (''chat_id'', Nat64),
      (''max_context'', Nat32)]"

definition U_CreateChatRequest :: idl where
  "U_CreateChatRequest = IDL_Record [(''custom_prompt'', IDL_Opt IDL_Text),
      (''title'', IDL_Text),
      (''tools'', IDL_Opt (IDL_Vec U_Tool)),
      (''node_id'', Nat64),
      (''temperature'', IDL_Float 32),
      (''encrypted_chat_key'', IDL_Opt IDL_Text),
      (''max_completion_tokens'', Nat32),
      (''initial_message'', IDL_Vec Nat8),
      (''encryption_salt'', IDL_Vec Nat8),
      (''model_id'', IDL_Text),
      (''temporary'', IDL_Bool),
      (''attachments'', IDL_Opt (IDL_Vec U_ImageAttachment)),
      (''max_context'', Nat32)]"

definition U_CreateFolderRequest :: idl where
  "U_CreateFolderRequest = IDL_Record [(''name'', IDL_Text),
      (''parent_folder_id'', Nat64)]"

definition U_DeleteChatRequest :: idl where
  "U_DeleteChatRequest = IDL_Record [(''chat_id'', Nat64)]"

definition U_FsItemType :: idl where
  "U_FsItemType = IDL_Variant [(''Folder'', IDL_Null),
      (''File'', IDL_Null)]"

definition U_DeleteItemRequest :: idl where
  "U_DeleteItemRequest = IDL_Record [(''item_type'', U_FsItemType),
      (''item_id'', Nat64)]"

definition U_EditUserMessageRequest :: idl where
  "U_EditUserMessageRequest = IDL_Record [(''custom_prompt'', IDL_Opt IDL_Text),
      (''old_user_message_id'', Nat64),
      (''tools'', IDL_Opt (IDL_Vec U_Tool)),
      (''node_id'', Nat64),
      (''temperature'', IDL_Float 32),
      (''encrypted_chat_key'', IDL_Opt IDL_Text),
      (''max_completion_tokens'', Nat32),
      (''new_content'', IDL_Vec Nat8),
      (''reasoning_effort'', IDL_Opt IDL_Text),
      (''model_id'', IDL_Text),
      (''chat_id'', Nat64),
      (''attachments'', IDL_Opt (IDL_Vec U_ImageAttachment)),
      (''max_context'', Nat32)]"

definition U_FinalizeRegistrationRequest :: idl where
  "U_FinalizeRegistrationRequest = IDL_Record [(''enc_salt'', IDL_Vec Nat8),
      (''enc_validator'', IDL_Text)]"

definition U_GetChatRequest :: idl where
  "U_GetChatRequest = IDL_Record [(''chat_id'', Nat64)]"

definition U_GetFileContentRequest :: idl where
  "U_GetFileContentRequest = IDL_Record [(''file_id'', Nat64)]"

definition U_GetFolderContentRequest :: idl where
  "U_GetFolderContentRequest = IDL_Record [(''folder_id'', IDL_Opt Nat64)]"

definition U_TextChunk :: idl where
  "U_TextChunk = IDL_Record [(''chunk_index'', Nat32),
      (''end_char'', Nat32),
      (''start_char'', Nat32),
      (''embedding'', IDL_Vec Nat8)]"

definition U_GetItemByPathRequest :: idl where
  "U_GetItemByPathRequest = IDL_Record [(''path'', IDL_Text)]"

definition U_GetMessageRequest :: idl where
  "U_GetMessageRequest = IDL_Record [(''message_id'', Nat64)]"

definition U_IsUserFinalizedRequest :: idl where
  "U_IsUserFinalizedRequest = IDL_Record [(''user_principal'', IDL_Principal)]"

definition U_ListChatsRequest :: idl where
  "U_ListChatsRequest = IDL_Record [(''include_archived'', IDL_Bool)]"

definition U_NodeGetMessageRequest :: idl where
  "U_NodeGetMessageRequest = IDL_Record [(''message_id'', Nat64)]"

definition U_RenameChatRequest :: idl where
  "U_RenameChatRequest = IDL_Record [(''new_title'', IDL_Text),
      (''chat_id'', Nat64)]"

definition U_RenameItemRequest :: idl where
  "U_RenameItemRequest = IDL_Record [(''item_type'', U_FsItemType),
      (''new_name'', IDL_Text),
      (''item_id'', Nat64)]"

definition U_RetryAiMessageRequest :: idl where
  "U_RetryAiMessageRequest = IDL_Record [(''custom_prompt'', IDL_Opt IDL_Text),
      (''tools'', IDL_Opt (IDL_Vec U_Tool)),
      (''node_id'', Nat64),
      (''temperature'', IDL_Float 32),
      (''encrypted_chat_key'', IDL_Opt IDL_Text),
      (''max_completion_tokens'', Nat32),
      (''reasoning_effort'', IDL_Opt IDL_Text),
      (''model_id'', IDL_Text),
      (''chat_id'', Nat64),
      (''max_context'', Nat32),
      (''user_message_id'', Nat64)]"

definition U_StoreToolResultsRequest :: idl where
  "U_StoreToolResultsRequest = IDL_Record [(''assistant_message_id'', Nat64),
      (''results'', IDL_Vec U_ToolResult),
      (''chat_id'', Nat64)]"

definition U_UpdateMessageAttachmentsRequest :: idl where
  "U_UpdateMessageAttachmentsRequest = IDL_Record [(''message_id'', Nat64),
      (''attachments'', IDL_Opt (IDL_Vec U_ImageAttachment))]"

definition U_UploadFileRequest :: idl where
  "U_UploadFileRequest = IDL_Record [(''content'', IDL_Vec Nat8),
      (''name'', IDL_Text),
      (''mime_type'', IDL_Text),
      (''parent_folder_id'', Nat64),
      (''chunks'', IDL_Opt (IDL_Vec U_TextChunk))]"

definition user_service :: "(string \<times> idl list) list" where
  "user_service =
     [(''add_message'', [U_AddMessageRequest]),
      (''archive_chat'', [U_ArchiveChatRequest]),
      (''claim_job'', [U_ClaimJobRequest]),
      (''complete_job'', [U_CompleteJobRequest]),
      (''continue_from_tool_response'', [U_ContinueFromToolResponseRequest]),
      (''create_chat'', [U_CreateChatRequest]),
      (''create_folder'', [U_CreateFolderRequest]),
      (''delete_chat'', [U_DeleteChatRequest]),
      (''delete_item'', [U_DeleteItemRequest]),
      (''edit_user_message'', [U_EditUserMessageRequest]),
      (''finalize_registration'', [U_FinalizeRegistrationRequest]),
      (''get_chat'', [U_GetChatRequest]),
      (''get_chat_jobs'', [U_GetChatRequest]),
      (''get_file_content'', [U_GetFileContentRequest]),
      (''get_folder_content'', [U_GetFolderContentRequest]),
      (''get_item_by_path'', [U_GetItemByPathRequest]),
      (''get_message'', [U_GetMessageRequest]),
      (''get_nodes'', []),
      (''get_user_storage_usage'', []),
      (''is_user_finalized'', [U_IsUserFinalizedRequest]),
      (''list_chats'', [U_ListChatsRequest]),
      (''list_registered_users'', []),
      (''node_get_message'', [U_NodeGetMessageRequest]),
      (''rename_chat'', [U_RenameChatRequest]),
      (''rename_item'', [U_RenameItemRequest]),
      (''retry_ai_message'', [U_RetryAiMessageRequest]),
      (''store_tool_results'', [U_StoreToolResultsRequest]),
      (''unarchive_chat'', [U_GetChatRequest]),
      (''update_message_attachments'', [U_UpdateMessageAttachmentsRequest]),
      (''upload_file'', [U_UploadFileRequest]),
      (''whoami'', [])]"


section \<open>The index canister\<close>

definition X_AddManagerRequest :: idl where
  "X_AddManagerRequest = IDL_Record [(''principal_to_add'', IDL_Principal)]"

definition X_CanisterError :: idl where
  "X_CanisterError = IDL_Variant [(''CannotDeleteRootFolder'', IDL_Null),
      (''UserAlreadyRegistered'', IDL_Null),
      (''InvalidFileName'', IDL_Text),
      (''DeleteNonEmptyFolder'', IDL_Null),
      (''ModelNotFound'', IDL_Null),
      (''InvalidPathDepth'', IDL_Null),
      (''InvalidInput'', IDL_Text),
      (''UnsupportedMimeType'', IDL_Text),
      (''PoolExhausted'', IDL_Null),
      (''NoAvailableUserCanister'', IDL_Null),
      (''MessageNotFound'', IDL_Null),
      (''FileSystemLimitExceeded'', IDL_Text),
      (''ChatNotFound'', IDL_Null),
      (''Unauthorized'', IDL_Null),
      (''FileNotFound'', IDL_Null),
      (''CallError'', IDL_Text),
      (''PathNotFound'', IDL_Null),
      (''ItemNameCollision'', IDL_Text),
      (''GenerationInProgress'', IDL_Null),
      (''NodeNotFound'', IDL_Null),
      (''InvalidSecretKey'', IDL_Null),
      (''FolderNotFound'', IDL_Null),
      (''Other'', IDL_Text),
      (''TrialExpired'', IDL_Null),
      (''RoleAlreadyClaimed'', IDL_Null),
      (''UserNotFound'', IDL_Null)]"

definition X_AddMeasurementRequest :: idl where
  "X_AddMeasurementRequest = IDL_Record [(''name'', IDL_Text),
      (''measurement_hex'', IDL_Text)]"

definition X_ModelStatus :: idl where
  "X_ModelStatus = IDL_Variant [(''Paused'', IDL_Null),
      (''Active'', IDL_Null)]"

definition X_Model :: idl where
  "X_Model = IDL_Record [(''maker'', IDL_Text),
      (''status'', X_ModelStatus),
      (''max_tools'', Nat32),
      (''max_output'', Nat32),
      (''provider'', IDL_Text),
      (''release_date'', IDL_Opt IDL_Text),
      (''extra_body_json'', IDL_Opt IDL_Text),
      (''max_image_attachments'', Nat32),
      (''name'', IDL_Text),
      (''description'', IDL_Text),
      (''output_token_price'', IDL_Float 64),
      (''provider_model'', IDL_Text),
      (''provider_endpoint'', IDL_Text),
      (''is_featured'', IDL_Bool),
      (''input_token_price'', IDL_Float 64),
      (''is_reasoning'', IDL_Bool),
      (''model_id'', IDL_Text),
      (''aa_score'', IDL_Opt Nat32),
      (''is_embedding'', IDL_Bool),
      (''max_context'', Nat32)]"

definition X_AddModelRequest :: idl where
  "X_AddModelRequest = IDL_Record [(''model'', X_Model)]"

definition X_ConfirmRegistrationRequest :: idl where
  "X_ConfirmRegistrationRequest = IDL_Record [(''user_principal'', IDL_Principal)]"

definition X_CreateIndexNodeRequest :: idl where
  "X_CreateIndexNodeRequest = IDL_Record [(''hostname'', IDL_Text),
      (''encrypted_api_key'', IDL_Text),
      (''model_id'', IDL_Text),
      (''expected_chip_id'', IDL_Text)]"

definition X_TcbVersion :: idl where
  "X_TcbVersion = IDL_Record [(''fmc'', Nat8),
      (''snp'', Nat8),
      (''tee'', Nat8),
      (''bootloader'', Nat8),
      (''microcode'', Nat8)]"

definition X_GenTcbRequirements :: idl where
  "X_GenTcbRequirements = IDL_Record [(''min_tcb'', X_TcbVersion),
      (''min_guest_svn'', Nat32)]"

definition X_MeasurementStatus :: idl where
  "X_MeasurementStatus = IDL_Variant [(''Active'', IDL_Null),
      (''Deprecated'', IDL_Null),
      (''Revoked'', IDL_Null)]"

definition X_GetNodeConfigRequest :: idl where
  "X_GetNodeConfigRequest = IDL_Record [(''node_id'', Nat64)]"

definition X_GetUserAssignmentRequest :: idl where
  "X_GetUserAssignmentRequest = IDL_Record [(''user_principal'', IDL_Principal)]"

definition X_ProvisionCanistersRequest :: idl where
  "X_ProvisionCanistersRequest = IDL_Record [(''count'', Nat32)]"

definition X_RegisterNodeRequest :: idl where
  "X_RegisterNodeRequest = IDL_Record [(''attestation_report'', IDL_Vec Nat8),
      (''node_id'', Nat64),
      (''ark_der'', IDL_Vec Nat8),
      (''public_key'', IDL_Text),
      (''vek_der'', IDL_Vec Nat8),
      (''ask_der'', IDL_Vec Nat8),
      (''timestamp'', Nat64)]"

definition X_RegisterUserRequest :: idl where
  "X_RegisterUserRequest = IDL_Record [(''username'', IDL_Text)]"

definition X_RemoveManagerRequest :: idl where
  "X_RemoveManagerRequest = IDL_Record [(''principal_to_remove'', IDL_Principal)]"

definition X_RemoveMeasurementRequest :: idl where
  "X_RemoveMeasurementRequest = IDL_Record [(''measurement_hex'', IDL_Text)]"

definition X_UpdateAttestationPoliciesRequest :: idl where
  "X_UpdateAttestationPoliciesRequest = IDL_Record [(''max_attestation_age_ns'', Nat64),
      (''min_report_version'', Nat32),
      (''require_ciphertext_hiding_enabled'', IDL_Bool),
      (''require_tsme_disabled'', IDL_Bool),
      (''genoa_policy'', X_GenTcbRequirements),
      (''expected_measurement_len'', Nat64),
      (''require_ecc_enabled'', IDL_Bool),
      (''require_smt_disabled'', IDL_Bool),
      (''turin_policy'', X_GenTcbRequirements),
      (''require_rapl_disabled'', IDL_Bool),
      (''milan_policy'', X_GenTcbRequirements)]"

definition X_UpdateMeasurementStatusRequest :: idl where
  "X_UpdateMeasurementStatusRequest = IDL_Record [(''status'', X_MeasurementStatus),
      (''measurement_hex'', IDL_Text)]"

definition index_service :: "(string \<times> idl list) list" where
  "index_service =
     [(''add_manager'', [X_AddManagerRequest]),
      (''add_measurement'', [X_AddMeasurementRequest]),
      (''add_model'', [X_AddModelRequest]),
      (''claim_manager_role'', []),
      (''confirm_registration'', [X_ConfirmRegistrationRequest]),
      (''create_node'', [X_CreateIndexNodeRequest]),
      (''create_user_canister'', []),
      (''get_attestation_requirements'', [IDL_Null]),
      (''get_models'', [IDL_Null]),
      (''get_node_config'', [X_GetNodeConfigRequest]),
      (''get_provisioning_info'', [X_GetNodeConfigRequest]),
      (''get_user_assignment'', [X_GetUserAssignmentRequest]),
      (''heartbeat'', [IDL_Null]),
      (''is_manager'', []),
      (''list_active_nodes'', [IDL_Null]),
      (''list_canister_pool'', []),
      (''list_managers'', []),
      (''list_my_nodes'', [IDL_Null]),
      (''list_user_canisters'', []),
      (''provision_canisters'', [X_ProvisionCanistersRequest]),
      (''raw_whoami'', [IDL_Null]),
      (''register_node'', [X_RegisterNodeRequest]),
      (''register_user'', [X_RegisterUserRequest]),
      (''remove_manager'', [X_RemoveManagerRequest]),
      (''remove_measurement'', [X_RemoveMeasurementRequest]),
      (''unregister_node'', [IDL_Null]),
      (''update_attestation_policies'', [X_UpdateAttestationPoliciesRequest]),
      (''update_measurement_status'', [X_UpdateMeasurementStatusRequest]),
      (''update_model'', [X_AddModelRequest]),
      (''whoami'', [IDL_Null])]"


end
