(* ===== verification/Request_Mappers.thy ===== *)
theory Request_Mappers
  imports Canister_Types Tool_Calls
begin

text \<open>
  The requests of the chat actions as JavaScript objects: as \<open>src/gpt_frontend/src/services/api/userApi.ts\<close> builds
  them from the parameters of an action (\<open>..._fields\<close>), and as the mappers of
  \<open>src/gpt_frontend/src/utils/requestMappers.ts\<close> build them (\<open>map...Request\<close>).
\<close>

section \<open>Values\<close>

text \<open>An absent value is undefined; a node number that is not a number is handled where it is sent.\<close>

definition js_opt :: "string option \<Rightarrow> jsval" where
  "js_opt v = (case v of None \<Rightarrow> JUndef | Some s \<Rightarrow> JStr s)"

abbreviation js_int :: "int \<Rightarrow> jsval" where
  "js_int i \<equiv> JNum (of_int i)"

definition js_attachment :: "image_attachment \<Rightarrow> jsval" where
  "js_attachment a = JObj [(''mime_type'', JStr (ia_mime_type a)), (''data'', JBytes (ia_data a))]"

definition js_tool :: "tool \<Rightarrow> jsval" where
  "js_tool t =
     JObj [(''name'', JStr (t_name t)), (''displayName'', js_opt (t_displayName t)), (''description'', JStr (t_description t)),
           (''parameters'', JStr (t_parameters t))]"

definition js_tool_result :: "tool_result \<Rightarrow> jsval" where
  "js_tool_result r =
     JObj [(''tool_call_id'', JStr (tr_tool_call_id r)), (''content'', JStr (tr_content r)), (''error'', js_opt (tr_error r))]"

definition js_response :: "string \<times> bytes \<Rightarrow> jsval" where
  "js_response r = JObj [(''tool_call_id'', JStr (fst r)), (''content'', JBytes (snd r))]"

abbreviation js_list :: "('a \<Rightarrow> jsval) \<Rightarrow> 'a list \<Rightarrow> jsval" where
  "js_list f xs \<equiv> JArr (map f xs)"

abbreviation js_toOpt :: "string option \<Rightarrow> jsval" where
  "js_toOpt v \<equiv> JArr (map JStr (toOpt v))"

definition user_role :: jsval where
  "user_role = JObj [(''User'', JNull)]"

section \<open>The objects of \<open>userApi.ts\<close>\<close>

text \<open>What the requests that start a generation share; \<open>node\<close> is the value of \<open>nodeId\<close>.\<close>

definition generation_fields :: "int \<Rightarrow> 'a generation_params_scheme \<Rightarrow> (string \<times> jsval) list" where
  "generation_fields node p =
     [(''model_id'', JStr (gp_modelId p)), (''node_id'', js_int node), (''temperature'', JNum (gp_temperature p)),
      (''max_completion_tokens'', js_int (gp_maxCompletionTokens p)), (''max_context'', js_int (gp_maxContext p)),
      (''encrypted_chat_key'', JStr (gp_encryptedChatKey p)), (''tools'', js_list js_tool (gp_tools p)),
      (''custom_prompt'', JStr (gp_customPrompt p))]"

definition create_chat_fields :: "int \<Rightarrow> create_chat_params \<Rightarrow> (string \<times> jsval) list" where
  "create_chat_fields node p =
     generation_fields node p
     @ [(''title'', JStr (cp_title p)), (''initial_message'', JBytes (cp_initialMessage p)),
        (''encryption_salt'', JBytes (cp_encryptionSalt p)), (''attachments'', js_list js_attachment (cp_attachments p)),
        (''temporary'', JBool (cp_temporary p))]"

text \<open>The same for a temporary chat, which has no tools and no custom prompt.\<close>

definition temp_chat_fields :: "int \<Rightarrow> temp_params \<Rightarrow> (string \<times> jsval) list" where
  "temp_chat_fields node p =
     [(''model_id'', JStr (tp_modelId p)), (''node_id'', js_int node), (''temperature'', JNum (tp_temperature p)),
      (''max_completion_tokens'', js_int (tp_maxCompletionTokens p)), (''max_context'', js_int (tp_maxContext p)),
      (''encrypted_chat_key'', JStr (tp_encryptedChatKey p)), (''tools'', JArr []), (''custom_prompt'', JUndef),
      (''title'', JStr (tp_title p)), (''initial_message'', JBytes (tp_initialMessage p)),
      (''encryption_salt'', JBytes (tp_encryptionSalt p)), (''attachments'', js_list js_attachment (tp_attachments p)),
      (''temporary'', JBool True)]"

definition add_message_fields :: "int \<Rightarrow> add_message_params \<Rightarrow> (string \<times> jsval) list" where
  "add_message_fields node p =
     generation_fields node p
     @ [(''chat_id'', JStr (ap_chatId p)), (''parent_message_id'', js_opt (ap_parentMessageId p)), (''role'', user_role),
        (''content'', JBytes (ap_content p)), (''attachments'', js_list js_attachment (ap_attachments p)),
        (''reasoning_effort'', js_opt (ap_reasoningEffort p))]"

definition edit_user_message_fields :: "int \<Rightarrow> edit_message_params \<Rightarrow> (string \<times> jsval) list" where
  "edit_user_message_fields node p =
     generation_fields node p
     @ [(''chat_id'', JStr (ep_chatId p)), (''old_user_message_id'', JStr (ep_oldUserMessageId p)),
        (''new_content'', JBytes (ep_newContent p)), (''attachments'', js_list js_attachment (ep_attachments p)),
        (''reasoning_effort'', js_opt (ep_reasoningEffort p))]"

definition retry_ai_message_fields :: "int \<Rightarrow> retry_message_params \<Rightarrow> (string \<times> jsval) list" where
  "retry_ai_message_fields node p =
     generation_fields node p
     @ [(''chat_id'', JStr (rp_chatId p)), (''user_message_id'', JStr (rp_userMessageId p)),
        (''reasoning_effort'', js_opt (rp_reasoningEffort p))]"

definition store_tool_results_fields :: "store_results_params \<Rightarrow> (string \<times> jsval) list" where
  "store_tool_results_fields p =
     [(''chat_id'', JStr (srp_chatId p)), (''assistant_message_id'', JStr (srp_assistantMessageId p)),
      (''results'', js_list js_tool_result (srp_results p))]"

definition continue_fields :: "int \<Rightarrow> continue_params \<Rightarrow> (string \<times> jsval) list" where
  "continue_fields node p =
     generation_fields node p
     @ [(''chat_id'', JStr (np_chatId p)), (''assistant_message_id'', JStr (np_assistantMessageId p)),
        (''responses'', js_list js_response (np_responses p)), (''reasoning_effort'', js_opt (np_reasoningEffort p))]"

section \<open>The mappers of \<open>requestMappers.ts\<close>\<close>

text \<open>
  \<open>toBlob\<close> of bytes is the bytes; \<open>toBigInt(nodeId)\<close> of an integer and \<open>toBigInt\<close> of an identifier's text. The mappers
  also take a prompt and an encrypted key that are undefined and a node that is not a number; they are modelled on the
  parameters of the actions that generate in a kept chat, which always have a prompt (\<open>compiledPrompt\<close>), a key and
  attachments. A temporary chat, which has neither, is \<open>temp_chat_fields\<close>, and a node that is not a number is
  \<open>with_node\<close> of the call.
\<close>

abbreviation big_id :: "string \<Rightarrow> jsval" where
  "big_id s \<equiv> JBig (toBigInt (StrArg s))"

definition tools_or_undefined :: "tool list \<Rightarrow> jsval" where
  "tools_or_undefined tools = (if length tools > 0 then js_list js_tool tools else JUndef)"

definition generation_request :: "int \<Rightarrow> 'a generation_params_scheme \<Rightarrow> (string \<times> jsval) list" where
  "generation_request node p =
     [(''model_id'', JStr (gp_modelId p)), (''node_id'', JBig (toBigInt (NumArg (of_int node)))),
      (''temperature'', JNum (gp_temperature p)), (''max_completion_tokens'', js_int (gp_maxCompletionTokens p)),
      (''max_context'', js_int (gp_maxContext p)), (''encrypted_chat_key'', js_toOpt (Some (gp_encryptedChatKey p))),
      (''tools'', tools_or_undefined (gp_tools p)), (''custom_prompt'', js_toOpt (Some (gp_customPrompt p)))]"

definition mapCreateChatRequest :: "int \<Rightarrow> create_chat_params \<Rightarrow> (string \<times> jsval) list" where
  "mapCreateChatRequest node p =
     generation_request node p
     @ [(''title'', JStr (cp_title p)), (''initial_message'', JBytes (cp_initialMessage p)),
        (''encryption_salt'', JBytes (cp_encryptionSalt p)), (''attachments'', js_list js_attachment (cp_attachments p)),
        (''temporary'', JBool (cp_temporary p))]"

definition mapAddMessageRequest :: "int \<Rightarrow> add_message_params \<Rightarrow> (string \<times> jsval) list" where
  "mapAddMessageRequest node p =
     generation_request node p
     @ [(''chat_id'', big_id (ap_chatId p)),
        (''parent_message_id'', if truthy_str (ap_parentMessageId p) then JArr [big_id (the (ap_parentMessageId p))] else JArr []),
        (''role'', user_role), (''content'', JBytes (ap_content p)),
        (''attachments'', js_list js_attachment (ap_attachments p)), (''reasoning_effort'', js_toOpt (ap_reasoningEffort p))]"

definition mapEditUserMessageRequest :: "int \<Rightarrow> edit_message_params \<Rightarrow> (string \<times> jsval) list" where
  "mapEditUserMessageRequest node p =
     generation_request node p
     @ [(''chat_id'', big_id (ep_chatId p)), (''old_user_message_id'', big_id (ep_oldUserMessageId p)),
        (''new_content'', JBytes (ep_newContent p)), (''attachments'', js_list js_attachment (ep_attachments p)),
        (''reasoning_effort'', js_toOpt (ep_reasoningEffort p))]"

definition mapRetryAiMessageRequest :: "int \<Rightarrow> retry_message_params \<Rightarrow> (string \<times> jsval) list" where
  "mapRetryAiMessageRequest node p =
     generation_request node p
     @ [(''chat_id'', big_id (rp_chatId p)), (''user_message_id'', big_id (rp_userMessageId p)),
        (''reasoning_effort'', js_toOpt (rp_reasoningEffort p))]"

definition mapContinueFromToolResponseRequest :: "int \<Rightarrow> continue_params \<Rightarrow> (string \<times> jsval) list" where
  "mapContinueFromToolResponseRequest node p =
     generation_request node p
     @ [(''chat_id'', big_id (np_chatId p)), (''assistant_message_id'', big_id (np_assistantMessageId p)),
        (''responses'', js_list js_response (np_responses p)), (''reasoning_effort'', js_toOpt (np_reasoningEffort p))]"

definition mapped_tool_result :: "tool_result \<Rightarrow> jsval" where
  "mapped_tool_result r =
     JObj [(''tool_call_id'', JStr (tr_tool_call_id r)), (''content'', JStr (tr_content r)), (''error'', js_toOpt (tr_error r))]"

definition mapStoreToolResultsRequest :: "store_results_params \<Rightarrow> (string \<times> jsval) list" where
  "mapStoreToolResultsRequest p =
     [(''chat_id'', big_id (srp_chatId p)), (''assistant_message_id'', big_id (srp_assistantMessageId p)),
      (''results'', js_list mapped_tool_result (srp_results p))]"

text \<open>An upload: its chunks carry their embeddings as bytes; \<open>to_f32\<close> rounds a number to its 32 bits.\<close>

definition js_chunk :: "(rat \<Rightarrow> 32 word) \<Rightarrow> text_chunk \<Rightarrow> jsval" where
  "js_chunk to_f32 c =
     JObj [(''chunk_index'', js_int (int (k_chunk_index c))), (''start_char'', js_int (int (k_start_char c))),
           (''end_char'', js_int (int (k_end_char c))), (''embedding'', JBytes (serializeEmbedding to_f32 (k_embedding c)))]"

definition mapUploadFileRequest :: "(rat \<Rightarrow> 32 word) \<Rightarrow> upload_request \<Rightarrow> (string \<times> jsval) list" where
  "mapUploadFileRequest to_f32 p =
     [(''name'', JStr (ur_name p)), (''mime_type'', JStr (ur_mimeType p)), (''parent_folder_id'', big_id (ur_parentFolderId p)),
      (''content'', JBytes (ur_content p)),
      (''chunks'', case ur_chunks p of None \<Rightarrow> JUndef | Some cs \<Rightarrow> js_list (js_chunk to_f32) cs)]"

section \<open>Lemmas\<close>

lemmas js_values = js_opt_def js_attachment_def js_tool_def js_tool_result_def js_response_def user_role_def js_chunk_def
  generation_fields_def generation_request_def tools_or_undefined_def mapped_tool_result_def

lemmas request_fields = create_chat_fields_def temp_chat_fields_def add_message_fields_def edit_user_message_fields_def
  retry_ai_message_fields_def store_tool_results_fields_def continue_fields_def mapUploadFileRequest_def

lemmas request_mappers = mapCreateChatRequest_def mapAddMessageRequest_def mapEditUserMessageRequest_def
  mapRetryAiMessageRequest_def mapContinueFromToolResponseRequest_def mapStoreToolResultsRequest_def

lemmas request_types = U_AddMessageRequest_def U_CreateChatRequest_def U_EditUserMessageRequest_def U_RetryAiMessageRequest_def
  U_StoreToolResultsRequest_def U_ContinueFromToolResponseRequest_def U_UploadFileRequest_def
  U_Tool_def U_Role_def U_ImageAttachment_def U_ToolResponseMessage_def U_ToolResult_def U_TextChunk_def

text \<open>How the visitor reads each field, whichever of the two objects it comes from.\<close>

lemma visit_big_id: "visit ft Nat64 (big_id s) = visit ft Nat64 (JStr s)"
  by (simp add: visitPrimitive_def split: option.split)

lemma visit_node: "visit ft Nat64 (JBig (toBigInt (NumArg (of_int node)))) = visit ft Nat64 (js_int node)"
  by (simp add: visitPrimitive_def)

lemma visit_opt_text: "visit ft (IDL_Opt IDL_Text) (js_toOpt v) = visit ft (IDL_Opt IDL_Text) (js_opt v)"
  by (cases v) (simp_all add: toOpt_def js_opt_def)

lemma js_opt_simps: "js_opt None = JUndef" "js_opt (Some s) = JStr s"
  by (simp_all add: js_opt_def)

lemma visit_opt_tools: "visit ft (IDL_Opt (IDL_Vec t)) (tools_or_undefined tools) = visit ft (IDL_Opt (IDL_Vec t)) (js_list js_tool tools)"
  by (cases tools) (simp_all add: tools_or_undefined_def)

lemma visit_opt_parent:
  "v \<noteq> Some '''' \<Longrightarrow>
   visit ft (IDL_Opt Nat64) (if truthy_str v then JArr [big_id (the v)] else JArr []) = visit ft (IDL_Opt Nat64) (js_opt v)"
  by (cases v) (simp_all add: truthy_str_def js_opt_def visitPrimitive_def split: option.split)

lemma visit_record_cong:
  assumes "list_all (\<lambda>(k, t). visit ft t (get_prop (JObj xs) k) = visit ft t (get_prop (JObj ys) k)) flds"
  shows "visit ft (IDL_Record flds) (JObj xs) = visit ft (IDL_Record flds) (JObj ys)"
proof -
  have "traverse (\<lambda>(k, t). map_sum_r (Pair k) (visit ft t (get_prop (JObj xs) k))) flds
      = traverse (\<lambda>(k, t). map_sum_r (Pair k) (visit ft t (get_prop (JObj ys) k))) flds"
    by (rule traverse_cong) (use assms in \<open>auto simp: list_all_iff\<close>)
  then show ?thesis by simp
qed

lemmas visit_fields = visit_big_id visit_node visit_opt_text visit_opt_tools visit_opt_parent

lemma mapped_tool_result_visit: "visit ft U_ToolResult (mapped_tool_result r) = visit ft U_ToolResult (js_tool_result r)"
  unfolding U_ToolResult_def mapped_tool_result_def js_tool_result_def
  by (rule visit_record_cong) (simp del: visit.simps add: visit_opt_text)

lemma mapped_tool_results_visit:
  "visit ft (IDL_Vec U_ToolResult) (js_list mapped_tool_result rs) = visit ft (IDL_Vec U_ToolResult) (js_list js_tool_result rs)"
proof -
  have "traverse (visit ft U_ToolResult) (map mapped_tool_result rs) = traverse (visit ft U_ToolResult) (map js_tool_result rs)"
    by (induction rs) (simp_all del: visit.simps add: mapped_tool_result_visit split: sum.split)
  then show ?thesis by (simp del: visit.simps add: visit.simps(3) U_ToolResult_def)
qed

lemmas generation_objects = generation_request_def generation_fields_def

lemma create_chat_agrees:
  "visit ft U_CreateChatRequest (JObj (mapCreateChatRequest n p)) = visit ft U_CreateChatRequest (JObj (create_chat_fields n p))"
  unfolding U_CreateChatRequest_def mapCreateChatRequest_def create_chat_fields_def generation_objects
  by (rule visit_record_cong) (simp del: visit.simps toBigInt.simps add: visit_fields js_opt_simps)

lemma add_message_agrees:
  "ap_parentMessageId p \<noteq> Some [] \<Longrightarrow>
   visit ft U_AddMessageRequest (JObj (mapAddMessageRequest n p)) = visit ft U_AddMessageRequest (JObj (add_message_fields n p))"
  unfolding U_AddMessageRequest_def mapAddMessageRequest_def add_message_fields_def generation_objects
  by (rule visit_record_cong) (simp del: visit.simps toBigInt.simps add: visit_fields js_opt_simps)

lemma edit_user_message_agrees:
  "visit ft U_EditUserMessageRequest (JObj (mapEditUserMessageRequest n p)) = visit ft U_EditUserMessageRequest (JObj (edit_user_message_fields n p))"
  unfolding U_EditUserMessageRequest_def mapEditUserMessageRequest_def edit_user_message_fields_def generation_objects
  by (rule visit_record_cong) (simp del: visit.simps toBigInt.simps add: visit_fields js_opt_simps)

lemma retry_ai_message_agrees:
  "visit ft U_RetryAiMessageRequest (JObj (mapRetryAiMessageRequest n p)) = visit ft U_RetryAiMessageRequest (JObj (retry_ai_message_fields n p))"
  unfolding U_RetryAiMessageRequest_def mapRetryAiMessageRequest_def retry_ai_message_fields_def generation_objects
  by (rule visit_record_cong) (simp del: visit.simps toBigInt.simps add: visit_fields js_opt_simps)

lemma continue_agrees:
  "visit ft U_ContinueFromToolResponseRequest (JObj (mapContinueFromToolResponseRequest n p)) = visit ft U_ContinueFromToolResponseRequest (JObj (continue_fields n p))"
  unfolding U_ContinueFromToolResponseRequest_def mapContinueFromToolResponseRequest_def continue_fields_def generation_objects
  by (rule visit_record_cong) (simp del: visit.simps toBigInt.simps add: visit_fields js_opt_simps)

lemma store_tool_results_agrees:
  "visit ft U_StoreToolResultsRequest (JObj (mapStoreToolResultsRequest p))
   = visit ft U_StoreToolResultsRequest (JObj (store_tool_results_fields p))"
  unfolding U_StoreToolResultsRequest_def mapStoreToolResultsRequest_def store_tool_results_fields_def
  by (rule visit_record_cong) (simp del: visit.simps toBigInt.simps add: visit_fields js_opt_simps mapped_tool_results_visit)

text \<open>
  C26: the unused request mappers and the objects the API builds itself say the same to a canister: for every
  request of the chat actions, the payload adapter makes the same Candid value of both, whatever the tools,
  prompts, efforts and identifiers are, provided a given parent identifier is not empty.
\<close>

theorem request_mappers_agree:
  assumes "ap_parentMessageId add \<noteq> Some ''''"
  shows "visit ft U_CreateChatRequest (JObj (mapCreateChatRequest n create)) = visit ft U_CreateChatRequest (JObj (create_chat_fields n create))
    \<and> visit ft U_AddMessageRequest (JObj (mapAddMessageRequest n add)) = visit ft U_AddMessageRequest (JObj (add_message_fields n add))
    \<and> visit ft U_EditUserMessageRequest (JObj (mapEditUserMessageRequest n edit))
        = visit ft U_EditUserMessageRequest (JObj (edit_user_message_fields n edit))
    \<and> visit ft U_RetryAiMessageRequest (JObj (mapRetryAiMessageRequest n retry))
        = visit ft U_RetryAiMessageRequest (JObj (retry_ai_message_fields n retry))
    \<and> visit ft U_ContinueFromToolResponseRequest (JObj (mapContinueFromToolResponseRequest n cont))
        = visit ft U_ContinueFromToolResponseRequest (JObj (continue_fields n cont))
    \<and> visit ft U_StoreToolResultsRequest (JObj (mapStoreToolResultsRequest store))
        = visit ft U_StoreToolResultsRequest (JObj (store_tool_results_fields store))"
  using create_chat_agrees add_message_agrees [OF assms] edit_user_message_agrees retry_ai_message_agrees continue_agrees
    store_tool_results_agrees by blast

lemma request_mappers_agree_witness:
  "visit Some U_AddMessageRequest (JObj (mapAddMessageRequest 1 \<lparr>gp_modelId = ''m'', gp_nodeId = Some 1, gp_temperature = 0,
        gp_maxCompletionTokens = 9, gp_maxContext = 9, gp_encryptedChatKey = ''k'', gp_tools = [], gp_customPrompt = [],
        ap_chatId = ''7'', ap_content = [], ap_attachments = [], ap_reasoningEffort = None, ap_parentMessageId = None\<rparr>))
    = visit Some U_AddMessageRequest (JObj (add_message_fields 1 \<lparr>gp_modelId = ''m'', gp_nodeId = Some 1, gp_temperature = 0,
        gp_maxCompletionTokens = 9, gp_maxContext = 9, gp_encryptedChatKey = ''k'', gp_tools = [], gp_customPrompt = [],
        ap_chatId = ''7'', ap_content = [], ap_attachments = [], ap_reasoningEffort = None, ap_parentMessageId = None\<rparr>))"
  by (rule request_mappers_agree [THEN conjunct2, THEN conjunct1]) simp

end
