(* ===== verification/User_Api.thy ===== *)
theory User_Api
  imports Request_Mappers Result_Utils
begin

text \<open>
  \<open>src/gpt_frontend/src/services/api/userApi.ts\<close>: the calls of the user canister. Each builds an object, has it
  adapted to the type the canister declares, sends it, unwraps the result and maps it to the frontend's types.
  The argument \<open>call\<close> is the actor's method (\<open>services/gptUserService.ts\<close>, \<open>actorFactory.ts\<close> and the agent library):
  the object or the error it gives for a payload. A response record with one field is that field.
\<close>

section \<open>A call\<close>

datatype api_error = Conversion js_error | Thrown string

text \<open>
  \<open>ae_fromText\<close> parses principals, \<open>ae_json\<close> is \<open>JSON.stringify\<close>, \<open>ae_to_f32\<close> and \<open>ae_of_f32\<close> convert numbers to
  32-bit floats and back.
\<close>

record api_env =
  ae_fromText :: "string \<Rightarrow> principal option"
  ae_json :: "error_object \<Rightarrow> string option"
  ae_to_f32 :: "rat \<Rightarrow> 32 word"
  ae_of_f32 :: "32 word \<Rightarrow> rat"

type_synonym ('q, 't) actor_method = "'q \<Rightarrow> string + ('t, error_object option) result_object option"

abbreviation throws :: "string + 'a \<Rightarrow> api_error + 'a" where
  "throws r \<equiv> (case r of Inl m \<Rightarrow> Inl (Thrown m) | Inr v \<Rightarrow> Inr v)"

definition adapt ::
  "api_env \<Rightarrow> (string \<times> idl list) list \<Rightarrow> string \<Rightarrow> (string \<times> jsval) list \<Rightarrow> api_error + jsval" where
  "adapt api service methodName params =
     (case normalizePayload (ae_fromText api) service methodName [JObj params] of
        Inl e \<Rightarrow> Inl (Conversion e)
      | Inr payload \<Rightarrow> Inr (hd payload))"

definition unwrap :: "api_env \<Rightarrow> ('t, error_object option) result_object option \<Rightarrow> api_error + 't" where
  "unwrap api result = throws (unwrapResult (formatCanisterError (ae_json api)) result)"

definition getActor :: "string \<Rightarrow> api_error + unit" where
  "getActor canisterId = (if canisterId = '''' then Inl (Thrown ''User canister ID is required.'') else Inr ())"

text \<open>The methods with an argument, and those without.\<close>

definition user_call ::
  "api_env \<Rightarrow> string \<Rightarrow> string \<Rightarrow> js_error + (string \<times> jsval) list \<Rightarrow> (jsval, 't) actor_method \<Rightarrow> api_error + 't" where
  "user_call api canisterId methodName params call =
     bind_sum (getActor canisterId) (\<lambda>_.
     bind_sum (case params of Inl e \<Rightarrow> Inl (Conversion e) | Inr kvs \<Rightarrow> adapt api user_service methodName kvs) (\<lambda>payload.
     bind_sum (throws (call payload)) (unwrap api)))"

definition user_query :: "api_env \<Rightarrow> string \<Rightarrow> (unit, 't) actor_method \<Rightarrow> api_error + 't" where
  "user_query api canisterId call =
     bind_sum (getActor canisterId) (\<lambda>_. bind_sum (throws (call ())) (unwrap api))"

text \<open>\<open>BigInt(NaN)\<close> throws when the adapter comes to the node's identifier.\<close>

definition with_node :: "int option \<Rightarrow> (int \<Rightarrow> (string \<times> jsval) list) \<Rightarrow> js_error + (string \<times> jsval) list" where
  "with_node node f = (case node of None \<Rightarrow> Inl RangeError | Some n \<Rightarrow> Inr (f n))"

section \<open>Chats and messages\<close>

definition listChats :: "api_env \<Rightarrow> string \<Rightarrow> bool \<Rightarrow> (jsval, backend_chat list) actor_method \<Rightarrow> api_error + chat list" where
  "listChats api canisterId includeArchived call =
     map_sum_r (map mapBackendChatToFrontend)
       (user_call api canisterId ''list_chats'' (Inr [(''include_archived'', JBool includeArchived)]) call)"

definition getChat :: "api_env \<Rightarrow> string \<Rightarrow> chat_id \<Rightarrow> (jsval, backend_chat) actor_method \<Rightarrow> api_error + chat" where
  "getChat api canisterId chatId call =
     map_sum_r mapBackendChatToFrontend (user_call api canisterId ''get_chat'' (Inr [(''chat_id'', JStr chatId)]) call)"

definition getMessage :: "api_env \<Rightarrow> string \<Rightarrow> int \<Rightarrow> (jsval, backend_message) actor_method \<Rightarrow> api_error + encrypted_message" where
  "getMessage api canisterId messageId call =
     bind_sum (user_call api canisterId ''get_message'' (Inr [(''message_id'', JBig messageId)]) call)
       (\<lambda>m. throws (mapBackendMessageToFrontend m))"

definition createChat ::
  "api_env \<Rightarrow> string \<Rightarrow> create_chat_params \<Rightarrow> (jsval, create_chat_response) actor_method \<Rightarrow> api_error + create_chat_response" where
  "createChat api canisterId params call =
     user_call api canisterId ''create_chat'' (with_node (gp_nodeId params) (\<lambda>n. create_chat_fields n params)) call"

definition createTempChat ::
  "api_env \<Rightarrow> string \<Rightarrow> temp_params \<Rightarrow> (jsval, create_chat_response) actor_method \<Rightarrow> api_error + create_chat_response" where
  "createTempChat api canisterId params call =
     user_call api canisterId ''create_chat'' (with_node (tp_nodeId params) (\<lambda>n. temp_chat_fields n params)) call"

definition addMessage ::
  "api_env \<Rightarrow> string \<Rightarrow> add_message_params \<Rightarrow> (jsval, message_response) actor_method \<Rightarrow> api_error + message_response" where
  "addMessage api canisterId params call =
     user_call api canisterId ''add_message'' (with_node (gp_nodeId params) (\<lambda>n. add_message_fields n params)) call"

definition editUserMessage_api ::
  "api_env \<Rightarrow> string \<Rightarrow> edit_message_params \<Rightarrow> (jsval, message_response) actor_method \<Rightarrow> api_error + message_response" where
  "editUserMessage_api api canisterId params call =
     user_call api canisterId ''edit_user_message'' (with_node (gp_nodeId params) (\<lambda>n. edit_user_message_fields n params)) call"

definition deleteChat_api :: "api_env \<Rightarrow> string \<Rightarrow> chat_id \<Rightarrow> (jsval, unit) actor_method \<Rightarrow> api_error + unit" where
  "deleteChat_api api canisterId chatId call = user_call api canisterId ''delete_chat'' (Inr [(''chat_id'', JStr chatId)]) call"

definition renameChat_api :: "api_env \<Rightarrow> string \<Rightarrow> chat_id \<Rightarrow> string \<Rightarrow> (jsval, 't) actor_method \<Rightarrow> api_error + unit" where
  "renameChat_api api canisterId chatId newTitle call =
     map_sum_r (\<lambda>_. ()) (user_call api canisterId ''rename_chat'' (Inr [(''chat_id'', JStr chatId), (''new_title'', JStr newTitle)]) call)"

definition archiveChat_api :: "api_env \<Rightarrow> string \<Rightarrow> chat_id \<Rightarrow> (jsval, 't) actor_method \<Rightarrow> api_error + unit" where
  "archiveChat_api api canisterId chatId call =
     map_sum_r (\<lambda>_. ()) (user_call api canisterId ''archive_chat'' (Inr [(''chat_id'', JStr chatId)]) call)"

definition unarchiveChat_api :: "api_env \<Rightarrow> string \<Rightarrow> chat_id \<Rightarrow> (jsval, 't) actor_method \<Rightarrow> api_error + unit" where
  "unarchiveChat_api api canisterId chatId call =
     map_sum_r (\<lambda>_. ()) (user_call api canisterId ''unarchive_chat'' (Inr [(''chat_id'', JStr chatId)]) call)"

definition getChatJobs :: "api_env \<Rightarrow> string \<Rightarrow> chat_id \<Rightarrow> (jsval, backend_job list) actor_method \<Rightarrow> api_error + job list" where
  "getChatJobs api canisterId chatId call =
     map_sum_r (map mapBackendJobToFrontend) (user_call api canisterId ''get_chat_jobs'' (Inr [(''chat_id'', JStr chatId)]) call)"

definition retryAiMessage_api ::
  "api_env \<Rightarrow> string \<Rightarrow> retry_message_params \<Rightarrow> (jsval, message_response) actor_method \<Rightarrow> api_error + message_response" where
  "retryAiMessage_api api canisterId params call =
     user_call api canisterId ''retry_ai_message'' (with_node (gp_nodeId params) (\<lambda>n. retry_ai_message_fields n params)) call"

definition storeToolResults :: "api_env \<Rightarrow> string \<Rightarrow> store_results_params \<Rightarrow> (jsval, unit) actor_method \<Rightarrow> api_error + unit" where
  "storeToolResults api canisterId params call =
     user_call api canisterId ''store_tool_results'' (Inr (store_tool_results_fields params)) call"

text \<open>The answer's new message and job.\<close>

definition continueFromToolResponse ::
  "api_env \<Rightarrow> string \<Rightarrow> continue_params \<Rightarrow> (jsval, int \<times> int) actor_method \<Rightarrow> api_error + (int \<times> int)" where
  "continueFromToolResponse api canisterId params call =
     user_call api canisterId ''continue_from_tool_response'' (with_node (gp_nodeId params) (\<lambda>n. continue_fields n params)) call"

definition getNodes :: "api_env \<Rightarrow> string \<Rightarrow> (unit, backend_local_node list) actor_method \<Rightarrow> api_error + node_info list" where
  "getNodes api canisterId call = map_sum_r (map mapBackendLocalNodeToFrontend) (user_query api canisterId call)"

section \<open>Files\<close>

record backend_folder_content =
  bfc_files :: "backend_file list"
  bfc_folder_id :: int
  bfc_folder_name :: string
  bfc_parent_folder_id :: "int list"
  bfc_folders :: "backend_folder list"

definition folder_answer_of :: "(32 word \<Rightarrow> rat) \<Rightarrow> backend_folder_content \<Rightarrow> folder_answer" where
  "folder_answer_of of_f32 r =
     \<lparr>fa_folderId = fromBigInt (Some (bfc_folder_id r)),
      fa_parentFolderId = (if length (bfc_parent_folder_id r) > 0 then Some (fromBigInt (Some (bfc_parent_folder_id r ! 0))) else None),
      fa_folderName = bfc_folder_name r,
      fa_folders = map (\<lambda>f. mapBackendFolder f (Some (fromBigInt (Some (bfc_folder_id r))))) (bfc_folders r),
      fa_files = map (mapBackendFile of_f32) (bfc_files r)\<rparr>"

definition getFolderContent ::
  "api_env \<Rightarrow> string \<Rightarrow> folder_id option \<Rightarrow> (jsval, backend_folder_content) actor_method \<Rightarrow> api_error + folder_answer" where
  "getFolderContent api canisterId folderId call =
     map_sum_r (folder_answer_of (ae_of_f32 api))
       (user_call api canisterId ''get_folder_content''
          (Inr [(''folder_id'', case folderId of None \<Rightarrow> JNull | Some f \<Rightarrow> JStr f)]) call)"

datatype backend_item = BFolder backend_folder | BFile backend_file

fun path_item_of :: "backend_item \<Rightarrow> path_item" where
  "path_item_of (BFolder f) = PathFolder (fromBigInt (Some (bfo_id f)))"
| "path_item_of (BFile f) = PathFile (fromBigInt (Some (bf_id f))) (fromBigInt (Some (bf_parent_folder_id f)))"

definition getItemByPath :: "api_env \<Rightarrow> string \<Rightarrow> string \<Rightarrow> (jsval, backend_item) actor_method \<Rightarrow> api_error + path_item" where
  "getItemByPath api canisterId path call =
     map_sum_r path_item_of (user_call api canisterId ''get_item_by_path'' (Inr [(''path'', JStr path)]) call)"

definition getFileContent_api ::
  "api_env \<Rightarrow> string \<Rightarrow> file_id \<Rightarrow> (jsval, blob_arg \<times> string) actor_method \<Rightarrow> api_error + (bytes \<times> string)" where
  "getFileContent_api api canisterId fileId call =
     map_sum_r (\<lambda>(content, mime). (toBlob content, mime))
       (user_call api canisterId ''get_file_content'' (Inr [(''file_id'', JStr fileId)]) call)"

definition createFolder_api :: "api_env \<Rightarrow> string \<Rightarrow> string \<Rightarrow> folder_id \<Rightarrow> (jsval, int) actor_method \<Rightarrow> api_error + string" where
  "createFolder_api api canisterId name parentId call =
     map_sum_r (\<lambda>i. fromBigInt (Some i))
       (user_call api canisterId ''create_folder'' (Inr [(''name'', JStr name), (''parent_folder_id'', JStr parentId)]) call)"

definition uploadFile_api :: "api_env \<Rightarrow> string \<Rightarrow> upload_request \<Rightarrow> (jsval, int) actor_method \<Rightarrow> api_error + file_id" where
  "uploadFile_api api canisterId params call =
     map_sum_r (\<lambda>i. toFileId (fromBigInt (Some i)))
       (user_call api canisterId ''upload_file'' (Inr (mapUploadFileRequest (ae_to_f32 api) params)) call)"

definition item_type :: "item_kind \<Rightarrow> jsval" where
  "item_type kind = JObj [(if kind = FileKind then ''File'' else ''Folder'', JNull)]"

definition renameItem_api :: "api_env \<Rightarrow> string \<Rightarrow> string \<Rightarrow> item_kind \<Rightarrow> string \<Rightarrow> (jsval, 't) actor_method \<Rightarrow> api_error + unit" where
  "renameItem_api api canisterId i kind newName call =
     map_sum_r (\<lambda>_. ())
       (user_call api canisterId ''rename_item''
          (Inr [(''item_id'', JStr i), (''item_type'', item_type kind), (''new_name'', JStr newName)]) call)"

definition deleteItem_api :: "api_env \<Rightarrow> string \<Rightarrow> string \<Rightarrow> item_kind \<Rightarrow> (jsval, unit) actor_method \<Rightarrow> api_error + unit" where
  "deleteItem_api api canisterId i kind call =
     user_call api canisterId ''delete_item'' (Inr [(''item_id'', JStr i), (''item_type'', item_type kind)]) call"

section \<open>Registration and vault\<close>

text \<open>These two answer without a result to unwrap.\<close>

definition isUserFinalized :: "api_env \<Rightarrow> string \<Rightarrow> principal \<Rightarrow> (jsval \<Rightarrow> string + bool) \<Rightarrow> api_error + bool" where
  "isUserFinalized api canisterId userPrincipal call =
     bind_sum (getActor canisterId) (\<lambda>_.
     bind_sum (adapt api user_service ''is_user_finalized'' [(''user_principal'', JPrincipal userPrincipal)]) (\<lambda>payload.
     throws (call payload)))"

definition whoami_api ::
  "string \<Rightarrow> string + (principal \<times> bytes list \<times> string list) \<Rightarrow> api_error + (principal \<times> bytes option \<times> string option)" where
  "whoami_api canisterId response =
     bind_sum (getActor canisterId) (\<lambda>_.
       map_sum_r (\<lambda>(p, salt, validator). (p, fromOptArr salt, fromOptArr validator)) (throws response))"

definition finalizeRegistration :: "api_env \<Rightarrow> string \<Rightarrow> bytes \<Rightarrow> string \<Rightarrow> (jsval, 't) actor_method \<Rightarrow> api_error + unit" where
  "finalizeRegistration api canisterId encSalt encValidator call =
     map_sum_r (\<lambda>_. ())
       (user_call api canisterId ''finalize_registration''
          (Inr [(''enc_salt'', JBytes encSalt), (''enc_validator'', JStr encValidator)]) call)"

text \<open>\<open>Number\<close> of the byte counts, which is exact below \<open>2^53\<close>.\<close>

definition getUserStorageUsage :: "api_env \<Rightarrow> string \<Rightarrow> (unit, int \<times> int) actor_method \<Rightarrow> api_error + (rat \<times> rat)" where
  "getUserStorageUsage api canisterId call =
     map_sum_r (\<lambda>(usage, limit). (of_int usage, of_int limit)) (user_query api canisterId call)"

end
