(* ===== verification/User_Api_Props.thy ===== *)
theory User_Api_Props
  imports User_Api
begin

text \<open>
  What the API of the user canister guarantees: every request has the type the canister declares and carries what it
  was given, and every way a call can fail is an error with a text.
\<close>

section \<open>Payloads\<close>

text \<open>A record's field as it is sent.\<close>

lemma traverse_nth:
  assumes "traverse f xs = Inr ys" and "i < length xs"
  shows "f (xs ! i) = Inr (ys ! i)"
  using assms
proof (induction xs arbitrary: ys i)
  case (Cons x xs)
  then obtain y zs where "f x = Inr y" "traverse f xs = Inr zs" "ys = y # zs" by (auto split: sum.splits)
  with Cons show ?case by (cases i) auto
qed simp

lemma payload_field:
  assumes visited: "visit ft (IDL_Record flds) (JObj kvs) = Inr v" and dist: "distinct (map fst flds)" and mem: "(k, t) \<in> set flds"
  shows "visit ft t (get_prop (JObj kvs) k) = Inr (get_prop v k)"
proof -
  let ?f = "\<lambda>(key, type). map_sum_r (Pair key) (visit ft type (get_prop (JObj kvs) key))"
  from visited obtain ys where ys: "traverse ?f flds = Inr ys" and v: "v = JObj ys"
    by (cases "traverse ?f flds") auto
  have nth: "i < length flds \<Longrightarrow> \<exists>w. visit ft (snd (flds ! i)) (get_prop (JObj kvs) (fst (flds ! i))) = Inr w \<and> ys ! i = (fst (flds ! i), w)" for i
    using traverse_nth [OF ys, of i] by (cases "flds ! i") (auto elim: map_sum_r.elims)
  have len: "length ys = length flds" using ys by (rule traverse_length)
  have keys: "map fst ys = map fst flds"
    using nth len by (intro nth_equalityI) force+
  from mem obtain i where i: "i < length flds" "flds ! i = (k, t)" by (auto simp: in_set_conv_nth)
  with nth obtain w where w: "visit ft t (get_prop (JObj kvs) k) = Inr w" "ys ! i = (k, w)" by force
  then have "(k, w) \<in> set ys" using i(1) len nth_mem [of i ys] by simp
  then have "get_prop v k = w" using dist keys v by (simp add: get_prop_assoc)
  with w show ?thesis by simp
qed

text \<open>A method sends the payload, which has the declared type, and unwraps what comes back.\<close>

definition sends :: "api_env \<Rightarrow> idl \<Rightarrow> ((jsval, 't) actor_method \<Rightarrow> api_error + 't) \<Rightarrow> jsval \<Rightarrow> bool" where
  "sends api t f payload \<longleftrightarrow>
     candid_value t payload \<and> (\<forall>call. f call = bind_sum (throws (call payload)) (unwrap api))"

text \<open>An accepted object is sent as a value of the declared type.\<close>

lemma user_call_sends:
  assumes "map_of user_service m = Some [t]" and "frontend_value (ae_fromText api) t (JObj kvs)" and "cid \<noteq> ''''"
    and "f = user_call api cid m (Inr kvs)"
  obtains payload where "visit (ae_fromText api) t (JObj kvs) = Inr payload" and "sends api t f payload"
proof -
  from visit_frontend_value [OF assms(2)] obtain payload
    where p: "visit (ae_fromText api) t (JObj kvs) = Inr payload" "candid_value t payload"
    by (auto simp: well_visited_def)
  then have "adapt api user_service m kvs = Inr payload"
    using assms(1) by (simp add: adapt_def normalizePayload_def)
  with p assms(3,4) show ?thesis by (intro that) (auto simp: sends_def user_call_def getActor_def)
qed

definition id_ok :: "string \<Rightarrow> bool" where
  "id_ok s \<longleftrightarrow> (\<exists>i. parse_bigint s = Some i \<and> 0 \<le> i \<and> i < 2 ^ 64)"

definition id_number :: "string \<Rightarrow> int" where
  "id_number s = the (parse_bigint s)"

lemma id_okD: "id_ok s \<Longrightarrow> parse_bigint s = Some (id_number s) \<and> 0 \<le> id_number s \<and> id_number s < 2 ^ 64"
  by (auto simp: id_ok_def id_number_def)

lemma frontend_id [simp]: "id_ok s \<Longrightarrow> frontend_value ft Nat64 (JStr s)"
  by (auto dest!: id_okD)

lemma frontend_node: "0 \<le> n \<Longrightarrow> n < 2 ^ 64 \<Longrightarrow> frontend_value ft Nat64 (js_int n)"
  by simp

lemma frontend_nat32: "0 \<le> n \<Longrightarrow> n < 2 ^ 32 \<Longrightarrow> frontend_value ft Nat32 (js_int n)"
  by auto

lemma frontend_opt_text [simp]: "frontend_value ft (IDL_Opt IDL_Text) (js_opt v)" "frontend_value ft (IDL_Opt IDL_Text) (JStr s)"
  "frontend_value ft (IDL_Opt IDL_Text) JUndef"
  by (cases v) (simp_all add: js_opt_def)

lemma frontend_opt_id: "(\<And>s. v = Some s \<Longrightarrow> id_ok s) \<Longrightarrow> frontend_value ft (IDL_Opt Nat64) (js_opt v)"
  by (cases v) (auto simp: js_opt_def dest: id_okD)

lemma frontend_opt_list: "(\<And>x. x \<in> set xs \<Longrightarrow> frontend_value ft t (f x)) \<Longrightarrow> t \<noteq> Nat8 \<Longrightarrow> frontend_value ft (IDL_Opt (IDL_Vec t)) (js_list f xs)"
  by (cases xs) (auto simp: list_all_iff)

lemma frontend_list: "(\<And>x. x \<in> set xs \<Longrightarrow> frontend_value ft t (f x)) \<Longrightarrow> t \<noteq> Nat8 \<Longrightarrow> frontend_value ft (IDL_Vec t) (js_list f xs)"
  by (auto simp: list_all_iff)

lemma frontend_tool: "frontend_value ft U_Tool (js_tool t)"
  by (simp add: U_Tool_def js_tool_def)

lemma frontend_attachment: "frontend_value ft U_ImageAttachment (js_attachment a)"
  by (simp add: U_ImageAttachment_def js_attachment_def)

lemma frontend_response: "frontend_value ft U_ToolResponseMessage (js_response r)"
  by (simp add: U_ToolResponseMessage_def js_response_def)

lemma frontend_tool_result: "frontend_value ft U_ToolResult (js_tool_result r)"
  by (cases "tr_error r") (simp_all add: U_ToolResult_def js_tool_result_def js_opt_def)

lemma frontend_role: "frontend_value ft U_Role user_role"
  by (simp add: U_Role_def user_role_def)

lemma type_not_byte [simp]: "U_Tool \<noteq> Nat8" "U_ImageAttachment \<noteq> Nat8" "U_ToolResponseMessage \<noteq> Nat8" "U_ToolResult \<noteq> Nat8" "U_TextChunk \<noteq> Nat8"
  by (simp_all add: U_Tool_def U_ImageAttachment_def U_ToolResponseMessage_def U_ToolResult_def U_TextChunk_def)

lemma frontend_lists [simp]:
  "frontend_value ft (IDL_Opt (IDL_Vec U_Tool)) (js_list js_tool ts)"
  "frontend_value ft (IDL_Opt (IDL_Vec U_ImageAttachment)) (js_list js_attachment as)"
  "frontend_value ft (IDL_Vec U_ToolResponseMessage) (js_list js_response rs)"
  "frontend_value ft (IDL_Vec U_ToolResult) (js_list js_tool_result xs)"
  by (rule frontend_opt_list frontend_list; simp add: frontend_tool frontend_attachment frontend_response frontend_tool_result)+

lemma frontend_record:
  "distinct (map fst flds) \<Longrightarrow> list_all (\<lambda>(k, t). frontend_value ft t (get_prop (JObj kvs) k)) flds
   \<Longrightarrow> frontend_value ft (IDL_Record flds) (JObj kvs)"
  by simp

section \<open>Requests that start a generation\<close>

definition generation_ok :: "'a generation_params_scheme \<Rightarrow> int \<Rightarrow> bool" where
  "generation_ok p n \<longleftrightarrow> gp_nodeId p = Some n \<and> 0 \<le> n \<and> n < 2 ^ 64 \<and> 0 \<le> gp_maxCompletionTokens p
     \<and> gp_maxCompletionTokens p < 2 ^ 32 \<and> 0 \<le> gp_maxContext p \<and> gp_maxContext p < 2 ^ 32"

lemma generation_frontend:
  assumes "generation_ok p n"
  shows "frontend_value ft Nat64 (js_int n)" "frontend_value ft Nat32 (js_int (gp_maxCompletionTokens p))"
    "frontend_value ft Nat32 (js_int (gp_maxContext p))" "gp_nodeId p = Some n"
  using assms by (auto simp: generation_ok_def simp del: frontend_value.simps intro!: frontend_node frontend_nat32)

lemma service_types:
  "map_of user_service ''create_chat'' = Some [U_CreateChatRequest]"
  "map_of user_service ''add_message'' = Some [U_AddMessageRequest]"
  "map_of user_service ''edit_user_message'' = Some [U_EditUserMessageRequest]"
  "map_of user_service ''retry_ai_message'' = Some [U_RetryAiMessageRequest]"
  "map_of user_service ''continue_from_tool_response'' = Some [U_ContinueFromToolResponseRequest]"
  "map_of user_service ''store_tool_results'' = Some [U_StoreToolResultsRequest]"
  "map_of user_service ''upload_file'' = Some [U_UploadFileRequest]"
  by (simp_all add: user_service_def)

lemma frontend_texts [simp]: "frontend_value ft IDL_Text (JStr s)" "frontend_value ft (IDL_Float n) (JNum r)"
  "frontend_value ft IDL_Bool (JBool b)" "frontend_value ft (IDL_Vec Nat8) (JBytes bs)"
  by simp_all



lemma create_chat_frontend:
  assumes "generation_ok p n"
  shows "frontend_value ft U_CreateChatRequest (JObj (create_chat_fields n p))"
  unfolding U_CreateChatRequest_def create_chat_fields_def generation_fields_def
  by (rule frontend_record) (simp_all del: frontend_value.simps add: generation_frontend [OF assms])

lemma add_message_frontend:
  assumes "generation_ok p n" and "id_ok (ap_chatId p)" and "\<And>s. ap_parentMessageId p = Some s \<Longrightarrow> id_ok s"
  shows "frontend_value ft U_AddMessageRequest (JObj (add_message_fields n p))"
  unfolding U_AddMessageRequest_def add_message_fields_def generation_fields_def
  by (rule frontend_record)
    (simp_all del: frontend_value.simps add: generation_frontend [OF assms(1)] assms(2) frontend_opt_id [OF assms(3)] frontend_role)

lemma edit_user_message_frontend:
  assumes "generation_ok p n" and "id_ok (ep_chatId p)" and "id_ok (ep_oldUserMessageId p)"
  shows "frontend_value ft U_EditUserMessageRequest (JObj (edit_user_message_fields n p))"
  unfolding U_EditUserMessageRequest_def edit_user_message_fields_def generation_fields_def
  by (rule frontend_record) (simp_all del: frontend_value.simps add: generation_frontend [OF assms(1)] assms(2,3))

lemma retry_ai_message_frontend:
  assumes "generation_ok p n" and "id_ok (rp_chatId p)" and "id_ok (rp_userMessageId p)"
  shows "frontend_value ft U_RetryAiMessageRequest (JObj (retry_ai_message_fields n p))"
  unfolding U_RetryAiMessageRequest_def retry_ai_message_fields_def generation_fields_def
  by (rule frontend_record) (simp_all del: frontend_value.simps add: generation_frontend [OF assms(1)] assms(2,3))

lemma continue_frontend:
  assumes "generation_ok p n" and "id_ok (np_chatId p)" and "id_ok (np_assistantMessageId p)"
  shows "frontend_value ft U_ContinueFromToolResponseRequest (JObj (continue_fields n p))"
  unfolding U_ContinueFromToolResponseRequest_def continue_fields_def generation_fields_def
  by (rule frontend_record) (simp_all del: frontend_value.simps add: generation_frontend [OF assms(1)] assms(2,3))

lemma store_tool_results_frontend:
  assumes "id_ok (srp_chatId p)" and "id_ok (srp_assistantMessageId p)"
  shows "frontend_value ft U_StoreToolResultsRequest (JObj (store_tool_results_fields p))"
  unfolding U_StoreToolResultsRequest_def store_tool_results_fields_def
  by (rule frontend_record) (simp_all del: frontend_value.simps add: assms)

lemma visit_id: "id_ok s \<Longrightarrow> visit ft Nat64 (JStr s) = Inr (JBig (id_number s))"
  by (auto simp: visitPrimitive_def dest!: id_okD)

lemma visit_values:
  "visit ft Nat64 (js_int n) = Inr (JBig n)" "visit ft IDL_Text (JStr s) = Inr (JStr s)"
  "visit ft (IDL_Vec Nat8) (JBytes bs) = Inr (JBytes bs)" "visit ft (IDL_Opt IDL_Text) (JStr s) = Inr (JArr [JStr s])"
  by (simp_all add: visitPrimitive_def visitBlob_def)

lemma visit_opt_id: "(\<And>s. v = Some s \<Longrightarrow> id_ok s) \<Longrightarrow>
    visit ft (IDL_Opt Nat64) (js_opt v) = Inr (JArr (map (\<lambda>s. JBig (id_number s)) (toOpt v)))"
  by (cases v) (auto simp: js_opt_def toOpt_def visitPrimitive_def dest!: id_okD)

text \<open>A request is sent with the values its fields are adapted to.\<close>

definition adapts :: "api_env \<Rightarrow> (string \<times> idl) list \<Rightarrow> (string \<times> jsval) list \<Rightarrow> string \<times> jsval \<Rightarrow> bool" where
  "adapts api flds kvs = (\<lambda>(k, v). case map_of flds k of None \<Rightarrow> False | Some t \<Rightarrow> visit (ae_fromText api) t (get_prop (JObj kvs) k) = Inr v)"

lemma request_sent:
  assumes "map_of user_service m = Some [t]" and "t = IDL_Record flds" and "frontend_value (ae_fromText api) t (JObj kvs)"
    and "cid \<noteq> []" and "f = user_call api cid m (Inr kvs)" and "distinct (map fst flds)" and "list_all (adapts api flds kvs) wanted"
  shows "\<exists>payload. sends api t f payload \<and> list_all (\<lambda>(k, v). get_prop payload k = v) wanted"
proof (rule user_call_sends [OF assms(1,3,4,5)])
  fix payload
  assume visited: "visit (ae_fromText api) t (JObj kvs) = Inr payload" and sent: "sends api t f payload"
  have "get_prop payload k = v" if "(k, v) \<in> set wanted" for k v
  proof -
    from that assms(7) obtain tt where tt: "map_of flds k = Some tt" "visit (ae_fromText api) tt (get_prop (JObj kvs) k) = Inr v"
      by (auto simp: list_all_iff adapts_def split: option.splits)
    with payload_field [OF visited [unfolded assms(2)] assms(6) map_of_SomeD] show ?thesis by simp
  qed
  with sent show ?thesis by (auto simp: list_all_iff)
qed

text \<open>The Candid values of what the requests carry.\<close>

definition sent_tool :: "tool \<Rightarrow> jsval" where
  "sent_tool t = JObj [(''name'', JStr (t_name t)), (''parameters'', JStr (t_parameters t)), (''description'', JStr (t_description t))]"

definition sent_attachment :: "image_attachment \<Rightarrow> jsval" where
  "sent_attachment a = JObj [(''data'', JBytes (ia_data a)), (''mime_type'', JStr (ia_mime_type a))]"

definition sent_response :: "string \<times> bytes \<Rightarrow> jsval" where
  "sent_response r = JObj [(''content'', JBytes (snd r)), (''tool_call_id'', JStr (fst r))]"

definition sent_list :: "('a \<Rightarrow> jsval) \<Rightarrow> 'a list \<Rightarrow> jsval" where
  "sent_list f xs = JArr (if xs = [] then [] else [JArr (map f xs)])"

lemma visit_element:
  "visit ft U_Tool (js_tool t) = Inr (sent_tool t)" "visit ft U_ImageAttachment (js_attachment a) = Inr (sent_attachment a)"
  "visit ft U_ToolResponseMessage (js_response r) = Inr (sent_response r)"
  by (simp_all add: U_Tool_def js_tool_def sent_tool_def U_ImageAttachment_def js_attachment_def sent_attachment_def
      U_ToolResponseMessage_def js_response_def sent_response_def visitPrimitive_def visitBlob_def)

lemma visit_vec_map:
  assumes "t \<noteq> Nat8" and "\<And>x. visit ft t (f x) = Inr (g x)"
  shows "visit ft (IDL_Vec t) (js_list f xs) = Inr (JArr (map g xs))"
proof -
  have "traverse (visit ft t) (map f xs) = Inr (map g xs)" by (induction xs) (simp_all add: assms(2))
  with assms(1) show ?thesis by simp
qed

lemma visit_opt_vec:
  "t \<noteq> Nat8 \<Longrightarrow> (\<And>x. visit ft t (f x) = Inr (g x)) \<Longrightarrow> visit ft (IDL_Opt (IDL_Vec t)) (js_list f xs) = Inr (sent_list g xs)"
  using visit_vec_map [of t ft f g xs] by (cases xs) (simp_all add: sent_list_def del: visit.simps(3))

lemma visit_tools: "visit ft (IDL_Opt (IDL_Vec U_Tool)) (js_list js_tool ts) = Inr (sent_list sent_tool ts)"
  by (rule visit_opt_vec [OF type_not_byte(1) visit_element(1)])

lemma visit_attachments:
  "visit ft (IDL_Opt (IDL_Vec U_ImageAttachment)) (js_list js_attachment as) = Inr (sent_list sent_attachment as)"
  by (rule visit_opt_vec [OF type_not_byte(2) visit_element(2)])

lemma visit_responses: "visit ft (IDL_Vec U_ToolResponseMessage) (js_list js_response rs) = Inr (JArr (map sent_response rs))"
  by (rule visit_vec_map [OF type_not_byte(3) visit_element(3)])

lemma visit_others:
  "visit ft (IDL_Opt IDL_Text) (js_opt v) = Inr (JArr (map JStr (toOpt v)))"
  "visit ft Nat32 (js_int i) = Inr (js_int i)" "visit ft (IDL_Float k) (JNum q) = Inr (JNum q)" "visit ft IDL_Bool (JBool b) = Inr (JBool b)"
  "visit ft (IDL_Opt (IDL_Vec U_Tool)) (JArr []) = Inr (JArr [])" "visit ft (IDL_Opt IDL_Text) JUndef = Inr (JArr [])"
  by (cases v; simp add: js_opt_def toOpt_def visitPrimitive_def)+

lemmas visit_sent = visit_tools visit_attachments visit_responses visit_others

definition generation_payload :: "'a generation_params_scheme \<Rightarrow> int \<Rightarrow> (string \<times> jsval) list" where
  "generation_payload p n =
     [(''node_id'', JBig n), (''model_id'', JStr (gp_modelId p)), (''encrypted_chat_key'', JArr [JStr (gp_encryptedChatKey p)]),
      (''temperature'', JNum (gp_temperature p)), (''max_completion_tokens'', js_int (gp_maxCompletionTokens p)),
      (''max_context'', js_int (gp_maxContext p)), (''tools'', sent_list sent_tool (gp_tools p)),
      (''custom_prompt'', JArr [JStr (gp_customPrompt p)])]"

text \<open>The same for a temporary chat.\<close>

definition temp_ok :: "temp_params \<Rightarrow> int \<Rightarrow> bool" where
  "temp_ok p n \<longleftrightarrow> tp_nodeId p = Some n \<and> 0 \<le> n \<and> n < 2 ^ 64 \<and> 0 \<le> tp_maxCompletionTokens p
     \<and> tp_maxCompletionTokens p < 2 ^ 32 \<and> 0 \<le> tp_maxContext p \<and> tp_maxContext p < 2 ^ 32"

definition temp_payload :: "temp_params \<Rightarrow> int \<Rightarrow> (string \<times> jsval) list" where
  "temp_payload p n =
     [(''node_id'', JBig n), (''model_id'', JStr (tp_modelId p)), (''encrypted_chat_key'', JArr [JStr (tp_encryptedChatKey p)]),
      (''temperature'', JNum (tp_temperature p)), (''max_completion_tokens'', js_int (tp_maxCompletionTokens p)),
      (''max_context'', js_int (tp_maxContext p)), (''tools'', JArr []), (''custom_prompt'', JArr []),
      (''initial_message'', JBytes (tp_initialMessage p)), (''encryption_salt'', JBytes (tp_encryptionSalt p)),
      (''attachments'', sent_list sent_attachment (tp_attachments p)), (''temporary'', JBool True)]"

lemmas adapted = adapts_def generation_fields_def generation_payload_def visit_values visit_id visit_opt_id visit_sent

lemma create_chat_sent:
  assumes "generation_ok p n" and "cid \<noteq> []"
  shows "\<exists>payload. sends api U_CreateChatRequest (createChat api cid p) payload
    \<and> list_all (\<lambda>(k, v). get_prop payload k = v) (generation_payload p n @ [(''initial_message'', JBytes (cp_initialMessage p)), (''encryption_salt'', JBytes (cp_encryptionSalt p)),
                 (''attachments'', sent_list sent_attachment (cp_attachments p)), (''temporary'', JBool (cp_temporary p))])"
  by (rule request_sent [OF service_types(1) U_CreateChatRequest_def create_chat_frontend [OF assms(1)] \<open>cid \<noteq> []\<close>])
    (simp_all del: visit.simps add: fun_eq_iff createChat_def with_node_def generation_frontend(4) [OF assms(1)] create_chat_fields_def adapted assms)

lemma create_temp_sent:
  assumes "temp_ok p n" and "cid \<noteq> []"
  shows "\<exists>payload. sends api U_CreateChatRequest (createTempChat api cid p) payload \<and> list_all (\<lambda>(k, v). get_prop payload k = v) (temp_payload p n)"
proof -
  have ok: "frontend_value ft Nat64 (js_int n)" "frontend_value ft Nat32 (js_int (tp_maxCompletionTokens p))"
    "frontend_value ft Nat32 (js_int (tp_maxContext p))" "tp_nodeId p = Some n" for ft
    using assms(1) by (auto simp: temp_ok_def simp del: frontend_value.simps intro!: frontend_node frontend_nat32)
  have "frontend_value ft (IDL_Opt (IDL_Vec U_Tool)) (JArr [])" for ft by simp
  then have "frontend_value (ae_fromText api) U_CreateChatRequest (JObj (temp_chat_fields n p))"
    unfolding U_CreateChatRequest_def temp_chat_fields_def
    by (intro frontend_record) (simp_all del: frontend_value.simps add: ok)
  then show ?thesis
    by (rule request_sent [OF service_types(1) U_CreateChatRequest_def _ assms(2)])
      (simp_all del: visit.simps add: fun_eq_iff createTempChat_def with_node_def ok(4) temp_chat_fields_def temp_payload_def adapted)
qed

lemma add_message_sent:
  assumes "generation_ok p n" and "id_ok (ap_chatId p)" and "\<And>s. ap_parentMessageId p = Some s \<Longrightarrow> id_ok s" and "cid \<noteq> []"
  shows "\<exists>payload. sends api U_AddMessageRequest (addMessage api cid p) payload
    \<and> list_all (\<lambda>(k, v). get_prop payload k = v) (generation_payload p n @ [(''chat_id'', JBig (id_number (ap_chatId p))), (''content'', JBytes (ap_content p)),
        (''parent_message_id'', JArr (map (\<lambda>s. JBig (id_number s)) (toOpt (ap_parentMessageId p)))),
                 (''attachments'', sent_list sent_attachment (ap_attachments p)), (''reasoning_effort'', JArr (map JStr (toOpt (ap_reasoningEffort p))))])"
  by (rule request_sent [OF service_types(2) U_AddMessageRequest_def add_message_frontend [OF assms(1-3)] \<open>cid \<noteq> []\<close>])
    (simp_all del: visit.simps add: fun_eq_iff addMessage_def with_node_def generation_frontend(4) [OF assms(1)] add_message_fields_def adapted assms)

lemma edit_user_message_sent:
  assumes "generation_ok p n" and "id_ok (ep_chatId p)" and "id_ok (ep_oldUserMessageId p)" and "cid \<noteq> []"
  shows "\<exists>payload. sends api U_EditUserMessageRequest (editUserMessage_api api cid p) payload
    \<and> list_all (\<lambda>(k, v). get_prop payload k = v) (generation_payload p n @ [(''chat_id'', JBig (id_number (ep_chatId p))), (''new_content'', JBytes (ep_newContent p)),
        (''old_user_message_id'', JBig (id_number (ep_oldUserMessageId p))),
                 (''attachments'', sent_list sent_attachment (ep_attachments p)), (''reasoning_effort'', JArr (map JStr (toOpt (ep_reasoningEffort p))))])"
  by (rule request_sent [OF service_types(3) U_EditUserMessageRequest_def edit_user_message_frontend [OF assms(1-3)] \<open>cid \<noteq> []\<close>])
    (simp_all del: visit.simps add: fun_eq_iff editUserMessage_api_def with_node_def generation_frontend(4) [OF assms(1)] edit_user_message_fields_def adapted assms)

lemma retry_ai_message_sent:
  assumes "generation_ok p n" and "id_ok (rp_chatId p)" and "id_ok (rp_userMessageId p)" and "cid \<noteq> []"
  shows "\<exists>payload. sends api U_RetryAiMessageRequest (retryAiMessage_api api cid p) payload
    \<and> list_all (\<lambda>(k, v). get_prop payload k = v) (generation_payload p n @ [(''chat_id'', JBig (id_number (rp_chatId p))), (''user_message_id'', JBig (id_number (rp_userMessageId p))),
                 (''reasoning_effort'', JArr (map JStr (toOpt (rp_reasoningEffort p))))])"
  by (rule request_sent [OF service_types(4) U_RetryAiMessageRequest_def retry_ai_message_frontend [OF assms(1-3)] \<open>cid \<noteq> []\<close>])
    (simp_all del: visit.simps add: fun_eq_iff retryAiMessage_api_def with_node_def generation_frontend(4) [OF assms(1)] retry_ai_message_fields_def adapted assms)

lemma continue_sent:
  assumes "generation_ok p n" and "id_ok (np_chatId p)" and "id_ok (np_assistantMessageId p)" and "cid \<noteq> []"
  shows "\<exists>payload. sends api U_ContinueFromToolResponseRequest (continueFromToolResponse api cid p) payload
    \<and> list_all (\<lambda>(k, v). get_prop payload k = v) (generation_payload p n @ [(''chat_id'', JBig (id_number (np_chatId p))), (''assistant_message_id'', JBig (id_number (np_assistantMessageId p))),
                 (''responses'', JArr (map sent_response (np_responses p))), (''reasoning_effort'', JArr (map JStr (toOpt (np_reasoningEffort p))))])"
  by (rule request_sent [OF service_types(5) U_ContinueFromToolResponseRequest_def continue_frontend [OF assms(1-3)] \<open>cid \<noteq> []\<close>])
    (simp_all del: visit.simps add: fun_eq_iff continueFromToolResponse_def with_node_def generation_frontend(4) [OF assms(1)] continue_fields_def adapted assms)

text \<open>
  C27: every request that makes a node generate an answer, the one of a temporary chat included, reaches the canister as a
  value of the type its interface declares and with everything the action gave it: node, model and wrapped key, the
  encrypted texts, tool responses and attachments, the limits, tools and prompt, and the identifiers of chat and messages
  as numbers. It is assumed that the node has a number below \<open>2 ^ 64\<close>, that the identifiers are numerals
  below \<open>2 ^ 64\<close>, and that the two limits lie in 32 bits.
\<close>

theorem generation_requests_typed:
  assumes "cid \<noteq> ''''"
  shows "(\<forall>p n. temp_ok p n \<longrightarrow> (\<exists>payload. sends api U_CreateChatRequest (createTempChat api cid p) payload
          \<and> list_all (\<lambda>(k, v). get_prop payload k = v) (temp_payload p n)))
    \<and> (\<forall>p n. generation_ok p n \<longrightarrow> (\<exists>payload. sends api U_CreateChatRequest (createChat api cid p) payload
          \<and> list_all (\<lambda>(k, v). get_prop payload k = v) (generation_payload p n
              @ [(''initial_message'', JBytes (cp_initialMessage p)), (''encryption_salt'', JBytes (cp_encryptionSalt p)),
                 (''attachments'', sent_list sent_attachment (cp_attachments p)), (''temporary'', JBool (cp_temporary p))])))
    \<and> (\<forall>p n. generation_ok p n \<longrightarrow> id_ok (ap_chatId p) \<longrightarrow> (\<forall>s. ap_parentMessageId p = Some s \<longrightarrow> id_ok s)
        \<longrightarrow> (\<exists>payload. sends api U_AddMessageRequest (addMessage api cid p) payload
          \<and> list_all (\<lambda>(k, v). get_prop payload k = v) (generation_payload p n
              @ [(''chat_id'', JBig (id_number (ap_chatId p))), (''content'', JBytes (ap_content p)),
                 (''parent_message_id'', JArr (map (\<lambda>s. JBig (id_number s)) (toOpt (ap_parentMessageId p)))),
                 (''attachments'', sent_list sent_attachment (ap_attachments p)), (''reasoning_effort'', JArr (map JStr (toOpt (ap_reasoningEffort p))))])))
    \<and> (\<forall>p n. generation_ok p n \<longrightarrow> id_ok (ep_chatId p) \<longrightarrow> id_ok (ep_oldUserMessageId p)
        \<longrightarrow> (\<exists>payload. sends api U_EditUserMessageRequest (editUserMessage_api api cid p) payload
          \<and> list_all (\<lambda>(k, v). get_prop payload k = v) (generation_payload p n
              @ [(''chat_id'', JBig (id_number (ep_chatId p))), (''new_content'', JBytes (ep_newContent p)),
                 (''old_user_message_id'', JBig (id_number (ep_oldUserMessageId p))),
                 (''attachments'', sent_list sent_attachment (ep_attachments p)), (''reasoning_effort'', JArr (map JStr (toOpt (ep_reasoningEffort p))))])))
    \<and> (\<forall>p n. generation_ok p n \<longrightarrow> id_ok (rp_chatId p) \<longrightarrow> id_ok (rp_userMessageId p)
        \<longrightarrow> (\<exists>payload. sends api U_RetryAiMessageRequest (retryAiMessage_api api cid p) payload
          \<and> list_all (\<lambda>(k, v). get_prop payload k = v) (generation_payload p n
              @ [(''chat_id'', JBig (id_number (rp_chatId p))), (''user_message_id'', JBig (id_number (rp_userMessageId p))),
                 (''reasoning_effort'', JArr (map JStr (toOpt (rp_reasoningEffort p))))])))
    \<and> (\<forall>p n. generation_ok p n \<longrightarrow> id_ok (np_chatId p) \<longrightarrow> id_ok (np_assistantMessageId p)
        \<longrightarrow> (\<exists>payload. sends api U_ContinueFromToolResponseRequest (continueFromToolResponse api cid p) payload
          \<and> list_all (\<lambda>(k, v). get_prop payload k = v) (generation_payload p n
              @ [(''chat_id'', JBig (id_number (np_chatId p))), (''assistant_message_id'', JBig (id_number (np_assistantMessageId p))),
                 (''responses'', JArr (map sent_response (np_responses p))), (''reasoning_effort'', JArr (map JStr (toOpt (np_reasoningEffort p))))])))"
proof (intro conjI allI impI, goal_cases)
  case (1 p n)
  then show ?case using assms by (rule create_temp_sent)
next
  case (2 p n)
  then show ?case using assms by (rule create_chat_sent)
next
  case (3 p n)
  then show ?case using assms by (intro add_message_sent) auto
next
  case (4 p n)
  then show ?case using assms by (rule edit_user_message_sent)
next
  case (5 p n)
  then show ?case using assms by (rule retry_ai_message_sent)
next
  case (6 p n)
  then show ?case using assms by (rule continue_sent)
qed

definition example_retry :: retry_message_params where
  "example_retry = \<lparr>gp_modelId = ''m'', gp_nodeId = Some 3, gp_temperature = 1, gp_maxCompletionTokens = 100, gp_maxContext = 1000,
     gp_encryptedChatKey = ''k'', gp_tools = [], gp_customPrompt = [], rp_chatId = ''7'', rp_userMessageId = ''8'',
     rp_reasoningEffort = None\<rparr>"

definition example_api :: api_env where
  "example_api = \<lparr>ae_fromText = Some, ae_json = (\<lambda>_. None), ae_to_f32 = (\<lambda>_. 0), ae_of_f32 = (\<lambda>_. 0)\<rparr>"

lemma generation_requests_typed_witness:
  "\<exists>payload. sends example_api U_RetryAiMessageRequest (retryAiMessage_api example_api ''c'' example_retry) payload
     \<and> get_prop payload ''chat_id'' = JBig 7 \<and> get_prop payload ''user_message_id'' = JBig 8"
proof -
  have "generation_ok example_retry 3" by (simp add: generation_ok_def example_retry_def)
  moreover have p: "parse_bigint ''7'' = Some 7" "parse_bigint ''8'' = Some 8" by code_simp+
  then have "id_ok (rp_chatId example_retry)" "id_ok (rp_userMessageId example_retry)"
    "id_number (rp_chatId example_retry) = 7" "id_number (rp_userMessageId example_retry) = 8"
    by (simp_all add: id_ok_def id_number_def example_retry_def)
  ultimately show ?thesis
    using generation_requests_typed [THEN conjunct2, THEN conjunct2, THEN conjunct2, THEN conjunct2, THEN conjunct1, rule_format,
        of "''c''" example_retry 3 example_api] by auto
qed

section \<open>The other requests\<close>

lemma other_types:
  "map_of user_service ''list_chats'' = Some [U_ListChatsRequest]" "map_of user_service ''get_chat'' = Some [U_GetChatRequest]"
  "map_of user_service ''get_message'' = Some [U_GetMessageRequest]" "map_of user_service ''delete_chat'' = Some [U_DeleteChatRequest]"
  "map_of user_service ''rename_item'' = Some [U_RenameItemRequest]" "map_of user_service ''delete_item'' = Some [U_DeleteItemRequest]"
  "map_of user_service ''create_folder'' = Some [U_CreateFolderRequest]"
  "map_of user_service ''get_folder_content'' = Some [U_GetFolderContentRequest]"
  "map_of user_service ''finalize_registration'' = Some [U_FinalizeRegistrationRequest]"
  by (simp_all add: user_service_def)

text \<open>The same for the methods that map what comes back.\<close>

definition sends_mapped :: "api_env \<Rightarrow> idl \<Rightarrow> ((jsval, 't) actor_method \<Rightarrow> api_error + 'u) \<Rightarrow> ('t \<Rightarrow> 'u) \<Rightarrow> (string \<times> jsval) list \<Rightarrow> bool" where
  "sends_mapped api t f g wanted \<longleftrightarrow>
     (\<exists>payload. candid_value t payload \<and> list_all (\<lambda>(k, v). get_prop payload k = v) wanted
        \<and> (\<forall>call. f call = map_sum_r g (bind_sum (throws (call payload)) (unwrap api))))"

lemma request_sent_mapped:
  fixes f :: "(jsval, 't) actor_method \<Rightarrow> api_error + 'u"
  assumes "map_of user_service m = Some [t]" and "t = IDL_Record flds" and "frontend_value (ae_fromText api) t (JObj kvs)"
    and "cid \<noteq> []" and "\<And>call. f call = map_sum_r g (user_call api cid m (Inr kvs) call)"
    and "distinct (map fst flds)" and "list_all (adapts api flds kvs) wanted"
  shows "sends_mapped api t f g wanted"
  using request_sent [OF assms(1-4) refl assms(6,7), where ?'a = 't] assms(5) unfolding sends_mapped_def sends_def by metis

lemma map_sum_r_id [simp]: "map_sum_r (\<lambda>x. x) r = r"
  by (cases r) simp_all

lemma map_sum_r_unit [simp]: "map_sum_r (\<lambda>_ :: unit. ()) r = r"
  by (cases r) simp_all

lemma frontend_nat32_nat: "n < 2 ^ 32 \<Longrightarrow> frontend_value ft Nat32 (JNum (of_nat n))"
  using frontend_nat32 [of "int n" ft] by simp

definition chunk_ok :: "text_chunk \<Rightarrow> bool" where
  "chunk_ok c \<longleftrightarrow> k_chunk_index c < 2 ^ 32 \<and> k_start_char c < 2 ^ 32 \<and> k_end_char c < 2 ^ 32"

lemma frontend_chunk: "chunk_ok c \<Longrightarrow> frontend_value ft U_TextChunk (js_chunk to_f32 c)"
  unfolding U_TextChunk_def js_chunk_def
  by (rule frontend_record) (simp_all del: frontend_value.simps add: frontend_nat32_nat chunk_ok_def)

lemma big_id_number: "id_ok s \<Longrightarrow> toBigInt (StrArg s) = id_number s"
  by (auto dest: id_okD)

lemma upload_file_frontend:
  assumes "id_ok (ur_parentFolderId p)" and "\<And>cs c. ur_chunks p = Some cs \<Longrightarrow> c \<in> set cs \<Longrightarrow> chunk_ok c"
  shows "frontend_value ft U_UploadFileRequest (JObj (mapUploadFileRequest to_f32 p))"
proof -
  have "frontend_value ft (IDL_Opt (IDL_Vec U_TextChunk)) (case ur_chunks p of None \<Rightarrow> JUndef | Some cs \<Rightarrow> js_list (js_chunk to_f32) cs)"
    using assms(2) by (cases "ur_chunks p") (simp, simp only: option.case, rule frontend_opt_list, auto simp del: frontend_value.simps intro: frontend_chunk)
  moreover have "frontend_value ft Nat64 (big_id (ur_parentFolderId p))"
    using id_okD [OF assms(1)] by (simp add: big_id_number [OF assms(1)] del: toBigInt.simps)
  ultimately show ?thesis
    unfolding U_UploadFileRequest_def mapUploadFileRequest_def
    by (intro frontend_record) (simp_all del: frontend_value.simps toBigInt.simps)
qed

lemma frontend_item_type: "frontend_value ft U_FsItemType (item_type kind)"
  by (simp add: U_FsItemType_def item_type_def)

lemma visit_item_type: "visit ft U_FsItemType (item_type kind) = Inr (item_type kind)"
  by (simp add: U_FsItemType_def item_type_def visitPrimitive_def)

lemma frontend_folder_id: "(\<And>s. v = Some s \<Longrightarrow> id_ok s) \<Longrightarrow> frontend_value ft (IDL_Opt Nat64) (case v of None \<Rightarrow> JNull | Some f \<Rightarrow> JStr f)"
  by (cases v) (auto dest: id_okD)

lemma visit_folder_id: "(\<And>s. v = Some s \<Longrightarrow> id_ok s) \<Longrightarrow>
    visit ft (IDL_Opt Nat64) (case v of None \<Rightarrow> JNull | Some f \<Rightarrow> JStr f) = Inr (JArr (map (\<lambda>s. JBig (id_number s)) (toOpt v)))"
  by (cases v) (auto simp: toOpt_def visitPrimitive_def dest!: id_okD)

lemma visit_big: "id_ok s \<Longrightarrow> visit ft Nat64 (JBig (toBigInt (StrArg s))) = Inr (JBig (id_number s))"
  by (simp add: visitPrimitive_def big_id_number del: toBigInt.simps)

text \<open>The objects the methods build.\<close>

lemma plain_frontend:
  "id_ok i \<Longrightarrow> frontend_value ft U_RenameItemRequest (JObj [(''item_id'', JStr i), (''item_type'', item_type kind), (''new_name'', JStr n)])"
  "id_ok i \<Longrightarrow> frontend_value ft U_DeleteItemRequest (JObj [(''item_id'', JStr i), (''item_type'', item_type kind)])"
  "(\<And>i. f = Some i \<Longrightarrow> id_ok i) \<Longrightarrow>
     frontend_value ft U_GetFolderContentRequest (JObj [(''folder_id'', case f of None \<Rightarrow> JNull | Some f \<Rightarrow> JStr f)])"
  "frontend_value ft U_FinalizeRegistrationRequest (JObj [(''enc_salt'', JBytes salt), (''enc_validator'', JStr v)])"
  unfolding U_RenameItemRequest_def U_DeleteItemRequest_def U_GetFolderContentRequest_def U_FinalizeRegistrationRequest_def
  by (intro frontend_record; simp del: frontend_value.simps add: frontend_item_type frontend_folder_id)+

lemmas plain_request = fun_eq_iff adapts_def visit_values visit_id visit_item_type visit_folder_id visit_big

text \<open>
  The requests of the file system, the tool results and the vault have their declared types too: an upload carries
  its content and its folder's number, a rename or deletion names the item's number and kind, a listing asks for the
  folder's number or, at the root, for none, the results of tools name their message, and the registration carries the
  salt and the validator; what comes back is mapped by the method.
\<close>

theorem file_requests_typed:
  assumes "cid \<noteq> ''''"
  shows "(\<forall>p. id_ok (ur_parentFolderId p) \<longrightarrow> (\<forall>cs c. ur_chunks p = Some cs \<longrightarrow> c \<in> set cs \<longrightarrow> chunk_ok c)
        \<longrightarrow> sends_mapped api U_UploadFileRequest (uploadFile_api api cid p) (\<lambda>i. toFileId (fromBigInt (Some i)))
              [(''parent_folder_id'', JBig (id_number (ur_parentFolderId p))), (''content'', JBytes (ur_content p)), (''name'', JStr (ur_name p))])
    \<and> (\<forall>i kind new. id_ok i \<longrightarrow> sends_mapped api U_RenameItemRequest (renameItem_api api cid i kind new) (\<lambda>_ :: 't. ())
              [(''item_id'', JBig (id_number i)), (''item_type'', item_type kind), (''new_name'', JStr new)])
    \<and> (\<forall>i kind. id_ok i \<longrightarrow> sends_mapped api U_DeleteItemRequest (deleteItem_api api cid i kind) (\<lambda>u. u)
              [(''item_id'', JBig (id_number i)), (''item_type'', item_type kind)])
    \<and> (\<forall>f. (\<forall>i. f = Some i \<longrightarrow> id_ok i) \<longrightarrow> sends_mapped api U_GetFolderContentRequest (getFolderContent api cid f) (folder_answer_of (ae_of_f32 api))
              [(''folder_id'', JArr (map (\<lambda>s. JBig (id_number s)) (toOpt f)))])
    \<and> (\<forall>p. id_ok (srp_chatId p) \<longrightarrow> id_ok (srp_assistantMessageId p) \<longrightarrow>
          sends_mapped api U_StoreToolResultsRequest (storeToolResults api cid p) (\<lambda>u. u)
              [(''assistant_message_id'', JBig (id_number (srp_assistantMessageId p)))])
    \<and> (\<forall>salt v. sends_mapped api U_FinalizeRegistrationRequest (finalizeRegistration api cid salt v) (\<lambda>_ :: 't. ())
              [(''enc_salt'', JBytes salt), (''enc_validator'', JStr v)])"
proof (intro conjI allI impI, goal_cases)
  case (1 p)
  then show ?case
    by (intro request_sent_mapped [OF service_types(7) U_UploadFileRequest_def upload_file_frontend assms])
      (auto simp del: visit.simps toBigInt.simps simp: uploadFile_api_def mapUploadFileRequest_def plain_request)
next
  case (2 i kind new)
  show ?case
    by (rule request_sent_mapped [OF other_types(5) U_RenameItemRequest_def plain_frontend(1) [OF 2] assms])
      (simp_all del: visit.simps add: renameItem_api_def plain_request 2)
next
  case (3 i kind)
  show ?case
    by (rule request_sent_mapped [OF other_types(6) U_DeleteItemRequest_def plain_frontend(2) [OF 3] assms])
      (simp_all del: visit.simps add: deleteItem_api_def plain_request 3)
next
  case (4 f)
  then have f: "\<And>i. f = Some i \<Longrightarrow> id_ok i" by blast
  show ?case
    by (rule request_sent_mapped [OF other_types(8) U_GetFolderContentRequest_def plain_frontend(3) [OF f] assms])
      (use visit_folder_id [OF f, of f "ae_fromText api"] in \<open>simp_all del: visit.simps add: getFolderContent_def adapts_def\<close>)
next
  case (5 p)
  then show ?case
    by (intro request_sent_mapped [OF service_types(6) U_StoreToolResultsRequest_def store_tool_results_frontend assms])
      (auto simp del: visit.simps simp: storeToolResults_def plain_request store_tool_results_fields_def)
next
  case (6 salt v)
  show ?case
    by (rule request_sent_mapped [OF other_types(9) U_FinalizeRegistrationRequest_def plain_frontend(4) assms])
      (simp_all del: visit.simps add: finalizeRegistration_def plain_request)
qed

lemma file_requests_typed_witness:
  "sends_mapped example_api U_DeleteItemRequest (deleteItem_api example_api ''c'' ''7'' FileKind) (\<lambda>u. u)
     [(''item_id'', JBig 7), (''item_type'', JObj [(''File'', JNull)])]"
proof -
  have "parse_bigint ''7'' = Some 7" by code_simp
  then have "id_ok ''7''" "id_number ''7'' = 7" by (simp_all add: id_ok_def id_number_def)
  then show ?thesis
    using file_requests_typed [THEN conjunct2, THEN conjunct2, THEN conjunct1, rule_format,
        of "''c''" "''7''" example_api FileKind] by (simp add: item_type_def)
qed


section \<open>Outcomes\<close>

lemma throws_simps [simp]: "throws (Inl m) = Inl (Thrown m)" "throws (Inr v) = Inr v"
  by simp_all

lemma user_call_answer:
  assumes "cid \<noteq> []" and "adapt api user_service m kvs = Inr payload" and "call payload = Inr r"
  shows "user_call api cid m (Inr kvs) call = unwrap api r"
  using assms by (simp add: user_call_def getActor_def)

text \<open>The kinds of error the interface declares, and those the frontend has no text for.\<close>

definition declared_errors :: "string list" where
  "declared_errors = (case U_CanisterError of IDL_Variant alts \<Rightarrow> map fst alts | _ \<Rightarrow> [])"

definition unnamed_errors :: "string list" where
  "unnamed_errors = [''UserAlreadyRegistered'', ''InvalidFileName'', ''PoolExhausted'', ''NoAvailableUserCanister'', ''TrialExpired'']"

lemma declared_named: "list_all (\<lambda>k. k \<in> set unnamed_errors \<or> k \<in> fst ` set canister_error_texts) declared_errors"
  by (simp add: declared_errors_def U_CanisterError_def unnamed_errors_def canister_error_texts_def)

lemma unnamed_declared: "k \<in> set unnamed_errors \<Longrightarrow> k \<in> set declared_errors \<and> k \<notin> fst ` set canister_error_texts"
  by (auto simp: declared_errors_def U_CanisterError_def unnamed_errors_def canister_error_texts_def)

lemma named_error:
  assumes "k \<in> set declared_errors" and "k \<notin> set unnamed_errors"
  obtains f where "(k, f) \<in> set canister_error_texts"
  using declared_named assms by (force simp: list_all_iff)

text \<open>
  C28: what a call of the user canister comes to. Without a canister's identifier nothing is called; an actor that fails
  fails the call with its message; a result that is missing, or neither \<open>Ok\<close> nor \<open>Err\<close>, is an error, never a value; a
  value is returned in both shapes of a result; and an error the canister's interface declares is thrown with the
  frontend's own text for its kind, in both shapes, except for five kinds, which are shown as \<open>JSON.stringify\<close> of the
  error.
\<close>

theorem user_call_outcome:
  "user_call api '''' m params call = Inl (Thrown ''User canister ID is required.'')
   \<and> (\<forall>cid kvs payload. cid \<noteq> '''' \<longrightarrow> adapt api user_service m kvs = Inr payload \<longrightarrow>
        (\<forall>e. call payload = Inl e \<longrightarrow> user_call api cid m (Inr kvs) call = Inl (Thrown e))
      \<and> (call payload = Inr None \<longrightarrow>
          user_call api cid m (Inr kvs) call = Inl (Thrown ''Received null/undefined result from canister.''))
      \<and> (\<forall>r v. call payload = Inr (Some r) \<longrightarrow> r \<in> ok_results v \<longrightarrow> user_call api cid m (Inr kvs) call = Inr v)
      \<and> (\<forall>r k v. call payload = Inr (Some r) \<longrightarrow> k \<in> set declared_errors \<longrightarrow> r \<in> err_results (Some [(k, v)]) \<longrightarrow>
          (if k \<in> set unnamed_errors then \<forall>s. ae_json api [(k, v)] = Some s \<longrightarrow> user_call api cid m (Inr kvs) call = Inl (Thrown s)
           else \<exists>text. (k, text) \<in> set canister_error_texts \<and> user_call api cid m (Inr kvs) call = Inl (Thrown (text v))))
      \<and> (\<forall>r. call payload = Inr (Some r) \<longrightarrow> ro_kind r \<notin> range (Some \<circ> Kind_Ok) \<union> range (Some \<circ> Kind_Err) \<longrightarrow> ro_Ok r = None
          \<longrightarrow> ro_Err r = None \<longrightarrow> user_call api cid m (Inr kvs) call = Inl (Thrown ''Invalid result format: Neither Ok nor Err present.'')))"
proof (intro conjI allI impI, goal_cases)
  case 1
  show ?case by (simp add: user_call_def getActor_def)
next
  case (2 cid kvs payload e)
  then show ?case by (simp add: user_call_def getActor_def)
next
  case (3 cid kvs payload)
  from user_call_answer [where call = call, OF 3] show ?case by (simp add: unwrap_def)
next
  case (4 cid kvs payload r v)
  from user_call_answer [where call = call, OF 4(1-3)] 4(4) show ?case by (simp add: unwrap_def unwrap_ok)
next
  case (5 cid kvs payload r k v)
  from user_call_answer [where call = call, OF 5(1-3)] 5(5)
  have *: "user_call api cid m (Inr kvs) call = Inl (Thrown (formatCanisterError (ae_json api) (Some [(k, v)])))"
    by (simp add: unwrap_def unwrap_err)
  show ?case
  proof (cases "k \<in> set unnamed_errors")
    case True
    with * unnamed_declared [OF True] show ?thesis by (simp add: formatCanisterError_unknown)
  next
    case False
    from named_error [OF 5(4) this] obtain f where f: "(k, f) \<in> set canister_error_texts" .
    with * False show ?thesis by (auto simp: formatCanisterError_variant [OF f])
  qed
next
  case (6 cid kvs payload r)
  from user_call_answer [where call = call, OF 6(1-3)] 6(4-6) show ?case
    by (cases "ro_kind r") (auto simp: unwrap_def unwrapResult_def legacy_result_def image_iff split: kinded.split)
qed

lemma user_call_outcome_witness:
  "deleteChat_api example_api ''c'' ''7'' (\<lambda>_. Inr (Some \<lparr>ro_kind = Some (Kind_Err (Some [(''ChatNotFound'', ''null'')])), ro_Ok = None, ro_Err = None\<rparr>))
     = Inl (Thrown ''Chat not found.'')"
proof -
  have a: "adapt example_api user_service ''delete_chat'' [(''chat_id'', JStr ''7'')] = Inr (JObj [(''chat_id'', JBig 7)])"
    by code_simp
  have "''ChatNotFound'' \<in> set declared_errors" "''ChatNotFound'' \<notin> set unnamed_errors"
    by (simp_all add: declared_errors_def unnamed_errors_def U_CanisterError_def)
  then show ?thesis
    using user_call_outcome [THEN conjunct2, rule_format, OF _ a, THEN conjunct2, THEN conjunct2, THEN conjunct2, THEN conjunct1, rule_format,
        of "''c''" "\<lambda>_. Inr (Some \<lparr>ro_kind = Some (Kind_Err (Some [(''ChatNotFound'', ''null'')])), ro_Ok = None, ro_Err = None\<rparr>)"
          _ "''ChatNotFound''" "''null''"]
    by (auto simp: deleteChat_api_def err_results_def canister_error_texts_def)
qed

end
