(* ===== verification/Index_Api.thy ===== *)
theory Index_Api
  imports User_Api Nodes
begin

text \<open>
  \<open>src/gpt_frontend/src/services/api/indexApi.ts\<close>: the calls of the index canister, in the same way as those of
  the user canister: an object is adapted to the declared type, sent, and the result unwrapped and mapped. The
  argument \<open>call\<close> is the actor's method; an actor that cannot be made fails the call.
\<close>

section \<open>A call\<close>

definition index_call ::
  "api_env \<Rightarrow> string \<Rightarrow> (string \<times> jsval) list \<Rightarrow> (jsval, 't) actor_method \<Rightarrow> api_error + 't" where
  "index_call api methodName params call =
     bind_sum (adapt api index_service methodName params) (\<lambda>payload.
     bind_sum (throws (call payload)) (unwrap api))"

definition index_query :: "api_env \<Rightarrow> (unit, 't) actor_method \<Rightarrow> api_error + 't" where
  "index_query api call = bind_sum (throws (call ())) (unwrap api)"

abbreviation done_with :: "api_error + 't \<Rightarrow> api_error + unit" where
  "done_with r \<equiv> map_sum_r (\<lambda>_. ()) r"

section \<open>Models and nodes\<close>

text \<open>The models are answered without a result to unwrap.\<close>

definition getModels :: "string + backend_model list \<Rightarrow> api_error + model list" where
  "getModels response = map_sum_r (map mapBackendModelToFrontend) (throws response)"

definition listActiveNodes :: "api_env \<Rightarrow> (unit, backend_public_node list) actor_method \<Rightarrow> api_error + node_info list" where
  "listActiveNodes api call = map_sum_r (map mapBackendPublicNodeInfoToFrontend) (index_query api call)"

definition listMyNodes :: "api_env \<Rightarrow> (unit, backend_public_node list) actor_method \<Rightarrow> api_error + node_info list" where
  "listMyNodes api call = map_sum_r (map mapBackendPublicNodeInfoToFrontend) (index_query api call)"

definition isManager_api :: "api_env \<Rightarrow> (unit, bool) actor_method \<Rightarrow> api_error + bool" where
  "isManager_api api call = index_query api call"

text \<open>\<open>Number\<close> of the identifier, which is exact below \<open>2^53\<close>.\<close>

definition createNode_api :: "api_env \<Rightarrow> create_node_request \<Rightarrow> (jsval, int) actor_method \<Rightarrow> api_error + rat" where
  "createNode_api api req call =
     map_sum_r of_int
       (index_call api ''create_node''
          [(''hostname'', JStr (cn_hostname req)), (''model_id'', JStr (cn_modelId req)),
           (''encrypted_api_key'', JStr (cn_encryptedApiKey req)), (''expected_chip_id'', JStr (cn_expectedChipId req))] call)"

section \<open>Users\<close>

text \<open>A principal is its text.\<close>

definition getUserAssignment ::
  "api_env \<Rightarrow> string \<Rightarrow> (jsval, principal list) actor_method \<Rightarrow> api_error + principal option" where
  "getUserAssignment api userPrincipal call =
     map_sum_r (\<lambda>assigned_canister. if length assigned_canister > 0 then Some (assigned_canister ! 0) else None)
       (index_call api ''get_user_assignment'' [(''user_principal'', JStr userPrincipal)] call)"

definition registerUser :: "api_env \<Rightarrow> string \<Rightarrow> (jsval, 't) actor_method \<Rightarrow> api_error + unit" where
  "registerUser api username call = done_with (index_call api ''register_user'' [(''username'', JStr username)] call)"

section \<open>Governance\<close>

definition listManagers :: "api_env \<Rightarrow> (unit, principal list) actor_method \<Rightarrow> api_error + principal list" where
  "listManagers api call = index_query api call"

definition claimManagerRole_api :: "api_env \<Rightarrow> (unit, 't) actor_method \<Rightarrow> api_error + unit" where
  "claimManagerRole_api api call = done_with (index_query api call)"

definition addManager_api :: "api_env \<Rightarrow> string \<Rightarrow> (jsval, 't) actor_method \<Rightarrow> api_error + unit" where
  "addManager_api api principalStr call =
     done_with (index_call api ''add_manager'' [(''principal_to_add'', JStr principalStr)] call)"

definition removeManager_api :: "api_env \<Rightarrow> principal \<Rightarrow> (jsval, 't) actor_method \<Rightarrow> api_error + unit" where
  "removeManager_api api p call =
     done_with (index_call api ''remove_manager'' [(''principal_to_remove'', JPrincipal p)] call)"

text \<open>The requirements are kept as the canister sends them.\<close>

definition getAttestationRequirements :: "api_env \<Rightarrow> (unit, 'r) actor_method \<Rightarrow> api_error + 'r" where
  "getAttestationRequirements api call = index_query api call"

definition updateAttestationPolicies_api ::
  "api_env \<Rightarrow> (string \<times> jsval) list \<Rightarrow> (jsval, 't) actor_method \<Rightarrow> api_error + unit" where
  "updateAttestationPolicies_api api requirements call =
     done_with (index_call api ''update_attestation_policies'' requirements call)"

definition addMeasurement_api :: "api_env \<Rightarrow> string \<Rightarrow> string \<Rightarrow> (jsval, 't) actor_method \<Rightarrow> api_error + unit" where
  "addMeasurement_api api hex name call =
     done_with (index_call api ''add_measurement'' [(''measurement_hex'', JStr hex), (''name'', JStr name)] call)"

definition updateMeasurementStatus_api :: "api_env \<Rightarrow> string \<Rightarrow> jsval \<Rightarrow> (jsval, 't) actor_method \<Rightarrow> api_error + unit" where
  "updateMeasurementStatus_api api hex status call =
     done_with (index_call api ''update_measurement_status'' [(''measurement_hex'', JStr hex), (''status'', status)] call)"

definition removeMeasurement_api :: "api_env \<Rightarrow> string \<Rightarrow> (jsval, 't) actor_method \<Rightarrow> api_error + unit" where
  "removeMeasurement_api api hex call =
     done_with (index_call api ''remove_measurement'' [(''measurement_hex'', JStr hex)] call)"

text \<open>\<open>BackendModelPreset\<close>: the description of a model as the canister wants it, with four optional fields.\<close>

datatype preset_status = Preset_Active | Preset_Paused

record model_preset =
  mp_model_id :: string
  mp_name :: string
  mp_description :: string
  mp_max_context :: rat
  mp_max_output :: rat
  mp_input_token_price :: rat
  mp_output_token_price :: rat
  mp_maker :: string
  mp_provider :: string
  mp_provider_model :: string
  mp_provider_endpoint :: string
  mp_max_image_attachments :: rat
  mp_max_tools :: rat
  mp_aa_score :: "rat list"
  mp_release_date :: "string list"
  mp_status :: preset_status
  mp_extra_body_json :: "string option"
  mp_is_reasoning :: "bool option"
  mp_is_embedding :: "bool option"
  mp_is_featured :: "bool option"

definition js_flag :: "bool option \<Rightarrow> jsval" where
  "js_flag b = (case b of None \<Rightarrow> JUndef | Some v \<Rightarrow> JBool v)"

definition js_status :: "preset_status \<Rightarrow> jsval" where
  "js_status st = JObj [(case st of Preset_Active \<Rightarrow> ''Active'' | Preset_Paused \<Rightarrow> ''Paused'', JNull)]"

definition preset_fields :: "model_preset \<Rightarrow> (string \<times> jsval) list" where
  "preset_fields m =
     [(''model_id'', JStr (mp_model_id m)), (''name'', JStr (mp_name m)), (''description'', JStr (mp_description m)),
      (''max_context'', JNum (mp_max_context m)), (''max_output'', JNum (mp_max_output m)),
      (''input_token_price'', JNum (mp_input_token_price m)), (''output_token_price'', JNum (mp_output_token_price m)),
      (''maker'', JStr (mp_maker m)), (''provider'', JStr (mp_provider m)), (''provider_model'', JStr (mp_provider_model m)),
      (''provider_endpoint'', JStr (mp_provider_endpoint m)),
      (''max_image_attachments'', JNum (mp_max_image_attachments m)), (''max_tools'', JNum (mp_max_tools m)),
      (''aa_score'', js_list JNum (mp_aa_score m)), (''release_date'', js_list JStr (mp_release_date m)),
      (''status'', js_status (mp_status m)), (''extra_body_json'', js_opt (mp_extra_body_json m)),
      (''is_reasoning'', js_flag (mp_is_reasoning m)), (''is_embedding'', js_flag (mp_is_embedding m)),
      (''is_featured'', js_flag (mp_is_featured m))]"

text \<open>A new model is always active: \<open>{...model, status: {Active: null}}\<close>.\<close>

definition addModel_api :: "api_env \<Rightarrow> model_preset \<Rightarrow> (jsval, 't) actor_method \<Rightarrow> api_error + unit" where
  "addModel_api api m call =
     (let modelData = m\<lparr>mp_status := Preset_Active\<rparr>
      in done_with (index_call api ''add_model'' [(''model'', JObj (preset_fields modelData))] call))"

definition updateModel_api :: "api_env \<Rightarrow> model_preset \<Rightarrow> (jsval, 't) actor_method \<Rightarrow> api_error + unit" where
  "updateModel_api api m call = done_with (index_call api ''update_model'' [(''model'', JObj (preset_fields m))] call)"

section \<open>The canister pool\<close>

definition listUserCanisters :: "api_env \<Rightarrow> (unit, backend_pool_entry list) actor_method \<Rightarrow> api_error + canister_info list" where
  "listUserCanisters api call =
     map_sum_r (map (\<lambda>entry. mapBackendCanisterPoolEntryToFrontend entry StorageMissing)) (index_query api call)"

text \<open>The answer: the available and the assigned canisters, and the size the pool is kept at.\<close>

type_synonym backend_pool = "backend_pool_entry list \<times> backend_pool_entry list \<times> nat"

definition listCanisterPool ::
  "api_env \<Rightarrow> (unit, backend_pool) actor_method \<Rightarrow> api_error + (canister_info list \<times> canister_info list \<times> nat)" where
  "listCanisterPool api call =
     map_sum_r (\<lambda>(available, assigned, n). mapBackendCanisterPoolToFrontend available assigned n) (index_query api call)"

text \<open>The count is sent without adapting it.\<close>

definition provisionCanisters :: "api_env \<Rightarrow> rat \<Rightarrow> (jsval, nat \<times> nat) actor_method \<Rightarrow> api_error + (nat \<times> nat)" where
  "provisionCanisters api n call = bind_sum (throws (call (JObj [(''count'', JNum n)]))) (unwrap api)"

definition createUserCanister :: "api_env \<Rightarrow> (unit, principal) actor_method \<Rightarrow> api_error + principal" where
  "createUserCanister api call = index_query api call"

text \<open>
  The storage of several canisters, each with the answer of its own call: an error counts as null, so no call's
  promise is rejected, and the answers are put into the map in the order of the identifiers.
\<close>

definition storage_or_null :: "api_error + (rat \<times> rat) \<Rightarrow> (rat \<times> rat) option" where
  "storage_or_null r = (case r of Inl _ \<Rightarrow> None | Inr storage \<Rightarrow> Some storage)"

definition fetchCanistersStorageUsage ::
  "(string \<times> (api_error + (rat \<times> rat))) list \<Rightarrow> (string, (rat \<times> rat) option) jsmap" where
  "fetchCanistersStorageUsage answers = map_set_all fst (storage_or_null \<circ> snd) answers []"

end
