(* ===== verification/Governance_Store.thy ===== *)
theory Governance_Store
  imports Index_Api Models_Store
begin

text \<open>
  \<open>src/gpt_frontend/src/store/governanceStore.ts\<close>: the managers, the attestation requirements and the pool of user
  canisters. Its actions are asynchronous and may overlap; each is modelled up to its next \<open>await\<close>, and what it waits
  for is part of the system's state. A principal is its text.
\<close>

section \<open>The store\<close>

record gov_state =
  go_loading :: bool
  go_error :: "string option"
  go_isManager :: "bool option"
  go_managers :: "principal list"
  go_hasFetchedInitialData :: bool
  go_attestationRequirements :: "jsval option"
  go_availableCanisters :: "canister_info list"
  go_assignedCanisters :: "canister_info list"
  go_poolTargetSize :: nat
  go_canisters :: "canister_info list"
  go_loadingCanisters :: bool
  go_hasFetchedCanisters :: bool

definition initialGov :: gov_state where
  "initialGov = \<lparr>go_loading = False, go_error = None, go_isManager = None, go_managers = [],
     go_hasFetchedInitialData = False, go_attestationRequirements = None, go_availableCanisters = [],
     go_assignedCanisters = [], go_poolTargetSize = 0, go_canisters = [], go_loadingCanisters = False,
     go_hasFetchedCanisters = False\<rparr>"

definition not_ready :: thrown where
  "not_ready = js_Error ''Authentication client not ready.''"

section \<open>The first data\<close>

text \<open>
  \<open>client\<close> says whether the auth store has a client. The result is \<open>None\<close> when the fetch returns at once;
  otherwise the state and whether an answer is awaited.
\<close>

definition initial_failed :: "thrown \<Rightarrow> gov_state \<Rightarrow> gov_state" where
  "initial_failed e s = s\<lparr>go_error := Some (or_text (th_text e) ''Failed to fetch governance data.''), go_loading := False\<rparr>"

definition fetchInitialData_call :: "bool \<Rightarrow> bool \<Rightarrow> gov_state \<Rightarrow> (gov_state \<times> bool) option" where
  "fetchInitialData_call forceRefresh client s =
     (if go_loading s \<and> \<not> forceRefresh then None
      else if go_hasFetchedInitialData s \<and> \<not> forceRefresh then None
      else
        let s1 = s\<lparr>go_loading := True, go_error := None\<rparr>
        in Some (if client then (s1, True) else (initial_failed not_ready s1, False)))"

text \<open>The three calls, each made after the answer to the one before.\<close>

definition initial_answers ::
  "thrown + bool \<Rightarrow> thrown + principal list \<Rightarrow> thrown + jsval \<Rightarrow> thrown + (bool \<times> principal list \<times> jsval)" where
  "initial_answers isManager managers requirements =
     bind_sum isManager (\<lambda>m. bind_sum managers (\<lambda>ms. map_sum_r (\<lambda>r. (m, ms, r)) requirements))"

definition fetchInitialData_answer :: "thrown + (bool \<times> principal list \<times> jsval) \<Rightarrow> gov_state \<Rightarrow> gov_state" where
  "fetchInitialData_answer answer s =
     (case answer of
        Inl e \<Rightarrow> initial_failed e s
      | Inr (isManager, managers, requirements) \<Rightarrow>
          s\<lparr>go_isManager := Some isManager, go_managers := managers, go_attestationRequirements := Some requirements,
            go_hasFetchedInitialData := True, go_loading := False\<rparr>)"

section \<open>Actions of a manager\<close>

datatype gov_action =
    ClaimManagerRole
  | AddManager string
  | RemoveManager principal
  | UpdateAttestationPolicies "(string \<times> jsval) list"
  | AddMeasurement string string
  | UpdateMeasurementStatus string jsval
  | RemoveMeasurement string
  | AddModel model_preset
  | UpdateModel model_preset

text \<open>The call of the index canister an action makes.\<close>

fun action_request ::
  "gov_action \<Rightarrow> api_env \<Rightarrow> (unit, 't) actor_method \<Rightarrow> (jsval, 't) actor_method \<Rightarrow> api_error + unit" where
  "action_request ClaimManagerRole api query call = claimManagerRole_api api query"
| "action_request (AddManager p) api query call = addManager_api api p call"
| "action_request (RemoveManager p) api query call = removeManager_api api p call"
| "action_request (UpdateAttestationPolicies kvs) api query call = updateAttestationPolicies_api api kvs call"
| "action_request (AddMeasurement hex n) api query call = addMeasurement_api api hex n call"
| "action_request (UpdateMeasurementStatus hex st) api query call = updateMeasurementStatus_api api hex st call"
| "action_request (RemoveMeasurement hex) api query call = removeMeasurement_api api hex call"
| "action_request (AddModel m) api query call = addModel_api api m call"
| "action_request (UpdateModel m) api query call = updateModel_api api m call"

fun action_text :: "gov_action \<Rightarrow> string" where
  "action_text ClaimManagerRole = ''Failed to claim manager role.''"
| "action_text (AddManager _) = ''Failed to add manager.''"
| "action_text (RemoveManager _) = ''Failed to remove manager.''"
| "action_text (UpdateAttestationPolicies _) = ''Failed to update attestation policies.''"
| "action_text (AddMeasurement _ _) = ''Failed to add measurement.''"
| "action_text (UpdateMeasurementStatus _ _) = ''Failed to update measurement status.''"
| "action_text (RemoveMeasurement _) = ''Failed to remove measurement.''"
| "action_text (AddModel _) = ''Failed to add model.''"
| "action_text (UpdateModel _) = ''Failed to update model.''"

fun refreshes_models :: "gov_action \<Rightarrow> bool" where
  "refreshes_models (AddModel _) = True"
| "refreshes_models (UpdateModel _) = True"
| "refreshes_models _ = False"

definition action_begins :: "gov_state \<Rightarrow> gov_state" where
  "action_begins s = s\<lparr>go_loading := True, go_error := None\<rparr>"

definition action_failed :: "gov_action \<Rightarrow> thrown \<Rightarrow> gov_state \<Rightarrow> gov_state" where
  "action_failed a e s = s\<lparr>go_error := Some (or_text (th_text e) (action_text a)), go_loading := False\<rparr>"

section \<open>The canister pool\<close>

type_synonym storage_map = "(string, (rat \<times> rat) option) jsmap"

type_synonym pool_info = "canister_info list \<times> canister_info list \<times> nat"

definition store_pool :: "pool_info \<Rightarrow> gov_state \<Rightarrow> gov_state" where
  "store_pool poolInfo s =
     (case poolInfo of (available, assigned, poolTargetSize) \<Rightarrow>
        s\<lparr>go_availableCanisters := available, go_assignedCanisters := assigned, go_poolTargetSize := poolTargetSize,
          go_canisters := available @ assigned, go_hasFetchedCanisters := True\<rparr>)"

text \<open>A canister the map does not know has neither data nor an error.\<close>

definition with_storage :: "storage_map \<Rightarrow> canister_info \<Rightarrow> canister_info" where
  "with_storage storageMap c =
     (let storage = map_get storageMap (ci_canisterId c) in
      c\<lparr>ci_storageUsageBytes := (case storage of Some (Some (u, l)) \<Rightarrow> Some u | _ \<Rightarrow> None),
        ci_storageLimitBytes := (case storage of Some (Some (u, l)) \<Rightarrow> l | _ \<Rightarrow> 7 * 1024 * 1024 * 1024),
        ci_storageUtilizationPct := (case storage of Some (Some (u, l)) \<Rightarrow> (u / l) * 100 | _ \<Rightarrow> 0),
        ci_isLoadingStorage := False,
        ci_storageLoadError := (if storage = Some None then Some ''Failed to load storage'' else None)\<rparr>)"

definition store_storage :: "canister_info list \<Rightarrow> canister_info list \<Rightarrow> storage_map \<Rightarrow> gov_state \<Rightarrow> gov_state" where
  "store_storage available assigned storageMap s =
     (let assignedWithStorage = map (with_storage storageMap) assigned
      in s\<lparr>go_assignedCanisters := assignedWithStorage, go_canisters := available @ assignedWithStorage\<rparr>)"

definition canisters_end :: "gov_state \<Rightarrow> gov_state" where
  "canisters_end s = s\<lparr>go_loadingCanisters := False\<rparr>"

definition provision_failed :: "thrown \<Rightarrow> gov_state \<Rightarrow> gov_state" where
  "provision_failed e s = s\<lparr>go_error := Some (or_text (th_text e) ''Failed to provision canister.''), go_loadingCanisters := False\<rparr>"


section \<open>The system\<close>

text \<open>
  What an action waits for: the three answers of a fetch of the first data, by itself or after a manager's action;
  the answer to a manager's action; the models after it; the answer to the creation of a canister; the pool; and the
  storage of its assigned canisters. The flags say whether a canister was created before.
\<close>

datatype gov_wait =
    W_initial
  | W_action gov_action
  | W_refresh gov_action
  | W_models gov_action
  | W_create
  | W_pool bool
  | W_storage bool "canister_info list" "canister_info list"

datatype gov_answer =
    A_initial "thrown + (bool \<times> principal list \<times> jsval)"
  | A_done "thrown + unit"
  | A_models "thrown + model list"
  | A_pool "thrown + pool_info"
  | A_storage storage_map

text \<open>\<open>gs_settled\<close> records the actions whose promises are settled, with the message they were rejected with.\<close>

datatype gov_task = T_action gov_action | T_provision

record gov_system =
  gs_gov :: gov_state
  gs_models :: models_state
  gs_waiting :: "gov_wait list"
  gs_settled :: "(gov_task \<times> string option) list"

abbreviation upd_gov :: "(gov_state \<Rightarrow> gov_state) \<Rightarrow> gov_system \<Rightarrow> gov_system" where
  "upd_gov f s \<equiv> s\<lparr>gs_gov := f (gs_gov s)\<rparr>"

definition await :: "gov_wait \<Rightarrow> gov_system \<Rightarrow> gov_system" where
  "await w s = s\<lparr>gs_waiting := gs_waiting s @ [w]\<rparr>"

definition settle_task :: "gov_task \<Rightarrow> string option \<Rightarrow> gov_system \<Rightarrow> gov_system" where
  "settle_task t e s = s\<lparr>gs_settled := gs_settled s @ [(t, e)]\<rparr>"

definition fetchInitialData :: "bool \<Rightarrow> bool \<Rightarrow> gov_system \<Rightarrow> gov_system" where
  "fetchInitialData forceRefresh client s =
     (case fetchInitialData_call forceRefresh client (gs_gov s) of
        None \<Rightarrow> s
      | Some (g, waits) \<Rightarrow> (if waits then await W_initial else id) (s\<lparr>gs_gov := g\<rparr>))"

definition manager_action :: "gov_action \<Rightarrow> bool \<Rightarrow> gov_system \<Rightarrow> gov_system" where
  "manager_action a client s =
     (let s1 = upd_gov action_begins s
      in if client then await (W_action a) s1
         else settle_task (T_action a) (Some (th_text not_ready)) (upd_gov (action_failed a not_ready) s1))"

text \<open>After the canister's answer: the models or the first data are fetched again, and \<open>finally\<close> ends the loading.\<close>

definition end_action :: "gov_action \<Rightarrow> gov_system \<Rightarrow> gov_system" where
  "end_action a s = settle_task (T_action a) None (upd_gov (\<lambda>g. g\<lparr>go_loading := False\<rparr>) s)"

definition action_answer :: "gov_action \<Rightarrow> thrown + unit \<Rightarrow> bool \<Rightarrow> gov_system \<Rightarrow> gov_system" where
  "action_answer a answer client s =
     (case answer of
        Inl e \<Rightarrow> settle_task (T_action a) (Some (th_text e)) (upd_gov (action_failed a e) s)
      | Inr _ \<Rightarrow>
          if refreshes_models a
          then (case fetchModels_call True (gs_models s) of
                  None \<Rightarrow> end_action a s
                | Some m \<Rightarrow> await (W_models a) (s\<lparr>gs_models := m\<rparr>))
          else (case fetchInitialData_call True client (gs_gov s) of
                  Some (g, True) \<Rightarrow> await (W_refresh a) (s\<lparr>gs_gov := g\<rparr>)
                | Some (g, False) \<Rightarrow> end_action a (s\<lparr>gs_gov := g\<rparr>)
                | None \<Rightarrow> end_action a s))"

text \<open>\<open>fetchCanisters\<close>, by itself or inside \<open>provisionCanister\<close>, whose errors it does not pass on.\<close>

definition pool_done :: "bool \<Rightarrow> gov_system \<Rightarrow> gov_system" where
  "pool_done provisioning s =
     (let s1 = upd_gov canisters_end s
      in if provisioning then settle_task T_provision None (upd_gov canisters_end s1) else s1)"

definition fetchCanisters :: "bool \<Rightarrow> bool \<Rightarrow> gov_system \<Rightarrow> gov_system" where
  "fetchCanisters provisioning client s =
     (let s1 = upd_gov (\<lambda>g. g\<lparr>go_loadingCanisters := True\<rparr>) s
      in if client then await (W_pool provisioning) s1 else pool_done provisioning s1)"

definition pool_answer :: "bool \<Rightarrow> thrown + pool_info \<Rightarrow> gov_system \<Rightarrow> gov_system" where
  "pool_answer provisioning answer s =
     (case answer of
        Inl e \<Rightarrow> pool_done provisioning s
      | Inr poolInfo \<Rightarrow>
          let s1 = upd_gov (store_pool poolInfo) s; (available, assigned, _) = poolInfo
          in if length assigned > 0 then await (W_storage provisioning available assigned) s1 else pool_done provisioning s1)"

definition provisionCanister :: "bool \<Rightarrow> gov_system \<Rightarrow> gov_system" where
  "provisionCanister client s =
     (let s1 = upd_gov (\<lambda>g. g\<lparr>go_loadingCanisters := True, go_error := None\<rparr>) s
      in if client then await W_create s1
         else settle_task T_provision (Some (th_text not_ready)) (upd_gov (provision_failed not_ready) s1))"

definition create_answer :: "thrown + unit \<Rightarrow> bool \<Rightarrow> gov_system \<Rightarrow> gov_system" where
  "create_answer answer client s =
     (case answer of
        Inl e \<Rightarrow> settle_task T_provision (Some (th_text e)) (upd_gov (provision_failed e) s)
      | Inr _ \<Rightarrow> fetchCanisters True client s)"

fun gov_arrive :: "gov_wait \<Rightarrow> gov_answer \<Rightarrow> bool \<Rightarrow> gov_system \<Rightarrow> gov_system option" where
  "gov_arrive W_initial (A_initial r) client s = Some (upd_gov (fetchInitialData_answer r) s)"
| "gov_arrive (W_action a) (A_done r) client s = Some (action_answer a r client s)"
| "gov_arrive (W_refresh a) (A_initial r) client s = Some (end_action a (upd_gov (fetchInitialData_answer r) s))"
| "gov_arrive (W_models a) (A_models r) client s = Some (end_action a (s\<lparr>gs_models := fetchModels_answer r (gs_models s)\<rparr>))"
| "gov_arrive W_create (A_done r) client s = Some (create_answer r client s)"
| "gov_arrive (W_pool p) (A_pool r) client s = Some (pool_answer p r s)"
| "gov_arrive (W_storage p available assigned) (A_storage m) client s =
     Some (pool_done p (upd_gov (store_storage available assigned m) s))"
| "gov_arrive _ _ client s = None"

datatype gov_event =
    Fetch_initial bool bool
  | Act gov_action bool
  | Fetch_canisters bool
  | Provision bool
  | Gov_reset
  | Answered gov_wait gov_answer bool

text \<open>An answer of the wrong kind, or to nothing that is waited for, does not happen.\<close>

fun gov_step :: "gov_event \<Rightarrow> gov_system \<Rightarrow> gov_system" where
  "gov_step (Fetch_initial force client) s = fetchInitialData force client s"
| "gov_step (Act a client) s = manager_action a client s"
| "gov_step (Fetch_canisters client) s = fetchCanisters False client s"
| "gov_step (Provision client) s = provisionCanister client s"
| "gov_step Gov_reset s = upd_gov (\<lambda>_. initialGov) s"
| "gov_step (Answered w r client) s =
     (if w \<in> set (gs_waiting s)
      then (case gov_arrive w r client (s\<lparr>gs_waiting := remove1 w (gs_waiting s)\<rparr>) of None \<Rightarrow> s | Some s' \<Rightarrow> s')
      else s)"

definition initial_gov_system :: gov_system where
  "initial_gov_system = \<lparr>gs_gov = initialGov, gs_models = initialModels, gs_waiting = [], gs_settled = []\<rparr>"

end
