(* ===== verification/Governance_Props.thy ===== *)
theory Governance_Props
  imports Governance_Store Traces
begin

text \<open>
  What the governance store keeps in every interleaving of its actions and their answers, what one action comes to,
  and how the pool's canisters get their storage.
\<close>

section \<open>Loading flags\<close>

fun data_wait :: "gov_wait \<Rightarrow> bool" where
  "data_wait (W_action _) = True"
| "data_wait (W_refresh _) = True"
| "data_wait (W_models _) = True"
| "data_wait W_initial = True"
| "data_wait _ = False"

fun pool_wait :: "gov_wait \<Rightarrow> bool" where
  "pool_wait W_create = True"
| "pool_wait (W_pool _) = True"
| "pool_wait (W_storage _ _ _) = True"
| "pool_wait _ = False"

definition flags_ok :: "gov_system \<Rightarrow> bool" where
  "flags_ok s \<longleftrightarrow>
     (go_loading (gs_gov s) \<longrightarrow> list_ex data_wait (gs_waiting s))
     \<and> (go_loadingCanisters (gs_gov s) \<longrightarrow> list_ex pool_wait (gs_waiting s))"

text \<open>The first data the canister has given in a run, and that what is stored is all of one such answer, or nothing.\<close>

definition given :: "gov_event list \<Rightarrow> (bool \<times> principal list \<times> jsval) set" where
  "given es = {x. \<exists>w c. Answered w (A_initial (Inr x)) c \<in> set es}"

definition data_whole :: "(bool \<times> principal list \<times> jsval) set \<Rightarrow> gov_state \<Rightarrow> bool" where
  "data_whole E g \<longleftrightarrow>
     (if go_hasFetchedInitialData g
      then \<exists>(m, ms, r) \<in> E. go_isManager g = Some m \<and> go_managers g = ms \<and> go_attestationRequirements g = Some r
      else go_isManager g = None \<and> go_managers g = [] \<and> go_attestationRequirements g = None)"

lemma data_whole_mono: "data_whole E g \<Longrightarrow> E \<subseteq> E' \<Longrightarrow> data_whole E' g"
  by (cases "go_hasFetchedInitialData g") (auto simp: data_whole_def)

lemma given_snoc: "given es \<subseteq> given (es @ [e])" "x \<in> given (es @ [Answered w (A_initial (Inr x)) c])"
  by (auto simp: given_def)

lemmas gov_defs = fetchInitialData_def fetchInitialData_call_def fetchInitialData_answer_def initial_failed_def
  manager_action_def action_begins_def action_failed_def action_answer_def end_action_def pool_done_def canisters_end_def
  fetchCanisters_def pool_answer_def provisionCanister_def provision_failed_def create_answer_def store_pool_def
  store_storage_def await_def settle_task_def fetchModels_call_def initialGov_def

lemma flags_removed:
  "flags_ok s \<Longrightarrow> flags_ok s \<and> (w \<in> set (gs_waiting s) \<longrightarrow>
     (\<not> data_wait w \<longrightarrow> go_loading (gs_gov s) \<longrightarrow> list_ex data_wait (remove1 w (gs_waiting s)))
     \<and> (\<not> pool_wait w \<longrightarrow> go_loadingCanisters (gs_gov s) \<longrightarrow> list_ex pool_wait (remove1 w (gs_waiting s))))"
  by (auto simp: flags_ok_def list_ex_iff) (metis in_set_remove1)+

lemma gov_arrive_flags:
  assumes "gov_arrive w r client s = Some s'"
    and "data_wait w \<or> (go_loading (gs_gov s) \<longrightarrow> list_ex data_wait (gs_waiting s))"
    and "pool_wait w \<or> (go_loadingCanisters (gs_gov s) \<longrightarrow> list_ex pool_wait (gs_waiting s))"
  shows "flags_ok s'"
  using assms
  by (cases "(w, r, client, s)" rule: gov_arrive.cases)
    (auto simp: flags_ok_def gov_defs Let_def split: sum.splits if_splits option.splits prod.splits)

lemma step_flags: "flags_ok s \<Longrightarrow> flags_ok (gov_step e s)"
proof (cases e)
  case (Answered w r client)
  assume ok: "flags_ok s"
  show ?thesis
  proof (cases "w \<in> set (gs_waiting s) \<and> (\<exists>s'. gov_arrive w r client (s\<lparr>gs_waiting := remove1 w (gs_waiting s)\<rparr>) = Some s')")
    case True
    then obtain s' where s': "gov_arrive w r client (s\<lparr>gs_waiting := remove1 w (gs_waiting s)\<rparr>) = Some s'" by blast
    have "flags_ok s'" by (rule gov_arrive_flags [OF s']) (use flags_removed [OF ok, of w] True in auto)
    with True Answered s' show ?thesis by simp
  qed (use ok Answered in \<open>auto split: option.split\<close>)
qed (auto simp: flags_ok_def gov_defs Let_def split: option.splits)

lemma data_whole_other [simp]:
  "data_whole E (g\<lparr>go_loading := b\<rparr>) = data_whole E g" "data_whole E (g\<lparr>go_error := e\<rparr>) = data_whole E g"
  "data_whole E (g\<lparr>go_loadingCanisters := b\<rparr>) = data_whole E g" "data_whole E (g\<lparr>go_assignedCanisters := cs\<rparr>) = data_whole E g"
  "data_whole E (g\<lparr>go_availableCanisters := cs\<rparr>) = data_whole E g" "data_whole E (g\<lparr>go_canisters := cs\<rparr>) = data_whole E g"
  "data_whole E (g\<lparr>go_poolTargetSize := n\<rparr>) = data_whole E g" "data_whole E (g\<lparr>go_hasFetchedCanisters := b\<rparr>) = data_whole E g"
  by (simp_all add: data_whole_def)

lemma data_whole_ops [simp]:
  "data_whole E (action_begins g) = data_whole E g"
  "data_whole E (action_failed a e g) = data_whole E g" "data_whole E (canisters_end g) = data_whole E g"
  "data_whole E (provision_failed e g) = data_whole E g" "data_whole E (store_pool i g) = data_whole E g"
  "data_whole E (store_storage av as m g) = data_whole E g" "data_whole E initialGov"
  by (simp_all add: gov_defs Let_def split: sum.split prod.split) (simp_all add: data_whole_def)

lemma answer_whole: "data_whole E g \<Longrightarrow> (\<And>x. r = Inr x \<Longrightarrow> x \<in> E) \<Longrightarrow> data_whole E (fetchInitialData_answer r g)"
proof (cases r)
  case (Inr x)
  moreover obtain m ms q where "x = (m, ms, q)" by (cases x)
  moreover assume "data_whole E g" "\<And>x. r = Inr x \<Longrightarrow> x \<in> E"
  ultimately show ?thesis by (auto simp: fetchInitialData_answer_def data_whole_def)
qed (simp add: fetchInitialData_answer_def initial_failed_def)

lemma fetch_call_whole: "fetchInitialData_call f c g = Some (g', b) \<Longrightarrow> data_whole E g' = data_whole E g"
  by (auto simp: fetchInitialData_call_def initial_failed_def Let_def split: if_splits)

lemma await_settle_task [simp]: "gs_gov (await w s) = gs_gov s" "gs_gov (settle_task t e s) = gs_gov s"
  "gs_settled (await w s) = gs_settled s" "gs_settled (settle_task t e s) = gs_settled s @ [(t, e)]"
  "gs_waiting (await w s) = gs_waiting s @ [w]" "gs_waiting (settle_task t e s) = gs_waiting s"
  by (simp_all add: await_def settle_task_def)

lemma tasks_whole:
  "data_whole E (gs_gov s) \<Longrightarrow> data_whole E (gs_gov (action_answer a r client s))"
  "data_whole E (gs_gov s) \<Longrightarrow> data_whole E (gs_gov (pool_done p s))"
  "data_whole E (gs_gov s) \<Longrightarrow> data_whole E (gs_gov (fetchCanisters p client s))"
  "data_whole E (gs_gov s) \<Longrightarrow> data_whole E (gs_gov (pool_answer p i s))"
  by (auto simp: action_answer_def end_action_def pool_done_def fetchCanisters_def pool_answer_def Let_def fetch_call_whole
      split: sum.split option.split bool.split)

lemma gov_arrive_whole:
  "gov_arrive w r client s = Some s' \<Longrightarrow> data_whole E (gs_gov s) \<Longrightarrow> (\<And>x. r = A_initial (Inr x) \<Longrightarrow> x \<in> E)
   \<Longrightarrow> data_whole E (gs_gov s')"
  by (cases "(w, r, client, s)" rule: gov_arrive.cases)
    (auto simp: tasks_whole end_action_def create_answer_def intro!: answer_whole split: sum.split)

lemma step_whole: "data_whole (given es) (gs_gov s) \<Longrightarrow> data_whole (given (es @ [e])) (gs_gov (gov_step e s))"
proof -
  assume "data_whole (given es) (gs_gov s)"
  then have later: "data_whole (given (es @ [e])) (gs_gov s)" using given_snoc(1) by (rule data_whole_mono)
  show ?thesis
  proof (cases e)
    case (Answered w r client)
    have "x \<in> given (es @ [e])" if "r = A_initial (Inr x)" for x
      using that Answered given_snoc(2) by simp
    with later Answered show ?thesis by (auto split: option.split dest: gov_arrive_whole)
  qed (use later in \<open>auto simp: tasks_whole fetchInitialData_def fetch_call_whole manager_action_def provisionCanister_def Let_def
      split: option.split\<close>)
qed

section \<open>Every promise settles once\<close>

fun task_of :: "gov_wait \<Rightarrow> gov_task option" where
  "task_of (W_action a) = Some (T_action a)"
| "task_of (W_refresh a) = Some (T_action a)"
| "task_of (W_models a) = Some (T_action a)"
| "task_of W_create = Some T_provision"
| "task_of (W_pool p) = (if p then Some T_provision else None)"
| "task_of (W_storage p _ _) = (if p then Some T_provision else None)"
| "task_of W_initial = None"

fun begun_by :: "gov_event \<Rightarrow> gov_task option" where
  "begun_by (Act a _) = Some (T_action a)"
| "begun_by (Provision _) = Some T_provision"
| "begun_by _ = None"

definition begun :: "gov_task \<Rightarrow> gov_event list \<Rightarrow> nat" where
  "begun t es = count_list (map begun_by es) (Some t)"

definition under_way :: "gov_task \<Rightarrow> gov_system \<Rightarrow> nat" where
  "under_way t s = count_list (map task_of (gs_waiting s)) (Some t)"

definition settled :: "gov_task \<Rightarrow> gov_system \<Rightarrow> nat" where
  "settled t s = count_list (map fst (gs_settled s)) t"

lemma count_remove1:
  "w \<in> set ws \<Longrightarrow> count_list (map f (remove1 w ws)) x + (if f w = x then 1 else 0) = count_list (map f ws) x"
  by (induction ws) auto

definition tally :: "gov_task \<Rightarrow> gov_system \<Rightarrow> nat" where
  "tally t s = settled t s + under_way t s"

lemma tally_simps [simp]:
  "tally t (await w s) = tally t s + (if task_of w = Some t then 1 else 0)"
  "tally t (settle_task t' e s) = tally t s + (if t' = t then 1 else 0)"
  "tally t (s\<lparr>gs_gov := g\<rparr>) = tally t s" "tally t (s\<lparr>gs_models := m\<rparr>) = tally t s"
  by (simp_all add: tally_def settled_def under_way_def await_def settle_task_def)

lemma tally_tasks [simp]:
  "tally t (end_action a s) = tally t s + (if T_action a = t then 1 else 0)"
  "tally t (pool_done p s) = tally t s + (if p \<and> t = T_provision then 1 else 0)"
  "tally t (fetchCanisters p client s) = tally t s + (if p \<and> t = T_provision then 1 else 0)"
  "tally t (action_answer a r client s) = tally t s + (if T_action a = t then 1 else 0)"
  "tally t (pool_answer p i s) = tally t s + (if p \<and> t = T_provision then 1 else 0)"
  "tally t (create_answer x client s) = tally t s + (if t = T_provision then 1 else 0)"
  by (simp_all add: end_action_def pool_done_def fetchCanisters_def action_answer_def pool_answer_def create_answer_def Let_def
      split: sum.split option.split bool.split prod.split)

lemma tally_arrive:
  "gov_arrive w r client s = Some s' \<Longrightarrow> tally t s' = tally t s + (if task_of w = Some t then 1 else 0)"
  by (cases "(w, r, client, s)" rule: gov_arrive.cases) auto

lemma tally_step: "tally t (gov_step e s) = tally t s + (if begun_by e = Some t then 1 else 0)"
proof (cases e)
  case (Answered w r client)
  have "tally t (s\<lparr>gs_waiting := remove1 w (gs_waiting s)\<rparr>) + (if task_of w = Some t then 1 else 0) = tally t s"
    if "w \<in> set (gs_waiting s)"
    using count_remove1 [OF that, of task_of "Some t"] by (auto simp: tally_def settled_def under_way_def)
  with Answered show ?thesis by (auto split: option.split dest: tally_arrive [where t = t])
qed (auto simp: fetchInitialData_def manager_action_def provisionCanister_def Let_def split: option.split)

section \<open>Runs\<close>

definition gov_kept :: "gov_event list \<Rightarrow> gov_system \<Rightarrow> bool" where
  "gov_kept es s \<longleftrightarrow> flags_ok s \<and> data_whole (given es) (gs_gov s) \<and> (\<forall>t. tally t s = begun t es)"

abbreviation gov_runs :: "gov_event list \<Rightarrow> gov_system \<Rightarrow> bool" where
  "gov_runs es s \<equiv> trace_run (\<lambda>s e s'. s' = gov_step e s) initial_gov_system es s"

interpretation gov_trace: traced_invariant "\<lambda>s e s'. s' = gov_step e s" gov_kept
  by unfold_locales (auto simp: gov_kept_def step_flags step_whole tally_step begun_def)

interpretation gov_det: determined "\<lambda>s e s'. s' = gov_step e s" "\<lambda>e s. Some (gov_step e s)"
  by unfold_locales auto

lemma gov_kept_initial: "gov_kept [] initial_gov_system"
  by (simp add: gov_kept_def initial_gov_system_def flags_ok_def initialGov_def data_whole_def tally_def settled_def
      under_way_def begun_def)

lemma gov_kept_run: "gov_runs es s \<Longrightarrow> gov_kept es s"
  by (rule gov_trace.inv_run [OF _ gov_kept_initial])

text \<open>
  C30: in every interleaving of the governance actions with the answers they wait for: the page shows it is loading
  only while some action is under way, and the same for the list of canisters, so when nothing is awaited every
  indicator is off; the first data (whether the user is a manager, the managers and the requirements) is stored exactly as one
  answer of the canister gave it, or not at all; and the promise of each action called is
  settled exactly once, or one of its calls is still under way.
\<close>

theorem governance_actions_settle:
  assumes "gov_runs es s"
  shows "(go_loading (gs_gov s) \<longrightarrow> (\<exists>w \<in> set (gs_waiting s). data_wait w))
    \<and> (go_loadingCanisters (gs_gov s) \<longrightarrow> (\<exists>w \<in> set (gs_waiting s). pool_wait w))
    \<and> (if go_hasFetchedInitialData (gs_gov s)
       then \<exists>w m ms r c. Answered w (A_initial (Inr (m, ms, r))) c \<in> set es \<and> go_isManager (gs_gov s) = Some m
              \<and> go_managers (gs_gov s) = ms \<and> go_attestationRequirements (gs_gov s) = Some r
       else go_isManager (gs_gov s) = None \<and> go_managers (gs_gov s) = [] \<and> go_attestationRequirements (gs_gov s) = None)
    \<and> (\<forall>t. settled t s + under_way t s = begun t es)
    \<and> (gs_waiting s = [] \<longrightarrow> (\<forall>t. settled t s = begun t es))"
proof -
  note kept = gov_kept_run [OF assms, unfolded gov_kept_def]
  then have "data_whole (given es) (gs_gov s)" by blast
  with kept show ?thesis
    by (auto simp: flags_ok_def data_whole_def given_def list_ex_iff tally_def under_way_def split: if_splits)
qed

lemma governance_actions_settle_witness:
  "settled T_provision (gov_step (Provision False) initial_gov_system) = 1"
proof -
  have "gov_runs [Provision False] (gov_step (Provision False) initial_gov_system)"
    using trace_run_snoc [where es = "[]" and e = "Provision False"] by (simp add: trace_run_Cons)
  from governance_actions_settle [OF this] have "settled T_provision (gov_step (Provision False) initial_gov_system)
      + under_way T_provision (gov_step (Provision False) initial_gov_system) = begun T_provision [Provision False]" by blast
  then show ?thesis
    by (simp add: begun_def under_way_def provisionCanister_def settle_task_def initial_gov_system_def)
qed


section \<open>One action\<close>

abbreviation gov_play :: "gov_event list \<Rightarrow> gov_system \<Rightarrow> gov_system" where
  "gov_play es s \<equiv> fold gov_step es s"

definition same_data :: "gov_state \<Rightarrow> gov_state \<Rightarrow> bool" where
  "same_data g g' \<longleftrightarrow> go_isManager g = go_isManager g' \<and> go_managers g = go_managers g'
     \<and> go_attestationRequirements g = go_attestationRequirements g' \<and> go_hasFetchedInitialData g = go_hasFetchedInitialData g'"

definition ends_with :: "gov_action \<Rightarrow> string option \<Rightarrow> string option \<Rightarrow> gov_system \<Rightarrow> gov_system \<Rightarrow> bool" where
  "ends_with a err rejected s s' \<longleftrightarrow>
     go_error (gs_gov s') = err \<and> \<not> go_loading (gs_gov s') \<and> gs_waiting s' = [] \<and> gs_settled s' = gs_settled s @ [(T_action a, rejected)]"

lemmas play_defs = manager_action_def action_begins_def action_failed_def action_answer_def end_action_def
  fetchInitialData_call_def fetchInitialData_answer_def initial_failed_def fetchModels_call_def

text \<open>
  A manager's action with nothing else under way. Without a client, or when the canister answers with an error, the
  data stays, the error is shown with the action's own text when it has none, and the promise is rejected with it. When
  the canister accepts, the data is fetched again, the models after a change of models, everything else otherwise, and
  the promise is resolved: a fetch that fails after it shows its error but does not reject the promise.
\<close>

theorem manager_action_outcome:
  assumes "gs_waiting s = []"
  shows "(\<forall>s'. s' = gov_play [Act a False] s \<longrightarrow>
        ends_with a (Some (th_text not_ready)) (Some (th_text not_ready)) s s' \<and> same_data (gs_gov s) (gs_gov s'))
    \<and> (\<forall>e c s'. s' = gov_play [Act a True, Answered (W_action a) (A_done (Inl e)) c] s \<longrightarrow>
        ends_with a (Some (or_text (th_text e) (action_text a))) (Some (th_text e)) s s' \<and> same_data (gs_gov s) (gs_gov s'))
    \<and> (\<not> refreshes_models a \<longrightarrow>
        (\<forall>m ms r c s'. s' = gov_play [Act a True, Answered (W_action a) (A_done (Inr ())) True, Answered (W_refresh a) (A_initial (Inr (m, ms, r))) c] s \<longrightarrow>
           ends_with a None None s s' \<and> go_isManager (gs_gov s') = Some m \<and> go_managers (gs_gov s') = ms
             \<and> go_attestationRequirements (gs_gov s') = Some r \<and> go_hasFetchedInitialData (gs_gov s'))
      \<and> (\<forall>e c s'. s' = gov_play [Act a True, Answered (W_action a) (A_done (Inr ())) True, Answered (W_refresh a) (A_initial (Inl e)) c] s \<longrightarrow>
           ends_with a (Some (or_text (th_text e) ''Failed to fetch governance data.'')) None s s' \<and> same_data (gs_gov s) (gs_gov s')))
    \<and> (refreshes_models a \<longrightarrow>
        (\<forall>ms c c' s'. s' = gov_play [Act a True, Answered (W_action a) (A_done (Inr ())) c, Answered (W_models a) (A_models (Inr ms)) c'] s \<longrightarrow>
           ends_with a None None s s' \<and> mo_models (gs_models s') = ms \<and> lists_derived (gs_models s') \<and> same_data (gs_gov s) (gs_gov s')))"
  using assms
  by (auto simp: ends_with_def same_data_def play_defs Let_def not_ready_def or_text_def await_def settle_task_def)
    (simp_all add: fetchModels_answer_def store_models_def lists_derived_def)

lemma manager_action_outcome_witness:
  "go_managers (gs_gov (gov_play [Act (AddManager ''p'') True, Answered (W_action (AddManager ''p'')) (A_done (Inr ())) True,
      Answered (W_refresh (AddManager ''p'')) (A_initial (Inr (True, [''p''], JNull))) True] initial_gov_system)) = [''p'']"
  using manager_action_outcome [of initial_gov_system "AddManager ''p''", THEN conjunct2, THEN conjunct2, THEN conjunct1]
  by (simp add: initial_gov_system_def)

section \<open>The pool with its storage\<close>

definition storage_arg_of :: "api_error + (rat \<times> rat) \<Rightarrow> storage_arg" where
  "storage_arg_of r = (case r of Inl _ \<Rightarrow> StorageNull | Inr (u, l) \<Rightarrow> Storage u l)"

lemma storage_map_get:
  assumes "length answers = length ids" and "distinct ids" and "i < length ids"
  shows "map_get (fetchCanistersStorageUsage (zip ids answers)) (ids ! i) = Some (storage_or_null (answers ! i))"
proof -
  have "map_get (map_set_all fst (\<lambda>a. storage_or_null (snd a)) (zip ids answers) m) (ids ! i) = Some (storage_or_null (answers ! i))" for m
    using assms
  proof (induction ids answers arbitrary: i m rule: list_induct2')
    case (4 x xs y ys)
    have "x \<notin> fst ` set (zip xs ys)" using 4 by (auto dest: set_zip_leftD)
    then have "map_get (map_set_all fst (\<lambda>a. storage_or_null (snd a)) (zip xs ys) (map_set x (storage_or_null y) m)) x = Some (storage_or_null y)"
      by (simp add: map_get_set_all_other)
    with 4 show ?case by (cases i) auto
  qed simp_all
  then show ?thesis by (simp add: fetchCanistersStorageUsage_def comp_def)
qed

lemma with_storage_mapper:
  assumes "map_get m (bpe_canister_id e) = Some (storage_or_null r)"
  shows "with_storage m (mapBackendCanisterPoolEntryToFrontend e StorageMissing) = mapBackendCanisterPoolEntryToFrontend e (storage_arg_of r)"
  using assms by (auto simp: with_storage_def mapBackendCanisterPoolEntryToFrontend_def Let_def storage_or_null_def storage_arg_of_def split: sum.split)

text \<open>
  After a fetch of the canister pool and of the storage of its assigned canisters, with nothing else under way,
  each assigned canister is what the mapper of the backend makes of it and of the answer of its own call: usage, limit
  and share, or the error when the call failed, and none is left loading; the order of the pool is kept and the list of
  all canisters is the available ones followed by the assigned ones.
\<close>

theorem pool_storage_shown:
  assumes "gs_waiting s = []" and "length answers = length entries" and "distinct (map bpe_canister_id entries)" and "entries \<noteq> []"
    and "pool = mapBackendCanisterPoolToFrontend available entries n"
    and "s' = gov_play [Fetch_canisters True, Answered (W_pool False) (A_pool (Inr pool)) c,
           Answered (W_storage False (fst pool) (fst (snd pool)))
             (A_storage (fetchCanistersStorageUsage (zip (map ci_canisterId (fst (snd pool))) answers))) c'] s"
  shows "go_assignedCanisters (gs_gov s') = map2 (\<lambda>e r. mapBackendCanisterPoolEntryToFrontend e (storage_arg_of r)) entries answers
    \<and> go_availableCanisters (gs_gov s') = fst pool \<and> go_poolTargetSize (gs_gov s') = n
    \<and> go_canisters (gs_gov s') = fst pool @ go_assignedCanisters (gs_gov s')
    \<and> (\<forall>c \<in> set (go_assignedCanisters (gs_gov s')). \<not> ci_isLoadingStorage c)
    \<and> \<not> go_loadingCanisters (gs_gov s') \<and> gs_waiting s' = []"
proof -
  let ?assigned = "map (\<lambda>e. mapBackendCanisterPoolEntryToFrontend e StorageMissing) entries"
  let ?ids = "map bpe_canister_id entries"
  let ?m = "fetchCanistersStorageUsage (zip ?ids answers)"
  have ids: "map ci_canisterId (map (\<lambda>e. mapBackendCanisterPoolEntryToFrontend e StorageMissing) entries) = ?ids"
    by (simp add: mapBackendCanisterPoolEntryToFrontend_def Let_def)
  have shown: "map (with_storage ?m) ?assigned = map2 (\<lambda>e r. mapBackendCanisterPoolEntryToFrontend e (storage_arg_of r)) entries answers"
  proof (rule nth_equalityI)
    fix i assume "i < length (map (with_storage ?m) ?assigned)"
    then have i: "i < length entries" by simp
    have "map_get ?m (bpe_canister_id (entries ! i)) = Some (storage_or_null (answers ! i))"
      using storage_map_get [of answers ?ids i] assms(2,3) i by simp
    from with_storage_mapper [OF this] i assms(2)
    show "map (with_storage ?m) ?assigned ! i = map2 (\<lambda>e r. mapBackendCanisterPoolEntryToFrontend e (storage_arg_of r)) entries answers ! i"
      by simp
  qed (simp add: assms(2))
  have "gs_gov s' = (store_storage (fst pool) ?assigned ?m (store_pool pool (gs_gov s)))\<lparr>go_loadingCanisters := False\<rparr> \<and> gs_waiting s' = []"
    using assms(1,4) unfolding assms(5,6) mapBackendCanisterPoolToFrontend_def fst_conv snd_conv ids
    by (simp add: fetchCanisters_def pool_answer_def pool_done_def canisters_end_def
        await_def store_pool_def store_storage_def Let_def)
  then have "go_assignedCanisters (gs_gov s') = map (with_storage ?m) ?assigned" "go_availableCanisters (gs_gov s') = fst pool"
    "go_poolTargetSize (gs_gov s') = n" "go_canisters (gs_gov s') = fst pool @ map (with_storage ?m) ?assigned"
    "\<not> go_loadingCanisters (gs_gov s')" "gs_waiting s' = []"
    by (simp_all add: store_storage_def store_pool_def assms(5) mapBackendCanisterPoolToFrontend_def Let_def del: map_map)
  moreover have "\<not> ci_isLoadingStorage c" if "c \<in> set (map2 (\<lambda>e r. mapBackendCanisterPoolEntryToFrontend e (storage_arg_of r)) entries answers)" for c
    using that by (auto simp: mapBackendCanisterPoolEntryToFrontend_def Let_def storage_arg_of_def split: sum.splits)
  ultimately show ?thesis unfolding shown by simp
qed


definition example_entry :: backend_pool_entry where
  "example_entry = \<lparr>bpe_time_created = 0, bpe_canister_id = ''c'', bpe_state = BAssigned ''u'' []\<rparr>"

lemma pool_storage_shown_witness:
  "\<exists>s :: gov_system. go_assignedCanisters (gs_gov s) = [mapBackendCanisterPoolEntryToFrontend example_entry StorageNull]"
proof -
  define pool where "pool = mapBackendCanisterPoolToFrontend [] [example_entry] 1"
  define s where "s = gov_play [Fetch_canisters True, Answered (W_pool False) (A_pool (Inr pool)) True,
      Answered (W_storage False (fst pool) (fst (snd pool)))
        (A_storage (fetchCanistersStorageUsage (zip (map ci_canisterId (fst (snd pool))) [Inl (Thrown ''offline'')]))) True] initial_gov_system"
  have w: "gs_waiting initial_gov_system = []" by (simp add: initial_gov_system_def)
  from pool_storage_shown [where answers = "[Inl (Thrown ''offline'')]", OF w _ _ _ pool_def s_def]
  have "go_assignedCanisters (gs_gov s) = [mapBackendCanisterPoolEntryToFrontend example_entry StorageNull]"
    by (simp add: storage_arg_of_def)
  then show ?thesis by blast
qed

section \<open>Overlapping fetches of the pool\<close>

definition pool_quiet :: "gov_system \<Rightarrow> bool" where
  "pool_quiet s \<longleftrightarrow> \<not> list_ex pool_wait (gs_waiting s)"

text \<open>Events that leave the pool alone, and the tasks of the pool one at a time.\<close>

fun pool_event :: "gov_event \<Rightarrow> bool" where
  "pool_event (Fetch_canisters _) = True"
| "pool_event (Provision _) = True"
| "pool_event Gov_reset = True"
| "pool_event _ = False"

fun pool_one_at_a_time :: "gov_event list \<Rightarrow> gov_system \<Rightarrow> bool" where
  "pool_one_at_a_time [] s \<longleftrightarrow> True"
| "pool_one_at_a_time (e # es) s \<longleftrightarrow> (pool_event e \<longrightarrow> pool_quiet s) \<and> pool_one_at_a_time es (gov_step e s)"

definition storage_of_pool :: "gov_system \<Rightarrow> bool" where
  "storage_of_pool s \<longleftrightarrow> length (filter pool_wait (gs_waiting s)) \<le> 1
     \<and> (\<forall>p av as. W_storage p av as \<in> set (gs_waiting s) \<longrightarrow> av = go_availableCanisters (gs_gov s))
     \<and> go_canisters (gs_gov s) = go_availableCanisters (gs_gov s) @ go_assignedCanisters (gs_gov s)"


definition pool_lists :: "gov_state \<Rightarrow> canister_info list \<times> canister_info list \<times> canister_info list" where
  "pool_lists g = (go_availableCanisters g, go_assignedCanisters g, go_canisters g)"

lemma storage_of_pool_cong:
  "pool_lists (gs_gov s') = pool_lists (gs_gov s) \<Longrightarrow> filter pool_wait (gs_waiting s') = filter pool_wait (gs_waiting s)
   \<Longrightarrow> storage_of_pool s \<Longrightarrow> storage_of_pool s'"
proof -
  assume pl: "pool_lists (gs_gov s') = pool_lists (gs_gov s)" and f: "filter pool_wait (gs_waiting s') = filter pool_wait (gs_waiting s)"
    and ok: "storage_of_pool s"
  have waits: "W_storage p av as \<in> set (gs_waiting s') \<longleftrightarrow> W_storage p av as \<in> set (gs_waiting s)" for p av as
  proof -
    have "x \<in> set (filter pool_wait (gs_waiting s')) \<longleftrightarrow> x \<in> set (filter pool_wait (gs_waiting s))" for x by (simp only: f)
    from this [of "W_storage p av as"] show ?thesis by simp
  qed
  from pl have lists: "go_availableCanisters (gs_gov s') = go_availableCanisters (gs_gov s)"
    "go_assignedCanisters (gs_gov s') = go_assignedCanisters (gs_gov s)" "go_canisters (gs_gov s') = go_canisters (gs_gov s)"
    by (simp_all add: pool_lists_def)
  from ok show "storage_of_pool s'" unfolding storage_of_pool_def f waits lists .
qed

lemma pool_lists_ops [simp]:
  "pool_lists (g\<lparr>go_loading := b\<rparr>) = pool_lists g" "pool_lists (g\<lparr>go_error := err\<rparr>) = pool_lists g"
  "pool_lists (g\<lparr>go_loadingCanisters := b\<rparr>) = pool_lists g" "pool_lists (fetchInitialData_answer r g) = pool_lists g"
  "pool_lists (action_begins g) = pool_lists g" "pool_lists (action_failed a e g) = pool_lists g"
  "pool_lists (canisters_end g) = pool_lists g" "pool_lists (provision_failed e g) = pool_lists g"
  by (simp_all add: pool_lists_def gov_defs split: sum.split prod.split)

lemma fetch_call_pool: "fetchInitialData_call f c g = Some (g', b) \<Longrightarrow> pool_lists g' = pool_lists g"
  by (auto simp: fetchInitialData_call_def initial_failed_def Let_def pool_lists_def split: if_splits)

text \<open>Answers outside the pool leave it alone; those of the pool leave its lists whole.\<close>

lemma gov_arrive_elsewhere:
  assumes "gov_arrive w r client s = Some s'" and "\<not> pool_wait w"
  shows "pool_lists (gs_gov s') = pool_lists (gs_gov s) \<and> filter pool_wait (gs_waiting s') = filter pool_wait (gs_waiting s)"
  using assms by (cases "(w, r, client, s)" rule: gov_arrive.cases)
    (auto simp: action_answer_def end_action_def fetch_call_pool split: sum.split option.split bool.split)

lemma gov_arrive_pool:
  assumes "gov_arrive w r client s = Some s'" and "pool_wait w" and "filter pool_wait (gs_waiting s) = []"
    and "\<forall>p av as. w = W_storage p av as \<longrightarrow> av = go_availableCanisters (gs_gov s)"
    and "go_canisters (gs_gov s) = go_availableCanisters (gs_gov s) @ go_assignedCanisters (gs_gov s)"
  shows "storage_of_pool s'"
proof -
  have quiet: "W_storage p av as \<notin> set (gs_waiting s)" for p av as
    using assms(3) by (auto simp: filter_empty_conv)
  from assms show ?thesis
    by (cases "(w, r, client, s)" rule: gov_arrive.cases)
      (auto simp: storage_of_pool_def quiet create_answer_def pool_answer_def fetchCanisters_def pool_done_def canisters_end_def
        provision_failed_def store_pool_def store_storage_def Let_def split: sum.splits prod.splits if_splits)
qed

lemma step_storage:
  assumes ok: "storage_of_pool s" and e: "pool_event e \<longrightarrow> pool_quiet s"
  shows "storage_of_pool (gov_step e s)"
proof (cases e)
  case (Answered w r client)
  let ?s = "s\<lparr>gs_waiting := remove1 w (gs_waiting s)\<rparr>"
  show ?thesis
  proof (cases "w \<in> set (gs_waiting s) \<and> (\<exists>s'. gov_arrive w r client ?s = Some s')")
    case True
    then obtain s' where w: "w \<in> set (gs_waiting s)" and s': "gov_arrive w r client ?s = Some s'" by blast
    have "storage_of_pool s'"
    proof (cases "pool_wait w")
      case pw: True
      have "filter pool_wait (remove1 w (gs_waiting s)) = remove1 w (filter pool_wait (gs_waiting s))"
        by (rule filter_remove1)
      moreover have "length (filter pool_wait (gs_waiting s)) \<le> 1" "w \<in> set (filter pool_wait (gs_waiting s))"
        using ok w pw by (simp_all add: storage_of_pool_def)
      ultimately have "filter pool_wait (gs_waiting ?s) = []" by (cases "filter pool_wait (gs_waiting s)") auto
      with gov_arrive_pool [OF s' pw] ok w show ?thesis by (auto simp: storage_of_pool_def)
    next
      case False
      have "filter pool_wait (gs_waiting ?s) = filter pool_wait (gs_waiting s)"
        using False by (simp add: filter_remove1 remove1_idem)
      with gov_arrive_elsewhere [OF s' False] storage_of_pool_cong [OF _ _ ok] show ?thesis by simp
    qed
    with True Answered s' show ?thesis by simp
  qed (use ok Answered in \<open>auto split: option.split\<close>)
next
  case (Act a client)
  then show ?thesis
    using storage_of_pool_cong [OF _ _ ok] by (simp add: manager_action_def Let_def)
next
  case (Fetch_initial force client)
  then show ?thesis
    using storage_of_pool_cong [OF _ _ ok]
    by (auto simp: fetchInitialData_def fetch_call_pool split: option.split)
qed (use ok e in \<open>auto simp: storage_of_pool_def pool_quiet_def list_ex_iff filter_empty_conv fetchCanisters_def pool_done_def
      canisters_end_def provisionCanister_def provision_failed_def Let_def initialGov_def\<close>)


lemma play_storage: "pool_one_at_a_time es s \<Longrightarrow> storage_of_pool s \<Longrightarrow> storage_of_pool (gov_play es s)"
  by (induction es arbitrary: s) (auto simp: step_storage)

text \<open>
  When the pool is fetched, filled and reset only while nothing of it is under way, the list of all canisters is
  always the available ones followed by the assigned ones. But nothing keeps two fetches from overlapping: when the
  storage asked for by the first arrives after the pool of the second, the canisters the first one knew as assigned
  replace those of the second, the list of all canisters is made of the first answer, and with nothing under way it
  stays different from the available canisters shown.
\<close>

theorem pool_fetches_overlap:
  "(\<forall>es. pool_one_at_a_time es initial_gov_system \<longrightarrow>
      (let g = gs_gov (gov_play es initial_gov_system) in go_canisters g = go_availableCanisters g @ go_assignedCanisters g))
   \<and> (\<forall>av1 as1 n1 av2 n2 m s'. as1 \<noteq> [] \<longrightarrow> av1 \<noteq> av2 \<longrightarrow>
        s' = gov_play [Fetch_canisters True, Fetch_canisters True, Answered (W_pool False) (A_pool (Inr (av1, as1, n1))) True,
               Answered (W_pool False) (A_pool (Inr (av2, [], n2))) True, Answered (W_storage False av1 as1) (A_storage m) True] initial_gov_system
        \<longrightarrow> gs_waiting s' = [] \<and> go_assignedCanisters (gs_gov s') = map (with_storage m) as1
          \<and> go_canisters (gs_gov s') \<noteq> go_availableCanisters (gs_gov s') @ go_assignedCanisters (gs_gov s'))"
proof (intro conjI allI impI)
  fix es
  assume "pool_one_at_a_time es initial_gov_system"
  moreover have "storage_of_pool initial_gov_system"
    by (simp add: storage_of_pool_def initial_gov_system_def initialGov_def)
  ultimately have "storage_of_pool (gov_play es initial_gov_system)" by (rule play_storage)
  then show "let g = gs_gov (gov_play es initial_gov_system) in go_canisters g = go_availableCanisters g @ go_assignedCanisters g"
    by (simp add: storage_of_pool_def)
qed (simp_all add: initial_gov_system_def initialGov_def fetchCanisters_def pool_answer_def pool_done_def canisters_end_def
      store_pool_def store_storage_def await_def Let_def)

lemma pool_fetches_overlap_witness:
  "pool_one_at_a_time [Fetch_canisters True] initial_gov_system
   \<and> (let g = gs_gov (gov_play [Fetch_canisters True] initial_gov_system) in go_canisters g = go_availableCanisters g @ go_assignedCanisters g)"
proof -
  have o: "pool_one_at_a_time [Fetch_canisters True] initial_gov_system"
    by (simp add: pool_quiet_def initial_gov_system_def)
  from o pool_fetches_overlap [THEN conjunct1, rule_format, OF o] show ?thesis by blast
qed

end
