(* ===== verification/Embedding_Service.thy ===== *)
theory Embedding_Service
  imports Temp_Chats_Props Models_Store
begin

text \<open>
  \<open>src/gpt_frontend/src/services/embeddingService.ts\<close>: embeddings of texts by a node's model, over a temporary chat
  and the promises of OCR requests; several texts in batches; and the similarity of two embeddings, over
  any rounding of its arithmetic.
\<close>

section \<open>Errors\<close>

datatype embedding_code = MODEL_UNAVAILABLE | AUTH_REQUIRED | NODE_UNAVAILABLE | GENERATION_FAILED | TIMEOUT | INPUT_TOO_LONG

text \<open>An \<open>EmbeddingServiceError\<close>, or another error with its message.\<close>

datatype embedding_error = Service_Error string embedding_code | Other_Error string

definition MAX_EMBEDDING_INPUT_LENGTH :: nat where
  "MAX_EMBEDDING_INPUT_LENGTH = 30000"

definition EMBEDDING_DIMENSION :: nat where
  "EMBEDDING_DIMENSION = 1024"

definition zero_vector :: "rat list" where
  "zero_vector = replicate EMBEDDING_DIMENSION 0"

definition getEmbeddingModel_or_throw :: "models_state \<Rightarrow> embedding_error + model" where
  "getEmbeddingModel_or_throw models =
     (case getEmbeddingModel models of
        None \<Rightarrow> Inl (Service_Error (''Embedding model ('' @ DEFAULT_EMBEDDING_MODEL_ID
                  @ '') is not available. Please ensure an embedding node is online.'') MODEL_UNAVAILABLE)
      | Some m \<Rightarrow> Inr m)"

section \<open>One text\<close>

definition embedding_node :: "'k send_env \<Rightarrow> string \<Rightarrow> chat_state \<Rightarrow> embedding_error + picked_node" where
  "embedding_node en modelId state =
     (case pick_temp_node en modelId (''No available node for embedding model '' @ modelId @ ''.'')
             ''Embedding node missing public key for encryption.'' state of
        Inl m \<Rightarrow> Inl (Service_Error m NODE_UNAVAILABLE)
      | Inr node \<Rightarrow> Inr node)"

abbreviation other_error :: "string + 'a \<Rightarrow> embedding_error + 'a" where
  "other_error r \<equiv> (case r of Inl m \<Rightarrow> Inl (Other_Error m) | Inr v \<Rightarrow> Inr v)"

definition embedding_params ::
  "'k send_env \<Rightarrow> models_state \<Rightarrow> string \<Rightarrow> chat_state \<Rightarrow> embedding_error + (picked_node \<times> temp_params)" where
  "embedding_params en models text state =
     (if \<not> session_ready (se_auth en)
      then Inl (Service_Error ''User is not authenticated or Vault is locked.'' AUTH_REQUIRED)
      else
        bind_sum (getEmbeddingModel_or_throw models) (\<lambda>model.
        bind_sum (embedding_node en (md_modelId model) state) (\<lambda>node.
        map_sum_r (\<lambda>p. (node, p))
          (other_error (temp_chat_params en ''Temporary Embedding Chat'' text (md_modelId model) 0 0 (md_maxContext model) [] node)))))"

datatype embedding_start = Zero_Vector | Requested job_id

definition generateEmbedding ::
  "'k send_env \<Rightarrow> models_state \<Rightarrow> (temp_params \<Rightarrow> string + create_chat_response) \<Rightarrow> promise \<Rightarrow> timer \<Rightarrow> string \<Rightarrow> chat_state
     \<Rightarrow> (embedding_error + embedding_start) \<times> connection option \<times> chat_state \<times> chat_effect list" where
  "generateEmbedding en models api promise timeout text state =
     (if length text > MAX_EMBEDDING_INPUT_LENGTH
      then (Inl (Service_Error (''Input text too long ('' @ show_nat (length text) @ '' chars). Maximum is ''
              @ show_nat MAX_EMBEDDING_INPUT_LENGTH @ '' chars.'') INPUT_TOO_LONG), None, state, [])
      else if trim text = '''' then (Inr Zero_Vector, None, state, [])
      else
        let s1 = se_meanwhile en state in
        case bind_sum (embedding_params en models text state) (\<lambda>(node, p). map_sum_r (\<lambda>r. (node, r)) (other_error (api p))) of
          Inl e \<Rightarrow> (Inl e, None, s1, [])
        | Inr (node, response) \<Rightarrow>
            let tempChatId = toChatId (id_text (cr_chat_id response));
                tempJobId = toJobId (id_text (cr_job_id response));
                (conn, s2, effs) = connect_temp_job en tempChatId tempJobId node (addOcrPromise tempJobId promise s1)
            in (Inr (Requested tempJobId), conn, s2, SetTimer timeout 60000 # effs))"

text \<open>
  The callbacks registered for the job. \<open>parse\<close> is \<open>JSON.parse\<close>: its error, no array, or the array, whose elements are
  taken for numbers.
\<close>

definition parse_embedding :: "(string \<Rightarrow> string + rat list option) \<Rightarrow> string \<Rightarrow> embedding_error + rat list" where
  "parse_embedding parse value =
     (case parse value of
        Inl m \<Rightarrow> Inl (Service_Error (''Failed to parse embedding response: '' @ m) GENERATION_FAILED)
      | Inr None \<Rightarrow> Inl (Service_Error ''Failed to parse embedding response: Invalid embedding format: expected array'' GENERATION_FAILED)
      | Inr (Some embedding) \<Rightarrow> Inr embedding)"

fun embedding_refusal :: "embedding_error \<Rightarrow> embedding_error" where
  "embedding_refusal (Service_Error m c) = Service_Error m c"
| "embedding_refusal (Other_Error m) = Service_Error (''Embedding generation failed: '' @ m) GENERATION_FAILED"

definition embedding_late :: embedding_error where
  "embedding_late = Service_Error ''Embedding request timed out after 60 seconds.'' TIMEOUT"

abbreviation embedding_events ::
  "(string \<Rightarrow> string + rat list option) \<Rightarrow> embedding_error request_event list \<Rightarrow> chat_state \<times> (embedding_error, rat list) pending_request
     \<Rightarrow> (chat_state \<times> (embedding_error, rat list) pending_request) option" where
  "embedding_events parse \<equiv> request_events (parse_embedding parse) embedding_refusal embedding_late"

section \<open>Several texts\<close>

text \<open>
  \<open>outcome i\<close> is what embedding the \<open>i\<close>-th text comes to, \<open>order i\<close> the order in which the texts of the batch that starts
  at \<open>i\<close> end. A state is the results so far, empty where none is written, and the calls of \<open>onProgress\<close>.
\<close>

type_synonym embed_state = "rat list option list \<times> (nat \<times> nat) list"

definition embed_one :: "(nat \<Rightarrow> embedding_error + rat list) \<Rightarrow> nat \<Rightarrow> embed_state \<Rightarrow> embed_state" where
  "embed_one outcome globalIdx st =
     (let embedding = (case outcome globalIdx of Inl e \<Rightarrow> zero_vector | Inr v \<Rightarrow> v)
      in ((fst st)[globalIdx := Some embedding], snd st @ [(length (snd st) + 1, length (fst st))]))"

text \<open>The loop, which does not end when the concurrency is zero.\<close>

partial_function (option) embed_batches ::
  "(nat \<Rightarrow> embedding_error + rat list) \<Rightarrow> (nat \<Rightarrow> nat list) \<Rightarrow> nat \<Rightarrow> nat \<Rightarrow> embed_state \<Rightarrow> embed_state option" where
  "embed_batches outcome order concurrency i st =
     (if i < length (fst st) then embed_batches outcome order concurrency (i + concurrency) (fold (embed_one outcome) (order i) st)
      else Some st)"

definition generateEmbeddings ::
  "(nat \<Rightarrow> embedding_error + rat list) \<Rightarrow> (nat \<Rightarrow> nat list) \<Rightarrow> nat \<Rightarrow> nat \<Rightarrow> embed_state option" where
  "generateEmbeddings outcome order n concurrency =
     embed_batches outcome order concurrency 0 (replicate n None, [])"

text \<open>The order of a batch is one of its texts.\<close>

definition batch_orders :: "(nat \<Rightarrow> nat list) \<Rightarrow> nat \<Rightarrow> nat \<Rightarrow> bool" where
  "batch_orders order n concurrency \<longleftrightarrow> (\<forall>i < n. distinct (order i) \<and> set (order i) = {i..<min n (i + concurrency)})"

section \<open>Similarity\<close>

text \<open>
  The numbers of the source are doubles. \<open>rnd\<close> is what the machine keeps of an exact result: each sum, product, root and
  quotient is rounded by it, \<open>id\<close> is exact arithmetic. Results too large for a double (infinities, and what is not a
  number) are not modelled.
\<close>

definition similarity_step ::
  "(real \<Rightarrow> real) \<Rightarrow> real \<times> real \<Rightarrow> real \<times> real \<times> real \<Rightarrow> real \<times> real \<times> real" where
  "similarity_step rnd xy st =
     (case (xy, st) of ((x, y), (dotProduct, normA, normB)) \<Rightarrow>
        (rnd (dotProduct + rnd (x * y)), rnd (normA + rnd (x * x)), rnd (normB + rnd (y * y))))"

definition cosineSimilarity :: "(real \<Rightarrow> real) \<Rightarrow> real list \<Rightarrow> real list \<Rightarrow> real" where
  "cosineSimilarity rnd a b =
     (if length a \<noteq> length b \<or> length a = 0 then 0
      else
        let (dotProduct, normA, normB) = fold (similarity_step rnd) (zip a b) (0, 0, 0);
            magnitude = rnd (rnd (sqrt normA) * rnd (sqrt normB))
        in if magnitude = 0 then 0 else rnd (dotProduct / magnitude))"

end
