(* ===== verification/Embedding_Props.thy ===== *)
theory Embedding_Props
  imports Embedding_Service
begin

text \<open>
  An embedding request is answered once; a batch of texts ends with a vector for each text in its place, whatever the
  order of the answers. However the arithmetic rounds, the similarity of two embeddings does not depend on their
  order; in exact arithmetic it lies between -1 and 1, which doubles keep only up to their rounding.
\<close>

section \<open>Several texts\<close>

definition embedding_or_zero :: "(nat \<Rightarrow> embedding_error + rat list) \<Rightarrow> nat \<Rightarrow> rat list" where
  "embedding_or_zero outcome i = (case outcome i of Inl e \<Rightarrow> zero_vector | Inr v \<Rightarrow> v)"

definition progress_calls :: "nat \<Rightarrow> nat \<Rightarrow> (nat \<times> nat) list" where
  "progress_calls m n = map (\<lambda>k. (k + 1, n)) [0..<m]"

definition embedded :: "(nat \<Rightarrow> embedding_error + rat list) \<Rightarrow> nat set \<Rightarrow> nat \<Rightarrow> embed_state \<Rightarrow> bool" where
  "embedded outcome A n st \<longleftrightarrow>
     length (fst st) = n \<and> (\<forall>k < n. k \<in> A \<longrightarrow> fst st ! k = Some (embedding_or_zero outcome k)) \<and> snd st = progress_calls (card A) n"

lemma embed_one_embedded:
  assumes "embedded outcome A n st" and "k < n" and "k \<notin> A" and "finite A"
  shows "embedded outcome (insert k A) n (embed_one outcome k st)"
  using assms by (auto simp: embedded_def embed_one_def embedding_or_zero_def progress_calls_def nth_list_update)

lemma embed_batch_embedded:
  "embedded outcome A n st \<Longrightarrow> finite A \<Longrightarrow> distinct ks \<Longrightarrow> set ks \<subseteq> {..<n} - A
   \<Longrightarrow> embedded outcome (A \<union> set ks) n (fold (embed_one outcome) ks st)"
proof (induction ks arbitrary: A st)
  case (Cons k ks)
  then have "embedded outcome (insert k A) n (embed_one outcome k st)" by (intro embed_one_embedded) auto
  moreover have "set ks \<subseteq> {..<n} - insert k A" using Cons.prems by auto
  ultimately show ?case using Cons.IH [of "insert k A" "embed_one outcome k st"] Cons.prems by simp
qed simp

lemma embed_batches_end:
  assumes "embedded outcome {..<min i n} n st" and "batch_orders order n concurrency" and "concurrency > 0"
  shows "\<exists>st'. embed_batches outcome order concurrency i st = Some st' \<and> embedded outcome {..<n} n st'"
  using assms(1)
proof (induction "n - i" arbitrary: i st rule: less_induct)
  case less
  show ?case
  proof (cases "i < n")
    case True
    let ?i = "i + concurrency" and ?st = "fold (embed_one outcome) (order i) st"
    have o: "distinct (order i)" "set (order i) = {i..<min n ?i}" using assms(2) True by (simp_all add: batch_orders_def)
    have "embedded outcome ({..<min i n} \<union> set (order i)) n ?st"
      by (rule embed_batch_embedded [OF less.prems _ o(1)]) (auto simp: o(2))
    moreover have "{..<min i n} \<union> set (order i) = {..<min ?i n}" using True by (auto simp: o(2))
    ultimately have "embedded outcome {..<min ?i n} n ?st" by simp
    then have "\<exists>st'. embed_batches outcome order concurrency ?i ?st = Some st' \<and> embedded outcome {..<n} n st'"
      using less.hyps [of ?i ?st] True assms(3) by simp
    moreover have "length (fst st) = n" using less.prems by (simp add: embedded_def)
    ultimately show ?thesis by (subst embed_batches.simps) (simp add: True)
  next
    case False
    with less.prems show ?thesis by (subst embed_batches.simps) (auto simp: embedded_def min_def)
  qed
qed

lemma embed_fold_length [simp]: "length (fst (fold (embed_one outcome) ks st)) = length (fst st)"
  by (induction ks arbitrary: st) (auto simp: embed_one_def Let_def)

lemma embed_batches_positive:
  assumes "embed_batches outcome order c i st = Some r"
  shows "length (fst st) \<le> i \<or> c \<noteq> 0"
proof (rule embed_batches.raw_induct [of "\<lambda>outcome order c i st y. length (fst st) \<le> i \<or> c \<noteq> 0", OF _ assms])
  fix f :: "(nat \<Rightarrow> embedding_error + rat list) \<Rightarrow> (nat \<Rightarrow> nat list) \<Rightarrow> nat \<Rightarrow> nat \<Rightarrow> embed_state \<Rightarrow> embed_state option"
    and outcome order c i st y
  assume IH: "\<And>outcome order c i st y. f outcome order c i st = Some y \<Longrightarrow> length (fst st) \<le> i \<or> c \<noteq> 0"
    and step: "(if i < length (fst st) then f outcome order c (i + c) (fold (embed_one outcome) (order i) st) else Some st) = Some y"
  show "length (fst st) \<le> i \<or> c \<noteq> 0"
  proof (cases "i < length (fst st)")
    case True
    with step have "f outcome order c (i + c) (fold (embed_one outcome) (order i) st) = Some y" by simp
    from IH [OF this] True show ?thesis by (cases "c = 0") simp_all
  qed simp
qed

lemma embed_batches_no_end: "n > 0 \<Longrightarrow> generateEmbeddings outcome order n 0 = None"
  using embed_batches_positive [of outcome order 0 0 "(replicate n None, [])"]
  by (cases "generateEmbeddings outcome order n 0") (auto simp: generateEmbeddings_def)

text \<open>
  With a positive concurrency the batches end, in whatever order the texts of each batch are embedded: every text
  has its own embedding, or the zero vector when it failed, at its own place, and the progress was reported once for
  each text, counting up to their number; with a concurrency of zero the loop over any texts never ends.
\<close>

theorem generateEmbeddings_in_order:
  "(batch_orders order n concurrency \<longrightarrow> concurrency > 0 \<longrightarrow>
      generateEmbeddings outcome order n concurrency =
        Some (map (\<lambda>i. Some (embedding_or_zero outcome i)) [0..<n], map (\<lambda>k. (k + 1, n)) [0..<n]))
   \<and> (n > 0 \<longrightarrow> generateEmbeddings outcome order n 0 = None)"
proof (intro conjI impI)
  assume o: "batch_orders order n concurrency" and c: "concurrency > 0"
  have "embedded outcome {..<min 0 n} n (replicate n None, [])" by (simp add: embedded_def progress_calls_def)
  from embed_batches_end [OF this o c] obtain st where st: "generateEmbeddings outcome order n concurrency = Some st"
    and e: "embedded outcome {..<n} n st" by (auto simp: generateEmbeddings_def)
  from e have "fst st = map (\<lambda>i. Some (embedding_or_zero outcome i)) [0..<n]"
    by (auto simp: embedded_def intro: nth_equalityI)
  moreover from e have "snd st = map (\<lambda>k. (k + 1, n)) [0..<n]" by (simp add: embedded_def progress_calls_def)
  ultimately show "generateEmbeddings outcome order n concurrency =
        Some (map (\<lambda>i. Some (embedding_or_zero outcome i)) [0..<n], map (\<lambda>k. (k + 1, n)) [0..<n])"
    using st by (simp add: prod_eq_iff)
qed (rule embed_batches_no_end)

lemma generateEmbeddings_in_order_witness:
  "generateEmbeddings (\<lambda>i. if i = 1 then Inl embedding_late else Inr [1]) (\<lambda>i. rev [i..<min 3 (i + 2)]) 3 2
   = Some ([Some [1], Some zero_vector, Some [1]], [(1, 3), (2, 3), (3, 3)])"
proof -
  have "batch_orders (\<lambda>i. rev [i..<min n (i + c)]) n c" for n c by (simp add: batch_orders_def)
  from this [of 3 2] have o: "batch_orders (\<lambda>i. rev [i..<min 3 (i + 2)]) 3 2" .
  show ?thesis
    using generateEmbeddings_in_order [THEN conjunct1, rule_format, OF o, of "\<lambda>i. if i = 1 then Inl embedding_late else Inr [1]"]
    by (simp add: embedding_or_zero_def upt_conv_Cons)
qed


section \<open>One request\<close>

text \<open>
  Embedding one text. A text that is too long is refused before anything else and a blank one gives the zero vector
  without any request. Otherwise a request that was accepted has its timer of one minute set, and its promise is either
  registered for the job, where the last packet of the job settles it, or has been rejected at once. Of all that can
  happen to the promise the first decides: an answer that is an array gives the embedding, any other answer and any
  refusal an error of the service, and the timer the error of the time limit, which also removes the registration.
\<close>

theorem embedding_request_answered:
  "(length text > 30000 \<longrightarrow> (\<exists>m. generateEmbedding en models api promise timeout text s = (Inl (Service_Error m INPUT_TOO_LONG), None, s, [])))
   \<and> (length text \<le> 30000 \<longrightarrow> trim text = '''' \<longrightarrow> generateEmbedding en models api promise timeout text s = (Inr Zero_Vector, None, s, []))
   \<and> (\<forall>j conn s' effs. generateEmbedding en models api promise timeout text s = (Inr (Requested j), conn, s', effs) \<longrightarrow> se_connecting en = id
        \<longrightarrow> SetTimer timeout 60000 \<in> set effs \<and> will_settle promise j conn s' effs)
   \<and> (\<forall>parse e es j st st' req. embedding_events parse (e # es) (st, new_request j) = Some (st', req) \<longrightarrow>
        \<not> pr_timer req \<and> (case e of
            Answered v \<Rightarrow> (case parse v of Inr (Some xs) \<Rightarrow> pr_outcome req = Some (Inr xs)
              | _ \<Rightarrow> \<exists>m. pr_outcome req = Some (Inl (Service_Error m GENERATION_FAILED)))
          | Refused x \<Rightarrow> \<exists>m c. pr_outcome req = Some (Inl (Service_Error m c))
          | TimeUp \<Rightarrow> (\<exists>m. pr_outcome req = Some (Inl (Service_Error m TIMEOUT)))
              \<and> (es = [] \<longrightarrow> map_get (ocrPromises st') j = None)))"
proof (intro conjI allI impI, goal_cases)
  case 1
  then show ?case by (simp add: generateEmbedding_def MAX_EMBEDDING_INPUT_LENGTH_def)
next
  case 2
  then show ?case by (simp add: generateEmbedding_def MAX_EMBEDDING_INPUT_LENGTH_def)
next
  case (3 j conn s' effs)
  then show ?case
    by (auto simp: generateEmbedding_def Let_def split: if_splits sum.splits prod.splits)
next
  case (4 j conn s' effs)
  then obtain effs' k node where "effs = SetTimer timeout 60000 # effs'"
    and "connect_temp_job en k j node (addOcrPromise j promise (se_meanwhile en s)) = (conn, s', effs')"
    by (auto simp: generateEmbedding_def Let_def split: if_splits sum.splits prod.splits)
  with registered_settles [OF this(2) 4(2)] show ?case by simp
next
  case (5 parse e es j st st' req)
  from request_settles_once [OF this] show ?case by simp
next
  case (6 parse e es j st st' req)
  note settled = request_settles_once [OF this, THEN conjunct2]
  show ?case
  proof (cases e)
    case (Answered v)
    with settled show ?thesis by (auto simp: parse_embedding_def split: sum.split option.split)
  next
    case (Refused x)
    with settled show ?thesis by (cases x) auto
  next
    case TimeUp
    have "map_get (ocrPromises st') j = None" if "es = []"
      using 6 TimeUp that by (auto simp: request_handle_def new_request_def removeOcrPromise_def map_has_def split: option.splits)
    with settled TimeUp show ?thesis by (simp add: embedding_late_def)
  qed
qed

lemma embedding_request_answered_witness:
  "\<exists>st' req. embedding_events (\<lambda>_. Inr (Some [1, 2])) [Answered ''[1,2]'', TimeUp] (send_state, new_request ''j'') = None
     \<and> embedding_events (\<lambda>_. Inr (Some [1, 2])) [Answered ''[1,2]'', Refused embedding_late] (send_state, new_request ''j'') = Some (st', req)
     \<and> pr_outcome req = Some (Inr [1, 2])"
proof -
  let ?run = "\<lambda>es. embedding_events (\<lambda>_. Inr (Some [1, 2])) es (send_state, new_request ''j'')"
  have none: "?run [Answered ''[1,2]'', TimeUp] = None" by (simp add: request_handle_def)
  obtain st' req where run: "?run [Answered ''[1,2]'', Refused embedding_late] = Some (st', req)"
    by (simp add: request_handle_def)
  from embedding_request_answered [THEN conjunct2, THEN conjunct2, THEN conjunct2, rule_format, OF run] none run show ?thesis by simp
qed

section \<open>Similarity\<close>

text \<open>With any rounding: the order of the two vectors does not matter, and vectors of different lengths have none.\<close>

lemma similarity_fold_swap:
  "length a = length b \<Longrightarrow> fold (similarity_step rnd) (zip b a) (d, y, x) =
     (case fold (similarity_step rnd) (zip a b) (d, x, y) of (d', x', y') \<Rightarrow> (d', y', x'))"
  by (induction a b arbitrary: d x y rule: list_induct2) (simp_all add: similarity_step_def mult.commute)

lemma cosineSimilarity_commute: "cosineSimilarity rnd a b = cosineSimilarity rnd b a"
proof (cases "length a = length b \<and> length a \<noteq> 0")
  case True
  obtain d x y where ab: "fold (similarity_step rnd) (zip a b) (0, 0, 0) = (d, x, y)" by (metis prod_cases3)
  with True have "fold (similarity_step rnd) (zip b a) (0, 0, 0) = (d, y, x)"
    using similarity_fold_swap [of a b rnd 0 0 0] by simp
  with ab True show ?thesis by (simp add: cosineSimilarity_def mult.commute)
qed (auto simp: cosineSimilarity_def)

lemma cosineSimilarity_lengths: "length a \<noteq> length b \<Longrightarrow> cosineSimilarity rnd a b = 0"
  by (simp add: cosineSimilarity_def)

text \<open>From here on the arithmetic is exact.\<close>

lemma similarity_fold:
  "length a = length b \<Longrightarrow> fold (similarity_step id) (zip a b) (d, x, y) =
     (d + (\<Sum>i < length a. a ! i * b ! i), x + (\<Sum>i < length a. (a ! i)\<^sup>2), y + (\<Sum>i < length a. (b ! i)\<^sup>2))"
proof (induction a b arbitrary: d x y rule: list_induct2)
  case (Cons u us v vs)
  then show ?case
    by (simp add: similarity_step_def sum.lessThan_Suc_shift power2_eq_square algebra_simps del: sum.lessThan_Suc)
qed simp

lemma cosine_unfold:
  assumes "length a = length b" and "a \<noteq> []"
  shows "cosineSimilarity id a b =
    (let m = sqrt (\<Sum>i < length a. (a ! i)\<^sup>2) * sqrt (\<Sum>i < length a. (b ! i)\<^sup>2)
     in if m = 0 then 0 else (\<Sum>i < length a. a ! i * b ! i) / m)"
  using assms by (simp add: cosineSimilarity_def similarity_fold Let_def)

text \<open>The inequality of Cauchy and Schwarz for sums.\<close>

lemma sum_cauchy_schwarz:
  fixes u v :: "nat \<Rightarrow> real"
  shows "(\<Sum>i < n. u i * v i)\<^sup>2 \<le> (\<Sum>i < n. (u i)\<^sup>2) * (\<Sum>i < n. (v i)\<^sup>2)"
proof -
  let ?U = "\<Sum>i < n. (u i)\<^sup>2" and ?V = "\<Sum>i < n. (v i)\<^sup>2" and ?D = "\<Sum>i < n. u i * v i"
  have nonneg: "0 \<le> ?V * t\<^sup>2 - 2 * ?D * t + ?U" for t
  proof -
    have "(\<Sum>i < n. (u i - t * v i)\<^sup>2) = ?V * t\<^sup>2 - 2 * ?D * t + ?U"
      by (simp add: power2_eq_square algebra_simps sum.distrib sum_subtractf sum_distrib_left)
    moreover have "0 \<le> (\<Sum>i < n. (u i - t * v i)\<^sup>2)" by (rule sum_nonneg) simp
    ultimately show ?thesis by simp
  qed
  show ?thesis
  proof (cases "?V = 0")
    case True
    then have "\<forall>i < n. v i = 0" by (simp add: sum_nonneg_eq_0_iff)
    then show ?thesis by simp
  next
    case False
    then have V: "?V > 0" by (simp add: order.not_eq_order_implies_strict sum_nonneg)
    have "0 \<le> ?V * (?V * (?D / ?V)\<^sup>2 - 2 * ?D * (?D / ?V) + ?U)" using nonneg [of "?D / ?V"] V by simp
    also have "\<dots> = ?U * ?V - ?D\<^sup>2" using V by (simp add: power2_eq_square field_simps)
    finally show ?thesis by simp
  qed
qed

lemma exact_similarity_bounded: "\<bar>cosineSimilarity id a b\<bar> \<le> 1"
proof (cases "length a = length b \<and> a \<noteq> []")
  case True
  let ?S = "\<lambda>u. \<Sum>i < length a. (u ! i)\<^sup>2 :: real" and ?D = "\<Sum>i < length a. a ! i * b ! i :: real"
  have "\<bar>?D\<bar> \<le> sqrt (?S a * ?S b)" by (rule real_le_rsqrt) (simp add: sum_cauchy_schwarz)
  then have le: "\<bar>?D\<bar> \<le> sqrt (?S a) * sqrt (?S b)" by (simp add: real_sqrt_mult)
  have "0 \<le> sqrt (?S a) * sqrt (?S b)" by (simp add: sum_nonneg)
  with le True show ?thesis by (simp add: cosine_unfold Let_def abs_divide divide_le_eq)
qed (auto simp: cosineSimilarity_def)

lemma exact_similarity_self: "\<exists>x \<in> set a. x \<noteq> 0 \<Longrightarrow> cosineSimilarity id a a = 1"
proof -
  assume x: "\<exists>x \<in> set a. x \<noteq> 0"
  then have ne: "a \<noteq> []" by auto
  from x obtain i where i: "i < length a" "a ! i \<noteq> 0" by (auto simp: in_set_conv_nth)
  have "(\<Sum>i < length a. (a ! i)\<^sup>2) > 0" by (rule sum_pos2 [of _ i]) (use i in auto)
  then show ?thesis using ne by (simp add: cosine_unfold Let_def power2_eq_square [symmetric])
qed

text \<open>
  Rounding matters: where a number as small as 1/2 is rounded to 0, a vector that is not zero has similarity 0 with
  itself, as doubles round the square of a component near \<open>1e-200\<close>.
\<close>

lemma small_vectors_vanish: "cosineSimilarity (\<lambda>x. if \<bar>x\<bar> \<le> 1 / 2 then 0 else x) [1 / 2] [1 / 2] = 0"
  by (simp add: cosineSimilarity_def similarity_step_def)

end
