(* ===== verification/App_Effects.thy ===== *)
theory App_Effects
  imports Models_Store Nodes File_Store
begin

text \<open>
  What runs around the stores: whether a message may be sent (\<open>src/gpt_frontend/src/hooks/useChatReadiness.ts\<close>), the
  chat of the address (\<open>hooks/useChatUrlSync.ts\<close>), the reconnection to a running job
  (\<open>hooks/useWebSocketReconnection.ts\<close>), and the effects and screens of \<open>app/providers.tsx\<close>. An effect is a function
  of what a rendering shows it; the stores it calls are modelled in other theories.
\<close>

section \<open>Readiness\<close>

datatype readiness_reason = Ready_ok | Ready_initializing | Ready_not_registered | Ready_no_model | Ready_model_offline | Ready_generating

record readiness =
  rd_isReady :: bool
  rd_reason :: readiness_reason
  rd_message :: string

definition not_yet :: "readiness_reason \<Rightarrow> string \<Rightarrow> readiness" where
  "not_yet reason message = \<lparr>rd_isReady = False, rd_reason = reason, rd_message = message\<rparr>"

definition useChatReadiness :: "auth_state \<Rightarrow> chat_state \<Rightarrow> model list \<Rightarrow> chat_id option \<Rightarrow> readiness" where
  "useChatReadiness auth state models chatId =
     (let chatKey = (case chatId of None \<Rightarrow> ''new'' | Some k \<Rightarrow> k);
          isGenerating' = flag (isGenerating state) chatKey
      in if au_authStatus auth = INITIALIZING then not_yet Ready_initializing ''System initializing...''
         else if au_authStatus auth \<noteq> REGISTERED then not_yet Ready_not_registered ''You must be registered to send messages.''
         else if isGenerating' then not_yet Ready_generating ''Please wait for the current response to finish.''
         else case selectedModel state of
           None \<Rightarrow> not_yet Ready_no_model ''Please select an AI model to start chatting.''
         | Some sel \<Rightarrow>
             let liveModel = List.find (\<lambda>m. md_modelId m = md_modelId sel) models;
                 activeNodeCount = (case liveModel of None \<Rightarrow> 0 | Some m \<Rightarrow> md_nodeCount m)
             in if activeNodeCount = 0
                then not_yet Ready_model_offline
                       (''No active nodes available for '' @ md_name sel @ ''. Please select a different model.'')
                else \<lparr>rd_isReady = True, rd_reason = Ready_ok, rd_message = ''Ready to send''\<rparr>)"

section \<open>The chat of the address\<close>

datatype url_action = Url_Nothing | Url_Set chat_id | Url_Home | Url_Clear

definition useChatUrlSync :: "string \<Rightarrow> auth_state \<Rightarrow> string option \<Rightarrow> chat_state \<Rightarrow> url_action" where
  "useChatUrlSync pathname auth chatIdFromUrl state =
     (if pathname \<noteq> ''/'' \<or> au_authStatus auth \<noteq> REGISTERED \<or> \<not> hasFetchedChats state then Url_Nothing
      else if truthy_str chatIdFromUrl
      then (if chatIdFromUrl = currentChatId state then Url_Nothing
            else if list_ex (\<lambda>c. Some (c_chatId c) = chatIdFromUrl) (chats state) then Url_Set (the chatIdFromUrl)
            else Url_Home)
      else (case currentChatId state of
              None \<Rightarrow> Url_Nothing
            | Some k \<Rightarrow> if activeChatJobs state k \<noteq> None then Url_Nothing else Url_Clear))"

text \<open>The action on the address and the store; \<open>router.replace("/")\<close> leaves an address without a chat.\<close>

definition url_sync_step :: "timer \<Rightarrow> auth_state \<Rightarrow> string option \<times> chat_state \<Rightarrow> string option \<times> chat_state" where
  "url_sync_step t auth st =
     (case useChatUrlSync ''/'' auth (fst st) (snd st) of
        Url_Nothing \<Rightarrow> st
      | Url_Set k \<Rightarrow> (fst st, fst (setCurrentChatId t (Some k) (snd st)))
      | Url_Home \<Rightarrow> (None, snd st)
      | Url_Clear \<Rightarrow> (fst st, fst (setCurrentChatId t None (snd st))))"

section \<open>Reconnection\<close>

definition RECONNECTION_COOLDOWN :: nat where
  "RECONNECTION_COOLDOWN = 10000"

record reconnect_refs =
  rr_attempts :: "(string, nat) jsmap"
  rr_last :: "active_job_info option"

definition clear_refs :: reconnect_refs where
  "clear_refs = \<lparr>rr_attempts = [], rr_last = None\<rparr>"

text \<open>A message of the job that has an error or text.\<close>

definition already_streamed :: "job_id \<Rightarrow> message_map \<Rightarrow> bool" where
  "already_streamed jobId msgs \<longleftrightarrow>
     list_ex (\<lambda>msg. m_jobId msg = Some jobId \<and> (m_errorStatus msg \<noteq> None \<or> length (trim (m_content msg)) > 0)) (map_values msgs)"

definition stream_key :: "chat_id \<Rightarrow> job_id \<Rightarrow> string" where
  "stream_key chatId jobId = chatId @ '':'' @ jobId"

definition cooling_down :: "nat \<Rightarrow> string \<Rightarrow> reconnect_refs \<Rightarrow> bool" where
  "cooling_down now key refs \<longleftrightarrow>
     (case map_get (rr_attempts refs) key of None \<Rightarrow> False | Some t \<Rightarrow> t \<noteq> 0 \<and> now < t + RECONNECTION_COOLDOWN)"

definition socket_open :: "(ws_handle \<Rightarrow> ready_state) \<Rightarrow> job_id \<Rightarrow> chat_state \<Rightarrow> bool" where
  "socket_open ready jobId state \<longleftrightarrow> (case map_get (webSockets state) jobId of None \<Rightarrow> False | Some ws \<Rightarrow> ready ws = OPEN)"

text \<open>What a rendering shows the effect: the time, the sockets and the stores.\<close>

record reconnect_view =
  rv_now :: nat
  rv_ready :: "ws_handle \<Rightarrow> ready_state"
  rv_auth :: auth_state
  rv_state :: chat_state

definition reconnect_effect :: "reconnect_view \<Rightarrow> reconnect_refs \<Rightarrow> reconnect_refs \<times> (chat_id \<times> job_id) option" where
  "reconnect_effect v refs =
     (let state = rv_state v in
      if au_authStatus (rv_auth v) \<noteq> REGISTERED \<or> \<not> truthy_str (au_userCanisterId (rv_auth v))
           \<or> \<not> truthy_str (currentChatId state) \<or> \<not> hasFetchedChats state
      then (refs, None)
      else
        let chatId = the (currentChatId state); info = activeChatJobs state chatId in
        if info = rr_last refs then (refs, None)
        else
          let refs1 = refs\<lparr>rr_last := info\<rparr> in
          case info of
            None \<Rightarrow> (refs1, None)
          | Some job \<Rightarrow>
              if aj_erroredViaStream job then (refs1, None)
              else if (case messages state chatId of None \<Rightarrow> False | Some msgs \<Rightarrow> already_streamed (aj_jobId job) msgs) then (refs1, None)
              else
                let jobId = aj_jobId job; streamKey = stream_key chatId jobId
                in if cooling_down (rv_now v) streamKey refs1 then (refs1, None)
                   else if socket_open (rv_ready v) jobId state then (refs1, None)
                   else (refs1\<lparr>rr_attempts := map_set streamKey (rv_now v) (rr_attempts refs1)\<rparr>, Some (chatId, jobId)))"

text \<open>
  The first effect of a rendering, when the chat shown is not the one of the rendering before (\<open>None\<close> before the first
  rendering), clears the references.
\<close>

definition chat_change_effect :: "chat_id option option \<Rightarrow> reconnect_view \<Rightarrow> reconnect_refs \<Rightarrow> reconnect_refs" where
  "chat_change_effect shown v refs = (if shown = Some (currentChatId (rv_state v)) then refs else clear_refs)"

text \<open>Any renderings, whatever chats they show; each attempt with its time.\<close>

fun reconnect_run :: "chat_id option option \<Rightarrow> reconnect_view list \<Rightarrow> reconnect_refs \<Rightarrow> (nat \<times> chat_id \<times> job_id) list" where
  "reconnect_run shown [] refs = []"
| "reconnect_run shown (v # vs) refs =
     (case reconnect_effect v (chat_change_effect shown v refs) of (refs', attempt) \<Rightarrow>
        (case attempt of None \<Rightarrow> [] | Some (c, j) \<Rightarrow> [(rv_now v, c, j)])
        @ reconnect_run (Some (currentChatId (rv_state v))) vs refs')"

section \<open>Fetching data\<close>

datatype secondary_call = Init_embedding_worker | Fetch_secondary_data

definition reset_secondary :: "auth_state \<Rightarrow> bool \<Rightarrow> bool" where
  "reset_secondary auth hasInitiated = (if au_authStatus auth \<noteq> REGISTERED then False else hasInitiated)"

definition secondary_effect :: "string \<Rightarrow> auth_state \<Rightarrow> chat_state \<Rightarrow> bool \<Rightarrow> bool \<times> secondary_call list" where
  "secondary_effect pathname auth state hasInitiated =
     (let shouldWaitForAnimation = (pathname = ''/'') in
      if au_authStatus auth = REGISTERED \<and> truthy_str (au_userCanisterId auth) \<and> hasFetchedChats state
         \<and> (\<not> shouldWaitForAnimation \<or> isInitialAnimationComplete state) \<and> \<not> hasInitiated
      then (True, [Init_embedding_worker, Fetch_secondary_data])
      else (hasInitiated, []))"

text \<open>The two effects of a rendering, in their order, over any number of renderings.\<close>

fun secondary_run :: "(string \<times> auth_state \<times> chat_state) list \<Rightarrow> bool \<Rightarrow> secondary_call list" where
  "secondary_run [] b = []"
| "secondary_run ((pathname, auth, state) # vs) b =
     (case secondary_effect pathname auth state (reset_secondary auth b) of (b', calls) \<Rightarrow> calls @ secondary_run vs b')"

text \<open>An error of the data that says the delegation is invalid ends the session.\<close>

definition delegation_invalid :: "thrown \<Rightarrow> bool" where
  "delegation_invalid e \<longleftrightarrow> th_untrusted e \<or> message_includes e ''Invalid delegation'' \<or> message_includes e ''Invalid signature''"

definition fetch_messages_effect :: "chat_state \<Rightarrow> chat_id option" where
  "fetch_messages_effect state =
     (if hasFetchedChats state \<and> truthy_str (currentChatId state) \<and> \<not> hasMessagesLoaded state (the (currentChatId state))
      then currentChatId state else None)"

text \<open>The other effects, each with the call it makes when a rendering shows it what it waits for.\<close>

datatype app_call =
    Fetch_models | Resolve_user_session | Fetch_chats | Fetch_messages chat_id | Build_index_later | Build_index | Process_tool_calls

definition app_calls :: "auth_state \<Rightarrow> chat_state \<Rightarrow> file_state \<Rightarrow> app_call list" where
  "app_calls auth state files =
     (if au_authStatus auth = REGISTERED then [Fetch_models] else [])
     @ (if au_authStatus auth = PENDING_SETUP then [Resolve_user_session] else [])
     @ (if au_authStatus auth = REGISTERED \<and> truthy_str (au_userCanisterId auth) then [Fetch_chats] else [])
     @ (case fetch_messages_effect state of None \<Rightarrow> [] | Some k \<Rightarrow> [Fetch_messages k])
     @ (if hydrationStatus files = Hydrated then [Build_index_later] else [])
     @ (if isIndexStale files \<and> hydrationStatus files = Hydrated then [Build_index] else [])
     @ (if length (queuedToolCalls state) > 0 then [Process_tool_calls] else [])"

section \<open>Polling the nodes\<close>

text \<open>
  One run of the effect: \<open>po_interval\<close> is its variable \<open>intervalId\<close>, \<open>po_alive\<close> the intervals the browser keeps,
  \<open>po_listening\<close> whether the handler of the visibility is registered.
\<close>

record polling =
  po_registered :: bool
  po_listening :: bool
  po_interval :: "nat option"
  po_alive :: "nat list"
  po_next :: nat

definition startPolling :: "polling \<Rightarrow> polling" where
  "startPolling p = p\<lparr>po_interval := Some (po_next p), po_alive := po_alive p @ [po_next p], po_next := po_next p + 1\<rparr>"

definition stopPolling :: "polling \<Rightarrow> polling" where
  "stopPolling p =
     (case po_interval p of None \<Rightarrow> p | Some i \<Rightarrow> p\<lparr>po_alive := remove1 i (po_alive p), po_interval := None\<rparr>)"

definition handleVisibilityChange :: "bool \<Rightarrow> polling \<Rightarrow> polling" where
  "handleVisibilityChange hidden p =
     (if \<not> po_listening p then p else if hidden then stopPolling p else if po_registered p then startPolling p else p)"

definition begin_polling :: "auth_state \<Rightarrow> polling" where
  "begin_polling auth =
     (let p = \<lparr>po_registered = (au_authStatus auth = REGISTERED), po_listening = False, po_interval = None, po_alive = [], po_next = 0\<rparr>
      in if au_authStatus auth = REGISTERED then startPolling p\<lparr>po_listening := True\<rparr> else p)"

definition end_polling :: "polling \<Rightarrow> polling" where
  "end_polling p = (stopPolling p)\<lparr>po_listening := False\<rparr>"

section \<open>The screen\<close>

datatype app_screen =
    Full_spinner string
  | Full_error string "string option" bool
  | Vault_setup
  | Vault_unlock
  | App_children

text \<open>\<open>setupError || text\<close>\<close>

definition or_default :: "string option \<Rightarrow> string \<Rightarrow> string" where
  "or_default s d = (if truthy_str s then the s else d)"

definition app_screen :: "auth_state \<Rightarrow> chat_state \<Rightarrow> app_screen" where
  "app_screen auth state =
     (case au_authStatus auth of
        INITIALIZING \<Rightarrow> Full_spinner ''Initializing...''
      | AUTHENTICATING_II \<Rightarrow> Full_spinner ''Authenticating with Internet Identity...''
      | PENDING_SETUP \<Rightarrow> Full_spinner (or_default (au_setupError auth) ''Setting up your account...'')
      | SETUP_ERROR \<Rightarrow>
          Full_error (or_default (au_setupError auth) ''An unknown setup error occurred.'') (au_setupErrorTitle auth) (au_isFatalError auth)
      | SETUP_VAULT \<Rightarrow> Vault_setup
      | VAULT_LOCKED \<Rightarrow> Vault_unlock
      | REGISTERED \<Rightarrow> if \<not> hasFetchedChats state then Full_spinner ''Loading workspace...'' else App_children
      | UNAUTHENTICATED \<Rightarrow> App_children)"

end
