(* ===== verification/App_Props.thy ===== *)
theory App_Props
  imports App_Effects
begin

text \<open>
  Readiness agrees with the choice of a node, the address and the shown chat agree after at most two steps,
  reconnections keep their distance, and the nodes are polled by one interval, if the page was visible at the start.
\<close>

section \<open>Readiness\<close>

lemma nodes_of_positive: "nodes_of ns m \<noteq> 0 \<longleftrightarrow> (\<exists>n \<in> set ns. rn_modelId n = md_modelId m)"
  by (auto simp: nodes_of_def filter_empty_conv)

lemma live_model:
  assumes "List.find (\<lambda>m. md_modelId m = i) (map (\<lambda>m. m\<lparr>md_nodeCount := nodes_of ns m\<rparr>) ms) = Some m"
  shows "md_modelId m = i" and "md_nodeCount m \<noteq> 0 \<longleftrightarrow> (\<exists>n \<in> set ns. rn_modelId n = i)"
proof -
  from find_SomeD [OF assms] have mem: "m \<in> (\<lambda>m. m\<lparr>md_nodeCount := nodes_of ns m\<rparr>) ` set ms" and i: "md_modelId m = i" by simp_all
  show "md_modelId m = i" by (rule i)
  from mem obtain m0 where m: "m = m0\<lparr>md_nodeCount := nodes_of ns m0\<rparr>" by (rule imageE)
  have "md_nodeCount m = nodes_of ns m0" "md_modelId m0 = i" using i unfolding m by simp_all
  with nodes_of_positive [of ns m0] show "md_nodeCount m \<noteq> 0 \<longleftrightarrow> (\<exists>n \<in> set ns. rn_modelId n = i)" by simp
qed

lemma pick_some: "n \<in> set (suitable_nodes now i s) \<Longrightarrow> pickNodeForModel now random i s \<noteq> None"
  by (auto simp: pickNodeForModel_def Let_def suitable_nodes_def filter_empty_conv)

text \<open>
  When the nodes have been counted, a chat is ready exactly when the user is registered, the chat is not
  generating, and a model is selected that is still offered and served by a node. Then sending finds a node, unless
  every node that serves the model is blacklisted, which readiness does not look at.
\<close>

theorem readiness_means_node:
  assumes "models = mo_models (count_nodes_effect (Some (reconciledActiveNodes s)) st)"
  shows "(rd_isReady (useChatReadiness auth s models chatId) \<longleftrightarrow>
      au_authStatus auth = REGISTERED \<and> \<not> flag (isGenerating s) (case chatId of None \<Rightarrow> ''new'' | Some k \<Rightarrow> k)
      \<and> (\<exists>sel. selectedModel s = Some sel \<and> md_modelId sel \<in> md_modelId ` set models
           \<and> (\<exists>n \<in> set (reconciledActiveNodes s). rn_modelId n = md_modelId sel)))
    \<and> (\<forall>sel. rd_isReady (useChatReadiness auth s models chatId) \<longrightarrow> selectedModel s = Some sel \<longrightarrow>
      (pickNodeForModel now random (md_modelId sel) s = None \<longleftrightarrow>
        (\<forall>n \<in> set (reconciledActiveNodes s). rn_modelId n = md_modelId sel \<longrightarrow> blacklisted now (temporaryNodeBlacklist s) (rn_nodeId n))))"
proof (intro conjI allI impI)
  have models: "models = map (\<lambda>m. m\<lparr>md_nodeCount := nodes_of (reconciledActiveNodes s) m\<rparr>) (mo_models st)"
    by (simp add: assms effect_models)
  have live: "(case List.find (\<lambda>m. md_modelId m = i) models of None \<Rightarrow> 0 | Some m \<Rightarrow> md_nodeCount m) \<noteq> 0 \<longleftrightarrow>
      i \<in> md_modelId ` set models \<and> (\<exists>n \<in> set (reconciledActiveNodes s). rn_modelId n = i)" for i
  proof (cases "List.find (\<lambda>m. md_modelId m = i) models")
    case None
    then have "i \<notin> md_modelId ` set models" by (auto simp: find_None_iff_all)
    with None show ?thesis by simp
  next
    case (Some m)
    then have "i \<in> md_modelId ` set models" by (auto dest: find_SomeD)
    with Some live_model(2) [OF Some [unfolded models]] show ?thesis by simp
  qed
  show "rd_isReady (useChatReadiness auth s models chatId) \<longleftrightarrow>
      au_authStatus auth = REGISTERED \<and> \<not> flag (isGenerating s) (case chatId of None \<Rightarrow> ''new'' | Some k \<Rightarrow> k)
      \<and> (\<exists>sel. selectedModel s = Some sel \<and> md_modelId sel \<in> md_modelId ` set models
           \<and> (\<exists>n \<in> set (reconciledActiveNodes s). rn_modelId n = md_modelId sel))"
  proof (cases "selectedModel s")
    case (Some sel)
    with live [of "md_modelId sel"] show ?thesis by (auto simp: useChatReadiness_def not_yet_def Let_def)
  qed (simp add: useChatReadiness_def not_yet_def Let_def)
  fix sel
  show "pickNodeForModel now random (md_modelId sel) s = None \<longleftrightarrow>
        (\<forall>n \<in> set (reconciledActiveNodes s). rn_modelId n = md_modelId sel \<longrightarrow> blacklisted now (temporaryNodeBlacklist s) (rn_nodeId n))"
    by (auto simp: pickNodeForModel_def Let_def suitable_nodes_def filter_empty_conv)
qed

definition offered_model :: model where
  "offered_model = sample_model ''m'' 0 1 False"

lemma readiness_means_node_witness:
  "rd_isReady (useChatReadiness example_auth (node_state\<lparr>selectedModel := Some offered_model\<rparr>)
      (mo_models (count_nodes_effect (Some (reconciledActiveNodes (node_state\<lparr>selectedModel := Some offered_model\<rparr>)))
         (store_models [offered_model] initialModels))) (Some ''7''))"
  by (subst readiness_means_node [OF refl, THEN conjunct1])
    (simp add: node_state_def example_node_def offered_model_def sample_model_def effect_models store_models_def example_auth_def
      initialChatState_def flag_def truthy_def)

section \<open>The chat of the address\<close>

lemma setCurrentChatId_fields:
  "currentChatId (fst (setCurrentChatId t k s)) = k" "hasFetchedChats (fst (setCurrentChatId t k s)) = hasFetchedChats s"
  "chats (fst (setCurrentChatId t k s)) = chats s" "activeChatJobs (fst (setCurrentChatId t k s)) = activeChatJobs s"
  by (auto simp: setCurrentChatId_def scheduleAttachmentCleanup_def Let_def split: prod.splits)

text \<open>
  The effect that brings the address and the shown chat together ends: after at most two of its actions nothing is
  left to do. Then the chat of the address is the one shown; or the address names none and either no chat is shown or
  one with a running job, which is left alone. A chat that does not exist is never shown.
\<close>

theorem url_sync_settles:
  assumes "au_authStatus auth = REGISTERED" and "hasFetchedChats s"
    and "(url', s') = url_sync_step t auth (url_sync_step t auth (url, s))"
  shows "useChatUrlSync ''/'' auth url' s' = Url_Nothing
    \<and> (if truthy_str url' then currentChatId s' = url' \<and> url' = url
       else \<forall>k. currentChatId s' = Some k \<longrightarrow> activeChatJobs s' k \<noteq> None)
    \<and> (\<forall>k. currentChatId s' = Some k \<longrightarrow> currentChatId s \<noteq> Some k \<longrightarrow> k \<in> c_chatId ` set (chats s))"
proof -
  note sync = useChatUrlSync_def [of "''/''" auth, simplified assms(1)]
  consider (none) "\<not> truthy_str url" | (shown) "truthy_str url" "url = currentChatId s"
    | (known) "truthy_str url" "url \<noteq> currentChatId s" "list_ex (\<lambda>c. Some (c_chatId c) = url) (chats s)"
    | (unknown) "truthy_str url" "url \<noteq> currentChatId s" "\<not> list_ex (\<lambda>c. Some (c_chatId c) = url) (chats s)" by blast
  then show ?thesis
  proof cases
    case none
    then show ?thesis
      using assms(2,3) by (cases "currentChatId s") (auto simp: url_sync_step_def sync setCurrentChatId_fields split: if_splits)
  next
    case shown
    then show ?thesis using assms(2,3) by (auto simp: url_sync_step_def sync)
  next
    case known
    then obtain k where "url = Some k" by (cases url) auto
    with known show ?thesis
      using assms(2,3) by (auto simp: url_sync_step_def sync setCurrentChatId_fields list_ex_iff)
  next
    case unknown
    then show ?thesis
      using assms(2,3) by (cases "currentChatId s") (auto simp: url_sync_step_def sync setCurrentChatId_fields split: if_splits)
  qed
qed


lemma url_sync_settles_witness:
  "let s = initialChatState\<lparr>hasFetchedChats := True, currentChatId := Some ''7''\<rparr>;
       (url', s') = url_sync_step 1 example_auth (url_sync_step 1 example_auth (Some ''9'', s))
   in url' = None \<and> useChatUrlSync ''/'' example_auth url' s' = Url_Nothing"
proof -
  let ?s = "initialChatState\<lparr>hasFetchedChats := True, currentChatId := Some ''7''\<rparr>"
  obtain url' s' where r: "(url', s') = url_sync_step 1 example_auth (url_sync_step 1 example_auth (Some ''9'', ?s))"
    by (metis surj_pair)
  have "au_authStatus example_auth = REGISTERED" "hasFetchedChats ?s" by (simp_all add: example_auth_def)
  from url_sync_settles [OF this r] have "useChatUrlSync ''/'' example_auth url' s' = Url_Nothing" by blast
  moreover have "url' = None"
    using r by (simp add: url_sync_step_def useChatUrlSync_def example_auth_def truthy_str_def initialChatState_def)
  ultimately show ?thesis using r by (auto simp: Let_def split: prod.split)
qed

section \<open>Reconnection\<close>

lemma reconnect_attempt:
  assumes "reconnect_effect v refs = (refs', Some (c, j))"
  shows "currentChatId (rv_state v) = Some c" and "\<exists>job. activeChatJobs (rv_state v) c = Some job \<and> aj_jobId job = j \<and> \<not> aj_erroredViaStream job"
    and "\<not> cooling_down (rv_now v) (stream_key c j) refs" and "\<not> socket_open (rv_ready v) j (rv_state v)"
    and "rr_attempts refs' = map_set (stream_key c j) (rv_now v) (rr_attempts refs)"
    and "\<forall>msgs. messages (rv_state v) c = Some msgs \<longrightarrow> \<not> already_streamed j msgs"
    and "au_authStatus (rv_auth v) = REGISTERED"
  using assms
  by (auto simp: reconnect_effect_def Let_def truthy_str_def cooling_down_def split: if_splits option.splits)

lemma no_attempt: "reconnect_effect v refs = (refs', None) \<Longrightarrow> rr_attempts refs' = rr_attempts refs"
  by (auto simp: reconnect_effect_def Let_def split: if_splits option.splits)

text \<open>While the chat stays, the next attempt for a stream is at least the cooldown after the one before.\<close>

lemma attempts_after:
  assumes "map_get (rr_attempts refs) (stream_key c j) = Some t0" and "t0 > 0" and "\<forall>v \<in> set vs. rv_now v > 0"
    and "\<forall>v \<in> set vs. currentChatId (rv_state v) = chat" and "(t, c, j) \<in> set (reconnect_run (Some chat) vs refs)"
  shows "t0 + RECONNECTION_COOLDOWN \<le> t"
  using assms
proof (induction vs arbitrary: refs t0)
  case (Cons v vs)
  from Cons.prems have stays: "chat_change_effect (Some chat) v refs = refs" "currentChatId (rv_state v) = chat"
    by (simp_all add: chat_change_effect_def)
  obtain refs' a where e: "reconnect_effect v refs = (refs', a)" by force
  show ?case
  proof (cases a)
    case None
    with e no_attempt have "rr_attempts refs' = rr_attempts refs" by simp
    with Cons.IH [of refs' t0] Cons.prems None e stays show ?thesis by simp
  next
    case (Some cj)
    obtain c' j' where cj: "cj = (c', j')" by force
    note att = reconnect_attempt [OF e [unfolded Some cj]]
    show ?thesis
    proof (cases "stream_key c' j' = stream_key c j")
      case True
      with att(3) Cons.prems(1,2) have now: "t0 + RECONNECTION_COOLDOWN \<le> rv_now v" by (simp add: cooling_down_def)
      from True att(5) have "map_get (rr_attempts refs') (stream_key c j) = Some (rv_now v)" by simp
      with Cons.IH [of refs' "rv_now v"] Cons.prems now e Some cj stays show ?thesis by auto
    next
      case False
      with att(5) Cons.prems(1) have "map_get (rr_attempts refs') (stream_key c j) = Some t0" by simp
      with Cons.IH [of refs' t0] Cons.prems False e Some cj stays show ?thesis by auto
    qed
  qed
qed simp

text \<open>What must have been seen when an attempt is made.\<close>

definition allowed_attempt :: "reconnect_view \<Rightarrow> nat \<times> chat_id \<times> job_id \<Rightarrow> bool" where
  "allowed_attempt v = (\<lambda>(t, c, j).
     rv_now v = t \<and> au_authStatus (rv_auth v) = REGISTERED \<and> currentChatId (rv_state v) = Some c
     \<and> (\<exists>job. activeChatJobs (rv_state v) c = Some job \<and> aj_jobId job = j \<and> \<not> aj_erroredViaStream job)
     \<and> \<not> socket_open (rv_ready v) j (rv_state v)
     \<and> (\<forall>msgs. messages (rv_state v) c = Some msgs \<longrightarrow> \<not> already_streamed j msgs))"

definition spaced :: "nat \<times> chat_id \<times> job_id \<Rightarrow> nat \<times> chat_id \<times> job_id \<Rightarrow> bool" where
  "spaced = (\<lambda>(t, c, j) (t', c', j'). c = c' \<and> j = j' \<longrightarrow> t + 10000 \<le> t')"

text \<open>The later part of any renderings is itself a run, from what the earlier part left.\<close>

lemma reconnect_run_append:
  "\<exists>shown' refs'. reconnect_run shown (us @ vs) refs = reconnect_run shown us refs @ reconnect_run shown' vs refs'"
proof (induction us arbitrary: shown refs)
  case Nil
  show ?case by auto
next
  case (Cons u us)
  obtain refs1 a where e: "reconnect_effect u (chat_change_effect shown u refs) = (refs1, a)" by force
  obtain shown' refs' where "reconnect_run (Some (currentChatId (rv_state u))) (us @ vs) refs1
      = reconnect_run (Some (currentChatId (rv_state u))) us refs1 @ reconnect_run shown' vs refs'"
    using Cons.IH by blast
  then show ?case by (intro exI [of _ shown'] exI [of _ refs']) (simp add: e)
qed

text \<open>
  C31: the page asks to reconnect to a job only of the chat it shows, and only when the user is registered and the job
  has not failed, its socket is not open and no message of it has an error or text; and in any sequence of renderings
  that show one chat, whatever was shown before, two attempts for the same job are at least ten seconds apart.
\<close>

theorem reconnection_attempts_spaced:
  assumes "\<forall>v \<in> set vs. rv_now v > 0"
  shows "((\<forall>v \<in> set vs. currentChatId (rv_state v) = chat) \<longrightarrow> sorted_wrt spaced (reconnect_run shown vs refs))
    \<and> (\<forall>a \<in> set (reconnect_run shown vs refs). \<exists>v \<in> set vs. allowed_attempt v a)"
  using assms
proof (induction vs arbitrary: shown refs)
  case (Cons v vs)
  obtain refs' a where e: "reconnect_effect v (chat_change_effect shown v refs) = (refs', a)" by force
  let ?rest = "reconnect_run (Some (currentChatId (rv_state v))) vs refs'"
  from Cons have IH: "(\<forall>v \<in> set vs. currentChatId (rv_state v) = chat) \<longrightarrow> sorted_wrt spaced ?rest"
    "\<forall>a \<in> set ?rest. \<exists>v \<in> set vs. allowed_attempt v a"
    by simp_all
  show ?case
  proof (cases a)
    case None
    with IH e show ?thesis by auto
  next
    case (Some cj)
    obtain c j where cj: "cj = (c, j)" by force
    note att = reconnect_attempt [OF e [unfolded Some cj]]
    have run: "reconnect_run shown (v # vs) refs = (rv_now v, c, j) # ?rest" by (simp add: e Some cj)
    have "spaced (rv_now v, c, j) x"
      if "\<forall>v \<in> set (v # vs). currentChatId (rv_state v) = chat" "x \<in> set ?rest" for x
      using attempts_after [of refs' c j "rv_now v" vs chat] att(5) Cons.prems that
      by (cases x) (auto simp: spaced_def RECONNECTION_COOLDOWN_def)
    moreover have "allowed_attempt v (rv_now v, c, j)" using att by (simp add: allowed_attempt_def)
    ultimately show ?thesis unfolding run using IH by auto
  qed
qed simp

definition sample_view :: "nat \<Rightarrow> reconnect_view" where
  "sample_view t = \<lparr>rv_now = t, rv_ready = (\<lambda>_. CLOSED), rv_auth = example_auth,
     rv_state = initialChatState\<lparr>hasFetchedChats := True, currentChatId := Some ''7'',
       activeChatJobs := [''7'' \<mapsto> \<lparr>aj_jobId = ''4'', aj_erroredViaStream = False\<rparr>]\<rparr>\<rparr>"

lemma reconnection_attempts_spaced_witness:
  "reconnect_run None [sample_view 1, sample_view 2] clear_refs = [(1, ''7'', ''4'')]
   \<and> (\<exists>v. allowed_attempt v (1, ''7'', ''4''))"
proof -
  have run: "reconnect_run None [sample_view 1, sample_view 2] clear_refs = [(1, ''7'', ''4'')]"
    by (simp add: sample_view_def reconnect_effect_def clear_refs_def chat_change_effect_def example_auth_def truthy_str_def
        cooling_down_def socket_open_def initialChatState_def initialAuthState_def Let_def)
  have "\<forall>v \<in> set [sample_view 1, sample_view 2]. rv_now v > 0" by (simp add: sample_view_def)
  from reconnection_attempts_spaced [OF this, of "Some ''7''" None clear_refs, unfolded run]
  have "\<exists>v. allowed_attempt v (1, ''7'', ''4'')" by auto
  with run show ?thesis by (rule conjI)
qed

text \<open>Going to another chat and back forgets the ten seconds.\<close>

lemma chat_change_forgets_cooldown:
  "let other = (sample_view 2)\<lparr>rv_state := (rv_state (sample_view 2))\<lparr>currentChatId := None\<rparr>\<rparr>
   in reconnect_run None [sample_view 1, other, sample_view 3] clear_refs = [(1, ''7'', ''4''), (3, ''7'', ''4'')]"
  by (simp add: sample_view_def reconnect_effect_def clear_refs_def chat_change_effect_def example_auth_def truthy_str_def
      cooling_down_def socket_open_def initialChatState_def initialAuthState_def Let_def)

section \<open>Polling\<close>

text \<open>Changes of the visibility, each other than the one before.\<close>

fun alternating :: "bool \<Rightarrow> bool list \<Rightarrow> bool" where
  "alternating hidden [] \<longleftrightarrow> True"
| "alternating hidden (h # hs) \<longleftrightarrow> h \<noteq> hidden \<and> alternating h hs"

definition polls_once :: "bool \<Rightarrow> polling \<Rightarrow> bool" where
  "polls_once hidden p \<longleftrightarrow> po_registered p \<and> po_listening p
     \<and> (if hidden then po_interval p = None \<and> po_alive p = [] else \<exists>i. po_interval p = Some i \<and> po_alive p = [i])"

lemma visibility_polls: "polls_once hidden p \<Longrightarrow> h \<noteq> hidden \<Longrightarrow> polls_once h (handleVisibilityChange h p)"
  by (auto simp: polls_once_def handleVisibilityChange_def startPolling_def stopPolling_def split: if_splits)

lemma visibility_run:
  "polls_once hidden p \<Longrightarrow> alternating hidden hs \<Longrightarrow> polls_once (last (hidden # hs)) (fold handleVisibilityChange hs p)"
  by (induction hs arbitrary: hidden p) (auto dest: visibility_polls)

text \<open>
  C32: when a registered session starts while the page is visible, however often the page is hidden and shown again the
  nodes are polled by exactly one interval while it is visible and by none while it is hidden, and ending the effect
  leaves none. But when it starts while the page is hidden, the first time it is shown a second interval starts and the
  variable forgets the first, which goes on polling, also while hidden, and is still there when the effect has ended.
\<close>

theorem polling_one_interval:
  assumes "au_authStatus auth = REGISTERED"
  shows "(\<forall>hs. alternating False hs \<longrightarrow>
      (let p = fold handleVisibilityChange hs (begin_polling auth) in
         length (po_alive p) = (if last (False # hs) then 0 else 1) \<and> po_alive (end_polling p) = []))
    \<and> (let p = handleVisibilityChange False (begin_polling auth) in
         po_alive p = [0, 1] \<and> po_alive (handleVisibilityChange True p) = [0] \<and> po_alive (end_polling p) = [0])"
proof
  have start: "polls_once False (begin_polling auth)"
    using assms by (simp add: polls_once_def begin_polling_def startPolling_def)
  show "\<forall>hs. alternating False hs \<longrightarrow>
      (let p = fold handleVisibilityChange hs (begin_polling auth) in
         length (po_alive p) = (if last (False # hs) then 0 else 1) \<and> po_alive (end_polling p) = [])"
  proof (intro allI impI)
    fix hs assume "alternating False hs"
    from visibility_run [OF start this]
    show "let p = fold handleVisibilityChange hs (begin_polling auth) in
         length (po_alive p) = (if last (False # hs) then 0 else 1) \<and> po_alive (end_polling p) = []"
      by (auto simp: polls_once_def end_polling_def stopPolling_def Let_def split: if_splits)
  qed
  show "let p = handleVisibilityChange False (begin_polling auth) in
         po_alive p = [0, 1] \<and> po_alive (handleVisibilityChange True p) = [0] \<and> po_alive (end_polling p) = [0]"
    using assms by (simp add: begin_polling_def startPolling_def stopPolling_def handleVisibilityChange_def end_polling_def Let_def)
qed

lemma polling_one_interval_witness:
  "po_alive (end_polling (handleVisibilityChange False (begin_polling example_auth))) = [0]"
proof -
  have "au_authStatus example_auth = REGISTERED" by (simp add: example_auth_def)
  from polling_one_interval [OF this] show ?thesis by (simp add: Let_def)
qed

section \<open>Screens and data\<close>

text \<open>The secondary data is fetched at most once while the session stays registered, and only with the chats.\<close>

lemma secondary_once:
  "\<forall>(pathname, auth, state) \<in> set vs. au_authStatus auth = REGISTERED
   \<Longrightarrow> secondary_run vs b \<in> {[], [Init_embedding_worker, Fetch_secondary_data]} \<and> (b \<longrightarrow> secondary_run vs b = [])"
  by (induction vs arbitrary: b) (fastforce simp: secondary_effect_def reset_secondary_def Let_def split: if_splits)+

lemma app_screen_children:
  "app_screen auth s = App_children \<longleftrightarrow> au_authStatus auth = UNAUTHENTICATED \<or> au_authStatus auth = REGISTERED \<and> hasFetchedChats s"
  by (simp add: app_screen_def split: auth_status.split)

end
