(* ===== verification/Vault_Gate.thy ===== *)
theory Vault_Gate
  imports Session
begin

text \<open>
  \<open>src/gpt_frontend/src/components/auth/VaultGate.tsx\<close>: the form that asks for the PIN of the vault, to set one up
  (typed, then typed again) or to unlock. A handler runs to its end before the next event; between the call of the
  store and its end other events arrive, and so do the timers that were not cancelled.
\<close>

section \<open>State\<close>

datatype gate_mode = Setup | Unlock
datatype gate_phase = Enter_pin | Confirm_pin

text \<open>The calls of the store that have not ended, with the PIN handed over.\<close>

datatype gate_call = Call_setup string | Call_unlock string

record gate =
  g_mode :: gate_mode
  g_pin :: string
  g_confirmPin :: string
  g_step :: gate_phase
  g_isLoading :: bool
  g_error :: "string option"
  g_shakeKey :: nat
  g_resets :: nat
  g_calls :: "gate_call list"

text \<open>\<open>g_resets\<close> counts the timers that wait to start the setup again after PINs that differ.\<close>

definition initial_gate :: "gate_mode \<Rightarrow> gate" where
  "initial_gate mode =
     \<lparr>g_mode = mode, g_pin = '''', g_confirmPin = '''', g_step = Enter_pin, g_isLoading = False, g_error = None,
      g_shakeKey = 0, g_resets = 0, g_calls = []\<rparr>"

definition triggerShake :: "gate \<Rightarrow> gate" where
  "triggerShake g = g\<lparr>g_shakeKey := g_shakeKey g + 1\<rparr>"

section \<open>Handlers\<close>

definition resetSetup :: "gate \<Rightarrow> gate" where
  "resetSetup g = g\<lparr>g_step := Enter_pin, g_pin := '''', g_confirmPin := '''', g_error := None\<rparr>"

definition handleSetupSubmit :: "gate \<Rightarrow> gate" where
  "handleSetupSubmit g0 =
     (let g = g0\<lparr>g_error := None\<rparr> in
      case g_step g of
        Enter_pin \<Rightarrow>
          if length (g_pin g) < 4 then triggerShake (g\<lparr>g_error := Some ''Use at least 4 digits''\<rparr>)
          else g\<lparr>g_step := Confirm_pin\<rparr>
      | Confirm_pin \<Rightarrow>
          if g_confirmPin g \<noteq> g_pin g
          then triggerShake (g\<lparr>g_error := Some ''PINs do not match'', g_resets := g_resets g + 1\<rparr>)
          else g\<lparr>g_isLoading := True, g_calls := g_calls g @ [Call_setup (g_pin g)]\<rparr>)"

text \<open>The end of \<open>setupVault\<close>: an error when it threw.\<close>

definition setup_ended :: "thrown option \<Rightarrow> gate \<Rightarrow> gate" where
  "setup_ended thrown g =
     (case thrown of
        None \<Rightarrow> g
      | Some err \<Rightarrow>
          (triggerShake (g\<lparr>g_error := Some (if th_is_error err then th_text err else ''Setup failed'')\<rparr>))
            \<lparr>g_step := Enter_pin, g_pin := '''', g_confirmPin := ''''\<rparr>)\<lparr>g_isLoading := False\<rparr>"

definition handleUnlockSubmit :: "gate \<Rightarrow> gate" where
  "handleUnlockSubmit g =
     (if length (g_pin g) < 4 then triggerShake g
      else g\<lparr>g_isLoading := True, g_error := None, g_calls := g_calls g @ [Call_unlock (g_pin g)]\<rparr>)"

definition unlock_ended :: "thrown option \<Rightarrow> gate \<Rightarrow> gate" where
  "unlock_ended thrown g =
     (case thrown of
        None \<Rightarrow> g
      | Some _ \<Rightarrow> (triggerShake (g\<lparr>g_error := Some ''Incorrect PIN''\<rparr>))\<lparr>g_pin := ''''\<rparr>)\<lparr>g_isLoading := False\<rparr>"

definition call_ended :: "gate_call \<Rightarrow> thrown option \<Rightarrow> gate \<Rightarrow> gate" where
  "call_ended c thrown g =
     (case c of Call_setup _ \<Rightarrow> setup_ended thrown g | Call_unlock _ \<Rightarrow> unlock_ended thrown g)"

definition asks_again :: "gate \<Rightarrow> bool" where
  "asks_again g \<longleftrightarrow> g_mode g = Setup \<and> g_step g = Confirm_pin"

definition currentPinValue :: "gate \<Rightarrow> string" where
  "currentPinValue g = (if asks_again g then g_confirmPin g else g_pin g)"

definition pin_digit :: "char \<Rightarrow> bool" where
  "pin_digit c \<longleftrightarrow> c \<in> set ''0123456789''"

definition pin_typed :: "string \<Rightarrow> gate \<Rightarrow> gate" where
  "pin_typed val g =
     (if \<not> list_all pin_digit val then g
      else let g1 = (if asks_again g then g\<lparr>g_confirmPin := val\<rparr> else g\<lparr>g_pin := val\<rparr>)
           in if truthy_str (g_error g1) then g1\<lparr>g_error := None\<rparr> else g1)"

section \<open>What is shown\<close>

definition gate_title :: "gate \<Rightarrow> string" where
  "gate_title g =
     (if g_mode g = Setup then (if g_step g = Confirm_pin then ''Confirm Vault PIN'' else ''Set Vault PIN'')
      else ''Unlock Workspace'')"

definition gate_description :: "gate \<Rightarrow> string" where
  "gate_description g =
     (if truthy_str (g_error g) then the (g_error g)
      else if g_mode g = Setup \<and> g_step g = Enter_pin then ''Create a local PIN to encrypt your session''
      else ''Enter your PIN to continue'')"

definition maxLength :: nat where
  "maxLength = 8"

definition submit_disabled :: "gate \<Rightarrow> bool" where
  "submit_disabled g \<longleftrightarrow> length (currentPinValue g) < 4 \<or> g_isLoading g"

section \<open>Events\<close>

text \<open>
  The browser changes an enabled input only, to at most \<open>maxLength\<close> characters, and submits a form by its button or
  the enter key only while its button is enabled. The two modes are the same component at the same place, so a change
  of mode keeps the state.
\<close>

datatype gate_event =
    Typed string
  | Submitted
  | Went_back
  | Reset_fired
  | Call_over gate_call "thrown option"
  | Shown_as gate_mode

inductive gate_step :: "gate \<Rightarrow> gate_event \<Rightarrow> gate \<Rightarrow> bool" where
  typed: "\<not> g_isLoading g \<Longrightarrow> length val \<le> maxLength \<Longrightarrow> gate_step g (Typed val) (pin_typed val g)"
| submitted: "\<not> submit_disabled g
    \<Longrightarrow> gate_step g Submitted (if g_mode g = Setup then handleSetupSubmit g else handleUnlockSubmit g)"
| went_back: "asks_again g \<Longrightarrow> gate_step g Went_back (resetSetup g)"
| reset_fired: "0 < g_resets g \<Longrightarrow> gate_step g Reset_fired (resetSetup (g\<lparr>g_resets := g_resets g - 1\<rparr>))"
| call_over: "c \<in> set (g_calls g)
    \<Longrightarrow> gate_step g (Call_over c thrown) (call_ended c thrown (g\<lparr>g_calls := remove1 c (g_calls g)\<rparr>))"
| shown_as: "gate_step g (Shown_as mode) (g\<lparr>g_mode := mode\<rparr>)"

inductive_cases gate_stepE [elim]: "gate_step g e g'"

fun exec_gate :: "gate_event \<Rightarrow> gate \<Rightarrow> gate option" where
  "exec_gate (Typed val) g = (if \<not> g_isLoading g \<and> length val \<le> maxLength then Some (pin_typed val g) else None)"
| "exec_gate Submitted g =
     (if submit_disabled g then None
      else Some (if g_mode g = Setup then handleSetupSubmit g else handleUnlockSubmit g))"
| "exec_gate Went_back g = (if asks_again g then Some (resetSetup g) else None)"
| "exec_gate Reset_fired g = (if 0 < g_resets g then Some (resetSetup (g\<lparr>g_resets := g_resets g - 1\<rparr>)) else None)"
| "exec_gate (Call_over c thrown) g =
     (if c \<in> set (g_calls g) then Some (call_ended c thrown (g\<lparr>g_calls := remove1 c (g_calls g)\<rparr>)) else None)"
| "exec_gate (Shown_as mode) g = Some (g\<lparr>g_mode := mode\<rparr>)"

interpretation gate: determined gate_step exec_gate
proof
  show "gate_step g e g' \<longleftrightarrow> exec_gate e g = Some g'" for g e g'
    by (cases e) (auto simp: gate_step.simps)
qed

lemmas gate_defs = initial_gate_def triggerShake_def resetSetup_def handleSetupSubmit_def setup_ended_def
  handleUnlockSubmit_def unlock_ended_def call_ended_def asks_again_def currentPinValue_def pin_typed_def
  submit_disabled_def

section \<open>The store's end of a call\<close>

text \<open>
  How the call of \<open>vault.ts\<close> ends for its caller: \<open>setupVault\<close> catches every error itself, \<open>unlockVault\<close> throws it
  again.
\<close>

fun store_answers ::
  "'k crypto_lib \<Rightarrow> gate_call \<Rightarrow> arrival \<Rightarrow> session \<Rightarrow> (session \<times> thrown option) option" where
  "store_answers lib (Call_setup pin) (A_setup salt finalized) s = Some (finish_setup lib pin salt finalized s, None)"
| "store_answers lib (Call_unlock pin) (A_unlock answer) s =
     Some (finish_unlock lib pin answer s, case unlock_key lib pin answer of Inl e \<Rightarrow> Some e | Inr _ \<Rightarrow> None)"
| "store_answers lib _ _ s = None"

definition vault_answered ::
  "'k crypto_lib \<Rightarrow> gate_call \<Rightarrow> arrival \<Rightarrow> gate \<times> session \<Rightarrow> (gate \<times> session) option" where
  "vault_answered lib c a gs =
     map_option (\<lambda>(s, thrown). (call_ended c thrown ((fst gs)\<lparr>g_calls := remove1 c (g_calls (fst gs))\<rparr>), s))
       (store_answers lib c a (snd gs))"

section \<open>What the gate hands to the store\<close>

definition good_pin :: "string \<Rightarrow> bool" where
  "good_pin p \<longleftrightarrow> list_all pin_digit p \<and> 4 \<le> length p \<and> length p \<le> maxLength"

definition times_typed :: "string \<Rightarrow> gate_event list \<Rightarrow> nat" where
  "times_typed p es = count_list es (Typed p)"

lemma times_typed_snoc [simp]: "times_typed p (es @ [e]) = times_typed p es + (if e = Typed p then 1 else 0)"
  by (simp add: times_typed_def)

text \<open>
  What is in a field was typed as digits; the same PIN in both was typed twice; what was handed over is a good PIN, to
  set up a vault one typed twice; at most one call is under way, while the form is disabled.
\<close>

definition field_typed :: "gate_event list \<Rightarrow> string \<Rightarrow> bool" where
  "field_typed es p \<longleftrightarrow> p = '''' \<or> list_all pin_digit p \<and> length p \<le> maxLength \<and> 1 \<le> times_typed p es"

fun call_sound :: "gate_event list \<Rightarrow> gate_call \<Rightarrow> bool" where
  "call_sound es (Call_setup p) \<longleftrightarrow> good_pin p \<and> 2 \<le> times_typed p es"
| "call_sound es (Call_unlock p) \<longleftrightarrow> good_pin p \<and> 1 \<le> times_typed p es"

definition gate_sound :: "gate_event list \<Rightarrow> gate \<Rightarrow> bool" where
  "gate_sound es g \<longleftrightarrow>
     field_typed es (g_pin g) \<and> field_typed es (g_confirmPin g)
     \<and> (g_pin g = g_confirmPin g \<longrightarrow> g_pin g \<noteq> '''' \<longrightarrow> 2 \<le> times_typed (g_pin g) es)
     \<and> list_all (call_sound es) (g_calls g)
     \<and> length (g_calls g) = (if g_isLoading g then 1 else 0)"

lemma field_typed_later: "field_typed es p \<Longrightarrow> field_typed (es @ [e]) p"
  by (auto simp: field_typed_def)

lemma call_sound_later: "call_sound es c \<Longrightarrow> call_sound (es @ [e]) c"
  by (cases c) auto

lemma calls_sound_later: "list_all (call_sound es) cs \<Longrightarrow> list_all (call_sound (es @ [e])) cs"
  by (auto simp: list_all_iff intro: call_sound_later)

lemma gate_sound_later: "gate_sound es g \<Longrightarrow> gate_sound (es @ [e]) g"
  by (auto simp: gate_sound_def intro: field_typed_later calls_sound_later)

lemma gate_sound_same:
  "gate_sound es g \<Longrightarrow> g_pin g' = g_pin g \<Longrightarrow> g_confirmPin g' = g_confirmPin g \<Longrightarrow> g_calls g' = g_calls g
   \<Longrightarrow> g_isLoading g' = g_isLoading g \<Longrightarrow> gate_sound es g'"
  by (simp add: gate_sound_def)

lemma gate_sound_cleared:
  "gate_sound es g \<Longrightarrow> g_pin g' = '''' \<Longrightarrow> g_confirmPin g' = g_confirmPin g \<or> g_confirmPin g' = ''''
   \<Longrightarrow> g_calls g' = g_calls g \<Longrightarrow> g_isLoading g' = g_isLoading g \<Longrightarrow> gate_sound es g'"
  by (auto simp: gate_sound_def field_typed_def)

lemma typed_sound:
  assumes "gate_sound es g" "\<not> g_isLoading g" "length val \<le> maxLength"
  shows "gate_sound (es @ [Typed val]) (pin_typed val g)"
proof (cases "list_all pin_digit val")
  case False
  then show ?thesis using gate_sound_later [OF assms(1)] by (simp add: pin_typed_def)
next
  case True
  then show ?thesis
    using assms by (auto simp: gate_sound_def pin_typed_def Let_def field_typed_def calls_sound_later)
qed

lemma setup_submit_sound:
  assumes "gate_sound es g" "\<not> submit_disabled g" "g_mode g = Setup"
  shows "gate_sound (es @ [Submitted]) (handleSetupSubmit g)"
  using gate_sound_later [OF assms(1), of Submitted] assms(2,3)
  by (auto simp: gate_sound_def handleSetupSubmit_def triggerShake_def Let_def submit_disabled_def currentPinValue_def
      asks_again_def good_pin_def field_typed_def split: gate_phase.splits)

lemma unlock_submit_sound:
  assumes "gate_sound es g" "\<not> submit_disabled g" "g_mode g \<noteq> Setup"
  shows "gate_sound (es @ [Submitted]) (handleUnlockSubmit g)"
  using gate_sound_later [OF assms(1), of Submitted] assms(2,3)
  by (auto simp: gate_sound_def handleUnlockSubmit_def triggerShake_def submit_disabled_def currentPinValue_def
      asks_again_def good_pin_def field_typed_def)

lemma call_over_sound:
  assumes "gate_sound es g" "c \<in> set (g_calls g)"
  shows "gate_sound (es @ [Call_over c thrown]) (call_ended c thrown (g\<lparr>g_calls := remove1 c (g_calls g)\<rparr>))"
proof -
  have l: "g_isLoading g" "g_calls g = [c]"
    using assms by (auto simp: gate_sound_def length_Suc_conv split: if_splits)
  show ?thesis
    using gate_sound_later [OF assms(1), of "Call_over c thrown"] l
    by (cases c) (auto simp: gate_sound_def call_ended_def setup_ended_def unlock_ended_def triggerShake_def
        field_typed_def split: option.split)
qed

interpretation gate: traced_invariant gate_step gate_sound
proof
  fix es g e g'
  assume inv: "gate_sound es g" and "gate_step g e g'"
  from this(2) show "gate_sound (es @ [e]) g'"
  proof (cases rule: gate_step.cases)
    case (went_back)
    then show ?thesis
      by (auto simp: resetSetup_def intro!: gate_sound_cleared [OF gate_sound_later [OF inv]])
  next
    case (reset_fired)
    then show ?thesis
      by (auto simp: resetSetup_def intro!: gate_sound_cleared [OF gate_sound_later [OF inv]])
  next
    case (shown_as mode)
    then show ?thesis by (auto intro!: gate_sound_same [OF gate_sound_later [OF inv]])
  qed (auto simp: inv typed_sound setup_submit_sound unlock_submit_sound call_over_sound)
qed

lemma initial_sound [simp]: "gate_sound [] (initial_gate mode)"
  by (simp add: gate_sound_def initial_gate_def field_typed_def)

end
