(* ===== verification/Vault_Gate_Props.thy ===== *)
theory Vault_Gate_Props
  imports Vault_Gate App_Effects
begin

text \<open>
  What the form of the vault guarantees about the PINs it hands to the store, and what the user sees of the outcome.
\<close>

section \<open>PINs\<close>

text \<open>
  C33: whatever is typed, submitted or goes back, in either mode and with late timers, the form has at most one call of
  the store under way, during which it takes no further submission, and each PIN it hands over is four to eight
  digits that were typed into it, at least twice when a vault is set up with it.
\<close>

theorem vault_pins_confirmed:
  assumes "trace_run gate_step (initial_gate mode) es g"
  shows "length (g_calls g) \<le> 1 \<and> (g_calls g = [] \<or> submit_disabled g)
    \<and> list_all (\<lambda>c. case c of
          Call_setup p \<Rightarrow> list_all pin_digit p \<and> length p \<in> {4..8} \<and> 2 \<le> count_list es (Typed p)
        | Call_unlock p \<Rightarrow> list_all pin_digit p \<and> length p \<in> {4..8} \<and> 1 \<le> count_list es (Typed p)) (g_calls g)"
proof -
  have inv: "gate_sound es g" by (rule gate.inv_run [OF assms initial_sound])
  then have calls: "list_all (call_sound es) (g_calls g)" by (simp add: gate_sound_def)
  have each: "case c of
          Call_setup p \<Rightarrow> list_all pin_digit p \<and> length p \<in> {4..8} \<and> 2 \<le> count_list es (Typed p)
        | Call_unlock p \<Rightarrow> list_all pin_digit p \<and> length p \<in> {4..8} \<and> 1 \<le> count_list es (Typed p)"
    if "call_sound es c" for c
    using that by (cases c) (simp_all add: good_pin_def maxLength_def times_typed_def)
  show ?thesis
    using inv list.pred_mono_strong [OF calls each]
    by (auto simp: gate_sound_def submit_disabled_def split: if_splits)
qed

theorem vault_pins_confirmed_witness:
  "length [Call_setup ''1234''] \<le> 1 \<and> list_all pin_digit ''1234''
   \<and> 2 \<le> count_list [Typed ''1234'', Submitted, Typed ''1234'', Submitted] (Typed ''1234'')"
proof -
  define g where "g = (initial_gate Setup)\<lparr>g_pin := ''1234'', g_confirmPin := ''1234'', g_step := Confirm_pin,
    g_isLoading := True, g_calls := [Call_setup ''1234'']\<rparr>"
  have "trace_run gate_step (initial_gate Setup) [Typed ''1234'', Submitted, Typed ''1234'', Submitted] g"
    by (simp add: gate.run_exec gate_defs g_def pin_digit_def maxLength_def truthy_str_def)
  from vault_pins_confirmed [OF this] show ?thesis by (simp add: g_def)
qed

section \<open>Outcomes\<close>

text \<open>
  C34: a failed set-up of the vault is not told. When the user has confirmed the PIN and the derivation or the canister
  fails, the store records the error without throwing, so the form shows no error and does not shake; it asks for
  the PIN as before, its fields filled and ready to submit, and the application, still on the screen of the set-up,
  shows nothing of the recorded error.
\<close>

theorem failed_setup_untold:
  assumes "g_mode g = Setup" "g_step g = Confirm_pin" "g_confirmPin g = g_pin g" "\<not> submit_disabled g" "g_calls g = []"
    and "au_authStatus (ss_auth s) = SETUP_VAULT"
    and "finalized \<noteq> None \<or> (\<exists>e. vault_data lib (g_pin g) salt = Inl e)"
  shows "\<exists>g' s'. vault_answered lib (Call_setup (g_pin g)) (A_setup salt finalized) (handleSetupSubmit g, s) = Some (g', s')
    \<and> au_setupError (ss_auth s') \<noteq> None \<and> au_rootKey (ss_auth s') = au_rootKey (ss_auth s)
    \<and> ss_stored s' = ss_stored s \<and> app_screen (ss_auth s') st = Vault_setup
    \<and> g_error g' = None \<and> gate_description g' = ''Enter your PIN to continue'' \<and> g_shakeKey g' = g_shakeKey g
    \<and> g_pin g' = g_pin g \<and> currentPinValue g' = g_pin g \<and> \<not> submit_disabled g'"
proof -
  have submitted: "handleSetupSubmit g
      = g\<lparr>g_error := None, g_isLoading := True, g_calls := [Call_setup (g_pin g)]\<rparr>"
    using assms(2,3,5) by (simp add: handleSetupSubmit_def)
  have "\<exists>m. finish_setup lib (g_pin g) salt finalized s = upd (\<lambda>a. a\<lparr>au_setupError := Some m\<rparr>) s"
  proof -
    have "\<exists>e. (case vault_data lib (g_pin g) salt of Inl e \<Rightarrow> Inl e
        | Inr (rootKey, _) \<Rightarrow> (case finalized of Some e \<Rightarrow> Inl e | None \<Rightarrow> Inr rootKey)) = Inl e"
      using assms(7) by (auto split: sum.split)
    then show ?thesis unfolding finish_setup_def by (elim exE) (simp only: sum.case, blast)
  qed
  then obtain m where failed: "finish_setup lib (g_pin g) salt finalized s = upd (\<lambda>a. a\<lparr>au_setupError := Some m\<rparr>) s"
    by blast
  show ?thesis
    using assms(1-6) by (simp add: vault_answered_def submitted failed call_ended_def setup_ended_def app_screen_def
        gate_description_def submit_disabled_def currentPinValue_def asks_again_def truthy_str_def)
qed

theorem failed_setup_untold_witness:
  "\<exists>g' s'. vault_answered example_lib (Call_setup ''1234'') (A_setup [1] (Some (js_Error ''no cycles'')))
      (handleSetupSubmit ((initial_gate Setup)\<lparr>g_pin := ''1234'', g_confirmPin := ''1234'', g_step := Confirm_pin\<rparr>),
       upd (\<lambda>a. a\<lparr>au_authStatus := SETUP_VAULT\<rparr>) (opened None)) = Some (g', s')
    \<and> au_setupError (ss_auth s') \<noteq> None \<and> g_error g' = None"
  using failed_setup_untold [where g = "(initial_gate Setup)\<lparr>g_pin := ''1234'', g_confirmPin := ''1234'', g_step := Confirm_pin\<rparr>"
      and s = "upd (\<lambda>a. a\<lparr>au_authStatus := SETUP_VAULT\<rparr>) (opened None)" and finalized = "Some (js_Error ''no cycles'')"
      and lib = example_lib and salt = "[1]" and st = initialChatState]
  by (simp add: gate_defs) blast

text \<open>
  An attempt to unlock: the vault opens under the key of the PIN, or nothing of the session changes and the form, its
  field empty again, says that the PIN was wrong, whatever the error was.
\<close>

lemma unlock_attempt_outcome:
  assumes "g_mode g = Unlock" "\<not> submit_disabled g" "g_calls g = []"
  shows "\<exists>g' s'. vault_answered lib (Call_unlock (g_pin g)) (A_unlock answer) (handleUnlockSubmit g, s) = Some (g', s')
    \<and> \<not> g_isLoading g' \<and> g_calls g' = []
    \<and> (case unlock_key lib (g_pin g) answer of
         Inr rootKey \<Rightarrow> s' = open_with rootKey s \<and> g_error g' = None
       | Inl _ \<Rightarrow> s' = s \<and> gate_description g' = ''Incorrect PIN'' \<and> g_pin g' = '''' \<and> submit_disabled g'
                 \<and> g_shakeKey g' = g_shakeKey g + 1)"
proof -
  have submitted: "handleUnlockSubmit g
      = g\<lparr>g_isLoading := True, g_error := None, g_calls := [Call_unlock (g_pin g)]\<rparr>"
    using assms by (simp add: handleUnlockSubmit_def submit_disabled_def currentPinValue_def asks_again_def)
  show ?thesis
    using assms(1) by (cases "unlock_key lib (g_pin g) answer")
      (simp_all add: vault_answered_def submitted call_ended_def unlock_ended_def finish_unlock_def gate_description_def
        submit_disabled_def currentPinValue_def asks_again_def truthy_str_def triggerShake_def)
qed

text \<open>
  The timer started for PINs that differ is not cancelled when the user goes back: it wipes the new PIN typed
  meanwhile and starts the set-up again.
\<close>

lemma late_reset_wipes_new_pin:
  "exec_trace exec_gate [Typed ''1234'', Submitted, Typed ''1243'', Submitted, Went_back, Typed ''5678'', Submitted, Reset_fired]
     (initial_gate Setup) = Some ((initial_gate Setup)\<lparr>g_shakeKey := 1\<rparr>)"
  by (simp add: gate_defs pin_digit_def maxLength_def truthy_str_def)

end
