(* ===== verification/File_Processor.thy ===== *)
theory File_Processor
  imports File_Utils Domain
begin

text \<open>
  \<open>src/gpt_frontend/src/utils/fileProcessor.ts\<close>, which turns selected files into attachments, and \<open>formatFileSize\<close>
  of \<open>utils/fileUtils.ts\<close>. Compression (the package compressorjs), the file reader, the clock and object URLs are the
  components of a record.
\<close>

section \<open>Sizes\<close>

text \<open>
  \<open>Math.floor(Math.log(bytes) / Math.log(1024))\<close> is the number of divisions by 1024; the quotient is exact in doubles,
  being by a power of two, and \<open>toFixed(1)\<close> rounds it to tenths, halves upwards. This describes sizes up to about
  \<open>2 ^ 50\<close>, where the logarithms are still exact enough.
\<close>

fun size_unit :: "nat \<Rightarrow> nat" where
  "size_unit b = (if b < 1024 then 0 else Suc (size_unit (b div 1024)))"

declare size_unit.simps [simp del]

definition to_tenths :: "nat \<Rightarrow> nat \<Rightarrow> nat" where
  "to_tenths b d = (20 * b + d) div (2 * d)"

definition show_tenths :: "nat \<Rightarrow> string" where
  "show_tenths n = show_nat (n div 10) @ (if n mod 10 = 0 then '''' else ''.'' @ show_nat (n mod 10))"

text \<open>The dash (U+2014) is one code unit; code 151 stands for it in the modelled alphabet.\<close>

definition formatFileSize :: "int \<Rightarrow> string" where
  "formatFileSize bytes =
     (if bytes < 0 then [char_of (151 :: nat)]
      else if bytes = 0 then ''0 B''
      else let b = nat bytes; i = size_unit b; sizes = [''B'', ''KB'', ''MB'', ''GB'', ''TB'']
           in show_tenths (to_tenths b (1024 ^ i)) @ '' '' @ (if i < length sizes then sizes ! i else ''undefined''))"

section \<open>Attachments from files\<close>

record browser =
  br_compress :: "rat \<Rightarrow> js_file \<Rightarrow> bytes option"
  br_now :: "js_file \<Rightarrow> nat"
  br_readAsText :: "js_file \<Rightarrow> string option"
  br_objectURL :: "js_file \<Rightarrow> string"

definition countLines :: "browser \<Rightarrow> js_file \<Rightarrow> nat" where
  "countLines br file =
     (case br_readAsText br file of
        Some text \<Rightarrow> length (filter (\<lambda>c. c = CHR 0x0A) text) + 1
      | None \<Rightarrow> 0)"

text \<open>\<open>None\<close> for a lossless level, which the map does not have.\<close>

fun quality :: "compression_level \<Rightarrow> rat option" where
  "quality Extreme = Some (1 / 10)"
| "quality High = Some (3 / 10)"
| "quality Medium = Some (5 / 10)"
| "quality Low = Some (7 / 10)"
| "quality Lossless = None"

text \<open>\<open>replace(/\.[^/.]+$/, "")\<close>: the last dot, with what follows it if that is not empty and has no slash.\<close>

definition strip_extension :: "string \<Rightarrow> string" where
  "strip_extension name =
     (case last_index_of CHR ''.'' name of
        None \<Rightarrow> name
      | Some i \<Rightarrow>
          let rest = drop (Suc i) name
          in if rest \<noteq> '''' \<and> CHR ''/'' \<notin> set rest then take i name else name)"

definition compressed_file :: "browser \<Rightarrow> js_file \<Rightarrow> bytes \<Rightarrow> js_file" where
  "compressed_file br file blob =
     \<lparr>f_name = strip_extension (f_name file) @ ''.webp'', f_size = length blob, f_type = ''image/webp'',
      f_lastModified = br_now br file, f_bytes = blob\<rparr>"

definition processed_file :: "browser \<Rightarrow> compression_level \<Rightarrow> js_file \<Rightarrow> js_file" where
  "processed_file br level file =
     (if prefix ''image/'' (f_type file)
      then (case quality level of
              None \<Rightarrow> file
            | Some q \<Rightarrow> (case br_compress br q file of None \<Rightarrow> file | Some blob \<Rightarrow> compressed_file br file blob))
      else file)"

text \<open>The result has no identifier yet: \<open>a_id\<close> is empty.\<close>

definition process_one :: "browser \<Rightarrow> compression_level \<Rightarrow> js_file \<Rightarrow> attachment" where
  "process_one br level file =
     (if prefix ''image/'' (f_type file)
      then let p = processed_file br level file
           in \<lparr>a_id = '''', a_name = f_name p, a_size = f_size p, a_type = ImageAtt, a_file = p,
               a_previewUrl = Some (br_objectURL br p), a_lines = None\<rparr>
      else \<lparr>a_id = '''', a_name = f_name file, a_size = f_size file, a_type = TextAtt, a_file = file,
            a_previewUrl = None,
            a_lines = (if isTextMimeType (f_type file) (f_name file) then Some (countLines br file) else None)\<rparr>)"

definition processAndCompressFiles :: "browser \<Rightarrow> js_file list \<Rightarrow> compression_level \<Rightarrow> attachment list" where
  "processAndCompressFiles br files level = map (process_one br level) files"

section \<open>Lemmas\<close>

lemma processed_length [simp]: "length (processAndCompressFiles br files level) = length files"
  by (simp add: processAndCompressFiles_def)

lemma processed_nth [simp]: "i < length files \<Longrightarrow> processAndCompressFiles br files level ! i = process_one br level (files ! i)"
  by (simp add: processAndCompressFiles_def)

text \<open>An attachment describes the file it holds.\<close>

lemma process_one_file [simp]:
  "a_name (process_one br level file) = f_name (a_file (process_one br level file))"
  "a_size (process_one br level file) = f_size (a_file (process_one br level file))"
  by (simp_all add: process_one_def Let_def)

lemma process_one_other: "\<not> prefix ''image/'' (f_type file) \<Longrightarrow> a_file (process_one br level file) = file"
  by (simp add: process_one_def)

lemma process_one_kind [simp]: "a_type (process_one br level file) = (if prefix ''image/'' (f_type file) then ImageAtt else TextAtt)"
  by (simp add: process_one_def Let_def)

lemma preview_iff_image: "a_previewUrl (process_one br level file) \<noteq> None \<longleftrightarrow> prefix ''image/'' (f_type file)"
  by (simp add: process_one_def Let_def)

text \<open>The number of the unit and its division agree: the quotient is below 1024 and at least one.\<close>

lemma size_unit_bounds: "0 < b \<Longrightarrow> 1024 ^ size_unit b \<le> b \<and> b < 1024 ^ Suc (size_unit b)"
proof (induction b rule: size_unit.induct)
  case (1 b)
  show ?case
  proof (cases "b < 1024")
    case True
    then show ?thesis using 1 by (simp add: size_unit.simps [of b])
  next
    case False
    then have ih: "1024 ^ size_unit (b div 1024) \<le> b div 1024" "b div 1024 < 1024 ^ Suc (size_unit (b div 1024))"
      using 1 by (simp_all add: div_greater_zero_iff)
    then have "1024 * 1024 ^ size_unit (b div 1024) \<le> b" "b < 1024 * 1024 ^ Suc (size_unit (b div 1024))"
      by (simp_all add: div_less_iff_less_mult less_eq_div_iff_mult_less_eq mult.commute)
    then show ?thesis using False by (simp add: size_unit.simps [of b])
  qed
qed

text \<open>What is shown is the size rounded to a tenth of the unit.\<close>

lemma to_tenths_nearest: "0 < d \<Longrightarrow> 2 * d * to_tenths b d \<le> 20 * b + d \<and> 20 * b < 2 * d * to_tenths b d + d"
proof -
  assume d: "0 < d"
  let ?q = "(20 * b + d) div (2 * d)"
  have "20 * b + d = 2 * d * ?q + (20 * b + d) mod (2 * d)" by simp
  moreover have "(20 * b + d) mod (2 * d) < 2 * d" using d by simp
  ultimately show ?thesis unfolding to_tenths_def by linarith
qed

end
