(* ===== verification/Upload_Modal.thy ===== *)
theory Upload_Modal
  imports File_Processor Upload_Jobs Models_Store Traces
begin

text \<open>
  \<open>src/gpt_frontend/src/components/files/modals/UploadModal.tsx\<close>: files are selected, checked, compressed and staged,
  an OCR model is chosen for each PDF, and the staged files are handed to the upload queue. Selections wait for the
  compression; the timers that clear errors and the state after closing are not cancelled, so all of these arrive in
  any order.
\<close>

section \<open>State\<close>

datatype staged_status = Staged_pending | Staged_embedding | Staged_error | Staged_ready | Staged_complete

record staged_file = attachment +
  sf_status :: staged_status
  sf_subStatus :: string
  sf_error :: "string option"
  sf_chunks :: "text_chunk list option"
  sf_progress :: nat

text \<open>
  \<open>um_staged\<close> is the list of the reference, \<open>um_shown\<close> the one on the screen; \<open>um_waiting\<close> the selections being
  compressed, with the image models at the time; \<open>um_resets\<close> and \<open>um_clears\<close> count the timers that wait to reset the
  state and to clear the errors; \<open>um_urls\<close> are the object URLs that were created and not revoked.
\<close>

record upload_modal =
  um_isOpen :: bool
  um_staged :: "staged_file list"
  um_shown :: "staged_file list"
  um_errors :: "string list"
  um_ocr :: "(string, string) jsmap"
  um_waiting :: "(js_file list \<times> model list) list"
  um_resets :: nat
  um_clears :: nat
  um_urls :: "string list"

definition initial_modal :: upload_modal where
  "initial_modal =
     \<lparr>um_isOpen = False, um_staged = [], um_shown = [], um_errors = [], um_ocr = [], um_waiting = [], um_resets = 0,
      um_clears = 0, um_urls = []\<rparr>"

definition MAX_FILE_SIZE :: nat where
  "MAX_FILE_SIZE = 1940000"

definition MAX_FILES_AT_ONCE :: nat where
  "MAX_FILES_AT_ONCE = 100"

section \<open>Operations\<close>

definition resetState :: "upload_modal \<Rightarrow> upload_modal" where
  "resetState m = m\<lparr>um_staged := [], um_shown := [], um_errors := [], um_ocr := []\<rparr>"

definition handleClose :: "upload_modal \<Rightarrow> upload_modal" where
  "handleClose m = m\<lparr>um_isOpen := False, um_resets := um_resets m + 1\<rparr>"

definition updateUI :: "upload_modal \<Rightarrow> upload_modal" where
  "updateUI m = m\<lparr>um_shown := um_staged m\<rparr>"

definition quoted :: "string \<Rightarrow> string" where
  "quoted name = CHR 0x22 # name @ [CHR 0x22]"

definition too_large :: "js_file \<Rightarrow> string" where
  "too_large file = quoted (f_name file) @ '' exceeds maximum file size of '' @ formatFileSize (int MAX_FILE_SIZE) @ ''.''"

definition already_queued :: "js_file \<Rightarrow> string" where
  "already_queued file = quoted (f_name file) @ '' is already in the upload queue.''"

definition is_staged :: "staged_file list \<Rightarrow> js_file \<Rightarrow> bool" where
  "is_staged staged file \<longleftrightarrow> list_ex (\<lambda>s. a_name s = f_name file \<and> a_size s = f_size file) staged"

fun validate_each :: "staged_file list \<Rightarrow> js_file list \<Rightarrow> js_file list \<times> string list" where
  "validate_each staged [] = ([], [])"
| "validate_each staged (file # files) =
     (let (valid, errors) = validate_each staged files
      in if f_size file > MAX_FILE_SIZE then (valid, too_large file # errors)
         else if is_staged staged file then (valid, already_queued file # errors)
         else (file # valid, errors))"

definition too_many :: string where
  "too_many = ''Cannot upload more than '' @ show_nat MAX_FILES_AT_ONCE @ '' files at once.''"

definition validateFiles :: "staged_file list \<Rightarrow> js_file list \<Rightarrow> js_file list \<times> string list" where
  "validateFiles staged files =
     (if length files > MAX_FILES_AT_ONCE
      then let (valid, errors) = validate_each staged (take MAX_FILES_AT_ONCE files) in (valid, too_many # errors)
      else validate_each staged files)"

text \<open>Up to the compression; an empty list of files stands for a missing one too.\<close>

definition handleFileSelection :: "js_file list \<Rightarrow> model list \<Rightarrow> upload_modal \<Rightarrow> upload_modal" where
  "handleFileSelection files imageModels m =
     (if files = [] then m
      else let (validFiles, errors) = validateFiles (um_staged m) files;
               m1 = (if errors \<noteq> [] then m\<lparr>um_errors := errors, um_clears := um_clears m + 1\<rparr> else m)
           in if validFiles = [] then m1 else m1\<lparr>um_waiting := um_waiting m1 @ [(validFiles, imageModels)]\<rparr>)"

text \<open>\<open>random i\<close> is the random end of the identifier of the \<open>i\<close>-th file.\<close>

definition stage :: "string \<Rightarrow> attachment \<Rightarrow> staged_file" where
  "stage random att =
     attachment.extend (att\<lparr>a_id := a_name att @ ''-'' @ show_nat (f_lastModified (a_file att)) @ ''-'' @ random\<rparr>)
       \<lparr>sf_status = Staged_ready, sf_subStatus = ''Ready to upload'', sf_error = None, sf_chunks = None, sf_progress = 0\<rparr>"

definition is_pdf :: "staged_file \<Rightarrow> bool" where
  "is_pdf f \<longleftrightarrow> f_type (a_file f) = ''application/pdf''"

definition ocr_defaults :: "model list \<Rightarrow> staged_file list \<Rightarrow> (string, string) jsmap \<Rightarrow> (string, string) jsmap" where
  "ocr_defaults imageModels files prev =
     (if imageModels = [] then prev
      else fold (\<lambda>f next. if is_pdf f then map_set (a_id f) (md_modelId (hd imageModels)) next else next) files prev)"

definition new_staged :: "browser \<Rightarrow> (nat \<Rightarrow> string) \<Rightarrow> js_file list \<Rightarrow> staged_file list" where
  "new_staged br random files =
     map (\<lambda>(i, att). stage (random i) att) (enumerate 0 (processAndCompressFiles br files High))"

text \<open>After the compression.\<close>

definition selection_processed ::
  "browser \<Rightarrow> (nat \<Rightarrow> string) \<Rightarrow> js_file list \<times> model list \<Rightarrow> upload_modal \<Rightarrow> upload_modal" where
  "selection_processed br random sel m =
     (let newStagedFiles = new_staged br random (fst sel)
      in updateUI
           (m\<lparr>um_ocr := ocr_defaults (snd sel) newStagedFiles (um_ocr m),
              um_staged := um_staged m @ newStagedFiles,
              um_urls := um_urls m @ map the (filter (\<lambda>u. u \<noteq> None) (map a_previewUrl newStagedFiles))\<rparr>))"

definition handleRemoveFile :: "string \<Rightarrow> upload_modal \<Rightarrow> upload_modal" where
  "handleRemoveFile i m =
     (let m1 = (case List.find (\<lambda>f. a_id f = i) (um_staged m) of
                  Some f \<Rightarrow> if truthy_str (a_previewUrl f)
                            then m\<lparr>um_urls := remove1 (the (a_previewUrl f)) (um_urls m)\<rparr> else m
                | None \<Rightarrow> m);
          m2 = updateUI (m1\<lparr>um_staged := filter (\<lambda>f. a_id f \<noteq> i) (um_staged m1)\<rparr>)
      in m2\<lparr>um_ocr := map_del i (um_ocr m2)\<rparr>)"

definition select_ocr_model :: "string \<Rightarrow> string \<Rightarrow> upload_modal \<Rightarrow> upload_modal" where
  "select_ocr_model i modelId m = m\<lparr>um_ocr := map_set i modelId (um_ocr m)\<rparr>"

text \<open>The arguments of \<open>addFileJob\<close> for each file handed over, in order.\<close>

definition upload_model :: "upload_modal \<Rightarrow> staged_file \<Rightarrow> string option" where
  "upload_model m f = (if is_pdf f then map_get (um_ocr m) (a_id f) else None)"

definition items_to_upload :: "upload_modal \<Rightarrow> (js_file \<times> string \<times> string option \<times> text_chunk list option) list" where
  "items_to_upload m =
     map (\<lambda>f. (a_file f, a_id f, upload_model m f, sf_chunks f)) (filter (\<lambda>f. sf_status f = Staged_ready) (um_staged m))"

text \<open>\<open>now i\<close> and \<open>random i\<close> are the clock and the random end of the identifier of the \<open>i\<close>-th job.\<close>

definition queue_items ::
  "(nat \<Rightarrow> nat) \<Rightarrow> (nat \<Rightarrow> string) \<Rightarrow> (js_file \<times> string \<times> string option \<times> text_chunk list option) list \<Rightarrow> queue_state \<Rightarrow> queue_state" where
  "queue_items now random items =
     fold (\<lambda>(i, file, uiId, modelId, chunks). addFileJob (now i) (random i) file uiId modelId chunks) (enumerate 0 items)"

definition handleUpload ::
  "folder_id option \<Rightarrow> (nat \<Rightarrow> nat) \<Rightarrow> (nat \<Rightarrow> string) \<Rightarrow> upload_modal \<times> queue_state \<Rightarrow> upload_modal \<times> queue_state" where
  "handleUpload folder now random mq =
     (if \<not> truthy_str folder then mq
      else (handleClose (fst mq), queue_items now random (items_to_upload (fst mq)) (snd mq)))"

section \<open>What is shown\<close>

definition readyCount :: "upload_modal \<Rightarrow> nat" where
  "readyCount m = length (filter (\<lambda>f. sf_status f = Staged_ready) (um_shown m))"

definition isUploadDisabled :: "upload_modal \<Rightarrow> bool" where
  "isUploadDisabled m \<longleftrightarrow> readyCount m = 0"

definition buttonText :: "upload_modal \<Rightarrow> string" where
  "buttonText m = (if readyCount m > 0 then ''Upload '' @ show_nat (readyCount m) @ '' File(s)'' else ''Upload'')"

definition totalSize :: "upload_modal \<Rightarrow> nat" where
  "totalSize m = foldl (\<lambda>sum f. sum + a_size f) 0 (um_shown m)"

section \<open>Events\<close>

datatype modal_event =
    Selected "js_file list" "model list"
  | Processed "js_file list \<times> model list" browser "nat \<Rightarrow> string"
  | Removed string
  | Ocr_chosen string string
  | Uploaded "folder_id option" "nat \<Rightarrow> nat" "nat \<Rightarrow> string"
  | Closed
  | Opened
  | Reset_due
  | Clear_due

text \<open>
  An entry of the list has a button to remove it and, for a PDF, one for each OCR model; the button to upload is
  disabled when nothing is ready.
\<close>

inductive modal_step :: "upload_modal \<times> queue_state \<Rightarrow> modal_event \<Rightarrow> upload_modal \<times> queue_state \<Rightarrow> bool" where
  selected: "modal_step (m, q) (Selected files imageModels) (handleFileSelection files imageModels m, q)"
| processed: "sel \<in> set (um_waiting m) \<Longrightarrow> modal_step (m, q) (Processed sel br random)
    (selection_processed br random sel (m\<lparr>um_waiting := remove1 sel (um_waiting m)\<rparr>), q)"
| removed: "i \<in> set (map a_id (um_shown m)) \<Longrightarrow> modal_step (m, q) (Removed i) (handleRemoveFile i m, q)"
| ocr_chosen: "f \<in> set (um_shown m) \<Longrightarrow> is_pdf f
    \<Longrightarrow> modal_step (m, q) (Ocr_chosen (a_id f) modelId) (select_ocr_model (a_id f) modelId m, q)"
| uploaded: "\<not> isUploadDisabled m \<Longrightarrow> modal_step (m, q) (Uploaded folder now random) (handleUpload folder now random (m, q))"
| closed: "modal_step (m, q) Closed (handleClose m, q)"
| opened: "modal_step (m, q) Opened (m\<lparr>um_isOpen := True\<rparr>, q)"
| reset_due: "0 < um_resets m \<Longrightarrow> modal_step (m, q) Reset_due (resetState (m\<lparr>um_resets := um_resets m - 1\<rparr>), q)"
| clear_due: "0 < um_clears m
    \<Longrightarrow> modal_step (m, q) Clear_due (m\<lparr>um_errors := [], um_clears := um_clears m - 1\<rparr>, q)"

end
