(* ===== verification/Upload_Modal_Props.thy ===== *)
theory Upload_Modal_Props
  imports Upload_Modal
begin

text \<open>
  The check of a selection as a filter, what the modal keeps in every order of its events, and what the upload queue
  receives from it; then what is left behind when the modal closes.
\<close>

section \<open>The check of a selection\<close>

definition acceptable :: "staged_file list \<Rightarrow> js_file \<Rightarrow> bool" where
  "acceptable staged file \<longleftrightarrow> f_size file \<le> MAX_FILE_SIZE \<and> \<not> is_staged staged file"

definition refusal :: "js_file \<Rightarrow> string" where
  "refusal file = (if f_size file > MAX_FILE_SIZE then too_large file else already_queued file)"

lemma validate_each_filter:
  "validate_each staged files
     = (filter (acceptable staged) files, map refusal (filter (\<lambda>f. \<not> acceptable staged f) files))"
  by (induction files) (auto simp: acceptable_def refusal_def split: prod.split)

text \<open>
  From a selection at most a hundred files are kept, in their order: exactly those among the first hundred that
  are not too large and not staged already; each other one of these is told, in order, and so is a selection of more
  than a hundred; nothing is told exactly when all of it is kept.
\<close>

lemma selection_checked:
  "validateFiles staged files
     = (filter (acceptable staged) (take MAX_FILES_AT_ONCE files),
        (if length files > MAX_FILES_AT_ONCE then [too_many] else [])
          @ map refusal (filter (\<lambda>f. \<not> acceptable staged f) (take MAX_FILES_AT_ONCE files)))
   \<and> length (fst (validateFiles staged files)) \<le> 100
   \<and> (snd (validateFiles staged files) = [] \<longleftrightarrow> fst (validateFiles staged files) = files)"
proof -
  let ?ok = "acceptable staged"
  let ?n = MAX_FILES_AT_ONCE
  have split: "validateFiles staged files
      = (filter ?ok (take ?n files),
         (if length files > ?n then [too_many] else []) @ map refusal (filter (\<lambda>f. \<not> ?ok f) (take ?n files)))"
    by (simp add: validateFiles_def validate_each_filter)
  have kept: "length (filter ?ok (take ?n files)) \<le> ?n"
    by (rule order_trans [OF length_filter_le]) simp
  have "snd (validateFiles staged files) = [] \<longleftrightarrow> fst (validateFiles staged files) = files"
  proof (cases "length files > ?n")
    case True
    then have "filter ?ok (take ?n files) \<noteq> files" using kept by (metis not_le)
    then show ?thesis using True by (simp add: split)
  next
    case False
    then show ?thesis by (simp add: split filter_empty_conv filter_id_conv)
  qed
  then show ?thesis using kept by (simp add: split MAX_FILES_AT_ONCE_def)
qed

section \<open>What the modal keeps\<close>

definition pdf_ids :: "staged_file list \<Rightarrow> string set" where
  "pdf_ids staged = a_id ` {f \<in> set staged. is_pdf f}"

text \<open>
  The screen shows what is staged; all of it is ready, holds the file it is named after and was below the limit unless
  it is an image (which is measured before its compression); a model is chosen for staged PDFs only; what is being
  compressed has passed the check.
\<close>

definition staged_sound :: "staged_file \<Rightarrow> bool" where
  "staged_sound f \<longleftrightarrow> sf_status f = Staged_ready \<and> sf_chunks f = None \<and> a_name f = f_name (a_file f) \<and> a_size f = f_size (a_file f)
     \<and> (a_type f = TextAtt \<longrightarrow> a_size f \<le> MAX_FILE_SIZE)"

definition modal_sound :: "upload_modal \<Rightarrow> bool" where
  "modal_sound m \<longleftrightarrow> um_shown m = um_staged m \<and> list_all staged_sound (um_staged m)
     \<and> set (map_keys (um_ocr m)) \<subseteq> pdf_ids (um_staged m)
     \<and> list_all (\<lambda>sel. fst sel \<noteq> [] \<and> list_all (\<lambda>f. f_size f \<le> MAX_FILE_SIZE) (fst sel)) (um_waiting m)"

lemma stage_simps [simp]:
  "a_file (stage r att) = a_file att" "a_name (stage r att) = a_name att" "a_size (stage r att) = a_size att"
  "a_type (stage r att) = a_type att" "sf_status (stage r att) = Staged_ready" "sf_chunks (stage r att) = None"
  "a_previewUrl (stage r att) = a_previewUrl att"
  by (simp_all add: stage_def attachment.defs)

lemma stage_sound:
  "f_size file \<le> MAX_FILE_SIZE \<Longrightarrow> staged_sound (stage r (process_one br level file))"
  by (auto simp: staged_sound_def process_one_other split: if_splits)

lemma new_staged_map:
  "new_staged br random files = map (\<lambda>(i, file). stage (random i) (process_one br High file)) (enumerate 0 files)"
  by (auto intro!: nth_equalityI simp: new_staged_def nth_enumerate_eq)

lemma new_staged_sound:
  "list_all (\<lambda>f. f_size f \<le> MAX_FILE_SIZE) files \<Longrightarrow> list_all staged_sound (new_staged br random files)"
  by (auto simp: new_staged_map list_all_iff in_set_enumerate_eq intro!: stage_sound)

lemma pdf_ids_Cons [simp]: "pdf_ids (f # fs) = (if is_pdf f then {a_id f} else {}) \<union> pdf_ids fs"
  by (auto simp: pdf_ids_def)

lemma ocr_defaults_keys:
  "set (map_keys (ocr_defaults models files prev)) \<subseteq> set (map_keys prev) \<union> pdf_ids files"
proof -
  have "set (map_keys (fold (\<lambda>f next. if is_pdf f then map_set (a_id f) k next else next) files prev))
          \<subseteq> set (map_keys prev) \<union> pdf_ids files" for k
  proof (induction files arbitrary: prev)
    case (Cons f files)
    show ?case using Cons.IH [of "if is_pdf f then map_set (a_id f) k prev else prev"] by (auto split: if_splits)
  qed simp
  then show ?thesis by (simp add: ocr_defaults_def)
qed

lemma pdf_ids_append [simp]: "pdf_ids (xs @ ys) = pdf_ids xs \<union> pdf_ids ys"
  by (auto simp: pdf_ids_def)

lemma pdf_ids_filter: "pdf_ids (filter (\<lambda>f. a_id f \<noteq> i) xs) = pdf_ids xs - {i}"
  by (auto simp: pdf_ids_def)

lemma accepted_sizes: "list_all (\<lambda>f. f_size f \<le> MAX_FILE_SIZE) (fst (validateFiles staged files))"
  by (auto simp: validateFiles_def validate_each_filter list_all_iff acceptable_def)

lemma selection_sound:
  assumes "modal_sound m"
  shows "modal_sound (handleFileSelection files models m)"
  using assms accepted_sizes [of "um_staged m" files]
  by (auto simp: handleFileSelection_def modal_sound_def Let_def split: prod.split)

lemma processed_sound:
  assumes "modal_sound m" "sel \<in> set (um_waiting m)"
  shows "modal_sound (selection_processed br random sel (m\<lparr>um_waiting := remove1 sel (um_waiting m)\<rparr>))"
proof -
  have "list_all (\<lambda>f. f_size f \<le> MAX_FILE_SIZE) (fst sel)"
    using assms by (auto simp: modal_sound_def list_all_iff)
  then have new: "list_all staged_sound (new_staged br random (fst sel))" by (rule new_staged_sound)
  have keys: "set (map_keys (ocr_defaults (snd sel) (new_staged br random (fst sel)) (um_ocr m)))
      \<subseteq> pdf_ids (um_staged m @ new_staged br random (fst sel))"
    using ocr_defaults_keys [of "snd sel" "new_staged br random (fst sel)" "um_ocr m"] assms(1)
    by (auto simp: modal_sound_def)
  show ?thesis
    using assms(1) new keys notin_set_remove1 [of _ "um_waiting m" sel]
    by (auto simp: modal_sound_def selection_processed_def updateUI_def Let_def list_all_iff)
qed

lemma removed_sound:
  assumes "modal_sound m"
  shows "modal_sound (handleRemoveFile i m)"
proof -
  have "set (map_keys (map_del i (um_ocr m))) \<subseteq> pdf_ids (filter (\<lambda>f. a_id f \<noteq> i) (um_staged m))"
    using assms unfolding map_keys_del pdf_ids_filter by (auto simp: modal_sound_def)
  then show ?thesis
    using assms by (auto simp: modal_sound_def handleRemoveFile_def updateUI_def Let_def list_all_iff split: option.split)
qed

lemma ocr_chosen_sound: "modal_sound m \<Longrightarrow> f \<in> set (um_shown m) \<Longrightarrow> is_pdf f \<Longrightarrow> modal_sound (select_ocr_model (a_id f) k m)"
  by (auto simp: modal_sound_def select_ocr_model_def pdf_ids_def)

lemma reset_sound: "modal_sound m \<Longrightarrow> modal_sound (resetState m)"
  by (simp add: modal_sound_def resetState_def pdf_ids_def)

lemma modal_sound_same:
  "modal_sound m \<Longrightarrow> um_shown m' = um_shown m \<Longrightarrow> um_staged m' = um_staged m \<Longrightarrow> um_ocr m' = um_ocr m
   \<Longrightarrow> um_waiting m' = um_waiting m \<Longrightarrow> modal_sound m'"
  by (simp add: modal_sound_def)

interpretation modal: traced_invariant modal_step "\<lambda>_ mq. modal_sound (fst mq)"
proof
  fix es :: "modal_event list" and mq e mq'
  assume inv: "modal_sound (fst mq)" and "modal_step mq e mq'"
  from this(2) show "modal_sound (fst mq')"
  proof (cases rule: modal_step.cases)
    case (uploaded m folder now random q)
    then show ?thesis using inv by (auto simp: handleUpload_def handleClose_def intro: modal_sound_same)
  next
    case (closed m q)
    then show ?thesis using inv by (auto simp: handleClose_def intro: modal_sound_same)
  next
    case (opened m q)
    then show ?thesis using inv by (auto intro: modal_sound_same)
  next
    case (reset_due m q)
    then show ?thesis using inv by (auto intro!: reset_sound intro: modal_sound_same)
  next
    case (clear_due m q)
    then show ?thesis using inv by (auto intro: modal_sound_same)
  qed (use inv in \<open>auto simp: selection_sound processed_sound removed_sound ocr_chosen_sound\<close>)
qed

lemma initial_modal_sound [simp]: "modal_sound initial_modal"
  by (simp add: modal_sound_def initial_modal_def)

section \<open>What the queue receives\<close>

definition job_id_of :: "(nat \<Rightarrow> nat) \<Rightarrow> (nat \<Rightarrow> string) \<Rightarrow> nat \<Rightarrow> js_file \<Rightarrow> string" where
  "job_id_of now random i file =
     f_name file @ ''-'' @ show_nat (f_size file) @ ''-'' @ show_nat (now i) @ ''-'' @ random i"

definition new_job :: "string \<Rightarrow> js_file \<times> string \<times> string option \<times> text_chunk list option \<Rightarrow> upload_job" where
  "new_job jobId item =
     (case item of (file, uiId, modelId, chunks) \<Rightarrow>
        \<lparr>uj_id = jobId, uj_uiId = uiId, uj_fileName = f_name file, uj_fileType = file_type_of file,
         uj_status = Queued, uj_subStatus = ''Waiting in queue...'', uj_progress = 0, uj_error = None,
         uj_modelId = modelId, uj_retries = 0, uj_chunks = chunks\<rparr>)"

definition job_ids :: "(nat \<Rightarrow> nat) \<Rightarrow> (nat \<Rightarrow> string) \<Rightarrow> js_file list \<Rightarrow> string list" where
  "job_ids now random files = map (\<lambda>(i, file). job_id_of now random i file) (enumerate 0 files)"

lemma job_ids_snoc [simp]: "job_ids now random (fs @ [f]) = job_ids now random fs @ [job_id_of now random (length fs) f]"
  by (simp add: job_ids_def enumerate_append_eq)

lemma job_ids_length [simp]: "length (job_ids now random fs) = length fs"
  by (simp add: job_ids_def)

lemma addFileJob_new:
  "addFileJob (now i) (random i) fl uiId modelId chunks q
     = (let k = job_id_of now random i fl
        in ((fst q)\<lparr>fileProcessingJobs := map_set k (new_job k (fl, uiId, modelId, chunks)) (fileProcessingJobs (fst q))\<rparr>,
            map_set k fl (snd q)))"
  by (simp add: addFileJob_def job_id_of_def new_job_def Let_def)

lemma queue_items_snoc:
  "queue_items now random (items @ [(file, uiId, modelId, chunks)]) q
     = addFileJob (now (length items)) (random (length items)) file uiId modelId chunks (queue_items now random items q)"
  by (simp add: queue_items_def enumerate_append_eq)

lemma queue_items_appends:
  assumes "distinct (job_ids now random (map fst items))"
    and "set (job_ids now random (map fst items)) \<inter> (set (map_keys (fileProcessingJobs (fst q))) \<union> set (map_keys (snd q))) = {}"
  shows "fileProcessingJobs (fst (queue_items now random items q))
           = fileProcessingJobs (fst q) @ map (\<lambda>(k, item). (k, new_job k item)) (zip (job_ids now random (map fst items)) items)
         \<and> snd (queue_items now random items q) = snd q @ zip (job_ids now random (map fst items)) (map fst items)"
  using assms
proof (induction items rule: rev_induct)
  case Nil
  then show ?case by (simp add: queue_items_def)
next
  case (snoc item items)
  obtain fl uiId modelId chunks where item: "item = (fl, uiId, modelId, chunks)" by (cases item) auto
  let ?k = "job_id_of now random (length items) fl"
  let ?ids = "job_ids now random (map fst items)"
  have ih: "fileProcessingJobs (fst (queue_items now random items q))
      = fileProcessingJobs (fst q) @ map (\<lambda>(k, item). (k, new_job k item)) (zip ?ids items)"
    "snd (queue_items now random items q) = snd q @ zip ?ids (map fst items)"
    using snoc.IH snoc.prems by (auto simp: item)
  have fresh: "?k \<notin> set ?ids" "?k \<notin> set (map_keys (fileProcessingJobs (fst q)))" "?k \<notin> set (map_keys (snd q))"
    using snoc.prems by (auto simp: item)
  have ids: "map (\<lambda>p. fst (case p of (k, item) \<Rightarrow> (k, new_job k item))) (zip ?ids items) = ?ids"
    by (simp add: case_prod_unfold)
  have "map_keys (fileProcessingJobs (fst (queue_items now random items q))) = map_keys (fileProcessingJobs (fst q)) @ ?ids"
    "map_keys (snd (queue_items now random items q)) = map_keys (snd q) @ ?ids"
    using ids by (simp_all add: ih comp_def)
  then have keys: "?k \<notin> set (map_keys (fileProcessingJobs (fst (queue_items now random items q))))"
    "?k \<notin> set (map_keys (snd (queue_items now random items q)))"
    using fresh by (simp_all only: set_append Un_iff simp_thms)
  show ?case
    using map_keys_set_absent [OF keys(1)] map_keys_set_absent [OF keys(2)]
    by (simp add: item queue_items_snoc addFileJob_new Let_def ih)
qed

lemma sound_all_ready: "modal_sound m \<Longrightarrow> filter (\<lambda>f. sf_status f = Staged_ready) (um_staged m) = um_staged m"
  by (simp add: modal_sound_def filter_id_conv list_all_iff staged_sound_def)

text \<open>The example: one PDF, selected while one image model is known.\<close>

definition example_pdf :: js_file where
  "example_pdf = \<lparr>f_name = ''a.pdf'', f_size = 7, f_type = ''application/pdf'', f_lastModified = 1, f_bytes = []\<rparr>"

definition example_browser :: browser where
  "example_browser = \<lparr>br_compress = (\<lambda>_ _. None), br_now = (\<lambda>_. 0), br_readAsText = (\<lambda>_. None), br_objectURL = f_name\<rparr>"

definition staged_pdf :: "string \<Rightarrow> staged_file" where
  "staged_pdf r = stage r (process_one example_browser High example_pdf)"

lemma staged_pdf_simps [simp]: "a_file (staged_pdf r) = example_pdf" "is_pdf (staged_pdf r)" "a_previewUrl (staged_pdf r) = None"
  by (simp_all add: staged_pdf_def process_one_def is_pdf_def example_pdf_def)

lemma two_steps: "step s e s' \<Longrightarrow> step s' e' s'' \<Longrightarrow> trace_run step s [e, e'] s''"
  by (auto simp: trace_run_Cons)

lemma staged_pdf_run:
  "trace_run modal_step (initial_modal, q)
     [Selected [example_pdf] [], Processed ([example_pdf], []) example_browser (\<lambda>_. ''r'')]
     (initial_modal\<lparr>um_staged := [staged_pdf ''r''], um_shown := [staged_pdf ''r'']\<rparr>, q)"
proof -
  let ?m1 = "initial_modal\<lparr>um_waiting := [([example_pdf], [])]\<rparr>"
  have "handleFileSelection [example_pdf] [] initial_modal = ?m1"
    by (simp add: handleFileSelection_def validateFiles_def initial_modal_def MAX_FILES_AT_ONCE_def MAX_FILE_SIZE_def
        is_staged_def example_pdf_def)
  moreover have new: "new_staged example_browser (\<lambda>_. ''r'') [example_pdf] = [staged_pdf ''r'']"
    by (simp add: new_staged_map staged_pdf_def)
  have "selection_processed example_browser (\<lambda>_. ''r'') ([example_pdf], []) (?m1\<lparr>um_waiting := []\<rparr>)
      = initial_modal\<lparr>um_staged := [staged_pdf ''r''], um_shown := [staged_pdf ''r'']\<rparr>"
    by (simp add: selection_processed_def updateUI_def ocr_defaults_def initial_modal_def new Let_def)
  ultimately have "modal_step (initial_modal, q) (Selected [example_pdf] []) (?m1, q)"
      "modal_step (?m1, q) (Processed ([example_pdf], []) example_browser (\<lambda>_. ''r''))
         (initial_modal\<lparr>um_staged := [staged_pdf ''r''], um_shown := [staged_pdf ''r'']\<rparr>, q)"
    using modal_step.selected [of initial_modal q "[example_pdf]" "[]"]
      modal_step.processed [of "([example_pdf], [])" ?m1 q example_browser "\<lambda>_. ''r''"]
    by simp_all
  then show ?thesis by (rule two_steps)
qed

text \<open>
  C35: in every order of selections, compressions, removals, choices and late timers, pressing the button hands over
  exactly the files on the screen, in their order: each becomes one queued job with its content and, for a PDF alone,
  the OCR model shown as chosen for it; the button counts all of them, and none that is not an image exceeds the limit.
\<close>

theorem upload_hands_over:
  assumes "trace_run modal_step (initial_modal, q0) es (m, q)" and "truthy_str folder"
    and "distinct (job_ids now random (map a_file (um_shown m)))"
    and "set (job_ids now random (map a_file (um_shown m)))
           \<inter> (set (map_keys (fileProcessingJobs (fst q))) \<union> set (map_keys (snd q))) = {}"
  shows "let q' = snd (handleUpload folder now random (m, q)); ids = job_ids now random (map a_file (um_shown m))
    in fileProcessingJobs (fst q') = fileProcessingJobs (fst q)
         @ map2 (\<lambda>k f. (k, new_job k (a_file f, a_id f, if is_pdf f then map_get (um_ocr m) (a_id f) else None, None)))
             ids (um_shown m)
       \<and> snd q' = snd q @ zip ids (map a_file (um_shown m))
       \<and> readyCount m = length (um_shown m)
       \<and> list_all (\<lambda>f. a_type f = ImageAtt \<or> f_size (a_file f) \<le> 1940000) (um_shown m)"
proof -
  have inv: "modal_sound m" using modal.inv_run [OF assms(1)] by simp
  then have shown: "um_shown m = um_staged m" and sound: "list_all staged_sound (um_staged m)"
    by (simp_all add: modal_sound_def)
  have items: "items_to_upload m
      = map (\<lambda>f. (a_file f, a_id f, if is_pdf f then map_get (um_ocr m) (a_id f) else None, None)) (um_shown m)"
    using sound by (auto simp: items_to_upload_def sound_all_ready [OF inv] shown upload_model_def list_all_iff staged_sound_def)
  then have files: "map fst (items_to_upload m) = map a_file (um_shown m)" by simp
  have "list_all (\<lambda>f. a_type f = ImageAtt \<or> f_size (a_file f) \<le> 1940000) (um_shown m)"
    using sound by (auto simp: shown list_all_iff staged_sound_def MAX_FILE_SIZE_def) (metis attachment_kind.exhaust)
  moreover have "readyCount m = length (um_shown m)"
    by (simp add: readyCount_def shown sound_all_ready [OF inv])
  moreover note queue_items_appends [of now random "items_to_upload m" q, unfolded files, OF assms(3,4)]
  ultimately show ?thesis
    using assms(2) by (simp add: handleUpload_def Let_def items zip_map2 case_prod_unfold comp_def)
qed

theorem upload_hands_over_witness:
  "fileProcessingJobs (fst (snd (handleUpload (Some ''f'') (\<lambda>_. 5) (\<lambda>_. ''z'')
      (initial_modal\<lparr>um_staged := [staged_pdf ''r''], um_shown := [staged_pdf ''r'']\<rparr>, (initialFileState, [])))))
   = [(''a.pdf-7-5-z'', new_job ''a.pdf-7-5-z'' (example_pdf, a_id (staged_pdf ''r''), None, None))]"
proof -
  have n: "show_nat 7 = ''7''" "show_nat 5 = ''5''" by code_simp+
  have k: "job_ids (\<lambda>_. 5) (\<lambda>_. ''z'') [example_pdf] = [''a.pdf-7-5-z'']"
    by (simp add: job_ids_def job_id_of_def example_pdf_def n)
  show ?thesis
    using upload_hands_over [OF staged_pdf_run, of "Some ''f''" "\<lambda>_. 5" "\<lambda>_. ''z''" "(initialFileState, [])"]
    by (simp add: truthy_str_def k initialFileState_def initial_modal_def Let_def)
qed

section \<open>What is left behind\<close>

text \<open>
  Until the timer of the closing fires, the staged files are still there to be handed over, and the button, on the
  screen during the closing animation, hands them over again.
\<close>

lemma upload_repeats: "items_to_upload (fst (handleUpload folder now random mq)) = items_to_upload (fst mq)"
  by (simp add: handleUpload_def handleClose_def items_to_upload_def upload_model_def)

text \<open>A selection whose compression ends after the modal was closed and reset appears when it is opened again.\<close>

lemma late_selection_reappears:
  assumes "files \<noteq> []"
  shows "um_shown (selection_processed br random (files, models) (resetState m)) \<noteq> []"
  using assms by (cases files) (simp_all add: selection_processed_def updateUI_def new_staged_map Let_def)

text \<open>Closing and resetting revokes no object URL, as removing a file does.\<close>

lemma close_keeps_urls: "um_urls (resetState (handleClose m)) = um_urls m"
  by (simp add: resetState_def handleClose_def)

lemma remove_revokes:
  "List.find (\<lambda>f. a_id f = i) (um_staged m) = Some f \<Longrightarrow> truthy_str (a_previewUrl f)
   \<Longrightarrow> um_urls (handleRemoveFile i m) = remove1 (the (a_previewUrl f)) (um_urls m)"
  by (simp add: handleRemoveFile_def updateUI_def Let_def)

text \<open>A duplicate is sought by the name and size of the compressed image, so an image selected again is not found.\<close>

lemma compressed_image_not_recognised:
  assumes "prefix ''image/'' (f_type file)" "br_compress br (3 / 10) file = Some blob" "length blob \<noteq> f_size file"
  shows "\<not> is_staged (new_staged br random [file]) file"
  using assms by (simp add: is_staged_def new_staged_map process_one_def processed_file_def compressed_file_def Let_def)

end
