(* ===== verification/Files_Page.thy ===== *)
theory Files_Page
  imports File_Store Text_Search
begin

text \<open>
  \<open>src/gpt_frontend/src/components/files/FilesPageComponent.tsx\<close>: which files and folders are listed and in which
  order, the search in their contents, the selection, and what the page asks the store to do. The stores are arguments;
  what the page calls is a result. The browser's collation is a key function: comparing two names by
  \<open>localeCompare\<close> compares their keys.
\<close>

section \<open>State\<close>

datatype sort_field = By_name | By_size | By_uploadedAt | By_type
datatype sort_order = Ascending | Descending
datatype view_mode = Grid_view | List_view | Chunks_view

record global_result = search_result +
  gr_name :: string
  gr_fileId :: file_id

record files_page =
  fp_debouncedSearchQuery :: string
  fp_sortField :: sort_field
  fp_sortOrder :: sort_order
  fp_viewMode :: view_mode
  fp_selectedItems :: "string list"
  fp_viewingFile :: "file_item option"
  fp_searchResults :: "global_result list option"

definition initial_page :: files_page where
  "initial_page =
     \<lparr>fp_debouncedSearchQuery = '''', fp_sortField = By_uploadedAt, fp_sortOrder = Descending, fp_viewMode = Grid_view,
      fp_selectedItems = [], fp_viewingFile = None, fp_searchResults = None\<rparr>"

section \<open>The address\<close>

text \<open>The first run of the effect does nothing; \<open>Some path\<close> is a call of \<open>navigateToPath\<close>.\<close>

definition navigate_effect :: "bool \<Rightarrow> string option \<Rightarrow> bool \<times> string option option" where
  "navigate_effect isInitialMount pathFromUrl = (False, if isInitialMount then None else Some pathFromUrl)"

definition pathFromHistory :: "file_state \<Rightarrow> string option" where
  "pathFromHistory st = (if length (fs_history st) > 1 then Some (join ''/'' (map snd (tl (fs_history st)))) else None)"

text \<open>The address it replaces, with \<open>encodeURIComponent\<close> as \<open>enc\<close>.\<close>

definition replace_url :: "(string \<Rightarrow> string) \<Rightarrow> string \<Rightarrow> string option \<Rightarrow> file_state \<Rightarrow> string option" where
  "replace_url enc pathname pathFromUrl st =
     (if fs_status st = FsLoading \<or> fs_history st = [] \<or> rootFolderId st = None then None
      else if pathFromUrl \<noteq> pathFromHistory st
      then Some (if truthy_str (pathFromHistory st) then pathname @ ''?path='' @ enc (the (pathFromHistory st)) else pathname)
      else None)"

section \<open>Search in the contents\<close>

definition chunk_key :: "file_id \<Rightarrow> searchable_chunk \<Rightarrow> string" where
  "chunk_key fileId chunk = fileId @ ''-'' @ show_nat (k_chunk_index chunk)"

definition file_chunks_info ::
  "(file_id, file_item) jsmap \<Rightarrow> file_id \<times> searchable_chunk list \<Rightarrow> (string, string \<times> file_id) jsmap
     \<Rightarrow> (string, string \<times> file_id) jsmap" where
  "file_chunks_info allFiles entry m =
     (case map_get allFiles (fst entry) of
        Some file \<Rightarrow> fold (\<lambda>chunk. map_set (chunk_key (fst entry) chunk) (fi_name file, fi_id file)) (snd entry) m
      | None \<Rightarrow> m)"

definition chunkToFileMap :: "file_state \<Rightarrow> (string, string \<times> file_id) jsmap" where
  "chunkToFileMap st = fold (file_chunks_info (fs_files st)) (searchableChunks st) []"

definition with_file_info :: "(string, string \<times> file_id) jsmap \<Rightarrow> search_result \<Rightarrow> global_result list" where
  "with_file_info m r =
     (case map_get m (s_id r) of
        None \<Rightarrow> []
      | Some (name, i) \<Rightarrow> [search_result.extend r \<lparr>gr_name = name, gr_fileId = i\<rparr>])"

definition performSearch :: "(rat \<Rightarrow> rat) \<Rightarrow> script \<Rightarrow> string \<Rightarrow> file_state \<Rightarrow> global_result list" where
  "performSearch lg sc query st =
     (let allSearchableChunks = concat (map_values (searchableChunks st))
      in if allSearchableChunks = [] then []
         else concat (map (with_file_info (chunkToFileMap st)) (runSearch lg sc query (map Indexed allSearchableChunks) TextMode)))"

datatype search_action = Clear_results | Build_index | Perform_search | No_search

definition search_effect :: "files_page \<Rightarrow> file_state \<Rightarrow> search_action" where
  "search_effect page st =
     (if fp_viewMode page \<noteq> Chunks_view then Clear_results
      else if trim (fp_debouncedSearchQuery page) \<noteq> ''''
      then (if indexingStatus st = IdxIdle then Build_index
            else if indexingStatus st = IdxComplete then Perform_search else No_search)
      else No_search)"

definition run_search_effect :: "(rat \<Rightarrow> rat) \<Rightarrow> script \<Rightarrow> file_state \<Rightarrow> files_page \<Rightarrow> files_page" where
  "run_search_effect lg sc st page =
     (case search_effect page st of
        Clear_results \<Rightarrow> page\<lparr>fp_searchResults := None\<rparr>
      | Perform_search \<Rightarrow> page\<lparr>fp_searchResults := Some (performSearch lg sc (fp_debouncedSearchQuery page) st)\<rparr>
      | _ \<Rightarrow> page)"

section \<open>The list\<close>

definition name_matches :: "string \<Rightarrow> string \<Rightarrow> bool" where
  "name_matches query name \<longleftrightarrow> str_includes (to_lower name) (to_lower query)"

definition current_content :: "file_state \<Rightarrow> folder_contents option" where
  "current_content st = (case currentFolderId st of None \<Rightarrow> None | Some p \<Rightarrow> map_get (folderContents st) p)"

definition filteredFolders :: "files_page \<Rightarrow> file_state \<Rightarrow> folder list" where
  "filteredFolders page st =
     (case current_content st of
        None \<Rightarrow> []
      | Some content \<Rightarrow> filter (\<lambda>f. name_matches (fp_debouncedSearchQuery page) (fo_name f))
                          (List.map_filter (map_get (fs_folders st)) (fc_folders content)))"

definition filteredFiles :: "files_page \<Rightarrow> file_state \<Rightarrow> file_item list" where
  "filteredFiles page st =
     (case current_content st of
        None \<Rightarrow> []
      | Some content \<Rightarrow> filter (\<lambda>f. name_matches (fp_debouncedSearchQuery page) (fi_name f))
                          (List.map_filter (map_get (fs_files st)) (fc_files content)))"

definition in_order :: "sort_order \<Rightarrow> 'a list \<Rightarrow> 'a list" where
  "in_order order xs = (if order = Descending then rev xs else xs)"

definition displayedFolders :: "(string \<Rightarrow> 'o::linorder) \<Rightarrow> files_page \<Rightarrow> file_state \<Rightarrow> folder list" where
  "displayedFolders coll page st = in_order (fp_sortOrder page) (sort_key (\<lambda>f. coll (fo_name f)) (filteredFolders page st))"

definition displayedFiles :: "(string \<Rightarrow> 'o::linorder) \<Rightarrow> files_page \<Rightarrow> file_state \<Rightarrow> file_item list" where
  "displayedFiles coll page st =
     (let files = filteredFiles page st
      in in_order (fp_sortOrder page)
           (case fp_sortField page of
              By_name \<Rightarrow> sort_key (\<lambda>f. coll (fi_name f)) files
            | By_size \<Rightarrow> sort_key fi_size files
            | _ \<Rightarrow> sort_key (\<lambda>f. - int (fi_uploadedAt f)) files))"

section \<open>Selection and commands\<close>

definition toggleItemSelection :: "string \<Rightarrow> files_page \<Rightarrow> files_page" where
  "toggleItemSelection itemId page =
     page\<lparr>fp_selectedItems := (if itemId \<in> set (fp_selectedItems page) then removeAll itemId (fp_selectedItems page)
                                else fp_selectedItems page @ [itemId])\<rparr>"

text \<open>A set made of a list keeps the first of equal elements.\<close>

definition js_set :: "'a list \<Rightarrow> 'a list" where
  "js_set xs = rev (remdups (rev xs))"

definition selectAllItems :: "folder list \<Rightarrow> file_item list \<Rightarrow> files_page \<Rightarrow> files_page" where
  "selectAllItems folders files page = page\<lparr>fp_selectedItems := js_set (map fo_id folders @ map fi_id files)\<rparr>"

definition clear_selection :: "files_page \<Rightarrow> files_page" where
  "clear_selection page = page\<lparr>fp_selectedItems := []\<rparr>"

text \<open>\<open>answer\<close> is what the user enters into the prompt; the result is the call of \<open>renameItem\<close>.\<close>

definition handleRenameItem :: "string \<Rightarrow> bool \<Rightarrow> string option \<Rightarrow> file_state \<Rightarrow> (string \<times> item_kind \<times> string) option" where
  "handleRenameItem itemId isFolder answer st =
     (case (if isFolder then map_option fo_name (map_get (fs_folders st) itemId)
            else map_option fi_name (map_get (fs_files st) itemId)) of
        None \<Rightarrow> None
      | Some name \<Rightarrow>
          (case answer of
             None \<Rightarrow> None
           | Some newName \<Rightarrow>
               if newName \<noteq> '''' \<and> trim newName \<noteq> '''' \<and> trim newName \<noteq> name
               then Some (itemId, if isFolder then FolderKind else FileKind, trim newName) else None))"

definition items_to_delete :: "files_page \<Rightarrow> file_state \<Rightarrow> (string \<times> item_kind) list" where
  "items_to_delete page st =
     map (\<lambda>i. (i, if map_has (fs_folders st) i then FolderKind else FileKind)) (fp_selectedItems page)"

text \<open>The result has the call of \<open>deleteItems\<close>.\<close>

definition handleDeleteSelected :: "bool \<Rightarrow> file_state \<Rightarrow> files_page \<Rightarrow> files_page \<times> (string \<times> item_kind) list option" where
  "handleDeleteSelected confirmed st page =
     (let itemsToDelete = items_to_delete page st
      in if length itemsToDelete = 0 then (page, None)
         else if confirmed then (clear_selection page, Some itemsToDelete) else (page, None))"

definition handleCreateFolder :: "string option \<Rightarrow> file_state \<Rightarrow> (string \<times> folder_id) option" where
  "handleCreateFolder folderName st =
     (case folderName of
        None \<Rightarrow> None
      | Some n \<Rightarrow> if n \<noteq> '''' \<and> trim n \<noteq> '''' then map_option (\<lambda>p. (trim n, p)) (currentFolderId st) else None)"

definition handleViewModeChange :: "view_mode \<Rightarrow> files_page \<Rightarrow> files_page" where
  "handleViewModeChange mode page = (if mode = Chunks_view then clear_selection page else page)\<lparr>fp_viewMode := mode\<rparr>"

definition mobile_effect :: "bool \<Rightarrow> files_page \<Rightarrow> files_page" where
  "mobile_effect isMobile page = (if isMobile then page\<lparr>fp_viewMode := Grid_view\<rparr> else page)"

definition handleFileView :: "file_item + file_id \<Rightarrow> file_state \<Rightarrow> files_page \<Rightarrow> files_page" where
  "handleFileView fileOrFileId st page =
     (case (case fileOrFileId of Inl file \<Rightarrow> Some file | Inr i \<Rightarrow> map_get (fs_files st) i) of
        Some file \<Rightarrow> page\<lparr>fp_viewingFile := Some file\<rparr>
      | None \<Rightarrow> page)"

section \<open>Order\<close>

lemma in_order_mset [simp]: "mset (in_order order xs) = mset xs"
  by (simp add: in_order_def)

text \<open>
  The page lists exactly the known files of the current folder whose names match the search. In the default,
  descending order the largest or the last by name comes first; but by date, where the comparison is already
  descending and is reversed once more, the oldest comes first, and the newest under the ascending order.
\<close>

theorem files_listed_in_order:
  "mset (displayedFiles coll page st) = mset (filteredFiles page st)
   \<and> (case (fp_sortField page, fp_sortOrder page) of
        (By_name, Descending) \<Rightarrow> sorted (rev (map (\<lambda>f. coll (fi_name f)) (displayedFiles coll page st)))
      | (By_name, Ascending) \<Rightarrow> sorted (map (\<lambda>f. coll (fi_name f)) (displayedFiles coll page st))
      | (By_size, Descending) \<Rightarrow> sorted (rev (map fi_size (displayedFiles coll page st)))
      | (By_size, Ascending) \<Rightarrow> sorted (map fi_size (displayedFiles coll page st))
      | (_, Descending) \<Rightarrow> sorted (map fi_uploadedAt (displayedFiles coll page st))
      | (_, Ascending) \<Rightarrow> sorted (rev (map fi_uploadedAt (displayedFiles coll page st))))"
proof -
  have dates: "sorted (rev (map fi_uploadedAt (sort_key (\<lambda>f. - int (fi_uploadedAt f)) xs)))" for xs :: "file_item list"
  proof -
    have "sorted (map (\<lambda>f. - int (fi_uploadedAt f)) (sort_key (\<lambda>f. - int (fi_uploadedAt f)) xs))" by simp
    then show ?thesis by (simp add: sorted_wrt_rev sorted_wrt_map)
  qed
  show ?thesis
    using dates [of "filteredFiles page st"]
    by (simp add: displayedFiles_def in_order_def Let_def rev_map split: sort_field.split sort_order.split)
qed

text \<open>Folders are always in descending order of their names, since the order of the page never changes.\<close>

lemma folders_listed_in_order:
  "mset (displayedFolders coll page st) = mset (filteredFolders page st)
   \<and> (fp_sortOrder page = Descending \<longrightarrow> sorted (rev (map (\<lambda>f. coll (fo_name f)) (displayedFolders coll page st))))"
  by (simp add: displayedFolders_def in_order_def rev_map)

section \<open>Deleting\<close>

text \<open>
  A confirmed deletion hands over exactly the selected items, the known folders as folders and the rest as files, and
  clears the selection. Nothing looks at the folder that is open: what was selected before going to another one is
  deleted with the rest.
\<close>

lemma delete_selected:
  "fp_selectedItems page \<noteq> [] \<Longrightarrow> handleDeleteSelected True st page
     = (page\<lparr>fp_selectedItems := []\<rparr>,
        Some (map (\<lambda>i. (i, if i \<in> set (map_keys (fs_folders st)) then FolderKind else FileKind)) (fp_selectedItems page)))"
  by (simp add: handleDeleteSelected_def items_to_delete_def clear_selection_def map_has_iff)

lemma toggle_twice: "distinct (fp_selectedItems page) \<Longrightarrow>
    set (fp_selectedItems (toggleItemSelection i (toggleItemSelection i page))) = set (fp_selectedItems page)"
  by (auto simp: toggleItemSelection_def)

section \<open>The address settles\<close>

lemma url_settles:
  assumes "\<And>p. dec (enc p) = p" and "replace_url enc pathname pathFromUrl st = Some url" and "pathFromHistory st \<noteq> Some ''''"
  shows "url = (case pathFromHistory st of None \<Rightarrow> pathname | Some p \<Rightarrow> pathname @ ''?path='' @ enc p)
    \<and> replace_url enc pathname (map_option (\<lambda>p. dec (enc p)) (pathFromHistory st)) st = None"
  using assms by (auto simp: replace_url_def truthy_str_def split: if_splits option.split)

section \<open>Results of the search\<close>

text \<open>
  The index is sound when each chunk carries the identifier of the file it is stored under, as \<open>File_Store\<close> makes it.
\<close>

definition index_sound :: "file_state \<Rightarrow> bool" where
  "index_sound st \<longleftrightarrow> (\<forall>(fileId, chunks) \<in> set (searchableChunks st). \<forall>c \<in> set chunks. sc_id c = chunk_key fileId c)
     \<and> (\<forall>(fileId, file) \<in> set (fs_files st). fi_id file = fileId)"

lemma dash_no_digit [simp]: "CHR ''-'' \<notin> set (show_nat n)"
  by (rule show_nat_no_char) simp

lemma chunk_key_inj: "chunk_key f c = chunk_key f' c' \<Longrightarrow> f = f'"
proof -
  assume eq: "chunk_key f c = chunk_key f' c'"
  have digits: "takeWhile (\<lambda>x. x \<noteq> CHR ''-'') (rev (chunk_key g d)) = rev (show_nat (k_chunk_index d))" for g d
    using dash_no_digit [of "k_chunk_index d"] by (auto simp: chunk_key_def takeWhile_append)
  have "length (show_nat (k_chunk_index c)) = length (show_nat (k_chunk_index c'))"
    using digits [of f c] digits [of f' c'] by (metis eq length_rev)
  then show ?thesis using eq by (simp add: chunk_key_def)
qed

text \<open>What is known of a file.\<close>

definition info_of :: "file_state \<Rightarrow> file_id \<Rightarrow> (string \<times> file_id) option" where
  "info_of st f = map_option (\<lambda>file. (fi_name file, fi_id file)) (map_get (fs_files st) f)"

lemma fold_map_set_get:
  "map_get (fold (\<lambda>c. map_set (key c) v) cs m) k = (if k \<in> key ` set cs then Some v else map_get m k)"
  by (induction cs arbitrary: m) auto

lemma file_chunks_get:
  "map_get (file_chunks_info (fs_files st) e m) k
     = (if k \<in> chunk_key (fst e) ` set (snd e) \<and> info_of st (fst e) \<noteq> None then info_of st (fst e) else map_get m k)"
  by (simp add: file_chunks_info_def info_of_def fold_map_set_get split: option.split)

definition named_by :: "file_state \<Rightarrow> (file_id \<times> searchable_chunk list) list \<Rightarrow> string \<Rightarrow> string \<times> file_id \<Rightarrow> bool" where
  "named_by st es k v \<longleftrightarrow>
     (\<exists>f cs c. (f, cs) \<in> set es \<and> c \<in> set cs \<and> k = chunk_key f c \<and> info_of st f = Some v)"

lemma named_by_unique: "named_by st es k v \<Longrightarrow> named_by st es k w \<Longrightarrow> v = w"
  unfolding named_by_def by (metis chunk_key_inj option.inject)

lemma named_by_mono: "named_by st es k v \<Longrightarrow> named_by st (e # es) k v"
  by (auto simp: named_by_def)

lemma chunk_fold_sound:
  "map_get (fold (file_chunks_info (fs_files st)) es m) k = Some v \<Longrightarrow> map_get m k = Some v \<or> named_by st es k v"
proof (induction es arbitrary: m)
  case (Cons e es)
  obtain f cs where e: "e = (f, cs)" by (cases e)
  from Cons have "map_get (file_chunks_info (fs_files st) e m) k = Some v \<or> named_by st es k v" by simp
  then show ?case
  proof
    assume "map_get (file_chunks_info (fs_files st) e m) k = Some v"
    then have "map_get m k = Some v \<or> (k \<in> chunk_key f ` set cs \<and> info_of st f = Some v)"
      unfolding file_chunks_get e by (auto split: if_splits)
    then show ?thesis by (auto simp: named_by_def e)
  qed (simp add: named_by_mono)
qed simp

lemma chunk_fold_complete:
  "map_get m k \<noteq> None \<or> named_by st es k v \<Longrightarrow> map_get (fold (file_chunks_info (fs_files st)) es m) k \<noteq> None"
proof (induction es arbitrary: m)
  case Nil
  then show ?case by (simp add: named_by_def)
next
  case (Cons e es)
  obtain f cs where e: "e = (f, cs)" by (cases e)
  have "map_get (file_chunks_info (fs_files st) e m) k \<noteq> None \<or> named_by st es k v"
    using Cons.prems unfolding file_chunks_get e by (cases v) (auto simp: named_by_def)
  from Cons.IH [OF this] show ?case by simp
qed

lemma chunk_map_get: "map_get (chunkToFileMap st) k = Some v \<longleftrightarrow> named_by st (searchableChunks st) k v"
proof
  show "map_get (chunkToFileMap st) k = Some v \<Longrightarrow> named_by st (searchableChunks st) k v"
    using chunk_fold_sound [of st "searchableChunks st" "[]" k v] by (simp add: chunkToFileMap_def)
next
  assume n: "named_by st (searchableChunks st) k v"
  then obtain w where w: "map_get (chunkToFileMap st) k = Some w"
    using chunk_fold_complete [of "[]" k st "searchableChunks st" v] by (auto simp: chunkToFileMap_def)
  then have "named_by st (searchableChunks st) k w"
    using chunk_fold_sound [of st "searchableChunks st" "[]" k w] by (simp add: chunkToFileMap_def)
  with n w show "map_get (chunkToFileMap st) k = Some v" by (auto dest: named_by_unique)
qed

text \<open>
  C37: a search in the contents shows, in the order of the ranking and with their texts and scores, exactly the results
  that come from a file the store still knows, each with the name and identifier of that file.
\<close>

theorem search_results_named:
  assumes "index_sound st"
  shows "let found = runSearch lg sc query (map Indexed (concat (map_values (searchableChunks st)))) TextMode;
      shown = performSearch lg sc query st
    in map search_result.truncate shown
         = filter (\<lambda>r. \<exists>f cs c. (f, cs) \<in> set (searchableChunks st) \<and> c \<in> set cs \<and> sc_id c = s_id r
                       \<and> f \<in> set (map_keys (fs_files st))) found
       \<and> list_all (\<lambda>g. \<exists>f cs c file. (f, cs) \<in> set (searchableChunks st) \<and> c \<in> set cs \<and> sc_id c = s_id g
                       \<and> map_get (fs_files st) f = Some file \<and> gr_name g = fi_name file \<and> gr_fileId g = f) shown"
proof -
  let ?all = "concat (map_values (searchableChunks st))"
  let ?found = "runSearch lg sc query (map Indexed ?all) TextMode"
  let ?m = "chunkToFileMap st"
  let ?kept = "\<lambda>r. \<exists>f cs c. (f, cs) \<in> set (searchableChunks st) \<and> c \<in> set cs \<and> sc_id c = s_id r
                       \<and> f \<in> set (map_keys (fs_files st))"
  have ids: "sc_id c = chunk_key f c" if "(f, cs) \<in> set (searchableChunks st)" "c \<in> set cs" for f cs c
    using that assms by (fastforce simp: index_sound_def)
  have fid: "fi_id fl = f" if "map_get (fs_files st) f = Some fl" for f fl
    using map_get_mem [OF that] assms by (fastforce simp: index_sound_def)
  have known: "f \<in> set (map_keys (fs_files st)) \<longleftrightarrow> (\<exists>v. info_of st f = Some v)" for f
    using map_get_None_iff [of "fs_files st" f] by (auto simp: info_of_def)
  have kept: "?kept r \<longleftrightarrow> map_get ?m (s_id r) \<noteq> None" for r
  proof -
    have "?kept r \<longleftrightarrow> (\<exists>v. named_by st (searchableChunks st) (s_id r) v)"
      unfolding known named_by_def using ids by metis
    then show ?thesis unfolding chunk_map_get [symmetric] by blast
  qed
  have shown: "performSearch lg sc query st = concat (map (with_file_info ?m) ?found)"
    by (auto simp: performSearch_def runSearch_def textBasedSearch_def Let_def)
  have trunc: "map search_result.truncate (concat (map (with_file_info ?m) rs)) = filter ?kept rs" for rs
    unfolding kept by (induction rs) (auto simp: with_file_info_def search_result.defs split: option.split)
  have named: "\<exists>f cs c fl. (f, cs) \<in> set (searchableChunks st) \<and> c \<in> set cs \<and> sc_id c = s_id g
      \<and> map_get (fs_files st) f = Some fl \<and> gr_name g = fi_name fl \<and> gr_fileId g = f"
    if "g \<in> set (concat (map (with_file_info ?m) rs))" for g rs
  proof -
    from that obtain r name i where "map_get ?m (s_id r) = Some (name, i)"
        and g: "g = search_result.extend r \<lparr>gr_name = name, gr_fileId = i\<rparr>"
      by (auto simp: with_file_info_def split: option.splits dest!: sym [of "Some _"])
    then show ?thesis
      using ids fid by (fastforce simp: chunk_map_get named_by_def info_of_def g search_result.defs)
  qed
  show ?thesis unfolding Let_def shown using trunc named by (simp add: list_all_iff)
qed

definition example_index :: file_state where
  "example_index = initialFileState
     \<lparr>fs_files := [(''f'', \<lparr>fi_id = ''f'', fi_name = ''n.md'', fi_size = 2, fi_uploadedAt = 0, fi_mimeType = ''text/markdown'',
                            fi_parentId = ''r'', fi_chunks = []\<rparr>)],
      searchableChunks := [(''f'', [\<lparr>k_chunk_index = 0, k_start_char = 0, k_end_char = 2, k_embedding = [],
                                     sc_id = ''f-0'', sc_fileId = ''f'', sc_text = ''hi''\<rparr>])]\<rparr>"

theorem search_results_named_witness:
  "index_sound example_index
   \<and> map search_result.truncate (performSearch example_log latin1_script ''hi'' example_index)
      = filter (\<lambda>r. \<exists>f cs c. (f, cs) \<in> set (searchableChunks example_index) \<and> c \<in> set cs \<and> sc_id c = s_id r
                       \<and> f \<in> set (map_keys (fs_files example_index)))
          (runSearch example_log latin1_script ''hi'' (map Indexed (concat (map_values (searchableChunks example_index)))) TextMode)"
proof -
  have "show_nat 0 = ''0''" by code_simp
  then have "index_sound example_index"
    by (simp add: index_sound_def example_index_def chunk_key_def)
  with search_results_named [OF this, of example_log latin1_script "''hi''"] show ?thesis
    unfolding Let_def by blast
qed

end
