(* ===== verification/Governance_Forms.thy ===== *)
theory Governance_Forms
  imports Governance_Store Backend_Mappers Traces
begin

text \<open>
  The forms of the governance page, \<open>src/gpt_frontend/src/components/settings/tabs/GovernanceTab\<close>: the navigation of
  \<open>GovernanceTab.tsx\<close> with the restoring of the preset models, \<open>ModelForm.tsx\<close> and \<open>ModelsTab.tsx\<close>,
  \<open>RegistryTab.tsx\<close>, \<open>ManagersTab.tsx\<close>, \<open>PolicyForm.tsx\<close> and \<open>VersionsForm.tsx\<close>. What a form calls is an action of
  \<open>Governance_Store\<close>.
\<close>

section \<open>Navigation\<close>

datatype gov_page = Registry_page | Versions_page | Policy_page | Managers_page | Canisters_page | Models_page
datatype gov_view = List_mode | Form_mode
datatype generation = Milan | Genoa | Turin

record gov_tab =
  gt_activeTab :: gov_page
  gt_viewMode :: gov_view
  gt_direction :: int
  gt_editingModel :: "model option"
  gt_editingGeneration :: "generation option"

definition initial_tab :: gov_tab where
  "initial_tab = \<lparr>gt_activeTab = Registry_page, gt_viewMode = List_mode, gt_direction = 1, gt_editingModel = None,
                  gt_editingGeneration = None\<rparr>"

definition handleTabChange :: "gov_page \<Rightarrow> gov_tab \<Rightarrow> gov_tab" where
  "handleTabChange page t =
     (if page = gt_activeTab t then t else t\<lparr>gt_activeTab := page, gt_viewMode := List_mode, gt_direction := 1\<rparr>)"

definition handleEnterForm :: "gov_tab \<Rightarrow> gov_tab" where
  "handleEnterForm t = t\<lparr>gt_direction := 1, gt_viewMode := Form_mode\<rparr>"

definition handleExitForm :: "gov_tab \<Rightarrow> gov_tab" where
  "handleExitForm t =
     t\<lparr>gt_direction := -1, gt_viewMode := List_mode, gt_editingModel := None, gt_editingGeneration := None\<rparr>"

definition handleEditModel :: "model \<Rightarrow> gov_tab \<Rightarrow> gov_tab" where
  "handleEditModel m t = handleEnterForm (t\<lparr>gt_editingModel := Some m\<rparr>)"

definition handleEditVersion :: "generation \<Rightarrow> gov_tab \<Rightarrow> gov_tab" where
  "handleEditVersion g t = handleEnterForm (t\<lparr>gt_editingGeneration := Some g\<rparr>)"

definition handleModelFormSubmit :: "model_preset \<Rightarrow> gov_tab \<Rightarrow> gov_action" where
  "handleModelFormSubmit preset t = (if gt_editingModel t \<noteq> None then UpdateModel preset else AddModel preset)"

text \<open>
  The tabs are on the screen in the list mode only, and so are the buttons that open a form; the form that succeeds
  closes whatever form is open then.
\<close>

datatype tab_event = Tab_chosen gov_page | Form_entered | Model_picked model | Version_picked generation | Form_left | Form_done

fun exec_tab :: "tab_event \<Rightarrow> gov_tab \<Rightarrow> gov_tab option" where
  "exec_tab (Tab_chosen page) t = (if gt_viewMode t = List_mode then Some (handleTabChange page t) else None)"
| "exec_tab Form_entered t =
     (if gt_viewMode t = List_mode \<and> gt_activeTab t \<in> {Registry_page, Managers_page, Policy_page, Models_page}
      then Some (handleEnterForm t) else None)"
| "exec_tab (Model_picked m) t =
     (if gt_viewMode t = List_mode \<and> gt_activeTab t = Models_page then Some (handleEditModel m t) else None)"
| "exec_tab (Version_picked g) t =
     (if gt_viewMode t = List_mode \<and> gt_activeTab t = Versions_page then Some (handleEditVersion g t) else None)"
| "exec_tab Form_left t = (if gt_viewMode t = Form_mode then Some (handleExitForm t) else None)"
| "exec_tab Form_done t = Some (handleExitForm t)"

definition tab_step :: "gov_tab \<Rightarrow> tab_event \<Rightarrow> gov_tab \<Rightarrow> bool" where
  "tab_step t e t' \<longleftrightarrow> exec_tab e t = Some t'"

section \<open>Models\<close>

text \<open>
  A number field is \<open>None\<close> while its text is no number. The form shows prices for a million tokens: \<open>rnd\<close> is what a double
  keeps of an exact product or quotient, so going there and back need not give the same price. What the browser checks
  of the fields before it submits a form (required, steps) is not modelled but for the missing numbers.
\<close>

record model_form =
  mf_modelId :: string
  mf_name :: string
  mf_description :: string
  mf_maker :: string
  mf_provider :: string
  mf_providerModel :: string
  mf_providerEndpoint :: string
  mf_maxContext :: "rat option"
  mf_maxOutput :: "rat option"
  mf_inputPrice :: "rat option"
  mf_outputPrice :: "rat option"
  mf_maxImageAttachments :: "rat option"
  mf_maxTools :: "rat option"
  mf_extraBodyJson :: string
  mf_isReasoning :: bool
  mf_isEmbedding :: bool
  mf_isFeatured :: bool

definition edit_form :: "(rat \<Rightarrow> rat) \<Rightarrow> model \<Rightarrow> model_form" where
  "edit_form rnd m =
     \<lparr>mf_modelId = md_modelId m, mf_name = md_name m, mf_description = '''', mf_maker = md_maker m,
      mf_provider = md_provider m, mf_providerModel = md_providerModel m, mf_providerEndpoint = md_providerEndpoint m,
      mf_maxContext = Some (of_int (md_maxContext m)), mf_maxOutput = Some (of_int (md_maxOutput m)),
      mf_inputPrice = Some (rnd (md_inputTokenPrice m * 1000000)),
      mf_outputPrice = Some (rnd (md_outputTokenPrice m * 1000000)),
      mf_maxImageAttachments = Some (of_int (md_max_image_attachments m)), mf_maxTools = Some (of_int (md_max_tools m)),
      mf_extraBodyJson = (case md_extra_body_json m of None \<Rightarrow> '''' | Some j \<Rightarrow> j),
      mf_isReasoning = md_isReasoning m, mf_isEmbedding = md_isEmbedding m, mf_isFeatured = md_isFeatured m\<rparr>"

definition new_form :: model_form where
  "new_form =
     \<lparr>mf_modelId = '''', mf_name = '''', mf_description = ''Custom Model'', mf_maker = ''openai'', mf_provider = '''',
      mf_providerModel = '''', mf_providerEndpoint = '''', mf_maxContext = Some 128000, mf_maxOutput = Some 4096,
      mf_inputPrice = Some 0, mf_outputPrice = Some 0, mf_maxImageAttachments = Some 0, mf_maxTools = Some 0,
      mf_extraBodyJson = '''', mf_isReasoning = False, mf_isEmbedding = False, mf_isFeatured = True\<rparr>"

definition first_form :: "(rat \<Rightarrow> rat) \<Rightarrow> model option \<Rightarrow> model_form" where
  "first_form rnd modelToEdit = (case modelToEdit of Some m \<Rightarrow> edit_form rnd m | None \<Rightarrow> new_form)"

text \<open>The effect that runs when the identifier of the edited model changes.\<close>

definition form_effect :: "(rat \<Rightarrow> rat) \<Rightarrow> model option \<Rightarrow> model_form \<Rightarrow> model_form" where
  "form_effect rnd modelToEdit f =
     (case modelToEdit of Some m \<Rightarrow> if md_modelId m \<noteq> mf_modelId f then edit_form rnd m else f | None \<Rightarrow> f)"

definition check_reasoning :: "bool \<Rightarrow> model_form \<Rightarrow> model_form" where
  "check_reasoning b f = f\<lparr>mf_isReasoning := b, mf_isEmbedding := (if b then False else mf_isEmbedding f)\<rparr>"

definition check_embedding :: "bool \<Rightarrow> model_form \<Rightarrow> model_form" where
  "check_embedding b f = f\<lparr>mf_isEmbedding := b, mf_isReasoning := (if b then False else mf_isReasoning f)\<rparr>"

definition isFormValid :: "model_form \<Rightarrow> bool" where
  "isFormValid f \<longleftrightarrow> mf_modelId f \<noteq> '''' \<and> mf_name f \<noteq> '''' \<and> mf_provider f \<noteq> ''''"

text \<open>The preset a form submits; \<open>None\<close> when a number is missing: the fields are required, so the form is not submitted then.\<close>

definition form_preset :: "(rat \<Rightarrow> rat) \<Rightarrow> model_form \<Rightarrow> model_preset option" where
  "form_preset rnd f =
     (case (mf_maxContext f, mf_maxOutput f, mf_inputPrice f, mf_outputPrice f, mf_maxImageAttachments f, mf_maxTools f) of
        (Some ctx, Some out, Some inPrice, Some outPrice, Some images, Some tools) \<Rightarrow>
          Some \<lparr>mp_model_id = mf_modelId f, mp_name = mf_name f, mp_description = mf_description f,
                mp_max_context = ctx, mp_max_output = out,
                mp_input_token_price = rnd (inPrice / 1000000), mp_output_token_price = rnd (outPrice / 1000000),
                mp_maker = mf_maker f, mp_provider = mf_provider f, mp_provider_model = mf_providerModel f,
                mp_provider_endpoint = mf_providerEndpoint f, mp_max_image_attachments = images, mp_max_tools = tools,
                mp_aa_score = [], mp_release_date = [], mp_status = Preset_Active,
                mp_extra_body_json = (if mf_extraBodyJson f = '''' then None else Some (mf_extraBodyJson f)),
                mp_is_reasoning = Some (mf_isReasoning f), mp_is_embedding = Some (mf_isEmbedding f),
                mp_is_featured = Some (mf_isFeatured f)\<rparr>
      | _ \<Rightarrow> None)"

text \<open>\<open>handleToggleStatus\<close> of the list of models.\<close>

definition toggled_preset :: "model \<Rightarrow> model_preset" where
  "toggled_preset m =
     \<lparr>mp_model_id = md_modelId m, mp_name = md_name m, mp_description = '''',
      mp_max_context = of_int (md_maxContext m), mp_max_output = of_int (md_maxOutput m),
      mp_input_token_price = md_inputTokenPrice m, mp_output_token_price = md_outputTokenPrice m,
      mp_maker = md_maker m, mp_provider = md_provider m, mp_provider_model = md_providerModel m,
      mp_provider_endpoint = md_providerEndpoint m, mp_max_image_attachments = of_int (md_max_image_attachments m),
      mp_max_tools = of_int (md_max_tools m),
      mp_aa_score = (case md_aaScore m of Some s \<Rightarrow> [s] | None \<Rightarrow> []),
      mp_release_date = (if truthy_str (md_releaseDate m) then [the (md_releaseDate m)] else []),
      mp_status = (if md_status m = Active then Preset_Paused else Preset_Active),
      mp_extra_body_json = md_extra_body_json m, mp_is_reasoning = Some (md_isReasoning m),
      mp_is_embedding = Some (md_isEmbedding m), mp_is_featured = Some (md_isFeatured m)\<rparr>"

text \<open>By provider, then by name; \<open>coll\<close> is the collation key of a text.\<close>

definition sortedModels :: "(string \<Rightarrow> 'o::linorder) \<Rightarrow> model list \<Rightarrow> model list" where
  "sortedModels coll models = sort_key (\<lambda>m. coll (md_provider m)) (sort_key (\<lambda>m. coll (md_name m)) models)"

section \<open>Restoring the presets\<close>

text \<open>\<open>add p\<close> is how \<open>addModel\<close> ends for a preset: an error, or nothing.\<close>

fun restore_loop :: "(model_preset \<Rightarrow> thrown option) \<Rightarrow> string list \<Rightarrow> model_preset list \<Rightarrow> model_preset list \<times> nat" where
  "restore_loop add existingIds [] = ([], 0)"
| "restore_loop add existingIds (preset # presets) =
     (let (calls, added) = restore_loop add existingIds presets
      in if mp_model_id preset \<notin> set existingIds
         then (preset # calls, if add preset = None then added + 1 else added) else (calls, added))"

text \<open>The calls of \<open>addModel\<close> and the message, or nothing without confirmation.\<close>

definition handleRestoreDefaults ::
  "bool \<Rightarrow> model list \<Rightarrow> model_preset list \<Rightarrow> (model_preset \<Rightarrow> thrown option) \<Rightarrow> (gov_action list \<times> string) option" where
  "handleRestoreDefaults confirmed models presets add =
     (if \<not> confirmed then None
      else let (calls, added) = restore_loop add (map md_modelId models) presets
           in Some (map AddModel calls,
                    if added > 0 then ''Restored '' @ show_nat added @ '' models.'' else ''All defaults present.''))"

section \<open>Measurements and managers\<close>

definition is_lower_hex :: "char \<Rightarrow> bool" where
  "is_lower_hex c \<longleftrightarrow> c \<in> set ''0123456789abcdef''"

text \<open>\<open>expected_len\<close> is \<open>expected_measurement_len\<close> of the requirements, when they are known.\<close>

definition expectedLength :: "nat option \<Rightarrow> nat" where
  "expectedLength expected_len = (case expected_len of Some n \<Rightarrow> n * 2 | None \<Rightarrow> 96)"

definition submit_measurement :: "nat option \<Rightarrow> string \<Rightarrow> string \<Rightarrow> string + gov_action" where
  "submit_measurement expected_len hex label =
     (let cleanHex = to_lower (trim hex); cleanLabel = trim label
      in if cleanHex = '''' \<or> cleanLabel = '''' then Inl ''All fields are required.''
         else if length cleanHex \<noteq> expectedLength expected_len
         then Inl (''Hash must be exactly '' @ show_nat (expectedLength expected_len) @ '' hex characters.'')
         else if \<not> list_all is_lower_hex cleanHex then Inl ''Invalid hex characters.''
         else Inr (AddMeasurement cleanHex cleanLabel))"

datatype measurement_action = Deprecate | Revoke | Activate | Delete_measurement

definition measurement_request :: "measurement_action \<Rightarrow> bool \<Rightarrow> string \<Rightarrow> gov_action option" where
  "measurement_request action confirmed hex =
     (if action = Delete_measurement then (if confirmed then Some (RemoveMeasurement hex) else None)
      else Some (UpdateMeasurementStatus hex
             (JObj [(case action of Activate \<Rightarrow> ''Active'' | Revoke \<Rightarrow> ''Revoked'' | _ \<Rightarrow> ''Deprecated'', JNull)])))"

definition submit_manager :: "(string \<Rightarrow> thrown + principal) \<Rightarrow> string \<Rightarrow> string + gov_action" where
  "submit_manager fromText newPrincipal =
     (let clean = trim newPrincipal
      in if clean = '''' then Inl ''Principal ID required.''
         else case fromText clean of
                Inl e \<Rightarrow> Inl (if th_is_error e then th_text e else ''Invalid Principal ID.'')
              | Inr _ \<Rightarrow> Inr (AddManager clean))"

text \<open>The question asked before a manager is removed, and the call after the answer.\<close>

definition remove_question :: "principal option \<Rightarrow> principal \<Rightarrow> string" where
  "remove_question currentUser p =
     (if Some p = currentUser
      then ''WARNING: You are removing YOURSELF. You will lose access immediately. Continue?''
      else ''Remove this manager?'')"

definition remove_manager :: "bool \<Rightarrow> principal \<Rightarrow> gov_action option" where
  "remove_manager confirmed p = (if confirmed then Some (RemoveManager p) else None)"

section \<open>Policies\<close>

text \<open>\<open>{...obj, [key]: v}\<close>\<close>

fun set_prop :: "string \<Rightarrow> jsval \<Rightarrow> jsval \<Rightarrow> jsval" where
  "set_prop k v (JObj kvs) = JObj (map_set k v kvs)"
| "set_prop k v _ = JObj [(k, v)]"

fun js_not :: "jsval \<Rightarrow> jsval" where
  "js_not (JBool b) = JBool (\<not> b)"
| "js_not JUndef = JBool True"
| "js_not JNull = JBool True"
| "js_not (JNum n) = JBool (n = 0)"
| "js_not (JBig n) = JBool (n = 0)"
| "js_not (JStr s) = JBool (s = '''')"
| "js_not _ = JBool False"

definition handleFlagToggle :: "string \<Rightarrow> jsval \<Rightarrow> jsval" where
  "handleFlagToggle key localPolicy = set_prop key (js_not (get_prop localPolicy key)) localPolicy"

text \<open>\<open>parseInt\<close>: blanks, a sign, \<open>0x\<close>, then the longest row of digits.\<close>

definition parseInt :: "string \<Rightarrow> int option" where
  "parseInt s =
     (let t = trim_start s;
          neg = prefix ''-'' t;
          r = (if prefix ''-'' t \<or> prefix ''+'' t then tl t else t);
          hex = prefix ''0x'' r \<or> prefix ''0X'' r;
          base = (if hex then 16 else 10);
          ds = takeWhile (\<lambda>c. digit_val base c \<noteq> None) (if hex then drop 2 r else r)
      in map_option (\<lambda>n. if neg then - int n else int n) (parse_nat base ds))"

definition parseInt_or_0 :: "string \<Rightarrow> int" where
  "parseInt_or_0 s = (case parseInt s of Some n \<Rightarrow> n | None \<Rightarrow> 0)"

datatype policy_param = Min_report_version | Max_attestation_age_ns

definition handleParamChange :: "policy_param \<Rightarrow> string \<Rightarrow> jsval \<Rightarrow> jsval" where
  "handleParamChange field value localPolicy =
     (case field of
        Min_report_version \<Rightarrow> set_prop ''min_report_version'' (JNum (of_int (parseInt_or_0 value))) localPolicy
      | Max_attestation_age_ns \<Rightarrow>
          (case parse_bigint (if value = '''' then ''0'' else value) of
             Some n \<Rightarrow> set_prop ''max_attestation_age_ns'' (JBig n) localPolicy
           | None \<Rightarrow> localPolicy))"

fun policy_key :: "generation \<Rightarrow> string" where
  "policy_key Milan = ''milan_policy''"
| "policy_key Genoa = ''genoa_policy''"
| "policy_key Turin = ''turin_policy''"

definition getValue :: "generation \<Rightarrow> string \<Rightarrow> jsval \<Rightarrow> jsval" where
  "getValue g field localPolicy =
     (let genPolicy = get_prop localPolicy (policy_key g)
      in if field = ''min_guest_svn'' then get_prop genPolicy field else get_prop (get_prop genPolicy ''min_tcb'') field)"

definition handleInputChange :: "generation \<Rightarrow> string \<Rightarrow> jsval \<Rightarrow> jsval \<Rightarrow> jsval" where
  "handleInputChange g field value localPolicy =
     (let genPolicy = get_prop localPolicy (policy_key g);
          targetGen = (if field = ''min_guest_svn'' then set_prop field value genPolicy
                       else set_prop ''min_tcb'' (set_prop field value (get_prop genPolicy ''min_tcb'')) genPolicy)
      in set_prop (policy_key g) targetGen localPolicy)"

text \<open>The fields shown for a generation.\<close>

definition version_fields :: "generation \<Rightarrow> string list" where
  "version_fields g =
     (let rows = [''snp'', ''microcode'', ''tee'', ''bootloader'', ''min_guest_svn'']
      in if g = Turin then take 2 rows @ [''fmc''] @ drop 2 rows else rows)"

fun own_fields :: "jsval \<Rightarrow> (string \<times> jsval) list" where
  "own_fields (JObj kvs) = kvs"
| "own_fields _ = []"

text \<open>\<open>const { measurements, ...policies } = localPolicy\<close>\<close>

definition submit_policy :: "jsval \<Rightarrow> gov_action" where
  "submit_policy localPolicy = UpdateAttestationPolicies (filter (\<lambda>(k, _). k \<noteq> ''measurements'') (own_fields localPolicy))"

end
