(* ===== verification/Governance_Forms_Props.thy ===== *)
theory Governance_Forms_Props
  imports Governance_Forms Governance_Props
begin

text \<open>
  What the forms of the governance page send: a form opened to add never updates, edits of a policy change one field
  and stay of the declared type, and what saving a model loses.
\<close>

section \<open>Navigation\<close>

interpretation tab: determined tab_step exec_tab
  by unfold_locales (simp add: tab_step_def)

text \<open>How the form that is open was opened.\<close>

fun opener :: "tab_event \<Rightarrow> tab_event option \<Rightarrow> tab_event option" where
  "opener Form_left _ = None"
| "opener Form_done _ = None"
| "opener (Tab_chosen _) _ = None"
| "opener e _ = Some e"

definition opened_by :: "tab_event list \<Rightarrow> tab_event option" where
  "opened_by es = fold opener es None"

definition tab_sound :: "tab_event list \<Rightarrow> gov_tab \<Rightarrow> bool" where
  "tab_sound es t \<longleftrightarrow>
     (gt_viewMode t = Form_mode \<longleftrightarrow> opened_by es \<noteq> None)
     \<and> gt_editingModel t = (case opened_by es of Some (Model_picked m) \<Rightarrow> Some m | _ \<Rightarrow> None)
     \<and> gt_editingGeneration t = (case opened_by es of Some (Version_picked g) \<Rightarrow> Some g | _ \<Rightarrow> None)
     \<and> (gt_editingModel t \<noteq> None \<longrightarrow> gt_activeTab t = Models_page)"

interpretation tab: traced_invariant tab_step tab_sound
proof
  fix es t e t'
  assume inv: "tab_sound es t" and "tab_step t e t'"
  then have "exec_tab e t = Some t'" by (simp add: tab_step_def)
  with inv show "tab_sound (es @ [e]) t'"
    by (cases e; cases "opened_by es")
      (auto simp: tab_sound_def opened_by_def handleTabChange_def handleEnterForm_def handleExitForm_def handleEditModel_def
        handleEditVersion_def split: if_splits)
qed

lemma initial_tab_sound [simp]: "tab_sound [] initial_tab"
  by (simp add: tab_sound_def opened_by_def initial_tab_def)

text \<open>
  In every run of the page the form of the models updates a model exactly when it was opened by picking that one; a
  form opened to add a model adds it.
\<close>

lemma model_form_target:
  assumes "trace_run tab_step initial_tab es t"
  shows "handleModelFormSubmit preset t
     = (case opened_by es of Some (Model_picked _) \<Rightarrow> UpdateModel preset | _ \<Rightarrow> AddModel preset)"
  using tab.inv_run [OF assms initial_tab_sound]
  by (auto simp: tab_sound_def handleModelFormSubmit_def split: option.splits tab_event.splits)

section \<open>Models\<close>

text \<open>The preset that says of a model what the canister reported, but for the description, which it does not report.\<close>

definition same_preset :: "backend_model \<Rightarrow> model_preset" where
  "same_preset b =
     \<lparr>mp_model_id = bmd_model_id b, mp_name = bmd_name b, mp_description = '''',
      mp_max_context = of_int (bmd_max_context b), mp_max_output = of_int (bmd_max_output b),
      mp_input_token_price = bmd_input_token_price b, mp_output_token_price = bmd_output_token_price b,
      mp_maker = bmd_maker b, mp_provider = bmd_provider b, mp_provider_model = bmd_provider_model b,
      mp_provider_endpoint = bmd_provider_endpoint b,
      mp_max_image_attachments = of_int (bmd_max_image_attachments b), mp_max_tools = of_int (bmd_max_tools b),
      mp_aa_score = bmd_aa_score b, mp_release_date = bmd_release_date b,
      mp_status = (if bmd_status b = ''Active'' then Preset_Active else Preset_Paused),
      mp_extra_body_json = fromOptArr (bmd_extra_body_json b), mp_is_reasoning = Some (bmd_is_reasoning b),
      mp_is_embedding = Some (bmd_is_embedding b), mp_is_featured = Some (bmd_is_featured b)\<rparr>"

text \<open>A price to the form and back.\<close>

definition shown_price :: "(rat \<Rightarrow> rat) \<Rightarrow> rat \<Rightarrow> rat" where
  "shown_price rnd p = rnd (rnd (p * 1000000) / 1000000)"

lemma shown_price_exact: "shown_price id p = p"
  by (simp add: shown_price_def)

text \<open>
  C38: switching a model between active and paused sends what the canister reported of it with the status exchanged,
  but without a description, with the maker in lower case and without a release date that is empty. Opening its form
  and saving without a change sends besides no score, no release date and no empty JSON, the prices as they come back
  from their multiplication and division by a million, and the status active, even if the model was paused. The score
  and the release date are optional values of the canister, so at most one each.
\<close>

theorem model_edits_forget:
  assumes "length (bmd_aa_score b) \<le> 1" "length (bmd_release_date b) \<le> 1"
  shows "toggled_preset (mapBackendModelToFrontend b)
       = (same_preset b)\<lparr>mp_maker := to_lower (bmd_maker b),
           mp_release_date := filter (\<lambda>d. d \<noteq> '''') (bmd_release_date b),
           mp_status := (if bmd_status b = ''Active'' then Preset_Paused else Preset_Active)\<rparr>
     \<and> form_preset rnd (first_form rnd (Some (mapBackendModelToFrontend b)))
       = Some ((same_preset b)\<lparr>mp_maker := to_lower (bmd_maker b), mp_aa_score := [], mp_release_date := [],
           mp_input_token_price := shown_price rnd (bmd_input_token_price b),
           mp_output_token_price := shown_price rnd (bmd_output_token_price b),
           mp_extra_body_json := (if fromOptArr (bmd_extra_body_json b) = Some '''' then None else fromOptArr (bmd_extra_body_json b)),
           mp_status := Preset_Active\<rparr>)"
proof -
  have score: "bmd_aa_score b = [] \<or> (\<exists>s. bmd_aa_score b = [s])"
    using assms(1) by (cases "bmd_aa_score b") auto
  have date: "bmd_release_date b = [] \<or> (\<exists>d. bmd_release_date b = [d])"
    using assms(2) by (cases "bmd_release_date b") auto
  have extra: "bmd_extra_body_json b = [] \<or> (\<exists>j js. bmd_extra_body_json b = j # js)"
    by (cases "bmd_extra_body_json b") auto
  show ?thesis
    using score date extra
    by (auto simp: toggled_preset_def form_preset_def first_form_def edit_form_def same_preset_def shown_price_def
        mapBackendModelToFrontend_def truthy_str_def)
qed

theorem model_edits_forget_witness:
  "mp_status (toggled_preset (mapBackendModelToFrontend
       \<lparr>bmd_model_id = ''m'', bmd_name = ''M'', bmd_provider = ''p'', bmd_provider_model = ''pm'', bmd_provider_endpoint = ''e'',
        bmd_maker = ''x'', bmd_max_context = 1, bmd_max_output = 1, bmd_input_token_price = 0, bmd_output_token_price = 0,
        bmd_max_image_attachments = 0, bmd_max_tools = 0, bmd_aa_score = [7], bmd_release_date = [''2025''],
        bmd_status = ''Paused'', bmd_extra_body_json = [], bmd_is_reasoning = False, bmd_is_embedding = False,
        bmd_is_featured = True\<rparr>)) = Preset_Active"
  using model_edits_forget [of
      "\<lparr>bmd_model_id = ''m'', bmd_name = ''M'', bmd_provider = ''p'', bmd_provider_model = ''pm'', bmd_provider_endpoint = ''e'',
        bmd_maker = ''x'', bmd_max_context = 1, bmd_max_output = 1, bmd_input_token_price = 0, bmd_output_token_price = 0,
        bmd_max_image_attachments = 0, bmd_max_tools = 0, bmd_aa_score = [7], bmd_release_date = [''2025''],
        bmd_status = ''Paused'', bmd_extra_body_json = [], bmd_is_reasoning = False, bmd_is_embedding = False,
        bmd_is_featured = True\<rparr>"]
  by simp

section \<open>Restoring\<close>

text \<open>
  Restoring adds exactly the presets whose identifiers no model has, each once, whatever the others' outcome, and
  counts those that were added.
\<close>

lemma restore_loop_filter:
  "restore_loop add ids presets
     = (let missing = filter (\<lambda>p. mp_model_id p \<notin> set ids) presets
        in (missing, length (filter (\<lambda>p. add p = None) missing)))"
  by (induction presets) (auto simp: Let_def split: prod.splits)

lemma restore_adds_missing:
  "handleRestoreDefaults True models presets add = Some (calls, msg) \<Longrightarrow>
     calls = map AddModel (filter (\<lambda>p. mp_model_id p \<notin> md_modelId ` set models) presets)"
  by (auto simp: handleRestoreDefaults_def restore_loop_filter Let_def)

section \<open>Measurements\<close>

text \<open>A measurement that is accepted has as many lower-case hexadecimal digits as the requirements ask for.\<close>

lemma accepted_measurement:
  "submit_measurement expected hex label = Inr a \<Longrightarrow>
     \<exists>h l. a = AddMeasurement h l \<and> length h = expectedLength expected \<and> list_all is_lower_hex h \<and> l \<noteq> ''''"
  by (auto simp: submit_measurement_def Let_def split: if_splits)

section \<open>Policies\<close>

lemma get_set_prop [simp]: "get_prop (set_prop k v obj) k' = (if k' = k then v else get_prop obj k')"
  by (cases obj) auto

lemma is_object_set_prop [simp]: "is_object (set_prop k v obj)"
  by (cases obj) auto

lemma get_prop_without:
  "k' \<noteq> k \<Longrightarrow> get_prop (JObj (filter (\<lambda>(j, _). j \<noteq> k) (own_fields obj))) k' = get_prop obj k'"
proof -
  assume k: "k' \<noteq> k"
  have "map_of (filter (\<lambda>(j, _). j \<noteq> k) kvs) k' = map_of kvs k'" for kvs :: "(string \<times> jsval) list"
    using k by (induction kvs) auto
  then show ?thesis by (cases obj) auto
qed

lemma policy_key_eq [simp]: "policy_key g = policy_key g' \<longleftrightarrow> g = g'"
  by (cases g; cases g') simp_all

definition is_request :: "jsval \<Rightarrow> bool" where
  "is_request = candid_value X_UpdateAttestationPoliciesRequest"

text \<open>
  An edit of a version changes the one field of the one generation, and nothing else that the form shows of any
  generation; if the policy has the type the canister declares and the value fits the field, what is submitted has
  that type too and has the new value, and it has no measurements.
\<close>

lemma version_edit_submitted:
  assumes "is_request p" and "field \<in> set (version_fields g)" and "0 \<le> n" and "n < 256"
  shows "let p' = handleInputChange g field (JNum (of_int n)) p in
      (\<forall>h f. getValue h f p' = (if h = g \<and> f = field then JNum (of_int n) else getValue h f p))
      \<and> (\<exists>kvs. submit_policy p' = UpdateAttestationPolicies kvs \<and> is_request (JObj kvs)
           \<and> ''measurements'' \<notin> fst ` set kvs
           \<and> getValue g field (JObj kvs) = JNum (of_int n))"
proof -
  let ?v = "JNum (of_int n)"
  let ?p' = "handleInputChange g field ?v p"
  have shown: "getValue h f ?p' = (if h = g \<and> f = field then ?v else getValue h f p)" for h f
    by (simp add: getValue_def handleInputChange_def Let_def)
  have fields: "field \<in> {''snp'', ''microcode'', ''tee'', ''bootloader'', ''min_guest_svn'', ''fmc''}"
    using assms(2) by (cases g) (auto simp: version_fields_def Let_def)
  have n32: "n < 4294967296" using assms(4) by simp
  have typed: "is_request ?p'"
    using assms(1,3,4) n32 fields
    by (cases g) (auto simp: is_request_def X_UpdateAttestationPoliciesRequest_def X_GenTcbRequirements_def
        X_TcbVersion_def handleInputChange_def Let_def)
  let ?kvs = "filter (\<lambda>(k, _). k \<noteq> ''measurements'') (own_fields ?p')"
  have other: "get_prop (JObj ?kvs) k = get_prop ?p' k" if "k \<noteq> ''measurements''" for k
    using get_prop_without [OF that, of ?p'] by simp
  have request: "is_request (JObj ?kvs)"
    using typed by (simp add: is_request_def X_UpdateAttestationPoliciesRequest_def other del: get_prop.simps)
  have "policy_key g \<noteq> ''measurements''" by (cases g) simp_all
  then have "getValue g field (JObj ?kvs) = getValue g field ?p'"
    by (simp add: getValue_def other Let_def del: get_prop.simps)
  then show ?thesis
    using shown request by (auto simp: submit_policy_def Let_def)
qed

definition example_generation :: jsval where
  "example_generation =
     JObj [(''min_tcb'', JObj [(''fmc'', JNum 0), (''snp'', JNum 0), (''tee'', JNum 0), (''bootloader'', JNum 0), (''microcode'', JNum 0)]),
           (''min_guest_svn'', JNum 0)]"

definition example_policy :: jsval where
  "example_policy =
     JObj [(''max_attestation_age_ns'', JBig 1), (''min_report_version'', JNum 0), (''require_ciphertext_hiding_enabled'', JBool True),
           (''require_tsme_disabled'', JBool True), (''genoa_policy'', example_generation), (''expected_measurement_len'', JBig 48),
           (''measurements'', JArr []), (''require_ecc_enabled'', JBool True), (''require_smt_disabled'', JBool True),
           (''turin_policy'', example_generation), (''require_rapl_disabled'', JBool True), (''milan_policy'', example_generation)]"

lemma example_policy_typed: "is_request example_policy"
proof -
  have zero: "\<exists>i. JNum 0 = JNum (of_int i) \<and> 0 \<le> i \<and> i < m" if "0 < m" for m :: int
    using that by (intro exI [of _ 0]) simp
  show ?thesis
    using zero [of 256] zero [of 4294967296]
    by (auto simp: is_request_def X_UpdateAttestationPoliciesRequest_def X_GenTcbRequirements_def X_TcbVersion_def
        example_policy_def example_generation_def)
qed

lemma version_edit_submitted_witness:
  "\<exists>kvs. submit_policy (handleInputChange Turin ''fmc'' (JNum (of_int 3)) example_policy) = UpdateAttestationPolicies kvs
     \<and> is_request (JObj kvs)"
proof -
  have "''fmc'' \<in> set (version_fields Turin)" by (simp add: version_fields_def Let_def)
  from version_edit_submitted [OF example_policy_typed this, of 3] show ?thesis by (auto simp: Let_def)
qed

end
