(* ===== verification/Node_Import.thy ===== *)
theory Node_Import
  imports Candid_Adapter Auth_State Result_Utils Traces
begin

text \<open>
  Creating nodes from the settings, \<open>src/gpt_frontend/src/components/settings/tabs/NodeTab\<close>: \<open>NodeTab.tsx\<close> (the
  wizard and the reading of an import file) and \<open>NodeImportReview.tsx\<close> (editing, removing and importing what was
  read). \<open>JSON.parse\<close>, the text of a number and the store's \<open>createNode\<close> are arguments or events.
\<close>

section \<open>The import file\<close>

datatype import_status = Im_idle | Im_processing | Im_success | Im_error

record import_node =
  im_id :: string
  im_hostname :: string
  im_modelId :: string
  im_apiKey :: string
  im_chipId :: string
  im_hostIdentity :: string
  im_status :: import_status
  im_error :: "string option"

fun js_truthy :: "jsval \<Rightarrow> bool" where
  "js_truthy JUndef = False"
| "js_truthy JNull = False"
| "js_truthy (JBool b) = b"
| "js_truthy (JNum r) = (r \<noteq> 0)"
| "js_truthy (JBig i) = (i \<noteq> 0)"
| "js_truthy (JStr s) = (s \<noteq> '''')"
| "js_truthy _ = True"

text \<open>\<open>String(v)\<close> for the values JSON has; \<open>num\<close> is the text of a number.\<close>

fun js_String :: "(rat \<Rightarrow> string) \<Rightarrow> jsval \<Rightarrow> string" where
  "js_String num JUndef = ''undefined''"
| "js_String num JNull = ''null''"
| "js_String num (JBool b) = (if b then ''true'' else ''false'')"
| "js_String num (JNum r) = num r"
| "js_String num (JBig i) = show_int i"
| "js_String num (JStr s) = s"
| "js_String num (JArr xs) = join '','' (map (\<lambda>x. if x = JNull \<or> x = JUndef then '''' else js_String num x) xs)"
| "js_String num _ = ''[object Object]''"

text \<open>\<open>item.a || item.b || ... || ""\<close>, as a trimmed text.\<close>

definition first_field :: "(rat \<Rightarrow> string) \<Rightarrow> jsval \<Rightarrow> string list \<Rightarrow> string" where
  "first_field num item names =
     trim (js_String num (case List.find js_truthy (map (get_prop item) names) of Some v \<Rightarrow> v | None \<Rightarrow> JStr ''''))"

text \<open>Reading a field of \<open>null\<close> throws; \<open>now\<close> is the clock.\<close>

definition import_item :: "(rat \<Rightarrow> string) \<Rightarrow> (nat \<Rightarrow> nat) \<Rightarrow> nat \<times> jsval \<Rightarrow> string + import_node" where
  "import_item num now entry =
     (case entry of (idx, item) \<Rightarrow>
        if item = JNull then Inl ''Cannot read properties of null (reading 'hostname')''
        else Inr \<lparr>im_id = ''import-'' @ show_nat idx @ ''-'' @ show_nat (now idx),
                  im_hostname = first_field num item [''hostname'', ''address'', ''host''],
                  im_modelId = first_field num item [''model'', ''model_id'', ''modelId''],
                  im_apiKey = first_field num item [''apikey'', ''api_key'', ''apiKey'', ''key''],
                  im_chipId = first_field num item [''chipid'', ''chip_id'', ''chipId''],
                  im_hostIdentity = first_field num item [''identity'', ''host_identity'', ''hostIdentity'', ''id''],
                  im_status = Im_idle, im_error = None\<rparr>)"

definition read_nodes :: "(rat \<Rightarrow> string) \<Rightarrow> (nat \<Rightarrow> nat) \<Rightarrow> jsval \<Rightarrow> string + import_node list" where
  "read_nodes num now json =
     (case json of
        JArr items \<Rightarrow>
          bind_sum (traverse (import_item num now) (enumerate 0 items))
            (\<lambda>parsed. if parsed = [] then Inl ''No nodes found in the imported file.'' else Inr parsed)
      | _ \<Rightarrow> Inl ''JSON must be an array of node objects.'')"

section \<open>The tab\<close>

record node_tab =
  nt_wizardStep :: nat
  nt_direction :: int
  nt_listMine :: bool
  nt_isCreatingNode :: bool
  nt_error :: "string option"
  nt_importNodes :: "import_node list"

definition handleEnterWizard :: "node_tab \<Rightarrow> node_tab" where
  "handleEnterWizard t = t\<lparr>nt_error := None, nt_direction := 1, nt_wizardStep := 1\<rparr>"

text \<open>The second component says whether the own nodes are fetched.\<close>

definition handleExitWizard :: "node_tab \<Rightarrow> node_tab \<times> bool" where
  "handleExitWizard t = (t\<lparr>nt_direction := -1, nt_wizardStep := 0\<rparr>, nt_listMine t)"

text \<open>\<open>parse\<close> is \<open>JSON.parse\<close> of the file's text, an error when reading the file failed.\<close>

definition parseImportFile ::
  "(string \<Rightarrow> string + jsval) \<Rightarrow> (rat \<Rightarrow> string) \<Rightarrow> (nat \<Rightarrow> nat) \<Rightarrow> string + string \<Rightarrow> node_tab \<Rightarrow> node_tab" where
  "parseImportFile parse num now file t =
     (case bind_sum (bind_sum file parse) (read_nodes num now) of
        Inr parsed \<Rightarrow> t\<lparr>nt_importNodes := parsed, nt_error := None, nt_direction := 1, nt_wizardStep := 2\<rparr>
      | Inl msg \<Rightarrow> t\<lparr>nt_error := Some (''Failed to parse import file: '' @ msg)\<rparr>)"

definition begin_create :: "node_tab \<Rightarrow> node_tab" where
  "begin_create t = t\<lparr>nt_isCreatingNode := True, nt_error := None\<rparr>"

text \<open>\<open>msg\<close> of an error that is none is its text; an empty one is replaced.\<close>

definition finish_create :: "thrown option \<Rightarrow> node_tab \<Rightarrow> node_tab" where
  "finish_create thrown t =
     (case thrown of
        None \<Rightarrow> (fst (handleExitWizard t))\<lparr>nt_listMine := True\<rparr>
      | Some e \<Rightarrow> t\<lparr>nt_error := Some (''Failed to create node: '' @ (if th_text e = '''' then ''Unknown error'' else th_text e))\<rparr>)
       \<lparr>nt_isCreatingNode := False\<rparr>"

definition isNewNodeDisabled :: "auth_state \<Rightarrow> bool \<Rightarrow> nat \<Rightarrow> nat \<Rightarrow> bool" where
  "isNewNodeDisabled auth modelsLoading models measurements \<longleftrightarrow>
     au_authStatus auth \<noteq> REGISTERED \<or> modelsLoading \<or> models = 0 \<or> measurements = 0"

definition getNewNodeTitle :: "auth_state \<Rightarrow> bool \<Rightarrow> nat \<Rightarrow> nat \<Rightarrow> string" where
  "getNewNodeTitle auth modelsLoading models measurements =
     (if au_authStatus auth \<noteq> REGISTERED then ''Please register to create nodes''
      else if measurements = 0
      then ''Attestation measurement not set. Configure it in the Governance tab before creating nodes.''
      else if modelsLoading then ''Loading available models...''
      else if models = 0 then ''No models available to configure a node''
      else ''Configure a new node'')"

section \<open>The review\<close>

text \<open>
  \<open>rv_todo\<close> are the nodes the loop has still to create, with the values they had when it started, the head while its
  call is under way; \<open>rv_created\<close> and \<open>rv_done\<close> record the calls that succeeded and whether the import was closed.
\<close>

record import_review =
  rv_nodes :: "import_node list"
  rv_isProcessing :: bool
  rv_todo :: "import_node list"
  rv_created :: "import_node list"
  rv_done :: bool

definition start_review :: "import_node list \<Rightarrow> import_review" where
  "start_review nodes = \<lparr>rv_nodes = nodes, rv_isProcessing = False, rv_todo = [], rv_created = [], rv_done = False\<rparr>"

definition set_node :: "string \<Rightarrow> (import_node \<Rightarrow> import_node) \<Rightarrow> import_review \<Rightarrow> import_review" where
  "set_node i f r = r\<lparr>rv_nodes := map (\<lambda>n. if im_id n = i then f n else n) (rv_nodes r)\<rparr>"

datatype import_field = Hostname_field | Model_field | Key_field | Chip_field | Identity_field

fun set_field :: "import_field \<Rightarrow> string \<Rightarrow> import_node \<Rightarrow> import_node" where
  "set_field Hostname_field v n = n\<lparr>im_hostname := v\<rparr>"
| "set_field Model_field v n = n\<lparr>im_modelId := v\<rparr>"
| "set_field Key_field v n = n\<lparr>im_apiKey := v\<rparr>"
| "set_field Chip_field v n = n\<lparr>im_chipId := v\<rparr>"
| "set_field Identity_field v n = n\<lparr>im_hostIdentity := v\<rparr>"

definition handleFieldChange :: "string \<Rightarrow> import_field \<Rightarrow> string \<Rightarrow> import_review \<Rightarrow> import_review" where
  "handleFieldChange i field v = set_node i (set_field field v)"

definition handleRemove :: "string \<Rightarrow> import_review \<Rightarrow> import_review" where
  "handleRemove i r = r\<lparr>rv_nodes := filter (\<lambda>n. im_id n \<noteq> i) (rv_nodes r)\<rparr>"

definition is_pending :: "import_node \<Rightarrow> bool" where
  "is_pending n \<longleftrightarrow> im_status n = Im_idle \<or> im_status n = Im_error"

text \<open>The head of the list is taken up, or the loop ends.\<close>

definition next_node :: "import_review \<Rightarrow> import_review" where
  "next_node r =
     (case rv_todo r of
        [] \<Rightarrow> r\<lparr>rv_isProcessing := False\<rparr>
      | n # _ \<Rightarrow> set_node (im_id n) (\<lambda>m. m\<lparr>im_status := Im_processing, im_error := None\<rparr>) r)"

definition handleProcessImport :: "import_review \<Rightarrow> import_review" where
  "handleProcessImport r0 =
     (let r = r0\<lparr>rv_isProcessing := True\<rparr>;
          nodesToProcess = filter is_pending (rv_nodes r)
      in if nodesToProcess = [] \<and> list_ex (\<lambda>n. im_status n = Im_success) (rv_nodes r) then r\<lparr>rv_done := True\<rparr>
         else next_node (r\<lparr>rv_todo := nodesToProcess\<rparr>))"

text \<open>The call for the head of the list has ended.\<close>

definition node_created :: "thrown option \<Rightarrow> import_review \<Rightarrow> import_review" where
  "node_created thrown r =
     (case rv_todo r of
        [] \<Rightarrow> r
      | n # rest \<Rightarrow>
          next_node
            ((case thrown of
                None \<Rightarrow> set_node (im_id n) (\<lambda>m. m\<lparr>im_status := Im_success\<rparr>) (r\<lparr>rv_created := rv_created r @ [n]\<rparr>)
              | Some e \<Rightarrow> set_node (im_id n) (\<lambda>m. m\<lparr>im_status := Im_error, im_error := Some (th_text e)\<rparr>) r)
             \<lparr>rv_todo := rest\<rparr>))"

definition allSuccess :: "import_review \<Rightarrow> bool" where
  "allSuccess r \<longleftrightarrow> rv_nodes r \<noteq> [] \<and> list_all (\<lambda>n. im_status n = Im_success) (rv_nodes r)"

definition hasPending :: "import_review \<Rightarrow> bool" where
  "hasPending r \<longleftrightarrow> list_ex is_pending (rv_nodes r)"

definition import_disabled :: "import_review \<Rightarrow> bool" where
  "import_disabled r \<longleftrightarrow> rv_isProcessing r \<or> \<not> hasPending r \<and> \<not> allSuccess r"

definition press_import :: "import_review \<Rightarrow> import_review" where
  "press_import r = (if allSuccess r then r\<lparr>rv_done := True\<rparr> else handleProcessImport r)"

text \<open>The fields and the button to remove a node are there unless it is being processed or created.\<close>

datatype review_event = Edited string import_field string | Dropped string | Pressed | Answered "thrown option"

definition editable :: "string \<Rightarrow> import_review \<Rightarrow> bool" where
  "editable i r \<longleftrightarrow> list_ex (\<lambda>n. im_id n = i \<and> is_pending n) (rv_nodes r)"

fun exec_review :: "review_event \<Rightarrow> import_review \<Rightarrow> import_review option" where
  "exec_review (Edited i field v) r = (if editable i r then Some (handleFieldChange i field v r) else None)"
| "exec_review (Dropped i) r = (if editable i r then Some (handleRemove i r) else None)"
| "exec_review Pressed r = (if import_disabled r then None else Some (press_import r))"
| "exec_review (Answered thrown) r = (if rv_todo r = [] then None else Some (node_created thrown r))"

definition review_step :: "import_review \<Rightarrow> review_event \<Rightarrow> import_review \<Rightarrow> bool" where
  "review_step r e r' \<longleftrightarrow> exec_review e r = Some r'"

interpretation review: determined review_step exec_review
  by unfold_locales (simp add: review_step_def)

section \<open>No node twice\<close>

definition created_ids :: "import_review \<Rightarrow> string set" where
  "created_ids r = im_id ` set (rv_created r)"

text \<open>
  The nodes shown have distinct names, and so have the created ones; a node is shown as created exactly when it was;
  the loop holds nodes that were not, and its head, if it is still shown, is shown in progress.
\<close>

definition review_sound :: "import_review \<Rightarrow> bool" where
  "review_sound r \<longleftrightarrow>
     distinct (map im_id (rv_nodes r)) \<and> distinct (map im_id (rv_created r)) \<and> distinct (map im_id (rv_todo r))
     \<and> (\<forall>n \<in> set (rv_nodes r). im_status n = Im_success \<longleftrightarrow> im_id n \<in> created_ids r)
     \<and> im_id ` set (rv_todo r) \<inter> created_ids r = {}
     \<and> (\<forall>n \<in> set (rv_nodes r). im_status n = Im_processing \<longleftrightarrow> rv_todo r \<noteq> [] \<and> im_id n = im_id (hd (rv_todo r)))
     \<and> (rv_isProcessing r \<longleftrightarrow> rv_todo r \<noteq> [])"

lemma set_field_simps [simp]:
  "im_id (set_field field v n) = im_id n" "im_status (set_field field v n) = im_status n"
  by (cases field; simp)+

lemma set_node_ids [simp]: "(\<And>n. im_id (f n) = im_id n) \<Longrightarrow> map im_id (rv_nodes (set_node i f r)) = map im_id (rv_nodes r)"
  by (simp add: set_node_def comp_def if_distrib cong: if_cong)

lemma set_node_simps [simp]:
  "rv_isProcessing (set_node i f r) = rv_isProcessing r" "rv_todo (set_node i f r) = rv_todo r"
  "rv_created (set_node i f r) = rv_created r" "rv_done (set_node i f r) = rv_done r"
  "created_ids (set_node i f r) = created_ids r"
  by (simp_all add: set_node_def created_ids_def)

text \<open>Between two calls of the loop nothing is in progress.\<close>

definition resting :: "import_review \<Rightarrow> bool" where
  "resting r \<longleftrightarrow>
     distinct (map im_id (rv_nodes r)) \<and> distinct (map im_id (rv_created r)) \<and> distinct (map im_id (rv_todo r))
     \<and> (\<forall>n \<in> set (rv_nodes r). im_status n = Im_success \<longleftrightarrow> im_id n \<in> created_ids r)
     \<and> im_id ` set (rv_todo r) \<inter> created_ids r = {}
     \<and> (\<forall>n \<in> set (rv_nodes r). im_status n \<noteq> Im_processing)"

lemma created_ids_upd [simp]:
  "created_ids (r\<lparr>rv_nodes := ns\<rparr>) = created_ids r" "created_ids (r\<lparr>rv_todo := ts\<rparr>) = created_ids r"
  "created_ids (r\<lparr>rv_isProcessing := b\<rparr>) = created_ids r" "created_ids (r\<lparr>rv_done := b\<rparr>) = created_ids r"
  by (simp_all add: created_ids_def)

lemma ball_set_node:
  "(\<forall>m \<in> set (rv_nodes (set_node i f r)). P m) \<longleftrightarrow> (\<forall>n \<in> set (rv_nodes r). P (if im_id n = i then f n else n))"
  by (auto simp: set_node_def)

lemma next_sound:
  assumes "resting r" "rv_isProcessing r"
  shows "review_sound (next_node r)"
proof (cases "rv_todo r")
  case Nil
  then show ?thesis using assms by (auto simp: resting_def review_sound_def next_node_def)
next
  case (Cons n rest)
  let ?f = "\<lambda>m. m\<lparr>im_status := Im_processing, im_error := None\<rparr>"
  have ids: "map im_id (rv_nodes (set_node (im_id n) ?f r)) = map im_id (rv_nodes r)" by simp
  have next_node: "next_node r = set_node (im_id n) ?f r" using Cons by (simp add: next_node_def)
  show ?thesis
    using assms Cons unfolding review_sound_def next_node ids ball_set_node by (auto simp: resting_def)
qed

lemma created_sound:
  assumes "review_sound r" "rv_todo r = n # rest"
  shows "resting ((set_node (im_id n) (\<lambda>m. m\<lparr>im_status := Im_success\<rparr>) (r\<lparr>rv_created := rv_created r @ [n]\<rparr>))\<lparr>rv_todo := rest\<rparr>)"
proof -
  have new: "created_ids (r\<lparr>rv_created := rv_created r @ [n]\<rparr>) = insert (im_id n) (created_ids r)"
    by (auto simp: created_ids_def)
  have ids: "map im_id (rv_nodes (set_node (im_id n) (\<lambda>m. m\<lparr>im_status := Im_success\<rparr>) (r\<lparr>rv_created := rv_created r @ [n]\<rparr>)))
      = map im_id (rv_nodes r)" by simp
  have fresh: "im_id n \<notin> im_id ` set (rv_created r)"
    using assms by (auto simp: review_sound_def created_ids_def)
  show ?thesis
    using assms fresh
    by (simp add: resting_def review_sound_def ids new ball_set_node)
qed

lemma failed_sound:
  assumes "review_sound r" "rv_todo r = n # rest"
  shows "resting ((set_node (im_id n) (\<lambda>m. m\<lparr>im_status := Im_error, im_error := msg\<rparr>) r)\<lparr>rv_todo := rest\<rparr>)"
proof -
  have ids: "map im_id (rv_nodes (set_node (im_id n) (\<lambda>m. m\<lparr>im_status := Im_error, im_error := msg\<rparr>) r)) = map im_id (rv_nodes r)"
    by simp
  show ?thesis using assms by (simp add: resting_def review_sound_def ids ball_set_node)
qed

lemma answered_sound:
  assumes "review_sound r" "rv_todo r \<noteq> []"
  shows "review_sound (node_created thrown r)"
proof -
  obtain n rest where todo: "rv_todo r = n # rest" using assms(2) by (cases "rv_todo r") auto
  have "rv_isProcessing r" using assms by (simp add: review_sound_def)
  then show ?thesis
    using created_sound [OF assms(1) todo] failed_sound [OF assms(1) todo] todo
    by (cases thrown) (auto simp: node_created_def intro!: next_sound)
qed

lemma pressed_sound:
  assumes "review_sound r" "\<not> import_disabled r"
  shows "review_sound (press_import r)"
proof (cases "allSuccess r")
  case True
  then show ?thesis using assms(1) by (simp add: press_import_def review_sound_def)
next
  case False
  then have idle: "\<not> rv_isProcessing r" "hasPending r" using assms(2) by (simp_all add: import_disabled_def)
  then have todo: "rv_todo r = []" using assms(1) by (simp add: review_sound_def)
  have pending: "filter is_pending (rv_nodes r) \<noteq> []"
    using idle(2) by (auto simp: hasPending_def list_ex_iff filter_empty_conv)
  have "resting (r\<lparr>rv_isProcessing := True, rv_todo := filter is_pending (rv_nodes r)\<rparr>)"
    using assms(1) todo by (auto simp: resting_def review_sound_def is_pending_def distinct_map_filter)
  then show ?thesis
    using False pending by (auto simp: press_import_def handleProcessImport_def Let_def intro!: next_sound)
qed

lemma edited_sound: "review_sound r \<Longrightarrow> review_sound (handleFieldChange i field v r)"
proof -
  assume r: "review_sound r"
  have ids: "map im_id (rv_nodes (set_node i (set_field field v) r)) = map im_id (rv_nodes r)" by simp
  show ?thesis using r by (simp add: review_sound_def handleFieldChange_def ids ball_set_node if_distrib [of im_status] if_distrib [of im_id])
qed

lemma dropped_sound: "review_sound r \<Longrightarrow> review_sound (handleRemove i r)"
  by (auto simp: review_sound_def handleRemove_def distinct_map_filter)

interpretation review: traced_invariant review_step "\<lambda>_. review_sound"
proof
  fix es :: "review_event list" and r e r'
  assume "review_sound r" and "review_step r e r'"
  then show "review_sound r'"
    by (cases e) (auto simp: review_step_def edited_sound dropped_sound pressed_sound answered_sound split: if_splits)
qed

lemma start_sound: "distinct (map im_id nodes) \<Longrightarrow> list_all (\<lambda>n. im_status n = Im_idle) nodes \<Longrightarrow> review_sound (start_review nodes)"
  by (auto simp: review_sound_def start_review_def created_ids_def list_all_iff)

text \<open>The nodes read from a file have distinct names and wait.\<close>

definition import_name :: "(nat \<Rightarrow> nat) \<Rightarrow> nat \<Rightarrow> string" where
  "import_name now idx = ''import-'' @ show_nat idx @ ''-'' @ show_nat (now idx)"

lemma no_dash [simp]: "CHR ''-'' \<notin> set (show_nat n)"
  by (rule show_nat_no_char) simp

lemma import_name_inj: "import_name now i = import_name now j \<longleftrightarrow> i = j"
proof
  assume eq: "import_name now i = import_name now j"
  have "takeWhile (\<lambda>x. x \<noteq> CHR ''-'') (drop 7 (import_name now k)) = show_nat k" for k
    using no_dash [of k] by (auto simp: import_name_def takeWhile_append)
  with eq have "show_nat i = show_nat j" by metis
  then show "i = j" by (simp add: show_nat_inj)
qed simp

lemma import_items_named:
  "traverse (import_item num now) (enumerate k items) = Inr nodes
     \<Longrightarrow> map im_id nodes = map (import_name now) [k..<k + length items] \<and> list_all (\<lambda>n. im_status n = Im_idle) nodes"
proof (induction items arbitrary: k nodes)
  case (Cons item items)
  then obtain n ns where nodes: "nodes = n # ns" and n: "import_item num now (k, item) = Inr n"
      and ns: "traverse (import_item num now) (enumerate (Suc k) items) = Inr ns"
    by (auto split: sum.splits)
  have "im_id n = import_name now k \<and> im_status n = Im_idle"
    using n by (auto simp: import_item_def import_name_def split: if_splits)
  moreover have "[k..<k + length (item # items)] = k # [Suc k..<Suc k + length items]"
    using upt_conv_Cons [of k "k + length (item # items)"] by simp
  ultimately show ?case using Cons.IH [OF ns] by (simp add: nodes)
qed simp

lemma read_nodes_fresh:
  assumes "read_nodes num now json = Inr nodes"
  shows "nodes \<noteq> [] \<and> distinct (map im_id nodes) \<and> list_all (\<lambda>n. im_status n = Im_idle) nodes"
proof -
  obtain items where items: "traverse (import_item num now) (enumerate 0 items) = Inr nodes" "nodes \<noteq> []"
    using assms by (cases json) (auto simp: read_nodes_def elim!: bind_sum.elims split: if_splits)
  then show ?thesis
    using import_items_named [OF items(1)] by (auto simp: distinct_map inj_on_def import_name_inj)
qed

text \<open>
  C36: however the nodes read from a file are edited, removed and imported, repeatedly and with any failures, none is
  created twice; a node is shown as created exactly when its creation succeeded; and while an import runs the button
  cannot start another.
\<close>

theorem import_never_repeats:
  assumes "read_nodes num now json = Inr nodes" and "trace_run review_step (start_review nodes) es r"
  shows "distinct (map im_id (rv_created r))
    \<and> (\<forall>n \<in> set (rv_nodes r). im_status n = Im_success \<longleftrightarrow> im_id n \<in> im_id ` set (rv_created r))
    \<and> im_id ` set (rv_todo r) \<inter> im_id ` set (rv_created r) = {}
    \<and> (rv_todo r \<noteq> [] \<longrightarrow> import_disabled r)"
proof -
  have "review_sound (start_review nodes)" using read_nodes_fresh [OF assms(1)] start_sound by blast
  then have "review_sound r" by (rule review.inv_run [OF assms(2)])
  then show ?thesis by (simp add: review_sound_def created_ids_def import_disabled_def)
qed

definition example_read :: import_node where
  "example_read = \<lparr>im_id = ''import-0-0'', im_hostname = '''', im_modelId = '''', im_apiKey = '''', im_chipId = '''',
                   im_hostIdentity = '''', im_status = Im_idle, im_error = None\<rparr>"

theorem import_never_repeats_witness:
  "\<exists>r. trace_run review_step (start_review [example_read]) [Pressed, Answered None] r
     \<and> im_id ` set (rv_created r) = {''import-0-0''} \<and> distinct (map im_id (rv_created r))"
proof -
  have zero: "show_nat 0 = ''0''" by code_simp
  have read: "read_nodes (\<lambda>_. '''') (\<lambda>_. 0) (JArr [JObj []]) = Inr [example_read]"
    by (simp add: read_nodes_def import_item_def first_field_def example_read_def zero trim_def trim_start_def)
  define r where "r = \<lparr>rv_nodes = [example_read\<lparr>im_status := Im_success\<rparr>], rv_isProcessing = False, rv_todo = [],
    rv_created = [example_read], rv_done = False\<rparr>"
  have run: "trace_run review_step (start_review [example_read]) [Pressed, Answered None] r"
    by (simp add: review.run_exec start_review_def example_read_def r_def import_disabled_def press_import_def
        allSuccess_def hasPending_def is_pending_def handleProcessImport_def next_node_def set_node_def node_created_def Let_def)
  show ?thesis using run import_never_repeats [OF read run] by (auto simp: r_def example_read_def)
qed

text \<open>
  The loop works on the nodes as they were when it started, while those that wait can still be edited and removed: a
  node removed meanwhile is created, and an edited one is created with its old values.
\<close>

definition example_nodes :: "import_node list" where
  "example_nodes = map (\<lambda>i. \<lparr>im_id = i, im_hostname = ''h'', im_modelId = ''m'', im_apiKey = ''k'', im_chipId = ''c'',
     im_hostIdentity = ''x'', im_status = Im_idle, im_error = None\<rparr>) [''a'', ''b'']"

lemma removed_node_created:
  "\<exists>r. trace_run review_step (start_review example_nodes) [Pressed, Dropped ''b'', Answered None, Answered None] r
     \<and> map im_id (rv_nodes r) = [''a''] \<and> map im_id (rv_created r) = [''a'', ''b'']"
  by (simp add: review.run_exec start_review_def example_nodes_def import_disabled_def press_import_def allSuccess_def
      hasPending_def is_pending_def handleProcessImport_def next_node_def set_node_def editable_def handleRemove_def
      node_created_def Let_def)

end
