(* ===== verification/Branch_View.thy ===== *)
theory Branch_View
  imports Message_Tree Chat_State
begin

text \<open>
  \<open>src/gpt_frontend/src/components/chat/ChatPage.tsx\<close>: which messages of a chat are on the screen. A chat has a leaf
  that is active; the branch of a leaf without answers is the chain of its ancestors, the branch of another message the
  chain with everything below it. Two loops go up from a message to its parent and would not end on a cycle of parents.
\<close>

section \<open>Operations\<close>

text \<open>A parent that is missing or an empty text is none.\<close>

definition parent_of :: "message \<Rightarrow> message_id option" where
  "parent_of m = (if truthy_str (m_parentMessageId m) then m_parentMessageId m else None)"

definition add_child_id :: "message \<Rightarrow> (message_id, message_id list) jsmap \<Rightarrow> (message_id, message_id list) jsmap" where
  "add_child_id m childMap =
     (case parent_of m of
        None \<Rightarrow> childMap
      | Some pid \<Rightarrow>
          let cm = (if map_has childMap pid then childMap else map_set pid [] childMap)
          in map_set pid (the (map_get cm pid) @ [msg_key m]) cm)"

text \<open>
  \<open>sort\<close> with a comparison, as an insertion sort; for a comparison of keys every stable sort gives the same list.
\<close>

fun insert_cmp :: "('a \<Rightarrow> 'a \<Rightarrow> int) \<Rightarrow> 'a \<Rightarrow> 'a list \<Rightarrow> 'a list" where
  "insert_cmp cmp x [] = [x]"
| "insert_cmp cmp x (y # ys) = (if cmp x y \<le> 0 then x # y # ys else y # insert_cmp cmp x ys)"

definition sort_cmp :: "('a \<Rightarrow> 'a \<Rightarrow> int) \<Rightarrow> 'a list \<Rightarrow> 'a list" where
  "sort_cmp cmp xs = foldr (insert_cmp cmp) xs []"

definition compare_children :: "message_map \<Rightarrow> message_id \<Rightarrow> message_id \<Rightarrow> int" where
  "compare_children messagesMap aId bId =
     (case (map_get messagesMap aId, map_get messagesMap bId) of
        (Some msgA, Some msgB) \<Rightarrow> int (m_createdAt msgA) - int (m_createdAt msgB)
      | _ \<Rightarrow> 0)"

definition buildMapsFromMap :: "message_map \<Rightarrow> (message_id, message_id list) jsmap" where
  "buildMapsFromMap messagesMap =
     map (\<lambda>(pid, children). (pid, sort_cmp (compare_children messagesMap) children))
       (fold add_child_id (map_values messagesMap) [])"

partial_function (option) root_loop :: "message_map \<Rightarrow> message \<Rightarrow> message option" where
  "root_loop msgMap currMsg =
     (case parent_of currMsg of
        None \<Rightarrow> Some currMsg
      | Some pid \<Rightarrow> (case map_get msgMap pid of None \<Rightarrow> Some currMsg | Some parent \<Rightarrow> root_loop msgMap parent))"

definition findRoot :: "message_id \<Rightarrow> message_map \<Rightarrow> message_id option" where
  "findRoot leafId msgMap =
     (case map_get msgMap leafId of
        None \<Rightarrow> Some leafId
      | Some currMsg \<Rightarrow> map_option msg_key (root_loop msgMap currMsg))"

definition child_ids :: "(message_id, message_id list) jsmap \<Rightarrow> message_id \<Rightarrow> message_id list" where
  "child_ids childMap nodeId = (case map_get childMap nodeId of Some ids \<Rightarrow> ids | None \<Rightarrow> [])"

text \<open>The loop of \<open>getSubtree\<close>: the queue, the visited nodes and the results. A node is expanded at most once.\<close>

definition unvisited :: "(message_id, message_id list) jsmap \<Rightarrow> message_id list \<Rightarrow> message_id set \<Rightarrow> message_id set" where
  "unvisited childMap queue visited = (set queue \<union> (\<Union>ids \<in> set (map_values childMap). set ids)) - visited"

lemma unvisited_finite [simp]: "finite (unvisited childMap queue visited)"
  by (simp add: unvisited_def)

lemma child_ids_known: "set (child_ids childMap n) \<subseteq> (\<Union>ids \<in> set (map_values childMap). set ids)"
proof (cases "map_get childMap n")
  case (Some ids)
  then have "ids \<in> set (map_values childMap)" by (rule map_get_value)
  with Some show ?thesis by (auto simp: child_ids_def)
qed (simp add: child_ids_def)

lemma unvisited_expand:
  assumes "n \<notin> visited" and "set extra \<subseteq> set (child_ids childMap n)"
  shows "card (unvisited childMap (queue @ extra) (insert n visited)) < card (unvisited childMap (n # queue) visited)"
proof (rule psubset_card_mono [OF unvisited_finite])
  have "set extra \<subseteq> (\<Union>ids \<in> set (map_values childMap). set ids)"
    using assms(2) child_ids_known [of childMap n] by (rule order_trans)
  then have "unvisited childMap (queue @ extra) (insert n visited) \<subseteq> unvisited childMap (n # queue) visited"
    unfolding unvisited_def by auto
  moreover have "n \<in> unvisited childMap (n # queue) visited" "n \<notin> unvisited childMap (queue @ extra) (insert n visited)"
    using assms(1) by (simp_all add: unvisited_def)
  ultimately show "unvisited childMap (queue @ extra) (insert n visited) \<subset> unvisited childMap (n # queue) visited"
    by blast
qed

function subtree_loop ::
  "message_map \<Rightarrow> (message_id, message_id list) jsmap \<Rightarrow> message_id list \<Rightarrow> message_id set \<Rightarrow> message list \<Rightarrow> message list" where
  "subtree_loop msgMap childMap [] visited results = results"
| "subtree_loop msgMap childMap (nodeId # queue) visited results =
     (if nodeId \<in> visited then subtree_loop msgMap childMap queue visited results
      else
        let visited' = insert nodeId visited
        in case map_get msgMap nodeId of
             None \<Rightarrow> subtree_loop msgMap childMap queue visited' results
           | Some msg \<Rightarrow>
               subtree_loop msgMap childMap (queue @ filter (\<lambda>c. c \<notin> visited') (child_ids childMap nodeId)) visited'
                 (results @ [msg]))"
  by pat_completeness auto

termination
proof (relation "measures [\<lambda>(m, cm, q, v, r). card (unvisited cm q v), \<lambda>(m, cm, q, v, r). length q]", goal_cases)
  case 1
  then show ?case by simp
next
  case (2 m cm n q v r)
  have "card (unvisited cm q v) \<le> card (unvisited cm (n # q) v)"
    by (rule card_mono [OF unvisited_finite]) (auto simp: unvisited_def)
  then show ?case by auto
next
  case (3 m cm n q v r v')
  then show ?case using unvisited_expand [of n v "[]" cm q] by simp
next
  case (4 m cm n q v r v' msg)
  then show ?case
    using unvisited_expand [of n v "filter (\<lambda>c. c \<notin> v') (child_ids cm n)" cm q] by auto
qed

definition getSubtree :: "message_id \<Rightarrow> message_map \<Rightarrow> (message_id, message_id list) jsmap \<Rightarrow> message list" where
  "getSubtree rootId msgMap childMap = sort_key m_createdAt (subtree_loop msgMap childMap [rootId] {} [])"

partial_function (option) chain_loop :: "message_map \<Rightarrow> message list \<Rightarrow> message \<Rightarrow> message list option" where
  "chain_loop msgMap chain currMsg =
     (case parent_of currMsg of
        None \<Rightarrow> Some (chain @ [currMsg])
      | Some pid \<Rightarrow>
          (case map_get msgMap pid of
             None \<Rightarrow> Some (chain @ [currMsg])
           | Some parent \<Rightarrow> chain_loop msgMap (chain @ [currMsg]) parent))"

definition buildChain :: "message_id \<Rightarrow> message_map \<Rightarrow> message list option" where
  "buildChain leafId msgMap =
     (case map_get msgMap leafId of None \<Rightarrow> Some [] | Some currMsg \<Rightarrow> map_option rev (chain_loop msgMap [] currMsg))"

definition getBranchMessages :: "message_map \<Rightarrow> message_id \<Rightarrow> message list option" where
  "getBranchMessages allMsgsMap leafId =
     (case map_get allMsgsMap leafId of
        None \<Rightarrow> Some []
      | Some leafMsg \<Rightarrow>
          let childMap = buildMapsFromMap allMsgsMap
          in case findRoot leafId allMsgsMap of
               None \<Rightarrow> None
             | Some rootId \<Rightarrow>
                 let fullSubTree = getSubtree rootId allMsgsMap childMap
                 in case buildChain leafId allMsgsMap of
                      None \<Rightarrow> None
                    | Some chainToLeaf \<Rightarrow>
                        if child_ids childMap (msg_key leafMsg) \<noteq> []
                        then let subtreeOfLeaf = getSubtree (msg_key leafMsg) allMsgsMap childMap;
                                 branchIds = msg_key ` set chainToLeaf \<union> msg_key ` set subtreeOfLeaf
                             in Some (sort_key m_createdAt (filter (\<lambda>m. msg_key m \<in> branchIds) fullSubTree))
                        else Some chainToLeaf)"

section \<open>The page\<close>

definition currentMessagesMap :: "chat_id option \<Rightarrow> chat_state \<Rightarrow> message_map" where
  "currentMessagesMap shownChatId state =
     (if truthy_str shownChatId then case messages state (the shownChatId) of Some m \<Rightarrow> m | None \<Rightarrow> [] else [])"

text \<open>The first of the newest messages; a descending sort keeps the order of equal ones.\<close>

definition newest_first :: "message list \<Rightarrow> message list" where
  "newest_first ms = sort_key (\<lambda>m. - int (m_createdAt m)) ms"

definition potentialLeaves :: "message_map \<Rightarrow> message list" where
  "potentialLeaves m =
     (let parentIds = set (List.map_filter parent_of (map_values m))
      in filter (\<lambda>msg. msg_key msg \<notin> parentIds) (map_values m))"

definition pick_leaf :: "chat_id \<Rightarrow> message_map \<Rightarrow> chat_state \<Rightarrow> chat_state" where
  "pick_leaf chatId m state =
     (if potentialLeaves m \<noteq> [] then setActiveLeaf chatId (msg_key (hd (newest_first (potentialLeaves m)))) state
      else if m \<noteq> [] then setActiveLeaf chatId (msg_key (hd (newest_first (map_values m)))) state
      else state)"

definition leaf_effect :: "chat_id option \<Rightarrow> chat_state \<Rightarrow> chat_state" where
  "leaf_effect shownChatId state =
     (let m = currentMessagesMap shownChatId state in
      if \<not> truthy_str shownChatId \<or> m = [] then state
      else case activeLeafMessageId state (the shownChatId) of
             Some storedLeafId \<Rightarrow> if map_has m storedLeafId then state else pick_leaf (the shownChatId) m state
           | None \<Rightarrow> pick_leaf (the shownChatId) m state)"

definition chatLeafId :: "chat_id option \<Rightarrow> chat_state \<Rightarrow> message_id option" where
  "chatLeafId shownChatId state =
     (if truthy_str shownChatId then activeLeafMessageId state (the shownChatId) else None)"

text \<open>\<open>None\<close> when it does not return.\<close>

definition activeBranchMessages :: "chat_id option \<Rightarrow> chat_state \<Rightarrow> message list option" where
  "activeBranchMessages shownChatId state =
     (let m = currentMessagesMap shownChatId state; leaf = chatLeafId shownChatId state
      in if \<not> truthy_str shownChatId \<or> \<not> truthy_str leaf \<or> m = [] then Some [] else getBranchMessages m (the leaf))"

definition lastMessage :: "message list \<Rightarrow> message option" where
  "lastMessage branch = (if branch = [] then None else Some (last branch))"

definition scrollDependency :: "message list \<Rightarrow> nat \<times> nat" where
  "scrollDependency branch =
     (length branch, case lastMessage branch of Some m \<Rightarrow> length (m_content m) | None \<Rightarrow> 0)"

text \<open>The new length that is remembered, and whether the page scrolls to the end.\<close>

definition new_message_effect :: "nat \<Rightarrow> message list \<Rightarrow> nat \<times> bool" where
  "new_message_effect prevMessagesLength branch =
     (length branch,
      length branch > prevMessagesLength \<and> (case lastMessage branch of Some m \<Rightarrow> m_role m = User | None \<Rightarrow> False))"

definition showSpinner :: "chat_id option \<Rightarrow> chat_state \<Rightarrow> message list \<Rightarrow> bool" where
  "showSpinner shownChatId state branch \<longleftrightarrow>
     isLoading state \<and> \<not> (truthy_str shownChatId \<and> hasMessagesLoaded state (the shownChatId)) \<and> length branch = 0"

definition showMessages :: "message list \<Rightarrow> bool" where
  "showMessages branch \<longleftrightarrow> length branch > 0"

definition showEmptyState :: "chat_id option \<Rightarrow> chat_state \<Rightarrow> message list \<Rightarrow> bool" where
  "showEmptyState shownChatId state branch \<longleftrightarrow>
     \<not> showSpinner shownChatId state branch \<and> \<not> showMessages branch"

end
