(* ===== verification/Branch_View_Props.thy ===== *)
theory Branch_View_Props
  imports Branch_View
begin

text \<open>
  The branch on the screen: under an acyclic parent relation it always exists, holds exactly the ancestors of the leaf
  and what is below it, and is their chain when nothing is below; the leaf chosen when none is stored has such a chain.
\<close>

section \<open>Parents\<close>

text \<open>Every message is an edge from its parent, also a tool's message.\<close>

definition parents :: "message_map \<Rightarrow> (message_id \<times> message_id) set" where
  "parents m = {(p, c). \<exists>v \<in> set (map_values m). parent_of v = Some p \<and> msg_key v = c}"

lemma parents_finite: "finite (parents m)"
proof -
  have "parents m \<subseteq> (\<lambda>v. (the (parent_of v), msg_key v)) ` set (map_values m)"
    by (force simp: parents_def)
  then show ?thesis by (rule finite_subset) simp
qed

lemma parents_wf: "acyclic (parents m) \<Longrightarrow> wf (parents m)"
  by (rule finite_acyclic_wf [OF parents_finite])

lemma parent_edge: "map_get m c = Some v \<Longrightarrow> msg_key v = c \<Longrightarrow> parent_of v = Some p \<Longrightarrow> (p, c) \<in> parents m"
  unfolding parents_def by (blast dest: map_get_value)

lemma keyed_value: "keyed m \<Longrightarrow> v \<in> set (map_values m) \<Longrightarrow> map_get m (msg_key v) = Some v"
  by (auto simp: keyed_def map_ok_def)

lemma edge_to:
  assumes "keyed m" "map_get m c = Some v"
  shows "(p, c) \<in> parents m \<longleftrightarrow> parent_of v = Some p"
proof
  assume "(p, c) \<in> parents m"
  then obtain w where w: "w \<in> set (map_values m)" "parent_of w = Some p" "msg_key w = c" by (auto simp: parents_def)
  then show "parent_of v = Some p" using keyed_value [OF assms(1) w(1)] assms(2) by simp
next
  assume "parent_of v = Some p"
  then show "(p, c) \<in> parents m" by (rule parent_edge [OF assms(2) keyed_get [OF assms]])
qed

lemma edge_target: "keyed m \<Longrightarrow> (p, c) \<in> parents m \<Longrightarrow> \<exists>v. map_get m c = Some v \<and> parent_of v = Some p"
proof -
  assume m: "keyed m" and "(p, c) \<in> parents m"
  then obtain w where "w \<in> set (map_values m)" "parent_of w = Some p" "msg_key w = c" by (auto simp: parents_def)
  with keyed_value [OF m] show ?thesis by blast
qed

lemma path_target: "keyed m \<Longrightarrow> (p, c) \<in> (parents m)\<^sup>* \<Longrightarrow> p = c \<or> map_get m c \<noteq> None"
  by (erule rtrancl.cases) (auto dest: edge_target)

text \<open>The ancestors of a message are itself and those of its parent.\<close>

lemma ancestors_step:
  assumes "keyed m" "map_get m c = Some v"
  shows "(a, c) \<in> (parents m)\<^sup>* \<longleftrightarrow> a = c \<or> (\<exists>p. parent_of v = Some p \<and> (a, p) \<in> (parents m)\<^sup>*)"
  using edge_to [OF assms] by (metis rtrancl.simps)

section \<open>Going up\<close>

text \<open>What the loops find from a message up: the chain to its root, youngest first.\<close>

definition goes_up :: "message_map \<Rightarrow> message list \<Rightarrow> message \<Rightarrow> bool" where
  "goes_up m up v \<longleftrightarrow>
     up \<noteq> [] \<and> hd up = v \<and> successively (\<lambda>a b. parent_of a = Some (msg_key b)) up
     \<and> set up = {w \<in> set (map_values m). (msg_key w, msg_key v) \<in> (parents m)\<^sup>*}
     \<and> distinct (map msg_key up)
     \<and> (case parent_of (last up) of None \<Rightarrow> True | Some p \<Rightarrow> map_get m p = None)
     \<and> (\<forall>w \<in> set up. (msg_key (last up), msg_key w) \<in> (parents m)\<^sup>*)"

lemma goes_up_root:
  assumes "keyed m" "map_get m c = Some v" "case parent_of v of None \<Rightarrow> True | Some p \<Rightarrow> map_get m p = None"
  shows "goes_up m [v] v"
proof -
  have c: "msg_key v = c" using keyed_get [OF assms(1,2)] .
  have "w = v" if w: "w \<in> set (map_values m)" "(msg_key w, c) \<in> (parents m)\<^sup>*" for w
  proof -
    have mw: "map_get m (msg_key w) = Some w" by (rule keyed_value [OF assms(1) w(1)])
    from w(2) consider "msg_key w = c" | p where "parent_of v = Some p" "(msg_key w, p) \<in> (parents m)\<^sup>*"
      unfolding ancestors_step [OF assms(1,2)] by blast
    then show ?thesis
    proof cases
      case 1
      with mw assms(2) show ?thesis by simp
    next
      case 2
      with assms(3) have "map_get m p = None" by simp
      with path_target [OF assms(1) 2(2)] mw show ?thesis by simp
    qed
  qed
  then have anc: "{w \<in> set (map_values m). (msg_key w, c) \<in> (parents m)\<^sup>*} = {v}"
    using map_get_value [OF assms(2)] c by blast
  show ?thesis unfolding goes_up_def c anc using assms(3) by (simp add: c)
qed

lemma goes_up_step:
  assumes m: "keyed m" "acyclic (parents m)" and v: "map_get m c = Some v" "parent_of v = Some p" "map_get m p = Some u"
    and up: "goes_up m up u"
  shows "goes_up m (v # up) v"
proof -
  have key: "msg_key v = c" "msg_key u = p" using keyed_get [OF m(1)] v by blast+
  have edge: "(p, c) \<in> parents m" by (rule parent_edge [OF v(1) key(1) v(2)])
  note up' = up [unfolded goes_up_def key]
  have anc: "{w \<in> set (map_values m). (msg_key w, c) \<in> (parents m)\<^sup>*} = insert v (set up)"
  proof (intro set_eqI)
    fix w
    have "w \<in> set (map_values m) \<and> msg_key w = c \<longleftrightarrow> w = v"
      using keyed_value [OF m(1)] v(1) key(1) map_get_value [OF v(1)] by (metis option.inject)
    moreover have "w \<in> set up \<longleftrightarrow> w \<in> set (map_values m) \<and> (msg_key w, p) \<in> (parents m)\<^sup>*" using up' by blast
    ultimately show "w \<in> {w \<in> set (map_values m). (msg_key w, c) \<in> (parents m)\<^sup>*} \<longleftrightarrow> w \<in> insert v (set up)"
      using ancestors_step [OF m(1) v(1), of "msg_key w"] v(2) by auto
  qed
  have "c \<notin> msg_key ` set up"
  proof
    assume "c \<in> msg_key ` set up"
    then have "(c, p) \<in> (parents m)\<^sup>*" using up' by auto
    from this edge have "(c, c) \<in> (parents m)\<^sup>+" by (rule rtrancl_into_trancl1)
    with m(2) show False by (auto simp: acyclic_def)
  qed
  moreover have "(msg_key (last up), c) \<in> (parents m)\<^sup>*"
  proof -
    have "u \<in> set up" using up' hd_in_set [of up] by simp
    then have "(msg_key (last up), p) \<in> (parents m)\<^sup>*" using up' key(2) by blast
    from this edge show ?thesis by (rule rtrancl_into_rtrancl)
  qed
  moreover have "successively (\<lambda>a b. parent_of a = Some (msg_key b)) (v # up)"
    using up' v(2) key(2) by (cases up) auto
  ultimately show ?thesis
    unfolding goes_up_def key anc using up' key by simp
qed

lemma loops_up:
  assumes m: "keyed m" "acyclic (parents m)" and v: "map_get m c = Some v"
  shows "\<exists>up. goes_up m up v \<and> root_loop m v = Some (last up) \<and> (\<forall>acc. chain_loop m acc v = Some (acc @ up))"
  using parents_wf [OF m(2)] v
proof (induction c arbitrary: v rule: wf_induct_rule)
  case (less c)
  show ?case
  proof (cases "\<exists>p u. parent_of v = Some p \<and> map_get m p = Some u")
    case True
    then obtain p u where p: "parent_of v = Some p" "map_get m p = Some u" by blast
    have "(p, c) \<in> parents m" using parent_edge [OF less.prems keyed_get [OF m(1) less.prems] p(1)] .
    from less.IH [OF this p(2)] obtain up where up: "goes_up m up u" "root_loop m u = Some (last up)"
      "\<forall>acc. chain_loop m acc u = Some (acc @ up)" by blast
    have "up \<noteq> []" using up(1) by (simp add: goes_up_def)
    then have "root_loop m v = Some (last (v # up)) \<and> (\<forall>acc. chain_loop m acc v = Some (acc @ v # up))"
      using up p by (simp add: root_loop.simps [of m v] chain_loop.simps [of m _ v])
    with goes_up_step [OF m less.prems p up(1)] show ?thesis by blast
  next
    case False
    then have top: "case parent_of v of None \<Rightarrow> True | Some p \<Rightarrow> map_get m p = None"
      by (auto split: option.split)
    then have "root_loop m v = Some (last [v]) \<and> (\<forall>acc. chain_loop m acc v = Some (acc @ [v]))"
      by (auto simp: root_loop.simps [of m v] chain_loop.simps [of m _ v] split: option.splits)
    with goes_up_root [OF m(1) less.prems top] show ?thesis by blast
  qed
qed

section \<open>Going down\<close>

lemma insert_cmp_set [simp]: "set (insert_cmp cmp x xs) = insert x (set xs)"
  by (induction xs) auto

lemma sort_cmp_set [simp]: "set (sort_cmp cmp xs) = set xs"
  unfolding sort_cmp_def by (induction xs) auto

lemma child_ids_add:
  "child_ids (add_child_id v cm) p = child_ids cm p @ (if parent_of v = Some p then [msg_key v] else [])"
  by (auto simp: add_child_id_def child_ids_def map_has_def Let_def split: option.split)

lemma child_ids_fold:
  "child_ids (fold add_child_id vs cm) p = child_ids cm p @ map msg_key (filter (\<lambda>v. parent_of v = Some p) vs)"
  by (induction vs arbitrary: cm) (auto simp: child_ids_add)

lemma child_ids_build: "set (child_ids (buildMapsFromMap m) p) = {c. (p, c) \<in> parents m}"
proof -
  have "child_ids (buildMapsFromMap m) p
      = sort_cmp (compare_children m) (child_ids (fold add_child_id (map_values m) []) p)"
    by (simp add: buildMapsFromMap_def child_ids_def map_of_map sort_cmp_def split: option.split)
  then have "set (child_ids (buildMapsFromMap m) p) = set (child_ids (fold add_child_id (map_values m) []) p)" by simp
  also have "\<dots> = msg_key ` {v \<in> set (map_values m). parent_of v = Some p}"
    unfolding child_ids_fold by (simp add: child_ids_def)
  finally show ?thesis by (auto simp: parents_def)
qed

text \<open>What holds at every turn of the walk down from \<open>r\<close>.\<close>

definition walk_inv :: "message_map \<Rightarrow> message_id \<Rightarrow> message_id list \<Rightarrow> message_id set \<Rightarrow> message list \<Rightarrow> bool" where
  "walk_inv m r queue visited results \<longleftrightarrow>
     (\<forall>c \<in> visited \<union> set queue. (r, c) \<in> (parents m)\<^sup>*) \<and> r \<in> visited \<union> set queue
     \<and> (\<forall>p \<in> visited. \<forall>c. (p, c) \<in> parents m \<longrightarrow> c \<in> visited \<union> set queue)
     \<and> set results = {w \<in> set (map_values m). msg_key w \<in> visited} \<and> distinct (map msg_key results)"

lemma walk_visit:
  assumes inv: "walk_inv m r (n # queue) visited results" and m: "keyed m" "map_get m n = Some v" and new: "n \<notin> visited"
    and extra: "set extra \<subseteq> {c. (n, c) \<in> parents m}" "{c. (n, c) \<in> parents m} \<subseteq> insert n visited \<union> set extra"
  shows "walk_inv m r (queue @ extra) (insert n visited) (results @ [v])"
proof -
  note inv' = inv [unfolded walk_inv_def]
  have n: "(r, n) \<in> (parents m)\<^sup>*" using inv' by simp
  have key: "msg_key v = n" by (rule keyed_get [OF m])
  have "w \<in> set (map_values m) \<and> msg_key w = n \<longleftrightarrow> w = v" for w
    using keyed_value [OF m(1)] m(2) key map_get_value [OF m(2)] by (metis option.inject)
  then have "set (results @ [v]) = {w \<in> set (map_values m). msg_key w \<in> insert n visited}"
    using inv' by auto
  moreover have "distinct (map msg_key (results @ [v]))"
    using inv' new key by auto
  moreover have "\<forall>c \<in> insert n visited \<union> set (queue @ extra). (r, c) \<in> (parents m)\<^sup>*"
    using inv' extra(1) rtrancl_into_rtrancl [OF n] by auto
  moreover have "\<forall>p \<in> insert n visited. \<forall>c. (p, c) \<in> parents m \<longrightarrow> c \<in> insert n visited \<union> set (queue @ extra)"
    using inv' extra(2) by auto
  moreover have "r \<in> insert n visited \<union> set (queue @ extra)" using inv' by auto
  ultimately show ?thesis unfolding walk_inv_def by blast
qed

lemma walk_known: "walk_inv m r queue visited results \<Longrightarrow> keyed m \<Longrightarrow> map_get m r \<noteq> None \<Longrightarrow> c \<in> set queue \<Longrightarrow> map_get m c \<noteq> None"
  unfolding walk_inv_def using path_target by blast

lemma subtree_walk:
  assumes "walk_inv m r queue visited results" "keyed m" "map_get m r \<noteq> None"
  shows "\<exists>visited'. walk_inv m r [] visited' (subtree_loop m (buildMapsFromMap m) queue visited results)"
  using assms
proof (induction m "buildMapsFromMap m" queue visited results rule: subtree_loop.induct)
  case (1 m visited results)
  then show ?case by auto
next
  case (2 m n queue visited results)
  show ?case
  proof (cases "n \<in> visited")
    case True
    then have "walk_inv m r queue visited results" using "2.prems"(1) by (auto simp: walk_inv_def)
    with 2 True show ?thesis by simp
  next
    case False
    obtain v where v: "map_get m n = Some v"
      using walk_known [OF "2.prems", of n] by auto
    let ?extra = "filter (\<lambda>c. c \<notin> insert n visited) (child_ids (buildMapsFromMap m) n)"
    have "walk_inv m r (queue @ ?extra) (insert n visited) (results @ [v])"
      by (rule walk_visit [OF "2.prems"(1,2) v False]) (auto simp: child_ids_build)
    from "2.hyps"(3) [OF False refl v this "2.prems"(2,3)] show ?thesis using False v by simp
  qed
qed

lemma subtree_members:
  assumes "keyed m" "map_get m r \<noteq> None"
  shows "set (getSubtree r m (buildMapsFromMap m)) = {w \<in> set (map_values m). (r, msg_key w) \<in> (parents m)\<^sup>*}"
    and "distinct (map msg_key (getSubtree r m (buildMapsFromMap m)))"
proof -
  define results where "results = subtree_loop m (buildMapsFromMap m) [r] {} []"
  have sub: "getSubtree r m (buildMapsFromMap m) = sort_key m_createdAt results"
    by (simp only: getSubtree_def results_def)
  have "walk_inv m r [r] {} []" by (simp add: walk_inv_def)
  from subtree_walk [OF this assms] obtain visited where inv: "walk_inv m r [] visited results"
    unfolding results_def by blast
  then have closed: "\<And>p c. p \<in> visited \<Longrightarrow> (p, c) \<in> parents m \<Longrightarrow> c \<in> visited" and start: "r \<in> visited"
    by (auto simp: walk_inv_def)
  have "c \<in> visited" if "(r, c) \<in> (parents m)\<^sup>*" for c
    using that by (induction rule: rtrancl_induct) (use start closed in auto)
  moreover have "\<forall>c \<in> visited. (r, c) \<in> (parents m)\<^sup>*" using inv unfolding walk_inv_def by simp
  ultimately have "visited = {c. (r, c) \<in> (parents m)\<^sup>*}" by blast
  then show "set (getSubtree r m (buildMapsFromMap m)) = {w \<in> set (map_values m). (r, msg_key w) \<in> (parents m)\<^sup>*}"
    using inv by (simp add: sub walk_inv_def)
  have "distinct (map msg_key results)" using inv unfolding walk_inv_def by blast
  then have "distinct results \<and> inj_on msg_key (set results)" by (simp add: distinct_map)
  then show "distinct (map msg_key (getSubtree r m (buildMapsFromMap m)))"
    by (simp add: sub distinct_map)
qed

section \<open>The branch\<close>

text \<open>
  C9: if no message is its own ancestor, the branch of a message is always found: it holds, each once, exactly the
  ancestors of the message, the message and everything below it. When nothing is below, the branch is the chain from
  the root to the message, each answering the one before; otherwise it is in the order of time.
\<close>

theorem branch_shown:
  assumes "keyed m" "acyclic (parents m)" "map_get m leafId = Some leaf"
  shows "\<exists>branch. getBranchMessages m leafId = Some branch
    \<and> set branch = {w \<in> set (map_values m). (msg_key w, leafId) \<in> (parents m)\<^sup>* \<or> (leafId, msg_key w) \<in> (parents m)\<^sup>*}
    \<and> distinct (map msg_key branch)
    \<and> (if \<exists>w \<in> set (map_values m). parent_of w = Some leafId
       then sorted (map m_createdAt branch)
       else branch \<noteq> [] \<and> last branch = leaf \<and> successively (\<lambda>a b. parent_of b = Some (msg_key a)) branch
         \<and> (case parent_of (hd branch) of None \<Rightarrow> True | Some p \<Rightarrow> map_get m p = None))"
proof -
  have key: "msg_key leaf = leafId" by (rule keyed_get [OF assms(1,3)])
  from loops_up [OF assms] obtain up where up: "goes_up m up leaf" and root: "root_loop m leaf = Some (last up)"
    and chain: "\<forall>acc. chain_loop m acc leaf = Some (acc @ up)" by blast
  note up' = up [unfolded goes_up_def key]
  have ids: "child_ids (buildMapsFromMap m) leafId \<noteq> [] \<longleftrightarrow> (\<exists>w \<in> set (map_values m). parent_of w = Some leafId)"
  proof -
    have "child_ids (buildMapsFromMap m) leafId \<noteq> [] \<longleftrightarrow> {c. (leafId, c) \<in> parents m} \<noteq> {}"
      unfolding child_ids_build [symmetric] by simp
    then show ?thesis by (auto simp: parents_def)
  qed
  show ?thesis
  proof (cases "\<exists>w \<in> set (map_values m). parent_of w = Some leafId")
    case True
    let ?root = "msg_key (last up)" and ?cm = "buildMapsFromMap m"
    let ?ids = "msg_key ` set (rev up) \<union> msg_key ` set (getSubtree leafId m ?cm)"
    let ?branch = "sort_key m_createdAt (filter (\<lambda>w. msg_key w \<in> ?ids) (getSubtree ?root m ?cm))"
    have "last up \<in> set (map_values m)" using up' last_in_set [of up] by blast
    then have known: "map_get m ?root \<noteq> None" using keyed_value [OF assms(1)] by simp
    note sub = subtree_members [OF assms(1) known]
    have low: "set (getSubtree leafId m ?cm) = {w \<in> set (map_values m). (leafId, msg_key w) \<in> (parents m)\<^sup>*}"
      using subtree_members(1) [OF assms(1), of leafId] assms(3) by simp
    have ids_of: "msg_key w \<in> ?ids \<longleftrightarrow> (msg_key w, leafId) \<in> (parents m)\<^sup>* \<or> (leafId, msg_key w) \<in> (parents m)\<^sup>*"
      if "w \<in> set (map_values m)" for w
    proof -
      have "msg_key w \<in> msg_key ` S \<longleftrightarrow> w \<in> S" if S: "S \<subseteq> set (map_values m)" for S
        using keyed_value [OF assms(1)] \<open>w \<in> set (map_values m)\<close> S by (metis image_iff option.inject subset_iff)
      then have "msg_key w \<in> msg_key ` set (rev up) \<longleftrightarrow> w \<in> set up"
          and "msg_key w \<in> msg_key ` set (getSubtree leafId m ?cm) \<longleftrightarrow> w \<in> set (getSubtree leafId m ?cm)"
        using up' low by auto
      with that up' low show ?thesis by auto
    qed
    have top: "(?root, leafId) \<in> (parents m)\<^sup>*" using up' key hd_in_set [of up] by force
    have "getBranchMessages m leafId = Some ?branch"
      using True ids by (simp add: getBranchMessages_def assms(3) findRoot_def root buildChain_def chain key Let_def)
    moreover have "set ?branch = {w \<in> set (map_values m). (msg_key w, leafId) \<in> (parents m)\<^sup>* \<or> (leafId, msg_key w) \<in> (parents m)\<^sup>*}"
      using sub(1) ids_of up' top rtrancl_trans [OF top] by auto
    moreover have "distinct (map msg_key ?branch)"
      using sub(2) by (auto simp: distinct_map inj_on_def)
    ultimately show ?thesis using True by auto
  next
    case False
    have "getBranchMessages m leafId = Some (rev up)"
      using False ids by (simp add: getBranchMessages_def assms(3) findRoot_def root buildChain_def chain key Let_def)
    moreover have "x = leafId" if "(leafId, x) \<in> (parents m)\<^sup>*" for x
      using that False by (auto simp: parents_def elim: converse_rtranclE)
    then have "set (rev up) = {w \<in> set (map_values m). (msg_key w, leafId) \<in> (parents m)\<^sup>* \<or> (leafId, msg_key w) \<in> (parents m)\<^sup>*}"
      using up' by auto
    ultimately show ?thesis
      using False up' by (auto simp: last_rev hd_rev rev_map [symmetric] successively_rev)
  qed
qed

section \<open>The leaf\<close>

lemma newest_first_hd:
  assumes "ms \<noteq> []"
  shows "hd (newest_first ms) \<in> set ms \<and> (\<forall>w \<in> set ms. m_createdAt w \<le> m_createdAt (hd (newest_first ms)))"
proof -
  let ?s = "newest_first ms"
  have s: "set ?s = set ms" "?s \<noteq> []" "sorted (map (\<lambda>w. - int (m_createdAt w)) ?s)"
    using assms by (simp_all add: newest_first_def)
  then obtain x xs where x: "?s = x # xs" by (cases ?s) auto
  have "\<forall>w \<in> set (x # xs). m_createdAt w \<le> m_createdAt x" using s(3) by (auto simp: x)
  then show ?thesis using s(1) by (auto simp: x)
qed

lemma potentialLeaves_iff:
  "w \<in> set (potentialLeaves m) \<longleftrightarrow> w \<in> set (map_values m) \<and> (\<forall>v \<in> set (map_values m). parent_of v \<noteq> Some (msg_key w))"
  by (auto simp: potentialLeaves_def Let_def List.map_filter_def) force

lemma some_leaf:
  assumes "acyclic (parents m)" "m \<noteq> []"
  shows "potentialLeaves m \<noteq> []"
proof -
  have wf: "wf ((parents m)\<inverse>)" by (rule finite_acyclic_wf_converse [OF parents_finite assms(1)])
  obtain v where "v \<in> set (map_values m)" using assms(2) by (cases m) auto
  then have "msg_key v \<in> msg_key ` set (map_values m)" by (rule imageI)
  from wfE_min [OF wf this] obtain z where "z \<in> msg_key ` set (map_values m)"
      and last: "\<And>c. (c, z) \<in> (parents m)\<inverse> \<Longrightarrow> c \<notin> msg_key ` set (map_values m)" by blast
  then obtain w where w: "w \<in> set (map_values m)" "z = msg_key w" by blast
  have "parent_of u \<noteq> Some (msg_key w)" if "u \<in> set (map_values m)" for u
    using last [of "msg_key u"] that by (auto simp: parents_def w(2))
  with w have "w \<in> set (potentialLeaves m)" by (simp add: potentialLeaves_iff)
  then show ?thesis by auto
qed

text \<open>
  C10: when messages of a chat are there and no known message is stored as its leaf, the page chooses the newest message
  that nothing answers, shows the chain from the root to it, and chooses no other afterwards.
\<close>

theorem leaf_chosen_shown:
  assumes "messages state c = Some m" "c \<noteq> []" "m \<noteq> []" "keyed m" "[] \<notin> set (map_keys m)" "acyclic (parents m)"
    and "case activeLeafMessageId state c of None \<Rightarrow> True | Some l \<Rightarrow> \<not> map_has m l"
  shows "\<exists>leaf branch. activeLeafMessageId (leaf_effect (Some c) state) c = Some (msg_key leaf)
    \<and> leaf \<in> set (potentialLeaves m) \<and> (\<forall>w \<in> set (potentialLeaves m). m_createdAt w \<le> m_createdAt leaf)
    \<and> activeBranchMessages (Some c) (leaf_effect (Some c) state) = Some branch
    \<and> branch \<noteq> [] \<and> last branch = leaf \<and> successively (\<lambda>a b. parent_of b = Some (msg_key a)) branch
    \<and> leaf_effect (Some c) (leaf_effect (Some c) state) = leaf_effect (Some c) state"
proof -
  define leaf where "leaf = hd (newest_first (potentialLeaves m))"
  have leaves: "potentialLeaves m \<noteq> []" by (rule some_leaf [OF assms(6,3)])
  from newest_first_hd [OF this] have leaf: "leaf \<in> set (potentialLeaves m)"
      "\<forall>w \<in> set (potentialLeaves m). m_createdAt w \<le> m_createdAt leaf"
    by (simp_all add: leaf_def)
  then have leaf_value: "leaf \<in> set (map_values m)"
      and childless: "\<not> (\<exists>w \<in> set (map_values m). parent_of w = Some (msg_key leaf))"
    by (auto simp: potentialLeaves_iff)
  have get: "map_get m (msg_key leaf) = Some leaf" by (rule keyed_value [OF assms(4) leaf_value])
  have cur: "currentMessagesMap (Some c) s = m" if "messages s c = Some m" for s
    using that assms(2) by (simp add: currentMessagesMap_def)
  have picked: "leaf_effect (Some c) state = setActiveLeaf c (msg_key leaf) state"
    using assms(2,3,7) leaves
    by (auto simp: leaf_effect_def cur [OF assms(1)] pick_leaf_def leaf_def Let_def split: option.split)
  let ?s = "setActiveLeaf c (msg_key leaf) state"
  have s: "messages ?s c = Some m" "activeLeafMessageId ?s c = Some (msg_key leaf)"
    using assms(1) by (simp_all add: setActiveLeaf_def)
  have settled: "leaf_effect (Some c) ?s = ?s"
    using assms(2,3) by (simp add: leaf_effect_def cur [OF s(1)] s(2) map_has_def get)
  have "msg_key leaf \<noteq> []"
    using map_get_mem [OF get] assms(5) by force
  then have "activeBranchMessages (Some c) ?s = getBranchMessages m (msg_key leaf)"
    using assms(2,3) by (simp add: activeBranchMessages_def cur [OF s(1)] chatLeafId_def s(2) Let_def)
  moreover obtain branch where "getBranchMessages m (msg_key leaf) = Some branch" "branch \<noteq> []" "last branch = leaf"
      "successively (\<lambda>a b. parent_of b = Some (msg_key a)) branch"
    using branch_shown [OF assms(4,6) get] childless by auto
  ultimately show ?thesis using leaf s(2) settled by (auto simp: picked)
qed

section \<open>What is on the screen\<close>

text \<open>Exactly one of the spinner, the messages and the empty page is there.\<close>

lemma one_of_three:
  "(if showSpinner c s branch then 1 else 0) + (if showMessages branch then 1 else 0)
     + (if showEmptyState c s branch then 1 else 0) = (1::nat)"
  by (auto simp: showSpinner_def showMessages_def showEmptyState_def)

text \<open>A message that is its own parent would be followed for ever.\<close>

lemma root_loop_cycle: "parent_of v = Some p \<Longrightarrow> map_get m p = Some v \<Longrightarrow> root_loop m v = None"
proof -
  assume v: "parent_of v = Some p" "map_get m p = Some v"
  have "n = m \<longrightarrow> u \<noteq> v" if "root_loop n u = Some r" for n u r
    using that
    by (rule root_loop.raw_induct [where P = "\<lambda>n u _. n = m \<longrightarrow> u \<noteq> v", rotated])
      (auto simp: v split: option.splits, blast)
  then show ?thesis by (cases "root_loop m v") auto
qed

section \<open>An example\<close>

text \<open>A question, its answer and an alternative of the answer.\<close>

definition example_chat :: message_map where
  "example_chat =
     [(''q'', plain_message ''q'' ''c'' User ''?'' None 1),
      (''a'', plain_message ''a'' ''c'' Assistant ''!'' (Some ''q'') 2),
      (''b'', plain_message ''b'' ''c'' Assistant ''!!'' (Some ''q'') 3)]"

lemma example_keys: "keyed example_chat"
  by (simp add: keyed_def example_chat_def plain_message_def msg_key_def)

lemma example_parents: "parents example_chat = {(''q'', ''a''), (''q'', ''b'')}"
  by (auto simp: parents_def example_chat_def plain_message_def msg_key_def parent_of_def)

lemma example_acyclic: "acyclic (parents example_chat)"
proof -
  have "(a, c) \<in> (parents example_chat)\<^sup>+ \<Longrightarrow> a = ''q'' \<and> c \<noteq> ''q''" for a c
    by (induction rule: trancl_induct) (auto simp: example_parents)
  then show ?thesis by (fastforce simp: acyclic_def)
qed

theorem branch_shown_witness:
  "\<exists>branch. getBranchMessages example_chat ''q'' = Some branch \<and> msg_key ` set branch = {''q'', ''a'', ''b''}"
proof -
  let ?leaf = "plain_message ''q'' ''c'' User ''?'' None 1"
  have "map_get example_chat ''q'' = Some ?leaf" by (simp add: example_chat_def)
  from branch_shown [OF example_keys example_acyclic this] obtain branch
    where b: "getBranchMessages example_chat ''q'' = Some branch"
      "set branch = {w \<in> set (map_values example_chat). (msg_key w, ''q'') \<in> (parents example_chat)\<^sup>* \<or> (''q'', msg_key w) \<in> (parents example_chat)\<^sup>*}"
    by blast
  have "(''q'', ''a'') \<in> (parents example_chat)\<^sup>*" "(''q'', ''b'') \<in> (parents example_chat)\<^sup>*"
    by (auto simp: example_parents)
  moreover have keys: "msg_key ` set (map_values example_chat) = {''q'', ''a'', ''b''}"
    by (simp add: example_chat_def plain_message_def msg_key_def)
  ultimately have "(''q'', k) \<in> (parents example_chat)\<^sup>*" if "k \<in> msg_key ` set (map_values example_chat)" for k
    using that unfolding keys by auto
  then have "set branch = set (map_values example_chat)" unfolding b(2) by blast
  then have "msg_key ` set branch = {''q'', ''a'', ''b''}" using keys by simp
  with b(1) show ?thesis by blast
qed

theorem leaf_chosen_shown_witness:
  "\<exists>leaf branch. activeBranchMessages (Some ''c'')
       (leaf_effect (Some ''c'') (initialChatState\<lparr>messages := [''c'' \<mapsto> example_chat], activeLeafMessageId := Map.empty\<rparr>)) = Some branch
     \<and> branch \<noteq> [] \<and> last branch = leaf \<and> m_createdAt leaf = 3"
proof -
  let ?s = "initialChatState\<lparr>messages := [''c'' \<mapsto> example_chat], activeLeafMessageId := Map.empty\<rparr>"
  have leaves: "set (potentialLeaves example_chat) = set (map_values example_chat) - {plain_message ''q'' ''c'' User ''?'' None 1}"
    by (auto simp: potentialLeaves_iff) (auto simp: example_chat_def plain_message_def msg_key_def parent_of_def)
  have "messages ?s ''c'' = Some example_chat" "example_chat \<noteq> []" "[] \<notin> set (map_keys example_chat)"
      "case activeLeafMessageId ?s ''c'' of None \<Rightarrow> True | Some l \<Rightarrow> \<not> map_has example_chat l"
    by (simp_all add: example_chat_def)
  from leaf_chosen_shown [OF this(1) _ this(2) example_keys this(3) example_acyclic this(4)]
  obtain leaf branch where b: "activeBranchMessages (Some ''c'') (leaf_effect (Some ''c'') ?s) = Some branch" "branch \<noteq> []"
      "last branch = leaf" and leaf: "leaf \<in> set (potentialLeaves example_chat)"
      "\<forall>w \<in> set (potentialLeaves example_chat). m_createdAt w \<le> m_createdAt leaf" by auto
  have "m_createdAt leaf = 3"
    using leaf unfolding leaves by (auto simp: example_chat_def plain_message_def)
  with b show ?thesis by blast
qed

end
