(* ===== verification/Sidebar.thy ===== *)
theory Sidebar
  imports Chat_State "HOL-Library.Multiset"
begin

text \<open>
  \<open>src/gpt_frontend/src/components/sidebar/SidebarContent.tsx\<close>: the list of chats, chosen by category, sorted by their
  last change and grouped by how long ago it was. The clock is read for every chat, so it may advance while grouping.
\<close>

section \<open>Operations\<close>

definition HOUR_MS :: int where
  "HOUR_MS = 1000 * 60 * 60"

definition getTimeGroup :: "nat \<Rightarrow> chat \<Rightarrow> string" where
  "getTimeGroup now chat =
     (let diffMs = int now - int (c_updatedAt chat) in
      if diffMs < HOUR_MS then ''Last hour''
      else if diffMs < HOUR_MS * 24 then ''Today''
      else if diffMs < HOUR_MS * 24 * 2 then ''Yesterday''
      else if diffMs < HOUR_MS * 24 * 7 then ''This week''
      else ''Older'')"

definition group_chat :: "(nat \<Rightarrow> nat) \<Rightarrow> nat \<times> chat \<Rightarrow> (string, chat list) jsmap \<Rightarrow> (string, chat list) jsmap" where
  "group_chat now entry acc =
     (let label = getTimeGroup (now (fst entry)) (snd entry);
          acc1 = (if map_has acc label then acc else map_set label [] acc)
      in map_set label (the (map_get acc1 label) @ [snd entry]) acc1)"

text \<open>\<open>now i\<close> is the clock at the \<open>i\<close>-th chat.\<close>

definition groupChatsByTime :: "(nat \<Rightarrow> nat) \<Rightarrow> chat list \<Rightarrow> (string, chat list) jsmap" where
  "groupChatsByTime now cs = fold (group_chat now) (enumerate 0 cs) []"

definition sortedChats :: "chat_state \<Rightarrow> chat list" where
  "sortedChats state = sort_key (\<lambda>c. - int (c_updatedAt c)) (chats state)"

definition in_category :: "string \<Rightarrow> chat \<Rightarrow> bool" where
  "in_category selected c =
     (if selected = ''recent'' then \<not> c_archived c \<and> \<not> c_temporary c
      else if selected = ''archived'' then c_archived c
      else if selected = ''temporary'' then c_temporary c \<and> \<not> c_archived c
      else True)"

definition filteredChats :: "string \<Rightarrow> chat_state \<Rightarrow> chat list" where
  "filteredChats selected state = filter (in_category selected) (sortedChats state)"

definition groupedChats :: "(nat \<Rightarrow> nat) \<Rightarrow> string \<Rightarrow> chat_state \<Rightarrow> (string, chat list) jsmap" where
  "groupedChats now selected state =
     (if hasFetchedChats state \<and> length (filteredChats selected state) > 0
      then groupChatsByTime now (filteredChats selected state) else [])"

text \<open>What a click does: the address that is opened, and whether the sidebar closes.\<close>

definition handleChatClick :: "chat_id \<Rightarrow> bool \<Rightarrow> chat_state \<Rightarrow> string option \<times> bool" where
  "handleChatClick chatId isMediumOrLarger state =
     (if chatId = [] then (None, False)
      else (if Some chatId \<noteq> currentChatId state then Some (''/?chat='' @ chatId) else None, \<not> isMediumOrLarger))"

definition usagePct :: "rat \<Rightarrow> rat \<Rightarrow> rat" where
  "usagePct userStorageUsage userStorageLimit = userStorageUsage / userStorageLimit * 100"

section \<open>Groups\<close>

definition time_labels :: "string list" where
  "time_labels = [''Last hour'', ''Today'', ''Yesterday'', ''This week'', ''Older'']"

definition time_rank :: "int \<Rightarrow> nat" where
  "time_rank d =
     (if d < HOUR_MS then 0 else if d < HOUR_MS * 24 then 1 else if d < HOUR_MS * 24 * 2 then 2
      else if d < HOUR_MS * 24 * 7 then 3 else 4)"

lemma time_rank_mono: "d \<le> e \<Longrightarrow> time_rank d \<le> time_rank e"
  by (simp add: time_rank_def HOUR_MS_def)

lemma time_rank_less: "time_rank d < length time_labels"
  by (simp add: time_rank_def time_labels_def)

lemma getTimeGroup_rank: "getTimeGroup now c = time_labels ! time_rank (int now - int (c_updatedAt c))"
  by (simp add: getTimeGroup_def time_rank_def time_labels_def Let_def)

lemma time_labels_distinct: "distinct time_labels"
  by (simp add: time_labels_def)

text \<open>The groups made so far, when the last of them has the rank \<open>r\<close>.\<close>

definition groups_upto :: "nat \<Rightarrow> (string, chat list) jsmap \<Rightarrow> bool" where
  "groups_upto r acc \<longleftrightarrow>
     (\<exists>ranks. map_keys acc = map ((!) time_labels) ranks \<and> sorted_wrt (<) ranks \<and> (\<forall>k \<in> set ranks. k \<le> r)
        \<and> r < length time_labels)"

lemma rank_label_inj: "a < length time_labels \<Longrightarrow> b < length time_labels \<Longrightarrow> time_labels ! a = time_labels ! b \<longleftrightarrow> a = b"
  by (rule nth_eq_iff_index_eq [OF time_labels_distinct])

lemma map_set_last: "k \<notin> set (map_keys a) \<Longrightarrow> map_set k w (a @ [(k, v)]) = a @ [(k, w)]"
  by (induction a) auto

lemma map_get_last: "k \<notin> set (map_keys a) \<Longrightarrow> map_get (a @ [(k, v)]) k = Some v"
  by (induction a) auto

lemma group_chat_end:
  assumes acc: "groups_upto r acc" and r: "r \<le> s" "s = time_rank (int (now i) - int (c_updatedAt c))"
  shows "groups_upto s (group_chat now (i, c) acc)
    \<and> concat (map_values (group_chat now (i, c) acc)) = concat (map_values acc) @ [c]"
proof -
  let ?l = "time_labels ! s"
  have s: "s < length time_labels" using time_rank_less r(2) by simp
  have label: "getTimeGroup (now i) c = ?l" by (simp add: getTimeGroup_rank r(2))
  obtain ranks where ranks: "map_keys acc = map ((!) time_labels) ranks" "sorted_wrt (<) ranks" "\<forall>k \<in> set ranks. k \<le> r"
    using acc by (auto simp: groups_upto_def)
  show ?thesis
  proof (cases "s \<in> set ranks")
    case True
    then have "s = r" using ranks(3) r(1) by (simp add: le_antisym)
    obtain as bs where split: "ranks = as @ s # bs" using True by (meson split_list)
    have "bs = []" using ranks(2,3) \<open>s = r\<close> by (cases bs) (auto simp: split sorted_wrt_append)
    then have "ranks = as @ [s]" by (simp add: split)
    then obtain a g where acc_eq: "acc = a @ [(?l, g)]" "map_keys a = map ((!) time_labels) as"
      using ranks(1) by (cases acc rule: rev_cases) auto
    have "?l \<notin> set (map_keys a)"
      using ranks(2,3) s \<open>s = r\<close> by (auto simp: acc_eq(2) \<open>ranks = as @ [s]\<close> sorted_wrt_append rank_label_inj)
    then have "map_get acc ?l = Some g" "map_set ?l (g @ [c]) acc = a @ [(?l, g @ [c])]"
      unfolding acc_eq(1) by (simp_all only: map_set_last map_get_last not_False_eq_True)
    then have out: "group_chat now (i, c) acc = a @ [(?l, g @ [c])]"
      by (simp add: group_chat_def label map_has_def Let_def)
    have "map_keys (group_chat now (i, c) acc) = map ((!) time_labels) ranks"
      unfolding out using ranks(1) by (simp add: acc_eq(1))
    moreover have "concat (map_values (group_chat now (i, c) acc)) = concat (map_values acc) @ [c]"
      unfolding out by (simp add: acc_eq(1))
    ultimately show ?thesis
      using ranks(2,3) s \<open>s = r\<close> unfolding groups_upto_def by blast
  next
    case False
    then have "\<forall>k \<in> set ranks. k < s" using ranks(3) r(1) by (metis le_less_trans nat_less_le order_trans)
    then have new: "?l \<notin> set (map_keys acc)"
      using s by (auto simp: ranks(1) rank_label_inj)
    then have out: "group_chat now (i, c) acc = acc @ [(?l, [c])]"
      using map_has_iff [of acc ?l] map_set_last [OF new] map_get_last [OF new]
      by (simp add: group_chat_def label Let_def map_keys_set_absent del: map_get_set)
    have "map_keys (group_chat now (i, c) acc) = map ((!) time_labels) (ranks @ [s])"
      by (simp add: out ranks(1))
    moreover have "sorted_wrt (<) (ranks @ [s])"
      using ranks(2) \<open>\<forall>k \<in> set ranks. k < s\<close> by (simp add: sorted_wrt_append)
    ultimately show ?thesis
      using s \<open>\<forall>k \<in> set ranks. k < s\<close> out
      by (simp add: groups_upto_def) (intro exI [of _ "ranks @ [s]"], simp add: less_imp_le)
  qed
qed

lemma group_fold:
  assumes "groups_upto r acc" "\<And>i j. i \<le> j \<Longrightarrow> now i \<le> now j" "sorted (map (\<lambda>c. - int (c_updatedAt c)) cs)"
    and "\<And>c. c \<in> set cs \<Longrightarrow> r \<le> time_rank (int (now n) - int (c_updatedAt c))"
  shows "(\<exists>s. groups_upto s (fold (group_chat now) (enumerate n cs) acc))
    \<and> concat (map_values (fold (group_chat now) (enumerate n cs) acc)) = concat (map_values acc) @ cs"
  using assms
proof (induction cs arbitrary: n r acc)
  case (Cons c cs)
  let ?s = "time_rank (int (now n) - int (c_updatedAt c))"
  have "r \<le> ?s" using Cons.prems(4) by simp
  note step = group_chat_end [of r acc ?s now n c, OF Cons.prems(1) this refl]
  have mono: "?s \<le> time_rank (int (now (Suc n)) - int (c_updatedAt d))" if "d \<in> set cs" for d
    using that Cons.prems(3) Cons.prems(2) [of n "Suc n"] by (intro time_rank_mono) auto
  show ?case
    using Cons.IH [OF conjunct1 [OF step] Cons.prems(2) _ mono] Cons.prems(3) step by simp
qed auto

text \<open>
  While the clock does not go back, the sidebar lists under its headings, read from the top, exactly the chats of the
  selected category, the last changed first, each once; every heading is there at most once.
\<close>

lemma sidebar_lists_category:
  assumes "hasFetchedChats state" and "\<And>i j. i \<le> j \<Longrightarrow> now i \<le> now j"
  shows "concat (map_values (groupedChats now selected state)) = filteredChats selected state
    \<and> mset (filteredChats selected state) = mset (filter (in_category selected) (chats state))
    \<and> sorted (rev (map c_updatedAt (filteredChats selected state)))
    \<and> distinct (map_keys (groupedChats now selected state))"
proof -
  let ?cs = "filteredChats selected state"
  have desc: "sorted (map (\<lambda>c. - int (c_updatedAt c)) ?cs)"
    by (simp add: filteredChats_def sortedChats_def sorted_filter)
  have "groups_upto 0 []" by (simp add: groups_upto_def time_labels_def)
  from group_fold [where now = now and n = 0, OF \<open>groups_upto 0 []\<close> assms(2) desc]
  obtain s where g: "groups_upto s (groupChatsByTime now ?cs)" "concat (map_values (groupChatsByTime now ?cs)) = ?cs"
    by (auto simp: groupChatsByTime_def)
  have "distinct (map_keys (groupChatsByTime now ?cs))"
  proof -
    obtain ranks where r: "map_keys (groupChatsByTime now ?cs) = map ((!) time_labels) ranks" "sorted_wrt (<) ranks"
        "\<forall>k \<in> set ranks. k < length time_labels"
      using g(1) unfolding groups_upto_def by (meson le_less_trans)
    have "distinct ranks" using r(2) by (simp add: strict_sorted_iff)
    moreover have "inj_on ((!) time_labels) (set ranks)"
      using r(3) by (auto simp: inj_on_def rank_label_inj)
    ultimately show ?thesis unfolding r(1) by (simp add: distinct_map)
  qed
  moreover have "sorted (rev (map c_updatedAt ?cs))"
    using desc by (simp add: sorted_wrt_rev sorted_wrt_map)
  moreover have "mset ?cs = mset (filter (in_category selected) (chats state))"
    by (simp add: filteredChats_def sortedChats_def)
  ultimately show ?thesis using g(2) assms(1) by (auto simp: groupedChats_def)
qed

lemma sidebar_lists_category_witness:
  "concat (map_values (groupedChats (\<lambda>_. 5) ''recent'' (initialChatState\<lparr>hasFetchedChats := True, chats := [plain_chat ''c'']\<rparr>)))
     = [plain_chat ''c'']"
proof -
  let ?s = "initialChatState\<lparr>hasFetchedChats := True, chats := [plain_chat ''c'']\<rparr>"
  have "filteredChats ''recent'' ?s = [plain_chat ''c'']"
    by (simp add: filteredChats_def sortedChats_def in_category_def plain_chat_def)
  then show ?thesis using sidebar_lists_category [of ?s "\<lambda>_. 5" "''recent''"] by simp
qed

end
