(* ===== verification/Chat_Input.thy ===== *)
theory Chat_Input
  imports File_Processor App_Effects
begin

text \<open>
  Entering messages: \<open>components/chat/ChatInput.tsx\<close> with \<open>hooks/useVoiceInput.ts\<close> and \<open>hooks/useFilePicker.ts\<close>, the
  sending of \<open>components/chat/NewChatPage.tsx\<close>, and the commands of \<open>components/layouts/AuthenticatedHomePage.tsx\<close>
  (all under \<open>src/gpt_frontend/src\<close>). The speech recogniser of the browser speaks through events; what a handler calls
  is a result.
\<close>

section \<open>Voice\<close>

text \<open>\<open>vo_supported\<close>: the browser has a recogniser, which is then kept in the reference.\<close>

record voice =
  vo_transcript :: string
  vo_listening :: bool
  vo_error :: "string option"
  vo_supported :: bool

definition mounted_voice :: "bool \<Rightarrow> voice" where
  "mounted_voice supported = \<lparr>vo_transcript = [], vo_listening = False, vo_error = None, vo_supported = supported\<rparr>"

definition voice_onstart :: "voice \<Rightarrow> voice" where
  "voice_onstart v = v\<lparr>vo_listening := True, vo_error := None\<rparr>"

text \<open>A result says whether it is final, and has its first alternative.\<close>

definition final_transcript :: "nat \<Rightarrow> (bool \<times> string) list \<Rightarrow> string" where
  "final_transcript resultIndex results = foldl (\<lambda>txt r. if fst r then txt @ snd r else txt) [] (drop resultIndex results)"

definition voice_onresult :: "nat \<Rightarrow> (bool \<times> string) list \<Rightarrow> voice \<Rightarrow> voice" where
  "voice_onresult resultIndex results v = v\<lparr>vo_transcript := final_transcript resultIndex results\<rparr>"

definition voice_onerror :: "string \<Rightarrow> voice \<Rightarrow> voice" where
  "voice_onerror e v = v\<lparr>vo_error := Some e, vo_listening := False\<rparr>"

definition voice_onend :: "voice \<Rightarrow> voice" where
  "voice_onend v = v\<lparr>vo_listening := False\<rparr>"

text \<open>The second component says whether the recogniser is started; an exception of it is only logged.\<close>

definition startListening :: "voice \<Rightarrow> voice \<times> bool" where
  "startListening v =
     (if \<not> vo_supported v then (v\<lparr>vo_error := Some ''Speech recognition is not supported in this browser.''\<rparr>, False)
      else if \<not> vo_listening v then (v\<lparr>vo_transcript := []\<rparr>, True) else (v, False))"

definition stopListening :: "voice \<Rightarrow> bool" where
  "stopListening v \<longleftrightarrow> vo_supported v \<and> vo_listening v"

section \<open>The input\<close>

datatype input_action = No_action | Send_message | Start_listening | Stop_listening

text \<open>The effect that runs when the transcript changes: dictated text replaces the input.\<close>

definition transcript_effect :: "string \<Rightarrow> chat_state \<Rightarrow> chat_state" where
  "transcript_effect transcript state = (if transcript \<noteq> [] then state\<lparr>cs_input := transcript\<rparr> else state)"

definition handleChange :: "string \<Rightarrow> chat_state \<Rightarrow> chat_state" where
  "handleChange text state = state\<lparr>cs_input := text\<rparr>"

text \<open>The first component says whether the key is kept from the browser.\<close>

definition handleKeyDown :: "string \<Rightarrow> bool \<Rightarrow> bool \<Rightarrow> bool \<Rightarrow> bool \<times> input_action" where
  "handleKeyDown key shiftKey isGen isReady =
     (if key = ''Enter'' \<and> \<not> shiftKey then (True, if \<not> isGen \<and> isReady then Send_message else No_action)
      else (False, No_action))"

definition has_content :: "chat_state \<Rightarrow> bool" where
  "has_content state \<longleftrightarrow> trim (cs_input state) \<noteq> [] \<or> length (attachments state) > 0"

definition handleButtonClick :: "bool \<Rightarrow> bool \<Rightarrow> bool \<Rightarrow> chat_state \<Rightarrow> input_action" where
  "handleButtonClick isGen isReady listening state =
     (if isGen \<or> \<not> isReady then No_action
      else if has_content state then Send_message
      else if \<not> listening then Start_listening else Stop_listening)"

text \<open>After the compression; only images are added. Nothing is added when the file chooser returns no file.\<close>

definition handleFilesSelected :: "browser \<Rightarrow> (nat \<Rightarrow> string) \<Rightarrow> js_file list \<Rightarrow> chat_state \<Rightarrow> chat_state" where
  "handleFilesSelected br random files state =
     addAttachments random
       (filter (\<lambda>att. a_type att = ImageAtt) (processAndCompressFiles br files (compressionLevel state))) state"

definition handleFileChange :: "browser \<Rightarrow> (nat \<Rightarrow> string) \<Rightarrow> js_file list option \<Rightarrow> chat_state \<Rightarrow> chat_state" where
  "handleFileChange br random fileList state =
     (case fileList of
        Some files \<Rightarrow> if length files > 0 then handleFilesSelected br random files state else state
      | None \<Rightarrow> state)"

definition currentImageCount :: "chat_state \<Rightarrow> nat" where
  "currentImageCount state = length (filter (\<lambda>a. a_type a = ImageAtt) (attachments state))"

definition isImageUploadDisabled :: "bool \<Rightarrow> bool \<Rightarrow> chat_state \<Rightarrow> bool" where
  "isImageUploadDisabled isGen isReady state \<longleftrightarrow>
     (isGen \<or> \<not> isReady) \<or> int (currentImageCount state) \<ge> image_limit state"

datatype input_variant = Chat_variant | New_variant

definition placeholderText :: "input_variant \<Rightarrow> bool \<Rightarrow> readiness \<Rightarrow> string" where
  "placeholderText variant isGen rd =
     (if \<not> rd_isReady rd \<and> \<not> isGen then rd_message rd
      else if variant = New_variant then ''Chat with Assistant'' else ''Message'')"

definition buttonAriaLabel :: "bool \<Rightarrow> readiness \<Rightarrow> bool \<Rightarrow> chat_state \<Rightarrow> string" where
  "buttonAriaLabel isGen rd listening state =
     (if isGen then ''Generating...''
      else if \<not> rd_isReady rd then rd_message rd
      else if has_content state then ''Send Message''
      else if listening then ''Stop Voice Input'' else ''Start Voice Input'')"

datatype button_icon = Spinner_icon | Caret_icon | Microphone_icon

definition renderButtonIcon :: "bool \<Rightarrow> chat_state \<Rightarrow> button_icon" where
  "renderButtonIcon isGen state =
     (if isGen then Spinner_icon else if has_content state then Caret_icon else Microphone_icon)"

section \<open>The pages around it\<close>

text \<open>\<open>handleSendMessage\<close> of \<open>NewChatPage.tsx\<close>: whether the message is sent.\<close>

definition new_page_sends :: "bool \<Rightarrow> chat_state \<Rightarrow> bool" where
  "new_page_sends isGen state \<longleftrightarrow> \<not> (trim (cs_input state) = [] \<and> length (attachments state) = 0 \<or> isGen)"

text \<open>Suggestions are given by their titles and descriptions.\<close>

definition handleSuggestionClick :: "(string \<times> string) list \<Rightarrow> string \<Rightarrow> bool \<Rightarrow> chat_state \<Rightarrow> chat_state" where
  "handleSuggestionClick suggestions description isGen state =
     (if isGen then state
      else case List.find (\<lambda>s. snd s = description) suggestions of
             None \<Rightarrow> state
           | Some s \<Rightarrow> state\<lparr>cs_input := fst s @ '' '' @ snd s\<rparr>)"

text \<open>How \<open>sendMessage\<close> ended gives the address that replaces the present one, or the alert.\<close>

datatype send_outcome = Replace_address string | Alert string | Stay

definition sendMessageAndUpdateUrl :: "chat_id option \<Rightarrow> thrown + chat_id option \<Rightarrow> send_outcome" where
  "sendMessageAndUpdateUrl shownChatId ended =
     (case ended of
        Inr newChatId \<Rightarrow>
          if truthy_str newChatId \<and> newChatId \<noteq> shownChatId then Replace_address (''/?chat='' @ the newChatId) else Stay
      | Inl e \<Rightarrow> Alert (if th_is_error e then th_text e else ''Unknown error occurred while sending message.''))"

definition recent_chats :: "chat_state \<Rightarrow> chat list" where
  "recent_chats state =
     sort_key (\<lambda>c. - int (c_updatedAt c)) (filter (\<lambda>c. \<not> c_archived c \<and> \<not> c_temporary c) (chats state))"

fun find_index :: "('a \<Rightarrow> bool) \<Rightarrow> 'a list \<Rightarrow> nat option" where
  "find_index P [] = None"
| "find_index P (x # xs) = (if P x then Some 0 else map_option Suc (find_index P xs))"

text \<open>The chat \<open>handleDeleteChat\<close> goes to; without one it opens a new chat.\<close>

definition nextChatId :: "chat_id \<Rightarrow> chat_state \<Rightarrow> chat_id option" where
  "nextChatId chatId state =
     (let sorted = recent_chats state in
      case find_index (\<lambda>c. c_chatId c = chatId) sorted of
        None \<Rightarrow> None
      | Some i \<Rightarrow>
          if length sorted > 1
          then (if i + 1 < length sorted then Some (c_chatId (sorted ! (i + 1)))
                else if i > 0 then Some (c_chatId (sorted ! (i - 1))) else None)
          else None)"

section \<open>Lemmas\<close>

text \<open>The button does what its label says.\<close>

lemma button_label_true:
  assumes "rd_isReady rd"
  shows "handleButtonClick isGen (rd_isReady rd) listening state
    = (if buttonAriaLabel isGen rd listening state = ''Send Message'' then Send_message
       else if buttonAriaLabel isGen rd listening state = ''Stop Voice Input'' then Stop_listening
       else if buttonAriaLabel isGen rd listening state = ''Start Voice Input'' then Start_listening else No_action)"
  using assms by (simp add: handleButtonClick_def buttonAriaLabel_def)

text \<open>
  The Enter key does not look at the content, as the button and the page of new chats do: in a chat that is ready it
  sends an empty message.
\<close>

lemma enter_sends_blank:
  assumes "\<not> has_content state"
  shows "handleKeyDown ''Enter'' False False True = (True, Send_message)
    \<and> handleButtonClick False True listening state \<noteq> Send_message \<and> \<not> new_page_sends False state"
  using assms by (auto simp: handleKeyDown_def handleButtonClick_def new_page_sends_def has_content_def)

text \<open>What was typed while the recogniser listened is lost when its result arrives.\<close>

lemma dictation_replaces: "final_transcript i rs \<noteq> [] \<Longrightarrow>
    cs_input (transcript_effect (vo_transcript (voice_onresult i rs v)) (handleChange typed state)) = final_transcript i rs"
  by (simp add: transcript_effect_def voice_onresult_def)

text \<open>Choosing files never leaves more images than the model takes, unless there were more before.\<close>

lemma chosen_within_limit:
  "int (currentImageCount (handleFileChange br random fileList state))
     \<le> max (image_limit state) (int (currentImageCount state))"
  using addAttachments_limit [of random _ state]
  by (simp add: handleFileChange_def handleFilesSelected_def currentImageCount_def split: option.split)

lemma find_index_Some: "find_index P xs = Some i \<longleftrightarrow> i < length xs \<and> P (xs ! i) \<and> (\<forall>j < i. \<not> P (xs ! j))"
proof (induction xs arbitrary: i)
  case (Cons x xs)
  then show ?case by (cases i) (auto simp: less_Suc_eq_0_disj)
qed simp

text \<open>After a deletion the page goes to another recent chat whenever there is one: the next older, or the one before.\<close>

lemma next_chat_recent:
  assumes "distinct (map c_chatId (chats state))" "c \<in> set (recent_chats state)"
  shows "(nextChatId (c_chatId c) state = None \<longleftrightarrow> length (recent_chats state) = 1)
    \<and> (\<forall>k. nextChatId (c_chatId c) state = Some k \<longrightarrow> k \<noteq> c_chatId c \<and> k \<in> c_chatId ` set (recent_chats state))"
proof -
  let ?r = "recent_chats state"
  have d: "distinct (map c_chatId ?r)"
    using assms(1) by (auto simp: recent_chats_def distinct_map inj_on_def)
  obtain i where i: "i < length ?r" "?r ! i = c" using assms(2) by (metis in_set_conv_nth)
  then have idx: "find_index (\<lambda>x. c_chatId x = c_chatId c) ?r = Some i"
    using d by (auto simp: find_index_Some distinct_conv_nth)
  have other: "c_chatId (?r ! j) \<noteq> c_chatId c" if "j < length ?r" "j \<noteq> i" for j
    using d that i by (auto simp: distinct_conv_nth)
  show ?thesis
    using i other [of "i + 1"] other [of "i - 1"]
    by (auto simp: nextChatId_def idx Let_def intro!: imageI)
qed

end
