(* ===== verification/Auto_Scroll.thy ===== *)
theory Auto_Scroll
  imports Traces
begin

text \<open>
  \<open>src/gpt_frontend/src/hooks/useAutoScroll.ts\<close>: the messages of a chat are kept scrolled to the end until the user
  scrolls up, then their place is kept. What the browser measures of the container comes with the events: the offset
  from the top, the heights, the element found as an anchor, and where the anchor is now.
\<close>

section \<open>State\<close>

datatype scroll_direction = Up | Down

text \<open>An anchor is an element and its offset. Timers and frames that are under way are counted.\<close>

record scroller =
  sl_isUserScrolledUp :: bool
  sl_hasUnread :: bool
  sl_userHasScrolled :: bool
  sl_anchor :: "(nat \<times> int) option"
  sl_isAdjusting :: bool
  sl_adjustTimer :: bool
  sl_bottomTimer :: bool
  sl_followFrames :: nat
  sl_settleFrames :: nat
  sl_lastScrollTop :: int
  sl_direction :: "scroll_direction option"
  sl_intent :: bool

definition mounted_scroller :: "int \<Rightarrow> scroller" where
  "mounted_scroller scrollTop =
     \<lparr>sl_isUserScrolledUp = False, sl_hasUnread = False, sl_userHasScrolled = False, sl_anchor = None,
      sl_isAdjusting = False, sl_adjustTimer = False, sl_bottomTimer = False, sl_followFrames = 0, sl_settleFrames = 0,
      sl_lastScrollTop = scrollTop, sl_direction = None, sl_intent = False\<rparr>"

datatype scroll_command = To_end | By int

section \<open>Operations\<close>

definition scrollToBottom :: "scroller \<Rightarrow> scroller \<times> scroll_command list" where
  "scrollToBottom s =
     (s\<lparr>sl_isAdjusting := True, sl_userHasScrolled := False, sl_intent := False, sl_anchor := None,
        sl_isUserScrolledUp := False, sl_hasUnread := False, sl_settleFrames := sl_settleFrames s + 1\<rparr>, [To_end])"

text \<open>
  A message on the page is its number, its top and its bottom; the first one that is visible as a whole is the anchor,
  or else the first that is not above the container.
\<close>

definition findAnchorElement :: "int \<Rightarrow> int \<Rightarrow> (nat \<times> int \<times> int) list \<Rightarrow> (nat \<times> int) option" where
  "findAnchorElement containerTop containerBottom msgs =
     (case List.find (\<lambda>(_, mTop, mBottom). mTop \<ge> containerTop \<and> mBottom \<le> containerBottom) msgs of
        Some (e, mTop, _) \<Rightarrow> Some (e, mTop - containerTop)
      | None \<Rightarrow>
          (case List.find (\<lambda>(_, _, mBottom). mBottom > containerTop) msgs of
             Some (e, mTop, _) \<Rightarrow> Some (e, mTop - containerTop)
           | None \<Rightarrow> None))"

text \<open>\<open>offset e\<close> is where the element is now, \<open>None\<close> when it left the container; \<open>found\<close> is the anchor found then.\<close>

definition maintainScrollPosition :: "(nat \<Rightarrow> int option) \<Rightarrow> (nat \<times> int) option \<Rightarrow> scroller \<Rightarrow> scroller \<times> scroll_command list" where
  "maintainScrollPosition offset found s =
     (case sl_anchor s of
        None \<Rightarrow> (s, [])
      | Some (element, offsetFromTop) \<Rightarrow>
          if \<not> sl_userHasScrolled s then (s, [])
          else
            let s1 = s\<lparr>sl_isAdjusting := True, sl_settleFrames := sl_settleFrames s + 1\<rparr>
            in case offset element of
                 None \<Rightarrow> (s1\<lparr>sl_anchor := found\<rparr>, [])
               | Some current \<Rightarrow>
                   (s1, if \<bar>current - offsetFromTop\<bar> > 1 then [By (current - offsetFromTop)] else []))"

definition content_mutated :: "scroller \<Rightarrow> scroller" where
  "content_mutated s =
     (if sl_userHasScrolled s \<or> sl_intent s then s\<lparr>sl_adjustTimer := True\<rparr>
      else s\<lparr>sl_followFrames := sl_followFrames s + 1\<rparr>)"

definition follow_frame :: "scroller \<Rightarrow> scroller \<times> scroll_command list" where
  "follow_frame s =
     (let s1 = s\<lparr>sl_followFrames := sl_followFrames s - 1\<rparr>
      in if \<not> sl_userHasScrolled s1 \<and> \<not> sl_intent s1 then scrollToBottom s1 else (s1, []))"

definition handleScroll :: "int \<Rightarrow> int \<Rightarrow> int \<Rightarrow> (nat \<times> int) option \<Rightarrow> scroller \<Rightarrow> scroller" where
  "handleScroll scrollTop scrollHeight clientHeight found s =
     (if sl_isAdjusting s then s
      else
        let scrollDelta = scrollTop - sl_lastScrollTop s;
            isAtBottom = scrollHeight - scrollTop - clientHeight < 20;
            s1 = (if \<bar>scrollDelta\<bar> > 2
                  then s\<lparr>sl_direction := Some (if scrollDelta < 0 then Up else Down),
                         sl_intent := sl_intent s \<or> scrollDelta < - 5\<rparr>
                  else s);
            s2 = s1\<lparr>sl_lastScrollTop := scrollTop, sl_bottomTimer := isAtBottom\<rparr>
        in if isAtBottom then s2
           else if \<not> sl_userHasScrolled s2 \<or> sl_intent s2
           then s2\<lparr>sl_userHasScrolled := True, sl_intent := False, sl_isUserScrolledUp := True, sl_anchor := found\<rparr>
           else if found \<noteq> None then s2\<lparr>sl_anchor := found\<rparr> else s2)"

text \<open>The timer that a scroll to the end started.\<close>

definition bottom_due :: "scroller \<Rightarrow> scroller" where
  "bottom_due s0 =
     (let s = s0\<lparr>sl_bottomTimer := False\<rparr>
      in if sl_userHasScrolled s \<or> sl_intent s
         then s\<lparr>sl_userHasScrolled := False, sl_intent := False, sl_anchor := None, sl_isUserScrolledUp := False,
                sl_hasUnread := False\<rparr>
         else s)"

definition handleWheel :: "int \<Rightarrow> scroller \<Rightarrow> scroller" where
  "handleWheel deltaY s = (if deltaY < 0 \<and> \<not> sl_intent s then s\<lparr>sl_intent := True\<rparr> else s)"

definition container_resized :: "scroller \<Rightarrow> scroller \<times> scroll_command list" where
  "container_resized s = (if \<not> sl_userHasScrolled s \<and> \<not> sl_intent s then scrollToBottom s else (s, []))"

definition dependency_effect :: "scroller \<Rightarrow> scroller \<times> scroll_command list" where
  "dependency_effect s =
     (if sl_userHasScrolled s \<or> sl_intent s then (s\<lparr>sl_hasUnread := True\<rparr>, []) else scrollToBottom s)"

section \<open>Events\<close>

datatype scroll_event =
    Asked
  | Scrolled int int int "(nat \<times> int) option"
  | Wheel int
  | Mutated
  | Adjust_due "nat \<Rightarrow> int option" "(nat \<times> int) option"
  | Follow_frame
  | Settle_frame
  | Bottom_due
  | Resized
  | Dependency_changed

fun exec_scroll :: "scroll_event \<Rightarrow> scroller \<Rightarrow> (scroller \<times> scroll_command list) option" where
  "exec_scroll Asked s = Some (scrollToBottom s)"
| "exec_scroll (Scrolled scrollTop height client found) s = Some (handleScroll scrollTop height client found s, [])"
| "exec_scroll (Wheel deltaY) s = Some (handleWheel deltaY s, [])"
| "exec_scroll Mutated s = Some (content_mutated s, [])"
| "exec_scroll (Adjust_due offset found) s =
     (if sl_adjustTimer s then Some (maintainScrollPosition offset found (s\<lparr>sl_adjustTimer := False\<rparr>)) else None)"
| "exec_scroll Follow_frame s = (if sl_followFrames s > 0 then Some (follow_frame s) else None)"
| "exec_scroll Settle_frame s =
     (if sl_settleFrames s > 0
      then Some (s\<lparr>sl_settleFrames := sl_settleFrames s - 1, sl_isAdjusting := False\<rparr>, []) else None)"
| "exec_scroll Bottom_due s = (if sl_bottomTimer s then Some (bottom_due s, []) else None)"
| "exec_scroll Resized s = Some (container_resized s)"
| "exec_scroll Dependency_changed s = Some (dependency_effect s)"

definition scroll_step :: "scroller \<Rightarrow> scroll_event \<Rightarrow> scroller \<Rightarrow> bool" where
  "scroll_step s e s' \<longleftrightarrow> map_option fst (exec_scroll e s) = Some s'"

definition commands :: "scroll_event \<Rightarrow> scroller \<Rightarrow> scroll_command list" where
  "commands e s = (case exec_scroll e s of Some (_, cs) \<Rightarrow> cs | None \<Rightarrow> [])"

section \<open>What is kept\<close>

definition scroller_sound :: "scroller \<Rightarrow> bool" where
  "scroller_sound s \<longleftrightarrow>
     (sl_isUserScrolledUp s \<longleftrightarrow> sl_userHasScrolled s) \<and> (sl_hasUnread s \<longrightarrow> sl_userHasScrolled s \<or> sl_intent s)
     \<and> (sl_anchor s \<noteq> None \<longrightarrow> sl_userHasScrolled s) \<and> (sl_isAdjusting s \<longrightarrow> sl_settleFrames s > 0)"

lemmas scroll_defs = scrollToBottom_def maintainScrollPosition_def content_mutated_def follow_frame_def handleScroll_def
  bottom_due_def handleWheel_def container_resized_def dependency_effect_def

lemma bottom_sound: "scroller_sound (fst (scrollToBottom s))"
  by (simp add: scroller_sound_def scrollToBottom_def)

lemma scrolled_sound: "scroller_sound s \<Longrightarrow> scroller_sound (handleScroll scrollTop height client found s)"
proof (cases "sl_isAdjusting s")
  case False
  let ?delta = "scrollTop - sl_lastScrollTop s"
  define s1 where "s1 = (if \<bar>?delta\<bar> > 2
    then s\<lparr>sl_direction := Some (if ?delta < 0 then Up else Down), sl_intent := sl_intent s \<or> ?delta < - 5\<rparr> else s)"
  define s2 where "s2 = s1\<lparr>sl_lastScrollTop := scrollTop, sl_bottomTimer := height - scrollTop - client < 20\<rparr>"
  assume "scroller_sound s"
  then have "scroller_sound s1" by (simp add: scroller_sound_def s1_def) blast
  then have s2: "scroller_sound s2" by (simp add: scroller_sound_def s2_def)
  have "handleScroll scrollTop height client found s
      = (if height - scrollTop - client < 20 then s2
         else if \<not> sl_userHasScrolled s2 \<or> sl_intent s2
         then s2\<lparr>sl_userHasScrolled := True, sl_intent := False, sl_isUserScrolledUp := True, sl_anchor := found\<rparr>
         else if found \<noteq> None then s2\<lparr>sl_anchor := found\<rparr> else s2)"
    using False by (simp add: handleScroll_def s1_def s2_def Let_def)
  then show ?thesis using s2 by (simp add: scroller_sound_def)
qed (simp add: handleScroll_def)

lemma maintained_sound: "scroller_sound s \<Longrightarrow> scroller_sound (fst (maintainScrollPosition offset found s))"
  by (auto simp: scroller_sound_def maintainScrollPosition_def Let_def split: option.split)

lemma scroller_sound_same:
  "scroller_sound (s\<lparr>sl_adjustTimer := b\<rparr>) = scroller_sound s" "scroller_sound (s\<lparr>sl_followFrames := n\<rparr>) = scroller_sound s"
  by (simp_all add: scroller_sound_def)

lemma simple_sound:
  assumes "scroller_sound s"
  shows "scroller_sound (content_mutated s)" "scroller_sound (bottom_due s)" "scroller_sound (handleWheel deltaY s)"
    "scroller_sound (fst (container_resized s))" "scroller_sound (fst (dependency_effect s))"
    "scroller_sound (s\<lparr>sl_settleFrames := n, sl_isAdjusting := False\<rparr>)"
  using assms bottom_sound [of s]
  by (simp_all add: scroller_sound_same content_mutated_def container_resized_def dependency_effect_def)
    (auto simp: bottom_due_def handleWheel_def scroller_sound_def Let_def)

lemma frame_sound: "scroller_sound s \<Longrightarrow> scroller_sound (fst (follow_frame s))"
  using bottom_sound [of "s\<lparr>sl_followFrames := sl_followFrames s - 1\<rparr>"]
  by (simp add: follow_frame_def scroller_sound_same Let_def)

lemma exec_sound: "scroller_sound s \<Longrightarrow> exec_scroll e s = Some r \<Longrightarrow> scroller_sound (fst r)"
proof (cases e)
  case (Adjust_due offset found)
  assume "scroller_sound s" "exec_scroll e s = Some r"
  then show ?thesis
    using Adjust_due maintained_sound [of "s\<lparr>sl_adjustTimer := False\<rparr>" offset found]
    by (simp add: scroller_sound_same split: if_splits)
qed (auto simp: bottom_sound scrolled_sound simple_sound frame_sound split: if_splits)

section \<open>What the user did\<close>

text \<open>
  The page notices every event but the scrolls while it adjusts the container itself. What follows is said of the
  noticed events and of what was measured with them, whatever the hook remembers.
\<close>

fun noticed :: "scroller \<Rightarrow> scroll_event list \<Rightarrow> scroll_event list" where
  "noticed s [] = []"
| "noticed s (e # es) =
     (case e of Scrolled _ _ _ _ \<Rightarrow> if sl_isAdjusting s then [] else [e] | _ \<Rightarrow> [e])
     @ (case exec_scroll e s of None \<Rightarrow> [] | Some (s', _) \<Rightarrow> noticed s' es)"

text \<open>\<open>P\<close> holds of an event and those before it, and no event after it is one of \<open>R\<close>.\<close>

definition since :: "scroll_event set \<Rightarrow> (scroll_event list \<Rightarrow> scroll_event \<Rightarrow> bool) \<Rightarrow> scroll_event list \<Rightarrow> bool" where
  "since R P es \<longleftrightarrow> (\<exists>es1 e es2. es = es1 @ e # es2 \<and> P es1 e \<and> set es2 \<inter> R = {})"

definition returns :: "scroll_event set" where
  "returns = {Asked, Bottom_due}"

definition scrolls :: "scroll_event set" where
  "scrolls = {Scrolled t h c f | t h c f. True}"

text \<open>The container was found 20 pixels or more from its end; it was found nearer.\<close>

definition found_away :: "scroll_event \<Rightarrow> bool" where
  "found_away e \<longleftrightarrow> (\<exists>t h c f. e = Scrolled t h c f \<and> h - t - c \<ge> 20)"

definition found_near :: "scroll_event \<Rightarrow> bool" where
  "found_near e \<longleftrightarrow> (\<exists>t h c f. e = Scrolled t h c f \<and> h - t - c < 20)"

text \<open>The wheel was turned up, or the container moved up by more than 5 pixels since the scroll before.\<close>

definition top_after :: "int \<Rightarrow> scroll_event list \<Rightarrow> int" where
  "top_after start es = fold (\<lambda>e t. case e of Scrolled t' _ _ _ \<Rightarrow> t' | _ \<Rightarrow> t) es start"

definition moved_up :: "int \<Rightarrow> scroll_event list \<Rightarrow> scroll_event \<Rightarrow> bool" where
  "moved_up start es e \<longleftrightarrow> (\<exists>d. e = Wheel d \<and> d < 0) \<or> (\<exists>t h c f. e = Scrolled t h c f \<and> t < top_after start es - 5)"

definition left_end :: "scroll_event list \<Rightarrow> bool" where
  "left_end es \<longleftrightarrow> since returns (\<lambda>_. found_away) es"

definition held :: "int \<Rightarrow> scroll_event list \<Rightarrow> bool" where
  "held start es \<longleftrightarrow> since returns (\<lambda>es1 e. found_away e \<or> moved_up start es1 e) es"

definition unread :: "int \<Rightarrow> scroll_event list \<Rightarrow> bool" where
  "unread start es \<longleftrightarrow> since returns (\<lambda>es1 e. e = Dependency_changed \<and> held start es1) es"

definition rests :: "scroll_event list \<Rightarrow> bool" where
  "rests es \<longleftrightarrow> since (insert Bottom_due scrolls) (\<lambda>_. found_near) es"

lemma since_Nil [simp]: "\<not> since R P []"
  by (simp add: since_def)

lemma since_snoc [simp]: "since R P (es @ [e]) \<longleftrightarrow> P es e \<or> (e \<notin> R \<and> since R P es)"
proof
  assume "since R P (es @ [e])"
  then obtain es1 e1 es2 where es: "es @ [e] = es1 @ e1 # es2" "P es1 e1" "set es2 \<inter> R = {}" by (auto simp: since_def)
  then show "P es e \<or> (e \<notin> R \<and> since R P es)"
    by (cases es2 rule: rev_cases) (auto simp: since_def)
next
  assume "P es e \<or> (e \<notin> R \<and> since R P es)"
  then show "since R P (es @ [e])"
  proof
    assume "P es e"
    then show ?thesis by (auto simp: since_def intro: exI [of _ es])
  next
    assume "e \<notin> R \<and> since R P es"
    then obtain es1 e1 es2 where "es = es1 @ e1 # es2" "P es1 e1" "set (es2 @ [e]) \<inter> R = {}" by (auto simp: since_def)
    then show ?thesis by (metis append.assoc append_Cons since_def)
  qed
qed

lemmas observed_defs = left_end_def held_def unread_def rests_def returns_def scrolls_def found_away_def found_near_def
  moved_up_def

lemma top_after_snoc [simp]:
  "top_after start (es @ [e]) = (case e of Scrolled t _ _ _ \<Rightarrow> t | _ \<Rightarrow> top_after start es)"
  by (cases e) (simp_all add: top_after_def)

lemma noticed_snoc:
  "trace_run scroll_step s0 es s \<Longrightarrow> noticed s0 (es @ [e]) =
     noticed s0 es @ (case e of Scrolled _ _ _ _ \<Rightarrow> if sl_isAdjusting s then [] else [e] | _ \<Rightarrow> [e])"
proof (induction es arbitrary: s0)
  case Nil
  then show ?case by (auto split: option.split)
next
  case (Cons x xs)
  then show ?case by (auto simp: trace_run_Cons scroll_step_def)
qed

lemma unread_held: "unread start es \<Longrightarrow> held start es"
proof (induction es rule: rev_induct)
  case (snoc e es)
  then show ?case by (auto simp: unread_def held_def returns_def)
qed (simp add: unread_def)

definition scroll_seen :: "int \<Rightarrow> scroll_event list \<Rightarrow> scroller \<Rightarrow> bool" where
  "scroll_seen start es s \<longleftrightarrow>
     (let ns = noticed (mounted_scroller start) es in
      trace_run scroll_step (mounted_scroller start) es s
      \<and> (sl_userHasScrolled s \<longleftrightarrow> left_end ns) \<and> (sl_userHasScrolled s \<or> sl_intent s \<longleftrightarrow> held start ns)
      \<and> (sl_hasUnread s \<longleftrightarrow> unread start ns) \<and> sl_lastScrollTop s = top_after start ns \<and> (sl_bottomTimer s \<longleftrightarrow> rests ns))"

text \<open>What one event makes of what was noticed, and of what the hook remembers.\<close>

lemma observed_snoc:
  "left_end (ns @ [e]) \<longleftrightarrow> found_away e \<or> (e \<notin> returns \<and> left_end ns)"
  "held start (ns @ [e]) \<longleftrightarrow> found_away e \<or> moved_up start ns e \<or> (e \<notin> returns \<and> held start ns)"
  "unread start (ns @ [e]) \<longleftrightarrow> (e = Dependency_changed \<and> held start ns) \<or> (e \<notin> returns \<and> unread start ns)"
  "rests (ns @ [e]) \<longleftrightarrow> found_near e \<or> (e \<notin> insert Bottom_due scrolls \<and> rests ns)"
  by (auto simp: left_end_def held_def unread_def rests_def)

lemma handled_scroll:
  "\<not> sl_isAdjusting s \<Longrightarrow> s' = handleScroll t h c f s \<Longrightarrow>
     sl_lastScrollTop s' = t \<and> (sl_bottomTimer s' \<longleftrightarrow> h - t - c < 20) \<and> (sl_hasUnread s' \<longleftrightarrow> sl_hasUnread s)
     \<and> (sl_userHasScrolled s' \<longleftrightarrow> sl_userHasScrolled s \<or> h - t - c \<ge> 20)
     \<and> (sl_userHasScrolled s' \<or> sl_intent s' \<longleftrightarrow>
          sl_userHasScrolled s \<or> sl_intent s \<or> h - t - c \<ge> 20 \<or> t < sl_lastScrollTop s - 5)"
  by (cases "2 < \<bar>t - sl_lastScrollTop s\<bar>"; cases "h - t - c < 20"; cases "sl_userHasScrolled s"; cases "sl_intent s"; cases "f = None")
    (simp_all add: handleScroll_def Let_def, arith+)

lemma skipped_scroll: "sl_isAdjusting s \<Longrightarrow> handleScroll t h c f s = s"
  by (simp add: handleScroll_def)

lemma quiet_event:
  assumes "exec_scroll e s = Some (s', cs)" and "e \<notin> scrolls"
  shows "sl_lastScrollTop s' = sl_lastScrollTop s \<and> (sl_bottomTimer s' \<longleftrightarrow> sl_bottomTimer s \<and> e \<noteq> Bottom_due)
    \<and> (sl_userHasScrolled s' \<longleftrightarrow> sl_userHasScrolled s \<and> e \<notin> returns)
    \<and> (sl_userHasScrolled s' \<or> sl_intent s' \<longleftrightarrow> (sl_userHasScrolled s \<or> sl_intent s) \<and> e \<notin> returns \<or> (\<exists>d<0. e = Wheel d))
    \<and> ((sl_hasUnread s \<longrightarrow> sl_userHasScrolled s \<or> sl_intent s) \<longrightarrow>
        (sl_hasUnread s' \<longleftrightarrow> sl_hasUnread s \<and> e \<notin> returns
          \<or> (e = Dependency_changed \<and> (sl_userHasScrolled s \<or> sl_intent s))))"
  using assms
  by (cases e) (auto simp: scroll_defs returns_def scrolls_def Let_def split: if_splits option.splits)

lemma seen_known:
  assumes "scroll_seen start es s"
  shows "left_end (noticed (mounted_scroller start) es) \<longleftrightarrow> sl_userHasScrolled s"
    "held start (noticed (mounted_scroller start) es) \<longleftrightarrow> sl_userHasScrolled s \<or> sl_intent s"
    "unread start (noticed (mounted_scroller start) es) \<longleftrightarrow> sl_hasUnread s"
    "top_after start (noticed (mounted_scroller start) es) = sl_lastScrollTop s"
    "rests (noticed (mounted_scroller start) es) \<longleftrightarrow> sl_bottomTimer s"
  using assms unfolding scroll_seen_def Let_def by (blast, blast, blast, simp, blast)

lemma seen_step:
  assumes seen: "scroll_seen start es s" and "scroll_step s e s'"
  shows "scroll_seen start (es @ [e]) s'"
proof -
  let ?s0 = "mounted_scroller start"
  let ?ns = "noticed ?s0 es"
  from assms(2) obtain cs where ex: "exec_scroll e s = Some (s', cs)" by (auto simp: scroll_step_def)
  from seen assms(2) have run: "trace_run scroll_step ?s0 es s" "trace_run scroll_step ?s0 (es @ [e]) s'"
    by (auto simp: scroll_seen_def Let_def)
  note known = seen_known [OF seen]
  have unr: "sl_hasUnread s \<longrightarrow> sl_userHasScrolled s \<or> sl_intent s"
    using unread_held [of start ?ns] known by blast
  show ?thesis
  proof (cases "e \<in> scrolls")
    case False
    then have ns: "noticed ?s0 (es @ [e]) = ?ns @ [e]"
      using noticed_snoc [OF run(1)] by (auto simp: scrolls_def split: scroll_event.splits)
    have e: "\<not> found_away e" "\<not> found_near e" "moved_up start ?ns e \<longleftrightarrow> (\<exists>d<0. e = Wheel d)"
      "top_after start (?ns @ [e]) = top_after start ?ns"
      using False by (auto simp: found_away_def found_near_def moved_up_def scrolls_def split: scroll_event.split)
    note q = quiet_event [OF ex False]
    show ?thesis
      unfolding scroll_seen_def Let_def ns observed_snoc e known
      by (intro conjI run(2); use q unr False e(1,2) in blast)
  next
    case True
    then obtain t h c f where e: "e = Scrolled t h c f" by (auto simp: scrolls_def)
    show ?thesis
    proof (cases "sl_isAdjusting s")
      case True
      then have "s' = s" "noticed ?s0 (es @ [e]) = ?ns"
        using ex e noticed_snoc [OF run(1), of e] by (auto simp: skipped_scroll)
      with seen run(2) show ?thesis unfolding scroll_seen_def Let_def by metis
    next
      case False
      then have ns: "noticed ?s0 (es @ [e]) = ?ns @ [e]" using e noticed_snoc [OF run(1), of e] by simp
      have s': "s' = handleScroll t h c f s" using ex e by simp
      have m: "found_away e \<longleftrightarrow> h - t - c \<ge> 20" "found_near e \<longleftrightarrow> h - t - c < 20"
        "moved_up start ?ns e \<longleftrightarrow> t < top_after start ?ns - 5" "e \<notin> returns" "e \<in> scrolls" "e \<noteq> Dependency_changed"
        using e by (auto simp: found_away_def found_near_def moved_up_def returns_def scrolls_def)
      show ?thesis
        unfolding scroll_seen_def Let_def ns observed_snoc m(1-3) known
        by (intro conjI run(2); use handled_scroll [OF False s'] m(4-6) e in \<open>blast | simp\<close>)
    qed
  qed
qed

interpretation scroller: traced_invariant scroll_step "\<lambda>es s. scroll_seen start es s \<and> scroller_sound s" for start
  by unfold_locales (auto simp: scroll_step_def seen_step dest: exec_sound)

lemma mounted_seen: "scroll_seen start [] (mounted_scroller start) \<and> scroller_sound (mounted_scroller start)"
  by (simp add: scroll_seen_def scroller_sound_def mounted_scroller_def observed_defs top_after_def)


text \<open>
  Scrolling down shows the button too, where the end is not reached; and so does the smooth scroll that the button
  itself starts, when an event of it comes after the two frames in which the page ignores scrolls.
\<close>

lemma smooth_scroll_shows_button:
  "\<exists>s. trace_run scroll_step (mounted_scroller 0)
        [Scrolled 20 900 100 None, Asked, Settle_frame, Scrolled 300 900 100 (Some (1, 5))] s
     \<and> sl_isUserScrolledUp s \<and> commands Dependency_changed s = []"
  by (auto simp: trace_run_Cons scroll_step_def mounted_scroller_def scroll_defs commands_def Let_def)

text \<open>
  Turning the wheel up where nothing can scroll, so that no scroll event follows, stops the page from following new
  content, without the button that leads back to the end.
\<close>

lemma wheel_stops_following:
  "\<exists>s. trace_run scroll_step (mounted_scroller 0) [Wheel (-1), Dependency_changed, Mutated, Resized] s
     \<and> sl_hasUnread s \<and> \<not> sl_isUserScrolledUp s \<and> commands Dependency_changed s = [] \<and> commands Resized s = []"
  by (auto simp: trace_run_Cons scroll_step_def mounted_scroller_def scroll_defs commands_def)


end
