(* ===== verification/Message_Item.thy ===== *)
theory Message_Item
  imports Branch_View_Props Chat_Input Prompts Tool_Calls
begin

text \<open>
  One message of a chat: \<open>MessageItem.tsx\<close>, \<open>MessageToolbar.tsx\<close> and \<open>MessageContent.tsx\<close> of
  \<open>src/gpt_frontend/src/components/messages\<close>: changing between the alternatives of a message, editing and retrying, the
  buttons, and which part of the content is shown how. What a handler calls is a result.
\<close>

section \<open>Alternatives\<close>

text \<open>The alternatives of a message and its place among them, counted from one.\<close>

definition siblings_of :: "chat_id \<Rightarrow> message option \<Rightarrow> chat_state \<Rightarrow> message list \<times> nat" where
  "siblings_of chatId message state =
     (case (message, messages state chatId) of
        (Some v, Some chatMap) \<Rightarrow>
          let s = getSiblings chatMap (m_parentMessageId v)
          in (s, case find_index (\<lambda>w. msg_key w = msg_key v) s of Some i \<Rightarrow> i + 1 | None \<Rightarrow> 0)
      | _ \<Rightarrow> ([], 0))"

definition show_sibling :: "chat_id \<Rightarrow> message_map \<Rightarrow> message list \<Rightarrow> nat \<Rightarrow> chat_state \<Rightarrow> chat_state" where
  "show_sibling chatId chatMap siblings i state =
     (if i < length siblings
      then setActiveLeaf chatId (findNewestLeaf chatMap (msg_key (siblings ! i))) state else state)"

definition handlePrevSibling :: "chat_id \<Rightarrow> message list \<times> nat \<Rightarrow> chat_state \<Rightarrow> chat_state" where
  "handlePrevSibling chatId sibs state =
     (case messages state chatId of
        None \<Rightarrow> state
      | Some m \<Rightarrow>
          if snd sibs \<le> 1 \<or> fst sibs = [] then state else show_sibling chatId m (fst sibs) (snd sibs - 2) state)"

definition handleNextSibling :: "chat_id \<Rightarrow> message list \<times> nat \<Rightarrow> chat_state \<Rightarrow> chat_state" where
  "handleNextSibling chatId sibs state =
     (case messages state chatId of
        None \<Rightarrow> state
      | Some m \<Rightarrow>
          if snd sibs \<ge> length (fst sibs) \<or> fst sibs = [] then state
          else show_sibling chatId m (fst sibs) (snd sibs) state)"

section \<open>Content\<close>

definition isGenerationFinished :: "message option \<Rightarrow> bool" where
  "isGenerationFinished message =
     (case message of None \<Rightarrow> True | Some v \<Rightarrow> truthy (m_isComplete v) \<or> m_errorStatus v \<noteq> None)"

text \<open>The text that is copied.\<close>

definition nonReasoningContent :: "message \<Rightarrow> string" where
  "nonReasoningContent v =
     (if m_role v \<noteq> Assistant \<or> m_errorStatus v \<noteq> None \<or> \<not> prefix ''<think>'' (trim (m_content v)) then m_content v
      else case index_of ''</think>'' (m_content v) of
             Some endIdx \<Rightarrow> trim (drop (endIdx + length ''</think>'') (m_content v))
           | None \<Rightarrow> [])"

text \<open>\<open>reasoningData\<close> of \<open>MessageContent.tsx\<close>: the reasoning, the rest, and whether the reasoning has ended.\<close>

definition reasoningData :: "message \<Rightarrow> string option \<times> string \<times> bool" where
  "reasoningData v =
     (if m_role v \<noteq> Assistant then (None, m_content v, False)
      else
        let trimmed = trim (m_content v)
        in if \<not> prefix ''<think>'' trimmed then (None, m_content v, False)
           else case index_of ''</think>'' trimmed of
                  Some endIdx \<Rightarrow>
                    (Some (trim (substring (length ''<think>'') endIdx trimmed)),
                     trim (drop (endIdx + length ''</think>'') trimmed), True)
                | None \<Rightarrow> (Some (trim (drop (length ''<think>'') trimmed)), [], False))"

definition displayedText :: "bool \<Rightarrow> message \<Rightarrow> string" where
  "displayedText isTruncated v =
     (let contentToUse = (if m_role v = User then m_content v else fst (snd (reasoningData v)))
      in if isTruncated \<and> length contentToUse > 800 then take 600 contentToUse @ ''...'' else contentToUse)"

datatype content_rest = Rest_placeholder | Rest_text string | Rest_nothing

datatype content_body =
    Body_nothing
  | Body_tools bool bool bool
  | Body_reasoning string bool content_rest
  | Body_thinking
  | Body_rendered string
  | Body_plain string

text \<open>The error that is told, and the body; \<open>Body_tools\<close> says whether running is offered or under way, and whether results are there.\<close>

definition message_content :: "bool \<Rightarrow> bool \<Rightarrow> message \<Rightarrow> chat_state \<Rightarrow> string option \<times> content_body" where
  "message_content finished isTruncated v state =
     (let errorMessage = (if m_errorStatus v \<noteq> None then Some (formatErrorStatus (m_errorStatus v)) else None);
          isToolsLoading = flag (isProcessingTools state) (tools_key (m_chatId v) (msg_key v));
          (reasoning, rest, reasoningComplete) = reasoningData v;
          showThinking = (m_role v = Assistant \<and> \<not> finished \<and> length (trim (m_content v)) = 0
            \<and> \<not> truthy_str reasoning \<and> m_tool_calls v = None)
      in if truthy_str errorMessage \<and> length (trim (m_content v)) = 0 then (errorMessage, Body_nothing)
         else (errorMessage,
           if (case m_tool_calls v of Some calls \<Rightarrow> length calls > 0 | None \<Rightarrow> False)
           then Body_tools (truthy (m_requires_client_action v)) isToolsLoading (m_tool_results v \<noteq> None)
           else if truthy_str reasoning
           then Body_reasoning (the reasoning) reasoningComplete
             (if reasoningComplete \<and> length (trim rest) = 0 \<and> \<not> finished then Rest_placeholder
              else if length (trim rest) > 0 then Rest_text (displayedText isTruncated v) else Rest_nothing)
           else if showThinking then Body_thinking
           else if m_role v = Assistant then Body_rendered (displayedText isTruncated v)
           else Body_plain (displayedText isTruncated v)))"

section \<open>Commands\<close>

text \<open>\<open>answer\<close> is what the user enters; the results are the arguments of \<open>editUserMessage\<close> and \<open>retryAiMessage\<close>.\<close>

definition onEdit :: "message option \<Rightarrow> string option \<Rightarrow> (chat_id \<times> message_id \<times> string) option" where
  "onEdit message answer =
     (case message of
        None \<Rightarrow> None
      | Some v \<Rightarrow>
          if m_content v = [] then None
          else (case answer of
                  None \<Rightarrow> None
                | Some newContent \<Rightarrow>
                    if newContent \<noteq> [] \<and> trim newContent \<noteq> trim (m_content v)
                    then Some (m_chatId v, msg_key v, trim newContent) else None))"

definition onRetry :: "message option \<Rightarrow> (chat_id \<times> message_id) option" where
  "onRetry message =
     (case message of
        None \<Rightarrow> None
      | Some v \<Rightarrow> map_option (\<lambda>p. (m_chatId v, p)) (parent_of v))"

datatype toolbar_button = Truncate_button | Edit_button | Copy_button | Retry_button | Info_button | Branch_nav bool nat nat bool

text \<open>\<open>None\<close>: no toolbar. \<open>Branch_nav\<close> says which of its two buttons are enabled.\<close>

definition toolbar :: "auth_state \<Rightarrow> message \<Rightarrow> string \<Rightarrow> nat \<Rightarrow> nat \<Rightarrow> toolbar_button list option" where
  "toolbar auth v text siblingsCount siblingIndex =
     (if m_role v = Assistant \<and> \<not> (truthy (m_isComplete v) \<or> m_errorStatus v \<noteq> None) then None
      else if m_role v = Assistant \<and> m_errorStatus v = None \<and> \<not> length (trim text) > 0 then None
      else
        let isUser = (m_role v = User);
            registered = (au_authStatus auth = REGISTERED);
            shouldShowTruncateButton = (isUser \<and> length (if isUser then m_content v else text) > 800);
            buttons =
              (if isUser \<and> shouldShowTruncateButton \<and> m_errorStatus v = None then [Truncate_button] else [])
              @ (if isUser \<and> registered then [Edit_button] else [])
              @ (if m_role v = Assistant \<and> m_errorStatus v = None then [Copy_button] else [])
              @ (if m_role v = Assistant \<and> registered then [Retry_button] else [])
              @ (if m_role v = Assistant \<and> m_usage v \<noteq> None then [Info_button] else [])
              @ (if siblingsCount > 1
                 then [Branch_nav (siblingIndex > 1) siblingIndex siblingsCount (siblingIndex < siblingsCount)] else [])
        in if length buttons = 0 then None else Some buttons)"

section \<open>Text without the reasoning\<close>

lemma drop_ws_all: "\<forall>c \<in> set w. is_ws c \<Longrightarrow> dropWhile is_ws (w @ s) = dropWhile is_ws s"
  by (rule dropWhile_append2) simp

lemma trim_after: "\<forall>c \<in> set w. is_ws c \<Longrightarrow> trim (s @ w) = trim s"
proof (cases "\<forall>c \<in> set s. is_ws c")
  case True
  moreover assume "\<forall>c \<in> set w. is_ws c"
  ultimately have "dropWhile is_ws (s @ w) = []" "dropWhile is_ws s = []" by auto
  then show ?thesis by (simp only: trim_def)
next
  case False
  moreover assume "\<forall>c \<in> set w. is_ws c"
  ultimately show ?thesis using drop_ws_all [of "rev w"] by (auto simp: trim_def dropWhile_append1)
qed

lemma trim_parts: "\<exists>before after. s = before @ trim s @ after \<and> (\<forall>c \<in> set before \<union> set after. is_ws c)"
proof -
  let ?t = "dropWhile is_ws s"
  have "rev (dropWhile is_ws (rev ?t)) @ rev (takeWhile is_ws (rev ?t)) = ?t"
    by (simp flip: rev_append)
  then have "s = takeWhile is_ws s @ trim s @ rev (takeWhile is_ws (rev ?t))"
    by (simp add: trim_def)
  moreover have "\<forall>c \<in> set (takeWhile is_ws s) \<union> set (rev (takeWhile is_ws (rev ?t))). is_ws c"
    by (auto dest: set_takeWhileD)
  ultimately show ?thesis by blast
qed

text \<open>A text without blanks is found at the same place when blanks surround the text it is looked for in.\<close>

lemma prefix_blank:
  assumes "\<forall>c \<in> set p. \<not> is_ws c" "\<forall>c \<in> set w. is_ws c"
  shows "prefix p (s @ w) \<longleftrightarrow> prefix p s"
  using assms
proof (induction p arbitrary: s)
  case (Cons c p)
  then show ?case by (cases s; cases w) auto
qed simp

lemma index_of_after:
  assumes "\<forall>c \<in> set p. \<not> is_ws c" "p \<noteq> []" "\<forall>c \<in> set w. is_ws c"
  shows "index_of p (s @ w) = index_of p s"
proof (induction s)
  case Nil
  have "index_of p w = None" using assms(3)
  proof (induction w)
    case (Cons c w)
    then have "\<not> prefix p (c # w)" using assms(1,2) by (cases p) auto
    with Cons show ?case by simp
  qed (simp add: assms(2))
  then show ?case using assms(2) by simp
next
  case (Cons c s)
  then show ?case using prefix_blank [OF assms(1,3), of "c # s"] by simp
qed

lemma index_of_before:
  assumes "\<forall>c \<in> set p. \<not> is_ws c" "p \<noteq> []" "\<forall>c \<in> set w. is_ws c"
  shows "index_of p (w @ s) = map_option ((+) (length w)) (index_of p s)"
  using assms(3)
proof (induction w)
  case (Cons c w)
  then have "\<not> prefix p (c # w @ s)" using assms(1,2) by (cases p) auto
  with Cons show ?case by (simp add: option.map_comp comp_def)
qed (cases "index_of p s"; simp)

lemma end_tag_chars: "\<forall>c \<in> set ''</think>''. \<not> is_ws c"
  by (simp add: is_ws_def)

text \<open>
  What the copy button copies of a message that did not fail is what is shown of it below its reasoning, although
  one is cut out of the content and the other out of its trimmed copy.
\<close>

theorem copied_text_shown:
  assumes "m_errorStatus v = None"
  shows "nonReasoningContent v = fst (snd (reasoningData v))"
proof (cases "m_role v = Assistant \<and> prefix ''<think>'' (trim (m_content v))")
  case True
  obtain before after where parts: "m_content v = before @ trim (m_content v) @ after"
    and before: "\<forall>c \<in> set before. is_ws c" and after: "\<forall>c \<in> set after. is_ws c"
    using trim_parts [of "m_content v"] by blast
  have idx: "index_of ''</think>'' (m_content v)
      = map_option ((+) (length before)) (index_of ''</think>'' (trim (m_content v)))"
    by (subst parts) (simp only: index_of_before [OF end_tag_chars _ before] index_of_after [OF end_tag_chars _ after]
        list.distinct simp_thms)
  show ?thesis
  proof (cases "index_of ''</think>'' (trim (m_content v))")
    case None
    with True assms idx show ?thesis by (simp add: nonReasoningContent_def reasoningData_def Let_def)
  next
    case (Some i)
    then have "i + 8 \<le> length (trim (m_content v))"
      using index_of_Some [OF Some] by (auto dest: prefix_length_le)
    moreover have "drop (length before + i + 8) (m_content v) = drop (i + 8) (trim (m_content v) @ after)"
      by (subst parts) simp
    ultimately have "trim (drop (length before + i + 8) (m_content v)) = trim (drop (i + 8) (trim (m_content v)))"
      using trim_after [OF after] by simp
    with True Some assms idx show ?thesis
      by (simp add: nonReasoningContent_def reasoningData_def Let_def eval_nat_numeral)
  qed
qed (use assms in \<open>auto simp: nonReasoningContent_def reasoningData_def Let_def\<close>)

lemma copied_text_shown_witness:
  "nonReasoningContent (plain_message ''a'' ''c'' Assistant '' <think>x</think> y '' None 1) = ''y''"
  using copied_text_shown [of "plain_message ''a'' ''c'' Assistant '' <think>x</think> y '' None 1"]
  by (simp add: plain_message_def reasoningData_def trim_def is_ws_def)

section \<open>Changing between alternatives\<close>

lemma below_parents: "below m \<subseteq> parents m"
  unfolding below_def parents_def kid_of_def parent_of_def by auto

lemma one_parent: "keyed m \<Longrightarrow> (p, c) \<in> parents m \<Longrightarrow> (q, c) \<in> parents m \<Longrightarrow> p = q"
  using edge_target edge_to by (metis option.inject)

text \<open>Two ancestors of one message are on one path.\<close>

lemma paths_meet:
  assumes "keyed m" and "(a, l) \<in> (parents m)\<^sup>*" and "(b, l) \<in> (parents m)\<^sup>*"
  shows "(a, b) \<in> (parents m)\<^sup>* \<or> (b, a) \<in> (parents m)\<^sup>*"
  using assms(2,3)
proof (induction rule: rtrancl_induct)
  case (step x y)
  from step.prems show ?case
  proof (cases rule: rtranclE)
    case base
    with step.hyps show ?thesis by (meson rtrancl.rtrancl_into_rtrancl)
  next
    case (step z)
    then have "z = x" using one_parent [OF assms(1)] \<open>(x, y) \<in> parents m\<close> by blast
    with step step.IH show ?thesis by blast
  qed
qed simp

lemma siblings_apart:
  assumes m: "keyed m" "acyclic (parents m)" and v: "map_get m (msg_key v) = Some v" and w: "map_get m (msg_key w) = Some w"
    and same: "parent_of v = parent_of w" and ne: "msg_key v \<noteq> msg_key w"
  shows "(msg_key v, msg_key w) \<notin> (parents m)\<^sup>*"
proof
  assume "(msg_key v, msg_key w) \<in> (parents m)\<^sup>*"
  with ne obtain p where p: "(msg_key v, p) \<in> (parents m)\<^sup>*" "(p, msg_key w) \<in> parents m"
    by (metis rtranclE)
  then have "(p, msg_key v) \<in> parents m" using edge_to [OF m(1)] v w same by metis
  with p(1) have "(msg_key v, msg_key v) \<in> (parents m)\<^sup>+" by (rule rtrancl_into_trancl1)
  with m(2) show False by (simp add: acyclic_def)
qed

lemma find_index_found: "x \<in> set xs \<Longrightarrow> P x \<Longrightarrow> find_index P xs \<noteq> None"
  by (induction xs) auto

text \<open>The place of a message among its alternatives.\<close>

lemma siblings_place:
  assumes "messages state chatId = Some m" "keyed m" "map_get m (msg_key v) = Some v" "m_role v \<noteq> ToolMsg"
    and sibs: "siblings_of chatId (Some v) state = (sibs, n)"
  shows "0 < n" "n \<le> length sibs" "sibs ! (n - 1) = v" "distinct (map msg_key sibs)"
    "\<And>w. w \<in> set sibs \<Longrightarrow> map_get m (msg_key w) = Some w \<and> parent_of w = parent_of v"
proof -
  have s: "sibs = getSiblings m (m_parentMessageId v)" using assms(1) sibs by (simp add: siblings_of_def Let_def)
  have v: "v \<in> set sibs" using map_get_value [OF assms(3)] assms(4) unfolding s getSiblings_def by simp
  then obtain i where i: "find_index (\<lambda>w. msg_key w = msg_key v) sibs = Some i"
    using find_index_found [OF v, of "\<lambda>w. msg_key w = msg_key v"] by auto
  have n: "n = i + 1" using assms(1) sibs i s by (simp add: siblings_of_def Let_def)
  have known: "map_get m (msg_key w) = Some w" if "w \<in> set sibs" for w
    using that keyed_value [OF assms(2)] unfolding s getSiblings_def by simp
  then show "\<And>w. w \<in> set sibs \<Longrightarrow> map_get m (msg_key w) = Some w \<and> parent_of w = parent_of v"
    unfolding s getSiblings_def by (simp add: parent_of_def)
  have at: "i < length sibs" "msg_key (sibs ! i) = msg_key v" using i unfolding find_index_Some by auto
  have "sibs ! i = v" using known [OF nth_mem [OF at(1)]] assms(3) unfolding at(2) by (metis option.inject)
  then show "sibs ! (n - 1) = v" unfolding n by simp
  show "0 < n" "n \<le> length sibs" using n at by auto
  have "distinct (map msg_key (filter (\<lambda>w. m_role w \<noteq> ToolMsg \<and> m_parentMessageId w = m_parentMessageId v) (map_values m)))"
    by (rule keyed_distinct [OF assms(2)])
  then show "distinct (map msg_key sibs)"
    unfolding s getSiblings_def by (simp add: distinct_map)
qed

lemma shown_sibling:
  assumes m: "messages state chatId = Some m" "chatId \<noteq> []" "keyed m" "[] \<notin> set (map_keys m)" "acyclic (parents m)"
    and w: "map_get m (msg_key w) = Some w" and v: "map_get m (msg_key v) = Some v"
    and same: "parent_of w = parent_of v" and ne: "msg_key v \<noteq> msg_key w"
    and i: "i < length sibs" "sibs ! i = w"
  shows "\<exists>branch. activeBranchMessages (Some chatId) (show_sibling chatId m sibs i state) = Some branch
    \<and> w \<in> set branch \<and> v \<notin> set branch"
proof -
  let ?l = "findNewestLeaf m (msg_key w)"
  from findNewestLeaf_newest [OF w] obtain leaf where leaf: "map_get m ?l = Some leaf" and "(msg_key w, ?l) \<in> (below m)\<^sup>*"
    by blast
  then have down: "(msg_key w, ?l) \<in> (parents m)\<^sup>*" using rtrancl_mono [OF below_parents] by blast
  from branch_shown [OF m(3,5) leaf] obtain branch where b: "getBranchMessages m ?l = Some branch"
    "set branch = {x \<in> set (map_values m). (msg_key x, ?l) \<in> (parents m)\<^sup>* \<or> (?l, msg_key x) \<in> (parents m)\<^sup>*}" by blast
  have "?l \<in> set (map_keys m)" using leaf by (force dest: map_of_SomeD simp: image_iff)
  then have "?l \<noteq> []" using m(4) by metis
  moreover have "m \<noteq> []" using w by auto
  ultimately have shown: "activeBranchMessages (Some chatId) (show_sibling chatId m sibs i state) = Some branch"
    using i m(1,2) b(1)
    by (simp add: show_sibling_def setActiveLeaf_def activeBranchMessages_def chatLeafId_def currentMessagesMap_def truthy_str_def)
  note apart = siblings_apart [OF m(3,5) v w same [symmetric] ne] siblings_apart [OF m(3,5) w v same ne [symmetric]]
  have "v \<notin> set branch"
  proof
    assume "v \<in> set branch"
    then consider "(msg_key v, ?l) \<in> (parents m)\<^sup>*" | "(?l, msg_key v) \<in> (parents m)\<^sup>*" unfolding b(2) by blast
    then show False
    proof cases
      case 1
      then show ?thesis using paths_meet [OF m(3) _ down] apart by blast
    next
      case 2
      then show ?thesis using rtrancl_trans [OF down] apart by blast
    qed
  qed
  moreover have "w \<in> set branch" using down map_get_value [OF w] unfolding b(2) by blast
  ultimately show ?thesis using shown by blast
qed

text \<open>
  C40: in a chat whose messages do not go round in a circle, each of the two arrows below a message leaves it: the
  branch on the screen then holds the alternative before or after it, and no longer the message. At the first and the
  last alternative nothing happens, and neither arrow changes a message.
\<close>

theorem sibling_switch_shows:
  assumes "messages state chatId = Some m" "chatId \<noteq> []" "keyed m" "[] \<notin> set (map_keys m)" "acyclic (parents m)"
    and "map_get m (msg_key v) = Some v" "m_role v \<noteq> ToolMsg"
    and sibs: "siblings_of chatId (Some v) state = (sibs, n)"
  shows "0 < n \<and> n \<le> length sibs \<and> sibs ! (n - 1) = v
    \<and> (if n < length sibs
       then \<exists>branch. activeBranchMessages (Some chatId) (handleNextSibling chatId (sibs, n) state) = Some branch
         \<and> sibs ! n \<in> set branch \<and> v \<notin> set branch
       else handleNextSibling chatId (sibs, n) state = state)
    \<and> (if 1 < n
       then \<exists>branch. activeBranchMessages (Some chatId) (handlePrevSibling chatId (sibs, n) state) = Some branch
         \<and> sibs ! (n - 2) \<in> set branch \<and> v \<notin> set branch
       else handlePrevSibling chatId (sibs, n) state = state)
    \<and> messages (handleNextSibling chatId (sibs, n) state) = messages state
    \<and> messages (handlePrevSibling chatId (sibs, n) state) = messages state"
proof -
  note place = siblings_place [OF assms(1,3,6,7) sibs]
  have other: "msg_key v \<noteq> msg_key (sibs ! i)" if "i < length sibs" "i \<noteq> n - 1" for i
    using place(1,2,4) that unfolding place(3) [symmetric]
    by (metis One_nat_def Suc_le_lessD Suc_pred length_map nth_eq_iff_index_eq nth_map)
  have go: "\<exists>branch. activeBranchMessages (Some chatId) (show_sibling chatId m sibs i state) = Some branch
      \<and> sibs ! i \<in> set branch \<and> v \<notin> set branch" if "i < length sibs" "i \<noteq> n - 1" for i
    using shown_sibling [OF assms(1-5) _ assms(6) _ other [OF that] that(1) refl] place(5) [OF nth_mem [OF that(1)]] by blast
  have "if n < length sibs
      then \<exists>branch. activeBranchMessages (Some chatId) (handleNextSibling chatId (sibs, n) state) = Some branch
        \<and> sibs ! n \<in> set branch \<and> v \<notin> set branch
      else handleNextSibling chatId (sibs, n) state = state"
    using go [of n] place(1) by (auto simp: handleNextSibling_def assms(1))
  moreover have "if 1 < n
      then \<exists>branch. activeBranchMessages (Some chatId) (handlePrevSibling chatId (sibs, n) state) = Some branch
        \<and> sibs ! (n - 2) \<in> set branch \<and> v \<notin> set branch
      else handlePrevSibling chatId (sibs, n) state = state"
    using go [of "n - 2"] place(1,2) by (auto simp: handlePrevSibling_def assms(1))
  moreover have "messages (handleNextSibling chatId (sibs, n) state) = messages state"
      "messages (handlePrevSibling chatId (sibs, n) state) = messages state"
    by (simp_all add: handleNextSibling_def handlePrevSibling_def show_sibling_def setActiveLeaf_def split: option.split)
  ultimately show ?thesis using place(1-3) by blast
qed

definition first_answer :: message where
  "first_answer = the (map_get example_chat ''a'')"

theorem sibling_switch_shows_witness:
  "\<exists>s sibs branch. siblings_of ''c'' (Some first_answer) s = (sibs, 1)
     \<and> activeBranchMessages (Some ''c'') (handleNextSibling ''c'' (sibs, 1) s) = Some branch
     \<and> ''b'' \<in> msg_key ` set branch \<and> first_answer \<notin> set branch"
proof -
  let ?s = "initialChatState\<lparr>messages := [''c'' \<mapsto> example_chat]\<rparr>"
  obtain sibs where sibs: "siblings_of ''c'' (Some first_answer) ?s = (sibs, 1)" "length sibs = 2" "msg_key (sibs ! 1) = ''b''"
    by (simp add: siblings_of_def first_answer_def example_chat_def getSiblings_def plain_message_def msg_key_def Let_def)
  have "messages ?s ''c'' = Some example_chat" "''c'' \<noteq> ([] :: string)" "[] \<notin> set (map_keys example_chat)"
      "map_get example_chat (msg_key first_answer) = Some first_answer" "m_role first_answer \<noteq> ToolMsg"
    by (simp_all add: example_chat_def first_answer_def plain_message_def msg_key_def)
  from sibling_switch_shows [OF this(1,2) example_keys this(3) example_acyclic this(4,5) sibs(1)] sibs(2)
  obtain branch where "activeBranchMessages (Some ''c'') (handleNextSibling ''c'' (sibs, 1) ?s) = Some branch"
      "sibs ! 1 \<in> set branch" "first_answer \<notin> set branch" by auto
  with sibs(1,3) show ?thesis by (metis image_eqI)
qed

end
