(* ===== verification/Spec2Isabelle.thy ===== *)
theory Spec2Isabelle
  imports File_Utils Candid_Adapter Tool_Calls_Props Title_Generation File_Store_Props Upload_Jobs Session_Props Request_Mappers User_Api_Props Governance_Props Embedding_Props App_Props Vault_Gate_Props File_Processor Upload_Modal_Props Files_Page Governance_Forms_Props Node_Import Branch_View_Props Sidebar Chat_Input Auto_Scroll Message_Item
begin

text \<open>
  A verification development for the frontend of onecompany/gpt (TypeScript, \<open>src/gpt_frontend/src\<close>, to which the
  paths below are relative).

  \<^bold>\<open>The program.\<close> A user signs in with Internet Identity and owns a canister that keeps chats, messages and files, all
  texts encrypted. A root key is derived from a PIN; each chat has a key derived from the root key and a salt. A message
  is encrypted for its chat, the chat's key is wrapped for a compute node, the canister creates a job, and the node
  streams the answer over a web socket into the chat store. Answers may ask for tools (a web search, a search in the
  user's files), whose results continue the conversation. Stores (session, chats, files, models, governance) hold the
  state; their actions call the canisters through API classes that translate values into Candid.

  \<^bold>\<open>Conventions.\<close> A store is a record and an action a function from the state to the new state, with what it returns
  and the effects it has on the outside (a socket, a timer, a following action) as values. What a canister, a library,
  the clock, a random generator or the user answers is an argument. A JavaScript exception is \<open>Inl\<close> of a sum. Where the
  program can be interrupted, at an \<open>await\<close>, what the rest of the program does meanwhile is a function argument, or the
  action is split and a step relation runs its parts in every order (sockets, searches, sessions). Texts are Latin-1
  (a \<open>char\<close> is one UTF-16 unit below 256), \<open>Map\<close>s are association lists in insertion order, numbers that are not
  integers are rationals (where the rounding of doubles matters, it is an argument), bytes and float patterns are words of
  8 and 32 bits. Where an action keeps an object that the store may replace meanwhile (the client that signs out), the
  object is named by a number that its event carries.

  \<^bold>\<open>Theories.\<close>
  \<^item> Foundations: \<open>Prelude\<close> (maps, arrays, exceptions; locales \<open>invariant_system\<close> and \<open>codec\<close>), \<open>Traces\<close> (runs of a step relation;
    locales \<open>traced_invariant\<close> and \<open>determined\<close>), \<open>Js_Strings\<close> (string methods, numerals), \<open>Promises\<close> (the states of a
    promise as an order, and its contract, locale \<open>one_outcome\<close>), \<open>Domain\<close> (\<open>types/\<close>).
  \<^item> Values: \<open>Candid_Utils\<close>, \<open>Candid_Adapter\<close> (\<open>utils/candidUtils.ts\<close>, \<open>candidAdapter.ts\<close>), \<open>Backend_Mappers\<close>
    (\<open>utils/mappers.ts\<close>, \<open>model-enhancement.ts\<close>), \<open>Canister_Types\<close> (the argument types declared in
    \<open>candid/declarations\<close>), \<open>Request_Mappers\<close> (\<open>utils/requestMappers.ts\<close> and the requests of \<open>services/api/userApi.ts\<close>),
    \<open>Result_Utils\<close> (\<open>utils/resultUtils.ts\<close>), \<open>File_Utils\<close> (\<open>utils/fileUtils.ts\<close>).
  \<^item> Canisters: \<open>User_Api\<close>, \<open>User_Api_Props\<close> and \<open>Index_Api\<close> (\<open>services/api\<close>): each method takes the actor's answer to
    the payload it sends as an argument.
  \<^item> Cryptography: \<open>Base64\<close>, \<open>Crypto\<close> (\<open>utils/crypto\<close>); the laws of the libraries are named hypotheses.
  \<^item> Session: \<open>Auth_State\<close> (\<open>store/authStore/state.ts\<close>), \<open>Session\<close> and \<open>Session_Props\<close> (\<open>store/authStore/actions\<close>): a
    step relation of calls and arrivals, each waiting action a value of the state.
  \<^item> Conversations: \<open>Message_Tree\<close> (\<open>utils/messageTree.ts\<close>), \<open>Message_Merge\<close> and \<open>Message_Data\<close>
    (\<open>store/chatStore/actions/messageData\<close>), \<open>Chat_State\<close> (\<open>store/chatStore\<close>: state, setters, \<open>actions/chat\<close>),
    \<open>Web_Socket\<close> and \<open>Web_Socket_Runs\<close> (\<open>actions/webSocket\<close>), \<open>Nodes\<close> (\<open>actions/node\<close>), \<open>Send_Message\<close> and
    \<open>Send_Message_Props\<close> (\<open>actions/message\<close>: creating, adding, editing, retrying), \<open>Temp_Chats\<close> and
    \<open>Temp_Chats_Props\<close> (\<open>actions/ocr.ts\<close>), \<open>Title_Generation\<close> (\<open>actions/titleGeneration.ts\<close>), \<open>Search_Stream\<close>,
    \<open>Tool_Calls\<close>, \<open>Tool_Calls_Props\<close> (\<open>actions/message/tool.ts\<close>, \<open>actions/queue.ts\<close>).
  \<^item> Models and governance: \<open>Models_Store\<close> (\<open>store/modelsStore.ts\<close>, the node counts of \<open>app/providers.tsx\<close>),
    \<open>Governance_Store\<close> and \<open>Governance_Props\<close> (\<open>store/governanceStore.ts\<close>): the actions and what each waits for;
    \<open>Embedding_Service\<close> and \<open>Embedding_Props\<close> (\<open>services/embeddingService.ts\<close>).
  \<^item> The application: \<open>App_Effects\<close> and \<open>App_Props\<close> (\<open>app/providers.tsx\<close>, \<open>hooks/useChatReadiness.ts\<close>,
    \<open>useChatUrlSync.ts\<close>, \<open>useWebSocketReconnection.ts\<close>): each effect a function of what a rendering shows it;
    \<open>Prompts\<close> (\<open>utils/promptUtils.ts\<close>, \<open>messageUtils.ts\<close>).
  \<^item> Files: \<open>File_Store\<close> and \<open>File_Store_Props\<close> (\<open>store/fileStore\<close>), \<open>Chunking\<close> and \<open>Upload_Jobs\<close>
    (\<open>services/fileProcessingService.ts\<close>, the upload queue), \<open>Text_Search\<close> (\<open>store/embeddingStore.ts\<close>),
    \<open>File_Processor\<close> (\<open>utils/fileProcessor.ts\<close>: selected files become attachments).
  \<^item> Forms and pages (\<open>components\<close>): \<open>Vault_Gate\<close>, \<open>Vault_Gate_Props\<close> (\<open>auth/VaultGate.tsx\<close>, the entry of the PIN),
    \<open>Upload_Modal\<close>, \<open>Upload_Modal_Props\<close> (\<open>files/modals/UploadModal.tsx\<close>), \<open>Files_Page\<close>
    (\<open>files/FilesPageComponent.tsx\<close>), \<open>Governance_Forms\<close>, \<open>Governance_Forms_Props\<close>
    (\<open>settings/tabs/GovernanceTab\<close>), \<open>Node_Import\<close> (\<open>settings/tabs/NodeTab\<close>), \<open>Branch_View\<close>,
    \<open>Branch_View_Props\<close> (\<open>chat/ChatPage.tsx\<close>, the branch of a chat that is shown), \<open>Chat_Input\<close>
    (\<open>chat/ChatInput.tsx\<close>, \<open>NewChatPage.tsx\<close>, \<open>layouts/AuthenticatedHomePage.tsx\<close>, \<open>hooks/useVoiceInput.ts\<close>),
    \<open>Auto_Scroll\<close> (\<open>hooks/useAutoScroll.ts\<close>), \<open>Sidebar\<close> (\<open>sidebar/SidebarContent.tsx\<close>),
    \<open>Message_Item\<close> (\<open>messages/MessageItem.tsx\<close>, \<open>MessageContent.tsx\<close>, \<open>MessageToolbar.tsx\<close>): the state of a component is a record,
    its handlers are functions, and where calls and timers are under way a step relation runs them in every order.

  \<^bold>\<open>What the lemmas show.\<close> Confidentiality end to end: what is sent decrypts under the chat's key, that key is
  recovered by the chosen node, the vault opens again with its PIN, a session's key has always been checked. The
  conversation tree: each way of sending puts the new messages where they belong and touches no other chat. Streams:
  packets, errors and closing in every order leave the flags, the job and the message consistent, but for an error that \<open>normalizeErrorStatus\<close> throws on, whose
  packet is lost. Refreshing: which text of a message wins. Stores: invariants by
  induction over events. Searches: the ranking of the text search refines its specification, the chunks partition a
  text. Requests: what stands for a Candid value by the adapter's conversions (\<open>stands_for\<close>) is sent as
  that value, the requests have the types the canisters declare and carry what the actions gave, and an answer becomes a value or the frontend's own error.
  Governance: in every interleaving the actions settle once and no indicator stays on. Forms: what they
  hand over has been checked, in every order of typing, pressing and late timers. Pages: what is shown is exactly what
  the stores hold, in which order, and how the view follows it. Where the code does not do what it
  means to, a theorem states what it does instead; the manifest lists these findings.

  \<^bold>\<open>Termination and bounds.\<close> Loops are structural recursions or have a measure (the tree walks by the messages not yet
  visited, chunking by the rest of the text, renaming by the names still free, batches by the rest of the list). Walking
  up the folders may not end: \<open>path_to_root\<close> gives \<open>None\<close> then, and the theorem about it assumes no cycle; so do the walks from a message up to the root of its
  chat (\<open>root_loop\<close>, \<open>chain_loop\<close>). Polling has the
  bound of the code. Registering a user and asking again is repeated as often as the canister answers so; the runs of the
  session contain any number of rounds. The batches of embeddings do not end with a concurrency of zero, which gives
  \<open>None\<close>; with a positive one they do. No fuel is used elsewhere.

  \<^bold>\<open>Not modelled.\<close> Rendering (layout and styles of all React components, and the components that only show what
  they are given), PDF and image conversion, which are browser and canvas code; the generated TypeScript
  bindings, which only repeat the canisters' types; the Rust canisters, node and host, whose answers are arguments; the
  display of dates, which follows the browser's locale.
\<close>

end
